(* ===== verification/Prelude.thy ===== *)
theory Prelude
  imports Main
begin

text \<open>
  Shared vocabulary of the development: the exceptions of the modelled code, the
  state-and-exception computations in which its effectful functions are written, the rules
  that carry invariants through them, and the Python string operations the components use.

  A computation of type \<open>('s, 'a) py\<close> runs in a state \<open>'s\<close>. It ends either by an exception
  (\<open>Inl\<close>) or by a value (\<open>Inr\<close>), and in both cases keeps the changes it made to the state:
  a Python exception does not undo the side effects that precede it.
\<close>

named_theorems py_simps "one-step evaluation of computations"
named_theorems keeps_intros "preservation of a state predicate, one rule per construct"

section \<open>Exceptions\<close>

text \<open>
  One constructor per exception class raised or caught by the modelled code. The string is
  the text the exception was raised with; a \<open>CalledProcessError\<close> has the exit status, its text
  and the output of the process, an \<open>LxmlError\<close> the name of its class and its text. \<open>SystemExit\<close> is the only class here that does not
  derive from \<open>Exception\<close>.
\<close>

datatype py_exn =
    ValueError string
  | KeyError string
  | IndexError string
  | TypeError string
  | AttributeError string
  | OSError int string
  | CalledProcessError int string string
  | DoesNotExist string
  | MultipleObjectsReturned string
  | ValidationError string
  | IntegrityError string
  | PyException string
  | UpdateFileLocationFailed int
  | FindFileInNormalizatonCSVError int
  | NoHashCommandAvailable
  | PREMISFailure string
  | BindPIDException string
  | BufferTooLongError string
  | ClamdConnectionError string
  | LxmlError string string
  | RuntimeError string
  | RightsRowException string
  | DirsUUIDsException
  | DirsUUIDsWarning
  | UnboundLocalError string
  | SystemExit int

definition is_Exception :: "py_exn \<Rightarrow> bool" where
  "is_Exception e = (case e of SystemExit _ \<Rightarrow> False | _ \<Rightarrow> True)"

text \<open>\<open>str(e)\<close>: the message; for a \<open>KeyError\<close> the quoted key.\<close>

fun exn_str :: "py_exn \<Rightarrow> string" where
  "exn_str (ValueError m) = m"
| "exn_str (KeyError k) = [CHR 0x27] @ k @ [CHR 0x27]"
| "exn_str (IndexError m) = m"
| "exn_str (TypeError m) = m"
| "exn_str (AttributeError m) = m"
| "exn_str (OSError _ m) = m"
| "exn_str (CalledProcessError _ m _) = m"
| "exn_str (DoesNotExist m) = m"
| "exn_str (MultipleObjectsReturned m) = m"
| "exn_str (ValidationError m) = m"
| "exn_str (IntegrityError m) = m"
| "exn_str (PyException m) = m"
| "exn_str (UpdateFileLocationFailed _) = []"
| "exn_str (FindFileInNormalizatonCSVError _) = []"
| "exn_str NoHashCommandAvailable = []"
| "exn_str (PREMISFailure m) = m"
| "exn_str (BindPIDException m) = m"
| "exn_str (BufferTooLongError m) = m"
| "exn_str (ClamdConnectionError m) = m"
| "exn_str (LxmlError _ m) = m"
| "exn_str (RuntimeError m) = m"
| "exn_str (RightsRowException m) = m"
| "exn_str DirsUUIDsException = []"
| "exn_str DirsUUIDsWarning = []"
| "exn_str (UnboundLocalError m) = m"
| "exn_str (SystemExit _) = []"

section \<open>Computations with state and exceptions\<close>

type_synonym ('s, 'a) py = "'s \<Rightarrow> (py_exn + 'a) \<times> 's"

definition py_ret :: "'a \<Rightarrow> ('s, 'a) py" where
  "py_ret x = (\<lambda>s. (Inr x, s))"

definition py_raise :: "py_exn \<Rightarrow> ('s, 'a) py" where
  "py_raise e = (\<lambda>s. (Inl e, s))"

definition py_bind :: "('s, 'a) py \<Rightarrow> ('a \<Rightarrow> ('s, 'b) py) \<Rightarrow> ('s, 'b) py" where
  "py_bind m f = (\<lambda>s. case m s of (Inl e, s') \<Rightarrow> (Inl e, s') | (Inr x, s') \<Rightarrow> f x s')"

definition py_seq :: "('s, 'a) py \<Rightarrow> ('s, 'b) py \<Rightarrow> ('s, 'b) py" where
  "py_seq m k = py_bind m (\<lambda>_. k)"

definition py_get :: "('s \<Rightarrow> 'a) \<Rightarrow> ('s, 'a) py" where
  "py_get f = (\<lambda>s. (Inr (f s), s))"

definition py_mod :: "('s \<Rightarrow> 's) \<Rightarrow> ('s, unit) py" where
  "py_mod f = (\<lambda>s. (Inr (), f s))"

definition py_lift :: "py_exn + 'a \<Rightarrow> ('s, 'a) py" where
  "py_lift r = (\<lambda>s. (r, s))"

text \<open>\<open>try: m except ...: h\<close>; the handler says which exceptions it takes.\<close>

definition py_try :: "('s, 'a) py \<Rightarrow> (py_exn \<Rightarrow> ('s, 'a) py option) \<Rightarrow> ('s, 'a) py" where
  "py_try m h = (\<lambda>s. case m s of
      (Inr x, s') \<Rightarrow> (Inr x, s')
    | (Inl e, s') \<Rightarrow> (case h e of None \<Rightarrow> (Inl e, s') | Some k \<Rightarrow> k s'))"

text \<open>\<open>try: m finally: k\<close>; an exception of the \<open>finally\<close> block replaces the outcome of \<open>m\<close>.\<close>

definition py_finally :: "('s, 'a) py \<Rightarrow> ('s, unit) py \<Rightarrow> ('s, 'a) py" where
  "py_finally m k = (\<lambda>s. case m s of (r, s') \<Rightarrow>
      (case k s' of (Inl e, s'') \<Rightarrow> (Inl e, s'') | (Inr _, s'') \<Rightarrow> (r, s'')))"

definition py_when :: "bool \<Rightarrow> ('s, unit) py \<Rightarrow> ('s, unit) py" where
  "py_when b m = (if b then m else py_ret ())"

fun py_for :: "'a list \<Rightarrow> ('a \<Rightarrow> ('s, unit) py) \<Rightarrow> ('s, unit) py" where
  "py_for [] f = py_ret ()"
| "py_for (x # xs) f = py_seq (f x) (py_for xs f)"

fun py_map :: "('a \<Rightarrow> ('s, 'b) py) \<Rightarrow> 'a list \<Rightarrow> ('s, 'b list) py" where
  "py_map f [] = py_ret []"
| "py_map f (x # xs) = py_bind (f x) (\<lambda>y. py_bind (py_map f xs) (\<lambda>ys. py_ret (y # ys)))"

lemma py_ret_apply [py_simps]: "py_ret x s = (Inr x, s)"
  by (simp add: py_ret_def)

lemma py_raise_apply [py_simps]: "py_raise e s = (Inl e, s)"
  by (simp add: py_raise_def)

lemma py_get_apply [py_simps]: "py_get f s = (Inr (f s), s)"
  by (simp add: py_get_def)

lemma py_mod_apply [py_simps]: "py_mod f s = (Inr (), f s)"
  by (simp add: py_mod_def)

lemma py_lift_apply [py_simps]: "py_lift r s = (r, s)"
  by (simp add: py_lift_def)

lemma py_bind_apply [py_simps]:
  "py_bind m f s = (case m s of (Inl e, s') \<Rightarrow> (Inl e, s') | (Inr x, s') \<Rightarrow> f x s')"
  by (simp add: py_bind_def)

lemma py_seq_apply [py_simps]:
  "py_seq m k s = (case m s of (Inl e, s') \<Rightarrow> (Inl e, s') | (Inr x, s') \<Rightarrow> k s')"
  by (simp add: py_seq_def py_bind_def)

lemma py_try_apply [py_simps]:
  "py_try m h s = (case m s of
      (Inr x, s') \<Rightarrow> (Inr x, s')
    | (Inl e, s') \<Rightarrow> (case h e of None \<Rightarrow> (Inl e, s') | Some k \<Rightarrow> k s'))"
  by (simp add: py_try_def)

lemma py_finally_apply [py_simps]:
  "py_finally m k s = (case m s of (r, s') \<Rightarrow>
      (case k s' of (Inl e, s'') \<Rightarrow> (Inl e, s'') | (Inr _, s'') \<Rightarrow> (r, s'')))"
  by (simp add: py_finally_def)

lemma py_when_apply [py_simps]: "py_when b m s = (if b then m s else (Inr (), s))"
  by (simp add: py_when_def py_ret_def)

text \<open>A loop over a list that is split runs the first part, then, if that returned, the rest.\<close>

lemma py_for_append: "py_for (xs @ ys) f = py_seq (py_for xs f) (py_for ys f)"
  by (induction xs) (auto simp: fun_eq_iff py_simps split: prod.splits sum.splits)

section \<open>Preservation\<close>

text \<open>
  \<open>keeps P m\<close>: from a state with \<open>P\<close>, the computation ends in a state with \<open>P\<close>, whether it
  returns or raises.
\<close>

definition keeps :: "('s \<Rightarrow> bool) \<Rightarrow> ('s, 'a) py \<Rightarrow> bool" where
  "keeps P m = (\<forall>s. P s \<longrightarrow> P (snd (m s)))"

lemma keepsI: "(\<And>s. P s \<Longrightarrow> P (snd (m s))) \<Longrightarrow> keeps P m"
  by (simp add: keeps_def)

lemma keepsD: "keeps P m \<Longrightarrow> P s \<Longrightarrow> P (snd (m s))"
  by (simp add: keeps_def)

lemma keeps_ret [keeps_intros]: "keeps P (py_ret x)"
  by (simp add: keeps_def py_simps)

lemma keeps_raise [keeps_intros]: "keeps P (py_raise e)"
  by (simp add: keeps_def py_simps)

lemma keeps_get [keeps_intros]: "keeps P (py_get f)"
  by (simp add: keeps_def py_simps)

lemma keeps_lift [keeps_intros]: "keeps P (py_lift r)"
  by (simp add: keeps_def py_simps)

lemma keeps_mod [keeps_intros]: "(\<And>s. P s \<Longrightarrow> P (f s)) \<Longrightarrow> keeps P (py_mod f)"
  by (simp add: keeps_def py_simps)

lemma keeps_bind:
  assumes "keeps P m" and "\<And>x. keeps P (f x)"
  shows "keeps P (py_bind m f)"
proof (rule keepsI)
  fix s assume "P s"
  then have "P (snd (m s))" using assms(1) by (rule keepsD [rotated])
  then show "P (snd (py_bind m f s))"
    using assms(2) by (auto simp: py_simps keeps_def split: prod.splits sum.splits)
qed

lemma keeps_seq [keeps_intros]: "keeps P m \<Longrightarrow> keeps P k \<Longrightarrow> keeps P (py_seq m k)"
  by (simp add: py_seq_def keeps_bind)

lemma keeps_when [keeps_intros]: "keeps P m \<Longrightarrow> keeps P (py_when b m)"
  by (simp add: py_when_def keeps_ret)

lemma keeps_if [keeps_intros]:
  "keeps P m \<Longrightarrow> keeps P k \<Longrightarrow> keeps P (if b then m else k)"
  by simp

lemma keeps_for [keeps_intros]: "(\<And>x. keeps P (f x)) \<Longrightarrow> keeps P (py_for xs f)"
  by (induction xs) (simp_all add: keeps_ret keeps_seq)

lemma keeps_try:
  assumes "keeps P m" and "\<And>e k. h e = Some k \<Longrightarrow> keeps P k"
  shows "keeps P (py_try m h)"
proof (rule keepsI)
  fix s assume "P s"
  then have "P (snd (m s))" using assms(1) by (rule keepsD [rotated])
  then show "P (snd (py_try m h s))"
    using assms(2) by (fastforce simp: py_simps keeps_def split: prod.splits sum.splits option.splits)
qed

lemma keeps_finally [keeps_intros]:
  assumes "keeps P m" and "keeps P k"
  shows "keeps P (py_finally m k)"
proof (rule keepsI)
  fix s assume "P s"
  then have "P (snd (k (snd (m s))))" using assms by (simp add: keeps_def)
  then show "P (snd (py_finally m k s))"
    by (auto simp: py_simps split: prod.splits sum.splits)
qed

text \<open>A write that a check of the current state can refuse.\<close>

lemma keeps_checked [keeps_intros]:
  assumes "\<And>s rows. P s \<Longrightarrow> check s = Inr rows \<Longrightarrow> P (g rows s)"
  shows "keeps P (py_bind (py_get check) (\<lambda>r. py_bind (py_lift r) (\<lambda>rows. py_mod (g rows))))"
  using assms by (auto simp: keeps_def py_simps split: sum.splits)

lemma keeps_checked_ret [keeps_intros]:
  assumes "\<And>s rows. P s \<Longrightarrow> check s = Inr rows \<Longrightarrow> P (g rows s)"
  shows "keeps P (py_bind (py_get check) (\<lambda>r. py_bind (py_lift r) (\<lambda>rows.
    py_seq (py_mod (g rows)) (py_ret x))))"
  using assms by (auto simp: keeps_def py_simps split: sum.splits)

lemma keeps_case_option [keeps_intros]:
  "(x = None \<Longrightarrow> keeps P m) \<Longrightarrow> (\<And>y. x = Some y \<Longrightarrow> keeps P (k y)) \<Longrightarrow>
     keeps P (case x of None \<Rightarrow> m | Some y \<Rightarrow> k y)"
  by (cases x) auto

lemma keeps_case_prod [keeps_intros]:
  "(\<And>a b. x = (a, b) \<Longrightarrow> keeps P (k a b)) \<Longrightarrow> keeps P (case x of (a, b) \<Rightarrow> k a b)"
  by (cases x) auto

lemma keeps_Let [keeps_intros]: "keeps P (k x) \<Longrightarrow> keeps P (let y = x in k y)"
  by simp

lemma keeps_map [keeps_intros]: "(\<And>x. keeps P (f x)) \<Longrightarrow> keeps P (py_map f xs)"
  by (induction xs) (simp_all add: keeps_ret keeps_bind)

text \<open>The handler of an \<open>except\<close> clause for some exceptions only.\<close>

lemma keeps_try_if [keeps_intros]:
  "keeps P m \<Longrightarrow> (\<And>e. keeps P (k e)) \<Longrightarrow>
     keeps P (py_try m (\<lambda>e. if c e then Some (k e) else None))"
  by (rule keeps_try) (auto split: if_splits)

section \<open>Sequencing\<close>

lemma py_bind_assoc: "py_bind (py_bind m f) g = py_bind m (\<lambda>x. py_bind (f x) g)"
  by (rule ext) (simp add: py_simps split: prod.splits sum.splits)

lemma py_bind_cong: "(\<And>x. f x = g x) \<Longrightarrow> py_bind m f = py_bind m g"
  by presburger

lemma bind_seq: "py_bind (py_seq m k) g = py_seq m (py_bind k g)"
  by (simp add: py_seq_def py_bind_assoc)

lemma bind_ret: "py_bind (py_ret x) g = g x"
  by (rule ext) (simp add: py_simps)

lemma bind_if: "py_bind (if b then m else k) g = (if b then py_bind m g else py_bind k g)"
  by simp

lemma bind_case_prod: "py_bind (case x of (a, b) \<Rightarrow> m a b) g = (case x of (a, b) \<Rightarrow> py_bind (m a b) g)"
  by (cases x) simp

section \<open>Normal results\<close>

text \<open>
  \<open>ensures P m Q\<close>: from a state with \<open>P\<close>, if the computation returns, result and state satisfy
  \<open>Q\<close>. Nothing is said about the case that it raises.
\<close>

definition ensures :: "('s \<Rightarrow> bool) \<Rightarrow> ('s, 'a) py \<Rightarrow> ('a \<Rightarrow> 's \<Rightarrow> bool) \<Rightarrow> bool" where
  "ensures P m Q = (\<forall>s x t. P s \<longrightarrow> m s = (Inr x, t) \<longrightarrow> Q x t)"

lemma ensuresD: "ensures P m Q \<Longrightarrow> P s \<Longrightarrow> m s = (Inr x, t) \<Longrightarrow> Q x t"
  by (simp add: ensures_def)

lemma ensures_keeps: "keeps P m \<Longrightarrow> ensures P m (\<lambda>_. P)"
  by (auto simp: ensures_def keeps_def)

lemma ensures_ret: "(\<And>s. P s \<Longrightarrow> Q x s) \<Longrightarrow> ensures P (py_ret x) Q"
  by (simp add: ensures_def py_simps)

lemma ensures_bind: "ensures P m R \<Longrightarrow> (\<And>y. ensures (R y) (f y) Q) \<Longrightarrow> ensures P (py_bind m f) Q"
  by (fastforce simp: ensures_def py_simps split: prod.splits sum.splits)

lemma ensures_seq: "ensures P m R \<Longrightarrow> (\<And>y. ensures (R y) k Q) \<Longrightarrow> ensures P (py_seq m k) Q"
  unfolding py_seq_def by (rule ensures_bind)

lemma ensures_if: "(b \<Longrightarrow> ensures P m Q) \<Longrightarrow> (\<not> b \<Longrightarrow> ensures P k Q) \<Longrightarrow> ensures P (if b then m else k) Q"
  by simp

lemma ensures_case_prod:
  "(\<And>a b. x = (a, b) \<Longrightarrow> ensures P (f a b) Q) \<Longrightarrow> ensures P (case x of (a, b) \<Rightarrow> f a b) Q"
  by (cases x) simp

lemma ensures_weaken: "ensures P m Q \<Longrightarrow> (\<And>s. P' s \<Longrightarrow> P s) \<Longrightarrow> (\<And>x s. Q x s \<Longrightarrow> Q' x s) \<Longrightarrow> ensures P' m Q'"
  unfolding ensures_def by blast

text \<open>A step that keeps the precondition.\<close>

lemma ensures_try:
  assumes "keeps P m" and "ensures P m Q" and "\<And>e k. h e = Some k \<Longrightarrow> ensures P k Q"
  shows "ensures P (py_try m h) Q"
  unfolding ensures_def
proof (intro allI impI)
  fix s x t assume s: "P s" and run: "py_try m h s = (Inr x, t)"
  show "Q x t"
  proof (cases "m s")
    case (Pair r u)
    have "P u" using keepsD [OF assms(1) s] Pair by simp
    with Pair run s assms(2,3) show ?thesis
      by (cases r) (auto simp: py_simps ensures_def split: option.splits)
  qed
qed

lemma ensures_case_option:
  "(x = None \<Longrightarrow> ensures P m Q) \<Longrightarrow> (\<And>y. x = Some y \<Longrightarrow> ensures P (f y) Q) \<Longrightarrow>
     ensures P (case x of None \<Rightarrow> m | Some y \<Rightarrow> f y) Q"
  by (cases x) auto

lemma ensures_Let: "ensures P (f x) Q \<Longrightarrow> ensures P (let y = x in f y) Q"
  by simp

lemma ensures_pure: "(F \<Longrightarrow> ensures P m Q) \<Longrightarrow> ensures (\<lambda>s. P s \<and> F) m Q"
  unfolding ensures_def by blast

text \<open>A loop: \<open>I\<close> describes the state after the work \<open>acc\<close>, to which \<open>x\<close> adds \<open>g x\<close>.\<close>

lemma ensures_for:
  assumes "\<And>x acc. ensures (I acc) (f x) (\<lambda>_. I (acc @ g x))"
  shows "ensures (I acc) (py_for xs f) (\<lambda>_. I (acc @ concat (map g xs)))"
proof (induction xs arbitrary: acc)
  case Nil
  show ?case by (simp add: ensures_ret)
next
  case (Cons x xs)
  show ?case using ensures_seq [OF assms Cons.IH, of acc x] by simp
qed

lemma ensures_ex: "(\<And>x. ensures (P x) m Q) \<Longrightarrow> ensures (\<lambda>s. \<exists>x. P x s) m Q"
  unfolding ensures_def by blast

lemma ensures_bind_keeps: "keeps P m \<Longrightarrow> (\<And>y. ensures P (f y) Q) \<Longrightarrow> ensures P (py_bind m f) Q"
  by (rule ensures_bind [OF ensures_keeps])

lemma ensures_seq_keeps: "keeps P m \<Longrightarrow> ensures P k Q \<Longrightarrow> ensures P (py_seq m k) Q"
  by (rule ensures_seq [OF ensures_keeps])

end
