(* ===== verification/Jobs.thy ===== *)
theory Jobs
  imports PyStr
begin

text \<open>
  The unit of work of the worker (\<open>client/job.py\<close>): the \<open>Job\<close> object, its status and output
  operations, the log handler that buffers messages for it, and \<open>JobContext\<close>, the context
  manager under which every client script runs the body of one job.

  Client scripts run in a state that extends \<open>jstate\<close>: the job at hand and, while a
  \<open>JobLogHandler\<close> is attached to the script's logger, the handler's buffer.
\<close>

type_synonym datetime = string

section \<open>The Job object\<close>

record job =
  j_name :: string
  j_uuid :: string
  j_args :: "string list"
  j_capture_output :: bool
  j_int_code :: int
  j_status_code :: string
  j_output :: string
  j_error :: string
  j_start_time :: "datetime option"
  j_end_time :: "datetime option"

definition Job_init :: "string \<Rightarrow> string \<Rightarrow> string list \<Rightarrow> bool \<Rightarrow> job" where
  "Job_init name uuid arguments capture_output =
     \<lparr>j_name = name, j_uuid = uuid, j_args = name # arguments,
      j_capture_output = capture_output, j_int_code = 0, j_status_code = [],
      j_output = [], j_error = [], j_start_time = None, j_end_time = None\<rparr>"

text \<open>A zero code leaves the stored exit code alone and only replaces the status text.\<close>

definition set_status :: "int \<Rightarrow> string \<Rightarrow> job \<Rightarrow> job" where
  "set_status int_code status_code j =
     (let j' = (if int_code \<noteq> 0 then j\<lparr>j_int_code := int_code\<rparr> else j)
      in j'\<lparr>j_status_code := status_code\<rparr>)"

definition write_output :: "string \<Rightarrow> job \<Rightarrow> job" where
  "write_output s j = j\<lparr>j_output := j_output j @ s\<rparr>"

definition write_error :: "string \<Rightarrow> job \<Rightarrow> job" where
  "write_error s j = j\<lparr>j_error := j_error j @ s\<rparr>"

definition print_output :: "string list \<Rightarrow> job \<Rightarrow> job" where
  "print_output args j = write_output (str_join '' '' args @ [CHR 0x0A]) j"

definition print_error :: "string list \<Rightarrow> job \<Rightarrow> job" where
  "print_error args j = write_error (str_join '' '' args @ [CHR 0x0A]) j"

datatype pyfile = Stdout | Stderr | OtherFile string

definition pyprint :: "pyfile \<Rightarrow> string \<Rightarrow> string \<Rightarrow> string list \<Rightarrow> job \<Rightarrow> py_exn + job" where
  "pyprint output_type sep endc objects j =
     (let msg = str_join sep objects @ endc
      in case output_type of
           Stdout \<Rightarrow> Inr (write_output msg j)
         | Stderr \<Rightarrow> Inr (write_error msg j)
         | OtherFile f \<Rightarrow> Inl (PyException (''Unrecognised print file: '' @ f)))"

section \<open>Log handler and job context\<close>

record jstate =
  cur_job :: job
  log_buffer :: "(nat \<times> string) list option"

definition INFO :: nat where "INFO = 20"
definition ERROR :: nat where "ERROR = 40"
definition CAPACITY :: nat where "CAPACITY = 100"

text \<open>\<open>JobLogHandler.flush\<close>: errors go to the job's error text, the rest to its output.\<close>

fun flush_records :: "(nat \<times> string) list \<Rightarrow> job \<Rightarrow> job" where
  "flush_records [] j = j"
| "flush_records ((levelno, message) # rs) j =
     flush_records rs (if ERROR \<le> levelno then write_error message j else write_output message j)"

text \<open>
  A message logged through the script's logger. The attached handler takes messages of level
  \<open>INFO\<close> and above into its buffer and writes the buffer out once it holds \<open>CAPACITY\<close> records
  (\<open>BufferingHandler.emit\<close>).
\<close>

definition log_msg :: "nat \<Rightarrow> string \<Rightarrow> ('s jstate_scheme, unit) py" where
  "log_msg levelno message = py_mod (\<lambda>s.
     case log_buffer s of
       None \<Rightarrow> s
     | Some buf \<Rightarrow>
         if levelno < INFO then s
         else if length (buf @ [(levelno, message)]) \<ge> CAPACITY
         then s\<lparr>cur_job := flush_records (buf @ [(levelno, message)]) (cur_job s),
                log_buffer := Some []\<rparr>
         else s\<lparr>log_buffer := Some (buf @ [(levelno, message)])\<rparr>)"

definition upd_job :: "(job \<Rightarrow> job) \<Rightarrow> ('s jstate_scheme, unit) py" where
  "upd_job f = py_mod (\<lambda>s. s\<lparr>cur_job := f (cur_job s)\<rparr>)"

definition job_pyprint :: "pyfile \<Rightarrow> string list \<Rightarrow> ('s jstate_scheme, unit) py" where
  "job_pyprint file objects =
     py_bind (py_get (\<lambda>s. pyprint file '' '' [CHR 0x0A] objects (cur_job s)))
       (\<lambda>r. py_bind (py_lift r) (\<lambda>j. upd_job (\<lambda>_. j)))"

text \<open>
  \<open>with job.JobContext(logger=...): body\<close>. The handler is attached before the body and
  removed after it; removing it drops the buffer without a flush. An \<open>Exception\<close> of the body
  is recorded on the job and swallowed; \<open>traceback\<close> is the text of \<open>traceback.format_exc()\<close>.
\<close>

definition JobContext ::
  "(py_exn \<Rightarrow> string) \<Rightarrow> bool \<Rightarrow> ('s jstate_scheme, unit) py \<Rightarrow> ('s jstate_scheme, unit) py" where
  "JobContext traceback logger body =
     py_seq (py_mod (\<lambda>s. if logger then s\<lparr>log_buffer := Some []\<rparr> else s))
       (py_finally
         (py_try body
           (\<lambda>e. if is_Exception e
                 then Some (py_seq (upd_job (write_error (exn_str e)))
                           (py_seq (upd_job (write_error (traceback e)))
                                   (upd_job (set_status 1 ''error''))))
                 else None))
         (py_mod (\<lambda>s. if logger then s\<lparr>log_buffer := None\<rparr> else s)))"

section \<open>Behaviour of the job operations\<close>

lemma job_sel_simps [simp]:
  "j_int_code (write_output t j) = j_int_code j" "j_int_code (write_error t j) = j_int_code j"
  "j_status_code (write_output t j) = j_status_code j"
  "j_status_code (write_error t j) = j_status_code j"
  "j_output (write_output t j) = j_output j @ t" "j_output (write_error t j) = j_output j"
  "j_error (write_error t j) = j_error j @ t" "j_error (write_output t j) = j_error j"
  "j_uuid (write_output t j) = j_uuid j" "j_uuid (write_error t j) = j_uuid j"
  "j_args (write_output t j) = j_args j" "j_args (write_error t j) = j_args j"
  by (simp_all add: write_output_def write_error_def)

lemma set_status_sel [simp]:
  "j_int_code (set_status c t j) = (if c \<noteq> 0 then c else j_int_code j)"
  "j_status_code (set_status c t j) = t"
  "j_output (set_status c t j) = j_output j" "j_error (set_status c t j) = j_error j"
  "j_uuid (set_status c t j) = j_uuid j" "j_args (set_status c t j) = j_args j"
  "j_start_time (set_status c t j) = j_start_time j"
  "j_end_time (set_status c t j) = j_end_time j"
  "j_capture_output (set_status c t j) = j_capture_output j"
  by (auto simp: set_status_def Let_def)

lemma print_sel [simp]:
  "j_int_code (print_output a j) = j_int_code j" "j_int_code (print_error a j) = j_int_code j"
  "j_output (print_error a j) = j_output j" "j_error (print_output a j) = j_error j"
  "j_uuid (print_output a j) = j_uuid j" "j_uuid (print_error a j) = j_uuid j"
  "j_args (print_output a j) = j_args j" "j_args (print_error a j) = j_args j"
  by (simp_all add: print_output_def print_error_def)

lemma upd_job_apply [py_simps]: "upd_job f s = (Inr (), s\<lparr>cur_job := f (cur_job s)\<rparr>)"
  by (simp add: upd_job_def py_simps)

lemma job_pyprint_apply [py_simps]:
  "job_pyprint Stdout objs s =
     (Inr (), s\<lparr>cur_job := write_output (str_join '' '' objs @ [CHR 0x0A]) (cur_job s)\<rparr>)"
  "job_pyprint Stderr objs s =
     (Inr (), s\<lparr>cur_job := write_error (str_join '' '' objs @ [CHR 0x0A]) (cur_job s)\<rparr>)"
  by (simp_all add: job_pyprint_def py_simps pyprint_def Let_def)

lemma flush_records_error:
  "j_error (flush_records rs j) = j_error j @ concat (map snd (filter (\<lambda>r. ERROR \<le> fst r) rs))"
  by (induction rs arbitrary: j) auto

lemma flush_records_output:
  "j_output (flush_records rs j) = j_output j @ concat (map snd (filter (\<lambda>r. \<not> ERROR \<le> fst r) rs))"
  by (induction rs arbitrary: j) auto

lemma flush_records_code [simp]: "j_int_code (flush_records rs j) = j_int_code j"
  by (induction rs arbitrary: j) auto

lemma flush_records_id [simp]: "j_uuid (flush_records rs j) = j_uuid j" "j_args (flush_records rs j) = j_args j"
  by (induction rs arbitrary: j) auto

lemma log_msg_returns [py_simps]: "fst (log_msg l m s) = Inr ()"
  by (simp add: log_msg_def py_simps)

text \<open>The effect of logging as a function, known by what it leaves alone.\<close>

definition log_upd :: "nat \<Rightarrow> string \<Rightarrow> 's jstate_scheme \<Rightarrow> 's jstate_scheme" where
  "log_upd l m s = snd (log_msg l m s)"

lemma log_msg_apply: "log_msg l m s = (Inr (), log_upd l m s)"
  by (simp add: log_msg_def log_upd_def py_mod_apply)

lemma log_upd_job [simp]:
  "j_uuid (cur_job (log_upd l m s)) = j_uuid (cur_job s)" "j_args (cur_job (log_upd l m s)) = j_args (cur_job s)"
  "j_int_code (cur_job (log_upd l m s)) = j_int_code (cur_job s)" "jstate.more (log_upd l m s) = jstate.more s"
  by (simp_all add: log_upd_def log_msg_def py_mod_apply split: option.splits)

text \<open>The exit code after a list of updates is the last non-zero one, or the one before.\<close>

lemma set_status_fold_last:
  "j_int_code (fold (\<lambda>(c, t). set_status c t) us j) =
     last (j_int_code j # filter (\<lambda>c. c \<noteq> 0) (map fst us))"
proof (induction us arbitrary: j)
  case (Cons u us)
  obtain c t where u: "u = (c, t)" by (cases u)
  show ?case by (cases "c = 0") (simp_all add: u Cons.IH)
qed simp

section \<open>What the log handler keeps\<close>

lemma flush_records_append: "flush_records (xs @ ys) j = flush_records ys (flush_records xs j)"
  by (induction xs arbitrary: j) auto

abbreviation log_all :: "(nat \<times> string) list \<Rightarrow> ('s jstate_scheme, unit) py" where
  "log_all msgs \<equiv> py_for msgs (\<lambda>(l, m). log_msg l m)"

text \<open>
  With fewer than \<open>CAPACITY\<close> records in the buffer, logging flushes the longest part of
  buffer and messages whose length is a multiple of \<open>CAPACITY\<close> and buffers the rest.
\<close>

lemma log_all_result:
  assumes "log_buffer s = Some buf" and "length buf < CAPACITY"
    and "\<forall>r \<in> set msgs. INFO \<le> fst r"
  shows "log_all msgs s =
     (let recs = buf @ msgs; n = CAPACITY * (length recs div CAPACITY)
      in (Inr (), s\<lparr>cur_job := flush_records (take n recs) (cur_job s),
                   log_buffer := Some (drop n recs)\<rparr>))"
  using assms
proof (induction msgs arbitrary: s buf)
  case Nil
  then show ?case by (simp add: py_simps Let_def)
next
  case (Cons r msgs)
  obtain l m where r: "r = (l, m)" by (cases r)
  with Cons.prems have l: "\<not> l < INFO" by simp
  show ?case
  proof (cases "length buf + 1 \<ge> CAPACITY")
    case True
    with Cons.prems(2) have len: "length (buf @ [(l, m)]) = CAPACITY" by simp
    define s' where "s' = s\<lparr>cur_job := flush_records (buf @ [(l, m)]) (cur_job s),
                           log_buffer := Some []\<rparr>"
    have step: "log_msg l m s = (Inr (), s')"
      using Cons.prems(1) l True by (simp add: log_msg_def py_simps s'_def)
    have IH: "log_all msgs s' =
        (let n = CAPACITY * (length msgs div CAPACITY)
         in (Inr (), s'\<lparr>cur_job := flush_records (take n msgs) (cur_job s'),
                      log_buffer := Some (drop n msgs)\<rparr>))"
      using Cons.IH [of s' "[]"] Cons.prems(3) by (simp add: s'_def CAPACITY_def)
    have "CAPACITY * (length (buf @ r # msgs) div CAPACITY) =
        length (buf @ [(l, m)]) + CAPACITY * (length msgs div CAPACITY)"
      using len by (simp add: CAPACITY_def div_add_self1)
    moreover have "buf @ r # msgs = (buf @ [(l, m)]) @ msgs" by (simp add: r)
    ultimately show ?thesis
      using IH step by (simp add: r py_simps Let_def s'_def flush_records_append)
  next
    case False
    define s' where "s' = s\<lparr>log_buffer := Some (buf @ [(l, m)])\<rparr>"
    have "log_msg l m s = (Inr (), s')"
      using Cons.prems(1) l False by (simp add: log_msg_def py_simps s'_def)
    moreover have "log_all msgs s' =
        (let recs = (buf @ [(l, m)]) @ msgs; n = CAPACITY * (length recs div CAPACITY)
         in (Inr (), s'\<lparr>cur_job := flush_records (take n recs) (cur_job s'),
                      log_buffer := Some (drop n recs)\<rparr>))"
      using Cons.IH [of s' "buf @ [(l, m)]"] Cons.prems(3) False by (simp add: s'_def)
    ultimately show ?thesis by (simp add: r py_simps Let_def s'_def)
  qed
qed

section \<open>Properties\<close>

text \<open>C1. \<open>JobContext\<close> confines the failure of a job: whatever the body does, if it raises an
  \<open>Exception\<close> the context returns normally, the job's exit code is 1 and its status
  \<open>error\<close>, and the exception text and traceback are appended to its error output; if the
  body returns, its effects are kept and the log handler is gone; \<open>SystemExit\<close> passes through.\<close>

theorem JobContext_confines:
  "JobContext tb logger body s =
     (let (r, t) = body (if logger then s\<lparr>log_buffer := Some []\<rparr> else s);
          detach = (\<lambda>u. if logger then u\<lparr>log_buffer := None\<rparr> else u);
          failed = (\<lambda>e. t\<lparr>cur_job := (cur_job t)\<lparr>j_error := j_error (cur_job t) @ exn_str e @ tb e,
                               j_int_code := 1, j_status_code := ''error''\<rparr>\<rparr>)
      in case r of
           Inr _ \<Rightarrow> (Inr (), detach t)
         | Inl (SystemExit c) \<Rightarrow> (Inl (SystemExit c), detach t)
         | Inl e \<Rightarrow> (Inr (), detach (failed e)))"
proof (cases "body (if logger then s\<lparr>log_buffer := Some []\<rparr> else s)")
  case (Pair r t)
  show ?thesis
  proof (cases r)
    case (Inl e)
    with Pair show ?thesis
      by (cases e) (simp_all add: JobContext_def py_simps is_Exception_def set_status_def write_error_def Let_def)
  next
    case (Inr x)
    with Pair show ?thesis by (simp add: JobContext_def py_simps Let_def)
  qed
qed

text \<open>C8. The job receives logged messages only in full buffers: of the messages a body logs
  under \<open>JobContext\<close>, exactly the longest prefix whose length is a multiple of the capacity
  (100) reaches the job, errors to its error text and the rest to its output; the remaining
  messages are dropped when the handler is removed.\<close>

theorem JobContext_drops_unflushed_logs:
  assumes "\<forall>r \<in> set msgs. INFO \<le> fst r"
  shows "JobContext tb True (py_for msgs (\<lambda>(l, m). log_msg l m)) s =
     (Inr (), s\<lparr>cur_job := flush_records (take (100 * (length msgs div 100)) msgs) (cur_job s),
               log_buffer := None\<rparr>)"
  using log_all_result [of "s\<lparr>log_buffer := Some []\<rparr>" "[]" msgs] assms
  by (simp add: JobContext_def py_simps Let_def CAPACITY_def)

theorem JobContext_drops_unflushed_logs_witness:
  "JobContext (\<lambda>_. []) True (py_for [(20, ''lost'')] (\<lambda>(l, m). log_msg l m))
     \<lparr>cur_job = Job_init ''t'' ''u'' [] False, log_buffer = None\<rparr> =
   (Inr (), \<lparr>cur_job = Job_init ''t'' ''u'' [] False, log_buffer = None\<rparr>)"
  using JobContext_drops_unflushed_logs
    [of "[(20, ''lost'')]" "\<lambda>_. []" "\<lparr>cur_job = Job_init ''t'' ''u'' [] False, log_buffer = None\<rparr>"]
  by (simp add: INFO_def)

text \<open>Exit codes are sticky: after any sequence of status updates the exit code is the last
  non-zero code set, or the old one when all were zero; in particular a job that has failed
  cannot be reset by reporting success.\<close>

theorem set_status_sticky:
  "j_int_code (fold (\<lambda>(c, t). set_status c t) us j) =
     (case rev (filter (\<lambda>c. c \<noteq> 0) (map fst us)) of [] \<Rightarrow> j_int_code j | c # _ \<Rightarrow> c)"
proof (cases "filter (\<lambda>c. c \<noteq> 0) (map fst us)" rule: rev_cases)
  case Nil
  then show ?thesis by (simp add: set_status_fold_last)
next
  case (snoc ys y)
  then show ?thesis by (simp add: set_status_fold_last)
qed

end
