(* ===== verification/CommandLine.thy ===== *)
theory CommandLine
  imports Jobs
begin

text \<open>
  The argument strings of tasks: \<open>client/utils.py\<close> (placeholder substitution and the shell-like
  parser with its backtick fix) and \<open>escapeForCommand\<close> of \<open>utils/archivematicaFunctions.py\<close>,
  the escaping that the parser has to undo. The lexer is the POSIX mode of Python's
  \<open>shlex.split\<close>, state by state.
\<close>

abbreviation backslash :: char where "backslash \<equiv> CHR 0x5C"
abbreviation dquote :: char where "dquote \<equiv> CHR 0x22"
abbreviation squote :: char where "squote \<equiv> CHR 0x27"
abbreviation backtick :: char where "backtick \<equiv> CHR 0x60"

section \<open>Escaping\<close>

definition escapeForCommand :: "string \<Rightarrow> string" where
  "escapeForCommand s =
     (let ret = s;
          ret = str_replace ret [backslash] [backslash, backslash];
          ret = str_replace ret [dquote] [backslash, dquote];
          ret = str_replace ret [backtick] [backslash, backtick]
      in ret)"

section \<open>shlex.split\<close>

datatype lex_state = LSpace | LWord | LEscape | LQuote char | LQuoteEscape char

definition is_space :: "char \<Rightarrow> bool" where
  "is_space c = (c \<in> {CHR '' '', CHR 0x09, CHR 0x0D, CHR 0x0A})"

definition is_quote :: "char \<Rightarrow> bool" where
  "is_quote c = (c = dquote \<or> c = squote)"

text \<open>
  One recursive call per character read: the state, the token so far and whether the token
  has a quoted part. A token ends at white space or at the end of the input, and is kept when
  it is not empty or was quoted.
\<close>

fun shlex_split :: "lex_state \<Rightarrow> string \<Rightarrow> bool \<Rightarrow> string \<Rightarrow> py_exn + string list" where
  "shlex_split LSpace tok q [] = Inr []"
| "shlex_split LSpace tok q (c # cs) =
     (if is_space c then shlex_split LSpace [] False cs
      else if c = backslash then shlex_split LEscape [] False cs
      else if is_quote c then shlex_split (LQuote c) [] False cs
      else shlex_split LWord [c] False cs)"
| "shlex_split LWord tok q [] = Inr (if tok \<noteq> [] \<or> q then [tok] else [])"
| "shlex_split LWord tok q (c # cs) =
     (if is_space c then
        (if tok \<noteq> [] \<or> q then map_sum id (\<lambda>ts. tok # ts) (shlex_split LSpace [] False cs)
         else shlex_split LSpace [] False cs)
      else if is_quote c then shlex_split (LQuote c) tok q cs
      else if c = backslash then shlex_split LEscape tok q cs
      else shlex_split LWord (tok @ [c]) q cs)"
| "shlex_split LEscape tok q [] = Inl (ValueError ''No escaped character'')"
| "shlex_split LEscape tok q (c # cs) = shlex_split LWord (tok @ [c]) q cs"
| "shlex_split (LQuote d) tok q [] = Inl (ValueError ''No closing quotation'')"
| "shlex_split (LQuote d) tok q (c # cs) =
     (if c = d then shlex_split LWord tok True cs
      else if c = backslash \<and> d = dquote then shlex_split (LQuoteEscape d) tok True cs
      else shlex_split (LQuote d) (tok @ [c]) True cs)"
| "shlex_split (LQuoteEscape d) tok q [] = Inl (ValueError ''No escaped character'')"
| "shlex_split (LQuoteEscape d) tok q (c # cs) =
     shlex_split (LQuote d)
       (if c \<noteq> backslash \<and> c \<noteq> d then tok @ [backslash, c] else tok @ [c]) q cs"

section \<open>client/utils.py\<close>

definition shlex_unescape :: "string \<Rightarrow> string" where
  "shlex_unescape s =
     map fst (filter (\<lambda>(c1, c2). (c1, c2) \<noteq> (backslash, backtick)) (zip s (tl s @ ''.'')))"

definition parse_command_line :: "string \<Rightarrow> py_exn + string list" where
  "parse_command_line s = map_sum id (map shlex_unescape) (shlex_split LSpace [] False s)"

text \<open>
  The values of the placeholders: the shared directory of the settings, the assets directory,
  and the current time in ISO format are arguments, as are the task's own values.
\<close>

definition task_replacements ::
  "string \<Rightarrow> string \<Rightarrow> datetime \<Rightarrow> string \<Rightarrow> string \<Rightarrow> (string \<times> string) list" where
  "task_replacements shared_directory assets_dir now task_uuid task_created_date =
     [(''%sharedPath%'', shared_directory),
      (''%clientAssetsDirectory%'', assets_dir),
      (''%date%'', now),
      (''%taskUUID%'', task_uuid),
      (''%jobCreatedDate%'', task_created_date)]"

definition replace_task_arguments ::
  "string \<Rightarrow> string \<Rightarrow> datetime \<Rightarrow> string \<Rightarrow> string \<Rightarrow> string \<Rightarrow> string" where
  "replace_task_arguments shared_directory assets_dir now arguments task_uuid task_created_date =
     foldl (\<lambda>args (key, val). str_replace args key val) arguments
       (task_replacements shared_directory assets_dir now task_uuid task_created_date)"

section \<open>Parsing undoes escaping\<close>

definition esc_char :: "char \<Rightarrow> string" where
  "esc_char c = (if c = backslash \<or> c = dquote \<or> c = backtick then [backslash, c] else [c])"

lemma escapeForCommand_chars: "escapeForCommand s = concat (map esc_char s)"
  by (induction s) (auto simp: escapeForCommand_def Let_def str_replace_char esc_char_def)

text \<open>What the lexer leaves of an escaped string: only backticks keep their backslash.\<close>

definition lex_char :: "char \<Rightarrow> string" where
  "lex_char c = (if c = backtick then [backslash, c] else [c])"

lemma shlex_quoted:
  "shlex_split (LQuote dquote) tok True (escapeForCommand s @ dquote # rest) =
     shlex_split LWord (tok @ concat (map lex_char s)) True rest"
  by (induction s arbitrary: tok) (simp_all add: escapeForCommand_chars esc_char_def lex_char_def)

lemma shlex_quoted_first:
  "shlex_split (LQuote dquote) tok False (escapeForCommand s @ dquote # rest) =
     shlex_split LWord (tok @ concat (map lex_char s)) True rest"
  using shlex_quoted [of tok s rest]
  by (cases s) (auto simp: escapeForCommand_chars esc_char_def lex_char_def split: if_splits)

lemma shlex_unescape_Cons:
  "shlex_unescape (c # cs) =
     (if c = backslash \<and> hd (cs @ ''.'') = backtick then [] else [c]) @ shlex_unescape cs"
  by (cases cs) (auto simp: shlex_unescape_def)

lemma shlex_unescape_lexed: "shlex_unescape (concat (map lex_char s)) = s"
proof (induction s)
  case (Cons c cs)
  have "hd (concat (map lex_char cs) @ ''.'') \<noteq> backtick"
    by (cases cs) (auto simp: lex_char_def)
  with Cons.IH show ?case
    by (cases "c = backtick")
      (auto simp: shlex_unescape_Cons lex_char_def [of c] lex_char_def [of backtick])
qed (simp add: shlex_unescape_def)

definition quoted_argument :: "string \<Rightarrow> string" where
  "quoted_argument s = dquote # escapeForCommand s @ [dquote]"

lemma quoted_argument_append:
  "quoted_argument s @ rest = dquote # escapeForCommand s @ dquote # rest"
  by (simp add: quoted_argument_def)

lemma shlex_split_quoted_arguments:
  "shlex_split LSpace [] False (str_join '' '' (map quoted_argument xs)) =
     Inr (map (\<lambda>x. concat (map lex_char x)) xs)"
proof (induction xs rule: induct_list012)
  case (2 x)
  show ?case
    by (simp add: quoted_argument_def is_space_def is_quote_def shlex_quoted_first)
next
  case (3 x y zs)
  have step: "shlex_split LSpace [] False (quoted_argument x @ CHR '' '' # rest) =
      map_sum id (\<lambda>ts. concat (map lex_char x) # ts) (shlex_split LSpace [] False rest)" for rest
    by (simp add: quoted_argument_append is_space_def is_quote_def shlex_quoted_first)
  show ?case using 3 by (simp add: step)
qed simp

section \<open>Placeholder substitution\<close>

text \<open>
  A placeholder is \<open>%name%\<close>. A value that has no percent sign and has a character that
  occurs in no placeholder cannot complete one with the text around it.
\<close>

definition placeholder :: "string \<Rightarrow> bool" where
  "placeholder k \<longleftrightarrow> k \<noteq> [] \<and> hd k = CHR ''%'' \<and> last k = CHR ''%''"

lemma placeholder_split_value:
  assumes c: "c \<in> set new" "c \<notin> set k" and pc: "CHR ''%'' \<notin> set new"
    and k: "k \<noteq> []" "last k = CHR ''%''"
  shows "\<not> startswith (new @ t) k"
proof
  assume "startswith (new @ t) k"
  then obtain u where u: "new @ t = k @ u" by (auto simp: startswith_iff)
  show False
  proof (cases "length k \<le> length new")
    case True
    with u have "k = take (length k) new"
      by (metis append_eq_conv_conj take_append diff_is_0_eq take0 append_Nil2)
    then have "set k \<subseteq> set new" by (metis set_take_subset)
    with k pc show False by (metis last_in_set subsetD)
  next
    case False
    with u have "new = take (length new) k"
      by (metis append_eq_conv_conj take_append diff_is_0_eq take0 append_Nil2 nle_le)
    then have "set new \<subseteq> set k" by (metis set_take_subset)
    with c show False by blast
  qed
qed

lemma replace_prefix:
  assumes "c \<in> set new" and "CHR ''%'' \<notin> set new"
    and "startswith (replace_nonempty old new s) k"
    and "c \<notin> set k" and "k = [] \<or> last k = CHR ''%''"
  shows "startswith s k"
  using assms
proof (induction old new s arbitrary: k rule: replace_nonempty.induct)
  case (2 old new x xs)
  show ?case
  proof (cases k)
    case k: (Cons y ks)
    show ?thesis
    proof (cases "startswith (x # xs) old")
      case True
      with "2.prems" have "startswith (new @ replace_nonempty old new (drop (length old - 1) xs)) k"
        by simp
      moreover have "k \<noteq> []" and "last k = CHR ''%''" using "2.prems"(5) k by auto
      ultimately show ?thesis
        using placeholder_split_value [OF "2.prems"(1,4,2)] by blast
    next
      case False
      with 2 k have "x = y" and "startswith xs ks" by (auto split: if_splits)
      with k show ?thesis by simp
    qed
  qed simp
qed simp

lemma contains_appendD:
  assumes "str_contains k (u @ t)" and "k \<noteq> []" and "hd k \<notin> set u"
  shows "str_contains k t"
  using assms by (induction u) (auto simp: neq_Nil_conv)

lemma contains_drop: "str_contains k (drop n s) \<Longrightarrow> str_contains k s"
  unfolding str_contains_iff by (metis append.assoc append_take_drop_id)

lemma replace_contains:
  assumes "c \<in> set new" and "CHR ''%'' \<notin> set new"
    and "str_contains k (replace_nonempty old new s)"
    and "c \<notin> set k" and "placeholder k"
  shows "str_contains k s \<and> (k = old \<longrightarrow> False)"
  using assms
proof (induction old new s rule: replace_nonempty.induct)
  case (1 old new)
  then show ?case by (simp add: placeholder_def)
next
  case (2 old new x xs)
  have k: "k \<noteq> []" "hd k = CHR ''%''" "last k = CHR ''%''"
    using "2.prems"(5) by (simp_all add: placeholder_def)
  show ?case
  proof (cases "startswith (x # xs) old")
    case True
    with "2.prems" have "str_contains k (new @ replace_nonempty old new (drop (length old - 1) xs))"
      by simp
    then have "str_contains k (replace_nonempty old new (drop (length old - 1) xs))"
      by (rule contains_appendD) (use "2.prems"(2) k in simp_all)
    with "2.IH"(1) [OF True "2.prems"(1,2)] "2.prems" show ?thesis
      by (auto dest: contains_drop)
  next
    case False
    then have "replace_nonempty old new (x # xs) = x # replace_nonempty old new xs" by simp
    with "2.prems" consider "startswith (replace_nonempty old new (x # xs)) k"
      | "str_contains k (replace_nonempty old new xs)" by auto
    then show ?thesis
    proof cases
      case 1
      then have "startswith (x # xs) k"
        using replace_prefix [OF "2.prems"(1,2)] "2.prems"(4) k by blast
      with False show ?thesis by auto
    next
      case 2
      with "2.IH"(2) [OF False "2.prems"(1,2)] "2.prems" show ?thesis by auto
    qed
  qed
qed

lemmas replace_old_gone = replace_contains [THEN conjunct2, rule_format]
lemmas replace_other_kept = replace_contains [THEN conjunct1]

definition plain_value :: "string \<Rightarrow> bool" where
  "plain_value v \<longleftrightarrow> CHR ''%'' \<notin> set v \<and> (CHR ''/'' \<in> set v \<or> CHR ''-'' \<in> set v)"

lemma plain_replace_gone:
  assumes "plain_value v" and "placeholder k" and "CHR ''/'' \<notin> set k" and "CHR ''-'' \<notin> set k"
  shows "\<not> str_contains k (str_replace s k v)"
  using assms replace_old_gone [of _ v k k s]
  by (auto simp: plain_value_def str_replace_def placeholder_def)

lemma plain_replace_other:
  assumes "plain_value v" and "placeholder k" and "CHR ''/'' \<notin> set k" and "CHR ''-'' \<notin> set k"
    and "old \<noteq> []" and "\<not> str_contains k s"
  shows "\<not> str_contains k (str_replace s old v)"
  using assms replace_other_kept [of _ v k old s]
  by (auto simp: plain_value_def str_replace_def)

text \<open>
  Substituting a list of plain values for placeholders: no key of the list is left, and a
  placeholder that was absent stays absent.
\<close>

lemma foldl_replace_gone:
  assumes "\<And>k v. (k, v) \<in> set kvs \<Longrightarrow>
      plain_value v \<and> placeholder k \<and> CHR ''/'' \<notin> set k \<and> CHR ''-'' \<notin> set k"
    and "placeholder k" and "CHR ''/'' \<notin> set k" and "CHR ''-'' \<notin> set k"
    and "k \<in> fst ` set kvs \<or> \<not> str_contains k s"
  shows "\<not> str_contains k (foldl (\<lambda>args (key, val). str_replace args key val) s kvs)"
  using assms
proof (induction kvs arbitrary: s)
  case (Cons kv kvs)
  obtain k' v' where kv: "kv = (k', v')" by (cases kv)
  have v': "plain_value v'" "placeholder k'" "CHR ''/'' \<notin> set k'" "CHR ''-'' \<notin> set k'"
    using Cons.prems(1) [of k' v'] kv by simp_all
  have "k \<in> fst ` set kvs \<or> \<not> str_contains k (str_replace s k' v')"
  proof (cases "k \<in> fst ` set kvs")
    case False
    show ?thesis
    proof (cases "k = k'")
      case True
      with v' show ?thesis by (simp add: plain_replace_gone)
    next
      case neq: False
      with False Cons.prems(5) kv have "\<not> str_contains k s" by auto
      moreover have "k' \<noteq> []" using v'(2) by (simp add: placeholder_def)
      ultimately show ?thesis
        using plain_replace_other [OF v'(1)] Cons.prems(2-4) by blast
    qed
  qed simp
  moreover have "plain_value v \<and> placeholder k \<and> CHR ''/'' \<notin> set k \<and> CHR ''-'' \<notin> set k"
    if "(k, v) \<in> set kvs" for k v
    using Cons.prems(1) [of k v] that by simp
  ultimately show ?case
    using Cons.IH [of "str_replace s k' v'"] Cons.prems(2-4) kv by simp
qed simp

section \<open>Properties\<close>

text \<open>C2. Splitting an argument string into arguments undoes the quoting: if every argument is
  escaped with \<open>escapeForCommand\<close>, put between double quotes and the results joined by spaces,
  then \<open>parse_command_line\<close> returns exactly the original arguments, whatever characters they
  contain (quotes, backslashes, backticks, white space, nothing at all).\<close>

theorem parse_command_line_escaped:
  "parse_command_line (str_join '' '' (map quoted_argument xs)) = Inr xs"
  by (simp add: parse_command_line_def shlex_split_quoted_arguments shlex_unescape_lexed comp_def)

text \<open>After \<open>replace_task_arguments\<close>, none of the five placeholders is left in the argument
  string, provided the substituted values have no percent sign and have a slash or a dash, as
  absolute paths, ISO dates and UUIDs do. The keys are replaced one after another, so this also
  says that no value completes a placeholder with the text around it.\<close>

theorem replace_task_arguments_resolves:
  assumes "\<forall>v \<in> {shared_directory, assets_dir, now, task_uuid, created}. plain_value v"
    and "k \<in> {''%sharedPath%'', ''%clientAssetsDirectory%'', ''%date%'', ''%taskUUID%'',
              ''%jobCreatedDate%''}"
  shows "\<not> str_contains k
    (replace_task_arguments shared_directory assets_dir now arguments task_uuid created)"
  unfolding replace_task_arguments_def
proof (rule foldl_replace_gone)
  show "k \<in> fst ` set (task_replacements shared_directory assets_dir now task_uuid created) \<or>
        \<not> str_contains k arguments"
    using assms(2) by (auto simp: task_replacements_def)
qed (use assms in \<open>auto simp: task_replacements_def placeholder_def\<close>)

theorem replace_task_arguments_resolves_witness:
  "\<not> str_contains ''%date%'' (replace_task_arguments ''/var/shared/'' ''/assets/''
      ''2024-08-04'' ''a %date% b %taskUUID%'' ''8022802f-6097'' ''2024-08-03'')"
proof (rule replace_task_arguments_resolves)
  show "\<forall>v \<in> {''/var/shared/'', ''/assets/'', ''2024-08-04'', ''8022802f-6097'', ''2024-08-03''}.
      plain_value v"
    by (simp add: plain_value_def)
qed simp

end
