(* ===== verification/PyDict.thy ===== *)
theory PyDict
  imports PyStr
begin

text \<open>
  Python dictionaries as association lists in insertion order: assigning to a key that is
  present keeps its position. The locale \<open>dictionary\<close> states what the components rely on;
  \<open>py_dict\<close> interprets it on the association lists of the model.
\<close>

fun dict_set :: "('k \<times> 'v) list \<Rightarrow> 'k \<Rightarrow> 'v \<Rightarrow> ('k \<times> 'v) list" where
  "dict_set [] k v = [(k, v)]"
| "dict_set ((k', v') # kvs) k v =
     (if k' = k then (k, v) # kvs else (k', v') # dict_set kvs k v)"

definition dict_del :: "('k \<times> 'v) list \<Rightarrow> 'k \<Rightarrow> ('k \<times> 'v) list" where
  "dict_del kvs k = filter (\<lambda>kv. fst kv \<noteq> k) kvs"

definition dict_update :: "('k \<times> 'v) list \<Rightarrow> ('k \<times> 'v) list \<Rightarrow> ('k \<times> 'v) list" where
  "dict_update d kvs = foldl (\<lambda>d kv. dict_set d (fst kv) (snd kv)) d kvs"

section \<open>The contract of a dictionary\<close>

locale dictionary =
  fixes lookup :: "'d \<Rightarrow> 'k \<Rightarrow> 'v option"
    and assign :: "'d \<Rightarrow> 'k \<Rightarrow> 'v \<Rightarrow> 'd"
    and remove :: "'d \<Rightarrow> 'k \<Rightarrow> 'd"
    and items :: "'d \<Rightarrow> ('k \<times> 'v) list"
    and inv :: "'d \<Rightarrow> bool"
  assumes lookup_assign: "lookup (assign d k v) = (lookup d)(k \<mapsto> v)"
    and lookup_remove: "lookup (remove d k) = (lookup d)(k := None)"
    and lookup_items: "inv d \<Longrightarrow> lookup d = map_of (items d)"
    and items_distinct: "inv d \<Longrightarrow> distinct (map fst (items d))"
    and inv_assign: "inv d \<Longrightarrow> inv (assign d k v)"
    and inv_remove: "inv d \<Longrightarrow> inv (remove d k)"
begin

text \<open>After a series of assignments a key has the last value assigned to it.\<close>

lemma lookup_assigns:
  "lookup (foldl (\<lambda>d kv. assign d (fst kv) (snd kv)) d kvs) = lookup d ++ map_of (rev kvs)"
  by (induction kvs arbitrary: d) (auto simp: lookup_assign map_add_def fun_eq_iff split: option.splits)

lemma inv_assigns: "inv d \<Longrightarrow> inv (foldl (\<lambda>d kv. assign d (fst kv) (snd kv)) d kvs)"
  by (induction kvs arbitrary: d) (auto simp: inv_assign)

lemma items_iff: "inv d \<Longrightarrow> (k, v) \<in> set (items d) \<longleftrightarrow> lookup d k = Some v"
  using lookup_items items_distinct by (auto simp: map_of_eq_Some_iff)

lemma items_keys: "inv d \<Longrightarrow> fst ` set (items d) = dom (lookup d)"
  using lookup_items by (simp add: dom_map_of_conv_image_fst)

end

lemma map_of_dict_set: "map_of (dict_set d k v) = (map_of d)(k \<mapsto> v)"
  by (induction d) (auto simp: fun_eq_iff)

lemma dict_set_keys: "fst ` set (dict_set d k v) = insert k (fst ` set d)"
  by (simp flip: dom_map_of_conv_image_fst add: map_of_dict_set)

lemma dict_set_distinct: "distinct (map fst d) \<Longrightarrow> distinct (map fst (dict_set d k v))"
proof (induction d)
  case (Cons kv d)
  obtain k' v' where kv: "kv = (k', v')" by (cases kv)
  have "k' \<noteq> k \<Longrightarrow> k' \<notin> fst ` set (dict_set d k v)"
    using Cons.prems kv by (auto simp: dict_set_keys)
  with Cons kv show ?case by auto
qed simp

lemma dict_set_new: "k \<notin> fst ` set kvs \<Longrightarrow> dict_set kvs k v = kvs @ [(k, v)]"
  by (induction kvs) auto

lemma map_of_dict_del: "map_of (dict_del d k) = (map_of d)(k := None)"
  by (induction d) (auto simp: dict_del_def fun_eq_iff)

interpretation py_dict: dictionary map_of dict_set dict_del "\<lambda>d. d" "\<lambda>d. distinct (map fst d)"
proof unfold_locales
  fix d :: "('k \<times> 'v) list" and k
  assume "distinct (map fst d)"
  then show "distinct (map fst (dict_del d k))"
    by (simp add: dict_del_def distinct_map_filter)
qed (simp_all add: map_of_dict_set map_of_dict_del dict_set_distinct)

lemma map_of_dict_update: "map_of (dict_update d kvs) = map_of d ++ map_of (rev kvs)"
  unfolding dict_update_def by (rule py_dict.lookup_assigns)

lemma dict_update_distinct: "distinct (map fst d) \<Longrightarrow> distinct (map fst (dict_update d kvs))"
  unfolding dict_update_def by (rule py_dict.inv_assigns)

lemma dict_update_new:
  "distinct (map fst kvs) \<Longrightarrow> fst ` set kvs \<inter> fst ` set d = {} \<Longrightarrow> dict_update d kvs = d @ kvs"
proof (induction kvs arbitrary: d)
  case (Cons kv kvs)
  then have "dict_update (d @ [kv]) kvs = (d @ [kv]) @ kvs" by (intro Cons.IH) auto
  with Cons.prems show ?case by (simp add: dict_update_def dict_set_new)
qed (simp add: dict_update_def)

end
