(* ===== verification/Worker.thy ===== *)
theory Worker
  imports CommandLine PyDict
begin

text \<open>
  A worker process: \<open>client/worker.py\<close> (running one batch of jobs through a client script and
  recording the outcome), the bulk operations of \<open>client/job.py\<close> on the \<open>Tasks\<close> table, the
  counters of \<open>client/metrics.py\<close> that a batch touches, and the Gearman handler of
  \<open>client/gearman.py\<close>. The Gearman library, the client scripts themselves, the clock and the
  date parser are arguments of the definitions that call them.
\<close>

section \<open>State of a worker process\<close>

record task_row =
  t_taskuuid :: string
  t_starttime :: "datetime option"
  t_endtime :: "datetime option"
  t_stdout :: string
  t_stderror :: string
  t_exitcode :: "int option"

record wstate =
  w_tasks :: "task_row list"
  w_jobs :: "job list"
  w_clock :: nat
  w_job_counter :: "string \<Rightarrow> nat"
  w_job_error_counter :: "string \<Rightarrow> nat"
  w_processed :: nat

text \<open>The settings of the process and the readings of its clock.\<close>

record wconf =
  c_capture_output :: bool
  c_prometheus :: bool
  c_now :: "nat \<Rightarrow> datetime"
  c_shared_directory :: string
  c_assets_dir :: string
  c_iso_space :: "string \<Rightarrow> py_exn + string"

definition timezone_now :: "wconf \<Rightarrow> ('s wstate_scheme, datetime) py" where
  "timezone_now cf = (\<lambda>s. (Inr (c_now cf (w_clock s)), s\<lparr>w_clock := Suc (w_clock s)\<rparr>))"

text \<open>\<open>Task.objects.filter(taskuuid__in=uuids).update(...)\<close>.\<close>

definition update_tasks ::
  "string list \<Rightarrow> (task_row \<Rightarrow> task_row) \<Rightarrow> ('s wstate_scheme, unit) py" where
  "update_tasks uuids f = py_mod (\<lambda>s. s\<lparr>w_tasks :=
     map (\<lambda>t. if t_taskuuid t \<in> set uuids then f t else t) (w_tasks s)\<rparr>)"

section \<open>Bulk operations of job.py\<close>

definition bulk_set_start_times :: "wconf \<Rightarrow> ('s wstate_scheme, unit) py" where
  "bulk_set_start_times cf =
     py_bind (timezone_now cf) (\<lambda>start_time.
     py_bind (py_get (\<lambda>s. map j_uuid (w_jobs s))) (\<lambda>uuids.
     py_seq (update_tasks uuids (\<lambda>t. t\<lparr>t_starttime := Some start_time\<rparr>))
            (py_mod (\<lambda>s. s\<lparr>w_jobs := map (\<lambda>j. j\<lparr>j_start_time := Some start_time\<rparr>) (w_jobs s)\<rparr>))))"

definition bulk_mark_failed :: "wconf \<Rightarrow> string \<Rightarrow> ('s wstate_scheme, unit) py" where
  "bulk_mark_failed cf message =
     py_bind (py_get (\<lambda>s. map j_uuid (w_jobs s))) (\<lambda>uuids.
     py_bind (timezone_now cf) (\<lambda>now.
     py_seq (update_tasks uuids
               (\<lambda>t. t\<lparr>t_stderror := message, t_exitcode := Some 1, t_endtime := Some now\<rparr>))
            (py_mod (\<lambda>s. s\<lparr>w_jobs := map (set_status 1 message) (w_jobs s)\<rparr>))))"

text \<open>
  \<open>Job.update_task_status\<close>. The code first resets an exit code that is \<open>None\<close>; the field
  starts at 0 and \<open>set_status\<close> only stores integers, so it never is.
\<close>

definition update_task_status :: "wconf \<Rightarrow> job \<Rightarrow> ('s wstate_scheme, job) py" where
  "update_task_status cf j =
     py_bind (timezone_now cf) (\<lambda>now.
     (let j' = j\<lparr>j_end_time := Some now\<rparr> in
      py_seq (update_tasks [j_uuid j'] (\<lambda>t.
                (let t' = t\<lparr>t_exitcode := Some (j_int_code j'), t_endtime := Some now\<rparr>
                 in if c_capture_output cf
                    then t'\<lparr>t_stdout := j_output j', t_stderror := j_error j'\<rparr> else t')))
             (py_ret j')))"

section \<open>Metrics of a batch\<close>

definition job_completed :: "wconf \<Rightarrow> string \<Rightarrow> ('s wstate_scheme, unit) py" where
  "job_completed cf script_name = py_when (c_prometheus cf) (py_mod (\<lambda>s.
     s\<lparr>w_job_counter := (w_job_counter s)(script_name := w_job_counter s script_name + 1)\<rparr>))"

definition job_failed :: "wconf \<Rightarrow> string \<Rightarrow> ('s wstate_scheme, unit) py" where
  "job_failed cf script_name = py_when (c_prometheus cf) (py_mod (\<lambda>s.
     s\<lparr>w_job_counter := (w_job_counter s)(script_name := w_job_counter s script_name + 1),
       w_job_error_counter :=
         (w_job_error_counter s)(script_name := w_job_error_counter s script_name + 1)\<rparr>))"

section \<open>run\_task\<close>

text \<open>
  A client script module is the effect of its \<open>call\<close> on the state, with the batch in
  \<open>w_jobs\<close>; a module that could not be imported is \<open>None\<close>, and calling it is an attribute
  error like any other exception of the script.
\<close>

definition call_module ::
  "('s wstate_scheme, unit) py option \<Rightarrow> ('s wstate_scheme, unit) py" where
  "call_module job_module = (case job_module of
      Some call \<Rightarrow> call
    | None \<Rightarrow> py_raise (AttributeError ''object has no attribute call''))"

fun finish_jobs :: "wconf \<Rightarrow> string \<Rightarrow> job list \<Rightarrow> ('s wstate_scheme, job list) py" where
  "finish_jobs cf task_name [] = py_ret []"
| "finish_jobs cf task_name (j # js) =
     py_bind (update_task_status cf j) (\<lambda>j'.
     py_seq (if j_int_code j' = 0 then job_completed cf task_name else job_failed cf task_name)
            (py_bind (finish_jobs cf task_name js) (\<lambda>js'. py_ret (j' # js'))))"

definition run_task ::
  "wconf \<Rightarrow> string \<Rightarrow> ('s wstate_scheme, unit) py option \<Rightarrow> ('s wstate_scheme, unit) py" where
  "run_task cf task_name job_module =
     py_seq (bulk_set_start_times cf)
     (py_bind
       (py_try (py_seq (call_module job_module) (py_ret True))
         (\<lambda>e. if is_Exception e
               then Some (py_seq (bulk_mark_failed cf (exn_str e))
                         (py_bind (py_get w_jobs) (\<lambda>jobs.
                          py_seq (py_for jobs (\<lambda>_. job_failed cf task_name)) (py_raise e))))
               else None))
       (\<lambda>_. py_bind (py_get w_jobs) (\<lambda>jobs.
             py_bind (finish_jobs cf task_name jobs) (\<lambda>jobs'.
             py_mod (\<lambda>s. s\<lparr>w_jobs := jobs'\<rparr>)))))"

section \<open>The Gearman worker\<close>

record task_data =
  td_createdDate :: string
  td_arguments :: string
  td_wants_output :: "bool option"

record job_data =
  jd_exitCode :: int
  jd_finishedTimestamp :: "datetime option"
  jd_output :: "(string \<times> string) option"

definition job_result :: "job \<Rightarrow> job_data" where
  "job_result j = \<lparr>jd_exitCode = j_int_code j, jd_finishedTimestamp = j_end_time j,
     jd_output = (if j_capture_output j then Some (j_output j, j_error j) else None)\<rparr>"

text \<open>\<open>results[job.uuid] = ...\<close> on an insertion-ordered dictionary.\<close>

definition format_job_results :: "job list \<Rightarrow> (string \<times> job_data) list" where
  "format_job_results jobs = foldl (\<lambda>results j. dict_set results (j_uuid j) (job_result j)) [] jobs"

definition prepare_job ::
  "wconf \<Rightarrow> string \<Rightarrow> string \<times> task_data \<Rightarrow> ('s wstate_scheme, job) py" where
  "prepare_job cf task_name = (\<lambda>(task_uuid, task_data).
     py_bind (py_lift (c_iso_space cf (td_createdDate task_data))) (\<lambda>created_date.
     py_bind (timezone_now cf) (\<lambda>now.
     (let arguments = replace_task_arguments (c_shared_directory cf) (c_assets_dir cf) now
                        (td_arguments task_data) task_uuid created_date
      in py_bind (py_lift (parse_command_line arguments)) (\<lambda>arguments.
         py_ret (Job_init task_name task_uuid arguments
                   (case td_wants_output task_data of None \<Rightarrow> True | Some b \<Rightarrow> b)))))))"

definition prepare_jobs ::
  "wconf \<Rightarrow> string \<Rightarrow> (string \<times> task_data) list \<Rightarrow> ('s wstate_scheme, job list) py" where
  "prepare_jobs cf task_name tasks = py_map (prepare_job cf task_name) tasks"

definition handle_job ::
  "wconf \<Rightarrow> (string \<rightharpoonup> ('s wstate_scheme, unit) py option) \<Rightarrow> string \<Rightarrow>
   (string \<times> task_data) list \<Rightarrow> ('s wstate_scheme, (string \<times> job_data) list) py" where
  "handle_job cf job_modules task_name tasks =
     (case job_modules task_name of
        None \<Rightarrow> py_raise (KeyError task_name)
      | Some job_module \<Rightarrow>
          py_bind (prepare_jobs cf task_name tasks) (\<lambda>jobs.
          py_seq (py_mod (\<lambda>s. s\<lparr>w_jobs := jobs\<rparr>))
          (py_seq (run_task cf task_name job_module)
          (py_seq (py_mod (\<lambda>s. s\<lparr>w_processed := Suc (w_processed s)\<rparr>))
                  (py_get (\<lambda>s. format_job_results (w_jobs s)))))))"

definition after_poll :: "bool option \<Rightarrow> nat option \<Rightarrow> ('s wstate_scheme) \<Rightarrow> bool" where
  "after_poll shutdown_event max_jobs_to_process s =
     (if shutdown_event = Some True then False
      else case max_jobs_to_process of
             None \<Rightarrow> True
           | Some m \<Rightarrow> \<not> m \<le> w_processed s)"

section \<open>Lemmas\<close>

lemma timezone_now_apply [py_simps]:
  "timezone_now cf s = (Inr (c_now cf (w_clock s)), s\<lparr>w_clock := Suc (w_clock s)\<rparr>)"
  by (simp add: timezone_now_def)

lemma update_tasks_apply [py_simps]:
  "update_tasks uuids f s = (Inr (), s\<lparr>w_tasks :=
     map (\<lambda>t. if t_taskuuid t \<in> set uuids then f t else t) (w_tasks s)\<rparr>)"
  by (simp add: update_tasks_def py_simps)

lemma job_failed_apply:
  "job_failed cf n s = (Inr (), if c_prometheus cf
     then s\<lparr>w_job_counter := (w_job_counter s)(n := w_job_counter s n + 1),
            w_job_error_counter := (w_job_error_counter s)(n := w_job_error_counter s n + 1)\<rparr>
     else s)"
  by (simp add: job_failed_def py_simps)

lemma job_failed_for:
  "py_for xs (\<lambda>_. job_failed cf n) s =
     (Inr (), if c_prometheus cf
              then s\<lparr>w_job_counter := (w_job_counter s)(n := w_job_counter s n + length xs),
                     w_job_error_counter :=
                       (w_job_error_counter s)(n := w_job_error_counter s n + length xs)\<rparr>
              else s)"
proof (induction xs arbitrary: s)
  case (Cons x xs)
  show ?case
    by (cases "c_prometheus cf")
      (simp_all add: py_seq_apply job_failed_apply [of cf n s] Cons.IH)
qed (simp add: py_simps)

text \<open>A row records the outcome of a job.\<close>

definition row_done :: "wconf \<Rightarrow> job \<Rightarrow> task_row \<Rightarrow> bool" where
  "row_done cf j t \<longleftrightarrow> t_exitcode t = Some (j_int_code j) \<and> t_endtime t \<noteq> None \<and>
     (c_capture_output cf \<longrightarrow> t_stdout t = j_output j \<and> t_stderror t = j_error j)"

text \<open>The effect of \<open>finish_jobs\<close> on the table: a map over the rows that leaves the other rows
  alone, keeps the keys and records the outcome of every job of the batch.\<close>

definition rows_finished ::
  "wconf \<Rightarrow> job list \<Rightarrow> (task_row \<Rightarrow> task_row) \<Rightarrow> bool" where
  "rows_finished cf js g \<longleftrightarrow> (\<forall>t. t_taskuuid (g t) = t_taskuuid t) \<and>
     (\<forall>t. t_taskuuid t \<notin> j_uuid ` set js \<longrightarrow> g t = t) \<and>
     (\<forall>t. \<forall>j \<in> set js. t_taskuuid t = j_uuid j \<longrightarrow> row_done cf j (g t))"

definition task_finished :: "wconf \<Rightarrow> datetime \<Rightarrow> job \<Rightarrow> task_row \<Rightarrow> task_row" where
  "task_finished cf now j t =
     (if t_taskuuid t = j_uuid j
      then (let t' = t\<lparr>t_exitcode := Some (j_int_code j), t_endtime := Some now\<rparr>
            in if c_capture_output cf
               then t'\<lparr>t_stdout := j_output j, t_stderror := j_error j\<rparr> else t')
      else t)"

lemma rows_finished_Cons:
  assumes "rows_finished cf js g" and "distinct (map j_uuid (j # js))"
  shows "rows_finished cf (j # js) (g \<circ> task_finished cf now j)"
  using assms by (auto simp: rows_finished_def task_finished_def row_done_def Let_def)

text \<open>Counting the jobs of a batch.\<close>

definition count_jobs :: "wconf \<Rightarrow> string \<Rightarrow> nat \<Rightarrow> nat \<Rightarrow> 's wstate_scheme \<Rightarrow> 's wstate_scheme" where
  "count_jobs cf n n_all n_bad s =
     (if c_prometheus cf
      then s\<lparr>w_job_counter := (w_job_counter s)(n := w_job_counter s n + n_all),
             w_job_error_counter := (w_job_error_counter s)(n := w_job_error_counter s n + n_bad)\<rparr>
      else s)"

lemma count_one_job:
  "(if j_int_code j = 0 then job_completed cf n else job_failed cf n) s =
     (Inr (), count_jobs cf n 1 (if j_int_code j = 0 then 0 else 1) s)"
  by (simp add: job_completed_def job_failed_def count_jobs_def py_simps)

lemma count_jobs_sel [simp]:
  "w_tasks (count_jobs cf n a b s) = w_tasks s" "w_jobs (count_jobs cf n a b s) = w_jobs s"
  "w_clock (count_jobs cf n a b s) = w_clock s" "w_processed (count_jobs cf n a b s) = w_processed s"
  by (simp_all add: count_jobs_def)

lemma update_task_status_apply:
  "update_task_status cf j s = (Inr (j\<lparr>j_end_time := Some (c_now cf (w_clock s))\<rparr>),
     s\<lparr>w_clock := Suc (w_clock s),
       w_tasks := map (task_finished cf (c_now cf (w_clock s)) j) (w_tasks s)\<rparr>)"
  by (simp add: update_task_status_def py_simps Let_def task_finished_def [abs_def] cong: if_cong)

lemma finish_jobs_effect:
  assumes "distinct (map j_uuid js)"
  shows "\<exists>js' g k. finish_jobs cf n js s =
       (Inr js', (count_jobs cf n (length js) (length (filter (\<lambda>j. j_int_code j \<noteq> 0) js)) s)
          \<lparr>w_tasks := map g (w_tasks s), w_clock := k\<rparr>) \<and>
     rows_finished cf js g \<and>
     list_all2 (\<lambda>j j'. \<exists>now. j' = j\<lparr>j_end_time := Some now\<rparr>) js js'"
  using assms
proof (induction js arbitrary: s)
  case Nil
  have "rows_finished cf [] (\<lambda>t. t)" by (simp add: rows_finished_def)
  then show ?case
    by (intro exI [of _ "[]"] exI [of _ "\<lambda>t. t"] exI [of _ "w_clock s"])
      (simp add: py_simps count_jobs_def id_def)
next
  case (Cons j js)
  define now where "now = c_now cf (w_clock s)"
  define s1 where "s1 = (count_jobs cf n 1 (if j_int_code j = 0 then 0 else 1) s)
    \<lparr>w_tasks := map (task_finished cf now j) (w_tasks s), w_clock := Suc (w_clock s)\<rparr>"
  obtain js' g k where IH: "finish_jobs cf n js s1 =
       (Inr js', (count_jobs cf n (length js) (length (filter (\<lambda>j. j_int_code j \<noteq> 0) js)) s1)
          \<lparr>w_tasks := map g (w_tasks s1), w_clock := k\<rparr>)"
    and g: "rows_finished cf js g"
    and js': "list_all2 (\<lambda>j j'. \<exists>now. j' = j\<lparr>j_end_time := Some now\<rparr>) js js'"
    using Cons.IH [of s1] Cons.prems by auto
  define s0 where "s0 = s\<lparr>w_clock := Suc (w_clock s),
    w_tasks := map (task_finished cf now j) (w_tasks s)\<rparr>"
  have upd: "update_task_status cf j s = (Inr (j\<lparr>j_end_time := Some now\<rparr>), s0)"
    by (simp add: update_task_status_apply s0_def now_def)
  have cnt: "(if j_int_code j = 0 then job_completed cf n else job_failed cf n) s0 = (Inr (), s1)"
    by (simp add: count_one_job s0_def s1_def count_jobs_def)
  have "finish_jobs cf n (j # js) s =
      (case finish_jobs cf n js s1 of
         (Inl e, s') \<Rightarrow> (Inl e, s') | (Inr js', s') \<Rightarrow> (Inr (j\<lparr>j_end_time := Some now\<rparr> # js'), s'))"
    using cnt
    by (cases "j_int_code j = 0") (simp_all add: upd py_simps split: prod.splits sum.splits)
  then have fin: "finish_jobs cf n (j # js) s =
      (Inr (j\<lparr>j_end_time := Some now\<rparr> # js'),
       (count_jobs cf n (length (j # js)) (length (filter (\<lambda>j. j_int_code j \<noteq> 0) (j # js))) s)
         \<lparr>w_tasks := map (g \<circ> task_finished cf now j) (w_tasks s), w_clock := k\<rparr>)"
    unfolding IH by (simp add: s1_def count_jobs_def)
  have "rows_finished cf (j # js) (g \<circ> task_finished cf now j)"
    using g Cons.prems by (rule rows_finished_Cons)
  moreover have "list_all2 (\<lambda>j j'. \<exists>now. j' = j\<lparr>j_end_time := Some now\<rparr>) (j # js)
      (j\<lparr>j_end_time := Some now\<rparr> # js')"
    using js' by auto
  ultimately show ?case using fin by blast
qed

lemma format_job_results_distinct:
  assumes "distinct (map j_uuid jobs)"
  shows "format_job_results jobs = map (\<lambda>j. (j_uuid j, job_result j)) jobs"
proof -
  have "foldl (\<lambda>results j. dict_set results (j_uuid j) (job_result j)) acc jobs =
      acc @ map (\<lambda>j. (j_uuid j, job_result j)) jobs"
    if "distinct (map fst acc @ map j_uuid jobs)" for acc
    using that
  proof (induction jobs arbitrary: acc)
    case (Cons j jobs)
    then have "j_uuid j \<notin> fst ` set acc" by auto
    with Cons show ?case by (simp add: dict_set_new)
  qed simp
  from this [of "[]"] assms show ?thesis by (simp add: format_job_results_def)
qed

lemma prepare_jobs_uuids:
  "fst (prepare_jobs cf n tasks s) = Inr js \<Longrightarrow> map j_uuid js = map fst tasks"
  unfolding prepare_jobs_def
proof (induction tasks arbitrary: s js)
  case Nil
  then show ?case by (simp add: py_simps)
next
  case (Cons task tasks)
  obtain u d where task: "task = (u, d)" by (cases task)
  from Cons.prems task obtain j s1 js1 s2 where
    "prepare_job cf n (u, d) s = (Inr j, s1)" and
    js1: "py_map (prepare_job cf n) tasks s1 = (Inr js1, s2)" and js: "js = j # js1"
    by (auto simp: py_simps split: prod.splits sum.splits)
  then have "j_uuid j = u"
    by (auto simp: prepare_job_def py_simps Let_def Job_init_def split: prod.splits sum.splits)
  moreover have "map j_uuid js1 = map fst tasks" using Cons.IH [of s1 js1] js1 by simp
  ultimately show ?case by (simp add: js task)
qed

lemma call_result:
  "py_try (py_seq (call_module m) (py_ret True)) h s =
     (case call_module m s of
        (Inr _, t) \<Rightarrow> (Inr True, t)
      | (Inl e, t) \<Rightarrow> (case h e of None \<Rightarrow> (Inl e, t) | Some k \<Rightarrow> k t))"
  by (simp add: py_simps split: prod.splits sum.splits)

lemma bulk_set_start_times_apply:
  "bulk_set_start_times cf s =
     (Inr (), s\<lparr>w_clock := Suc (w_clock s),
        w_tasks := map (\<lambda>t. if t_taskuuid t \<in> j_uuid ` set (w_jobs s)
           then t\<lparr>t_starttime := Some (c_now cf (w_clock s))\<rparr> else t) (w_tasks s),
        w_jobs := map (\<lambda>j. j\<lparr>j_start_time := Some (c_now cf (w_clock s))\<rparr>) (w_jobs s)\<rparr>)"
  by (simp add: bulk_set_start_times_def py_simps)

lemma run_task_success:
  assumes "call_module m (snd (bulk_set_start_times cf s)) = (Inr (), t)"
    and "distinct (map j_uuid (w_jobs t))"
  shows "\<exists>js' g k. run_task cf n m s =
      (Inr (), (count_jobs cf n (length (w_jobs t))
                  (length (filter (\<lambda>j. j_int_code j \<noteq> 0) (w_jobs t))) t)
                \<lparr>w_tasks := map g (w_tasks t), w_clock := k, w_jobs := js'\<rparr>) \<and>
    rows_finished cf (w_jobs t) g \<and>
    list_all2 (\<lambda>j j'. \<exists>now. j' = j\<lparr>j_end_time := Some now\<rparr>) (w_jobs t) js'"
proof -
  obtain js' g k where fin: "finish_jobs cf n (w_jobs t) t =
      (Inr js', (count_jobs cf n (length (w_jobs t))
          (length (filter (\<lambda>j. j_int_code j \<noteq> 0) (w_jobs t))) t)
         \<lparr>w_tasks := map g (w_tasks t), w_clock := k\<rparr>)"
    and rest: "rows_finished cf (w_jobs t) g"
      "list_all2 (\<lambda>j j'. \<exists>now. j' = j\<lparr>j_end_time := Some now\<rparr>) (w_jobs t) js'"
    using finish_jobs_effect [OF assms(2)] by blast
  have "run_task cf n m s = (case finish_jobs cf n (w_jobs t) t of
      (Inl e, u) \<Rightarrow> (Inl e, u) | (Inr js, u) \<Rightarrow> (Inr (), u\<lparr>w_jobs := js\<rparr>))"
    using assms(1)
    by (simp add: run_task_def bulk_set_start_times_apply py_seq_apply py_bind_apply call_result
        py_get_apply py_mod_apply split: prod.splits sum.splits)
  with rest show ?thesis
    by (intro exI [of _ js'] exI [of _ g] exI [of _ k]) (simp add: fin)
qed

lemma same_uuids:
  "list_all2 (\<lambda>j j'. \<exists>now. j' = j\<lparr>j_end_time := Some now\<rparr>) js js' \<Longrightarrow>
     map j_uuid js' = map j_uuid js"
  by (induction rule: list_all2_induct) auto

text \<open>A concrete process with one task, on which the properties below are instantiated.\<close>

abbreviation conf_ex :: wconf where
  "conf_ex \<equiv> \<lparr>c_capture_output = True, c_prometheus = True, c_now = (\<lambda>_. ''2024-08-04''),
     c_shared_directory = ''/shared/'', c_assets_dir = ''/assets/'', c_iso_space = Inr\<rparr>"

abbreviation worker_ex :: wstate where
  "worker_ex \<equiv> \<lparr>w_tasks = [\<lparr>t_taskuuid = ''u1'', t_starttime = None, t_endtime = None,
       t_stdout = [], t_stderror = [], t_exitcode = None\<rparr>],
     w_jobs = [Job_init ''move_sip'' ''u1'' [] True], w_clock = 0, w_job_counter = (\<lambda>_. 0),
     w_job_error_counter = (\<lambda>_. 0), w_processed = 0\<rparr>"

section \<open>Properties\<close>

text \<open>C5. When a client script fails with an exception, \<open>run_task\<close> marks the whole batch: every
  task row of the batch gets exit code 1, the text of the exception as standard error and an end
  time, no other row is touched, every job object ends with exit code 1, every job counts as
  failed in the metrics, and the exception is raised again.\<close>

theorem run_task_failure_marks_batch:
  assumes "call_module m (snd (bulk_set_start_times cf s)) = (Inl e, t)" and "is_Exception e"
  shows "\<exists>now k. run_task cf n m s =
      (Inl e, (count_jobs cf n (length (w_jobs t)) (length (w_jobs t)) t)
         \<lparr>w_tasks := map (\<lambda>r. if t_taskuuid r \<in> j_uuid ` set (w_jobs t)
              then r\<lparr>t_stderror := exn_str e, t_exitcode := Some 1, t_endtime := Some now\<rparr>
              else r) (w_tasks t),
          w_jobs := map (set_status 1 (exn_str e)) (w_jobs t), w_clock := k\<rparr>)"
  using assms
  by (intro exI [of _ "c_now cf (w_clock t)"] exI [of _ "Suc (w_clock t)"])
    (simp add: run_task_def bulk_set_start_times_apply py_seq_apply py_bind_apply call_result
      bulk_mark_failed_def py_get_apply timezone_now_apply update_tasks_apply py_mod_apply
      job_failed_for py_raise_apply count_jobs_def)

theorem run_task_failure_marks_batch_witness:
  "\<exists>u. run_task conf_ex ''move_sip'' None worker_ex =
      (Inl (AttributeError ''object has no attribute call''), u) \<and>
     map t_exitcode (w_tasks u) = [Some 1] \<and> w_job_error_counter u ''move_sip'' = 1"
proof -
  have h: "call_module None (snd (bulk_set_start_times conf_ex worker_ex)) =
      (Inl (AttributeError ''object has no attribute call''),
       snd (bulk_set_start_times conf_ex worker_ex))"
    by (simp add: call_module_def py_simps)
  show ?thesis
    using run_task_failure_marks_batch [OF h, of "''move_sip''"]
    by (auto simp: is_Exception_def bulk_set_start_times_apply Job_init_def count_jobs_def)
qed

text \<open>C6. When the script returns, \<open>run_task\<close> returns and records each job individually: every
  task row of the batch gets the exit code its job ended with, an end time and, when output
  capture is on, the job's output and error texts; rows outside the batch are untouched; the
  total counter grows by the size of the batch and the error counter by the number of jobs with
  a non-zero code.\<close>

theorem run_task_success_records_jobs:
  assumes "call_module m (snd (bulk_set_start_times cf s)) = (Inr (), t)"
    and "distinct (map j_uuid (w_jobs t))"
  shows "\<exists>u. run_task cf n m s = (Inr (), u) \<and>
    map t_taskuuid (w_tasks u) = map t_taskuuid (w_tasks t) \<and>
    (\<forall>i < length (w_tasks t).
       (\<forall>j \<in> set (w_jobs t). t_taskuuid (w_tasks t ! i) = j_uuid j \<longrightarrow> row_done cf j (w_tasks u ! i)) \<and>
       (t_taskuuid (w_tasks t ! i) \<notin> j_uuid ` set (w_jobs t) \<longrightarrow> w_tasks u ! i = w_tasks t ! i)) \<and>
    (c_prometheus cf \<longrightarrow>
       w_job_counter u n = w_job_counter t n + length (w_jobs t) \<and>
       w_job_error_counter u n =
         w_job_error_counter t n + length (filter (\<lambda>j. j_int_code j \<noteq> 0) (w_jobs t)))"
proof -
  obtain js' g k where run: "run_task cf n m s =
      (Inr (), (count_jobs cf n (length (w_jobs t))
                  (length (filter (\<lambda>j. j_int_code j \<noteq> 0) (w_jobs t))) t)
                \<lparr>w_tasks := map g (w_tasks t), w_clock := k, w_jobs := js'\<rparr>)"
    and g: "rows_finished cf (w_jobs t) g"
    using run_task_success [OF assms] by blast
  from g show ?thesis
    unfolding run by (auto simp: rows_finished_def count_jobs_def)
qed

theorem run_task_success_records_jobs_witness:
  "\<exists>u. run_task conf_ex ''move_sip'' (Some (py_ret ())) worker_ex = (Inr (), u) \<and>
     w_job_counter u ''move_sip'' = 1 \<and> w_job_error_counter u ''move_sip'' = 0"
proof -
  have h: "call_module (Some (py_ret ())) (snd (bulk_set_start_times conf_ex worker_ex)) =
      (Inr (), snd (bulk_set_start_times conf_ex worker_ex))"
    by (simp add: call_module_def py_simps)
  show ?thesis
    using run_task_success_records_jobs [OF h, of "''move_sip''"]
    by (auto simp: bulk_set_start_times_apply Job_init_def)
qed

text \<open>C4. A handled Gearman job answers for every task of the request: if the client script keeps
  the jobs of its batch, the result dictionary has exactly the task UUIDs of the request as keys,
  in order, each with the exit code and end time of its job, and with the job's output texts
  exactly when the job captures output.\<close>

theorem handle_job_reports_every_task:
  assumes "handle_job cf mods n tasks s = (Inr r, u)"
    and "distinct (map fst tasks)"
    and "\<forall>m. mods n = Some m \<longrightarrow> (\<forall>x. map j_uuid (w_jobs (snd (call_module m x))) = map j_uuid (w_jobs x))"
  shows "map fst r = map fst tasks \<and> r = map (\<lambda>j. (j_uuid j, job_result j)) (w_jobs u)"
proof -
  obtain m where m: "mods n = Some m"
    using assms(1) by (auto simp: handle_job_def py_simps split: option.splits)
  then obtain js s1 t v where prep: "prepare_jobs cf n tasks s = (Inr js, s1)"
    and run: "run_task cf n m (s1\<lparr>w_jobs := js\<rparr>) = (Inr (), t)"
    and u: "u = t\<lparr>w_processed := Suc (w_processed t)\<rparr>" "r = format_job_results (w_jobs u)"
    using assms(1)
    by (auto simp: handle_job_def py_simps split: prod.splits sum.splits)
  have js: "map j_uuid js = map fst tasks"
    using prepare_jobs_uuids [of cf n tasks s js] prep by simp
  define b where "b = snd (bulk_set_start_times cf (s1\<lparr>w_jobs := js\<rparr>))"
  have b: "map j_uuid (w_jobs b) = map fst tasks"
    by (simp add: b_def bulk_set_start_times_apply js comp_def)
  obtain w where call: "call_module m b = (Inr (), w)"
    using run unfolding run_task_def b_def
    by (auto simp: py_seq_apply py_bind_apply call_result bulk_set_start_times_apply py_simps
        split: prod.splits sum.splits option.splits if_splits)
  have w: "map j_uuid (w_jobs w) = map fst tasks"
    using assms(3) m b call by (metis snd_conv)
  then have "map j_uuid (w_jobs t) = map fst tasks"
    using run_task_success [of m cf "s1\<lparr>w_jobs := js\<rparr>" w n] assms(2) run call
    by (auto simp: b_def dest: same_uuids)
  with assms(2) u show ?thesis
    by (simp add: format_job_results_distinct comp_def)
qed

theorem handle_job_reports_every_task_witness:
  "\<exists>r u. handle_job conf_ex [''move_sip'' \<mapsto> Some (py_ret ())] ''move_sip''
       [(''u1'', \<lparr>td_createdDate = ''2024-08-04'', td_arguments = ''a b'', td_wants_output = None\<rparr>)]
       worker_ex = (Inr r, u) \<and> map fst r = [''u1'']"
proof -
  let ?tasks = "[(''u1'', \<lparr>td_createdDate = ''2024-08-04'', td_arguments = ''a b'',
                          td_wants_output = None\<rparr>)]"
  let ?mods = "[''move_sip'' \<mapsto> Some (py_ret ())] :: string \<rightharpoonup> (wstate, unit) py option"
  have "\<exists>r u. handle_job conf_ex ?mods ''move_sip'' ?tasks worker_ex = (Inr r, u)"
    by (simp add: handle_job_def prepare_jobs_def prepare_job_def py_simps Let_def
        replace_task_arguments_def task_replacements_def str_replace_def parse_command_line_def
        is_space_def is_quote_def run_task_def bulk_set_start_times_apply call_module_def
        update_task_status_def job_completed_def Job_init_def)
  then obtain r u where run: "handle_job conf_ex ?mods ''move_sip'' ?tasks worker_ex = (Inr r, u)"
    by blast
  have "map fst r = map fst ?tasks \<and> r = map (\<lambda>j. (j_uuid j, job_result j)) (w_jobs u)"
    by (rule handle_job_reports_every_task [OF run]) (simp_all add: call_module_def py_simps)
  then have "map fst r = map fst ?tasks" by (rule conjunct1)
  with run show ?thesis by auto
qed

text \<open>The counter behind \<open>max_jobs_to_process\<close> counts answered requests only: handling a
  Gearman job raises it by one when it returns a result and leaves it alone when it ends with an
  exception, for client scripts that do not touch it. A worker therefore keeps polling after any
  number of failing requests.\<close>

theorem handle_job_counts_answers:
  assumes "\<forall>m. mods n = Some m \<longrightarrow> (\<forall>x. w_processed (snd (call_module m x)) = w_processed x)"
  shows "w_processed (snd (handle_job cf mods n tasks s)) =
    w_processed s + (case fst (handle_job cf mods n tasks s) of Inl _ \<Rightarrow> 0 | Inr _ \<Rightarrow> 1)"
proof (cases "mods n")
  case (Some m)
  have now: "keeps (\<lambda>x. w_processed x = k) (timezone_now cf)" for k
    by (simp add: keeps_def py_simps)
  have prep: "keeps (\<lambda>x. w_processed x = k) (prepare_jobs cf n tasks)" for k
  proof -
    have "keeps (\<lambda>x. w_processed x = k) (prepare_job cf n task)" for task
      unfolding prepare_job_def Let_def case_prod_unfold
      by (intro keeps_intros keeps_bind) (simp_all add: keeps_def py_simps)
    then show ?thesis
      unfolding prepare_jobs_def by (induction tasks) (auto intro!: keeps_intros keeps_bind)
  qed
  have run: "keeps (\<lambda>x. w_processed x = k) (run_task cf n m)" for k
  proof -
    have fin: "keeps (\<lambda>x. w_processed x = k) (finish_jobs cf n js)" for js
      by (induction js)
        (auto intro!: keeps_intros keeps_bind simp: keeps_def [of _ "update_task_status cf _"]
          update_task_status_apply job_completed_def job_failed_def)
    have "keeps (\<lambda>x. w_processed x = k) (call_module m)"
      using assms Some by (simp add: keeps_def)
    with fin show ?thesis
      unfolding run_task_def bulk_mark_failed_def job_failed_def update_tasks_def
      by (auto intro!: keeps_intros keeps_bind keeps_try now simp: keeps_def [of _ "bulk_set_start_times cf"]
          bulk_set_start_times_apply split: if_splits)
  qed
  have "w_processed (snd (prepare_jobs cf n tasks s)) = w_processed s"
    using keepsD [OF prep [of "w_processed s"], of s] by simp
  moreover have "w_processed (snd (run_task cf n m x)) = w_processed x" for x
    using keepsD [OF run [of "w_processed x"], of x] by simp
  ultimately have *: "w_processed (snd (prepare_jobs cf n tasks s)) = w_processed s"
    "\<And>x. w_processed (snd (run_task cf n m x)) = w_processed x" by blast+
  obtain r1 s1 where r1: "prepare_jobs cf n tasks s = (r1, s1)" by fastforce
  show ?thesis
  proof (cases r1)
    case (Inl e)
    with *(1) r1 show ?thesis by (simp add: handle_job_def Some py_bind_apply)
  next
    case (Inr js)
    obtain r2 t where "run_task cf n m (s1\<lparr>w_jobs := js\<rparr>) = (r2, t)" by fastforce
    with *(2) [of "s1\<lparr>w_jobs := js\<rparr>"] *(1) r1 Inr show ?thesis
      by (cases r2) (simp_all add: handle_job_def Some py_bind_apply py_seq_apply py_mod_apply
          py_get_apply)
  qed
qed (simp add: handle_job_def py_simps)

theorem handle_job_counts_answers_witness:
  "w_processed (snd (handle_job conf_ex [''move_sip'' \<mapsto> None] ''move_sip'' [] worker_ex)) = 0"
proof -
  have "w_processed (snd (handle_job conf_ex [''move_sip'' \<mapsto> None] ''move_sip'' [] worker_ex)) =
      w_processed worker_ex +
      (case fst (handle_job conf_ex [''move_sip'' \<mapsto> None] ''move_sip'' [] worker_ex) of
         Inl _ \<Rightarrow> 0 | Inr _ \<Rightarrow> 1)"
    by (rule handle_job_counts_answers) (simp add: call_module_def py_simps)
  then show ?thesis
    by (simp add: handle_job_def prepare_jobs_def py_simps run_task_def bulk_set_start_times_apply
        call_module_def is_Exception_def bulk_mark_failed_def)
qed

end
