(* ===== verification/Pool.thy ===== *)
theory Pool
  imports Worker
begin

text \<open>
  The pool of worker processes: \<open>client/loader.py\<close> (the table of client scripts and how many
  instances of each may run at once) and \<open>client/pool.py\<close> (the distribution of the scripts over
  the processes, starting, restarting and stopping them). The processes themselves are the
  environment: they may exit at any time, with any code.
\<close>

section \<open>loader.py\<close>

definition SUPPORTED_MODULES :: "(string \<times> string) list" where
  "SUPPORTED_MODULES =
     [(''assignfileuuids_v0.0'', ''assign_file_uuids''),
      (''bindpid_v0.0'', ''bind_pid''),
      (''removeunneededfiles_v0.0'', ''remove_unneeded_files''),
      (''archivematicaclamscan_v0.0'', ''archivematica_clamscan''),
      (''createevent_v0.0'', ''create_event''),
      (''examinecontents_v0.0'', ''examine_contents''),
      (''identifydspacefiles_v0.0'', ''identify_dspace_files''),
      (''identifydspacemetsfiles_v0.0'', ''identify_dspace_mets_files''),
      (''identifyfileformat_v0.0'', ''identify_file_format''),
      (''ismaildiraip_v0.0'', ''is_maildir_aip''),
      (''manualnormalizationcreatemetadataandrestructure_v0.0'', ''manual_normalization_create_metadata_and_restructure''),
      (''manualnormalizationidentifyfilesincluded_v0.0'', ''manual_normalization_identify_files_included''),
      (''manualnormalizationmoveaccessfilestodip_v0.0'', ''manual_normalization_move_access_files_to_dip''),
      (''updatesizeandchecksum_v0.0'', ''update_size_and_checksum''),
      (''validatefile_v1.0'', ''validate_file''),
      (''createsipfromtransferobjects_v0.0'', ''create_sip_from_transfer_objects''),
      (''jsonmetadatatocsv_v0.0'', ''json_metadata_to_csv''),
      (''loaddublincore_v0.0'', ''load_dublin_core''),
      (''loadlabelsfromcsv_v0.0'', ''load_labels_from_csv''),
      (''loadpremiseventsfromxml_v1.0'', ''load_premis_events_from_xml''),
      (''manualnormalizationcheckformanualnormalizationdirectory_v0.0'', ''manual_normalization_check_for_manual_normalization_directory''),
      (''manualnormalizationremovemndirectories_v0.0'', ''manual_normalization_remove_mn_directories''),
      (''movesip_v0.0'', ''move_sip''),
      (''moveormerge_v0.0'', ''move_or_merge''),
      (''movetransfer_v0.0'', ''move_transfer''),
      (''normalize_v1.0'', ''normalize''),
      (''normalizereport_v0.0'', ''normalize_report''),
      (''parseexternalmets'', ''parse_external_mets''),
      (''parsemetstodb_v1.0'', ''parse_mets_to_db''),
      (''policycheck_v0.0'', ''policy_check''),
      (''removefileswithoutpresmismetadata_v0.0'', ''remove_files_without_premis_metadata''),
      (''removehiddenfilesanddirectories_v0.0'', ''remove_hidden_files_and_directories''),
      (''restructureforcompliance_v0.0'', ''restructure_for_compliance''),
      (''restructureforcompliancesip_v0.0'', ''restructure_for_compliance_sip''),
      (''restructureforcompliancemaildir_v0.0'', ''restructure_for_compliance_maildir''),
      (''restructurebagaiptosip_v0.0'', ''restructure_bag_aip_to_sip''),
      (''retrynormalizeremovenormalized_v0.0'', ''retry_normalize_remove_normalized''),
      (''rightsfromcsv_v0.0'', ''rights_from_csv''),
      (''changeobjectnames_v0.0'', ''change_object_names''),
      (''changesipname_v0.0'', ''change_sip_name''),
      (''savedublincore_v0.0'', ''save_dublin_core''),
      (''setmaildirfilegrpuseandfileids_v0.0'', ''set_maildir_file_grp_use_and_file_ids''),
      (''storefilemodificationdates_v0.0'', ''store_file_modification_dates''),
      (''transcribefile_v0.0'', ''transcribe_file''),
      (''trimrestructureforcompliance_v0.0'', ''trim_restructure_for_compliance''),
      (''trimverifychecksums_v0.0'', ''trim_verify_checksums''),
      (''trimverifymanifest_v0.0'', ''trim_verify_manifest''),
      (''verifychecksumsinfilesecofdspacemetsfiles_v0.0'', ''verify_checksums_in_file_sec_of_dspace_mets_files''),
      (''verifyaip_v1.0'', ''verify_aip''),
      (''verifyandrestructuretransferbag_v0.0'', ''verify_and_restructure_transfer_bag''),
      (''verifysipcompliance_v0.0'', ''verify_sip_compliance''),
      (''verifytransfercompliance_v0.0'', ''verify_transfer_compliance''),
      (''createtransfermets_v1.0'', ''create_transfer_mets''),
      (''createmets_v2.0'', ''create_mets_v2''),
      (''characterizefile_v0.0'', ''characterize_file''),
      (''copytransfersubmissiondocumentation_v0.0'', ''copy_transfer_submission_documentation''),
      (''copytransfersmetadataandlogs_v0.0'', ''copy_transfers_metadata_and_logs''),
      (''compressaip_v0.0'', ''compress_aip''),
      (''archivematicasettransfertype_v0.0'', ''set_transfer_type''),
      (''checktransferdirectoryforobjects_v0.0'', ''check_transfer_directory_for_objects''),
      (''checkforsubmissiondocumenation_v0.0'', ''check_for_submission_documentation''),
      (''checkforservicedirectory_v0.0'', ''check_for_service_directory''),
      (''checkforaccessdirectory_v0.0'', ''check_for_access_directory''),
      (''declarepids_v0.0'', ''pid_declaration''),
      (''bindpids_v0.0'', ''bind_pids''),
      (''extractzippedtransfer_v0.0'', ''extract_zipped_transfer''),
      (''assignuuidstodirectories_v0.0'', ''assign_uuids_to_directories''),
      (''bagit_v0.0'', ''bag_with_empty_directories''),
      (''haspackages_v0.0'', ''has_packages''),
      (''failedtransfercleanup'', ''failed_transfer_cleanup''),
      (''filetofolder_v1.0'', ''file_to_folder''),
      (''createtransfermetadata_v0.0'', ''create_transfer_metadata''),
      (''extractcontents_v0.0'', ''extract_contents''),
      (''extractmaildirattachments_v0.0'', ''extract_maildir_attachments''),
      (''failedsipcleanup_v1.0'', ''failed_sip_cleanup''),
      (''createsipsfromtrimtransfercontainers_v0.0'', ''create_sips_from_trim_transfer_containers''),
      (''determineaipversionkeyexitcode_v0.0'', ''determine_aip_version_key_exit_code''),
      (''dipgenerationhelper'', ''dip_generation_helper''),
      (''emailfailreport_v0.0'', ''email_fail_report''),
      (''verifychecksum_v0.0'', ''verify_checksum''),
      (''archivematicaverifymets_v0.0'', ''verify_mets''),
      (''copyrecursive_v0.0'', ''copy_recursive''),
      (''copysubmissiondocs_v0.0'', ''copy_submission_docs''),
      (''copy_v0.0'', ''cmd_cp''),
      (''createdirectory_v0.0'', ''cmd_mkdir''),
      (''createdirectorytree_v0.0'', ''cmd_tree''),
      (''move_v0.0'', ''cmd_mv''),
      (''setfilepermission_v0.0'', ''cmd_chmod''),
      (''test_v0.0'', ''cmd_test''),
      (''storeaip_v0.0'', ''store_aip''),
      (''restructuredipforcontentdmupload_v0.0'', ''restructure_dip_for_content_dm_upload''),
      (''upload-qubit_v0.0'', ''upload_qubit''),
      (''upload-archivesspace_v0.0'', ''upload_archivesspace''),
      (''copythumbnailstodipdirectory_v0.0'', ''copy_thumbnails_to_dip_directory''),
      (''removedirectories_v0.0'', ''remove_directories''),
      (''convertdataversestructure_v0.0'', ''convert_dataverse_structure''),
      (''parsedataverse_v0.0'', ''parse_dataverse_mets'')]"

text \<open>
  Importing a module and calling its \<open>concurrent_instances\<close> are given: \<open>import_module\<close> is
  \<open>None\<close> where the import fails (\<open>ImportError\<close>), \<open>concurrent_instances\<close> is the outcome of
  \<open>int(module.concurrent_instances())\<close>.
\<close>

definition load_module :: "(string \<rightharpoonup> 'm) \<Rightarrow> string \<Rightarrow> 'm option" where
  "load_module import_module module_name =
     import_module (''worker.clientScripts.'' @ module_name)"

definition get_module_concurrency :: "('m \<Rightarrow> py_exn + int) \<Rightarrow> 'm option \<Rightarrow> py_exn + int" where
  "get_module_concurrency concurrent_instances module =
     (case (case module of
              None \<Rightarrow> Inl (AttributeError ''concurrent_instances'')
            | Some m \<Rightarrow> concurrent_instances m) of
        Inr n \<Rightarrow> Inr n
      | Inl (AttributeError _) \<Rightarrow> Inr 1
      | Inl (TypeError _) \<Rightarrow> Inr 1
      | Inl (ValueError _) \<Rightarrow> Inr 1
      | Inl e \<Rightarrow> Inl e)"

definition load_job_modules :: "(string \<rightharpoonup> 'm) \<Rightarrow> (string \<times> 'm option) list" where
  "load_job_modules import_module =
     zip (map fst SUPPORTED_MODULES) (map (load_module import_module) (map snd SUPPORTED_MODULES))"

section \<open>Distribution of the scripts\<close>

fun get_script_workers_required ::
  "('m \<Rightarrow> py_exn + int) \<Rightarrow> (string \<times> 'm option) list \<Rightarrow> py_exn + (string \<times> int) list" where
  "get_script_workers_required ci [] = Inr []"
| "get_script_workers_required ci ((client_script, module) # ms) =
     (case get_module_concurrency ci module of
        Inl e \<Rightarrow> Inl e
      | Inr concurrency \<Rightarrow>
          map_sum id (\<lambda>r. (client_script, concurrency) # r) (get_script_workers_required ci ms))"

fun max_list :: "int \<Rightarrow> int list \<Rightarrow> int" where
  "max_list m [] = m"
| "max_list m (x # xs) = max_list (max m x) xs"

text \<open>\<open>min(settings.WORKERS, max(workers_required.values()))\<close>.\<close>

definition get_pool_size :: "int \<Rightarrow> (string \<times> int) list \<Rightarrow> py_exn + int" where
  "get_pool_size WORKERS workers_required =
     (case map snd workers_required of
        [] \<Rightarrow> Inl (ValueError ''max() arg is an empty sequence'')
      | x # xs \<Rightarrow> Inr (min WORKERS (max_list x xs)))"

text \<open>One pass of the inner loop: the scripts of one process and the remaining demand.\<close>

fun init_round :: "(string \<times> int) list \<Rightarrow> string list \<times> (string \<times> int) list" where
  "init_round [] = ([], [])"
| "init_round ((script_name, workers_remaining) # rest) =
     (let (scripts, rest') = init_round rest
      in if workers_remaining > 0
         then (script_name # scripts, (script_name, workers_remaining - 1) # rest')
         else (scripts, (script_name, workers_remaining) # rest'))"

fun init_rounds :: "nat \<Rightarrow> (string \<times> int) list \<Rightarrow> string list list" where
  "init_rounds 0 required = []"
| "init_rounds (Suc n) required =
     (let (scripts, required') = init_round required in scripts # init_rounds n required')"

definition get_worker_init_args :: "int \<Rightarrow> (string \<times> int) list \<Rightarrow> string list list" where
  "get_worker_init_args pool_size script_workers_required =
     init_rounds (nat pool_size) script_workers_required"

section \<open>The pool\<close>

record worker_proc =
  p_pid :: nat
  p_name :: string
  p_scripts :: "string list"
  p_exitcode :: "int option"

record pool =
  pool_size :: int
  pool_init_args :: "string list list"
  pool_workers :: "worker_proc list"
  pool_shutdown :: bool
  pool_next_pid :: nat
  pool_marked_dead :: "nat list"

definition is_alive :: "worker_proc \<Rightarrow> bool" where
  "is_alive w = (p_exitcode w = None)"

definition WorkerPool_init ::
  "int \<Rightarrow> ('m \<Rightarrow> py_exn + int) \<Rightarrow> (string \<times> 'm option) list \<Rightarrow> py_exn + pool" where
  "WorkerPool_init WORKERS ci job_modules =
     (case get_script_workers_required ci job_modules of
        Inl e \<Rightarrow> Inl e
      | Inr required \<Rightarrow>
          map_sum id (\<lambda>size. \<lparr>pool_size = size,
              pool_init_args = get_worker_init_args size required, pool_workers = [],
              pool_shutdown = False, pool_next_pid = 0, pool_marked_dead = []\<rparr>)
            (get_pool_size WORKERS required))"

definition worker_exit :: "nat \<Rightarrow> (pool, unit) py" where
  "worker_exit pid = py_mod (\<lambda>p. p\<lparr>pool_marked_dead := pid # pool_marked_dead p\<rparr>)"

definition start_worker :: "nat \<Rightarrow> (pool, worker_proc) py" where
  "start_worker index = (\<lambda>p.
     if index < length (pool_init_args p)
     then (Inr \<lparr>p_pid = pool_next_pid p, p_name = ''ArchivematicaWorker-'' @ str_nat index,
                p_scripts = pool_init_args p ! index, p_exitcode = None\<rparr>,
           p\<lparr>pool_next_pid := Suc (pool_next_pid p)\<rparr>)
     else (Inl (IndexError ''list index out of range''), p))"

definition pool_start :: "(pool, unit) py" where
  "pool_start = py_bind (py_get (\<lambda>p. nat (pool_size p - int (length (pool_workers p))))) (\<lambda>n.
     py_for [0..<n] (\<lambda>i. py_bind (start_worker i) (\<lambda>w.
       py_mod (\<lambda>p. p\<lparr>pool_workers := pool_workers p @ [w]\<rparr>))))"

text \<open>The loop over \<open>enumerate(self.workers)\<close>, from a given index on.\<close>

fun restart_from :: "nat \<Rightarrow> worker_proc list \<Rightarrow> (pool, bool) py" where
  "restart_from index [] = py_ret False"
| "restart_from index (worker # ws) =
     (if p_exitcode worker \<noteq> None
      then py_seq (worker_exit (p_pid worker))
          (py_bind (start_worker index) (\<lambda>w.
           py_seq (py_mod (\<lambda>p. p\<lparr>pool_workers := (pool_workers p)[index := w]\<rparr>))
          (py_seq (restart_from (Suc index) ws) (py_ret True))))
      else restart_from (Suc index) ws)"

definition restart_exited_workers :: "(pool, bool) py" where
  "restart_exited_workers = py_bind (py_get pool_workers) (restart_from 0)"

text \<open>
  \<open>stop\<close>: what each live process does within the joining time (\<open>joined\<close>) and after the
  termination signal (\<open>terminated\<close>) is given as the exit code then observed, by process id.
\<close>

definition observe :: "(nat \<Rightarrow> int option) \<Rightarrow> worker_proc \<Rightarrow> worker_proc" where
  "observe codes w = (if is_alive w then w\<lparr>p_exitcode := codes (p_pid w)\<rparr> else w)"

definition pool_stop :: "(nat \<Rightarrow> int option) \<Rightarrow> (nat \<Rightarrow> int option) \<Rightarrow> (pool, unit) py" where
  "pool_stop joined terminated =
     py_seq (py_mod (\<lambda>p. p\<lparr>pool_shutdown := True\<rparr>))
    (py_seq (py_mod (\<lambda>p. p\<lparr>pool_workers := map (observe joined) (pool_workers p)\<rparr>))
    (py_seq (py_mod (\<lambda>p. p\<lparr>pool_workers := map (observe terminated) (pool_workers p)\<rparr>))
            (py_bind (py_get pool_workers) (\<lambda>ws.
               py_for ws (\<lambda>w. py_when (\<not> is_alive w) (worker_exit (p_pid w)))))))"

section \<open>Steps of a running pool\<close>

text \<open>
  A started pool evolves by processes exiting on their own and by the maintenance thread, which
  restarts exited processes as long as the shutdown event is not set.
\<close>

inductive pool_step :: "pool \<Rightarrow> pool \<Rightarrow> bool" where
  proc_exit: "i < length (pool_workers p) \<Longrightarrow> is_alive (pool_workers p ! i) \<Longrightarrow>
     pool_step p (p\<lparr>pool_workers := (pool_workers p)[i := (pool_workers p ! i)\<lparr>p_exitcode := Some c\<rparr>]\<rparr>)"
| maintain: "\<not> pool_shutdown p \<Longrightarrow> pool_step p (snd (restart_exited_workers p))"

inductive pool_reachable :: "pool \<Rightarrow> pool \<Rightarrow> bool" for p0 where
  started: "pool_start p0 = (Inr (), p) \<Longrightarrow> pool_reachable p0 p"
| stepped: "pool_reachable p0 p \<Longrightarrow> pool_step p q \<Longrightarrow> pool_reachable p0 q"

inductive_cases pool_stepE: "pool_step p q"

section \<open>Lemmas\<close>

lemma init_round_eq:
  "init_round req = (map fst (filter (\<lambda>(_, k). 0 < k) req),
                     map (\<lambda>(n, k). (n, if 0 < k then k - 1 else k)) req)"
  by (induction req rule: init_round.induct) (auto simp: Let_def)

lemma init_rounds_eq:
  "init_rounds n req = map (\<lambda>i. map fst (filter (\<lambda>(_, k). int i < k) req)) [0..<n]"
proof (induction n arbitrary: req)
  case (Suc n)
  let ?req' = "map (\<lambda>(n, k). (n, if 0 < k then k - 1 else k)) req"
  have "map fst (filter (\<lambda>(_, k). int i < k) ?req') =
      map fst (filter (\<lambda>(_, k). int (Suc i) < k) req)" for i
    by (induction req) (auto split: if_splits)
  then have "init_rounds n ?req' =
      map (\<lambda>i. map fst (filter (\<lambda>(_, k). int i < k) req)) (map Suc [0..<n])"
    by (simp add: Suc.IH comp_def)
  then show ?case
    by (simp add: init_round_eq map_Suc_upt upt_conv_Cons del: upt_Suc)
qed simp

lemma max_list_init: "m \<le> max_list m xs"
proof (induction xs arbitrary: m)
  case (Cons x xs)
  have "m \<le> max m x" by simp
  also have "\<dots> \<le> max_list (max m x) xs" by (rule Cons.IH)
  finally show ?case by simp
qed simp

lemma max_list_mem: "x \<in> set xs \<Longrightarrow> x \<le> max_list m xs"
proof (induction xs arbitrary: m)
  case (Cons y ys)
  have "max m y \<le> max_list (max m y) ys" by (rule max_list_init)
  then show ?case using Cons by (cases "x = y") auto
qed simp

lemma get_pool_size_bounds:
  assumes "get_pool_size W req = Inr n" and "(s, k) \<in> set req"
  shows "n \<le> W" and "min n k = min W k"
proof -
  obtain x xs where xs: "map snd req = x # xs" and n: "n = min W (max_list x xs)"
    using assms(1) by (auto simp: get_pool_size_def split: list.splits)
  have "k \<in> set (map snd req)" using assms(2) by force
  then have "k \<le> max_list x xs" unfolding xs using max_list_init max_list_mem by auto
  then show "n \<le> W" and "min n k = min W k" using n by auto
qed

lemma required_keys:
  "get_script_workers_required ci ms = Inr req \<Longrightarrow> map fst req = map fst ms"
proof (induction ms arbitrary: req)
  case (Cons m ms)
  obtain c md where m: "m = (c, md)" by (cases m)
  show ?case
  proof (cases "get_script_workers_required ci ms")
    case (Inl e)
    with Cons.prems m show ?thesis by (simp split: sum.splits)
  next
    case (Inr r)
    with Cons.IH have "map fst r = map fst ms" by simp
    with Cons.prems m Inr show ?thesis by (auto split: sum.splits)
  qed
qed simp

lemma count_below: "length (filter (\<lambda>i. int i < k) [0..<n]) = nat (min (int n) k)"
proof (induction n)
  case (Suc n)
  then show ?case by auto
qed simp

lemma fst_filter_mem:
  "distinct (map fst req) \<Longrightarrow> (s, k) \<in> set req \<Longrightarrow>
     s \<in> set (map fst (filter (\<lambda>(_, k). P k) req)) \<longleftrightarrow> P k"
  by (force simp: distinct_map inj_on_def)

section \<open>Invariant of the pool\<close>

definition pool_inv :: "pool \<Rightarrow> bool" where
  "pool_inv p \<longleftrightarrow> length (pool_init_args p) = nat (pool_size p) \<and>
     length (pool_workers p) = nat (pool_size p) \<and>
     (\<forall>i < length (pool_workers p). p_scripts (pool_workers p ! i) = pool_init_args p ! i) \<and>
     (\<forall>w \<in> set (pool_workers p). p_pid w < pool_next_pid p) \<and>
     distinct (map p_pid (pool_workers p))"

definition same_config :: "pool \<Rightarrow> pool \<Rightarrow> bool" where
  "same_config p q \<longleftrightarrow> pool_size q = pool_size p \<and> pool_init_args q = pool_init_args p \<and>
     pool_shutdown q = pool_shutdown p"

lemma pool_inv_replace:
  assumes "pool_inv p" and "i < length (pool_workers p)"
  shows "pool_inv (p\<lparr>pool_marked_dead := d, pool_next_pid := Suc (pool_next_pid p),
    pool_workers := (pool_workers p)[i := \<lparr>p_pid = pool_next_pid p, p_name = n,
      p_scripts = pool_init_args p ! i, p_exitcode = None\<rparr>]\<rparr>)"
proof -
  have "pool_next_pid p \<notin> set (map p_pid (pool_workers p))"
    using assms(1) by (auto simp: pool_inv_def)
  then have "distinct ((map p_pid (pool_workers p))[i := pool_next_pid p])"
    using assms by (simp add: pool_inv_def distinct_list_update)
  then show ?thesis
    using assms
    by (auto simp: pool_inv_def map_update nth_list_update less_Suc_eq
        dest!: set_update_subset_insert [THEN subsetD])
qed

lemma restart_from_inv:
  assumes "pool_inv p" and "index + length ws = length (pool_workers p)"
  shows "\<exists>b q. restart_from index ws p = (Inr b, q) \<and> pool_inv q \<and> same_config p q"
  using assms
proof (induction ws arbitrary: index p)
  case Nil
  then show ?case
    by (intro exI [of _ False] exI [of _ p]) (simp add: py_simps same_config_def)
next
  case (Cons w ws)
  show ?case
  proof (cases "p_exitcode w")
    case None
    with Cons show ?thesis by simp
  next
    case (Some c)
    let ?q = "p\<lparr>pool_marked_dead := p_pid w # pool_marked_dead p,
      pool_next_pid := Suc (pool_next_pid p),
      pool_workers := (pool_workers p)[index := \<lparr>p_pid = pool_next_pid p,
        p_name = ''ArchivematicaWorker-'' @ str_nat index,
        p_scripts = pool_init_args p ! index, p_exitcode = None\<rparr>]\<rparr>"
    have idx: "index < length (pool_workers p)" "index < length (pool_init_args p)"
      using Cons.prems by (auto simp: pool_inv_def)
    have "pool_inv ?q" by (rule pool_inv_replace) (use Cons.prems(1) idx in auto)
    then obtain b q where "restart_from (Suc index) ws ?q = (Inr b, q)"
      and "pool_inv q" and "same_config ?q q"
      using Cons.IH [of ?q "Suc index"] Cons.prems(2) by auto
    with Some idx show ?thesis
      by (intro exI [of _ True] exI [of _ q])
        (simp add: py_simps worker_exit_def start_worker_def same_config_def)
  qed
qed

text \<open>A pass over the processes leaves the live ones in place and replaces the others.\<close>

lemma restart_from_alive:
  assumes "pool_inv p" and "index \<le> length (pool_workers p)" and "ws = drop index (pool_workers p)"
  shows "\<exists>q. restart_from index ws p = (Inr (list_ex (\<lambda>w. \<not> is_alive w) ws), q) \<and>
     take index (pool_workers q) = take index (pool_workers p) \<and>
     list_all2 (\<lambda>w w'. is_alive w' \<and> (is_alive w \<longrightarrow> w' = w)) ws (drop index (pool_workers q)) \<and>
     pool_marked_dead q = rev (map p_pid (filter (\<lambda>w. \<not> is_alive w) ws)) @ pool_marked_dead p"
  using assms
proof (induction ws arbitrary: index p)
  case Nil
  then show ?case by (simp add: py_simps)
next
  case (Cons w ws)
  then have idx: "index < length (pool_workers p)" by (metis drop_eq_Nil leI list.distinct(1))
  with Cons.prems(3) have w: "pool_workers p ! index = w"
    and ws: "ws = drop (Suc index) (pool_workers p)"
    by (metis Cons_nth_drop_Suc list.inject)+
  show ?case
  proof (cases "p_exitcode w")
    case None
    obtain q where IH: "restart_from (Suc index) ws p = (Inr (list_ex (\<lambda>w. \<not> is_alive w) ws), q)"
      "take (Suc index) (pool_workers q) = take (Suc index) (pool_workers p)"
      "list_all2 (\<lambda>w w'. is_alive w' \<and> (is_alive w \<longrightarrow> w' = w)) ws (drop (Suc index) (pool_workers q))"
      "pool_marked_dead q = rev (map p_pid (filter (\<lambda>w. \<not> is_alive w) ws)) @ pool_marked_dead p"
      using Cons.IH [OF Cons.prems(1) _ ws] idx by auto
    have q: "index < length (pool_workers q)" "pool_workers q ! index = w"
      using IH(2) idx w by (metis length_take min_less_iff_conj lessI, metis lessI nth_take)
    then have "drop index (pool_workers q) = w # drop (Suc index) (pool_workers q)"
      by (metis Cons_nth_drop_Suc)
    moreover have "take index (pool_workers q) = take index (pool_workers p)"
      using IH(2) by (metis le_add2 min.absorb1 plus_1_eq_Suc take_take)
    ultimately show ?thesis using IH None by (simp add: is_alive_def)
  next
    case (Some c)
    define n where "n = \<lparr>p_pid = pool_next_pid p,
        p_name = ''ArchivematicaWorker-'' @ str_nat index,
        p_scripts = pool_init_args p ! index, p_exitcode = None\<rparr>"
    define p1 where "p1 = p\<lparr>pool_marked_dead := p_pid w # pool_marked_dead p,
      pool_next_pid := Suc (pool_next_pid p), pool_workers := (pool_workers p)[index := n]\<rparr>"
    have args: "index < length (pool_init_args p)"
      using Cons.prems(1) idx by (simp add: pool_inv_def)
    have "pool_inv p1" unfolding p1_def n_def by (rule pool_inv_replace) (use Cons.prems(1) idx in auto)
    moreover have "ws = drop (Suc index) (pool_workers p1)" by (simp add: p1_def ws)
    ultimately obtain b q where IH: "restart_from (Suc index) ws p1 = (Inr b, q)"
      "take (Suc index) (pool_workers q) = take (Suc index) (pool_workers p1)"
      "list_all2 (\<lambda>w w'. is_alive w' \<and> (is_alive w \<longrightarrow> w' = w)) ws (drop (Suc index) (pool_workers q))"
      "pool_marked_dead q = rev (map p_pid (filter (\<lambda>w. \<not> is_alive w) ws)) @ pool_marked_dead p1"
      using Cons.IH [of p1 "Suc index"] idx by (auto simp: p1_def)
    have run: "restart_from index (w # ws) p = (Inr True, q)"
      using Some args IH(1) by (simp add: py_simps worker_exit_def start_worker_def p1_def n_def)
    have "index < length (pool_workers q)" "pool_workers q ! index = n"
      using IH(2) idx
      by (metis length_list_update length_take min_less_iff_conj lessI p1_def pool.select_convs(3)
          pool.surjective pool.update_convs(3), metis lessI nth_take p1_def nth_list_update_eq
          pool.select_convs(3) pool.surjective pool.update_convs(3))
    then have "drop index (pool_workers q) = n # drop (Suc index) (pool_workers q)"
      by (metis Cons_nth_drop_Suc)
    moreover have "take index (pool_workers q) = take index (pool_workers p)"
    proof -
      have "take index (pool_workers q) = take index (take (Suc index) (pool_workers p1))"
        unfolding IH(2) [symmetric] by (simp add: min_def)
      then show ?thesis by (simp add: p1_def min_def)
    qed
    ultimately show ?thesis
      using run IH(3,4) Some by (simp add: is_alive_def n_def p1_def)
  qed
qed

text \<open>The starting loop appends one process per index.\<close>

definition start_loop :: "nat list \<Rightarrow> (pool, unit) py" where
  "start_loop is = py_for is (\<lambda>i. py_bind (start_worker i) (\<lambda>w.
       py_mod (\<lambda>p. p\<lparr>pool_workers := pool_workers p @ [w]\<rparr>)))"

definition starting_inv :: "pool \<Rightarrow> bool" where
  "starting_inv p \<longleftrightarrow>
     (\<forall>i < length (pool_workers p). p_scripts (pool_workers p ! i) = pool_init_args p ! i) \<and>
     (\<forall>w \<in> set (pool_workers p). p_pid w < pool_next_pid p) \<and>
     distinct (map p_pid (pool_workers p))"

lemma start_loop_inv:
  assumes "starting_inv p" and "length (pool_workers p) = k" and "k + m \<le> length (pool_init_args p)"
  shows "\<exists>q. start_loop [k..<k + m] p = (Inr (), q) \<and> starting_inv q \<and>
     length (pool_workers q) = k + m \<and> same_config p q"
  using assms
proof (induction m arbitrary: k p)
  case 0
  then show ?case by (simp add: start_loop_def py_simps same_config_def)
next
  case (Suc m)
  let ?w = "\<lparr>p_pid = pool_next_pid p, p_name = ''ArchivematicaWorker-'' @ str_nat k,
                p_scripts = pool_init_args p ! k, p_exitcode = None\<rparr>"
  define p1 where "p1 = p\<lparr>pool_next_pid := Suc (pool_next_pid p),
    pool_workers := pool_workers p @ [?w]\<rparr>"
  have p1: "starting_inv p1"
    using Suc.prems(1,2) by (auto simp: starting_inv_def p1_def nth_append less_Suc_eq)
  have "length (pool_workers p1) = Suc k" and "Suc k + m \<le> length (pool_init_args p1)"
    using Suc.prems(2,3) by (simp_all add: p1_def)
  then obtain q where q: "start_loop [Suc k..<Suc k + m] p1 = (Inr (), q)" "starting_inv q"
      "length (pool_workers q) = Suc k + m" "same_config p1 q"
    using Suc.IH [OF p1] by blast
  have "[k..<k + Suc m] = k # [Suc k..<Suc k + m]" by (simp add: upt_conv_Cons)
  then have "start_loop [k..<k + Suc m] p = start_loop [Suc k..<Suc k + m] p1"
    using Suc.prems(3) by (simp add: start_loop_def py_simps start_worker_def p1_def)
  with q show ?case by (simp add: p1_def same_config_def)
qed

lemma pool_start_inv:
  assumes "pool_workers p = []" and "length (pool_init_args p) = nat (pool_size p)"
  shows "\<exists>q. pool_start p = (Inr (), q) \<and> pool_inv q \<and> same_config p q"
proof -
  have "starting_inv p" using assms(1) by (simp add: starting_inv_def)
  then obtain q where "start_loop [0..<nat (pool_size p)] p = (Inr (), q)" "starting_inv q"
      "length (pool_workers q) = nat (pool_size p)" "same_config p q"
    using start_loop_inv [of p 0 "nat (pool_size p)"] assms by auto
  with assms show ?thesis
    by (auto simp: pool_start_def start_loop_def py_bind_apply py_get_apply pool_inv_def
        starting_inv_def same_config_def)
qed

lemma pool_step_inv: "pool_step p q \<Longrightarrow> pool_inv p \<Longrightarrow> pool_inv q \<and> same_config p q"
proof (induction rule: pool_step.induct)
  case (proc_exit i p c)
  have "map p_pid ((pool_workers p)[i := (pool_workers p ! i)\<lparr>p_exitcode := Some c\<rparr>]) =
      map p_pid (pool_workers p)"
    using proc_exit(1) by (simp add: map_update) (metis list_update_id map_update)
  with proc_exit show ?case
    by (auto simp: pool_inv_def same_config_def nth_list_update
        dest!: set_update_subset_insert [THEN subsetD])
next
  case (maintain p)
  then show ?case
    using restart_from_inv [of p 0 "pool_workers p"]
    by (auto simp: restart_exited_workers_def py_bind_apply py_get_apply)
qed

section \<open>Properties\<close>

text \<open>C3. The pool honours the concurrency of every client script: when the pool is created with
  the setting \<open>WORKERS\<close>, a script whose module allows \<open>k\<close> concurrent instances is registered by
  exactly \<open>min(WORKERS, k)\<close> processes; in particular a script that is not marked as safe for
  concurrency (\<open>k = 1\<close>) is registered by exactly one process, and every script is served.\<close>

theorem pool_honours_concurrency:
  assumes "WorkerPool_init WORKERS ci mods = Inr p"
    and "get_script_workers_required ci mods = Inr required"
    and "distinct (map fst mods)" and "(script, k) \<in> set required"
  shows "length (filter (\<lambda>scripts. script \<in> set scripts) (pool_init_args p)) = nat (min WORKERS k)"
proof -
  obtain n where n: "get_pool_size WORKERS required = Inr n"
    and p: "pool_init_args p = init_rounds (nat n) required"
    using assms(1,2)
    by (cases "get_pool_size WORKERS required")
      (auto simp: WorkerPool_init_def get_worker_init_args_def)
  have d: "distinct (map fst required)" using required_keys [OF assms(2)] assms(3) by simp
  have "length (filter (\<lambda>scripts. script \<in> set scripts) (pool_init_args p)) =
      length (filter (\<lambda>i. int i < k) [0..<nat n])"
    unfolding p init_rounds_eq filter_map length_map comp_def
    using fst_filter_mem [OF d assms(4)] by (simp only:)
  also have "\<dots> = nat (min n k)"
    by (simp only: count_below)
  also have "\<dots> = nat (min WORKERS k)"
    using get_pool_size_bounds(2) [OF n assms(4)] by simp
  finally show ?thesis .
qed

theorem pool_honours_concurrency_witness:
  "length (filter (\<lambda>scripts. ''b'' \<in> set scripts)
     (init_rounds 2 [(''a'', 3), (''b'', 1)])) = 1"
proof -
  let ?ci = "\<lambda>m. if m = (0::nat) then Inr 3 else Inl (AttributeError ''concurrent_instances'')"
  let ?mods = "[(''a'', Some 0), (''b'', Some 1)]"
  have req: "get_script_workers_required ?ci ?mods = Inr [(''a'', 3), (''b'', 1)]"
    by (simp add: get_module_concurrency_def)
  obtain p where p: "WorkerPool_init 2 ?ci ?mods = Inr p"
    and args: "pool_init_args p = init_rounds 2 [(''a'', 3), (''b'', 1)]"
    by (simp add: WorkerPool_init_def get_module_concurrency_def get_pool_size_def
        get_worker_init_args_def del: init_rounds.simps)
  show ?thesis
    using pool_honours_concurrency [OF p req, of "''b''" 1] by (simp add: args del: init_rounds.simps)
qed

text \<open>C7. In every state a started pool can reach, by processes exiting at any time and by the
  maintenance thread, the pool has exactly its fixed number of process slots, the process in slot
  \<open>i\<close> runs exactly the scripts assigned to slot \<open>i\<close>, and no two slots hold the same
  process.\<close>

theorem pool_reachable_invariant:
  assumes "pool_reachable p0 p" and "pool_workers p0 = []"
    and "length (pool_init_args p0) = nat (pool_size p0)"
  shows "map p_scripts (pool_workers p) = pool_init_args p0 \<and> distinct (map p_pid (pool_workers p))"
proof -
  have "pool_inv p \<and> same_config p0 p"
    using assms(1)
  proof (induction rule: pool_reachable.induct)
    case (started p)
    with pool_start_inv [OF assms(2,3)] show ?case by auto
  next
    case (stepped p q)
    with pool_step_inv show ?case by (auto simp: same_config_def)
  qed
  then show ?thesis
    by (auto simp: pool_inv_def same_config_def intro!: nth_equalityI)
qed

theorem pool_reachable_invariant_witness:
  "\<exists>p :: pool. pool_workers p \<noteq> [] \<and> map p_scripts (pool_workers p) = [[''a'']] \<and>
     distinct (map p_pid (pool_workers p))"
proof -
  let ?init = "\<lparr>pool_size = 1, pool_init_args = [[''a'']], pool_workers = [], pool_shutdown = False,
    pool_next_pid = 0, pool_marked_dead = []\<rparr>"
  let ?w = "\<lparr>p_pid = 0, p_name = ''ArchivematicaWorker-'' @ str_nat 0, p_scripts = [''a''],
    p_exitcode = None\<rparr>"
  let ?p = "?init\<lparr>pool_workers := [?w], pool_next_pid := 1\<rparr>"
  have "pool_reachable ?init ?p"
    by (rule started) (simp add: pool_start_def py_simps start_worker_def)
  then have "pool_reachable ?init (?p\<lparr>pool_workers := [?w\<lparr>p_exitcode := Some 1\<rparr>]\<rparr>)"
    using proc_exit [of 0 ?p 1] by (auto intro: stepped simp: is_alive_def)
  note reach = pool_reachable_invariant [OF this]
  show ?thesis
    by (rule exI [of _ "?p\<lparr>pool_workers := [?w\<lparr>p_exitcode := Some 1\<rparr>]\<rparr>"]) (use reach in simp)
qed

text \<open>C40. One pass of the maintenance thread restores the pool: it ends without an exception,
  afterwards every process is alive, the processes that were alive are untouched, the exited ones
  and only those are reported dead to the metrics, and the result says whether any process was
  replaced.\<close>

theorem maintenance_restores_pool:
  assumes "pool_inv p"
  shows "\<exists>q. restart_exited_workers p =
      (Inr (\<exists>w \<in> set (pool_workers p). \<not> is_alive w), q) \<and>
     list_all2 (\<lambda>w w'. is_alive w' \<and> (is_alive w \<longrightarrow> w' = w)) (pool_workers p) (pool_workers q) \<and>
     set (pool_marked_dead q) =
       set (pool_marked_dead p) \<union> p_pid ` {w \<in> set (pool_workers p). \<not> is_alive w}"
  using restart_from_alive [OF assms, of 0 "pool_workers p"]
  by (auto simp: restart_exited_workers_def py_bind_apply py_get_apply list_ex_iff)

theorem maintenance_restores_pool_witness:
  "\<exists>q. restart_exited_workers \<lparr>pool_size = 1, pool_init_args = [[''a'']],
       pool_workers = [\<lparr>p_pid = 0, p_name = [], p_scripts = [''a''], p_exitcode = Some 1\<rparr>],
       pool_shutdown = False, pool_next_pid = 1, pool_marked_dead = []\<rparr> = (Inr True, q) \<and>
     list_all is_alive (pool_workers q) \<and> set (pool_marked_dead q) = {0}"
proof -
  let ?p = "\<lparr>pool_size = 1, pool_init_args = [[''a'']],
       pool_workers = [\<lparr>p_pid = 0, p_name = [], p_scripts = [''a''], p_exitcode = Some 1\<rparr>],
       pool_shutdown = False, pool_next_pid = 1, pool_marked_dead = []\<rparr>"
  have "pool_inv ?p" by (simp add: pool_inv_def)
  from maintenance_restores_pool [OF this] show ?thesis
    by (auto simp: is_alive_def list_all2_Cons1 Collect_conv_if)
qed

end
