(* ===== verification/OsPath.thy ===== *)
theory OsPath
  imports PyStr
begin

text \<open>
  Paths as the code manipulates them: \<open>os.path\<close> (posix flavour) on strings and the pure part
  of \<open>pathlib.Path\<close> that the code uses. These functions never look at the file system.
\<close>

abbreviation slash :: char where "slash \<equiv> CHR ''/''"

definition path_join :: "string \<Rightarrow> string \<Rightarrow> string" where
  "path_join a b = (if startswith b [slash] then b
     else if a = [] \<or> endswith a [slash] then a @ b else a @ [slash] @ b)"

definition path_joins :: "string \<Rightarrow> string list \<Rightarrow> string" where
  "path_joins a bs = foldl path_join a bs"

definition basename :: "string \<Rightarrow> string" where
  "basename p = rev (takeWhile (\<lambda>c. c \<noteq> slash) (rev p))"

text \<open>The part of a path up to and including the last separator.\<close>

definition path_head :: "string \<Rightarrow> string" where
  "path_head p = rev (dropWhile (\<lambda>c. c \<noteq> slash) (rev p))"

definition dirname :: "string \<Rightarrow> string" where
  "dirname p = (let head = path_head p
     in if list_all (\<lambda>c. c = slash) head then head else str_rstrip slash head)"

text \<open>
  \<open>os.path.splitext\<close>: the last dot of the base name starts the extension, unless only dots
  precede it in the base name.
\<close>

definition base_ext :: "string \<Rightarrow> string \<times> string" where
  "base_ext b = (if CHR ''.'' \<in> set b
     then (let ext = CHR ''.'' # rev (takeWhile (\<lambda>c. c \<noteq> CHR ''.'') (rev b));
               root = take (length b - length ext) b
           in if list_ex (\<lambda>c. c \<noteq> CHR ''.'') root then (root, ext) else (b, []))
     else (b, []))"

definition splitext :: "string \<Rightarrow> string \<times> string" where
  "splitext p = (let (root, ext) = base_ext (basename p) in (path_head p @ root, ext))"

fun norm_comps :: "bool \<Rightarrow> string list \<Rightarrow> string list \<Rightarrow> string list" where
  "norm_comps absolute acc [] = rev acc"
| "norm_comps absolute acc (c # cs) =
     (if c = [] \<or> c = ''.'' then norm_comps absolute acc cs
      else if c \<noteq> ''..'' \<or> (\<not> absolute \<and> acc = []) \<or> (acc \<noteq> [] \<and> hd acc = ''..'')
      then norm_comps absolute (c # acc) cs
      else norm_comps absolute (tl acc) cs)"

definition normpath :: "string \<Rightarrow> string" where
  "normpath p = (if p = [] then ''.''
     else let initial = (if startswith p ''//'' \<and> \<not> startswith p ''///'' then ''//''
                         else if startswith p ''/'' then ''/'' else []);
              path = initial @ str_join ''/'' (norm_comps (initial \<noteq> []) [] (str_split slash p))
          in if path = [] then ''.'' else path)"

definition abspath :: "string \<Rightarrow> string \<Rightarrow> string" where
  "abspath cwd p = normpath (if startswith p ''/'' then p else path_join cwd p)"

section \<open>pathlib\<close>

text \<open>The name components of \<open>Path(p)\<close>: empty and single-dot components are dropped.\<close>

definition path_parts :: "string \<Rightarrow> string list" where
  "path_parts p = filter (\<lambda>c. c \<noteq> [] \<and> c \<noteq> ''.'') (str_split slash p)"

definition Path_name :: "string \<Rightarrow> string" where
  "Path_name p = (case rev (path_parts p) of [] \<Rightarrow> [] | c # _ \<Rightarrow> c)"

text \<open>Splitting a name at its last dot; \<open>None\<close> unless the dot is strictly inside the name.\<close>

definition name_split :: "string \<Rightarrow> (string \<times> string) option" where
  "name_split n =
     (let after = rev (takeWhile (\<lambda>c. c \<noteq> CHR ''.'') (rev n));
          i = length n - length after - 1
      in if CHR ''.'' \<in> set n \<and> 0 < i \<and> after \<noteq> [] then Some (take i n, drop i n) else None)"

definition Path_suffix :: "string \<Rightarrow> string" where
  "Path_suffix p = (case name_split (Path_name p) of None \<Rightarrow> [] | Some (_, e) \<Rightarrow> e)"

definition Path_stem :: "string \<Rightarrow> string" where
  "Path_stem p = (case name_split (Path_name p) of None \<Rightarrow> Path_name p | Some (s, _) \<Rightarrow> s)"

definition Path_suffixes :: "string \<Rightarrow> string list" where
  "Path_suffixes p = (let n = Path_name p in
     if endswith n ''.'' then []
     else map (\<lambda>s. CHR ''.'' # s) (tl (str_split (CHR ''.'') (str_lstrip (CHR ''.'') n))))"

text \<open>\<open>str(Path(p))\<close> and \<open>str(Path(p).parent / name)\<close>.\<close>

definition path_root :: "string \<Rightarrow> string" where
  "path_root p = (if startswith p ''//'' \<and> \<not> startswith p ''///'' then ''//''
                  else if startswith p ''/'' then ''/'' else [])"

definition Path_str :: "string \<Rightarrow> string list \<Rightarrow> string" where
  "Path_str root parts = (if root = [] \<and> parts = [] then ''.'' else root @ str_join ''/'' parts)"

definition Path_with_name :: "string \<Rightarrow> string \<Rightarrow> string" where
  "Path_with_name p n = Path_str (path_root p) (butlast (path_parts p) @ [n])"

section \<open>Lemmas\<close>

lemma path_head_basename: "path_head p @ basename p = p"
  by (metis basename_def path_head_def rev_append rev_rev_ident takeWhile_dropWhile_id)

lemma basename_no_slash [simp]: "slash \<notin> set (basename p)"
  by (auto simp: basename_def dest: set_takeWhileD)

lemma basename_snoc:
  assumes "slash \<notin> set b"
  shows "basename (d @ [slash] @ b) = b"
proof -
  have "takeWhile (\<lambda>c. c \<noteq> slash) (rev b @ slash # rev d) = rev b"
    using assms by (subst takeWhile_append2) auto
  then show ?thesis by (simp add: basename_def)
qed

lemma path_head_snoc: "slash \<notin> set b \<Longrightarrow> path_head (d @ [slash] @ b) = d @ [slash]"
  using path_head_basename [of "d @ [slash] @ b"] by (simp add: basename_snoc [simplified])

lemma path_join_ne: "path_join a b \<noteq> [] \<longleftrightarrow> a \<noteq> [] \<or> b \<noteq> []"
  by (auto simp: path_join_def)

lemma path_join_dir:
  assumes "\<not> startswith b [slash]" and "a \<noteq> []" and "\<not> endswith a [slash]"
  shows "path_join a b = a @ [slash] @ b"
  using assms by (simp add: path_join_def)

text \<open>Extension and root put together give the name back, whatever the dots in it.\<close>

lemma ext_of_rev:
  assumes "c \<in> set b"
  defines "ext \<equiv> c # rev (takeWhile (\<lambda>x. x \<noteq> c) (rev b))"
  shows "take (length b - length ext) b @ ext = b"
proof -
  have "takeWhile (\<lambda>x. x \<noteq> c) (rev b) @ dropWhile (\<lambda>x. x \<noteq> c) (rev b) = rev b"
    by (rule takeWhile_dropWhile_id)
  moreover have ne: "dropWhile (\<lambda>x. x \<noteq> c) (rev b) \<noteq> []" using assms(1) by auto
  then obtain ys where ys: "dropWhile (\<lambda>x. x \<noteq> c) (rev b) = c # ys"
    by (metis (mono_tags, lifting) hd_dropWhile list.exhaust_sel)
  ultimately have "rev b = takeWhile (\<lambda>x. x \<noteq> c) (rev b) @ c # ys" by simp
  then have "b = rev ys @ ext"
    unfolding ext_def by (metis append.assoc append_Cons append_Nil rev.simps(2) rev_append rev_rev_ident)
  then show ?thesis by (metis append_eq_conv_conj append_take_drop_id diff_add_inverse2 length_append)
qed

lemma base_ext_append: "fst (base_ext b) @ snd (base_ext b) = b"
  using ext_of_rev [of "CHR ''.''" b] by (auto simp: base_ext_def Let_def)

lemma splitext_append: "fst (splitext p) @ snd (splitext p) = p"
  using base_ext_append [of "basename p"] path_head_basename [of p]
  by (simp add: splitext_def split_beta Let_def)

lemma str_split_no_sep: "c \<notin> set s \<Longrightarrow> str_split c s = [s]"
  by (induction s) auto

lemma str_split_append:
  "c \<notin> set s \<Longrightarrow> str_split c (s @ c # t) = s # str_split c t"
  by (induction s) auto

lemma set_str_split: "w \<in> set (str_split c s) \<Longrightarrow> c \<notin> set w"
proof (induction s arbitrary: w)
  case (Cons x xs)
  then show ?case by (cases "str_split c xs") (auto split: if_splits)
qed simp

lemma str_split_snoc: "c \<notin> set t \<Longrightarrow> str_split c (s @ c # t) = str_split c s @ [t]"
proof (induction s)
  case (Cons x xs)
  then show ?case by (cases "str_split c xs") auto
qed (simp add: str_split_no_sep)

end
