(* ===== verification/Filesystem.thy ===== *)
theory Filesystem
  imports OsPath PyDict
begin

text \<open>
  The file system the client scripts work on: a tree of directories and regular files without
  links, entries of a directory in the order a scan returns them. Paths are strings; they are
  resolved from the root, empty and single-dot components are skipped and \<open>..\<close> goes up.
  Operations that the operating system can refuse return an \<open>OSError\<close> with its error number.
\<close>

datatype fnode = FFile string | FDir "(string \<times> fnode) list"

section \<open>Trees addressed by lists of names\<close>

fun fs_at :: "fnode \<Rightarrow> string list \<Rightarrow> fnode option" where
  "fs_at n [] = Some n"
| "fs_at (FFile c) (x # xs) = None"
| "fs_at (FDir es) (x # xs) = (case map_of es x of None \<Rightarrow> None | Some n \<Rightarrow> fs_at n xs)"

text \<open>Binding or unbinding a path; \<open>None\<close> when its parent is not a directory.\<close>

fun fs_put :: "string list \<Rightarrow> fnode option \<Rightarrow> fnode \<Rightarrow> fnode option" where
  "fs_put [] v n = None"
| "fs_put (x # xs) v (FFile c) = None"
| "fs_put (x # xs) v (FDir es) =
     (if xs = [] then Some (FDir (case v of None \<Rightarrow> dict_del es x | Some n \<Rightarrow> dict_set es x n))
      else (case map_of es x of
              None \<Rightarrow> None
            | Some n \<Rightarrow> map_option (\<lambda>n'. FDir (dict_set es x n')) (fs_put xs v n)))"

fun mk_chain :: "string list \<Rightarrow> fnode" where
  "mk_chain [] = FDir []"
| "mk_chain (x # xs) = FDir [(x, mk_chain xs)]"

text \<open>Creating a directory and its missing ancestors; \<open>None\<close> when a file is in the way.\<close>

fun mk_dirs :: "string list \<Rightarrow> fnode \<Rightarrow> fnode option" where
  "mk_dirs [] (FDir es) = Some (FDir es)"
| "mk_dirs xs (FFile c) = None"
| "mk_dirs (x # xs) (FDir es) =
     (case map_of es x of
        None \<Rightarrow> Some (FDir (dict_set es x (mk_chain xs)))
      | Some n \<Rightarrow> map_option (\<lambda>n'. FDir (dict_set es x n')) (mk_dirs xs n))"

section \<open>The operations of os, os.path and shutil\<close>

definition path_comps :: "string \<Rightarrow> string list" where
  "path_comps p = norm_comps True [] (str_split slash p)"

definition fs_node :: "fnode \<Rightarrow> string \<Rightarrow> fnode option" where
  "fs_node n p = (if p = [] then None else fs_at n (path_comps p))"

definition os_exists :: "fnode \<Rightarrow> string \<Rightarrow> bool" where
  "os_exists n p = (fs_node n p \<noteq> None)"

definition os_isfile :: "fnode \<Rightarrow> string \<Rightarrow> bool" where
  "os_isfile n p = (case fs_node n p of Some (FFile _) \<Rightarrow> True | _ \<Rightarrow> False)"

definition os_isdir :: "fnode \<Rightarrow> string \<Rightarrow> bool" where
  "os_isdir n p = (case fs_node n p of Some (FDir _) \<Rightarrow> True | _ \<Rightarrow> False)"

definition ENOENT :: py_exn where "ENOENT = OSError 2 ''No such file or directory''"
definition EEXIST :: py_exn where "EEXIST = OSError 17 ''File exists''"
definition ENOTDIR :: py_exn where "ENOTDIR = OSError 20 ''Not a directory''"
definition EISDIR :: py_exn where "EISDIR = OSError 21 ''Is a directory''"

definition os_listdir :: "fnode \<Rightarrow> string \<Rightarrow> py_exn + string list" where
  "os_listdir n p = (case fs_node n p of
      None \<Rightarrow> Inl ENOENT | Some (FFile _) \<Rightarrow> Inl ENOTDIR | Some (FDir es) \<Rightarrow> Inr (map fst es))"

definition read_file :: "fnode \<Rightarrow> string \<Rightarrow> py_exn + string" where
  "read_file n p = (case fs_node n p of
      None \<Rightarrow> Inl ENOENT | Some (FDir _) \<Rightarrow> Inl EISDIR | Some (FFile c) \<Rightarrow> Inr c)"

text \<open>\<open>os.path.getsize\<close>; the size of a directory is not used by the code and taken as 0.\<close>

definition os_getsize :: "fnode \<Rightarrow> string \<Rightarrow> py_exn + int" where
  "os_getsize n p = (case fs_node n p of
      None \<Rightarrow> Inl ENOENT | Some (FDir _) \<Rightarrow> Inr 0 | Some (FFile c) \<Rightarrow> Inr (int (length c)))"

definition os_makedirs :: "string \<Rightarrow> fnode \<Rightarrow> py_exn + fnode" where
  "os_makedirs p n = (if os_exists n p then Inl EEXIST
     else case mk_dirs (path_comps p) n of None \<Rightarrow> Inl ENOTDIR | Some n' \<Rightarrow> Inr n')"

definition os_remove :: "string \<Rightarrow> fnode \<Rightarrow> py_exn + fnode" where
  "os_remove p n = (case fs_node n p of
      None \<Rightarrow> Inl ENOENT
    | Some (FDir _) \<Rightarrow> Inl EISDIR
    | Some (FFile _) \<Rightarrow>
        (case fs_put (path_comps p) None n of None \<Rightarrow> Inl ENOENT | Some n' \<Rightarrow> Inr n'))"

definition shutil_rmtree :: "string \<Rightarrow> fnode \<Rightarrow> py_exn + fnode" where
  "shutil_rmtree p n = (case fs_node n p of
      None \<Rightarrow> Inl ENOENT
    | Some (FFile _) \<Rightarrow> Inl ENOTDIR
    | Some (FDir _) \<Rightarrow>
        (case fs_put (path_comps p) None n of None \<Rightarrow> Inl ENOENT | Some n' \<Rightarrow> Inr n'))"

definition write_file :: "string \<Rightarrow> string \<Rightarrow> fnode \<Rightarrow> py_exn + fnode" where
  "write_file p c n = (if os_isdir n p then Inl EISDIR
     else case fs_put (path_comps p) (Some (FFile c)) n of None \<Rightarrow> Inl ENOENT | Some n' \<Rightarrow> Inr n')"

text \<open>
  Taking the node at \<open>src\<close> away and binding it at \<open>dst\<close>. When the parent of \<open>dst\<close> is missing,
  a directory is copied there by \<open>shutil\<close>, which creates the missing parents.
\<close>

definition fs_rename :: "string list \<Rightarrow> string list \<Rightarrow> fnode \<Rightarrow> fnode \<Rightarrow> py_exn + fnode" where
  "fs_rename src dst node n =
     (case fs_put src None n of
        None \<Rightarrow> Inl ENOENT
      | Some n1 \<Rightarrow>
          (case fs_put dst (Some node) n1 of
             Some n2 \<Rightarrow> Inr n2
           | None \<Rightarrow>
               (case node of
                  FFile _ \<Rightarrow> Inl ENOENT
                | FDir _ \<Rightarrow>
                    (case mk_dirs (butlast dst) n1 of
                       None \<Rightarrow> Inl ENOTDIR
                     | Some n2 \<Rightarrow>
                         (case fs_put dst (Some node) n2 of
                            None \<Rightarrow> Inl ENOTDIR | Some n3 \<Rightarrow> Inr n3)))))"

text \<open>The path \<open>shutil.move\<close> really moves to: inside \<open>dst\<close> when that is a directory.\<close>

definition move_target :: "fnode \<Rightarrow> string \<Rightarrow> string \<Rightarrow> string list" where
  "move_target n src dst =
     (if os_isdir n dst \<and> path_comps src \<noteq> path_comps dst
      then path_comps dst @ [basename (str_rstrip slash src)] else path_comps dst)"

definition shutil_move :: "string \<Rightarrow> string \<Rightarrow> fnode \<Rightarrow> py_exn + fnode" where
  "shutil_move src dst n =
     (let s = path_comps src; d = move_target n src dst in
      case fs_node n src of
        None \<Rightarrow> Inl ENOENT
      | Some node \<Rightarrow>
          if s = d then Inr n
          else if os_isdir n dst \<and> fs_at n d \<noteq> None
          then Inl (OSError 0 (''Destination path already exists''))
          else if take (length s) d = s \<and> (case node of FDir _ \<Rightarrow> True | FFile _ \<Rightarrow> False)
          then Inl (OSError 0 ''Cannot move a directory into itself'')
          else (case (node, fs_at n d) of
                  (FDir _, Some _) \<Rightarrow> Inl EEXIST
                | _ \<Rightarrow> fs_rename s d node n))"

text \<open>\<open>os.walk\<close>, top down: per directory its path, the directories and the files in it.\<close>

fun node_is_dir :: "fnode \<Rightarrow> bool" where
  "node_is_dir (FDir _) = True"
| "node_is_dir (FFile _) = False"

fun walk_node :: "string \<Rightarrow> fnode \<Rightarrow> (string \<times> string list \<times> string list) list"
and walk_entries :: "string \<Rightarrow> (string \<times> fnode) list \<Rightarrow> (string \<times> string list \<times> string list) list"
where
  "walk_node d (FFile c) = []"
| "walk_node d (FDir es) =
     (d, map fst (filter (\<lambda>e. node_is_dir (snd e)) es),
         map fst (filter (\<lambda>e. \<not> node_is_dir (snd e)) es)) # walk_entries d es"
| "walk_entries d [] = []"
| "walk_entries d ((x, n) # es) = walk_node (path_join d x) n @ walk_entries d es"

definition os_walk :: "fnode \<Rightarrow> string \<Rightarrow> (string \<times> string list \<times> string list) list" where
  "os_walk n p = (case fs_node n p of None \<Rightarrow> [] | Some m \<Rightarrow> walk_node p m)"

section \<open>Laws of the tree\<close>

lemma fs_at_append:
  "fs_at n (p @ q) = (case fs_at n p of None \<Rightarrow> None | Some m \<Rightarrow> fs_at m q)"
  by (induction n p rule: fs_at.induct) (auto split: option.splits)

lemma fs_put_Some_iff:
  "fs_put p v n \<noteq> None \<longleftrightarrow> p \<noteq> [] \<and> (\<exists>es. fs_at n (butlast p) = Some (FDir es))"
proof (induction p v n rule: fs_put.induct)
  case (3 x xs v es)
  then show ?case by (cases xs) (auto split: option.splits)
next
  case (2 x xs v c)
  then show ?case by (cases xs) auto
qed simp

lemma fs_at_put_below:
  "fs_put p v n = Some n' \<Longrightarrow>
     fs_at n' (p @ q) = (case v of None \<Rightarrow> None | Some m \<Rightarrow> fs_at m q)"
proof (induction p v n arbitrary: n' rule: fs_put.induct)
  case (3 x xs v es)
  then show ?case
    by (cases "xs = []") (auto simp: map_of_dict_set map_of_dict_del split: option.splits)
qed simp_all

lemma fs_at_put_other:
  "fs_put p v n = Some n' \<Longrightarrow> \<not> (\<exists>r. q = p @ r) \<Longrightarrow> \<not> (\<exists>r. p = q @ r) \<Longrightarrow>
     fs_at n' q = fs_at n q"
proof (induction p v n arbitrary: n' q rule: fs_put.induct)
  case (3 x xs v es)
  show ?case
  proof (cases q)
    case (Cons y ys)
    show ?thesis
    proof (cases "x = y \<and> xs \<noteq> []")
      case True
      with 3 Cons show ?thesis by (auto simp: map_of_dict_set split: option.splits)
    next
      case False
      with 3 Cons show ?thesis
        by (auto simp: map_of_dict_set map_of_dict_del split: option.splits if_splits)
    qed
  qed (use 3 in simp)
qed simp_all

text \<open>Above the changed path, what was a directory stays one.\<close>

lemma fs_at_put_above:
  "fs_put (p @ r) v n = Some n' \<Longrightarrow> r \<noteq> [] \<Longrightarrow> \<exists>es. fs_at n' p = Some (FDir es)"
proof (induction p arbitrary: n n')
  case Nil
  then show ?case by (cases r; cases n) (auto split: option.splits if_splits)
next
  case (Cons x xs)
  then show ?case by (cases n) (auto simp: map_of_dict_set split: option.splits if_splits)
qed

lemma fs_at_put_same: "fs_put p v n = Some n' \<Longrightarrow> fs_at n' p = v"
  using fs_at_put_below [of p v n n' "[]"] by (simp split: option.splits)

section \<open>The contract of a tree store\<close>

locale tree_store =
  fixes at_path :: "'n \<Rightarrow> 'c list \<Rightarrow> 'n option"
    and put :: "'c list \<Rightarrow> 'n option \<Rightarrow> 'n \<Rightarrow> 'n option"
  assumes put_below: "put p v n = Some n' \<Longrightarrow>
      at_path n' (p @ q) = (case v of None \<Rightarrow> None | Some m \<Rightarrow> at_path m q)"
    and put_other: "put p v n = Some n' \<Longrightarrow> \<not> (\<exists>r. q = p @ r) \<Longrightarrow> \<not> (\<exists>r. p = q @ r) \<Longrightarrow>
      at_path n' q = at_path n q"
    and at_root: "at_path n [] = Some n"
begin

lemma put_same: "put p v n = Some n' \<Longrightarrow> at_path n' p = v"
  using put_below [of p v n n' "[]"] by (simp add: at_root split: option.splits)

text \<open>
  A move between two paths that do not contain each other binds the new path to the old node,
  unbinds the old one and leaves every unrelated path alone.
\<close>

lemma move_paths:
  assumes "put src None n = Some n1" and "put dst (Some m) n1 = Some n2"
    and "\<not> (\<exists>r. dst = src @ r)" and "\<not> (\<exists>r. src = dst @ r)"
  shows "at_path n2 (dst @ q) = at_path m q" and "at_path n2 (src @ q) = None"
    and "\<lbrakk>\<not> (\<exists>r. p = src @ r); \<not> (\<exists>r. src = p @ r); \<not> (\<exists>r. p = dst @ r); \<not> (\<exists>r. dst = p @ r)\<rbrakk>
      \<Longrightarrow> at_path n2 p = at_path n p"
proof -
  show "at_path n2 (dst @ q) = at_path m q" using put_below [OF assms(2)] by simp
  have "\<not> (\<exists>r. src @ q = dst @ r)" and "\<not> (\<exists>r. dst = (src @ q) @ r)"
    using assms(3,4) by (auto simp: append_eq_append_conv2)
  then have "at_path n2 (src @ q) = at_path n1 (src @ q)" by (rule put_other [OF assms(2)])
  then show "at_path n2 (src @ q) = None" using put_below [OF assms(1)] by simp
  show "at_path n2 p = at_path n p"
    if "\<not> (\<exists>r. p = src @ r)" "\<not> (\<exists>r. src = p @ r)" "\<not> (\<exists>r. p = dst @ r)" "\<not> (\<exists>r. dst = p @ r)"
    using put_other [OF assms(1) that(1,2)] put_other [OF assms(2) that(3,4)] by simp
qed

end

interpretation fs_tree: tree_store fs_at fs_put
  by unfold_locales (simp_all add: fs_at_put_below fs_at_put_other)

section \<open>Creating directories\<close>

lemma fs_at_chain: "fs_at (mk_chain p) p = Some (FDir [])"
  by (induction p) auto

lemma mk_dirs_isdir: "mk_dirs p n = Some n' \<Longrightarrow> \<exists>es. fs_at n' p = Some (FDir es)"
proof (induction p n arbitrary: n' rule: mk_dirs.induct)
  case (3 x xs es)
  then show ?case
    by (auto simp: map_of_dict_set fs_at_chain split: option.splits)
qed auto

text \<open>Files, and the directories there were, are still there.\<close>

lemma mk_dirs_keeps_file: "mk_dirs p n = Some n' \<Longrightarrow> fs_at n q = Some (FFile c) \<Longrightarrow> fs_at n' q = Some (FFile c)"
proof (induction p n arbitrary: n' q rule: mk_dirs.induct)
  case (3 x xs es)
  then show ?case
    by (cases q) (auto simp: map_of_dict_set split: option.splits if_splits)
qed auto

lemma mk_dirs_keeps_dir:
  "mk_dirs p n = Some n' \<Longrightarrow> fs_at n q = Some (FDir es) \<Longrightarrow> \<exists>es'. fs_at n' q = Some (FDir es')"
proof (induction p n arbitrary: n' q es rule: mk_dirs.induct)
  case (3 x xs es)
  then show ?case
    by (cases q) (auto simp: map_of_dict_set split: option.splits if_splits)
qed auto

text \<open>Directories are created unless an ancestor is a file.\<close>

lemma mk_dirs_fails:
  "mk_dirs p n = None \<longleftrightarrow> (\<exists>q r c. p = q @ r \<and> fs_at n q = Some (FFile c))"
proof (induction p n rule: mk_dirs.induct)
  case (3 x xs es)
  show ?case
  proof (cases "map_of es x")
    case None
    have "fs_at (FDir es) q \<noteq> Some (FFile c)" if "x # xs = q @ r" for q r c
      using None that by (cases q) auto
    with None show ?thesis by auto
  next
    case (Some n)
    have "(\<exists>q r c. x # xs = q @ r \<and> fs_at (FDir es) q = Some (FFile c)) \<longleftrightarrow>
        (\<exists>q r c. xs = q @ r \<and> fs_at n q = Some (FFile c))"
      using Some by (auto simp: Cons_eq_append_conv) (metis append_Cons fs_at.simps(3) option.simps(5))+
    with 3 Some show ?thesis by simp
  qed
next
  case (2 xs c)
  have "fs_at (FFile c) [] = Some (FFile c)" by simp
  then show ?case by (metis append_Nil mk_dirs.simps(2))
qed auto

section \<open>Walking\<close>

fun count_files :: "fnode \<Rightarrow> nat" where
  "count_files (FFile c) = 1"
| "count_files (FDir es) = sum_list (map (\<lambda>e. count_files (snd e)) es)"

lemma walk_counts:
  "sum_list (map (\<lambda>(_, _, files). length files) (walk_node d n)) = (if node_is_dir n then count_files n else 0)"
  "sum_list (map (\<lambda>(_, _, files). length files) (walk_entries d es)) +
     length (filter (\<lambda>e. \<not> node_is_dir (snd e)) es) = sum_list (map (\<lambda>e. count_files (snd e)) es)"
proof (induction d n and d es rule: walk_node_walk_entries.induct)
  case (4 d x n es)
  then show ?case by (cases n) auto
qed auto

section \<open>Resolving a path below a directory\<close>

definition plain_name :: "string \<Rightarrow> bool" where
  "plain_name c = (c \<noteq> [] \<and> c \<noteq> ''.'' \<and> c \<noteq> ''..'' \<and> slash \<notin> set c)"

lemma norm_comps_append:
  "norm_comps True acc (xs @ ys) = norm_comps True (rev (norm_comps True acc xs)) ys"
  by (induction True acc xs rule: norm_comps.induct) auto

lemma norm_comps_no_dots: "''..'' \<notin> set acc \<Longrightarrow> ''..'' \<notin> set (norm_comps True acc xs)"
proof (induction True acc xs rule: norm_comps.induct)
  case (2 acc c cs)
  then show ?case by (cases acc) auto
qed simp

lemma path_comps_snoc:
  assumes "slash \<notin> set c"
  shows "path_comps (d @ [slash] @ c) = (if c = [] \<or> c = ''.'' then path_comps d
     else if c = ''..'' then butlast (path_comps d) else path_comps d @ [c])"
proof -
  have "str_split slash (d @ [slash] @ c) = str_split slash d @ [c]"
    using str_split_snoc [OF assms, of d] by simp
  then have "path_comps (d @ [slash] @ c) = norm_comps True (rev (path_comps d)) [c]"
    by (simp add: path_comps_def norm_comps_append)
  moreover have "''..'' \<notin> set (path_comps d)" by (simp add: path_comps_def norm_comps_no_dots)
  then have "\<not> (rev (path_comps d) \<noteq> [] \<and> hd (rev (path_comps d)) = ''..'')"
    by (metis list.set_sel(1) set_rev)
  moreover have "rev (tl (rev (path_comps d))) = butlast (path_comps d)"
    by (cases "path_comps d" rule: rev_cases) auto
  ultimately show ?thesis by auto
qed

lemma path_comps_child: "plain_name c \<Longrightarrow> path_comps (d @ [slash] @ c) = path_comps d @ [c]"
  by (simp add: path_comps_snoc plain_name_def del: append.simps)

lemma fs_at_butlast: "fs_at n p = Some m \<Longrightarrow> \<exists>m'. fs_at n (butlast p) = Some m'"
  by (cases p rule: rev_cases) (auto simp: fs_at_append split: option.splits)

text \<open>Below a directory exactly its entries exist, besides the names that denote directories above.\<close>

lemma os_exists_child:
  assumes "fs_at n (path_comps d) = Some (FDir es)" and "slash \<notin> set c"
  shows "os_exists n (d @ [slash] @ c) \<longleftrightarrow> \<not> plain_name c \<or> c \<in> fst ` set es"
proof (cases "plain_name c")
  case True
  have "fs_at n (path_comps d @ [c]) \<noteq> None \<longleftrightarrow> c \<in> fst ` set es"
    using assms(1) by (auto simp: fs_at_append map_of_eq_None_iff split: option.splits)
      (metis domI dom_map_of_conv_image_fst)
  with True show ?thesis
    by (simp add: os_exists_def fs_node_def path_comps_child del: append.simps)
next
  case False
  then have "path_comps (d @ [slash] @ c) \<in> {path_comps d, butlast (path_comps d)}"
    using assms(2) by (auto simp: path_comps_snoc plain_name_def simp del: append.simps)
  then have "fs_at n (path_comps (d @ [slash] @ c)) \<noteq> None"
    using assms(1) fs_at_butlast [OF assms(1)] by auto
  with False show ?thesis by (simp add: os_exists_def fs_node_def)
qed

text \<open>Renaming an entry of a directory to a name that is free there.\<close>

lemma shutil_move_sibling:
  assumes d: "fs_at n (path_comps d) = Some (FDir es)" and b: "plain_name b" "map_of es b = Some node"
    and c: "slash \<notin> set c" "\<not> os_exists n (d @ [slash] @ c)"
  shows "\<exists>n'. shutil_move (d @ [slash] @ b) (d @ [slash] @ c) n = Inr n' \<and>
     fs_node n' (d @ [slash] @ c) = Some node \<and> fs_node n' (d @ [slash] @ b) = None \<and>
     (\<forall>x q. x \<noteq> b \<and> x \<noteq> c \<longrightarrow> fs_at n' (path_comps d @ x # q) = fs_at n (path_comps d @ x # q))"
proof -
  let ?D = "path_comps d"
  have plain: "plain_name c" and new: "c \<notin> fst ` set es" using c os_exists_child [OF d c(1)] by auto
  have src: "path_comps (d @ [slash] @ b) = ?D @ [b]" and dst: "path_comps (d @ [slash] @ c) = ?D @ [c]"
    using b(1) plain by (simp_all only: path_comps_child)
  have ne: "b \<noteq> c" using b(2) new by (metis domI dom_map_of_conv_image_fst)
  have "map_of es c = None" using new by (simp add: map_of_eq_None_iff)
  then have at: "fs_at n (?D @ [b]) = Some node" "fs_at n (?D @ [c]) = None"
    using d b(2) by (simp_all add: fs_at_append)
  obtain n1 where n1: "fs_put (?D @ [b]) None n = Some n1"
    using fs_put_Some_iff [of "?D @ [b]" None n] d by auto
  obtain es1 where "fs_at n1 ?D = Some (FDir es1)" using fs_at_put_above [OF n1] by auto
  then obtain n2 where n2: "fs_put (?D @ [c]) (Some node) n1 = Some n2"
    using fs_put_Some_iff [of "?D @ [c]" "Some node" n1] by auto
  have "shutil_move (d @ [slash] @ b) (d @ [slash] @ c) n = Inr n2"
    using at ne n1 n2
    by (cases node) (simp_all add: shutil_move_def move_target_def os_isdir_def fs_node_def src dst
        fs_rename_def Let_def del: append.simps)
  moreover have "\<not> (\<exists>r. ?D @ [c] = (?D @ [b]) @ r)" "\<not> (\<exists>r. ?D @ [b] = (?D @ [c]) @ r)" using ne by auto
  note mv = fs_tree.move_paths [OF n1 n2 this]
  have "fs_at n2 (?D @ [c]) = Some node" "fs_at n2 (?D @ [b]) = None"
    using mv(1) [of "[]"] mv(2) [of "[]"] by simp_all
  moreover have "fs_at n2 (?D @ x # q) = fs_at n (?D @ x # q)" if "x \<noteq> b" "x \<noteq> c" for x q
    using that by (intro mv(3)) auto
  ultimately show ?thesis by (simp add: fs_node_def src dst del: append.simps)
qed

end
