(* ===== verification/Models.thy ===== *)
theory Models
  imports Jobs Filesystem
begin

text \<open>
  The database tables the client scripts read and write (\<open>main/models.py\<close>) and the state they
  run in. A table is the list of its rows in primary-key or insertion order. Rows keep the
  fields of the Django models; binary columns and text are both \<open>string\<close> (a path is stored
  encoded and read back decoded, which is the identity here), foreign keys hold the key they
  point to, a many-to-many field holds the keys of the related rows.

  Django's queries become filters over the rows; writes check the primary key, unique columns
  and foreign keys as MySQL does and raise \<open>IntegrityError\<close>.
\<close>

section \<open>Rows\<close>

record file_row =
  f_uuid :: string
  f_sip :: "string option"
  f_transfer :: "string option"
  f_originallocation :: string
  f_currentlocation :: "string option"
  f_filegrpuse :: string
  f_filegrpuuid :: string
  f_checksum :: string
  f_checksumtype :: string
  f_size :: "int option"
  f_label :: string
  f_modificationtime :: "datetime option"
  f_enteredsystem :: datetime
  f_removedtime :: "datetime option"
  f_identifiers :: "nat list"

record event_row =
  e_id :: nat
  e_event_id :: "string option"
  e_file_uuid :: "string option"
  e_event_type :: string
  e_event_datetime :: datetime
  e_event_detail :: string
  e_event_outcome :: string
  e_event_outcome_detail :: string
  e_agents :: "nat list"

record derivation_row =
  d_id :: nat
  d_source_file :: string
  d_derived_file :: string
  d_event :: "string option"

record sip_row =
  s_uuid :: string
  s_createdtime :: datetime
  s_currentpath :: "string option"
  s_hidden :: bool
  s_aip_filename :: "string option"
  s_sip_type :: string
  s_identifiers :: "nat list"
  s_diruuids :: bool
  s_status :: nat
  s_completed_at :: "datetime option"

record transfer_row =
  tr_uuid :: string
  tr_currentlocation :: string
  tr_type :: string
  tr_accessionid :: string
  tr_sourceofacquisition :: string
  tr_typeoftransfer :: string
  tr_description :: string
  tr_notes :: string
  tr_access_system_id :: string
  tr_hidden :: bool
  tr_transfermetadatasetrow :: "string option"
  tr_diruuids :: bool
  tr_status :: nat
  tr_completed_at :: "datetime option"

record directory_row =
  dir_uuid :: string
  dir_sip :: "string option"
  dir_transfer :: "string option"
  dir_originallocation :: string
  dir_currentlocation :: "string option"
  dir_enteredsystem :: datetime
  dir_identifiers :: "nat list"

record agent_row =
  a_id :: nat
  a_identifiertype :: "string option"
  a_identifiervalue :: "string option"
  a_name :: "string option"
  a_agenttype :: string

record unit_variable_row =
  u_id :: string
  u_unittype :: "string option"
  u_unituuid :: "string option"
  u_variable :: "string option"
  u_variablevalue :: "string option"
  u_microservicechainlink :: "string option"
  u_createdtime :: datetime
  u_updatedtime :: datetime

record identifier_row =
  i_id :: nat
  i_type :: "string option"
  i_value :: "string option"

record setting_row =
  ds_id :: nat
  ds_scope :: string
  ds_name :: string
  ds_value :: string
  ds_lastmodified :: datetime

record command_output_row =
  o_id :: nat
  o_file :: string
  o_content :: "string option"
  o_rule :: string

section \<open>The state of a running script\<close>

record world = jstate +
  Files :: "file_row list"
  Events :: "event_row list"
  Derivations :: "derivation_row list"
  SIPs :: "sip_row list"
  Transfers :: "transfer_row list"
  Directories :: "directory_row list"
  Agents :: "agent_row list"
  UnitVariables :: "unit_variable_row list"
  Identifiers :: "identifier_row list"
  Settings :: "setting_row list"
  CommandOutputs :: "command_output_row list"
  FPRules :: "string list"
  next_pk :: nat
  clock :: nat
  uuids :: nat
  fs :: fnode

text \<open>
  What the scripts obtain from outside: successive readings of the clock, successive random
  UUIDs, the traceback text of an exception and the working directory.
\<close>

record env =
  env_now :: "nat \<Rightarrow> datetime"
  env_uuid4 :: "nat \<Rightarrow> string"
  env_traceback :: "py_exn \<Rightarrow> string"
  env_cwd :: string

definition now :: "env \<Rightarrow> ('s world_scheme, datetime) py" where
  "now E = (\<lambda>s. (Inr (env_now E (clock s)), s\<lparr>clock := Suc (clock s)\<rparr>))"

definition uuid4 :: "env \<Rightarrow> ('s world_scheme, string) py" where
  "uuid4 E = (\<lambda>s. (Inr (env_uuid4 E (uuids s)), s\<lparr>uuids := Suc (uuids s)\<rparr>))"

definition auto_pk :: "('s world_scheme, nat) py" where
  "auto_pk = (\<lambda>s. (Inr (next_pk s), s\<lparr>next_pk := Suc (next_pk s)\<rparr>))"

section \<open>Queries and writes on a table\<close>

text \<open>\<open>objects.get(...)\<close>: exactly one match.\<close>

definition get_one :: "string \<Rightarrow> 'r list \<Rightarrow> py_exn + 'r" where
  "get_one model rows = (case rows of
      [] \<Rightarrow> Inl (DoesNotExist model)
    | [r] \<Rightarrow> Inr r
    | _ \<Rightarrow> Inl (MultipleObjectsReturned model))"

text \<open>\<open>INSERT\<close>: refused when the key is taken or a foreign key dangles.\<close>

definition row_insert :: "('r \<Rightarrow> 'k) \<Rightarrow> bool \<Rightarrow> 'r \<Rightarrow> 'r list \<Rightarrow> py_exn + 'r list" where
  "row_insert key fks_ok r rows =
     (if key r \<in> key ` set rows then Inl (IntegrityError ''Duplicate entry'')
      else if \<not> fks_ok then Inl (IntegrityError ''Cannot add or update a child row'')
      else Inr (rows @ [r]))"

text \<open>\<open>UPDATE ... WHERE p\<close>.\<close>

definition row_update :: "('r \<Rightarrow> bool) \<Rightarrow> ('r \<Rightarrow> 'r) \<Rightarrow> 'r list \<Rightarrow> 'r list" where
  "row_update p f rows = map (\<lambda>r. if p r then f r else r) rows"

text \<open>\<open>save()\<close> of an object that was fetched: all columns of its row are overwritten; a row that
  is gone is inserted again.\<close>

definition row_save :: "('r \<Rightarrow> 'k) \<Rightarrow> 'r \<Rightarrow> 'r list \<Rightarrow> 'r list" where
  "row_save key r rows =
     (if key r \<in> key ` set rows then row_update (\<lambda>x. key x = key r) (\<lambda>_. r) rows else rows @ [r])"

locale keyed_table =
  fixes key :: "'r \<Rightarrow> 'k"
    and create :: "bool \<Rightarrow> 'r \<Rightarrow> 'r list \<Rightarrow> py_exn + 'r list"
    and save :: "'r \<Rightarrow> 'r list \<Rightarrow> 'r list"
  assumes create_ok: "create True r rows = Inr rows' \<longleftrightarrow> key r \<notin> key ` set rows \<and> rows' = rows @ [r]"
    and create_no_fk: "create False r rows \<noteq> Inr rows'"
    and save_old: "key r \<in> key ` set rows \<Longrightarrow>
      save r rows = map (\<lambda>x. if key x = key r then r else x) rows"
begin

lemma create_distinct:
  "create b r rows = Inr rows' \<Longrightarrow> distinct (map key rows) \<Longrightarrow> distinct (map key rows')"
  using create_ok create_no_fk by (cases b) auto

lemma save_keys: "key r \<in> key ` set rows \<Longrightarrow> map key (save r rows) = map key rows"
  by (simp add: save_old)

lemma save_row:
  "key r \<in> key ` set rows \<Longrightarrow>
     set (save r rows) = insert r {x \<in> set rows. key x \<noteq> key r}"
  by (auto simp: save_old)

end

lemma row_insert_table:
  "keyed_table key (row_insert key) (row_save key)"
  by unfold_locales (auto simp: row_insert_def row_save_def row_update_def)

interpretation file_table: keyed_table f_uuid "row_insert f_uuid" "row_save f_uuid"
  by (rule row_insert_table)

interpretation event_table: keyed_table e_id "row_insert e_id" "row_save e_id"
  by (rule row_insert_table)

interpretation sip_table: keyed_table s_uuid "row_insert s_uuid" "row_save s_uuid"
  by (rule row_insert_table)

interpretation directory_table: keyed_table dir_uuid "row_insert dir_uuid" "row_save dir_uuid"
  by (rule row_insert_table)

lemma now_apply [py_simps]: "now E s = (Inr (env_now E (clock s)), s\<lparr>clock := Suc (clock s)\<rparr>)"
  by (simp add: now_def)

lemma uuid4_apply [py_simps]: "uuid4 E s = (Inr (env_uuid4 E (uuids s)), s\<lparr>uuids := Suc (uuids s)\<rparr>)"
  by (simp add: uuid4_def)

lemma auto_pk_apply [py_simps]: "auto_pk s = (Inr (next_pk s), s\<lparr>next_pk := Suc (next_pk s)\<rparr>)"
  by (simp add: auto_pk_def)

lemma row_update_append: "row_update p f (xs @ ys) = row_update p f xs @ row_update p f ys"
  by (simp add: row_update_def)

lemma row_update_absent: "(\<And>x. x \<in> set rows \<Longrightarrow> \<not> p x) \<Longrightarrow> row_update p f rows = rows"
  by (simp add: row_update_def map_idI)

lemma row_update_sole: "p x \<Longrightarrow> row_update p f [x] = [f x]"
  by (simp add: row_update_def)

lemma get_one_cases:
  "get_one m rows = Inr r \<longleftrightarrow> rows = [r]"
  by (auto simp: get_one_def split: list.splits)

lemma filter_key_absent: "k \<notin> key ` set rows \<Longrightarrow> filter (\<lambda>x. key x = k) rows = []"
  by (auto simp: filter_empty_conv)

text \<open>With distinct keys, a row is found by its key.\<close>

lemma filter_key_unique:
  "distinct (map key rows) \<Longrightarrow> r \<in> set rows \<Longrightarrow> filter (\<lambda>x. key x = key r) rows = [r]"
proof (induction rows)
  case (Cons x xs)
  show ?case
  proof (cases "key x = key r")
    case True
    with Cons.prems have "r = x" by auto
    moreover have "key r \<notin> key ` set xs" using Cons.prems(1) True by simp
    then have "filter (\<lambda>y. key y = key r) xs = []" by (rule filter_key_absent)
    ultimately show ?thesis by simp
  next
    case False
    with Cons show ?thesis by auto
  qed
qed simp

end
