(* ===== verification/ModelMethods.thy ===== *)
theory ModelMethods
  imports Models
begin

text \<open>
  The methods and managers of the models (\<open>main/models.py\<close>): agents of a package, unit
  variables, settings dictionaries, custom identifiers, the directories of a unit and the
  status queries on packages.
\<close>

section \<open>Integers in text columns\<close>

text \<open>
  \<open>int(s)\<close> on a decimal text with optional sign and surrounding blanks; anything else is a
  \<open>ValueError\<close> (Python also admits underscores between digits, which no column holds).
\<close>

definition is_digit :: "char \<Rightarrow> bool" where
  "is_digit c = (48 \<le> (of_char c :: nat) \<and> (of_char c :: nat) \<le> 57)"

definition is_blank :: "char \<Rightarrow> bool" where
  "is_blank c = (c = CHR '' '' \<or> (9 \<le> (of_char c :: nat) \<and> (of_char c :: nat) \<le> 13))"

definition str_strip :: "string \<Rightarrow> string" where
  "str_strip s = rev (dropWhile is_blank (rev (dropWhile is_blank s)))"

definition digits_value :: "string \<Rightarrow> nat" where
  "digits_value s = foldl (\<lambda>n c. 10 * n + (of_char c - 48)) 0 s"

definition py_int :: "string \<Rightarrow> py_exn + int" where
  "py_int s =
     (let t = str_strip s;
          neg = startswith t ''-'';
          ds = (if neg \<or> startswith t ''+'' then tl t else t)
      in if ds \<noteq> [] \<and> list_all is_digit ds
         then Inr (if neg then - int (digits_value ds) else int (digits_value ds))
         else Inl (ValueError ''invalid literal for int() with base 10''))"

section \<open>Agents\<close>

definition DEFAULT_ORGANIZATION_AGENT_PK :: nat where
  "DEFAULT_ORGANIZATION_AGENT_PK = 2"

definition default_agents :: "agent_row \<Rightarrow> bool" where
  "default_agents a = (a_id a = DEFAULT_ORGANIZATION_AGENT_PK)"

definition default_organization_agent :: "('s world_scheme, agent_row) py" where
  "default_organization_agent =
     py_bind (py_get (\<lambda>s. filter (\<lambda>a. a_id a = DEFAULT_ORGANIZATION_AGENT_PK) (Agents s)))
       (\<lambda>rs. py_lift (get_one ''Agent'' rs))"

definition unit_variables_of ::
  "'s world_scheme \<Rightarrow> string \<Rightarrow> string \<Rightarrow> string \<Rightarrow> unit_variable_row list" where
  "unit_variables_of s unit_type unit_uuid variable =
     filter (\<lambda>u. u_unittype u = Some unit_type \<and> u_unituuid u = Some unit_uuid \<and>
                 u_variable u = Some variable) (UnitVariables s)"

definition get_unit_variable ::
  "string \<Rightarrow> string \<Rightarrow> string \<Rightarrow> ('s world_scheme, unit_variable_row) py" where
  "get_unit_variable unit_type unit_uuid variable =
     py_bind (py_get (\<lambda>s. unit_variables_of s unit_type unit_uuid variable))
       (\<lambda>rs. py_lift (get_one ''UnitVariable'' rs))"

text \<open>
  The property \<open>agents\<close> of \<open>SIP\<close> and \<open>Transfer\<close>, which differ only in the unit type: the
  default agent and the one named by the unit variable \<open>activeAgent\<close>. The queryset is read
  when it is iterated; every caller does so at once.
\<close>

definition missing_variable :: "py_exn \<Rightarrow> bool" where
  "missing_variable e = (case e of DoesNotExist _ \<Rightarrow> True | ValidationError _ \<Rightarrow> True | _ \<Rightarrow> False)"

definition unit_agents :: "string \<Rightarrow> string \<Rightarrow> ('s world_scheme, agent_row list) py" where
  "unit_agents unit_type unit_uuid =
     py_bind (py_try (py_bind (get_unit_variable unit_type unit_uuid ''activeAgent'')
                        (\<lambda>u. py_ret (Some u)))
                (\<lambda>e. if missing_variable e then Some (py_ret None) else None))
       (\<lambda>found.
         py_bind (case found of
             None \<Rightarrow> py_ret None
           | Some u \<Rightarrow> (case u_variablevalue u of
               None \<Rightarrow> py_ret None
             | Some v \<Rightarrow> py_bind (py_lift (py_int v)) (\<lambda>i. py_ret (Some i))))
           (\<lambda>active. py_get (\<lambda>s.
              filter (\<lambda>a. default_agents a \<or> active = Some (int (a_id a))) (Agents s))))"

definition SIP_agents :: "sip_row \<Rightarrow> ('s world_scheme, agent_row list) py" where
  "SIP_agents sip = unit_agents ''SIP'' (s_uuid sip)"

definition Transfer_agents :: "transfer_row \<Rightarrow> ('s world_scheme, agent_row list) py" where
  "Transfer_agents transfer = unit_agents ''Transfer'' (tr_uuid transfer)"

text \<open>\<open>event.agents.add(*agents)\<close>: agents not related yet are added; all must exist.\<close>

definition event_agents_add :: "nat \<Rightarrow> nat list \<Rightarrow> ('s world_scheme, unit) py" where
  "event_agents_add pk agents = (\<lambda>s.
     if list_all (\<lambda>i. i \<in> a_id ` set (Agents s)) agents
     then (Inr (), s\<lparr>Events := row_update (\<lambda>e. e_id e = pk)
            (\<lambda>e. e\<lparr>e_agents := e_agents e @
               filter (\<lambda>i. i \<notin> set (e_agents e)) (remdups agents)\<rparr>) (Events s)\<rparr>)
     else (Inl (IntegrityError ''Cannot add or update a child row''), s))"

section \<open>Unit variables\<close>

text \<open>
  \<open>update_or_create\<close> on the three identifying columns. Creating reads the clock for both
  timestamps and draws the primary key; updating refreshes \<open>updatedtime\<close>.
\<close>

definition update_variable ::
  "env \<Rightarrow> string \<Rightarrow> string \<Rightarrow> string \<Rightarrow> string \<Rightarrow> string option \<Rightarrow> ('s world_scheme, unit) py" where
  "update_variable E unit_type unit_uuid variable val link_id =
     py_bind (py_try (py_bind (get_unit_variable unit_type unit_uuid variable) (\<lambda>u. py_ret (Some u)))
                (\<lambda>e. case e of DoesNotExist _ \<Rightarrow> Some (py_ret None) | _ \<Rightarrow> None))
       (\<lambda>found. case found of
          Some u \<Rightarrow>
            py_bind (now E) (\<lambda>t.
            py_mod (\<lambda>s. s\<lparr>UnitVariables := row_save u_id
              (u\<lparr>u_variablevalue := Some val, u_microservicechainlink := link_id,
                 u_updatedtime := t\<rparr>) (UnitVariables s)\<rparr>))
        | None \<Rightarrow>
            py_bind (uuid4 E) (\<lambda>pk.
            py_bind (now E) (\<lambda>t1.
            py_bind (now E) (\<lambda>t2.
            py_bind (py_get (\<lambda>s. row_insert u_id True
                \<lparr>u_id = pk, u_unittype = Some unit_type, u_unituuid = Some unit_uuid,
                 u_variable = Some variable, u_variablevalue = Some val,
                 u_microservicechainlink = link_id, u_createdtime = t1, u_updatedtime = t2\<rparr>
                (UnitVariables s)))
              (\<lambda>r. py_bind (py_lift r) (\<lambda>rows. py_mod (\<lambda>s. s\<lparr>UnitVariables := rows\<rparr>)))))))"

definition set_partial_reingest :: "env \<Rightarrow> string \<Rightarrow> ('s world_scheme, unit) py" where
  "set_partial_reingest E unit_id =
     update_variable E ''SIP'' unit_id ''isPartialReingest'' ''true'' None"

definition is_partial_reingest :: "string \<Rightarrow> ('s world_scheme, bool) py" where
  "is_partial_reingest unit_id =
     py_get (\<lambda>s. unit_variables_of s ''SIP'' unit_id ''isPartialReingest'' \<noteq> [])"

definition unset_partial_reingest :: "string \<Rightarrow> ('s world_scheme, unit) py" where
  "unset_partial_reingest unit_id = py_mod (\<lambda>s. s\<lparr>UnitVariables :=
     filter (\<lambda>u. \<not> (u_unittype u = Some ''SIP'' \<and> u_unituuid u = Some unit_id \<and>
                    u_variable u = Some ''isPartialReingest'')) (UnitVariables s)\<rparr>)"

definition update_processing_configuration ::
  "env \<Rightarrow> string \<Rightarrow> string \<Rightarrow> string \<Rightarrow> ('s world_scheme, unit) py" where
  "update_processing_configuration E unit_type unit_uuid processing_configuration =
     update_variable E unit_type unit_uuid ''processingConfiguration'' processing_configuration None"

text \<open>\<open>Transfer.processing_configuration\<close>: an unset or empty value means \<open>default\<close>.\<close>

definition processing_configuration :: "string \<Rightarrow> ('s world_scheme, string) py" where
  "processing_configuration transfer_uuid =
     py_bind (py_try (py_bind (get_unit_variable ''Transfer'' transfer_uuid ''processingConfiguration'')
                        (\<lambda>u. py_ret (u_variablevalue u)))
                (\<lambda>e. if missing_variable e then Some (py_ret None) else None))
       (\<lambda>result. py_ret (case result of None \<Rightarrow> ''default''
          | Some v \<Rightarrow> if v = [] then ''default'' else v))"

definition get_metadata_directory_path :: "sip_row \<Rightarrow> ('s world_scheme, string) py" where
  "get_metadata_directory_path sip =
     py_bind (is_partial_reingest (s_uuid sip)) (\<lambda>partial.
       py_ret (if \<not> partial then ''metadata''
               else path_joins ''data'' [''objects'', ''metadata'']))"

section \<open>Packages\<close>

definition PACKAGE_STATUS_UNKNOWN :: nat where "PACKAGE_STATUS_UNKNOWN = 0"
definition PACKAGE_STATUS_PROCESSING :: nat where "PACKAGE_STATUS_PROCESSING = 1"
definition PACKAGE_STATUS_DONE :: nat where "PACKAGE_STATUS_DONE = 2"
definition PACKAGE_STATUS_COMPLETED_SUCCESSFULLY :: nat where
  "PACKAGE_STATUS_COMPLETED_SUCCESSFULLY = 3"
definition PACKAGE_STATUS_FAILED :: nat where "PACKAGE_STATUS_FAILED = 4"

text \<open>The order of texts by their characters.\<close>

fun lt_text :: "string \<Rightarrow> string \<Rightarrow> bool" where
  "lt_text s [] = False"
| "lt_text [] (y # ys) = True"
| "lt_text (x # xs) (y # ys) =
     ((of_char x :: nat) < of_char y \<or> x = y \<and> lt_text xs ys)"

text \<open>The first row of an ordered query; of rows that are equal in the order, the one stored first.\<close>

fun first_by :: "('a \<Rightarrow> 'a \<Rightarrow> bool) \<Rightarrow> 'a list \<Rightarrow> 'a option" where
  "first_by before [] = None"
| "first_by before (x # xs) = (case first_by before xs of
      None \<Rightarrow> Some x | Some y \<Rightarrow> Some (if before y x then y else x))"

text \<open>
  \<open>PackageManager.done\<close> on the statuses and completion times of a table; dates are ISO texts
  of one zone, which order as times do.
\<close>

definition packages_done ::
  "('r \<Rightarrow> nat) \<Rightarrow> ('r \<Rightarrow> datetime option) \<Rightarrow> datetime option \<Rightarrow> bool \<Rightarrow> bool \<Rightarrow> 'r list \<Rightarrow> 'r list" where
  "packages_done status completed_at completed_before include_failed include_unknown rows =
     (let statuses = [PACKAGE_STATUS_DONE, PACKAGE_STATUS_COMPLETED_SUCCESSFULLY]
            @ (if include_failed then [PACKAGE_STATUS_FAILED] else [])
            @ (if include_unknown then [PACKAGE_STATUS_UNKNOWN] else []);
          qs = filter (\<lambda>r. status r \<in> set statuses) rows
      in case completed_before of
           None \<Rightarrow> qs
         | Some d \<Rightarrow> filter (\<lambda>r. case completed_at r of None \<Rightarrow> False | Some t \<Rightarrow> lt_text t d) qs)"

definition package_active :: "nat \<Rightarrow> bool" where
  "package_active status = (status = PACKAGE_STATUS_PROCESSING)"

definition ARCHIVEMATICA_AIP :: string where "ARCHIVEMATICA_AIP = ''Archivematica AIP''"

text \<open>\<open>File.in_reingested_aip\<close>; following the foreign key needs the transfer's row.\<close>

definition in_reingested_aip :: "file_row \<Rightarrow> ('s world_scheme, bool) py" where
  "in_reingested_aip f = (case f_transfer f of
      None \<Rightarrow> py_ret False
    | Some t \<Rightarrow>
        py_bind (py_get (\<lambda>s. get_one ''Transfer'' (filter (\<lambda>r. tr_uuid r = t) (Transfers s)))) (\<lambda>r.
        py_bind (py_lift r) (\<lambda>transfer.
          py_ret (tr_type transfer = ARCHIVEMATICA_AIP \<and> f_sip f = None))))"

section \<open>Identifiers and directories\<close>

definition create_identifier :: "string \<Rightarrow> string \<Rightarrow> ('s world_scheme, nat) py" where
  "create_identifier scheme val =
     py_bind auto_pk (\<lambda>pk.
     py_bind (py_get (\<lambda>s. row_insert i_id True
         \<lparr>i_id = pk, i_type = Some scheme, i_value = Some val\<rparr> (Identifiers s))) (\<lambda>r.
     py_bind (py_lift r) (\<lambda>rows.
     py_seq (py_mod (\<lambda>s. s\<lparr>Identifiers := rows\<rparr>)) (py_ret pk))))"

definition File_add_custom_identifier :: "string \<Rightarrow> string \<Rightarrow> string \<Rightarrow> ('s world_scheme, unit) py" where
  "File_add_custom_identifier uuid scheme val =
     py_bind (create_identifier scheme val) (\<lambda>pk.
     py_mod (\<lambda>s. s\<lparr>Files := row_update (\<lambda>f. f_uuid f = uuid)
       (\<lambda>f. f\<lparr>f_identifiers := f_identifiers f @ [pk]\<rparr>) (Files s)\<rparr>))"

definition SIP_add_custom_identifier :: "string \<Rightarrow> string \<Rightarrow> string \<Rightarrow> ('s world_scheme, unit) py" where
  "SIP_add_custom_identifier uuid scheme val =
     py_bind (create_identifier scheme val) (\<lambda>pk.
     py_mod (\<lambda>s. s\<lparr>SIPs := row_update (\<lambda>r. s_uuid r = uuid)
       (\<lambda>r. r\<lparr>s_identifiers := s_identifiers r @ [pk]\<rparr>) (SIPs s)\<rparr>))"

definition Directory_add_custom_identifier ::
  "string \<Rightarrow> string \<Rightarrow> string \<Rightarrow> ('s world_scheme, unit) py" where
  "Directory_add_custom_identifier uuid scheme val =
     py_bind (create_identifier scheme val) (\<lambda>pk.
     py_mod (\<lambda>s. s\<lparr>Directories := row_update (\<lambda>r. dir_uuid r = uuid)
       (\<lambda>r. r\<lparr>dir_identifiers := dir_identifiers r @ [pk]\<rparr>) (Directories s)\<rparr>))"

text \<open>
  \<open>Directory.create_many\<close>: entries are a current location, a UUID and perhaps an original
  location. The bulk insert is one statement: it inserts all rows or none.
\<close>

record dir_entry =
  de_currentLocation :: string
  de_uuid :: string
  de_originalLocation :: "string option"

fun rows_insert :: "('r \<Rightarrow> 'k) \<Rightarrow> ('r \<Rightarrow> bool) \<Rightarrow> 'r list \<Rightarrow> 'r list \<Rightarrow> py_exn + 'r list" where
  "rows_insert key fks_ok [] rows = Inr rows"
| "rows_insert key fks_ok (r # rs) rows =
     (case row_insert key (fks_ok r) r rows of
        Inl e \<Rightarrow> Inl e | Inr rows' \<Rightarrow> rows_insert key fks_ok rs rows')"

definition dir_fks_ok :: "'s world_scheme \<Rightarrow> directory_row \<Rightarrow> bool" where
  "dir_fks_ok s d = (set_option (dir_sip d) \<subseteq> s_uuid ` set (SIPs s) \<and>
     set_option (dir_transfer d) \<subseteq> tr_uuid ` set (Transfers s))"

definition Directory_create_many ::
  "env \<Rightarrow> dir_entry list \<Rightarrow> string \<Rightarrow> string \<Rightarrow> ('s world_scheme, directory_row list) py" where
  "Directory_create_many E dir_paths_uuids unit_uuid unit_type =
     py_bind (py_map (\<lambda>d. py_bind (now E) (\<lambda>t. py_ret
         \<lparr>dir_uuid = de_uuid d,
          dir_sip = (if unit_type = ''transfer'' then None else Some unit_uuid),
          dir_transfer = (if unit_type = ''transfer'' then Some unit_uuid else None),
          dir_originallocation = (case de_originalLocation d of
             None \<Rightarrow> de_currentLocation d | Some l \<Rightarrow> l),
          dir_currentlocation = Some (de_currentLocation d),
          dir_enteredsystem = t, dir_identifiers = []\<rparr>)) dir_paths_uuids) (\<lambda>paths.
     py_bind (py_get (\<lambda>s. rows_insert dir_uuid (dir_fks_ok s) paths (Directories s))) (\<lambda>r.
     py_bind (py_lift r) (\<lambda>rows.
     py_seq (py_mod (\<lambda>s. s\<lparr>Directories := rows\<rparr>)) (py_ret paths))))"

section \<open>Settings\<close>

definition settings_get_dict :: "string \<Rightarrow> ('s world_scheme, (string \<times> string) list) py" where
  "settings_get_dict scope = py_get (\<lambda>s. dict_update []
     (map (\<lambda>r. (ds_name r, ds_value r)) (filter (\<lambda>r. ds_scope r = scope) (Settings s))))"

definition settings_unset_dict :: "string \<Rightarrow> ('s world_scheme, unit) py" where
  "settings_unset_dict scope = py_mod (\<lambda>s. s\<lparr>Settings :=
     filter (\<lambda>r. ds_scope r \<noteq> scope) (Settings s)\<rparr>)"

text \<open>\<open>set_dict\<close> on a dictionary: the old pairs of the scope go, the given ones come.\<close>

definition settings_add :: "env \<Rightarrow> string \<Rightarrow> string \<times> string \<Rightarrow> ('s world_scheme, unit) py" where
  "settings_add E scope item =
     py_bind auto_pk (\<lambda>pk. py_bind (now E) (\<lambda>t.
     py_mod (\<lambda>s. s\<lparr>Settings := Settings s @
       [\<lparr>ds_id = pk, ds_scope = scope, ds_name = fst item, ds_value = snd item,
         ds_lastmodified = t\<rparr>]\<rparr>)))"

definition settings_set_dict ::
  "env \<Rightarrow> string \<Rightarrow> (string \<times> string) list \<Rightarrow> ('s world_scheme, unit) py" where
  "settings_set_dict E scope items =
     py_seq (settings_unset_dict scope) (py_for items (settings_add E scope))"

section \<open>Lemmas\<close>

lemma lt_text_linear: "lt_text a b \<Longrightarrow> lt_text a c \<or> lt_text c b"
proof (induction a b arbitrary: c rule: lt_text.induct)
  case (3 x xs y ys)
  then show ?case by (cases c) (auto dest: of_char_eq_iff [THEN iffD1])
qed (auto elim: lt_text.elims)

lemma lt_text_asym: "lt_text a b \<Longrightarrow> \<not> lt_text b a"
  by (induction a b rule: lt_text.induct) (auto elim: lt_text.elims)

lemma first_by_None: "first_by before xs = None \<longleftrightarrow> xs = []"
  by (cases xs) (auto split: option.splits)

lemma first_by_least:
  assumes linear: "\<And>a b c. before a b \<Longrightarrow> before a c \<or> before c b" and asym: "\<And>a b. before a b \<Longrightarrow> \<not> before b a"
  shows "first_by before xs = Some m \<Longrightarrow> m \<in> set xs \<and> (\<forall>x \<in> set xs. \<not> before x m)"
proof (induction xs arbitrary: m)
  case (Cons x xs)
  have "\<not> before a a" for a using asym by blast
  with Cons show ?case by (auto split: option.splits if_splits simp: first_by_None dest: linear asym)
qed simp

lemma settings_loop:
  "\<exists>rows t. py_for items (settings_add E scope) s = (Inr (), t) \<and>
     Settings t = Settings s @ rows \<and> map (\<lambda>r. (ds_name r, ds_value r)) rows = items \<and>
     (\<forall>r \<in> set rows. ds_scope r = scope)"
proof (induction items arbitrary: s)
  case Nil
  show ?case by (intro exI [of _ "[]"]) (simp add: py_simps)
next
  case (Cons item items)
  let ?row = "\<lparr>ds_id = next_pk s, ds_scope = scope, ds_name = fst item, ds_value = snd item,
              ds_lastmodified = env_now E (clock s)\<rparr>"
  let ?s = "s\<lparr>next_pk := Suc (next_pk s), clock := Suc (clock s), Settings := Settings s @ [?row]\<rparr>"
  have add: "settings_add E scope item s = (Inr (), ?s)" by (simp add: settings_add_def py_simps)
  obtain rows t where "py_for items (settings_add E scope) ?s = (Inr (), t)" "Settings t = Settings ?s @ rows"
     "map (\<lambda>r. (ds_name r, ds_value r)) rows = items" "\<forall>r \<in> set rows. ds_scope r = scope"
    using Cons.IH [of ?s] by blast
  with add show ?case by (intro exI [of _ "?row # rows"] exI [of _ t]) (simp add: py_seq_apply)
qed

lemma get_unit_variable_apply:
  "get_unit_variable ty u v s = (get_one ''UnitVariable'' (unit_variables_of s ty u v), s)"
  by (simp add: get_unit_variable_def py_simps)

definition matches_variable :: "string \<Rightarrow> string \<Rightarrow> string \<Rightarrow> unit_variable_row \<Rightarrow> bool" where
  "matches_variable ty u v r = (u_unittype r = Some ty \<and> u_unituuid r = Some u \<and> u_variable r = Some v)"

lemma unit_variables_of_eq: "unit_variables_of s ty u v = filter (matches_variable ty u v) (UnitVariables s)"
  by (simp add: unit_variables_of_def matches_variable_def [abs_def])

lemma map_key_absent:
  "k \<notin> key ` set xs \<Longrightarrow> map (\<lambda>x. if key x = k then r' else x) xs = xs"
  by (intro map_idI) auto

lemma filter_save:
  assumes "distinct (map key rows)" and "filter P rows = [r]" and "key r' = key r" and "P r'"
  shows "filter P (row_save key r' rows) = [r']"
proof -
  have "r \<in> set (filter P rows)" using assms(2) by simp
  then have r: "r \<in> set rows" "P r" by simp_all
  have *: "filter P (map (\<lambda>x. if key x = key r then r' else x) rows) = [r']"
    using assms(1,2)
  proof (induction rows)
    case (Cons x xs)
    show ?case
    proof (cases "P x")
      case True
      with Cons.prems have x: "x = r" and xs: "filter P xs = []" by auto
      have "map (\<lambda>x. if key x = key r then r' else x) xs = xs"
        using Cons.prems(1) x by (simp add: map_key_absent)
      with x xs assms(4) show ?thesis by simp
    next
      case False
      with Cons.prems have "r \<in> set (filter P xs)" by simp
      then have "r \<in> set xs" by simp
      then have "key x \<noteq> key r" using Cons.prems(1) by auto
      with False Cons show ?thesis by simp
    qed
  qed simp
  have "key r' \<in> key ` set rows" using r(1) assms(3) by auto
  with * assms(3) show ?thesis by (simp add: row_save_def row_update_def)
qed

lemma filter_save_other:
  assumes "distinct (map key rows)" and "r \<in> set rows" and "key r' = key r"
    and "\<not> Q r" and "\<not> Q r'"
  shows "filter Q (row_save key r' rows) = filter Q rows"
proof -
  have "key r' \<in> key ` set rows" using assms(2,3) by auto
  moreover have "filter Q (map (\<lambda>x. if key x = key r then r' else x) rows) = filter Q rows"
    using assms(1,2)
  proof (induction rows)
    case (Cons x xs)
    show ?case
    proof (cases "key x = key r")
      case True
      with Cons.prems have x: "x = r" by auto
      have "map (\<lambda>x. if key x = key r then r' else x) xs = xs"
        using Cons.prems(1) x by (simp add: map_key_absent)
      with x assms(4,5) show ?thesis by simp
    next
      case False
      with Cons show ?thesis by auto
    qed
  qed simp
  ultimately show ?thesis using assms(3) by (simp add: row_save_def row_update_def)
qed

end
