(* ===== verification/Database.thy ===== *)
theory Database
  imports ModelMethods
begin

text \<open>
  \<open>utils/databaseFunctions.py\<close>: the functions through which the client scripts create files,
  events, derivations and SIPs. The timestamps of \<open>File.modificationtime\<close>,
  \<open>File.enteredsystem\<close> and \<open>SIP.createdtime\<close> (\<open>auto_now_add\<close>) and of \<open>Event.event_datetime\<close>
  (\<open>auto_now\<close>) are set by Django when a row is written, whatever value was given.
\<close>

section \<open>Creating rows\<close>

definition file_fks_ok :: "'s world_scheme \<Rightarrow> file_row \<Rightarrow> bool" where
  "file_fks_ok s f = (set_option (f_sip f) \<subseteq> s_uuid ` set (SIPs s) \<and>
     set_option (f_transfer f) \<subseteq> tr_uuid ` set (Transfers s))"

definition File_create :: "env \<Rightarrow> file_row \<Rightarrow> ('s world_scheme, file_row) py" where
  "File_create E f =
     py_bind (now E) (\<lambda>t1. py_bind (now E) (\<lambda>t2.
     (let f' = f\<lparr>f_modificationtime := Some t1, f_enteredsystem := t2\<rparr> in
      py_bind (py_get (\<lambda>s. row_insert f_uuid (file_fks_ok s f') f' (Files s))) (\<lambda>r.
      py_bind (py_lift r) (\<lambda>rows.
      py_seq (py_mod (\<lambda>s. s\<lparr>Files := rows\<rparr>)) (py_ret f'))))))"

definition event_id_free :: "'s world_scheme \<Rightarrow> event_row \<Rightarrow> bool" where
  "event_id_free s e = (e_event_id e = None \<or> e_event_id e \<notin> e_event_id ` set (Events s))"

definition event_fks_ok :: "'s world_scheme \<Rightarrow> event_row \<Rightarrow> bool" where
  "event_fks_ok s e = (set_option (e_file_uuid e) \<subseteq> f_uuid ` set (Files s))"

definition Event_create :: "env \<Rightarrow> event_row \<Rightarrow> ('s world_scheme, event_row) py" where
  "Event_create E e =
     py_bind (now E) (\<lambda>t. py_bind auto_pk (\<lambda>pk.
     (let e' = e\<lparr>e_id := pk, e_event_datetime := t\<rparr> in
      py_bind (py_get (\<lambda>s. if event_id_free s e' then row_insert e_id (event_fks_ok s e') e' (Events s)
                            else Inl (IntegrityError ''Duplicate entry''))) (\<lambda>r.
      py_bind (py_lift r) (\<lambda>rows.
      py_seq (py_mod (\<lambda>s. s\<lparr>Events := rows\<rparr>)) (py_ret e'))))))"

definition new_file :: "string \<Rightarrow> file_row" where
  "new_file uuid = \<lparr>f_uuid = uuid, f_sip = None, f_transfer = None, f_originallocation = [],
     f_currentlocation = None, f_filegrpuse = ''Original'', f_filegrpuuid = [], f_checksum = [],
     f_checksumtype = [], f_size = None, f_label = [], f_modificationtime = None,
     f_enteredsystem = [], f_removedtime = None, f_identifiers = []\<rparr>"

definition new_event :: "string \<Rightarrow> event_row" where
  "new_event event_id = \<lparr>e_id = 0, e_event_id = Some event_id, e_file_uuid = None, e_event_type = [],
     e_event_datetime = [], e_event_detail = [], e_event_outcome = [], e_event_outcome_detail = [],
     e_agents = []\<rparr>"

section \<open>databaseFunctions.py\<close>

definition not_supported :: string where
  "not_supported =
     ''not supported yet - both SIP and transfer UUID'' @ [CHR 0x27] @ ''s defined (or neither defined)''"

text \<open>The exception carries two arguments; its text is their tuple.\<close>

definition not_supported_error :: "string \<Rightarrow> string \<Rightarrow> py_exn" where
  "not_supported_error sipUUID transferUUID = PyException
     (''('' @ repr_str not_supported @ '', '' @ repr_str (sipUUID @ ''-'' @ transferUUID) @ '')'')"

definition insertIntoFiles ::
  "env \<Rightarrow> string \<Rightarrow> string \<Rightarrow> datetime option \<Rightarrow> string \<Rightarrow> string \<Rightarrow> string \<Rightarrow> string option \<Rightarrow>
     ('s world_scheme, file_row) py" where
  "insertIntoFiles E fileUUID filePath enteredSystem transferUUID sipUUID use originalLocation =
     py_bind (case enteredSystem of None \<Rightarrow> now E | Some d \<Rightarrow> py_ret d) (\<lambda>entered.
     (let original = (case originalLocation of None \<Rightarrow> filePath
                        | Some l \<Rightarrow> if l = [] then filePath else l);
          f = (new_file fileUUID)\<lparr>f_originallocation := original, f_currentlocation := Some filePath,
                 f_enteredsystem := entered, f_filegrpuse := use\<rparr>
      in if transferUUID \<noteq> [] \<and> sipUUID = [] then File_create E (f\<lparr>f_transfer := Some transferUUID\<rparr>)
         else if transferUUID = [] \<and> sipUUID \<noteq> [] then File_create E (f\<lparr>f_sip := Some sipUUID\<rparr>)
         else py_raise (not_supported_error sipUUID transferUUID)))"

definition get_file :: "string \<Rightarrow> ('s world_scheme, file_row) py" where
  "get_file uuid = py_bind (py_get (\<lambda>s. filter (\<lambda>f. f_uuid f = uuid) (Files s)))
     (\<lambda>rs. py_lift (get_one ''File'' rs))"

definition get_sip :: "string \<Rightarrow> ('s world_scheme, sip_row) py" where
  "get_sip uuid = py_bind (py_get (\<lambda>s. filter (\<lambda>r. s_uuid r = uuid) (SIPs s)))
     (\<lambda>rs. py_lift (get_one ''SIP'' rs))"

definition get_transfer :: "string \<Rightarrow> ('s world_scheme, transfer_row) py" where
  "get_transfer uuid = py_bind (py_get (\<lambda>s. filter (\<lambda>r. tr_uuid r = uuid) (Transfers s)))
     (\<lambda>rs. py_lift (get_one ''Transfer'' rs))"

text \<open>A foreign key that is set is followed first; \<open>f.sip\<close> wins over \<open>f.transfer\<close>.\<close>

definition getAMAgentsForFile :: "string \<Rightarrow> ('s world_scheme, nat list) py" where
  "getAMAgentsForFile fileUUID =
     py_bind (py_try (py_bind (get_file fileUUID) (\<lambda>f. py_ret (Some f)))
                (\<lambda>e. if e = DoesNotExist ''File'' then Some (py_ret None) else None)) (\<lambda>found.
     case found of
       None \<Rightarrow> py_ret []
     | Some f \<Rightarrow>
         (case (f_sip f, f_transfer f) of
            (Some sip, _) \<Rightarrow>
              py_bind (get_sip sip) (\<lambda>r. py_bind (SIP_agents r) (\<lambda>as. py_ret (map a_id as)))
          | (None, Some transfer) \<Rightarrow>
              py_bind (get_transfer transfer) (\<lambda>r.
              py_bind (Transfer_agents r) (\<lambda>as. py_ret (map a_id as)))
          | (None, None) \<Rightarrow> py_get (\<lambda>s. map a_id (filter default_agents (Agents s)))))"

definition insertIntoEvents ::
  "env \<Rightarrow> string \<Rightarrow> string \<Rightarrow> string \<Rightarrow> datetime option \<Rightarrow> string \<Rightarrow> string \<Rightarrow> string \<Rightarrow> nat list \<Rightarrow>
     ('s world_scheme, event_row) py" where
  "insertIntoEvents E fileUUID eventIdentifierUUID eventType eventDateTime eventDetail eventOutcome
     eventOutcomeDetailNote agents =
     py_bind (case eventDateTime of None \<Rightarrow> now E | Some d \<Rightarrow> py_ret d) (\<lambda>date.
     py_bind (if agents = [] then getAMAgentsForFile fileUUID else py_ret agents) (\<lambda>agents'.
     py_bind (if eventIdentifierUUID = [] then uuid4 E else py_ret eventIdentifierUUID) (\<lambda>eid.
     py_bind (Event_create E ((new_event eid)\<lparr>e_file_uuid := Some fileUUID, e_event_type := eventType,
         e_event_datetime := date, e_event_detail := eventDetail, e_event_outcome := eventOutcome,
         e_event_outcome_detail := eventOutcomeDetailNote\<rparr>)) (\<lambda>event.
     py_seq (event_agents_add (e_id event) agents') (py_ret event)))))"

definition derivation_fks_ok :: "'s world_scheme \<Rightarrow> derivation_row \<Rightarrow> bool" where
  "derivation_fks_ok s d = (d_source_file d \<in> f_uuid ` set (Files s) \<and>
     d_derived_file d \<in> f_uuid ` set (Files s) \<and>
     (d_event d = None \<or> d_event d \<in> e_event_id ` set (Events s)))"

definition insertIntoDerivations ::
  "string \<Rightarrow> string \<Rightarrow> string option \<Rightarrow> ('s world_scheme, unit) py" where
  "insertIntoDerivations sourceFileUUID derivedFileUUID relatedEventUUID =
     (if sourceFileUUID = [] then py_raise (ValueError ''sourceFileUUID must be specified'')
      else if derivedFileUUID = [] then py_raise (ValueError ''derivedFileUUID must be specified'')
      else py_bind auto_pk (\<lambda>pk.
        (let d = \<lparr>d_id = pk, d_source_file = sourceFileUUID, d_derived_file = derivedFileUUID,
                  d_event = relatedEventUUID\<rparr>
         in py_bind (py_get (\<lambda>s. row_insert d_id (derivation_fks_ok s d) d (Derivations s))) (\<lambda>r.
            py_bind (py_lift r) (\<lambda>rows. py_mod (\<lambda>s. s\<lparr>Derivations := rows\<rparr>))))))"

definition insertIntoFPCommandOutput :: "string \<Rightarrow> string \<Rightarrow> string \<Rightarrow> ('s world_scheme, unit) py" where
  "insertIntoFPCommandOutput fileUUID fitsXMLString ruleUUID =
     py_bind auto_pk (\<lambda>pk.
       (let r = \<lparr>o_id = pk, o_file = fileUUID, o_content = Some fitsXMLString, o_rule = ruleUUID\<rparr>
        in py_bind (py_get (\<lambda>s. row_insert o_id
               (fileUUID \<in> f_uuid ` set (Files s) \<and> ruleUUID \<in> set (FPRules s)) r (CommandOutputs s)))
             (\<lambda>res. py_bind (py_lift res) (\<lambda>rows. py_mod (\<lambda>s. s\<lparr>CommandOutputs := rows\<rparr>)))))"

definition File_save :: "file_row \<Rightarrow> ('s world_scheme, unit) py" where
  "File_save f = py_mod (\<lambda>s. s\<lparr>Files := row_save f_uuid f (Files s)\<rparr>)"

definition fileWasRemoved ::
  "env \<Rightarrow> string \<Rightarrow> datetime option \<Rightarrow> string \<Rightarrow> string \<Rightarrow> string \<Rightarrow> ('s world_scheme, unit) py" where
  "fileWasRemoved E fileUUID utcDate eventDetail eventOutcomeDetailNote eventOutcome =
     py_bind (case utcDate of None \<Rightarrow> now E | Some d \<Rightarrow> py_ret d) (\<lambda>date.
     py_bind (uuid4 E) (\<lambda>eid.
     py_seq (insertIntoEvents E fileUUID eid ''file removed'' (Some date) eventDetail eventOutcome
               eventOutcomeDetailNote [])
     (py_bind (get_file fileUUID) (\<lambda>f.
        File_save (f\<lparr>f_removedtime := Some date, f_currentlocation := None\<rparr>)))))"

definition createSIP ::
  "env \<Rightarrow> (string list \<Rightarrow> ('s world_scheme, unit) py) \<Rightarrow> string \<Rightarrow> string option \<Rightarrow> string \<Rightarrow> bool \<Rightarrow>
     ('s world_scheme, string) py" where
  "createSIP E printfn path UUID sip_type diruuids =
     py_bind (case UUID of None \<Rightarrow> uuid4 E | Some u \<Rightarrow> py_ret u) (\<lambda>uuid.
     py_seq (printfn [''Creating SIP:'', uuid, ''-'', path])
     (py_bind (now E) (\<lambda>t.
      py_bind (py_get (\<lambda>s. row_insert s_uuid True
         \<lparr>s_uuid = uuid, s_createdtime = t, s_currentpath = Some path, s_hidden = False,
          s_aip_filename = None, s_sip_type = sip_type, s_identifiers = [], s_diruuids = diruuids,
          s_status = PACKAGE_STATUS_UNKNOWN, s_completed_at = None\<rparr> (SIPs s))) (\<lambda>r.
      py_bind (py_lift r) (\<lambda>rows.
      py_seq (py_mod (\<lambda>s. s\<lparr>SIPs := rows\<rparr>)) (py_ret uuid))))))"

section \<open>Referential integrity\<close>

definition db_inv :: "'s world_scheme \<Rightarrow> bool" where
  "db_inv s \<longleftrightarrow> distinct (map f_uuid (Files s)) \<and> distinct (map s_uuid (SIPs s)) \<and>
     distinct (map tr_uuid (Transfers s)) \<and> distinct (map e_id (Events s)) \<and> (\<forall>e \<in> set (Events s). e_id e < next_pk s) \<and>
     distinct (filter (\<lambda>i. i \<noteq> None) (map e_event_id (Events s))) \<and>
     (\<forall>f \<in> set (Files s). file_fks_ok s f) \<and> (\<forall>e \<in> set (Events s). event_fks_ok s e) \<and>
     (\<forall>e \<in> set (Events s). set (e_agents e) \<subseteq> a_id ` set (Agents s)) \<and>
     (\<forall>d \<in> set (Derivations s). derivation_fks_ok s d)"

lemma db_inv_irrelevant [simp]:
  "db_inv (s\<lparr>clock := c\<rparr>) = db_inv s" "db_inv (s\<lparr>uuids := u\<rparr>) = db_inv s"
  "db_inv (s\<lparr>cur_job := j\<rparr>) = db_inv s" "db_inv (s\<lparr>log_buffer := b\<rparr>) = db_inv s"
  "db_inv (s\<lparr>fs := t\<rparr>) = db_inv s" "db_inv (s\<lparr>CommandOutputs := os\<rparr>) = db_inv s"
  "db_inv (s\<lparr>UnitVariables := us\<rparr>) = db_inv s" "db_inv (s\<lparr>Settings := ss\<rparr>) = db_inv s"
  by (simp_all add: db_inv_def file_fks_ok_def event_fks_ok_def derivation_fks_ok_def)

lemma fks_ok_upd [simp]:
  "file_fks_ok (s\<lparr>Files := r\<rparr>) = file_fks_ok s" "file_fks_ok (s\<lparr>Events := es\<rparr>) = file_fks_ok s"
  "event_fks_ok (s\<lparr>Events := es\<rparr>) = event_fks_ok s"
  by (simp_all add: fun_eq_iff file_fks_ok_def event_fks_ok_def)

lemma db_inv_pk: "db_inv s \<Longrightarrow> db_inv (s\<lparr>next_pk := Suc (next_pk s)\<rparr>)"
  by (auto simp: db_inv_def file_fks_ok_def event_fks_ok_def derivation_fks_ok_def less_SucI)

lemma db_inv_insert_file:
  assumes "db_inv s" and "row_insert f_uuid (file_fks_ok s f) f (Files s) = Inr rows"
  shows "db_inv (s\<lparr>Files := rows\<rparr>)"
proof -
  have "rows = Files s @ [f]" and "f_uuid f \<notin> f_uuid ` set (Files s)" and "file_fks_ok s f"
    using assms(2) by (auto simp: row_insert_def split: if_splits)
  with assms(1) show ?thesis
    by (auto simp: db_inv_def file_fks_ok_def event_fks_ok_def derivation_fks_ok_def)
qed

text \<open>Writing a file row back keeps the keys of the table.\<close>

lemma db_inv_save_file:
  assumes "db_inv s" and "f_uuid f \<in> f_uuid ` set (Files s)" and "file_fks_ok s f"
  shows "db_inv (s\<lparr>Files := row_save f_uuid f (Files s)\<rparr>)"
proof -
  let ?rows = "row_save f_uuid f (Files s)"
  have keys: "map f_uuid ?rows = map f_uuid (Files s)" by (rule file_table.save_keys) (rule assms(2))
  have "f_uuid ` set ?rows = f_uuid ` set (Files s)" using keys by (metis list.set_map)
  moreover have "set ?rows \<subseteq> insert f (set (Files s))"
    using file_table.save_row [OF assms(2)] by auto
  then have "\<forall>x \<in> set ?rows. file_fks_ok s x" using assms(1,3) by (auto simp: db_inv_def)
  ultimately show ?thesis
    using assms(1) keys by (simp add: db_inv_def event_fks_ok_def derivation_fks_ok_def)
qed

text \<open>A bulk \<open>UPDATE\<close> that leaves keys and foreign keys alone.\<close>

lemma db_inv_update_files:
  assumes "db_inv s" and "\<And>f. f_uuid (g f) = f_uuid f" and "\<And>f. f_sip (g f) = f_sip f"
    and "\<And>f. f_transfer (g f) = f_transfer f"
  shows "db_inv (s\<lparr>Files := row_update p g (Files s)\<rparr>)"
proof -
  have keys: "map f_uuid (row_update p g (Files s)) = map f_uuid (Files s)"
    using assms(2) by (simp add: row_update_def)
  have "f_uuid ` set (row_update p g (Files s)) = f_uuid ` set (Files s)"
    using keys by (metis list.set_map)
  moreover have "file_fks_ok s f" if f: "f \<in> set (row_update p g (Files s))" for f
  proof -
    obtain x where "x \<in> set (Files s)" and x: "f = (if p x then g x else x)"
      using f by (auto simp: row_update_def)
    then show ?thesis
      using assms by (auto simp: db_inv_def file_fks_ok_def)
  qed
  ultimately show ?thesis
    using assms(1) keys by (simp add: db_inv_def event_fks_ok_def derivation_fks_ok_def)
qed

lemma db_inv_insert_event:
  assumes "db_inv s" and "event_id_free s e" and "e_id e < next_pk s" and "e_agents e = []"
    and "row_insert e_id (event_fks_ok s e) e (Events s) = Inr rows"
  shows "db_inv (s\<lparr>Events := rows\<rparr>)"
proof -
  have rows: "rows = Events s @ [e]" and "e_id e \<notin> e_id ` set (Events s)" and "event_fks_ok s e"
    using assms(5) by (auto simp: row_insert_def split: if_splits)
  moreover have "distinct (filter (\<lambda>i. i \<noteq> None) (map e_event_id rows))"
    using assms(1,2) by (auto simp: db_inv_def rows event_id_free_def)
  ultimately show ?thesis
    using assms
    by (auto simp: db_inv_def file_fks_ok_def event_fks_ok_def derivation_fks_ok_def)
qed

lemma db_inv_insert_derivation:
  assumes "db_inv s" and "row_insert d_id (derivation_fks_ok s d) d (Derivations s) = Inr rows"
  shows "db_inv (s\<lparr>Derivations := rows\<rparr>)"
proof -
  have "rows = Derivations s @ [d]" and "derivation_fks_ok s d"
    using assms(2) by (auto simp: row_insert_def split: if_splits)
  with assms(1) show ?thesis
    by (auto simp: db_inv_def file_fks_ok_def event_fks_ok_def derivation_fks_ok_def)
qed

lemma db_inv_insert_sip:
  assumes "db_inv s" and "row_insert s_uuid b r (SIPs s) = Inr rows"
  shows "db_inv (s\<lparr>SIPs := rows\<rparr>)"
proof -
  have "rows = SIPs s @ [r]" and "s_uuid r \<notin> s_uuid ` set (SIPs s)"
    using assms(2) by (auto simp: row_insert_def split: if_splits)
  with assms(1) show ?thesis
    by (auto simp: db_inv_def file_fks_ok_def event_fks_ok_def derivation_fks_ok_def)
qed

lemma db_inv_map_events:
  assumes "db_inv s" and "\<And>e. e_id (g e) = e_id e" and "\<And>e. e_event_id (g e) = e_event_id e"
    and "\<And>e. e_file_uuid (g e) = e_file_uuid e"
    and "\<And>e. e \<in> set (Events s) \<Longrightarrow> set (e_agents (g e)) \<subseteq> a_id ` set (Agents s)"
  shows "db_inv (s\<lparr>Events := map g (Events s)\<rparr>)"
proof -
  have "map e_id (map g (Events s)) = map e_id (Events s)"
    and "map e_event_id (map g (Events s)) = map e_event_id (Events s)"
    and "e_event_id ` set (map g (Events s)) = e_event_id ` set (Events s)"
    using assms(2,3) by (simp_all add: image_image)
  moreover have "\<forall>e \<in> set (map g (Events s)). event_fks_ok s e \<and> e_id e < next_pk s \<and>
      set (e_agents e) \<subseteq> a_id ` set (Agents s)"
    using assms by (simp add: db_inv_def event_fks_ok_def)
  ultimately show ?thesis
    using assms(1) by (simp add: db_inv_def derivation_fks_ok_def del: map_map)
qed

lemma db_inv_add_agents:
  assumes "db_inv s" and "list_all (\<lambda>i. i \<in> a_id ` set (Agents s)) as"
  shows "db_inv (s\<lparr>Events := row_update (\<lambda>e. e_id e = pk)
    (\<lambda>e. e\<lparr>e_agents := e_agents e @ filter (\<lambda>i. i \<notin> set (e_agents e)) (remdups as)\<rparr>) (Events s)\<rparr>)"
  unfolding row_update_def
proof (rule db_inv_map_events)
  fix e assume "e \<in> set (Events s)"
  then have "set (e_agents e) \<subseteq> a_id ` set (Agents s)" using assms(1) by (simp add: db_inv_def)
  then show "set (e_agents (if e_id e = pk
      then e\<lparr>e_agents := e_agents e @ filter (\<lambda>i. i \<notin> set (e_agents e)) (remdups as)\<rparr> else e))
      \<subseteq> a_id ` set (Agents s)"
    using assms(2) by (auto simp: list_all_iff)
qed (use assms(1) in simp_all)

section \<open>Every operation keeps the integrity of the database\<close>

lemma keeps_db_clock [keeps_intros]: "keeps db_inv (now E)" "keeps db_inv (uuid4 E)" "keeps db_inv auto_pk"
  by (auto simp: keeps_def py_simps intro: db_inv_pk)

lemma keeps_db_reads [keeps_intros]:
  "keeps db_inv (get_file u)" "keeps db_inv (get_sip u)" "keeps db_inv (get_transfer u)"
  "keeps db_inv (get_unit_variable a b c)"
  by (auto simp: keeps_def py_simps get_file_def get_sip_def get_transfer_def get_unit_variable_def)

lemma keeps_unit_agents [keeps_intros]: "keeps db_inv (unit_agents ty u)"
  unfolding unit_agents_def by (intro keeps_intros keeps_bind)

lemma keeps_getAMAgentsForFile [keeps_intros]: "keeps db_inv (getAMAgentsForFile u)"
  unfolding getAMAgentsForFile_def SIP_agents_def Transfer_agents_def
  by (intro keeps_intros keeps_bind)

lemma keeps_File_create [keeps_intros]: "keeps db_inv (File_create E f)"
  unfolding File_create_def
  by (intro keeps_intros keeps_bind) (auto intro: db_inv_insert_file)

lemma keeps_insertIntoFiles [keeps_intros]: "keeps db_inv (insertIntoFiles E u p t tr sip use orig)"
  unfolding insertIntoFiles_def by (intro keeps_intros keeps_bind)

lemma keeps_event_agents_add [keeps_intros]: "keeps db_inv (event_agents_add pk as)"
  by (auto simp: keeps_def event_agents_add_def intro: db_inv_add_agents)

lemma Event_create_apply:
  fixes s :: "'s world_scheme" and E e
  defines "t \<equiv> s\<lparr>clock := Suc (clock s), next_pk := Suc (next_pk s)\<rparr>"
    and "e' \<equiv> e\<lparr>e_id := next_pk s, e_event_datetime := env_now E (clock s)\<rparr>"
  shows "Event_create E e s =
     (if \<not> event_id_free s e' \<or> next_pk s \<in> e_id ` set (Events s)
      then (Inl (IntegrityError ''Duplicate entry''), t)
      else if \<not> event_fks_ok s e' then (Inl (IntegrityError ''Cannot add or update a child row''), t)
      else (Inr e', t\<lparr>Events := Events s @ [e']\<rparr>))"
proof -
  have "event_id_free t e' = event_id_free s e'" "event_fks_ok t e' = event_fks_ok s e'"
    by (simp_all add: t_def event_id_free_def event_fks_ok_def)
  then show ?thesis
    by (simp add: Event_create_def py_simps Let_def t_def e'_def row_insert_def)
qed

lemma keeps_Event_create:
  assumes "e_agents e = []"
  shows "keeps db_inv (Event_create E e)"
proof (rule keepsI)
  fix s :: "'a world_scheme" assume inv: "db_inv s"
  let ?t = "s\<lparr>clock := Suc (clock s), next_pk := Suc (next_pk s)\<rparr>"
  let ?e = "e\<lparr>e_id := next_pk s, e_event_datetime := env_now E (clock s)\<rparr>"
  have t: "db_inv ?t" using db_inv_pk [of "s\<lparr>clock := Suc (clock s)\<rparr>"] inv by simp
  moreover have "db_inv (?t\<lparr>Events := Events s @ [?e]\<rparr>)"
    if "event_id_free s ?e" "next_pk s \<notin> e_id ` set (Events s)" "event_fks_ok s ?e"
    by (rule db_inv_insert_event [OF t, where e = ?e])
      (use that assms in \<open>simp_all add: event_id_free_def event_fks_ok_def row_insert_def\<close>)
  ultimately show "db_inv (snd (Event_create E e s))"
    by (simp add: Event_create_apply)
qed

lemma keeps_insertIntoEvents [keeps_intros]:
  "keeps db_inv (insertIntoEvents E u i t d det out note as)"
  unfolding insertIntoEvents_def
  by (intro keeps_intros keeps_bind keeps_Event_create) (simp add: new_event_def)

lemma keeps_insertIntoDerivations [keeps_intros]:
  "keeps db_inv (insertIntoDerivations a b c)"
  unfolding insertIntoDerivations_def Let_def
  by (intro keeps_intros keeps_bind) (auto intro: db_inv_insert_derivation)

lemma keeps_insertIntoFPCommandOutput [keeps_intros]:
  "keeps db_inv (insertIntoFPCommandOutput a b c)"
  unfolding insertIntoFPCommandOutput_def Let_def
  by (intro keeps_intros keeps_bind) auto

text \<open>Fetching a file and saving it with the same key and foreign keys.\<close>

lemma keeps_get_save:
  assumes "\<And>f. f_uuid (g f) = f_uuid f" and "\<And>f. f_sip (g f) = f_sip f"
    and "\<And>f. f_transfer (g f) = f_transfer f"
  shows "keeps db_inv (py_bind (get_file u) (\<lambda>f. File_save (g f)))"
proof (rule keepsI)
  fix s :: "'a world_scheme" assume inv: "db_inv s"
  show "db_inv (snd (py_bind (get_file u) (\<lambda>f. File_save (g f)) s))"
  proof (cases "get_one ''File'' (filter (\<lambda>f. f_uuid f = u) (Files s))")
    case (Inr f)
    then have "f \<in> set (filter (\<lambda>f. f_uuid f = u) (Files s))" by (simp add: get_one_cases)
    then have f: "f \<in> set (Files s)" by simp
    then have "file_fks_ok s f" using inv by (simp add: db_inv_def)
    then have "file_fks_ok s (g f)" using assms(2,3) by (simp add: file_fks_ok_def)
    with inv f have "db_inv (s\<lparr>Files := row_save f_uuid (g f) (Files s)\<rparr>)"
      by (intro db_inv_save_file) (simp_all add: assms(1))
    with Inr show ?thesis by (simp add: get_file_def File_save_def py_simps)
  qed (use inv in \<open>simp add: get_file_def py_simps\<close>)
qed

lemma keeps_fileWasRemoved [keeps_intros]: "keeps db_inv (fileWasRemoved E u d a b c)"
  unfolding fileWasRemoved_def
  by (intro keeps_intros keeps_bind keeps_get_save) simp_all

section \<open>Which agents an event is linked to\<close>

text \<open>The unit variable \<open>activeAgent\<close> of a unit is absent, or unique and an integer.\<close>

definition agent_variable_ok :: "'s world_scheme \<Rightarrow> string \<Rightarrow> string \<Rightarrow> bool" where
  "agent_variable_ok s ty u = (case unit_variables_of s ty u ''activeAgent'' of
      [] \<Rightarrow> True
    | [v] \<Rightarrow> (case u_variablevalue v of None \<Rightarrow> True
             | Some x \<Rightarrow> (case py_int x of Inl _ \<Rightarrow> False | Inr _ \<Rightarrow> True))
    | _ \<Rightarrow> False)"

definition active_agent :: "'s world_scheme \<Rightarrow> string \<Rightarrow> string \<Rightarrow> int option" where
  "active_agent s ty u = (case unit_variables_of s ty u ''activeAgent'' of
      [v] \<Rightarrow> (case u_variablevalue v of None \<Rightarrow> None
             | Some x \<Rightarrow> (case py_int x of Inl _ \<Rightarrow> None | Inr i \<Rightarrow> Some i))
    | _ \<Rightarrow> None)"

definition package_agents :: "'s world_scheme \<Rightarrow> string \<Rightarrow> string \<Rightarrow> agent_row list" where
  "package_agents s ty u =
     filter (\<lambda>a. a_id a = 2 \<or> active_agent s ty u = Some (int (a_id a))) (Agents s)"

definition file_agents :: "'s world_scheme \<Rightarrow> file_row \<Rightarrow> nat list" where
  "file_agents s f = map a_id (case (f_sip f, f_transfer f) of
      (Some sip, _) \<Rightarrow> package_agents s ''SIP'' sip
    | (None, Some tr) \<Rightarrow> package_agents s ''Transfer'' tr
    | (None, None) \<Rightarrow> filter (\<lambda>a. a_id a = 2) (Agents s))"

definition file_agents_ok :: "'s world_scheme \<Rightarrow> file_row \<Rightarrow> bool" where
  "file_agents_ok s f = (case (f_sip f, f_transfer f) of
      (Some sip, _) \<Rightarrow> agent_variable_ok s ''SIP'' sip
    | (None, Some tr) \<Rightarrow> agent_variable_ok s ''Transfer'' tr
    | (None, None) \<Rightarrow> True)"

lemma default_agents_eq: "default_agents = (\<lambda>a. a_id a = 2)"
  by (simp add: fun_eq_iff default_agents_def DEFAULT_ORGANIZATION_AGENT_PK_def)

lemma unit_agents_eq:
  "agent_variable_ok s ty u \<Longrightarrow> unit_agents ty u s = (Inr (package_agents s ty u), s)"
  by (auto simp: agent_variable_ok_def package_agents_def active_agent_def unit_agents_def
      get_unit_variable_def get_one_def py_simps missing_variable_def default_agents_def
      DEFAULT_ORGANIZATION_AGENT_PK_def split: list.splits option.splits sum.splits)

lemma get_by_key:
  assumes "db_inv s"
  shows "f \<in> set (Files s) \<Longrightarrow> get_file (f_uuid f) s = (Inr f, s)"
    and "r \<in> set (SIPs s) \<Longrightarrow> get_sip (s_uuid r) s = (Inr r, s)"
    and "t \<in> set (Transfers s) \<Longrightarrow> get_transfer (tr_uuid t) s = (Inr t, s)"
  using assms
  by (simp_all add: get_file_def get_sip_def get_transfer_def py_simps db_inv_def
      filter_key_unique get_one_def)

lemma getAMAgentsForFile_eq:
  assumes "db_inv s" and "f \<in> set (Files s)" and "file_agents_ok s f"
  shows "getAMAgentsForFile (f_uuid f) s = (Inr (file_agents s f), s)"
proof -
  have fks: "file_fks_ok s f" using assms(1,2) by (simp add: db_inv_def)
  consider (sip) r where "f_sip f = Some (s_uuid r)" "r \<in> set (SIPs s)"
    | (transfer) t where "f_sip f = None" "f_transfer f = Some (tr_uuid t)" "t \<in> set (Transfers s)"
    | (none) "f_sip f = None" "f_transfer f = None"
    using fks by (cases "f_sip f"; cases "f_transfer f") (auto simp: file_fks_ok_def)
  then show ?thesis
    using assms
    by cases (simp_all add: getAMAgentsForFile_def py_simps get_by_key file_agents_def file_agents_ok_def
        SIP_agents_def Transfer_agents_def unit_agents_eq default_agents_eq)
qed

lemma file_agents_exist: "set (file_agents s f) \<subseteq> a_id ` set (Agents s)"
  by (auto simp: file_agents_def package_agents_def split: option.splits)

text \<open>Only the tables of agents and unit variables matter.\<close>

lemma agents_cong:
  assumes "Agents t = Agents s" and "UnitVariables t = UnitVariables s"
  shows "agent_variable_ok t = agent_variable_ok s" and "package_agents t = package_agents s"
    and "file_agents t = file_agents s" and "file_agents_ok t = file_agents_ok s"
proof -
  have v: "unit_variables_of t = unit_variables_of s"
    by (simp add: fun_eq_iff unit_variables_of_def assms)
  have a: "active_agent t = active_agent s" by (simp add: fun_eq_iff active_agent_def v)
  show ok: "agent_variable_ok t = agent_variable_ok s"
    by (simp add: fun_eq_iff agent_variable_ok_def v)
  show p: "package_agents t = package_agents s"
    by (simp add: fun_eq_iff package_agents_def a assms)
  show "file_agents t = file_agents s" unfolding file_agents_def p assms ..
  show "file_agents_ok t = file_agents_ok s" unfolding file_agents_ok_def ok ..
qed

text \<open>The event written for a file, with the agents given or else those of the file.\<close>

definition recorded_event ::
  "env \<Rightarrow> 's world_scheme \<Rightarrow> string \<Rightarrow> string \<Rightarrow> string \<Rightarrow> string \<Rightarrow> string \<Rightarrow> string \<Rightarrow> event_row" where
  "recorded_event E s u eid ty det out note =
     \<lparr>e_id = next_pk s, e_event_id = Some eid, e_file_uuid = Some u, e_event_type = ty,
      e_event_datetime = env_now E (clock s), e_event_detail = det, e_event_outcome = out,
      e_event_outcome_detail = note, e_agents = []\<rparr>"

lemma insertIntoEvents_eq:
  assumes inv: "db_inv s" and f: "f \<in> set (Files s)" "file_agents_ok s f"
    and eid: "eid \<noteq> []" "Some eid \<notin> e_event_id ` set (Events s)"
    and as: "set as \<subseteq> a_id ` set (Agents s)"
  shows "insertIntoEvents E (f_uuid f) eid ty (Some d) det out note as s =
     (let e = recorded_event E s (f_uuid f) eid ty det out note;
          as' = (if as = [] then file_agents s f else as)
      in (Inr e, s\<lparr>clock := Suc (clock s), next_pk := Suc (next_pk s),
            Events := Events s @ [e\<lparr>e_agents := remdups as'\<rparr>]\<rparr>))"
proof -
  let ?e = "recorded_event E s (f_uuid f) eid ty det out note"
  let ?as = "if as = [] then file_agents s f else as"
  have ids: "next_pk s \<notin> e_id ` set (Events s)" using inv by (auto simp: db_inv_def)
  have fresh: "event_id_free s ?e" "event_fks_ok s ?e"
    using eid f(1) by (auto simp: event_id_free_def event_fks_ok_def recorded_event_def)
  have agents: "(if as = [] then getAMAgentsForFile (f_uuid f) else py_ret as) s = (Inr ?as, s)"
    using getAMAgentsForFile_eq [OF inv f] by (simp add: py_simps)
  have "list_all (\<lambda>i. i \<in> a_id ` set (Agents s)) ?as"
    using as file_agents_exist [of s f] by (auto simp: list_all_iff)
  moreover have "row_update (\<lambda>e. e_id e = next_pk s) g (Events s @ [?e]) = Events s @ [g ?e]" for g
    using inv
    by (subst row_update_append, subst row_update_absent)
      (auto simp: row_update_sole recorded_event_def db_inv_def)
  moreover have "(new_event eid)\<lparr>e_file_uuid := Some (f_uuid f), e_event_type := ty,
      e_event_datetime := env_now E (clock s), e_event_detail := det, e_event_outcome := out,
      e_event_outcome_detail := note, e_id := next_pk s\<rparr> = ?e"
    by (simp add: new_event_def recorded_event_def)
  ultimately show ?thesis
    using fresh ids eid(1) agents
    by (simp add: insertIntoEvents_def py_simps Event_create_apply event_agents_add_def Let_def
        recorded_event_def new_event_def cong: if_cong)
qed

section \<open>Unit variables as a map\<close>

text \<open>
  The abstract view of the table: a map from unit type, unit and name to the value and the link of the
  variable. It is a view of the table as long as no key has two rows.
\<close>

definition variable_map :: "'s world_scheme \<Rightarrow> (string \<times> string \<times> string) \<rightharpoonup> (string option \<times> string option)" where
  "variable_map s = (\<lambda>(ty, u, v). case unit_variables_of s ty u v of
      [] \<Rightarrow> None | r # _ \<Rightarrow> Some (u_variablevalue r, u_microservicechainlink r))"

definition variables_ok :: "'s world_scheme \<Rightarrow> bool" where
  "variables_ok s = (distinct (map u_id (UnitVariables s)) \<and> (\<forall>ty u v. length (unit_variables_of s ty u v) \<le> 1))"

interpretation variable_table: keyed_table u_id "row_insert u_id" "row_save u_id"
  by (rule row_insert_table)

lemma update_variable_rows:
  assumes "length (unit_variables_of s ty u v) \<le> 1" and "distinct (map u_id (UnitVariables s))"
    and "env_uuid4 E (uuids s) \<notin> u_id ` set (UnitVariables s)"
  shows "\<exists>t r. update_variable E ty u v val link s = (Inr (), t) \<and>
     unit_variables_of t ty u v = [r] \<and> u_variablevalue r = Some val \<and>
     u_microservicechainlink r = link \<and> distinct (map u_id (UnitVariables t)) \<and>
     (\<forall>ty' u' v'. (ty', u', v') \<noteq> (ty, u, v) \<longrightarrow>
        unit_variables_of t ty' u' v' = unit_variables_of s ty' u' v')"
proof (cases "unit_variables_of s ty u v")
  case Nil
  then show ?thesis
    using assms(2,3)
    by (auto simp: update_variable_def py_simps get_unit_variable_apply get_one_def row_insert_def
        unit_variables_of_eq matches_variable_def)
next
  case (Cons r rs)
  with assms(1) have one: "unit_variables_of s ty u v = [r]" by simp
  then have r: "r \<in> set (UnitVariables s)" "matches_variable ty u v r"
    using unit_variables_of_eq [of s ty u v] by (auto dest: filter_eq_ConsD)
  let ?r = "r\<lparr>u_variablevalue := Some val, u_microservicechainlink := link,
    u_updatedtime := env_now E (clock s)\<rparr>"
  have "filter (matches_variable ty u v) (row_save u_id ?r (UnitVariables s)) = [?r]"
    using one r(2) by (intro filter_save [OF assms(2)]) (simp_all add: unit_variables_of_eq matches_variable_def)
  moreover have "filter (matches_variable ty' u' v') (row_save u_id ?r (UnitVariables s)) =
      filter (matches_variable ty' u' v') (UnitVariables s)" if "(ty', u', v') \<noteq> (ty, u, v)" for ty' u' v'
    using that r(2) by (intro filter_save_other [OF assms(2) r(1)]) (auto simp: matches_variable_def)
  moreover have "distinct (map u_id (row_save u_id ?r (UnitVariables s)))"
    using variable_table.save_keys [of ?r "UnitVariables s"] r(1) assms(2) by simp
  ultimately show ?thesis
    using one
    by (simp add: update_variable_def py_simps get_unit_variable_apply get_one_def unit_variables_of_eq)
qed

lemma update_variable_map:
  assumes ok: "variables_ok s" and fresh: "env_uuid4 E (uuids s) \<notin> u_id ` set (UnitVariables s)"
  shows "\<exists>t. update_variable E ty u v val link s = (Inr (), t) \<and> variables_ok t \<and>
     variable_map t = (variable_map s)((ty, u, v) \<mapsto> (Some val, link))"
proof -
  have one: "length (unit_variables_of s ty' u' v') \<le> 1" for ty' u' v' using ok by (simp add: variables_ok_def)
  obtain t r where t: "update_variable E ty u v val link s = (Inr (), t)" "distinct (map u_id (UnitVariables t))"
    and r: "unit_variables_of t ty u v = [r]" "u_variablevalue r = Some val" "u_microservicechainlink r = link"
    and other: "\<And>ty' u' v'. (ty', u', v') \<noteq> (ty, u, v) \<Longrightarrow>
        unit_variables_of t ty' u' v' = unit_variables_of s ty' u' v'"
    using update_variable_rows [OF one _ fresh, of ty u v val link] ok unfolding variables_ok_def by blast
  have "length (unit_variables_of t ty' u' v') \<le> 1" for ty' u' v'
    using r(1) other [of ty' u' v'] one [of ty' u' v'] by (cases "(ty', u', v') = (ty, u, v)") auto
  moreover have "variable_map t k = ((variable_map s)((ty, u, v) \<mapsto> (Some val, link))) k" for k
    using r other by (cases k) (auto simp: variable_map_def)
  ultimately show ?thesis using t by (auto simp: variables_ok_def)
qed

lemma unset_partial_reingest_map:
  assumes "variables_ok s"
  shows "\<exists>t. unset_partial_reingest u s = (Inr (), t) \<and> variables_ok t \<and>
     variable_map t = (variable_map s)((''SIP'', u, ''isPartialReingest'') := None)"
proof -
  let ?P = "matches_variable ''SIP'' u ''isPartialReingest''"
  let ?t = "s\<lparr>UnitVariables := filter (\<lambda>r. \<not> ?P r) (UnitVariables s)\<rparr>"
  have same: "unit_variables_of ?t ty' u' v' =
      (if (ty', u', v') = (''SIP'', u, ''isPartialReingest'') then [] else unit_variables_of s ty' u' v')" for ty' u' v'
    by (auto simp: unit_variables_of_eq matches_variable_def filter_empty_conv intro!: filter_cong)
  have "variables_ok ?t" using assms by (simp add: variables_ok_def same distinct_map_filter)
  moreover have "variable_map ?t k = ((variable_map s)((''SIP'', u, ''isPartialReingest'') := None)) k" for k
    by (cases k) (simp add: variable_map_def same)
  moreover have "unset_partial_reingest u s = (Inr (), ?t)"
    by (simp add: unset_partial_reingest_def py_simps matches_variable_def [abs_def])
  ultimately show ?thesis by blast
qed

lemma variable_reads:
  assumes "variables_ok s"
  shows "is_partial_reingest u s = (Inr (variable_map s (''SIP'', u, ''isPartialReingest'') \<noteq> None), s)"
    and "processing_configuration u s = (Inr (case variable_map s (''Transfer'', u, ''processingConfiguration'') of
        Some (Some c, _) \<Rightarrow> if c = [] then ''default'' else c | _ \<Rightarrow> ''default''), s)"
proof -
  show "is_partial_reingest u s = (Inr (variable_map s (''SIP'', u, ''isPartialReingest'') \<noteq> None), s)"
    by (simp add: is_partial_reingest_def py_simps variable_map_def split: list.splits)
  let ?rs = "unit_variables_of s ''Transfer'' u ''processingConfiguration''"
  have "length ?rs \<le> 1" using assms by (simp add: variables_ok_def)
  then consider "?rs = []" | r where "?rs = [r]" by (cases ?rs) auto
  then show "processing_configuration u s = (Inr (case variable_map s (''Transfer'', u, ''processingConfiguration'') of
        Some (Some c, _) \<Rightarrow> if c = [] then ''default'' else c | _ \<Rightarrow> ''default''), s)"
    by cases (simp_all add: processing_configuration_def py_simps get_unit_variable_apply get_one_def variable_map_def
      missing_variable_def split: option.splits)
qed

section \<open>Example state\<close>

definition env_ex :: env where
  "env_ex = \<lparr>env_now = (\<lambda>n. ''now'' @ str_nat n), env_uuid4 = (\<lambda>n. ''uuid'' @ str_nat n),
     env_traceback = (\<lambda>e. []), env_cwd = ''/''\<rparr>"

definition agent_ex :: agent_row where
  "agent_ex = \<lparr>a_id = 2, a_identifiertype = None, a_identifiervalue = None, a_name = None,
     a_agenttype = ''organization''\<rparr>"

definition transfer_ex :: transfer_row where
  "transfer_ex = \<lparr>tr_uuid = ''t'', tr_currentlocation = ''%sharedPath%t/'', tr_type = ''Standard'',
     tr_accessionid = ''A1'', tr_sourceofacquisition = [], tr_typeoftransfer = [],
     tr_description = [], tr_notes = [], tr_access_system_id = [], tr_hidden = False,
     tr_transfermetadatasetrow = None, tr_diruuids = False, tr_status = 0, tr_completed_at = None\<rparr>"

definition file_ex :: file_row where
  "file_ex = (new_file ''f'')\<lparr>f_transfer := Some ''t'',
     f_originallocation := ''%transferDirectory%objects/a'',
     f_currentlocation := Some ''%transferDirectory%objects/a''\<rparr>"

definition world_ex :: world where
  "world_ex = \<lparr>cur_job = Job_init ''job'' ''task'' [] False, log_buffer = None, Files = [file_ex],
     Events = [], Derivations = [], SIPs = [], Transfers = [transfer_ex], Directories = [],
     Agents = [agent_ex], UnitVariables = [], Identifiers = [], Settings = [], CommandOutputs = [],
     FPRules = [''rule''], next_pk = 0, clock = 0, uuids = 0, fs = FDir []\<rparr>"

lemmas ex_defs = world_ex_def file_ex_def agent_ex_def transfer_ex_def new_file_def env_ex_def

lemma world_ex_inv: "db_inv world_ex" and file_ex_agents: "file_agents_ok world_ex file_ex"
  and file_ex_in: "file_ex \<in> set (Files world_ex)"
  by (simp_all add: ex_defs db_inv_def file_fks_ok_def file_agents_ok_def agent_variable_ok_def
      unit_variables_of_def)

section \<open>Properties\<close>

text \<open>\<open>insertIntoFiles\<close> with exactly one of transfer and SIP adds one row to the Files table,
  at the given path, with the path as original location unless another one is given, and
  raises for a duplicate UUID, an unknown unit, or when both or none of the units are given.
  The entry date of the row is the clock reading of the insertion and never the date passed in.\<close>

theorem insertIntoFiles_spec:
  "insertIntoFiles E u p (Some entered) tr sip use orig s =
    (if (tr = []) = (sip = []) then (Inl (not_supported_error sip tr), s)
     else let t = s\<lparr>clock := Suc (Suc (clock s))\<rparr>;
              f = (new_file u)\<lparr>f_sip := (if sip = [] then None else Some sip),
                    f_transfer := (if tr = [] then None else Some tr),
                    f_originallocation := (if orig = None \<or> orig = Some [] then p else the orig),
                    f_currentlocation := Some p, f_filegrpuse := use,
                    f_modificationtime := Some (env_now E (clock s)),
                    f_enteredsystem := env_now E (Suc (clock s))\<rparr>
          in if u \<in> f_uuid ` set (Files s) then (Inl (IntegrityError ''Duplicate entry''), t)
             else if file_fks_ok s f then (Inr f, t\<lparr>Files := Files s @ [f]\<rparr>)
             else (Inl (IntegrityError ''Cannot add or update a child row''), t))"
proof -
  have "file_fks_ok (s\<lparr>clock := c\<rparr>) = file_fks_ok s" for c
    by (simp add: fun_eq_iff file_fks_ok_def)
  then show ?thesis
    by (auto simp: insertIntoFiles_def File_create_def py_simps row_insert_def Let_def new_file_def
        split: option.splits)
qed

text \<open>C11. Recording an event for an existing file appends exactly one event, linked to the agents
  given or, when none are, to the agents of the file's SIP or transfer (the default agent and the
  active user). Its date is the clock reading of the insertion, whatever date was passed in.\<close>

theorem insertIntoEvents_records:
  assumes "db_inv s" and "f \<in> set (Files s)" and "file_agents_ok s f"
    and "eid \<noteq> []" and "Some eid \<notin> e_event_id ` set (Events s)"
    and "set agents \<subseteq> a_id ` set (Agents s)"
  shows "insertIntoEvents E (f_uuid f) eid ty (Some date) det out note agents s =
     (let e = recorded_event E s (f_uuid f) eid ty det out note;
          linked = (if agents = [] then file_agents s f else agents)
      in (Inr e, s\<lparr>clock := Suc (clock s), next_pk := Suc (next_pk s),
            Events := Events s @ [e\<lparr>e_agents := remdups linked\<rparr>]\<rparr>))"
  using assms by (rule insertIntoEvents_eq)

theorem insertIntoEvents_records_witness:
  "\<exists>t e. insertIntoEvents env_ex ''f'' ''ev'' ''ingestion'' (Some ''1999'') [] [] [] [] world_ex = (Inr e, t) \<and>
     map e_agents (Events t) = [[2]] \<and> map e_event_datetime (Events t) = [''now'' @ str_nat 0]"
proof -
  have u: "f_uuid file_ex = ''f''" by (simp add: ex_defs)
  have ids: "Some ''ev'' \<notin> e_event_id ` set (Events world_ex)" by (simp add: ex_defs)
  show ?thesis
    using insertIntoEvents_records [OF world_ex_inv file_ex_in file_ex_agents _ ids,
        of "[]" env_ex "''ingestion''" "''1999''"] u
    by (simp add: Let_def ex_defs recorded_event_def file_agents_def package_agents_def)
qed

text \<open>\<open>fileWasRemoved\<close> on an existing file returns, marks exactly that file as removed (removal
  time set, no current location) and appends one event of type \<open>file removed\<close> for it.\<close>

theorem fileWasRemoved_marks:
  assumes inv: "db_inv s" and f: "f \<in> set (Files s)" "file_agents_ok s f"
    and fresh: "env_uuid4 E (uuids s) \<noteq> []"
      "Some (env_uuid4 E (uuids s)) \<notin> e_event_id ` set (Events s)"
  shows "\<exists>t e. fileWasRemoved E (f_uuid f) (Some date) det note out s = (Inr (), t) \<and>
     Files t = map (\<lambda>x. if f_uuid x = f_uuid f
                     then f\<lparr>f_removedtime := Some date, f_currentlocation := None\<rparr> else x) (Files s) \<and>
     Events t = Events s @ [e] \<and> e_event_type e = ''file removed'' \<and>
     e_file_uuid e = Some (f_uuid f) \<and> e_agents e = remdups (file_agents s f)"
proof -
  let ?s = "s\<lparr>uuids := Suc (uuids s)\<rparr>"
  have "db_inv ?s" "file_agents_ok ?s f" and ag: "file_agents ?s f = file_agents s f"
    using inv f(2) agents_cong [of ?s s] by simp_all
  then have ev: "insertIntoEvents E (f_uuid f) (env_uuid4 E (uuids s)) ''file removed'' (Some date) det
      out note [] ?s = (let e = recorded_event E ?s (f_uuid f) (env_uuid4 E (uuids s)) ''file removed''
          det out note in (Inr e, ?s\<lparr>clock := Suc (clock s), next_pk := Suc (next_pk s),
            Events := Events s @ [e\<lparr>e_agents := remdups (file_agents s f)\<rparr>]\<rparr>))"
    using insertIntoEvents_eq [of ?s f "env_uuid4 E (uuids s)" "[]"] f fresh by simp
  have get: "get_file (f_uuid f) t = (Inr f, t)" if "Files t = Files s" for t :: "'a world_scheme"
    using get_by_key(1) [OF inv f(1)] that
    by (simp add: get_file_def py_simps split: prod.splits)
  show ?thesis
    using file_table.save_old [of "f\<lparr>f_removedtime := Some date, f_currentlocation := None\<rparr>" "Files s"] f(1)
    by (simp add: fileWasRemoved_def py_simps ev get File_save_def recorded_event_def Let_def)
qed

theorem fileWasRemoved_marks_witness:
  "\<exists>t. fileWasRemoved env_ex ''f'' (Some ''2020'') [] [] [] world_ex = (Inr (), t) \<and>
     map f_removedtime (Files t) = [Some ''2020''] \<and> map f_currentlocation (Files t) = [None]"
proof -
  have u: "f_uuid file_ex = ''f''" and fs: "Files world_ex = [file_ex]" by (simp_all add: ex_defs)
  have fresh: "env_uuid4 env_ex (uuids world_ex) \<noteq> []"
    "Some (env_uuid4 env_ex (uuids world_ex)) \<notin> e_event_id ` set (Events world_ex)"
    by (simp_all add: ex_defs)
  show ?thesis
    using fileWasRemoved_marks [OF world_ex_inv file_ex_in file_ex_agents fresh, of "''2020''" "[]" "[]" "[]"]
    by (auto simp: u fs)
qed

text \<open>Characterisation output is not unique per file and rule: storing output for a file and rule
  that already have some succeeds and leaves one more row.\<close>

theorem command_output_accepts_duplicates:
  assumes "u \<in> f_uuid ` set (Files s)" and "rule \<in> set (FPRules s)"
    and "next_pk s \<notin> o_id ` set (CommandOutputs s)"
  shows "insertIntoFPCommandOutput u xml rule s =
     (Inr (), s\<lparr>next_pk := Suc (next_pk s), CommandOutputs := CommandOutputs s @
        [\<lparr>o_id = next_pk s, o_file = u, o_content = Some xml, o_rule = rule\<rparr>]\<rparr>)"
  using assms by (simp add: insertIntoFPCommandOutput_def py_simps Let_def row_insert_def)

theorem command_output_accepts_duplicates_witness:
  "\<exists>s t. insertIntoFPCommandOutput ''f'' ''<a/>'' ''rule'' world_ex = (Inr (), s) \<and>
     insertIntoFPCommandOutput ''f'' ''<b/>'' ''rule'' s = (Inr (), t) \<and>
     map (\<lambda>r. (o_file r, o_rule r)) (CommandOutputs t) = [(''f'', ''rule''), (''f'', ''rule'')]"
proof -
  let ?t = "world_ex\<lparr>next_pk := 1, CommandOutputs :=
    [\<lparr>o_id = 0, o_file = ''f'', o_content = Some ''<a/>'', o_rule = ''rule''\<rparr>]\<rparr>"
  show ?thesis
    using command_output_accepts_duplicates [of "''f''" world_ex "''rule''" "''<a/>''"]
      command_output_accepts_duplicates [of "''f''" ?t "''rule''" "''<b/>''"]
    by (simp add: ex_defs)
qed

text \<open>Settings dictionaries round trip: storing a dictionary under a scope succeeds, reading the
  scope gives the same dictionary back, and the dictionaries of all other scopes are as before.\<close>

theorem settings_round_trip:
  assumes "distinct (map fst items)"
  shows "\<exists>t. settings_set_dict E scope items s = (Inr (), t) \<and>
     settings_get_dict scope t = (Inr items, t) \<and>
     (\<forall>other. other \<noteq> scope \<longrightarrow> fst (settings_get_dict other t) = fst (settings_get_dict other s))"
proof -
  let ?s = "s\<lparr>Settings := filter (\<lambda>r. ds_scope r \<noteq> scope) (Settings s)\<rparr>"
  obtain rows t where t: "settings_set_dict E scope items s = (Inr (), t)"
    and rows: "Settings t = Settings ?s @ rows" "map (\<lambda>r. (ds_name r, ds_value r)) rows = items"
      "\<forall>r \<in> set rows. ds_scope r = scope"
    using settings_loop [of items E scope ?s]
    by (auto simp: settings_set_dict_def settings_unset_dict_def py_seq_apply py_mod_apply)
  have "filter (\<lambda>r. ds_scope r = scope) (Settings t) = rows"
    using rows(1,3) by (simp add: filter_empty_conv)
  moreover have "filter (\<lambda>r. ds_scope r = other) (Settings t) = filter (\<lambda>r. ds_scope r = other) (Settings s)"
    if "other \<noteq> scope" for other
    using rows(1,3) that by (auto simp: filter_empty_conv intro: filter_cong)
  moreover have "dict_update [] items = items" using dict_update_new [of items "[]"] assms by simp
  ultimately show ?thesis
    using t rows(2) by (simp add: settings_get_dict_def py_simps)
qed

theorem settings_round_trip_witness:
  "\<exists>t. settings_set_dict env_ex ''handle'' [(''a'', ''1''), (''b'', ''2'')] world_ex = (Inr (), t) \<and>
     settings_get_dict ''handle'' t = (Inr [(''a'', ''1''), (''b'', ''2'')], t)"
  using settings_round_trip [of "[(''a'', ''1''), (''b'', ''2'')]" env_ex "''handle''" world_ex] by auto

text \<open>C12. The unit variables implement a map from unit and name to value: on a table without double keys,
  \<open>update_variable\<close> is an update of the map and \<open>unset_partial_reingest\<close> a removal, both keep the keys
  single, and \<open>is_partial_reingest\<close> and \<open>processing_configuration\<close> are lookups.\<close>

theorem unit_variables_refine_map:
  assumes "variables_ok s" and "env_uuid4 E (uuids s) \<notin> u_id ` set (UnitVariables s)"
  shows "(\<exists>t. update_variable E ty u v val link s = (Inr (), t) \<and> variables_ok t \<and>
       variable_map t = (variable_map s)((ty, u, v) \<mapsto> (Some val, link))) \<and>
     (\<exists>t. unset_partial_reingest u s = (Inr (), t) \<and> variables_ok t \<and>
       variable_map t = (variable_map s)((''SIP'', u, ''isPartialReingest'') := None)) \<and>
     is_partial_reingest u s = (Inr (variable_map s (''SIP'', u, ''isPartialReingest'') \<noteq> None), s) \<and>
     processing_configuration u s = (Inr (case variable_map s (''Transfer'', u, ''processingConfiguration'') of
        Some (Some c, _) \<Rightarrow> if c = [] then ''default'' else c | _ \<Rightarrow> ''default''), s)"
  by (intro conjI update_variable_map [OF assms] unset_partial_reingest_map [OF assms(1)] variable_reads [OF assms(1)])

theorem unit_variables_refine_map_witness:
  "\<exists>t. update_variable env_ex ''SIP'' ''s'' ''isPartialReingest'' ''true'' None world_ex = (Inr (), t) \<and>
     variable_map t = [(''SIP'', ''s'', ''isPartialReingest'') \<mapsto> (Some ''true'', None)]"
proof -
  have ok: "variables_ok world_ex" "env_uuid4 env_ex (uuids world_ex) \<notin> u_id ` set (UnitVariables world_ex)"
    and empty: "variable_map world_ex = Map.empty"
    by (auto simp: ex_defs unit_variables_of_def variables_ok_def variable_map_def)
  from unit_variables_refine_map [OF ok, of "''SIP''" "''s''" "''isPartialReingest''" "''true''" None]
  have "\<exists>t. update_variable env_ex ''SIP'' ''s'' ''isPartialReingest'' ''true'' None world_ex = (Inr (), t) \<and>
      variables_ok t \<and> variable_map t = (variable_map world_ex)((''SIP'', ''s'', ''isPartialReingest'') \<mapsto> (Some ''true'', None))"
    by (rule conjunct1)
  then show ?thesis unfolding empty by blast
qed

end
