(* ===== verification/AMFunctions.thy ===== *)
theory AMFunctions
  imports Database
begin

text \<open>
  \<open>utils/archivematicaFunctions.py\<close>: settings, metadata and METS discovery, directory creation,
  directory sizes, package names and the other helpers the client scripts share. Hashing, the
  BagIt library and the XML parser are arguments.
\<close>

section \<open>File system effects\<close>

definition fs_get :: "(fnode \<Rightarrow> 'a) \<Rightarrow> ('s world_scheme, 'a) py" where
  "fs_get f = py_get (\<lambda>s. f (fs s))"

definition fs_do :: "(fnode \<Rightarrow> py_exn + fnode) \<Rightarrow> ('s world_scheme, unit) py" where
  "fs_do f = py_bind (py_get (\<lambda>s. f (fs s))) (\<lambda>r. py_bind (py_lift r) (\<lambda>n. py_mod (\<lambda>s. s\<lparr>fs := n\<rparr>)))"

lemma fs_get_apply [py_simps]: "fs_get f s = (Inr (f (fs s)), s)"
  by (simp add: fs_get_def py_simps)

lemma fs_do_apply [py_simps]:
  "fs_do f s = (case f (fs s) of Inl e \<Rightarrow> (Inl e, s) | Inr n \<Rightarrow> (Inr (), s\<lparr>fs := n\<rparr>))"
  by (simp add: fs_do_def py_simps split: sum.splits)

section \<open>Settings and dictionaries of lists\<close>

definition get_setting :: "string \<Rightarrow> string \<Rightarrow> ('s world_scheme, string) py" where
  "get_setting setting dflt =
     py_try (py_bind (py_get (\<lambda>s. get_one ''DashboardSetting''
               (filter (\<lambda>r. ds_name r = setting) (Settings s))))
              (\<lambda>r. py_bind (py_lift r) (\<lambda>row. py_ret (ds_value row))))
       (\<lambda>e. if e = DoesNotExist ''DashboardSetting'' then Some (py_ret dflt) else None)"

text \<open>\<open>OrderedListsDict.__setitem__\<close>: the value is appended to the list of its key.\<close>

definition lists_dict_set :: "('k \<times> 'v list) list \<Rightarrow> 'k \<Rightarrow> 'v \<Rightarrow> ('k \<times> 'v list) list" where
  "lists_dict_set d key val =
     (let d' = (case map_of d key of None \<Rightarrow> dict_set d key [] | Some _ \<Rightarrow> d)
      in case map_of d' key of None \<Rightarrow> d' | Some vs \<Rightarrow> dict_set d' key (vs @ [val]))"

definition getTagged :: "('e \<Rightarrow> string) \<Rightarrow> 'e list \<Rightarrow> string \<Rightarrow> 'e list" where
  "getTagged tag root t = filter (\<lambda>element. tag element = t) root"

text \<open>\<open>get_file_checksum\<close>: \<open>hexdigest\<close> is \<open>hashlib\<close> on the whole content; reading in chunks does
  not change the digest.\<close>

definition get_file_checksum ::
  "(string \<Rightarrow> string \<Rightarrow> py_exn + string) \<Rightarrow> string \<Rightarrow> string \<Rightarrow> ('s world_scheme, string) py" where
  "get_file_checksum hexdigest filename algorithm =
     py_seq (py_lift (hexdigest algorithm []))
     (py_bind (fs_get (\<lambda>n. read_file n filename)) (\<lambda>r.
      py_bind (py_lift r) (\<lambda>content. py_lift (hexdigest algorithm content))))"

section \<open>Finding files\<close>

definition find_metadata_files :: "string \<Rightarrow> string \<Rightarrow> bool \<Rightarrow> ('s world_scheme, string list) py" where
  "find_metadata_files sip_path filename only_transfers =
     (let transfers_md_path = path_joins sip_path [''objects'', ''metadata'', ''transfers'']
      in fs_get (\<lambda>n.
        (let transfers = (case os_listdir n transfers_md_path of Inl _ \<Rightarrow> [] | Inr ts \<Rightarrow> ts);
             paths = filter (os_isfile n)
               (map (\<lambda>transfer. path_joins transfers_md_path [transfer, filename]) transfers);
             path = path_joins sip_path [''objects'', ''metadata'', filename]
         in if \<not> only_transfers \<and> os_isfile n path then paths @ [path] else paths)))"

text \<open>\<open>glob.glob(src + "/METS.*.xml")\<close>: the names of the directory that match, as paths.\<close>

definition mets_name :: "string \<Rightarrow> bool" where
  "mets_name n = (startswith n ''METS.'' \<and> endswith n ''.xml'' \<and> 9 \<le> length n)"

definition find_mets_file :: "string \<Rightarrow> ('s world_scheme, string) py" where
  "find_mets_file unit_path =
     (let src = path_join unit_path ''metadata'' in
      py_bind (fs_get (\<lambda>n. case os_listdir n src of Inl _ \<Rightarrow> []
                 | Inr ns \<Rightarrow> map (path_join src) (filter mets_name ns))) (\<lambda>mets_paths.
      if length mets_paths = 1 then py_ret (hd mets_paths)
      else if mets_paths = [] then py_raise (OSError 17 (''No METS file found in '' @ src))
      else py_raise (OSError 17 (''Multiple METS files found in '' @ src @ '': '' @ repr_list mets_paths))))"

definition find_transfer_path_from_ingest :: "string \<Rightarrow> string \<Rightarrow> ('s world_scheme, string) py" where
  "find_transfer_path_from_ingest transfer_path shared_path =
     (let stripped = str_rstrip slash transfer_path;
          transfer_uuid = drop (length stripped - 36) stripped;
          path1 = str_replace1 transfer_path ''%sharedPath%'' shared_path;
          path2 = path_joins shared_path [''tmp'', ''transfer-'' @ transfer_uuid]
      in py_bind (fs_get (\<lambda>n. (os_isdir n path1, os_isdir n path2))) (\<lambda>(d1, d2).
         if d1 then py_ret path1
         else if d2 then py_ret path2
         else py_raise (PyException ''Transfer directory not physically found'')))"

section \<open>Creating directories\<close>

definition REQUIRED_DIRECTORIES :: "string list" where
  "REQUIRED_DIRECTORIES = [''logs'', ''logs/fileMeta'', ''metadata'',
     ''metadata/submissionDocumentation'', ''objects'']"

definition MANUAL_NORMALIZATION_DIRECTORIES :: "string list" where
  "MANUAL_NORMALIZATION_DIRECTORIES =
     [''objects/manualNormalization/access'', ''objects/manualNormalization/preservation'']"

definition create_directory ::
  "string \<Rightarrow> bool \<Rightarrow> (string list \<Rightarrow> ('s world_scheme, unit) py) \<Rightarrow> string \<Rightarrow> ('s world_scheme, unit) py" where
  "create_directory basepath printing printfn directory =
     (let dir_path = path_join basepath directory in
      py_bind (fs_get (\<lambda>n. os_isdir n dir_path)) (\<lambda>there.
      py_when (\<not> there)
        (py_seq (fs_do (os_makedirs dir_path))
                (py_when printing (printfn [''Creating directory'', dir_path])))))"

definition create_directories ::
  "string list \<Rightarrow> string \<Rightarrow> bool \<Rightarrow> (string list \<Rightarrow> ('s world_scheme, unit) py) \<Rightarrow>
     ('s world_scheme, unit) py" where
  "create_directories directories basepath printing printfn =
     py_for directories (create_directory basepath printing printfn)"

definition create_structured_directory ::
  "string \<Rightarrow> bool \<Rightarrow> bool \<Rightarrow> (string list \<Rightarrow> ('s world_scheme, unit) py) \<Rightarrow> ('s world_scheme, unit) py" where
  "create_structured_directory basepath manual_normalization printing printfn =
     py_seq (create_directories REQUIRED_DIRECTORIES basepath printing printfn)
       (py_when manual_normalization
          (create_directories MANUAL_NORMALIZATION_DIRECTORIES basepath printing printfn))"

text \<open>\<open>get_dir_uuids\<close>: every path with a fresh UUID.\<close>

definition get_dir_uuids ::
  "env \<Rightarrow> string list \<Rightarrow> (string list \<Rightarrow> ('s world_scheme, unit) py) \<Rightarrow> ('s world_scheme, dir_entry list) py" where
  "get_dir_uuids E dir_paths printfn =
     py_map (\<lambda>dir_path. py_bind (uuid4 E) (\<lambda>u.
       (let msg = ''Assigning UUID '' @ u @ '' to directory path '' @ dir_path in
        py_seq (printfn [msg]) (py_seq (log_msg INFO msg)
          (py_ret \<lparr>de_currentLocation = dir_path, de_uuid = u, de_originalLocation = None\<rparr>))))) dir_paths"

definition format_subdir_path :: "string \<Rightarrow> string \<Rightarrow> string" where
  "format_subdir_path dir_path path_prefix_to_repl =
     str_replace1 (path_join dir_path []) path_prefix_to_repl ''%transferDirectory%''"

section \<open>Sizes\<close>

fun sum_sizes :: "fnode \<Rightarrow> string list \<Rightarrow> py_exn + int" where
  "sum_sizes n [] = Inr 0"
| "sum_sizes n (p # ps) = (case os_getsize n p of Inl e \<Rightarrow> Inl e
     | Inr k \<Rightarrow> (case sum_sizes n ps of Inl e \<Rightarrow> Inl e | Inr k' \<Rightarrow> Inr (k + k')))"

definition walk_files :: "fnode \<Rightarrow> string \<Rightarrow> string list" where
  "walk_files n p =
     concat (map (\<lambda>(dirpath, _, filenames). map (path_join dirpath) filenames) (os_walk n p))"

definition walk_dir :: "string \<Rightarrow> ('s world_scheme, int) py" where
  "walk_dir dir_path = py_bind (fs_get (\<lambda>n. sum_sizes n (walk_files n dir_path))) py_lift"

text \<open>\<open>get_bag_size\<close>: \<open>info\<close> are the bag's metadata elements.\<close>

definition get_bag_size :: "(string \<rightharpoonup> string) \<Rightarrow> string \<Rightarrow> ('s world_scheme, int) py" where
  "get_bag_size info path = (case info ''Payload-Oxum'' of
      Some oxum \<Rightarrow> py_lift (py_int (hd (str_split (CHR ''.'') oxum)))
    | None \<Rightarrow> walk_dir path)"

definition str2bool :: "string \<Rightarrow> bool" where
  "str2bool val = (val = ''True'')"

section \<open>Empty directories from a METS structural map\<close>

text \<open>A \<open>mets:div\<close>: its \<open>LABEL\<close> and \<open>TYPE\<close> attributes and its child divisions.\<close>

datatype mets_div = Div (div_label: "string option") (div_type: "string option") (div_children: "mets_div list")

text \<open>A missing \<open>LABEL\<close> is joined to the path as \<open>None\<close>, a \<open>TypeError\<close>.\<close>

fun concat_results :: "(py_exn + 'a list) list \<Rightarrow> py_exn + 'a list" where
  "concat_results [] = Inr []"
| "concat_results (r # rs) = (case r of Inl e \<Rightarrow> Inl e
     | Inr xs \<Rightarrow> (case concat_results rs of Inl e \<Rightarrow> Inl e | Inr ys \<Rightarrow> Inr (xs @ ys)))"

function div_el_to_dir_paths :: "mets_div \<Rightarrow> string \<Rightarrow> bool \<Rightarrow> py_exn + string list" where
  "div_el_to_dir_paths (Div label ty children) parent include =
     (if parent = [] \<and> (label = Some ''metadata'' \<or> label = Some ''submissionDocumentation'')
      then Inr []
      else if include \<and> label = None
      then Inl (TypeError ''join() argument must be str'')
      else (let path = (if include then path_join parent (the label) else parent);
                own = (if include then [path] else [])
            in map_sum id (\<lambda>ps. own @ ps)
                 (concat_results (map (\<lambda>sub. div_el_to_dir_paths sub path True)
                    (filter (\<lambda>sub. div_type sub = Some ''Directory'') children)))))"
  by pat_completeness auto
termination
  by (relation "measure (\<lambda>(d, _, _). size d)")
    (auto simp: less_Suc_eq_le intro: size_list_estimation')

text \<open>\<open>reconstruct_empty_directories\<close>; \<open>find_root_div\<close> is the parser: the division labelled
  \<open>objects\<close> of the normative structural map of the document, if there is one.\<close>

definition make_missing :: "string \<Rightarrow> string \<Rightarrow> ('s world_scheme, unit) py" where
  "make_missing objects_path path =
     (let p = path_join objects_path path in
      py_bind (fs_get (\<lambda>n. os_isdir n p)) (\<lambda>there. py_when (\<not> there) (fs_do (os_makedirs p))))"

definition reconstruct_empty_directories ::
  "(string \<Rightarrow> py_exn + mets_div option) \<Rightarrow> string \<Rightarrow> string \<Rightarrow> ('s world_scheme, unit) py" where
  "reconstruct_empty_directories find_root_div mets_file_path objects_path =
     py_bind (fs_get (\<lambda>n. os_isfile n mets_file_path \<and> os_isdir n objects_path)) (\<lambda>there.
     if \<not> there then py_ret ()
     else py_bind (fs_get (\<lambda>n. read_file n mets_file_path)) (\<lambda>r.
          py_bind (py_lift r) (\<lambda>content.
          py_bind (py_lift (find_root_div content)) (\<lambda>root_div_el.
          case root_div_el of
            None \<Rightarrow> py_ret ()
          | Some root \<Rightarrow>
              py_bind (py_lift (div_el_to_dir_paths root [] False)) (\<lambda>paths.
              py_for paths (make_missing objects_path))))))"

section \<open>Names of packages\<close>

definition PACKAGE_UUID_SUFFIX_LENGTH :: nat where "PACKAGE_UUID_SUFFIX_LENGTH = 37"

definition PACKAGE_EXTENSIONS :: "string list" where
  "PACKAGE_EXTENSIONS = [''.tar'', ''.7z'', ''.bz2'', ''.gz'']"

text \<open>\<open>name[:-k]\<close> for positive \<open>k\<close> is \<open>take (length name - k) name\<close>.\<close>

definition package_name_from_path :: "string \<Rightarrow> bool \<Rightarrow> string" where
  "package_name_from_path current_path remove_uuid_suffix =
     (let name = Path_name current_path;
          chars = (if remove_uuid_suffix then PACKAGE_UUID_SUFFIX_LENGTH else 0)
            + sum_list (map length (takeWhile (\<lambda>suffix. suffix \<in> set PACKAGE_EXTENSIONS)
                (rev (Path_suffixes current_path))))
      in if chars = 0 then name else take (length name - chars) name)"

definition relative_path_to_aip_mets_file :: "string \<Rightarrow> string \<Rightarrow> string" where
  "relative_path_to_aip_mets_file uuid current_path =
     package_name_from_path current_path False @ ''/data/'' @ ''METS.'' @ uuid @ ''.xml''"

text \<open>\<open>chunk_iterable\<close> with a positive chunk size; the last chunk is filled up.\<close>

function chunk_iterable :: "'a list \<Rightarrow> nat \<Rightarrow> 'a \<Rightarrow> 'a list list" where
  "chunk_iterable xs n fill =
     (if xs = [] \<or> n = 0 then []
      else (take n xs @ replicate (n - length xs) fill) # chunk_iterable (drop n xs) n fill)"
  by pat_completeness auto
termination by (relation "measure (\<lambda>(xs, _, _). length xs)") auto

declare chunk_iterable.simps [simp del]

lemma chunk_iterable_Nil [simp]: "chunk_iterable [] n fill = []"
  by (simp add: chunk_iterable.simps)

lemma chunk_iterable_step:
  "xs \<noteq> [] \<Longrightarrow> 0 < n \<Longrightarrow> chunk_iterable xs n fill =
     (take n xs @ replicate (n - length xs) fill) # chunk_iterable (drop n xs) n fill"
  by (subst chunk_iterable.simps) simp

text \<open>Chunking loses nothing: the chunks of a list all have the requested length, and put
  together they are the list followed by filling, of which there is less than one chunk.\<close>

lemma chunk_iterable_partition:
  assumes "0 < n"
  shows "(\<forall>c \<in> set (chunk_iterable xs n fill). length c = n) \<and>
     (\<exists>k < n. concat (chunk_iterable xs n fill) = xs @ replicate k fill)"
  using assms
proof (induction xs n fill rule: chunk_iterable.induct)
  case (1 xs n fill)
  show ?case
  proof (cases "xs = []")
    case True
    with "1.prems" show ?thesis by simp
  next
    case False
    with "1.prems" have "\<not> (xs = [] \<or> n = 0)" by simp
    from "1.IH" [OF this "1.prems"] obtain k
      where IH: "\<forall>c \<in> set (chunk_iterable (drop n xs) n fill). length c = n" "k < n"
        "concat (chunk_iterable (drop n xs) n fill) = drop n xs @ replicate k fill" by blast
    note step = chunk_iterable_step [OF False "1.prems", of fill]
    show ?thesis
    proof (cases "length xs \<le> n")
      case True
      with step have "chunk_iterable xs n fill = [xs @ replicate (n - length xs) fill]" by simp
      with True False "1.prems" show ?thesis by (auto intro!: exI [of _ "n - length xs"])
    next
      case long: False
      then have "take n xs @ replicate (n - length xs) fill = take n xs" by simp
      with IH step long show ?thesis by (intro conjI exI [of _ k]) simp_all
    qed
  qed
qed

section \<open>OIDC providers\<close>

definition to_upper :: "char \<Rightarrow> char" where
  "to_upper c = (if 97 \<le> (of_char c :: nat) \<and> (of_char c :: nat) \<le> 122
     then char_of (of_char c - 32 :: nat) else c)"

definition oidc_provider :: "(string \<rightharpoonup> string) \<Rightarrow> string \<Rightarrow> (string \<times> (string \<times> string) list) option" where
  "oidc_provider environ provider_name =
     (let name = map to_upper (str_strip provider_name);
          opt = (\<lambda>k. case environ (k @ name) of None \<Rightarrow> [] | Some v \<Rightarrow> v);
          client_id = opt ''OIDC_RP_CLIENT_ID_''; client_secret = opt ''OIDC_RP_CLIENT_SECRET_''
      in if client_id \<noteq> [] \<and> client_secret \<noteq> []
         then Some (name,
           [(''OIDC_RP_CLIENT_ID'', client_id), (''OIDC_RP_CLIENT_SECRET'', client_secret),
            (''OIDC_OP_AUTHORIZATION_ENDPOINT'', opt ''OIDC_OP_AUTHORIZATION_ENDPOINT_''),
            (''OIDC_OP_TOKEN_ENDPOINT'', opt ''OIDC_OP_TOKEN_ENDPOINT_''),
            (''OIDC_OP_USER_ENDPOINT'', opt ''OIDC_OP_USER_ENDPOINT_''),
            (''OIDC_OP_JWKS_ENDPOINT'', opt ''OIDC_OP_JWKS_ENDPOINT_''),
            (''OIDC_OP_LOGOUT_ENDPOINT'', opt ''OIDC_OP_LOGOUT_ENDPOINT_'')])
         else None)"

definition get_oidc_secondary_providers ::
  "(string \<rightharpoonup> string) \<Rightarrow> string list \<Rightarrow> (string \<times> (string \<times> string) list) list" where
  "get_oidc_secondary_providers environ names =
     dict_update [] (List.map_filter (oidc_provider environ) names)"

section \<open>Lemmas on package names\<close>

lemma str_split_exts:
  assumes "\<forall>e \<in> set exts. \<exists>x. e = c # x \<and> c \<notin> set x"
  shows "str_split c (a @ concat exts) = str_split c a @ map tl exts"
  using assms
proof (induction exts rule: rev_induct)
  case (snoc e exts)
  then obtain x where e: "e = c # x" "c \<notin> set x" by auto
  have "str_split c ((a @ concat exts) @ c # x) = str_split c (a @ concat exts) @ [x]"
    using e(2) by (rule str_split_snoc)
  with snoc e show ?case by simp
qed simp

lemma str_split_tail:
  "c \<notin> set w \<Longrightarrow> str_split c (n @ w) = butlast (str_split c n) @ [last (str_split c n) @ w]"
proof (induction n)
  case (Cons x n)
  obtain y ys where "str_split c n = y # ys" by (cases "str_split c n") auto
  with Cons show ?case by (cases ys) auto
qed (simp add: str_split_no_sep)

lemma str_lstrip_append: "w \<noteq> [] \<Longrightarrow> hd w \<noteq> c \<Longrightarrow> str_lstrip c (n @ w) = str_lstrip c n @ w"
  by (induction n) (auto simp: str_lstrip_def neq_Nil_conv)

lemma Path_name_last:
  assumes "slash \<notin> set n" and "n \<noteq> []" and "n \<noteq> ''.''"
  shows "Path_name (d @ slash # n) = n"
  using assms by (simp add: Path_name_def path_parts_def str_split_snoc)

lemma package_extension_shape:
  "e \<in> set PACKAGE_EXTENSIONS \<Longrightarrow>
     (\<exists>x. e = CHR ''.'' # x \<and> CHR ''.'' \<notin> set x) \<and> slash \<notin> set e \<and> length e \<le> 4 \<and> last e \<noteq> CHR ''.''"
  by (auto simp: PACKAGE_EXTENSIONS_def)

text \<open>The suffixes of a package file name end with its package extensions; the suffix before
  them, if any, contains the UUID and is no extension.\<close>

lemma package_suffixes:
  assumes exts: "set exts \<subseteq> set PACKAGE_EXTENSIONS" and w: "CHR ''.'' \<notin> set w" "4 \<le> length w"
  shows "takeWhile (\<lambda>x. x \<in> set PACKAGE_EXTENSIONS)
      (rev (map (\<lambda>s. CHR ''.'' # s)
         (tl (str_split (CHR ''.'') (n @ w @ concat exts))))) = rev exts"
proof -
  let ?dot = "CHR ''.''"
  let ?b = "tl (butlast (str_split ?dot n) @ [last (str_split ?dot n) @ w])"
  have shape: "\<forall>e \<in> set exts. \<exists>x. e = ?dot # x \<and> ?dot \<notin> set x"
    using exts package_extension_shape by blast
  have split: "str_split ?dot (n @ w @ concat exts) =
      (butlast (str_split ?dot n) @ [last (str_split ?dot n) @ w]) @ map tl exts"
    using str_split_exts [OF shape, of "n @ w"] str_split_tail [OF w(1), of n] by simp
  have "map (\<lambda>s. ?dot # s) (map tl exts) = exts"
    using shape by (induction exts) auto
  then have suf: "rev (map (\<lambda>s. ?dot # s) (tl (str_split ?dot (n @ w @ concat exts)))) =
      rev exts @ rev (map (\<lambda>s. ?dot # s) ?b)"
    unfolding split by (simp add: tl_append split: list.splits)
  have long: "?b = [] \<or> (\<exists>y ys. rev ?b = (y @ w) # ys)"
    by (cases "butlast (str_split ?dot n)") auto
  have "?dot # y @ w \<notin> set PACKAGE_EXTENSIONS" for y
    using package_extension_shape [of "?dot # y @ w"] w(2) by auto
  then have "takeWhile (\<lambda>x. x \<in> set PACKAGE_EXTENSIONS) (rev (map (\<lambda>s. ?dot # s) ?b)) = []"
    using long by (auto simp: rev_map)
  then show ?thesis
    unfolding suf using exts by (subst takeWhile_append2) auto
qed

section \<open>Lemmas on creating directories\<close>

text \<open>No file is made, so a way that is free of files stays free.\<close>

lemma mk_chain_no_file: "fs_at (mk_chain p) q \<noteq> Some (FFile c)"
  by (induction p arbitrary: q) (case_tac q; auto split: if_splits)+

lemma mk_dirs_no_new_file:
  "mk_dirs p n = Some n' \<Longrightarrow> fs_at n' q = Some (FFile c) \<Longrightarrow> fs_at n q = Some (FFile c)"
proof (induction p n arbitrary: n' q rule: mk_dirs.induct)
  case (3 x xs es)
  then show ?case
    by (cases q) (auto simp: map_of_dict_set mk_chain_no_file split: option.splits if_splits)
qed auto

definition free_way :: "fnode \<Rightarrow> string \<Rightarrow> bool" where
  "free_way n p = (\<forall>q r c. path_comps p = q @ r \<longrightarrow> fs_at n q \<noteq> Some (FFile c))"

lemma create_directory_ok:
  assumes free: "free_way (fs s) (path_join base d)" and d: "d \<noteq> []"
  shows "\<exists>t. create_directory base printing (\<lambda>xs. job_pyprint Stdout xs) d s = (Inr (), t) \<and>
     os_isdir (fs t) (path_join base d) \<and>
     (\<forall>q c. fs_at (fs t) q = Some (FFile c) \<longleftrightarrow> fs_at (fs s) q = Some (FFile c)) \<and>
     (\<forall>p. os_isdir (fs s) p \<longrightarrow> os_isdir (fs t) p)"
proof -
  let ?p = "path_join base d"
  have ne: "?p \<noteq> []" using d by (simp add: path_join_ne [THEN iffD2])
  show ?thesis
  proof (cases "os_isdir (fs s) ?p")
    case True
    then show ?thesis by (simp add: create_directory_def py_simps Let_def)
  next
    case False
    have "fs_at (fs s) (path_comps ?p) \<noteq> Some (FFile c)" for c
      using free by (auto simp: free_way_def)
    with False ne have "\<not> os_exists (fs s) ?p"
      by (auto simp: os_exists_def os_isdir_def fs_node_def split: option.splits fnode.splits)
    moreover obtain n' where n': "mk_dirs (path_comps ?p) (fs s) = Some n'"
      using free mk_dirs_fails [of "path_comps ?p" "fs s"] by (auto simp: free_way_def)
    ultimately have mk: "os_makedirs ?p (fs s) = Inr n'" by (simp add: os_makedirs_def)
    have "os_isdir n' ?p"
      using mk_dirs_isdir [OF n'] ne by (auto simp: os_isdir_def fs_node_def)
    moreover have "os_isdir n' p" if "os_isdir (fs s) p" for p
      using that mk_dirs_keeps_dir [OF n', of "path_comps p"]
      by (fastforce simp: os_isdir_def fs_node_def split: option.splits fnode.splits if_splits)
    moreover have "fs_at n' q = Some (FFile c) \<longleftrightarrow> fs_at (fs s) q = Some (FFile c)" for q c
      using mk_dirs_keeps_file [OF n'] mk_dirs_no_new_file [OF n'] by blast
    ultimately show ?thesis
      using False mk by (simp add: create_directory_def py_simps Let_def)
  qed
qed

lemma create_directories_ok:
  assumes "\<And>d. d \<in> set ds \<Longrightarrow> d \<noteq> [] \<and> free_way (fs s) (path_join base d)"
  shows "\<exists>t. create_directories ds base printing (\<lambda>xs. job_pyprint Stdout xs) s = (Inr (), t) \<and>
     (\<forall>d \<in> set ds. os_isdir (fs t) (path_join base d)) \<and>
     (\<forall>q c. fs_at (fs t) q = Some (FFile c) \<longleftrightarrow> fs_at (fs s) q = Some (FFile c)) \<and>
     (\<forall>p. os_isdir (fs s) p \<longrightarrow> os_isdir (fs t) p)"
  using assms
proof (induction ds arbitrary: s)
  case Nil
  then show ?case by (simp add: create_directories_def py_simps)
next
  case (Cons d ds)
  obtain s1 where s1: "create_directory base printing (\<lambda>xs. job_pyprint Stdout xs) d s = (Inr (), s1)"
     "os_isdir (fs s1) (path_join base d)"
     "\<forall>q c. fs_at (fs s1) q = Some (FFile c) \<longleftrightarrow> fs_at (fs s) q = Some (FFile c)"
     "\<forall>p. os_isdir (fs s) p \<longrightarrow> os_isdir (fs s1) p"
    using create_directory_ok [of s base d printing] Cons.prems by auto
  have "d' \<noteq> [] \<and> free_way (fs s1) (path_join base d')" if "d' \<in> set ds" for d'
    using Cons.prems [of d'] that s1(3) by (simp add: free_way_def)
  then obtain t where t: "create_directories ds base printing (\<lambda>xs. job_pyprint Stdout xs) s1 = (Inr (), t)"
     "\<forall>d \<in> set ds. os_isdir (fs t) (path_join base d)"
     "\<forall>q c. fs_at (fs t) q = Some (FFile c) \<longleftrightarrow> fs_at (fs s1) q = Some (FFile c)"
     "\<forall>p. os_isdir (fs s1) p \<longrightarrow> os_isdir (fs t) p"
    using Cons.IH [of s1] by blast
  show ?case
    by (rule exI [of _ t]) (use s1 t in \<open>simp add: create_directories_def py_seq_apply\<close>)
qed

section \<open>The size of a tree\<close>

text \<open>
  The reference for \<open>walk_dir\<close>: the bytes of all files in a tree, by recursion over the tree. A tree is
  well formed when the entries of each directory have different names that can be names.
\<close>

fun tree_bytes :: "fnode \<Rightarrow> int"
and entries_bytes :: "(string \<times> fnode) list \<Rightarrow> int"
where
  "tree_bytes (FFile c) = int (length c)"
| "tree_bytes (FDir es) = entries_bytes es"
| "entries_bytes [] = 0"
| "entries_bytes ((x, n) # es) = tree_bytes n + entries_bytes es"

fun tree_ok :: "fnode \<Rightarrow> bool"
and entries_ok :: "(string \<times> fnode) list \<Rightarrow> bool"
where
  "tree_ok (FFile c) = True"
| "tree_ok (FDir es) = (distinct (map fst es) \<and> entries_ok es)"
| "entries_ok [] = True"
| "entries_ok ((x, n) # es) = (plain_name x \<and> tree_ok n \<and> entries_ok es)"

lemma sum_sizes_append:
  "sum_sizes n ps = Inr a \<Longrightarrow> sum_sizes n qs = Inr b \<Longrightarrow> sum_sizes n (ps @ qs) = Inr (a + b)"
  by (induction ps arbitrary: a) (auto split: sum.splits)

lemma path_join_child:
  assumes "plain_name x"
  shows "path_comps (path_join d x) = path_comps d @ [x]" and "path_join d x \<noteq> []"
proof -
  have x: "\<not> startswith x [slash]" "x \<noteq> []"
    using assms by (auto simp: plain_name_def startswith_def take_Suc hd_in_set split: if_splits) (metis hd_in_set)
  show "path_join d x \<noteq> []" using x by (simp add: path_join_def)
  consider "d = []" | d' where "d = d' @ [slash]" | "d \<noteq> []" "\<not> endswith d [slash]"
    by (cases d rule: rev_cases) (auto simp: endswith_def)
  then show "path_comps (path_join d x) = path_comps d @ [x]"
  proof cases
    case 1
    then show ?thesis using assms x path_comps_child [OF assms, of "[]"]
      by (simp add: path_join_def path_comps_def plain_name_def)
  next
    case 2
    have "path_comps d = path_comps d'" unfolding 2 using path_comps_snoc [of "[]" d'] by simp
    then show ?thesis using 2 x path_comps_child [OF assms, of d'] by (simp add: path_join_def endswith_def)
  next
    case 3
    then show ?thesis using x path_comps_child [OF assms, of d] by (simp add: path_join_def)
  qed
qed

lemma entry_node:
  assumes "fs_at n (path_comps d) = Some (FDir es)" and "distinct (map fst es)" and "(x, m) \<in> set es" and "plain_name x"
  shows "fs_node n (path_join d x) = Some m"
  using assms path_join_child [OF assms(4), of d] by (simp add: fs_node_def fs_at_append)

text \<open>The files directly in a directory.\<close>

lemma sum_sizes_files:
  assumes d: "fs_at n (path_comps d) = Some (FDir es)" "distinct (map fst es)"
  shows "set xs \<subseteq> set es \<Longrightarrow> entries_ok xs \<Longrightarrow>
     sum_sizes n (map (path_join d) (map fst (filter (\<lambda>e. \<not> node_is_dir (snd e)) xs))) =
       Inr (entries_bytes (filter (\<lambda>e. \<not> node_is_dir (snd e)) xs))"
proof (induction xs)
  case (Cons e xs)
  obtain x m where e: "e = (x, m)" by (cases e)
  show ?case
  proof (cases m)
    case (FFile c)
    have "fs_node n (path_join d x) = Some (FFile c)"
      using Cons.prems e FFile by (intro entry_node [OF d]) auto
    then show ?thesis using Cons e FFile by (simp add: os_getsize_def)
  next
    case (FDir es')
    then show ?thesis using Cons e by simp
  qed
qed simp

lemma entries_bytes_split:
  "entries_bytes es = entries_bytes (filter (\<lambda>e. \<not> node_is_dir (snd e)) es) +
     entries_bytes (filter (\<lambda>e. node_is_dir (snd e)) es)"
  by (induction es) auto

text \<open>The whole walk: the sizes of all files met add up to the bytes of the tree.\<close>

abbreviation walk_paths :: "(string \<times> string list \<times> string list) list \<Rightarrow> string list" where
  "walk_paths w \<equiv> concat (map (\<lambda>(dirpath, _, filenames). map (path_join dirpath) filenames) w)"

lemma sum_sizes_walk:
  "fs_at n (path_comps d) = Some m \<Longrightarrow> tree_ok m \<Longrightarrow>
     sum_sizes n (walk_paths (walk_node d m)) = Inr (if node_is_dir m then tree_bytes m else 0)"
  "\<forall>es. fs_at n (path_comps d) = Some (FDir es) \<longrightarrow> distinct (map fst es) \<longrightarrow> set xs \<subseteq> set es \<longrightarrow> entries_ok xs \<longrightarrow>
     sum_sizes n (walk_paths (walk_entries d xs)) = Inr (entries_bytes (filter (\<lambda>e. node_is_dir (snd e)) xs))"
proof (induction d m and d xs rule: walk_node_walk_entries.induct)
  case (2 d es)
  then have "sum_sizes n (map (path_join d) (map fst (filter (\<lambda>e. \<not> node_is_dir (snd e)) es))) =
      Inr (entries_bytes (filter (\<lambda>e. \<not> node_is_dir (snd e)) es))"
    by (intro sum_sizes_files) auto
  moreover have "sum_sizes n (walk_paths (walk_entries d es)) = Inr (entries_bytes (filter (\<lambda>e. node_is_dir (snd e)) es))"
    using 2 by auto
  ultimately show ?case using entries_bytes_split [of es] by (simp add: sum_sizes_append)
next
  case (4 d x m xs)
  show ?case
  proof (intro allI impI)
    fix es assume d: "fs_at n (path_comps d) = Some (FDir es)" "distinct (map fst es)"
      and xs: "set ((x, m) # xs) \<subseteq> set es" "entries_ok ((x, m) # xs)"
    have "fs_at n (path_comps (path_join d x)) = Some m"
      using entry_node [OF d, of x m] xs by (simp add: fs_node_def split: if_splits)
    then have "sum_sizes n (walk_paths (walk_node (path_join d x) m)) = Inr (if node_is_dir m then tree_bytes m else 0)"
      using "4.IH"(1) xs by simp
    moreover have "sum_sizes n (walk_paths (walk_entries d xs)) = Inr (entries_bytes (filter (\<lambda>e. node_is_dir (snd e)) xs))"
      using "4.IH"(2) d xs by auto
    ultimately show "sum_sizes n (walk_paths (walk_entries d ((x, m) # xs))) =
        Inr (entries_bytes (filter (\<lambda>e. node_is_dir (snd e)) ((x, m) # xs)))"
      by (simp add: sum_sizes_append)
  qed
qed simp_all

section \<open>Properties\<close>

text \<open>The name of a package is recovered from its path: from a path whose last component is a
  name, a dash, a UUID of 36 characters without dots or slashes, and any number of package
  extensions (\<open>.tar\<close>, \<open>.7z\<close>, \<open>.bz2\<close>, \<open>.gz\<close>), \<open>package_name_from_path\<close> gives back the
  name, dots in it included.\<close>

theorem package_name_recovered:
  assumes n: "slash \<notin> set n" and u: "length uuid = 36" "CHR ''.'' \<notin> set uuid" "slash \<notin> set uuid"
    and exts: "set exts \<subseteq> set PACKAGE_EXTENSIONS"
  shows "package_name_from_path (dir @ ''/'' @ n @ ''-'' @ uuid @ concat exts) True = n"
proof -
  let ?w = "''-'' @ uuid" and ?p = "dir @ slash # (n @ ''-'' @ uuid @ concat exts)"
  have "slash \<notin> set (concat exts)" using exts package_extension_shape by fastforce
  then have name: "Path_name ?p = n @ ''-'' @ uuid @ concat exts"
    using n u by (intro Path_name_last) (auto simp: append_eq_Cons_conv)
  have "\<not> endswith (n @ ''-'' @ uuid @ concat exts) ''.''"
  proof (cases exts rule: rev_cases)
    case Nil
    have "uuid \<noteq> []" using u(1) by auto
    then have "last uuid \<noteq> CHR ''.''" using u(2) by (metis last_in_set)
    then have "last (n @ ''-'' @ uuid @ concat exts) \<noteq> CHR ''.''"
      using Nil \<open>uuid \<noteq> []\<close> by simp
    then show ?thesis unfolding endswith_char by blast
  next
    case (snoc es e)
    then have "last e \<noteq> CHR ''.''" and "e \<noteq> []" using exts package_extension_shape [of e] by auto
    then have "last (n @ ''-'' @ uuid @ concat exts) \<noteq> CHR ''.''" using snoc by simp
    then show ?thesis unfolding endswith_char by blast
  qed
  then have suf: "takeWhile (\<lambda>x. x \<in> set PACKAGE_EXTENSIONS) (rev (Path_suffixes ?p)) = rev exts"
    using package_suffixes [OF exts, of ?w "str_lstrip (CHR ''.'') n"] u
      str_lstrip_append [of "''-'' @ uuid @ concat exts" "CHR ''.''" n]
    unfolding Path_suffixes_def name Let_def by simp
  have len: "sum_list (map length (rev exts)) = length (concat exts)"
    by (simp add: length_concat sum_list_rev flip: rev_map)
  have p: "dir @ ''/'' @ n @ ''-'' @ uuid @ concat exts = ?p" by simp
  show ?thesis
    unfolding package_name_from_path_def p name suf len Let_def
    using u(1) by (simp add: PACKAGE_UUID_SUFFIX_LENGTH_def)
qed

theorem package_name_recovered_witness:
  "package_name_from_path (''/aips'' @ ''/'' @ ''my.pictures'' @ ''-'' @
     ''3e0a1962-bd4b-4b04-8d2a-ba273e65fe7f'' @ concat [''.tar'', ''.gz'']) True = ''my.pictures''"
  by (rule package_name_recovered) (simp_all add: PACKAGE_EXTENSIONS_def)

text \<open>\<open>create_structured_directory\<close> builds the layout of a transfer: unless a file is in the way
  of one of the required directories it returns, all of them (and with manual normalization its
  two directories) are directories afterwards, the files of the whole tree are exactly those
  there were, and no directory is lost.\<close>

theorem create_structured_directory_complete:
  assumes "\<And>d. d \<in> set (REQUIRED_DIRECTORIES @ MANUAL_NORMALIZATION_DIRECTORIES) \<Longrightarrow>
      free_way (fs s) (path_join base d)"
  shows "\<exists>t. create_structured_directory base manual printing (\<lambda>xs. job_pyprint Stdout xs) s = (Inr (), t) \<and>
     (\<forall>d \<in> set (REQUIRED_DIRECTORIES @ (if manual then MANUAL_NORMALIZATION_DIRECTORIES else [])).
        os_isdir (fs t) (path_join base d)) \<and>
     (\<forall>q c. fs_at (fs t) q = Some (FFile c) \<longleftrightarrow> fs_at (fs s) q = Some (FFile c)) \<and>
     (\<forall>p. os_isdir (fs s) p \<longrightarrow> os_isdir (fs t) p)"
proof -
  have ne: "d \<noteq> []" if "d \<in> set (REQUIRED_DIRECTORIES @ MANUAL_NORMALIZATION_DIRECTORIES)" for d
    using that by (auto simp: REQUIRED_DIRECTORIES_def MANUAL_NORMALIZATION_DIRECTORIES_def)
  obtain s1 where s1: "create_directories REQUIRED_DIRECTORIES base printing (\<lambda>xs. job_pyprint Stdout xs) s = (Inr (), s1)"
     "\<forall>d \<in> set REQUIRED_DIRECTORIES. os_isdir (fs s1) (path_join base d)"
     "\<forall>q c. fs_at (fs s1) q = Some (FFile c) \<longleftrightarrow> fs_at (fs s) q = Some (FFile c)"
     "\<forall>p. os_isdir (fs s) p \<longrightarrow> os_isdir (fs s1) p"
    using create_directories_ok [of REQUIRED_DIRECTORIES s base printing] assms ne by auto
  have "d \<noteq> [] \<and> free_way (fs s1) (path_join base d)" if "d \<in> set MANUAL_NORMALIZATION_DIRECTORIES" for d
    using assms [of d] ne [of d] that s1(3) by (simp add: free_way_def)
  then obtain t where t: "create_directories MANUAL_NORMALIZATION_DIRECTORIES base printing
       (\<lambda>xs. job_pyprint Stdout xs) s1 = (Inr (), t)"
     "\<forall>d \<in> set MANUAL_NORMALIZATION_DIRECTORIES. os_isdir (fs t) (path_join base d)"
     "\<forall>q c. fs_at (fs t) q = Some (FFile c) \<longleftrightarrow> fs_at (fs s1) q = Some (FFile c)"
     "\<forall>p. os_isdir (fs s1) p \<longrightarrow> os_isdir (fs t) p"
    using create_directories_ok [of MANUAL_NORMALIZATION_DIRECTORIES s1 base printing] by blast
  show ?thesis
  proof (cases manual)
    case True
    then show ?thesis
      by (intro exI [of _ t])
        (use s1 t in \<open>auto simp: create_structured_directory_def py_seq_apply py_when_apply\<close>)
  next
    case False
    then show ?thesis
      by (intro exI [of _ s1])
        (use s1 in \<open>auto simp: create_structured_directory_def py_seq_apply py_when_apply\<close>)
  qed
qed

theorem create_structured_directory_complete_witness:
  "\<exists>t. create_structured_directory ''/sip'' True False (\<lambda>xs. job_pyprint Stdout xs) world_ex = (Inr (), t) \<and>
     os_isdir (fs t) (path_join ''/sip'' ''objects/manualNormalization/access'')"
proof -
  have "fs_at (FDir []) q \<noteq> Some (FFile c)" for q c by (cases q) auto
  then have "free_way (fs world_ex) p" for p by (simp add: free_way_def ex_defs)
  then show ?thesis
    using create_structured_directory_complete [of world_ex "''/sip''" True False]
    by (auto simp: MANUAL_NORMALIZATION_DIRECTORIES_def)
qed

text \<open>C13. \<open>walk_dir\<close> computes the size of a directory: it returns, and the sum of the file sizes met on the
  walk is the number of bytes of all files of the tree.\<close>

theorem walk_dir_counts_bytes:
  assumes "fs_node (fs s) path = Some (FDir es)" and "tree_ok (FDir es)"
  shows "walk_dir path s = (Inr (tree_bytes (FDir es)), s)"
proof -
  have p: "path \<noteq> []" "fs_at (fs s) (path_comps path) = Some (FDir es)"
    using assms(1) by (auto simp: fs_node_def split: if_splits)
  then have "sum_sizes (fs s) (walk_files (fs s) path) = Inr (tree_bytes (FDir es))"
    using sum_sizes_walk(1) [OF p(2) assms(2)] by (simp add: walk_files_def os_walk_def fs_node_def del: walk_node.simps)
  then show ?thesis by (simp add: walk_dir_def py_simps)
qed

theorem walk_dir_counts_bytes_witness:
  "fst (walk_dir ''/b'' (world_ex\<lparr>fs := FDir [(''b'', FDir [(''x'', FFile ''abc''), (''d'', FDir [(''y'', FFile ''de'')])])]\<rparr>)) = Inr 5"
proof -
  let ?es = "[(''x'', FFile ''abc''), (''d'', FDir [(''y'', FFile ''de'')])]"
  let ?s = "world_ex\<lparr>fs := FDir [(''b'', FDir ?es)]\<rparr>"
  have "fs_node (fs ?s) ''/b'' = Some (FDir ?es)" by (simp add: fs_node_def path_comps_def)
  moreover have "tree_ok (FDir ?es)" by (simp add: plain_name_def)
  ultimately show ?thesis using walk_dir_counts_bytes [of ?s "''/b''" ?es] by simp
qed

end
