(* ===== verification/FileOps.thy ===== *)
theory FileOps
  imports AMFunctions
begin

text \<open>
  \<open>utils/fileOperations.py\<close>: file records together with their events, moving files on disk and in
  the database, lookups by path and the normalization CSV. Hashing, the \<open>mv\<close> command and the
  CSV reader are arguments. Text printed through \<open>printfn\<close> goes where the caller's function
  sends it; the default \<open>print\<close> writes to the process and is not modelled.
\<close>

section \<open>Sizes and checksums\<close>

type_synonym hexdigest = "string \<Rightarrow> string \<Rightarrow> py_exn + string"

text \<open>A size of 0 and an empty checksum or type count as not given.\<close>

definition get_size_and_checksum ::
  "hexdigest \<Rightarrow> string \<Rightarrow> int option \<Rightarrow> string option \<Rightarrow> string option \<Rightarrow>
     ('s world_scheme, int \<times> string \<times> string) py" where
  "get_size_and_checksum hexdigest file_path file_size checksum checksum_type =
     py_bind (case file_size of Some n \<Rightarrow>
          if n \<noteq> 0 then py_ret n else py_bind (fs_get (\<lambda>t. os_getsize t file_path)) py_lift
        | None \<Rightarrow> py_bind (fs_get (\<lambda>t. os_getsize t file_path)) py_lift) (\<lambda>size.
     py_bind (case checksum_type of
          Some t \<Rightarrow> if t \<noteq> [] then py_ret t else get_setting ''checksum_type'' ''sha256''
        | None \<Rightarrow> get_setting ''checksum_type'' ''sha256'') (\<lambda>ctype.
     py_bind (case checksum of
          Some c \<Rightarrow> if c \<noteq> [] then py_ret c else get_file_checksum hexdigest file_path ctype
        | None \<Rightarrow> get_file_checksum hexdigest file_path ctype) (\<lambda>sum.
     py_ret (size, sum, ctype))))"

definition update_files ::
  "(file_row \<Rightarrow> bool) \<Rightarrow> (file_row \<Rightarrow> file_row) \<Rightarrow> ('s world_scheme, unit) py" where
  "update_files p f = py_mod (\<lambda>s. s\<lparr>Files := row_update p f (Files s)\<rparr>)"

definition digest_event_detail :: "string \<Rightarrow> string" where
  "digest_event_detail checksumType =
     ''program='' @ [CHR 0x22] @ ''python'' @ [CHR 0x22] @ ''; module='' @ [CHR 0x22] @
     ''hashlib.'' @ checksumType @ ''()'' @ [CHR 0x22]"

definition updateSizeAndChecksum ::
  "env \<Rightarrow> hexdigest \<Rightarrow> string \<Rightarrow> string \<Rightarrow> datetime option \<Rightarrow> int option \<Rightarrow> string option \<Rightarrow>
     string option \<Rightarrow> bool \<Rightarrow> ('s world_scheme, unit) py" where
  "updateSizeAndChecksum E hexdigest fileUUID filePath date fileSize checksum checksumType add_event =
     py_bind (get_size_and_checksum hexdigest filePath fileSize checksum checksumType)
       (\<lambda>(size, sum, ctype).
     py_seq (update_files (\<lambda>f. f_uuid f = fileUUID)
         (\<lambda>f. f\<lparr>f_size := Some size, f_checksum := sum, f_checksumtype := ctype\<rparr>))
       (py_when add_event
         (py_seq (insertIntoEvents E fileUUID [] ''message digest calculation'' date
              (digest_event_detail ctype) [] sum []) (py_ret ()))))"

section \<open>Adding files to transfers and SIPs\<close>

definition addAccessionEvent :: "env \<Rightarrow> string \<Rightarrow> string \<Rightarrow> datetime option \<Rightarrow> ('s world_scheme, unit) py" where
  "addAccessionEvent E fileUUID transferUUID date =
     py_bind (get_transfer transferUUID) (\<lambda>transfer.
     py_when (tr_accessionid transfer \<noteq> [])
       (py_seq (insertIntoEvents E fileUUID [] ''registration'' date [] []
          (''accession#'' @ tr_accessionid transfer) []) (py_ret ())))"

definition addFileToTransfer ::
  "env \<Rightarrow> string \<Rightarrow> string \<Rightarrow> string \<Rightarrow> datetime option \<Rightarrow> string \<Rightarrow> string \<Rightarrow> string \<Rightarrow> string option \<Rightarrow>
     ('s world_scheme, file_row) py" where
  "addFileToTransfer E filePathRelativeToSIP fileUUID transferUUID date sourceType eventDetail use
     originalLocation =
     (let original = (case originalLocation of None \<Rightarrow> filePathRelativeToSIP
          | Some l \<Rightarrow> if l = [] then filePathRelativeToSIP else l)
      in py_bind (insertIntoFiles E fileUUID filePathRelativeToSIP date transferUUID [] use (Some original))
           (\<lambda>file_obj.
         py_seq (insertIntoEvents E fileUUID [] sourceType date eventDetail [] [] [])
        (py_seq (addAccessionEvent E fileUUID transferUUID date) (py_ret file_obj))))"

definition addFileToSIP ::
  "env \<Rightarrow> string \<Rightarrow> string \<Rightarrow> string \<Rightarrow> datetime option \<Rightarrow> string \<Rightarrow> string \<Rightarrow> ('s world_scheme, unit) py" where
  "addFileToSIP E filePathRelativeToSIP fileUUID sipUUID date sourceType use =
     py_seq (insertIntoFiles E fileUUID filePathRelativeToSIP date [] sipUUID use None)
    (py_seq (insertIntoEvents E fileUUID [] sourceType date [] [] [] []) (py_ret ()))"

section \<open>Moving\<close>

type_synonym 's printfn = "pyfile \<Rightarrow> string list \<Rightarrow> ('s world_scheme, unit) py"

text \<open>\<open>rename\<close>; \<open>mv\<close> runs the command and gives its exit code, output and error output.\<close>

definition rename ::
  "(string \<Rightarrow> string \<Rightarrow> ('s world_scheme, int \<times> string \<times> string) py) \<Rightarrow> 's printfn \<Rightarrow>
     string \<Rightarrow> string \<Rightarrow> bool \<Rightarrow> ('s world_scheme, int) py" where
  "rename mv printfn source destination should_exit =
     (if source = destination
      then py_seq (printfn Stdout [''Source and destination are the same, nothing to do.'']) (py_ret 0)
      else py_bind (mv source destination) (\<lambda>(exitCode, stdOut, stdError).
        py_seq (py_when (exitCode \<noteq> 0)
           (py_seq (printfn Stderr [''exitCode:'', str_int exitCode])
           (py_seq (printfn Stderr [stdOut])
           (py_seq (printfn Stderr [stdError])
                   (py_when should_exit (py_raise (SystemExit exitCode)))))))
          (py_ret exitCode)))"

text \<open>The unit of a file, by the name of its foreign key column.\<close>

definition unit_filter :: "string \<Rightarrow> string \<Rightarrow> py_exn + (file_row \<Rightarrow> bool)" where
  "unit_filter unitIdentifierType unitIdentifier =
     (if unitIdentifierType \<in> {''sip_id'', ''sip''} then Inr (\<lambda>f. f_sip f = Some unitIdentifier)
      else if unitIdentifierType \<in> {''transfer_id'', ''transfer''}
      then Inr (\<lambda>f. f_transfer f = Some unitIdentifier)
      else Inl (PyException (''Cannot resolve keyword '' @ unitIdentifierType @ '' into field'')))"

definition loc_startswith :: "string \<Rightarrow> file_row \<Rightarrow> bool" where
  "loc_startswith p f = (case f_currentlocation f of None \<Rightarrow> False | Some l \<Rightarrow> startswith l p)"

definition dir_for_db :: "string \<Rightarrow> string \<Rightarrow> string \<Rightarrow> string" where
  "dir_for_db path unitPath unitPathReplaceWith =
     (let db = str_replace path unitPath unitPathReplaceWith
      in if \<not> endswith db ''/'' \<and> db \<noteq> unitPathReplaceWith then db @ ''/'' else db)"

definition updateDirectoryLocation ::
  "string \<Rightarrow> string \<Rightarrow> string \<Rightarrow> string \<Rightarrow> string \<Rightarrow> string \<Rightarrow> ('s world_scheme, unit) py" where
  "updateDirectoryLocation src dst unitPath unitIdentifier unitIdentifierType unitPathReplaceWith =
     (let srcDB = dir_for_db src unitPath unitPathReplaceWith;
          dstDB = dir_for_db dst unitPath unitPathReplaceWith
      in py_bind (py_lift (unit_filter unitIdentifierType unitIdentifier)) (\<lambda>in_unit.
         py_bind (py_get (\<lambda>s. filter (\<lambda>f. f_removedtime f = None \<and> loc_startswith srcDB f \<and> in_unit f)
                    (Files s))) (\<lambda>files.
         py_seq (py_for files (\<lambda>f. File_save (f\<lparr>f_currentlocation :=
                   map_option (\<lambda>l. str_replace l srcDB dstDB) (f_currentlocation f)\<rparr>)))
           (py_bind (fs_get (\<lambda>n. os_isdir n dst)) (\<lambda>isdir.
              fs_do (shutil_move src (if isdir then (if endswith dst ''/'' then dst @ ''.'' else dst @ ''/.'')
                                     else dst)))))))"

definition lookup_kwargs :: "string \<Rightarrow> string \<Rightarrow> string \<Rightarrow> string" where
  "lookup_kwargs srcDB unitIdentifierType unitIdentifier =
     ''{'' @ repr_str ''removedtime__isnull'' @ '': True, '' @ repr_str ''currentlocation'' @ '': b'' @
     repr_str srcDB @ '', '' @ repr_str unitIdentifierType @ '': '' @ repr_str unitIdentifier @ ''}''"

definition updateFileLocation2 ::
  "'s printfn \<Rightarrow> string \<Rightarrow> string \<Rightarrow> string \<Rightarrow> string \<Rightarrow> string \<Rightarrow> string \<Rightarrow> ('s world_scheme, unit) py" where
  "updateFileLocation2 printfn src dst unitPath unitIdentifier unitIdentifierType unitPathReplaceWith =
     (let srcDB = str_replace src unitPath unitPathReplaceWith;
          dstDB = str_replace dst unitPath unitPathReplaceWith;
          failed = (\<lambda>message. py_seq (printfn Stderr [''ERROR: file information not found:'', message,
              ''for arguments:'', lookup_kwargs srcDB unitIdentifierType unitIdentifier])
              (py_raise (UpdateFileLocationFailed 4)))
      in py_bind (py_lift (unit_filter unitIdentifierType unitIdentifier)) (\<lambda>in_unit.
         py_bind (py_get (\<lambda>s. get_one ''File'' (filter (\<lambda>f. f_removedtime f = None \<and>
                    f_currentlocation f = Some srcDB \<and> in_unit f) (Files s)))) (\<lambda>r.
         py_bind (case r of
             Inl (DoesNotExist _) \<Rightarrow> failed ''no results found''
           | Inl (MultipleObjectsReturned _) \<Rightarrow> failed ''multiple results found''
           | _ \<Rightarrow> py_lift r) (\<lambda>f.
         py_seq (printfn Stdout [''Moving'', src, ''to'', dst])
        (py_seq (fs_do (shutil_move src dst))
                (File_save (f\<lparr>f_currentlocation := Some dstDB\<rparr>)))))))"

definition name_change_note :: "string \<Rightarrow> string \<Rightarrow> string" where
  "name_change_note src dst = ''Original name='' @ [CHR 0x22] @ src @ [CHR 0x22] @
     ''; new name='' @ [CHR 0x22] @ dst @ [CHR 0x22]"

text \<open>The file \<open>updateFileLocation\<close> is about; an unset identifier is \<open>[]\<close>.\<close>

definition find_file_to_update ::
  "string \<Rightarrow> string \<Rightarrow> string \<Rightarrow> string \<Rightarrow> ('s world_scheme, file_row) py" where
  "find_file_to_update src fileUUID sipUUID transferUUID =
     (if fileUUID \<noteq> [] \<and> fileUUID \<noteq> ''None'' then get_file fileUUID
      else if sipUUID \<noteq> [] \<or> transferUUID \<noteq> []
      then py_bind (py_get (\<lambda>s. get_one ''File'' (filter (\<lambda>f. f_removedtime f = None \<and>
             f_currentlocation f = Some src \<and>
             (if sipUUID \<noteq> [] then f_sip f = Some sipUUID else f_transfer f = Some transferUUID))
             (Files s)))) py_lift
      else py_raise (ValueError ''One of fileUUID, sipUUID, or transferUUID must be provided''))"

text \<open>A UUID for the event is drawn, but the event is inserted without it and gets another one.\<close>

definition updateFileLocation ::
  "env \<Rightarrow> string \<Rightarrow> string \<Rightarrow> string \<Rightarrow> datetime \<Rightarrow> string \<Rightarrow> string option \<Rightarrow> string \<Rightarrow> string \<Rightarrow> string \<Rightarrow>
     string \<Rightarrow> bool \<Rightarrow> ('s world_scheme, unit) py" where
  "updateFileLocation E src dst eventType eventDateTime eventDetail eventIdentifierUUID fileUUID sipUUID
     transferUUID eventOutcomeDetailNote createEvent =
     py_seq (case eventIdentifierUUID of None \<Rightarrow> uuid4 E | Some u \<Rightarrow> py_ret u)
     (py_bind (find_file_to_update src fileUUID sipUUID transferUUID) (\<lambda>f.
      py_seq (File_save (f\<lparr>f_currentlocation := Some dst\<rparr>))
       (py_when createEvent
         (py_seq (insertIntoEvents E (f_uuid f) [] eventType (Some eventDateTime) eventDetail []
            (if eventOutcomeDetailNote = [] then name_change_note src dst else eventOutcomeDetailNote) [])
           (py_ret ())))))"

definition getFileUUIDLike ::
  "string \<Rightarrow> string \<Rightarrow> string \<Rightarrow> string \<Rightarrow> string \<Rightarrow> ('s world_scheme, (string \<times> string) list) py" where
  "getFileUUIDLike filePath unitPath unitIdentifier unitIdentifierType unitPathReplaceWith =
     (let srcDB = str_replace filePath unitPath unitPathReplaceWith
      in py_bind (py_lift (unit_filter unitIdentifierType unitIdentifier)) (\<lambda>in_unit.
         py_get (\<lambda>s. dict_update [] (map (\<lambda>f. (the (f_currentlocation f), f_uuid f))
           (filter (\<lambda>f. f_removedtime f = None \<and> in_unit f \<and>
              (case f_currentlocation f of None \<Rightarrow> False | Some l \<Rightarrow> str_contains srcDB l)) (Files s))))))"

definition updateFileGrpUsefileGrpUUID :: "string \<Rightarrow> string \<Rightarrow> string \<Rightarrow> ('s world_scheme, unit) py" where
  "updateFileGrpUsefileGrpUUID fileUUID fileGrpUse fileGrpUUID =
     update_files (\<lambda>f. f_uuid f = fileUUID) (\<lambda>f. f\<lparr>f_filegrpuse := fileGrpUse, f_filegrpuuid := fileGrpUUID\<rparr>)"

definition updateFileGrpUse :: "string \<Rightarrow> string \<Rightarrow> ('s world_scheme, unit) py" where
  "updateFileGrpUse fileUUID fileGrpUse =
     update_files (\<lambda>f. f_uuid f = fileUUID) (\<lambda>f. f\<lparr>f_filegrpuse := fileGrpUse\<rparr>)"

section \<open>The normalization CSV\<close>

text \<open>
  The CSV reader turns a text into its rows, each with the line number reached, and may end
  with an error (\<open>csv.Error\<close>). The search returns the original of the first row that matches,
  \<open>Inr None\<close> when there is none, or the line number at which a row was malformed.
\<close>

type_synonym csv_reader = "string \<Rightarrow> (nat \<times> string list option) list"

datatype row_outcome = SkipRow | BadRow | FoundRow string string

text \<open>One row: blank rows and rows with a hash sign in the first field are skipped, a row must
  have three fields.\<close>

definition check_row :: "string \<Rightarrow> string \<Rightarrow> string list \<Rightarrow> row_outcome" where
  "check_row classification target row =
     (if row = [] \<or> CHR ''#'' \<in> set (hd row) then SkipRow
      else case row of
         [original, access, preservation] \<Rightarrow>
           if classification = ''access'' \<and> access = target then FoundRow original access
           else if classification = ''preservation'' \<and> preservation = target
           then FoundRow original preservation
           else SkipRow
       | _ \<Rightarrow> BadRow)"

fun search_rows ::
  "string \<Rightarrow> string \<Rightarrow> (nat \<times> string list option) list \<Rightarrow> nat + (string \<times> string) option" where
  "search_rows classification target [] = Inr None"
| "search_rows classification target ((line, None) # rows) = Inl line"
| "search_rows classification target ((line, Some row) # rows) =
     (case check_row classification target row of
        SkipRow \<Rightarrow> search_rows classification target rows
      | BadRow \<Rightarrow> Inl line
      | FoundRow original name \<Rightarrow> Inr (Some (original, name)))"

definition loc_endswith :: "string \<Rightarrow> file_row \<Rightarrow> bool" where
  "loc_endswith p f = (case f_currentlocation f of None \<Rightarrow> False | Some l \<Rightarrow> endswith l p)"

definition findFileInNormalizationCSV ::
  "csv_reader \<Rightarrow> 's printfn \<Rightarrow> string \<Rightarrow> string \<Rightarrow> string \<Rightarrow> string \<Rightarrow> ('s world_scheme, string option) py" where
  "findFileInNormalizationCSV csv_read printfn csv_path commandClassification target_file sip_uuid =
     py_bind (fs_get (\<lambda>n. read_file n csv_path)) (\<lambda>r.
     py_bind (py_lift r) (\<lambda>content.
     py_bind (py_get (\<lambda>s. get_one ''File'' (filter (\<lambda>f. f_removedtime f = None \<and> loc_endswith target_file f \<and>
                f_sip f = Some sip_uuid) (Files s)))) (\<lambda>found.
     case found of
       Inl (MultipleObjectsReturned _) \<Rightarrow>
         py_seq (printfn Stderr [''More than one result found for '' @ commandClassification @ '' file ('' @
                   target_file @ '') in DB.'']) (py_raise (FindFileInNormalizatonCSVError 2))
     | Inl (DoesNotExist _) \<Rightarrow>
         py_seq (printfn Stderr [commandClassification @ '' file ('' @ target_file @ '') not found in DB.''])
           (py_raise (FindFileInNormalizatonCSVError 2))
     | Inl e \<Rightarrow> py_raise e
     | Inr f \<Rightarrow>
         (let target = str_replace1 (str_replace1 (f_originallocation f) ''%transferDirectory%objects/'' [])
                         ''%SIPDirectory%objects/'' []
          in case search_rows commandClassification target (csv_read content) of
               Inr None \<Rightarrow> py_ret None
             | Inr (Some (original, found_name)) \<Rightarrow>
                 py_seq (printfn Stdout [''Found '' @ commandClassification @ '' file ('' @ found_name @
                           '') for original ('' @ original @ '')'']) (py_ret (Some original))
             | Inl line \<Rightarrow>
                 py_seq (printfn Stderr [''Error reading '' @ csv_path @ '' on line '' @ str_nat line])
                   (py_raise (FindFileInNormalizatonCSVError 2))))))"

section \<open>Extraction directories\<close>

definition get_extract_dir_name :: "string \<Rightarrow> py_exn + string" where
  "get_extract_dir_name filename =
     (if Path_suffix filename = []
      then Inl (ValueError (''('' @ repr_str (''Filename '' @ [CHR 0x27] @ ''%s'' @ [CHR 0x27] @
             '' must have an extension'') @ '', PosixPath('' @
             repr_str (Path_str (path_root filename) (path_parts filename)) @ ''))''))
      else (let extract_dir = Path_with_name filename (Path_stem filename)
            in Inr (if Path_suffix extract_dir = ''.tar'' \<or> Path_suffix extract_dir = ''.TAR''
                    then Path_with_name extract_dir (Path_stem extract_dir) else extract_dir)))"

section \<open>Integrity of the database\<close>

lemma keeps_db_fs [keeps_intros]: "keeps db_inv (fs_get f)" "keeps db_inv (fs_do g)"
  by (auto simp: keeps_def py_simps split: sum.splits)

lemma keeps_get_setting [keeps_intros]: "keeps db_inv (get_setting a b)"
  unfolding get_setting_def by (intro keeps_intros keeps_bind)

lemma keeps_get_file_checksum [keeps_intros]: "keeps db_inv (get_file_checksum h p a)"
  unfolding get_file_checksum_def by (intro keeps_intros keeps_bind)

lemma keeps_get_size_and_checksum [keeps_intros]: "keeps db_inv (get_size_and_checksum h p a b c)"
  unfolding get_size_and_checksum_def by (intro keeps_intros keeps_bind)

lemma keeps_update_files:
  assumes "\<And>f. f_uuid (g f) = f_uuid f" and "\<And>f. f_sip (g f) = f_sip f"
    and "\<And>f. f_transfer (g f) = f_transfer f"
  shows "keeps db_inv (update_files p g)"
  unfolding update_files_def
  by (intro keeps_mod) (rule db_inv_update_files, use assms in auto)

lemma keeps_updateSizeAndChecksum [keeps_intros]:
  "keeps db_inv (updateSizeAndChecksum E h u p d a b c ev)"
  unfolding updateSizeAndChecksum_def by (intro keeps_intros keeps_bind keeps_update_files) auto

lemma keeps_addAccessionEvent [keeps_intros]: "keeps db_inv (addAccessionEvent E u t d)"
  unfolding addAccessionEvent_def by (intro keeps_intros keeps_bind)

lemma keeps_addFileToTransfer [keeps_intros]: "keeps db_inv (addFileToTransfer E p u t d st det use orig)"
  unfolding addFileToTransfer_def by (intro keeps_intros keeps_bind)

lemma keeps_addFileToSIP [keeps_intros]: "keeps db_inv (addFileToSIP E p u sip d st use)"
  unfolding addFileToSIP_def by (intro keeps_intros keeps_bind)

text \<open>Fetching one file by a condition and saving it with the same keys, with other steps in
  between that leave the database alone.\<close>

lemma db_inv_save_fetched:
  assumes inv: "db_inv s" and f: "f \<in> set (Files s)"
    and g: "f_uuid g = f_uuid f" "f_sip g = f_sip f" "f_transfer g = f_transfer f"
  shows "db_inv (s\<lparr>Files := row_save f_uuid g (Files s)\<rparr>)"
proof (rule db_inv_save_file [OF inv])
  show "f_uuid g \<in> f_uuid ` set (Files s)" using f g(1) by auto
  show "file_fks_ok s g" using inv f g by (simp add: db_inv_def file_fks_ok_def)
qed

lemma get_one_mem: "get_one m (filter P rows) = Inr f \<Longrightarrow> f \<in> set rows \<and> P f"
proof -
  assume "get_one m (filter P rows) = Inr f"
  then have "f \<in> set (filter P rows)" by (simp add: get_one_cases)
  then show ?thesis by simp
qed

lemma find_file_to_update_reads:
  "\<exists>r. find_file_to_update src u sip tr s = (r, s) \<and> (\<forall>f. r = Inr f \<longrightarrow> f \<in> set (Files s))"
  by (auto simp: find_file_to_update_def get_file_def py_simps dest: get_one_mem)

lemma keeps_updateFileLocation [keeps_intros]:
  "keeps db_inv (updateFileLocation E src dst ty d det eid u sip tr note ev :: ('s world_scheme, unit) py)"
proof -
  let ?event = "\<lambda>f. py_when ev (py_seq (insertIntoEvents E (f_uuid f) [] ty (Some d) det []
      (if note = [] then name_change_note src dst else note) []) (py_ret ())) :: ('s world_scheme, unit) py"
  have event: "keeps db_inv (?event f)" for f by (intro keeps_intros)
  have "keeps db_inv (py_bind (find_file_to_update src u sip tr) (\<lambda>f.
      py_seq (File_save (f\<lparr>f_currentlocation := Some dst\<rparr>)) (?event f)))"
  proof (rule keepsI)
    fix s :: "'s world_scheme" assume inv: "db_inv s"
    obtain r where r: "find_file_to_update src u sip tr s = (r, s)" "\<forall>f. r = Inr f \<longrightarrow> f \<in> set (Files s)"
      using find_file_to_update_reads by blast
    show "db_inv (snd (py_bind (find_file_to_update src u sip tr) (\<lambda>f.
      py_seq (File_save (f\<lparr>f_currentlocation := Some dst\<rparr>)) (?event f)) s))"
    proof (cases r)
      case (Inr f)
      let ?t = "s\<lparr>Files := row_save f_uuid (f\<lparr>f_currentlocation := Some dst\<rparr>) (Files s)\<rparr>"
      have "db_inv ?t" using db_inv_save_fetched [OF inv, of f] r(2) Inr by simp
      from keepsD [OF event [of f] this] r(1) Inr show ?thesis
        by (simp add: py_bind_apply py_seq_apply File_save_def py_mod_apply split del: if_split)
    qed (use inv r(1) in \<open>simp add: py_bind_apply\<close>)
  qed
  then show ?thesis unfolding updateFileLocation_def by (intro keeps_intros)
qed

section \<open>Exact effects\<close>

lemma insertIntoEvents_auto:
  assumes inv: "db_inv s" and f: "f \<in> set (Files s)" "file_agents_ok s f"
    and fresh: "env_uuid4 E (uuids s) \<noteq> []"
      "Some (env_uuid4 E (uuids s)) \<notin> e_event_id ` set (Events s)"
  shows "insertIntoEvents E (f_uuid f) [] ty (Some d) det out note [] s =
     (let e = recorded_event E s (f_uuid f) (env_uuid4 E (uuids s)) ty det out note
      in (Inr e, s\<lparr>uuids := Suc (uuids s), clock := Suc (clock s), next_pk := Suc (next_pk s),
            Events := Events s @ [e\<lparr>e_agents := remdups (file_agents s f)\<rparr>]\<rparr>))"
proof -
  let ?s = "s\<lparr>uuids := Suc (uuids s)\<rparr>" and ?u = "env_uuid4 E (uuids s)"
  have "insertIntoEvents E (f_uuid f) [] ty (Some d) det out note [] s =
      insertIntoEvents E (f_uuid f) ?u ty (Some d) det out note [] ?s"
    using getAMAgentsForFile_eq [OF inv f] getAMAgentsForFile_eq [of ?s f] inv f fresh(1)
      agents_cong [of ?s s]
    by (simp add: insertIntoEvents_def py_simps)
  also have "\<dots> = (let e = recorded_event E ?s (f_uuid f) ?u ty det out note
      in (Inr e, ?s\<lparr>clock := Suc (clock s), next_pk := Suc (next_pk s),
            Events := Events s @ [e\<lparr>e_agents := remdups (file_agents s f)\<rparr>]\<rparr>))"
    using insertIntoEvents_eq [of ?s f ?u "[]" E ty d det out "note"] inv f fresh agents_cong [of ?s s]
    by simp
  finally show ?thesis by (simp add: recorded_event_def Let_def)
qed

text \<open>The step to a state with one more event, described by what the event says.\<close>

definition event_summary :: "event_row \<Rightarrow> string option \<times> string \<times> string \<times> string \<times> nat list" where
  "event_summary e = (e_file_uuid e, e_event_type e, e_event_detail e, e_event_outcome_detail e, e_agents e)"

definition event_added ::
  "env \<Rightarrow> 's world_scheme \<Rightarrow> 's world_scheme \<Rightarrow> string option \<times> string \<times> string \<times> string \<times> nat list \<Rightarrow> bool" where
  "event_added E s t summary \<longleftrightarrow> db_inv t \<and> Files t = Files s \<and> Transfers t = Transfers s \<and>
     Agents t = Agents s \<and> UnitVariables t = UnitVariables s \<and> uuids t = Suc (uuids s) \<and>
     (\<exists>e. Events t = Events s @ [e] \<and> e_event_id e = Some (env_uuid4 E (uuids s)) \<and>
        event_summary e = summary)"

lemma insertIntoEvents_step:
  fixes s :: "'s world_scheme"
  assumes inv: "db_inv s" and f: "f \<in> set (Files s)" "file_agents_ok s f"
    and fresh: "env_uuid4 E (uuids s) \<noteq> []"
      "Some (env_uuid4 E (uuids s)) \<notin> e_event_id ` set (Events s)"
  shows "\<exists>e t. insertIntoEvents E (f_uuid f) [] ty (Some d) det out note [] s = (Inr e, t) \<and>
     event_added E s t (Some (f_uuid f), ty, det, note, remdups (file_agents s f))"
proof -
  let ?run = "insertIntoEvents E (f_uuid f) [] ty (Some d) det out note [] s"
  have "db_inv (snd ?run)" by (rule keepsD [OF keeps_insertIntoEvents inv])
  then show ?thesis
    unfolding insertIntoEvents_auto [OF assms]
    by (simp add: Let_def event_added_def event_summary_def recorded_event_def)
qed

lemma save_all:
  assumes d: "distinct (map f_uuid rows)" and g: "\<And>f. f_uuid (g f) = f_uuid f"
    and "set files \<subseteq> set rows"
  shows "foldl (\<lambda>rs f. row_save f_uuid (g f) rs) rows files =
     map (\<lambda>x. if x \<in> set files then g x else x) rows"
  using assms(3)
proof (induction files rule: rev_induct)
  case (snoc f files)
  let ?rows = "map (\<lambda>x. if x \<in> set files then g x else x) rows"
  have f: "f \<in> set rows" using snoc.prems by simp
  have keys: "map f_uuid ?rows = map f_uuid rows" using g by simp
  have "f_uuid ` set ?rows = set (map f_uuid rows)" using keys by (metis list.set_map)
  then have "f_uuid (g f) \<in> f_uuid ` set ?rows" using f g by auto
  then have "row_save f_uuid (g f) ?rows = map (\<lambda>x. if f_uuid x = f_uuid f then g f else x) ?rows"
    unfolding g by (subst file_table.save_old) (simp_all only: g)
  also have "\<dots> = map (\<lambda>x. if x \<in> set (files @ [f]) then g x else x) rows"
  proof -
    have "(if f_uuid (if x \<in> set files then g x else x) = f_uuid f then g f
          else if x \<in> set files then g x else x) = (if x \<in> set (files @ [f]) then g x else x)"
      if x: "x \<in> set rows" for x
    proof (cases "x = f")
      case False
      then have "f_uuid x \<noteq> f_uuid f" using d f x by (auto simp: distinct_map dest: inj_onD)
      with False g show ?thesis by simp
    qed (use g in simp)
    then show ?thesis unfolding map_map comp_def by (intro map_cong) (simp_all only:)
  qed
  finally show ?case using snoc by simp
qed simp

lemma for_File_save:
  "py_for files (\<lambda>f. File_save (g f)) s =
     (Inr (), s\<lparr>Files := foldl (\<lambda>rs f. row_save f_uuid (g f) rs) (Files s) files\<rparr>)"
  by (induction files arbitrary: s) (simp_all add: py_simps File_save_def)

section \<open>Properties\<close>

text \<open>C9. Moving a directory: \<open>updateDirectoryLocation\<close> rewrites the location of exactly the files of
  the unit that are not removed and lie under the source directory, then moves the directory.
  The rows are rewritten before the move: when the move raises, they stay rewritten.\<close>

theorem updateDirectoryLocation_effect:
  assumes "db_inv s" and "unit_filter ty unit = Inr in_unit"
  shows "updateDirectoryLocation src dst up unit ty rw s =
     (let srcDB = dir_for_db src up rw; dstDB = dir_for_db dst up rw;
          rows = map (\<lambda>f. if f_removedtime f = None \<and> loc_startswith srcDB f \<and> in_unit f
              then f\<lparr>f_currentlocation :=
                 map_option (\<lambda>l. str_replace l srcDB dstDB) (f_currentlocation f)\<rparr> else f) (Files s);
          target = (if \<not> os_isdir (fs s) dst then dst
                    else if endswith dst ''/'' then dst @ ''.'' else dst @ ''/.'')
      in case shutil_move src target (fs s) of
           Inl e \<Rightarrow> (Inl e, s\<lparr>Files := rows\<rparr>)
         | Inr n \<Rightarrow> (Inr (), s\<lparr>Files := rows, fs := n\<rparr>))"
proof -
  let ?src = "dir_for_db src up rw" and ?dst = "dir_for_db dst up rw"
  let ?g = "\<lambda>f. f\<lparr>f_currentlocation := map_option (\<lambda>l. str_replace l ?src ?dst) (f_currentlocation f)\<rparr>"
  let ?p = "\<lambda>f. f_removedtime f = None \<and> loc_startswith ?src f \<and> in_unit f"
  have "foldl (\<lambda>rs f. row_save f_uuid (?g f) rs) (Files s) (filter ?p (Files s)) =
      map (\<lambda>x. if x \<in> set (filter ?p (Files s)) then ?g x else x) (Files s)"
    using assms(1) by (intro save_all) (auto simp: db_inv_def)
  also have "\<dots> = map (\<lambda>f. if ?p f then ?g f else f) (Files s)" by (intro map_cong) auto
  finally show ?thesis
    using assms(2)
    by (simp add: updateDirectoryLocation_def Let_def py_simps for_File_save split: sum.splits)
qed

theorem updateDirectoryLocation_effect_witness:
  "map f_currentlocation (Files (snd (updateDirectoryLocation ''/t/objects'' ''/t/data'' ''/t/'' ''t''
      ''transfer_id'' ''%transferDirectory%'' world_ex))) = [Some ''%transferDirectory%data/a'']"
proof -
  have "unit_filter ''transfer_id'' ''t'' = Inr (\<lambda>f. f_transfer f = Some ''t'')"
    by (simp add: unit_filter_def)
  note eff = updateDirectoryLocation_effect [OF world_ex_inv this,
      of "''/t/objects''" "''/t/data''" "''/t/''" "''%transferDirectory%''"]
  have db: "dir_for_db ''/t/objects'' ''/t/'' ''%transferDirectory%'' = ''%transferDirectory%objects/''"
    "dir_for_db ''/t/data'' ''/t/'' ''%transferDirectory%'' = ''%transferDirectory%data/''"
    by (simp_all add: dir_for_db_def str_replace_def endswith_def)
  show ?thesis
    unfolding eff db Let_def
    by (simp add: ex_defs loc_startswith_def str_replace_def split: sum.splits)
qed

text \<open>C10. Moving one file: \<open>updateFileLocation2\<close> changes the disk and the database together or not at
  all. If it raises, for a file that is not found, found twice or cannot be moved, neither has
  changed; if it returns, the file was moved and its row, the only one at the source location
  in the unit, has the new location.\<close>

theorem updateFileLocation2_together:
  "case updateFileLocation2 job_pyprint src dst up unit ty rw s of
     (Inl _, t) \<Rightarrow> Files t = Files s \<and> fs t = fs s
   | (Inr _, t) \<Rightarrow> \<exists>in_unit f. unit_filter ty unit = Inr in_unit \<and>
        filter (\<lambda>x. f_removedtime x = None \<and> f_currentlocation x = Some (str_replace src up rw) \<and> in_unit x)
          (Files s) = [f] \<and>
        shutil_move src dst (fs s) = Inr (fs t) \<and>
        Files t = row_save f_uuid (f\<lparr>f_currentlocation := Some (str_replace dst up rw)\<rparr>) (Files s)"
proof (cases "unit_filter ty unit")
  case (Inl e)
  then show ?thesis by (simp add: updateFileLocation2_def py_simps Let_def)
next
  case (Inr in_unit)
  let ?rows = "filter (\<lambda>x. f_removedtime x = None \<and> f_currentlocation x = Some (str_replace src up rw) \<and>
    in_unit x) (Files s)"
  consider "?rows = []" | f where "?rows = [f]" | f g fs where "?rows = f # g # fs"
    by (metis list.exhaust)
  then show ?thesis
    by cases (auto simp: updateFileLocation2_def py_simps Let_def Inr get_one_def File_save_def
        split: sum.splits)
qed

text \<open>Renaming a file by its UUID: \<open>updateFileLocation\<close> sets the location of exactly that file and,
  unless told not to, appends one event that names both locations.\<close>

theorem updateFileLocation_by_uuid:
  assumes inv: "db_inv s" and f: "f \<in> set (Files s)" "file_agents_ok s f" "f_uuid f \<noteq> []" "f_uuid f \<noteq> ''None''"
    and fresh: "env_uuid4 E (uuids s) \<noteq> []"
      "Some (env_uuid4 E (uuids s)) \<notin> e_event_id ` set (Events s)"
  shows "\<exists>t. updateFileLocation E src dst ty date det (Some eid) (f_uuid f) sip tr [] ev s = (Inr (), t) \<and>
     Files t = map (\<lambda>x. if f_uuid x = f_uuid f then f\<lparr>f_currentlocation := Some dst\<rparr> else x) (Files s) \<and>
     (if ev then \<exists>e. Events t = Events s @ [e] \<and> e_file_uuid e = Some (f_uuid f) \<and> e_event_type e = ty \<and>
          e_event_outcome_detail e = name_change_note src dst \<and> e_agents e = remdups (file_agents s f)
      else Events t = Events s)"
proof -
  let ?f = "f\<lparr>f_currentlocation := Some dst\<rparr>"
  let ?s = "s\<lparr>Files := row_save f_uuid ?f (Files s)\<rparr>"
  have inv': "db_inv ?s" using db_inv_save_fetched [OF inv f(1)] by simp
  have rows: "row_save f_uuid ?f (Files s) = map (\<lambda>x. if f_uuid x = f_uuid f then ?f else x) (Files s)"
    using file_table.save_old [of ?f "Files s"] f(1) by simp
  then have f': "?f \<in> set (Files ?s)" using f(1) by force
  have ag: "file_agents_ok ?s = file_agents_ok s" "file_agents ?s = file_agents s"
    using agents_cong [of ?s s] by simp_all
  have "file_agents_ok s ?f" "file_agents s ?f = file_agents s f"
    using f(2) by (simp_all add: file_agents_ok_def file_agents_def)
  then have event: "insertIntoEvents E (f_uuid f) [] ty (Some date) det [] n [] ?s =
     (let e = recorded_event E ?s (f_uuid f) (env_uuid4 E (uuids s)) ty det [] n
      in (Inr e, ?s\<lparr>uuids := Suc (uuids s), clock := Suc (clock s), next_pk := Suc (next_pk s),
            Events := Events s @ [e\<lparr>e_agents := remdups (file_agents s f)\<rparr>]\<rparr>))" for n
    using insertIntoEvents_auto [OF inv' f', of E ty date det "[]" n] fresh ag by simp
  have find: "find_file_to_update src (f_uuid f) sip tr s = (Inr f, s)"
    using get_by_key(1) [OF inv f(1)] f(3,4) by (simp add: find_file_to_update_def)
  show ?thesis
    using find event by (simp add: updateFileLocation_def py_simps File_save_def rows recorded_event_def Let_def)
qed

theorem updateFileLocation_by_uuid_witness:
  "\<exists>t. updateFileLocation env_ex ''a'' ''b'' ''name cleanup'' [] [] (Some ''x'') ''f'' [] [] [] True world_ex =
       (Inr (), t) \<and> map f_currentlocation (Files t) = [Some ''b''] \<and> length (Events t) = 1"
proof -
  have u: "f_uuid file_ex = ''f''" and fs: "Files world_ex = [file_ex]" and ev: "Events world_ex = []"
    by (simp_all add: ex_defs)
  have fresh: "env_uuid4 env_ex (uuids world_ex) \<noteq> []"
    "Some (env_uuid4 env_ex (uuids world_ex)) \<notin> e_event_id ` set (Events world_ex)"
    by (simp_all add: ex_defs)
  show ?thesis
    using updateFileLocation_by_uuid [OF world_ex_inv file_ex_in file_ex_agents _ _ fresh,
        of "''a''" "''b''" "''name cleanup''" "[]" "[]" "''x''" "[]" "[]" True]
    by (auto simp: u fs ev)
qed

text \<open>Adding a file to a transfer: \<open>addFileToTransfer\<close> on a new UUID returns the new file record and
  leaves it in the Files table with its location, together with an ingestion event and, exactly
  when the transfer has an accession number, a registration event with that number; all events
  are linked to the agents of the transfer.\<close>

theorem addFileToTransfer_records:
  fixes s :: "'s world_scheme"
  assumes inv: "db_inv s" and t: "t \<in> set (Transfers s)" "tr_uuid t \<noteq> []"
    "agent_variable_ok s ''Transfer'' (tr_uuid t)" and u: "u \<notin> f_uuid ` set (Files s)"
    and fresh: "\<And>i. i \<in> {uuids s, Suc (uuids s)} \<Longrightarrow> env_uuid4 E i \<noteq> [] \<and>
      Some (env_uuid4 E i) \<notin> e_event_id ` set (Events s)"
      "env_uuid4 E (uuids s) \<noteq> env_uuid4 E (Suc (uuids s))"
  shows "\<exists>f st. addFileToTransfer E path u (tr_uuid t) (Some date) source det use orig s = (Inr f, st) \<and>
     Files st = Files s @ [f] \<and> f_uuid f = u \<and> f_transfer f = Some (tr_uuid t) \<and>
     f_currentlocation f = Some path \<and>
     (let ags = remdups (map a_id (package_agents s ''Transfer'' (tr_uuid t)))
      in \<exists>new. Events st = Events s @ new \<and>
         map event_summary new = (Some u, source, det, [], ags) #
         (if tr_accessionid t = [] then []
          else [(Some u, ''registration'', [], ''accession#'' @ tr_accessionid t, ags)]))"
proof -
  let ?ags = "map a_id (package_agents s ''Transfer'' (tr_uuid t))"
  let ?orig = "case orig of None \<Rightarrow> path | Some l \<Rightarrow> if l = [] then path else l"
  obtain f s1 where ins: "insertIntoFiles E u path (Some date) (tr_uuid t) [] use (Some ?orig) s = (Inr f, s1)"
    and f: "Files s1 = Files s @ [f]" "f_uuid f = u" "f_sip f = None" "f_transfer f = Some (tr_uuid t)"
      "f_currentlocation f = Some path"
    and s1: "Transfers s1 = Transfers s" "Agents s1 = Agents s" "UnitVariables s1 = UnitVariables s"
      "uuids s1 = uuids s" "Events s1 = Events s"
    using t u unfolding insertIntoFiles_spec by (simp add: Let_def file_fks_ok_def new_file_def)
  have inv1: "db_inv s1" using keepsD [OF keeps_insertIntoFiles inv] ins by (metis snd_conv)
  have ags: "file_agents_ok s1 f" "file_agents s1 f = ?ags"
    using t(3) f agents_cong [of s1 s] s1 by (simp_all add: file_agents_ok_def file_agents_def)
  obtain e1 s2 where ev1: "insertIntoEvents E u [] source (Some date) det [] [] [] s1 = (Inr e1, s2)"
    and add1: "event_added E s1 s2 (Some u, source, det, [], remdups ?ags)"
    using insertIntoEvents_step [OF inv1, of f E source date det "[]" "[]"] ags f(1,2) s1
      fresh(1) [of "uuids s"] by auto
  have ags2: "file_agents_ok s2 f" "file_agents s2 f = ?ags"
    using add1 ags agents_cong [of s2 s1] by (simp_all add: event_added_def)
  have "Some (env_uuid4 E (uuids s2)) \<notin> e_event_id ` set (Events s2)" "env_uuid4 E (uuids s2) \<noteq> []"
    using add1 s1 fresh(1) [of "Suc (uuids s)"] fresh(2) by (auto simp: event_added_def)
  then obtain e2 s3 where ev2: "insertIntoEvents E u [] ''registration'' (Some date) [] []
        (''accession#'' @ tr_accessionid t) [] s2 = (Inr e2, s3)"
    and add2: "event_added E s2 s3
        (Some u, ''registration'', [], ''accession#'' @ tr_accessionid t, remdups ?ags)"
    using insertIntoEvents_step [of s2 f E "''registration''" date "[]" "[]"
        "''accession#'' @ tr_accessionid t"] ags2 f(1,2) add1 by (auto simp: event_added_def)
  have "get_transfer (tr_uuid t) s2 = (Inr t, s2)"
    by (rule get_by_key(3)) (use t(1) s1 add1 in \<open>auto simp: event_added_def\<close>)
  then have acc: "addAccessionEvent E u (tr_uuid t) (Some date) s2 =
      (Inr (), if tr_accessionid t = [] then s2 else s3)"
    using ev2 by (simp add: addAccessionEvent_def py_simps)
  have run: "addFileToTransfer E path u (tr_uuid t) (Some date) source det use orig s =
      (Inr f, if tr_accessionid t = [] then s2 else s3)"
    using ins ev1 acc by (simp add: addFileToTransfer_def Let_def py_bind_apply py_seq_apply py_ret_apply)
  show ?thesis
    unfolding run using f s1 add1 add2 by (auto simp: event_added_def Let_def)
qed

theorem addFileToTransfer_records_witness:
  "\<exists>f st. addFileToTransfer env_ex ''p'' ''new'' ''t'' (Some ''d'') ''ingestion'' [] ''original'' None world_ex =
       (Inr f, st) \<and> map e_event_type (Events st) = [''ingestion'', ''registration'']"
proof -
  have t: "transfer_ex \<in> set (Transfers world_ex)" "tr_uuid transfer_ex \<noteq> []"
    "agent_variable_ok world_ex ''Transfer'' (tr_uuid transfer_ex)"
    by (simp_all add: ex_defs agent_variable_ok_def unit_variables_of_def)
  have u: "''new'' \<notin> f_uuid ` set (Files world_ex)" by (simp add: ex_defs)
  have fresh: "env_uuid4 env_ex i \<noteq> [] \<and> Some (env_uuid4 env_ex i) \<notin> e_event_id ` set (Events world_ex)" for i
    by (simp add: ex_defs)
  have two: "env_uuid4 env_ex (uuids world_ex) \<noteq> env_uuid4 env_ex (Suc (uuids world_ex))"
    using str_nat_inj [of 0 1] by (auto simp: ex_defs)
  have sel: "tr_uuid transfer_ex = ''t''" "tr_accessionid transfer_ex = ''A1''" "Events world_ex = []"
    by (simp_all add: ex_defs)
  show ?thesis
    using addFileToTransfer_records [OF world_ex_inv t u fresh two, of "''p''" "''d''" "''ingestion''" "[]"
        "''original''" None]
    by (auto simp: sel Let_def event_summary_def)
qed

end
