(* ===== verification/Scripts.thy ===== *)
theory Scripts
  imports FileOps
begin

text \<open>
  What the client scripts have in common: the \<open>call(jobs)\<close> entry point with its loop over the
  jobs of a batch and its database transaction, the indexing of \<open>job.args\<close>, and the contract a
  job body has to meet so that the loop reaches every job.
\<close>

section \<open>Transactions\<close>

text \<open>
  \<open>with transaction.atomic(): m\<close>. When \<open>m\<close> raises, the tables are as they were before;
  auto-increment counters, the file system and the job objects are not rolled back.
\<close>

definition restore_db :: "'s world_scheme \<Rightarrow> 's world_scheme \<Rightarrow> 's world_scheme" where
  "restore_db s t = t\<lparr>Files := Files s, Events := Events s, Derivations := Derivations s, SIPs := SIPs s,
     Transfers := Transfers s, Directories := Directories s, Agents := Agents s,
     UnitVariables := UnitVariables s, Identifiers := Identifiers s, Settings := Settings s,
     CommandOutputs := CommandOutputs s\<rparr>"

definition atomic :: "('s world_scheme, 'a) py \<Rightarrow> ('s world_scheme, 'a) py" where
  "atomic m = (\<lambda>s. case m s of (Inr x, t) \<Rightarrow> (Inr x, t) | (Inl e, t) \<Rightarrow> (Inl e, restore_db s t))"

lemma atomic_apply [py_simps]:
  "atomic m s = (case m s of (Inr x, t) \<Rightarrow> (Inr x, t) | (Inl e, t) \<Rightarrow> (Inl e, restore_db s t))"
  by (simp add: atomic_def)

section \<open>The jobs of a batch\<close>

text \<open>\<open>for job in jobs: body\<close>; the result is the job objects as the body left them.\<close>

fun run_jobs :: "('s jstate_scheme, unit) py \<Rightarrow> job list \<Rightarrow> ('s jstate_scheme, job list) py" where
  "run_jobs body [] = py_ret []"
| "run_jobs body (j # js) =
     py_seq (py_mod (\<lambda>s. s\<lparr>cur_job := j\<rparr>))
    (py_seq body
    (py_bind (py_get cur_job) (\<lambda>j'.
     py_bind (run_jobs body js) (\<lambda>js'. py_ret (j' # js')))))"

text \<open>A body that always returns is run for every job, each from the state the one before it left.\<close>

lemma run_jobs_each:
  assumes ret: "\<And>s. fst (body s) = Inr ()"
  shows "\<exists>js states. run_jobs body jobs s = (Inr js, last states) \<and> length js = length jobs \<and>
     length states = Suc (length jobs) \<and> states ! 0 = s \<and>
     (\<forall>i < length jobs. body ((states ! i)\<lparr>cur_job := jobs ! i\<rparr>) = (Inr (), states ! Suc i) \<and>
        js ! i = cur_job (states ! Suc i))"
proof (induction jobs arbitrary: s)
  case Nil
  show ?case by (rule exI [of _ "[]"], rule exI [of _ "[s]"]) (simp add: py_simps)
next
  case (Cons j jobs)
  obtain t where t: "body (s\<lparr>cur_job := j\<rparr>) = (Inr (), t)"
    using ret [of "s\<lparr>cur_job := j\<rparr>"] by (cases "body (s\<lparr>cur_job := j\<rparr>)") simp
  obtain js states where IH: "run_jobs body jobs t = (Inr js, last states)" "length js = length jobs"
    "length states = Suc (length jobs)" "states ! 0 = t"
    "\<forall>i < length jobs. body ((states ! i)\<lparr>cur_job := jobs ! i\<rparr>) = (Inr (), states ! Suc i) \<and>
        js ! i = cur_job (states ! Suc i)"
    using Cons.IH [of t] by blast
  have "states \<noteq> []" using IH(3) by auto
  with t IH have "run_jobs body (j # jobs) s = (Inr (cur_job t # js), last (s # states))"
    by (simp add: py_simps)
  with t IH show ?case
    by (intro exI [of _ "cur_job t # js"] exI [of _ "s # states"])
       (auto simp: less_Suc_eq_0_disj)
qed

text \<open>\<open>job.args[i]\<close>\<close>

definition nth_arg :: "nat \<Rightarrow> ('s jstate_scheme, string) py" where
  "nth_arg i = py_bind (py_get (\<lambda>s. j_args (cur_job s))) (\<lambda>args.
     if i < length args then py_ret (args ! i) else py_raise (IndexError ''list index out of range''))"

section \<open>Logging leaves the tables alone\<close>

declare log_msg_apply [py_simps]

lemma log_upd_world [simp]:
  "Files (log_upd l m s) = Files s" "Events (log_upd l m s) = Events s" "SIPs (log_upd l m s) = SIPs s"
  "Derivations (log_upd l m s) = Derivations s" "Transfers (log_upd l m s) = Transfers s"
  "Agents (log_upd l m s) = Agents s" "UnitVariables (log_upd l m s) = UnitVariables s"
  "fs (log_upd l m s) = fs s" "uuids (log_upd l m s) = uuids s" "clock (log_upd l m s) = clock s"
  "next_pk (log_upd l m s) = next_pk s" "world.more (log_upd l m s) = world.more s"
  by (simp_all add: log_upd_def log_msg_def py_mod_apply split: option.splits)

definition only_logged :: "'s jstate_scheme \<Rightarrow> 's jstate_scheme \<Rightarrow> bool" where
  "only_logged s t \<longleftrightarrow> jstate.more t = jstate.more s"

lemma only_logged_upd [simp]: "only_logged s s" "only_logged s (log_upd l m s)"
  by (simp_all add: only_logged_def)

lemma only_logged_trans [trans]: "only_logged s t \<Longrightarrow> only_logged t u \<Longrightarrow> only_logged s u"
  by (simp add: only_logged_def)

lemma only_loggedD: "only_logged s t \<Longrightarrow> t = s\<lparr>cur_job := cur_job t, log_buffer := log_buffer t\<rparr>"
  by (cases s; cases t) (simp add: only_logged_def)

lemma only_logged_same:
  fixes s t :: "'s world_scheme"
  assumes "only_logged s t"
  shows "Files t = Files s" "Events t = Events s" "SIPs t = SIPs s" "Derivations t = Derivations s"
    "Transfers t = Transfers s" "Agents t = Agents s" "UnitVariables t = UnitVariables s" "fs t = fs s"
    "uuids t = uuids s" "world.more t = world.more s"
  using only_loggedD [OF assms] by (cases s; cases t; simp)+

lemma db_inv_log_upd [simp]: "db_inv (log_upd l m s) = db_inv s"
  by (simp add: db_inv_def file_fks_ok_def event_fks_ok_def derivation_fks_ok_def)

lemma keeps_logged [keeps_intros]:
  "keeps (only_logged s) (log_msg l m)" "keeps (only_logged s) (upd_job f)"
  by (auto simp: keeps_def py_simps only_logged_def)

lemma keeps_logged_fs [keeps_intros]: "keeps (only_logged s) (fs_get g)"
  by (simp add: keeps_def py_simps)

lemma logged_only: "(\<And>s. keeps (only_logged s) m) \<Longrightarrow> only_logged s (snd (m s))"
  by (simp add: keeps_def)

section \<open>Computations that do not leave the process\<close>

text \<open>\<open>contained m\<close>: whatever \<open>m\<close> raises derives from \<open>Exception\<close>.\<close>

definition contained :: "('s, 'a) py \<Rightarrow> bool" where
  "contained m = (\<forall>s e. fst (m s) = Inl e \<longrightarrow> is_Exception e)"

named_theorems contained_intros "exceptions of a computation, one rule per construct"

lemma contained_basic [contained_intros]:
  "contained (py_ret x)" "contained (py_get f)" "contained (py_mod g)"
  by (simp_all add: contained_def py_simps)

lemma contained_raise [contained_intros]: "is_Exception e \<Longrightarrow> contained (py_raise e)"
  by (simp add: contained_def py_simps)

lemma contained_lift [contained_intros]:
  "(\<And>e. r = Inl e \<Longrightarrow> is_Exception e) \<Longrightarrow> contained (py_lift r)"
  by (simp add: contained_def py_simps)

lemma contained_bind: "contained m \<Longrightarrow> (\<And>x. contained (f x)) \<Longrightarrow> contained (py_bind m f)"
  by (auto simp: contained_def py_simps split: prod.splits sum.splits) (metis fst_conv)+

lemma contained_seq [contained_intros]: "contained m \<Longrightarrow> contained k \<Longrightarrow> contained (py_seq m k)"
  unfolding py_seq_def by (rule contained_bind)

lemma contained_if [contained_intros]: "contained m \<Longrightarrow> contained k \<Longrightarrow> contained (if b then m else k)"
  by simp

lemma contained_when [contained_intros]: "contained m \<Longrightarrow> contained (py_when b m)"
  by (simp add: py_when_def contained_basic)

lemma contained_for [contained_intros]: "(\<And>x. contained (f x)) \<Longrightarrow> contained (py_for xs f)"
  by (induction xs) (simp_all add: contained_basic contained_seq)

lemma contained_map [contained_intros]: "(\<And>x. contained (f x)) \<Longrightarrow> contained (py_map f xs)"
  by (induction xs) (simp_all add: contained_basic contained_bind)

lemma contained_case_option [contained_intros]:
  "(x = None \<Longrightarrow> contained m) \<Longrightarrow> (\<And>y. x = Some y \<Longrightarrow> contained (k y)) \<Longrightarrow>
     contained (case x of None \<Rightarrow> m | Some y \<Rightarrow> k y)"
  by (cases x) auto

lemma contained_case_prod [contained_intros]:
  "(\<And>a b. x = (a, b) \<Longrightarrow> contained (k a b)) \<Longrightarrow> contained (case x of (a, b) \<Rightarrow> k a b)"
  by (cases x) auto

lemma contained_Let [contained_intros]: "contained (k x) \<Longrightarrow> contained (let y = x in k y)"
  by simp

lemma contained_try [contained_intros]:
  "contained m \<Longrightarrow> (\<And>e. contained (k e)) \<Longrightarrow>
     contained (py_try m (\<lambda>e. if c e then Some (k e) else None))"
proof -
  assume m: "contained m" and k: "\<And>e. contained (k e)"
  have "is_Exception e" if "fst (py_try m (\<lambda>e. if c e then Some (k e) else None) s) = Inl e" for s e
  proof (cases "m s")
    case (Pair r t)
    with m have "r = Inl e' \<Longrightarrow> is_Exception e'" for e' by (auto simp: contained_def dest: spec [of _ s])
    with Pair that k show ?thesis
      by (auto simp: py_simps contained_def split: sum.splits if_splits) 
  qed
  then show ?thesis by (simp add: contained_def)
qed

text \<open>The same for a handler given by cases, and for a result read from the state and raised at once.\<close>

lemma contained_handler:
  assumes m: "contained m" and h: "\<And>e k. h e = Some k \<Longrightarrow> contained k"
  shows "contained (py_try m h)"
  unfolding contained_def
proof (intro allI impI)
  fix s e
  assume raised: "fst (py_try m h s) = Inl e"
  obtain r t where mt: "m s = (r, t)" by (cases "m s")
  with m have r: "r = Inl e' \<Longrightarrow> is_Exception e'" for e' by (auto simp: contained_def dest: spec [of _ s])
  show "is_Exception e"
  proof (cases r)
    case (Inl e')
    show ?thesis
    proof (cases "h e'")
      case None
      with mt Inl raised r show ?thesis by (simp add: py_simps)
    next
      case (Some k)
      with mt Inl raised h [OF Some] show ?thesis by (auto simp: py_simps contained_def)
    qed
  qed (use mt raised in \<open>simp add: py_simps\<close>)
qed

lemma contained_read:
  "(\<And>s e. g s = Inl e \<Longrightarrow> is_Exception e) \<Longrightarrow> (\<And>x. contained (k x)) \<Longrightarrow>
     contained (py_bind (py_get g) (\<lambda>r. py_bind (py_lift r) k))"
  by (auto simp: contained_def py_simps split: sum.splits)

lemma contained_atomic [contained_intros]: "contained m \<Longrightarrow> contained (atomic m)"
  by (auto simp: contained_def py_simps split: prod.splits sum.splits) (metis fst_conv)

text \<open>The lookups of the database.\<close>

lemma get_one_exception: "get_one n rs = Inl e \<Longrightarrow> is_Exception e"
  by (auto simp: get_one_def is_Exception_def split: list.splits)

lemma contained_lookups [contained_intros]:
  "contained (get_transfer u)" "contained (get_unit_variable ty u v)"
  unfolding get_transfer_def get_unit_variable_def
  by (auto simp: contained_def py_simps dest: get_one_exception)

lemma contained_world [contained_intros]:
  fixes E :: env
  shows "contained (now E)" "contained (uuid4 E)" "contained auto_pk" "contained (fs_get g)"
    "contained (event_agents_add pk as)" "contained (log_msg l m)" "contained (upd_job f)"
  by (simp_all add: contained_def py_simps event_agents_add_def is_Exception_def)

lemma contained_print [contained_intros]: "h \<in> {Stdout, Stderr} \<Longrightarrow> contained (job_pyprint h ss)"
  by (auto simp: contained_def py_simps)

text \<open>Under \<open>JobContext\<close> a contained body always returns.\<close>

lemma JobContext_returns: "contained body \<Longrightarrow> fst (JobContext tb lg body s) = Inr ()"
  by (auto simp: contained_def JobContext_def py_simps split: prod.splits sum.splits)
    (metis fst_conv)+

section \<open>The job at hand\<close>

text \<open>The job a body works on stays the job it was given: only its output and status change.\<close>

definition is_job :: "string \<Rightarrow> 's jstate_scheme \<Rightarrow> bool" where
  "is_job u s \<longleftrightarrow> j_uuid (cur_job s) = u"

lemma is_job_upd [simp]:
  "is_job u (log_upd l m s) = is_job u s"
  "is_job u (s\<lparr>log_buffer := b\<rparr>) = is_job u s"
  "is_job u (s\<lparr>cur_job := j\<rparr>) = (j_uuid j = u)"
  by (auto simp: is_job_def log_upd_def log_msg_def py_simps split: option.splits)

lemma is_job_world [simp]:
  fixes s :: "'s world_scheme"
  shows "is_job u (s\<lparr>Files := a\<rparr>) = is_job u s" "is_job u (s\<lparr>Events := b\<rparr>) = is_job u s"
    "is_job u (s\<lparr>next_pk := n\<rparr>) = is_job u s" "is_job u (s\<lparr>clock := n\<rparr>) = is_job u s"
    "is_job u (s\<lparr>uuids := n\<rparr>) = is_job u s" "is_job u (s\<lparr>fs := r\<rparr>) = is_job u s"
  by (simp_all add: is_job_def)

lemma is_job_restore [simp]: "is_job u (restore_db s t) = is_job u t"
  by (simp add: restore_db_def is_job_def)

lemma job_fields [simp]:
  "j_uuid (set_status c st j) = j_uuid j" "j_uuid (write_output o1 j) = j_uuid j" "j_uuid (write_error o1 j) = j_uuid j"
  "j_uuid (print_output ss j) = j_uuid j" "j_uuid (print_error ss j) = j_uuid j"
  by (simp_all add: set_status_def write_output_def write_error_def print_output_def print_error_def pyprint_def)

lemma job_pyprint_job [simp]: "is_job u (snd (job_pyprint h ss s)) = is_job u s"
  by (cases h) (simp_all add: job_pyprint_def pyprint_def py_simps is_job_def)

lemma keeps_is_job [keeps_intros]:
  "keeps (is_job u) (log_msg l m)" "keeps (is_job u) (job_pyprint h ss)"
  "keeps (is_job u) (upd_job (set_status c st))" "keeps (is_job u) (upd_job (print_output ss))"
  "keeps (is_job u) (upd_job (print_error ss))"
  by (simp_all add: keeps_def py_simps) (simp_all add: is_job_def)

lemma keeps_is_job_world [keeps_intros]:
  fixes E :: env
  shows "keeps (is_job u) (now E)" "keeps (is_job u) (uuid4 E)" "keeps (is_job u) auto_pk"
    "keeps (is_job u) (get_file v)" "keeps (is_job u) (get_sip v)" "keeps (is_job u) (get_transfer v)"
    "keeps (is_job u) (unit_agents ty v)" "keeps (is_job u) (fs_get g)"
  by (auto simp: keeps_def py_simps get_file_def get_sip_def get_transfer_def unit_agents_def get_unit_variable_def
      split: option.splits list.splits sum.splits)

lemma keeps_is_job_atomic [keeps_intros]: "keeps (is_job u) m \<Longrightarrow> keeps (is_job u) (atomic m)"
  by (auto simp: keeps_def py_simps split: prod.splits sum.splits)

lemma keeps_is_job_nth_arg [keeps_intros]: "keeps (is_job u) (nth_arg i)"
  unfolding nth_arg_def by (intro keeps_intros keeps_bind)

lemma keeps_is_job_context: "keeps (is_job u) m \<Longrightarrow> keeps (is_job u) (JobContext tb lg m)"
  unfolding JobContext_def
  by (intro keeps_intros) (auto simp: keeps_def py_simps is_job_def)

lemma JobContext_confined: "fst (JobContext tb lg body s) = Inl e \<Longrightarrow> \<not> is_Exception e"
  by (auto simp: JobContext_def py_simps split: prod.splits sum.splits if_splits)

section \<open>The contract of a job body\<close>

text \<open>
  What \<open>run_jobs\<close> needs of a body: an \<open>Exception\<close> never leaves it, and it works on the job it was
  given. (A script may still end the process by \<open>SystemExit\<close>.)
\<close>

locale job_body =
  fixes body :: "('s jstate_scheme, unit) py"
  assumes confined: "fst (body s) = Inl e \<Longrightarrow> \<not> is_Exception e"
    and same_job: "j_uuid (cur_job (snd (body s))) = j_uuid (cur_job s)"
begin

text \<open>Every job of the batch is run, in order, unless the process is ended.\<close>

lemma all_jobs_run:
  "case run_jobs body jobs s of (Inr js, t) \<Rightarrow> map j_uuid js = map j_uuid jobs | (Inl e, t) \<Rightarrow> \<not> is_Exception e"
proof (induction jobs arbitrary: s)
  case Nil
  show ?case by (simp add: py_simps)
next
  case (Cons j jobs)
  obtain r t where t: "body (s\<lparr>cur_job := j\<rparr>) = (r, t)" by (cases "body (s\<lparr>cur_job := j\<rparr>)")
  then have "j_uuid (cur_job t) = j_uuid j" and "r = Inl e \<Longrightarrow> \<not> is_Exception e" for e
    using same_job [of "s\<lparr>cur_job := j\<rparr>"] confined [of "s\<lparr>cur_job := j\<rparr>"] by auto
  with Cons.IH [of t] t show ?case by (auto simp: py_simps split: prod.splits sum.splits)
qed

end

text \<open>A body under \<open>JobContext\<close> meets the contract when it keeps to its job.\<close>

lemma job_body_context:
  fixes m :: "('s jstate_scheme, unit) py"
  assumes "\<And>u. keeps (is_job u) m"
  shows "job_body (JobContext tb lg m)"
proof (unfold_locales, rule JobContext_confined)
  fix s :: "'s jstate_scheme"
  have "keeps (is_job (j_uuid (cur_job s))) (JobContext tb lg m)" using assms by (intro keeps_is_job_context)
  then show "j_uuid (cur_job (snd (JobContext tb lg m s))) = j_uuid (cur_job s)"
    by (simp add: keeps_def is_job_def)
qed

end
