(* ===== verification/BulkEvents.thy ===== *)
theory BulkEvents
  imports Scripts
begin

text \<open>
  Two idioms shared by the scripts that write events in bulk
  (\<open>clientScripts/change_object_names.py\<close>, \<open>clientScripts/verify_checksum.py\<close>):
  \<open>Event.objects.bulk_create(events)\<close>, and linking agents by querying the events of the files
  concerned and adding the agents to every one of them.
\<close>

section \<open>bulk\_create\<close>

text \<open>One statement: all rows are inserted or none. Dates are set by \<open>auto_now\<close>.\<close>

fun number_events :: "env \<Rightarrow> event_row list \<Rightarrow> ('s world_scheme, event_row list) py" where
  "number_events E [] = py_ret []"
| "number_events E (e # es) =
     py_bind (now E) (\<lambda>t. py_bind auto_pk (\<lambda>pk.
     py_bind (number_events E es) (\<lambda>rest. py_ret (e\<lparr>e_id := pk, e_event_datetime := t\<rparr> # rest))))"

definition new_ids_free :: "event_row list \<Rightarrow> event_row list \<Rightarrow> bool" where
  "new_ids_free rows new = distinct (filter (\<lambda>i. i \<noteq> None) (map e_event_id (rows @ new)))"

definition Event_bulk_create :: "env \<Rightarrow> event_row list \<Rightarrow> ('s world_scheme, unit) py" where
  "Event_bulk_create E events =
     py_bind (number_events E events) (\<lambda>new.
     py_bind (py_get (\<lambda>s. if \<not> new_ids_free (Events s) new \<or>
            \<not> distinct (map e_id (Events s @ new)) then Inl (IntegrityError ''Duplicate entry'')
          else if \<not> list_all (event_fks_ok s) new
          then Inl (IntegrityError ''Cannot add or update a child row'')
          else Inr (Events s @ new))) (\<lambda>r.
     py_bind (py_lift r) (\<lambda>rows. py_mod (\<lambda>s. s\<lparr>Events := rows\<rparr>))))"

section \<open>Linking agents to the events of a list of files\<close>

definition link_events :: "string option list \<Rightarrow> nat list \<Rightarrow> ('s world_scheme, unit) py" where
  "link_events file_uuids agents =
     py_bind (py_get (\<lambda>s. filter (\<lambda>e. e_file_uuid e \<noteq> None \<and> e_file_uuid e \<in> set file_uuids) (Events s)))
       (\<lambda>events. py_for events (\<lambda>event. event_agents_add (e_id event) agents))"

definition add_agents :: "nat list \<Rightarrow> event_row \<Rightarrow> event_row" where
  "add_agents agents e =
     e\<lparr>e_agents := e_agents e @ filter (\<lambda>i. i \<notin> set (e_agents e)) (remdups agents)\<rparr>"

section \<open>Lemmas\<close>

text \<open>What never changes of an event once it is recorded, and is not set by the database.\<close>

definition event_key :: "event_row \<Rightarrow> string option \<times> string option \<times> string \<times> string" where
  "event_key e = (e_event_id e, e_file_uuid e, e_event_type e, e_event_outcome e)"

lemma event_key_upd [simp]:
  "event_key (e\<lparr>e_id := pk\<rparr>) = event_key e" "event_key (e\<lparr>e_event_datetime := t\<rparr>) = event_key e"
  "event_key (add_agents as e) = event_key e"
  by (simp_all add: event_key_def add_agents_def)

lemma event_summary_upd [simp]:
  "event_summary (e\<lparr>e_id := pk\<rparr>) = event_summary e"
  "event_summary (e\<lparr>e_event_datetime := t\<rparr>) = event_summary e"
  by (simp_all add: event_summary_def)

lemma number_events_result:
  "\<exists>new c p. number_events E es s = (Inr new, s\<lparr>clock := c, next_pk := p\<rparr>) \<and> p = next_pk s + length es \<and>
     map e_id new = [next_pk s ..< p] \<and> map e_event_id new = map e_event_id es \<and>
     map e_file_uuid new = map e_file_uuid es \<and> map e_agents new = map e_agents es \<and>
     map event_summary new = map event_summary es \<and> map event_key new = map event_key es"
proof (induction es arbitrary: s)
  case Nil
  show ?case
    by (intro exI [of _ "[]"] exI [of _ "clock s"] exI [of _ "next_pk s"]) (simp add: py_simps)
next
  case (Cons e es)
  let ?s = "s\<lparr>clock := Suc (clock s), next_pk := Suc (next_pk s)\<rparr>"
  let ?e = "e\<lparr>e_id := next_pk s, e_event_datetime := env_now E (clock s)\<rparr>"
  obtain new c p where "number_events E es ?s = (Inr new, ?s\<lparr>clock := c, next_pk := p\<rparr>)"
    "p = next_pk ?s + length es" "map e_id new = [next_pk ?s ..< p]"
    "map e_event_id new = map e_event_id es" "map e_file_uuid new = map e_file_uuid es"
    "map e_agents new = map e_agents es" "map event_summary new = map event_summary es"
    "map event_key new = map event_key es"
    using Cons.IH [of ?s] by blast
  note IH = this
  show ?case
    by (rule exI [of _ "?e # new"], rule exI [of _ c], rule exI [of _ p])
      (use IH in \<open>simp add: py_simps upt_conv_Cons del: upt_Suc\<close>)
qed

text \<open>Adding agents one event at a time, over any list of events of the table.\<close>

lemma for_add_agents:
  assumes "list_all (\<lambda>i. i \<in> a_id ` set (Agents s)) agents" and "distinct ids"
    and "distinct (map e_id (Events s))"
  shows "py_for ids (\<lambda>pk. event_agents_add pk agents) s =
     (Inr (), s\<lparr>Events := map (\<lambda>e. if e_id e \<in> set ids then add_agents agents e else e) (Events s)\<rparr>)"
  using assms
proof (induction ids arbitrary: s)
  case Nil
  then show ?case by (simp add: py_simps)
next
  case (Cons pk ids)
  let ?g = "\<lambda>e. if e_id e = pk then add_agents agents e else e"
  let ?s = "s\<lparr>Events := map ?g (Events s)\<rparr>"
  have step: "event_agents_add pk agents s = (Inr (), ?s)"
    using Cons.prems(1) by (simp add: event_agents_add_def row_update_def add_agents_def)
  have keys: "map e_id (map ?g (Events s)) = map e_id (Events s)"
    by (simp add: add_agents_def)
  then have "py_for ids (\<lambda>pk. event_agents_add pk agents) ?s =
      (Inr (), ?s\<lparr>Events := map (\<lambda>e. if e_id e \<in> set ids then add_agents agents e else e) (Events ?s)\<rparr>)"
    using Cons.prems by (intro Cons.IH) (simp_all del: map_map)
  moreover have "map (\<lambda>e. if e_id e \<in> set ids then add_agents agents e else e) (map ?g (Events s)) =
      map (\<lambda>e. if e_id e \<in> set (pk # ids) then add_agents agents e else e) (Events s)"
    using Cons.prems(2) by (auto simp: add_agents_def)
  ultimately show ?case using step by (simp add: py_seq_apply)
qed

lemma py_for_map: "py_for (map g xs) f = py_for xs (\<lambda>x. f (g x))"
  by (induction xs) simp_all

lemma link_events_eq:
  assumes "distinct (map e_id (Events s))" and "set agents \<subseteq> a_id ` set (Agents s)"
  shows "link_events us agents s =
     (Inr (), s\<lparr>Events := map (\<lambda>e. if e_file_uuid e \<noteq> None \<and> e_file_uuid e \<in> set us
        then add_agents agents e else e) (Events s)\<rparr>)"
proof -
  let ?P = "\<lambda>e. e_file_uuid e \<noteq> None \<and> e_file_uuid e \<in> set us"
  let ?ids = "map e_id (filter ?P (Events s))"
  have d: "distinct ?ids" using assms(1) by (rule distinct_map_filter)
  have "py_for ?ids (\<lambda>pk. event_agents_add pk agents) s =
     (Inr (), s\<lparr>Events := map (\<lambda>e. if e_id e \<in> set ?ids then add_agents agents e else e) (Events s)\<rparr>)"
    by (rule for_add_agents) (use assms d in \<open>auto simp: list_all_iff\<close>)
  moreover have "map (\<lambda>e. if e_id e \<in> set ?ids then add_agents agents e else e) (Events s) =
      map (\<lambda>e. if ?P e then add_agents agents e else e) (Events s)"
  proof (intro map_cong refl)
    fix e assume e: "e \<in> set (Events s)"
    have "e_id e \<in> set ?ids \<longleftrightarrow> ?P e"
      using assms(1) e by (auto simp: distinct_map dest: inj_onD)
    then show "(if e_id e \<in> set ?ids then add_agents agents e else e) =
        (if ?P e then add_agents agents e else e)" by simp
  qed
  ultimately show ?thesis
    unfolding link_events_def py_bind_apply py_get_apply by (simp add: py_for_map)
qed

lemma add_agents_sels [simp]:
  "e_id (add_agents as e) = e_id e" "e_event_id (add_agents as e) = e_event_id e"
  "e_file_uuid (add_agents as e) = e_file_uuid e" "e_event_type (add_agents as e) = e_event_type e"
  "e_event_outcome (add_agents as e) = e_event_outcome e" "e_event_detail (add_agents as e) = e_event_detail e"
  "set (e_agents (add_agents as e)) = set (e_agents e) \<union> set as"
  by (auto simp: add_agents_def)

text \<open>New events with fresh identifiers for existing files are all inserted.\<close>

lemma Event_bulk_create_ok:
  assumes inv: "db_inv s"
    and ids: "distinct (map e_event_id evs)" "\<And>e. e \<in> set evs \<Longrightarrow> e_event_id e \<noteq> None \<and>
      e_event_id e \<notin> e_event_id ` set (Events s)"
    and fks: "\<And>e. e \<in> set evs \<Longrightarrow> event_fks_ok s e"
  shows "\<exists>new c p. Event_bulk_create E evs s =
       (Inr (), s\<lparr>clock := c, next_pk := p, Events := Events s @ new\<rparr>) \<and>
     map event_summary new = map event_summary evs \<and> map e_file_uuid new = map e_file_uuid evs \<and>
     map e_agents new = map e_agents evs \<and> distinct (map e_id (Events s @ new)) \<and>
     map e_event_id new = map e_event_id evs \<and> map event_key new = map event_key evs"
proof -
  obtain new c p where new: "number_events E evs s = (Inr new, s\<lparr>clock := c, next_pk := p\<rparr>)"
    "map e_id new = [next_pk s ..< p]" "map e_event_id new = map e_event_id evs"
    "map e_file_uuid new = map e_file_uuid evs" "map e_agents new = map e_agents evs"
    "map event_summary new = map event_summary evs" "map event_key new = map event_key evs"
    using number_events_result by blast
  let ?t = "s\<lparr>clock := c, next_pk := p\<rparr>"
  have "set (map e_id (Events s)) \<inter> set (map e_id new) = {}"
    unfolding new(2) using inv by (auto simp: db_inv_def)
  moreover have "distinct (map e_id new)" unfolding new(2) by simp
  ultimately have pks: "distinct (map e_id (Events s @ new))" using inv by (simp add: db_inv_def)
  have some: "filter (\<lambda>i. i \<noteq> None) (map e_event_id evs) = map e_event_id evs"
    using ids(2) by (auto intro: filter_True)
  have free: "new_ids_free (Events s) new"
    unfolding new_ids_free_def map_append filter_append new(3) some
    using inv ids by (auto simp: db_inv_def)
  have "list_all (event_fks_ok ?t) new"
  proof -
    have "event_fks_ok ?t e \<longleftrightarrow> set_option (e_file_uuid e) \<subseteq> f_uuid ` set (Files s)" for e
      by (simp add: event_fks_ok_def)
    moreover have "\<forall>u \<in> set (map e_file_uuid evs). set_option u \<subseteq> f_uuid ` set (Files s)"
      using fks by (auto simp: event_fks_ok_def)
    ultimately show ?thesis unfolding new(4) [symmetric] by (auto simp: list_all_iff)
  qed
  then have "Event_bulk_create E evs s = (Inr (), ?t\<lparr>Events := Events s @ new\<rparr>)"
    using new(1) free pks by (simp add: Event_bulk_create_def py_simps)
  with new pks show ?thesis by blast
qed

text \<open>Integrity.\<close>

lemma db_inv_later_pk: "db_inv s \<Longrightarrow> next_pk s \<le> p \<Longrightarrow> db_inv (s\<lparr>next_pk := p\<rparr>)"
  by (auto simp: db_inv_def file_fks_ok_def event_fks_ok_def derivation_fks_ok_def)

lemma keeps_Event_bulk_create [keeps_intros]:
  assumes "\<forall>e \<in> set evs. e_agents e = []"
  shows "keeps db_inv (Event_bulk_create E evs)"
proof (rule keepsI)
  fix s :: "'a world_scheme" assume inv: "db_inv s"
  obtain new c p where new: "number_events E evs s = (Inr new, s\<lparr>clock := c, next_pk := p\<rparr>)"
    "p = next_pk s + length evs" "map e_id new = [next_pk s ..< p]" "map e_agents new = map e_agents evs"
    using number_events_result by blast
  let ?t = "s\<lparr>clock := c, next_pk := p\<rparr>"
  have t: "db_inv ?t" using db_inv_later_pk [of "s\<lparr>clock := c\<rparr>" p] inv new(2) by simp
  have "db_inv (?t\<lparr>Events := Events s @ new\<rparr>)"
    if "new_ids_free (Events s) new" "distinct (map e_id (Events s @ new))" "list_all (event_fks_ok ?t) new"
  proof -
    have "e_id ` set new \<subseteq> {..< p}" using arg_cong [OF new(3), of set] by auto
    moreover have "e_agents ` set new \<subseteq> {[]}"
      using arg_cong [OF new(4), of set] assms by auto
    ultimately show ?thesis
      using t that by (auto simp: db_inv_def new_ids_free_def list_all_iff derivation_fks_ok_def)
  qed
  with t new(1) show "db_inv (snd (Event_bulk_create E evs s))"
    by (simp add: Event_bulk_create_def py_simps)
qed

lemma keeps_link_events [keeps_intros]: "keeps db_inv (link_events us as)"
  unfolding link_events_def by (intro keeps_intros keeps_bind)

text \<open>They leave the job at hand alone.\<close>

lemma keeps_is_job_bulk [keeps_intros]:
  fixes E :: env
  shows "keeps (is_job u) (Event_bulk_create E evs :: ('s world_scheme, _) py)" (is "keeps _ ?m")
    and "keeps (is_job u) (link_events us as)"
proof -
  have n: "keeps (is_job u) (number_events E evs :: ('s world_scheme, _) py)"
  proof (rule keepsI)
    fix s :: "'s world_scheme" assume "is_job u s"
    moreover obtain new c p where "number_events E evs s = (Inr new, s\<lparr>clock := c, next_pk := p\<rparr>)"
      using number_events_result by blast
    ultimately show "is_job u (snd (number_events E evs s))" by simp
  qed
  then show "keeps (is_job u) ?m"
    unfolding Event_bulk_create_def by (intro keeps_intros keeps_bind) simp_all
  show "keeps (is_job u) (link_events us as)"
    unfolding link_events_def by (intro keeps_intros keeps_bind) (auto simp: keeps_def event_agents_add_def)
qed

text \<open>The two idioms together: every new event ends with exactly the given agents, and the agents are
  also added to every earlier event of the same files.\<close>

lemma create_and_link:
  assumes inv: "db_inv s" and ids: "distinct (map e_event_id evs)"
      "\<And>e. e \<in> set evs \<Longrightarrow> e_event_id e \<noteq> None \<and> e_event_id e \<notin> e_event_id ` set (Events s)"
    and files: "\<And>e. e \<in> set evs \<Longrightarrow> e_file_uuid e \<in> Some ` f_uuid ` set (Files s) \<and> e_agents e = []"
    and agents: "set agents \<subseteq> a_id ` set (Agents s)"
  shows "\<exists>c p new. py_seq (Event_bulk_create E evs) (link_events (map e_file_uuid evs) agents) s =
       (Inr (), s\<lparr>clock := c, next_pk := p,
          Events := map (\<lambda>e. if e_file_uuid e \<in> e_file_uuid ` set evs then add_agents agents e else e)
            (Events s) @ new\<rparr>) \<and>
     map event_summary new = map (\<lambda>e. event_summary (e\<lparr>e_agents := remdups agents\<rparr>)) evs \<and>
     map e_event_id new = map e_event_id evs \<and> map event_key new = map event_key evs"
proof -
  let ?upd = "\<lambda>e. if e_file_uuid e \<in> e_file_uuid ` set evs then add_agents agents e else e"
  have fks: "event_fks_ok s e" if "e \<in> set evs" for e
    using files [OF that] by (auto simp: event_fks_ok_def)
  obtain new c p where new: "Event_bulk_create E evs s =
       (Inr (), s\<lparr>clock := c, next_pk := p, Events := Events s @ new\<rparr>)"
     "map event_summary new = map event_summary evs" "map e_file_uuid new = map e_file_uuid evs"
     "map e_agents new = map e_agents evs" "distinct (map e_id (Events s @ new))"
     "map e_event_id new = map e_event_id evs" "map event_key new = map event_key evs"
    using Event_bulk_create_ok [OF inv ids fks] by blast
  let ?t = "s\<lparr>clock := c, next_pk := p, Events := Events s @ new\<rparr>"
  have "e_file_uuid e \<noteq> None \<and> e_file_uuid e \<in> set (map e_file_uuid evs) \<longleftrightarrow>
      e_file_uuid e \<in> e_file_uuid ` set evs" for e :: event_row
    using files by force
  moreover have "distinct (map e_id (Events ?t))" "set agents \<subseteq> a_id ` set (Agents ?t)"
    using new(5) agents by simp_all
  ultimately have "link_events (map e_file_uuid evs) agents ?t = (Inr (), ?t\<lparr>Events := map ?upd (Events s @ new)\<rparr>)"
    using link_events_eq [of ?t agents "map e_file_uuid evs"] by simp
  moreover have "map (event_summary \<circ> ?upd) new =
      map (\<lambda>e. (\<lambda>(u, t, d, n, _). (u, t, d, n, remdups agents)) (event_summary e)) new"
  proof (intro map_cong refl)
    fix e assume "e \<in> set new"
    then have "e_file_uuid e \<in> set (map e_file_uuid evs)" "e_agents e \<in> set (map e_agents evs)"
      unfolding new(3,4) [symmetric] by simp_all
    with files have "e_file_uuid e \<in> e_file_uuid ` set evs" "e_agents e = []" by auto
    then show "(event_summary \<circ> ?upd) e =
        (\<lambda>(u, t, d, n, _). (u, t, d, n, remdups agents)) (event_summary e)"
      by (simp add: event_summary_def add_agents_def)
  qed
  then have "map event_summary (map ?upd new) =
      map (\<lambda>(u, t, d, n, _). (u, t, d, n, remdups agents)) (map event_summary new)" by simp
  then have "map event_summary (map ?upd new) = map (\<lambda>e. event_summary (e\<lparr>e_agents := remdups agents\<rparr>)) evs"
    unfolding new(2) by (simp add: event_summary_def)
  moreover have "map e_event_id (map ?upd new) = map e_event_id new"
    "map event_key (map ?upd new) = map event_key new" by simp_all
  ultimately show ?thesis using new
    by (intro exI [of _ c] exI [of _ p] exI [of _ "map ?upd new"]) (simp add: py_seq_apply)
qed

end
