(* ===== verification/ChangeNames.thy ===== *)
theory ChangeNames
  imports BulkEvents
begin

text \<open>
  \<open>clientScripts/change_names.py\<close> and \<open>clientScripts/change_object_names.py\<close>: replacing
  prohibited characters in file and directory names, on disk and in the database. The
  transliteration \<open>unidecode\<close>, Unicode normalisation and \<open>pathconf\<close> are fields of the
  environment.
\<close>

record cn_env = env +
  cn_unidecode :: "string \<Rightarrow> string"
  cn_nfc :: "string \<Rightarrow> string"
  cn_name_max :: int

section \<open>change\_names.py\<close>

definition allowed_char :: "char \<Rightarrow> bool" where
  "allowed_char c = ((65 \<le> (of_char c :: nat) \<and> (of_char c :: nat) \<le> 90) \<or>
     (97 \<le> (of_char c :: nat) \<and> (of_char c :: nat) \<le> 122) \<or>
     (48 \<le> (of_char c :: nat) \<and> (of_char c :: nat) \<le> 57) \<or>
     c \<in> {CHR ''-'', CHR ''_'', CHR ''.'', CHR ''('', CHR '')''})"

definition REPLACEMENT_CHAR :: string where "REPLACEMENT_CHAR = ''_''"

definition change_name :: "(string \<Rightarrow> string) \<Rightarrow> string \<Rightarrow> py_exn + string" where
  "change_name unidecode base_name =
     (if base_name = [] then Inl (ValueError ''change_name received an empty filename.'')
      else (let decoded = unidecode base_name;
                decoded' = (if decoded = [] then base_name else decoded)
            in Inr (concat (map (\<lambda>c. if allowed_char c then [c] else REPLACEMENT_CHAR) decoded'))))"

text \<open>\<open>s[:k]\<close>: a negative bound counts from the end.\<close>

definition py_take :: "int \<Rightarrow> string \<Rightarrow> string" where
  "py_take k s = (if k \<ge> 0 then take (nat k) s else take (nat (int (length s) + k)) s)"

text \<open>The names \<open>change_path\<close> tries: first without a number, then with 1, 2 and so on.\<close>

definition candidate_name :: "string \<Rightarrow> string \<Rightarrow> int \<Rightarrow> nat \<Rightarrow> string" where
  "candidate_name file_title file_extension max_file_title n =
     (if n = 0 then py_take max_file_title file_title @ file_extension
      else py_take (max_file_title - (int (length REPLACEMENT_CHAR) + int (length (str_nat n)))) file_title
           @ REPLACEMENT_CHAR @ str_nat n @ file_extension)"

text \<open>
  The loop \<open>while os.path.exists(changed_name)\<close>; the first argument bounds the number of names
  tried, \<open>None\<close> means that all of them exist.
\<close>

fun first_free :: "nat \<Rightarrow> fnode \<Rightarrow> (nat \<Rightarrow> string) \<Rightarrow> nat \<Rightarrow> string option" where
  "first_free 0 n path_of k = None"
| "first_free (Suc fuel) n path_of k =
     (if os_exists n (path_of k) then first_free fuel n path_of (Suc k) else Some (path_of k))"

definition dir_entries :: "fnode \<Rightarrow> string \<Rightarrow> (string \<times> fnode) list" where
  "dir_entries n d = (case fs_at n (path_comps d) of Some (FDir es) \<Rightarrow> es | _ \<Rightarrow> [])"

text \<open>At most the entries of the directory, its own name and its parent's can be in the way, so
  three more attempts than it has entries are enough.\<close>

definition change_path :: "('e cn_env_scheme) \<Rightarrow> string \<Rightarrow> int \<Rightarrow> ('s world_scheme, string) py" where
  "change_path E path max_filename =
     (let base_name = basename path in
      py_bind (py_lift (change_name (cn_unidecode E) base_name)) (\<lambda>changed_name.
      if base_name = changed_name then py_ret path
      else (let dir_name = dirname path;
                (file_title, file_extension) = splitext changed_name;
                max_file_title = max_filename - int (length file_extension);
                path_of = (\<lambda>n. path_join dir_name (candidate_name file_title file_extension max_file_title n))
            in py_bind (fs_get (\<lambda>n. first_free (length (dir_entries n dir_name) + 3) n path_of 0)) (\<lambda>found.
               case found of
                 None \<Rightarrow> py_raise (PyException ''no free name'')
               | Some new_path \<Rightarrow> py_seq (fs_do (shutil_move path new_path)) (py_ret new_path)))))"

text \<open>
  \<open>change_tree\<close>: the entries of a directory as they were when it was opened, each renamed, then
  handed to the consumer (the \<open>yield\<close>), then entered if it is a directory. The first argument
  is Python's recursion limit.
\<close>

fun change_tree ::
  "nat \<Rightarrow> ('e cn_env_scheme) \<Rightarrow> (string \<Rightarrow> string \<Rightarrow> bool \<Rightarrow> bool \<Rightarrow> ('s world_scheme, unit) py) \<Rightarrow>
     string \<Rightarrow> string \<Rightarrow> ('s world_scheme, unit) py" where
  "change_tree 0 E consume start_path old_start_path =
     py_raise (PyException ''maximum recursion depth exceeded'')"
| "change_tree (Suc limit) E consume start_path old_start_path =
     (let start = abspath (env_cwd E) start_path in
      py_bind (fs_get (\<lambda>n. case os_listdir n start of Inl e \<Rightarrow> Inl e | Inr _ \<Rightarrow> Inr (dir_entries n start)))
        (\<lambda>r.
      py_bind (py_lift r) (\<lambda>entries.
      py_for entries (\<lambda>(name, node).
        py_bind (change_path E (path_join start name) (cn_name_max E)) (\<lambda>changed_name.
        (let changed_path = path_join start changed_name;
             old_path = path_join old_start_path name;
             is_dir = node_is_dir node
         in py_seq (consume old_path changed_path is_dir (changed_path \<noteq> old_path))
              (py_when is_dir (change_tree limit E consume changed_path old_path))))))))"

section \<open>change\_object\_names.py\<close>

record name_changer =
  nc_transfer :: "transfer_row option"
  nc_sip :: "sip_row option"
  nc_objects_directory :: string
  nc_date :: datetime
  nc_group_type :: string
  nc_sip_path :: string

text \<open>The mutable part of a \<open>NameChanger\<close>: the batches of pending changes, old path to new path.\<close>

record nc_world = world +
  files_index :: "(string \<times> string) list"
  dirs_index :: "(string \<times> string) list"

definition BATCH_SIZE :: nat where "BATCH_SIZE = 2000"

definition EVENT_DETAIL :: string where
  "EVENT_DETAIL = ''prohibited characters removed: program='' @ [CHR 0x22] @ ''change_names'' @ [CHR 0x22] @
     ''; version='' @ [CHR 0x22] @ ''1.10.3ed60176f8059746220e5baf22fd6f28b9b63cc7'' @ [CHR 0x22]"

definition NameChanger_init ::
  "string \<Rightarrow> string \<Rightarrow> datetime \<Rightarrow> string \<Rightarrow> string \<Rightarrow> string \<Rightarrow> ('s nc_world_scheme, name_changer) py" where
  "NameChanger_init objects_directory sip_uuid date group_type group_sql sip_path =
     (if group_type \<notin> {''%SIPDirectory%'', ''%transferDirectory%''}
      then py_raise (ValueError (''Unexpected group type: '' @ group_type))
      else let nc = \<lparr>nc_transfer = None, nc_sip = None, nc_objects_directory = objects_directory,
                     nc_date = date, nc_group_type = group_type, nc_sip_path = sip_path\<rparr>;
               fresh = py_mod (\<lambda>s. s\<lparr>files_index := [], dirs_index := []\<rparr>)
           in if group_sql = ''transfer_id''
              then py_bind (get_transfer sip_uuid) (\<lambda>t. py_seq fresh (py_ret (nc\<lparr>nc_transfer := Some t\<rparr>)))
              else if group_sql = ''sip_id''
              then py_bind (get_sip sip_uuid) (\<lambda>r. py_seq fresh (py_ret (nc\<lparr>nc_sip := Some r\<rparr>)))
              else py_raise (ValueError (''Unexpected group sql: '' @ group_sql)))"

definition directory_queryset :: "name_changer \<Rightarrow> 's nc_world_scheme \<Rightarrow> directory_row list option" where
  "directory_queryset nc s = (case (nc_transfer nc, nc_sip nc) of
      (Some t, _) \<Rightarrow> if tr_diruuids t
         then Some (filter (\<lambda>d. dir_transfer d = Some (tr_uuid t)) (Directories s))
         else (case nc_sip nc of None \<Rightarrow> None | Some r \<Rightarrow> if s_diruuids r
            then Some (filter (\<lambda>d. dir_sip d = Some (s_uuid r)) (Directories s)) else None)
    | (None, Some r) \<Rightarrow> if s_diruuids r
         then Some (filter (\<lambda>d. dir_sip d = Some (s_uuid r)) (Directories s)) else None
    | (None, None) \<Rightarrow> None)"

definition file_queryset :: "name_changer \<Rightarrow> 's nc_world_scheme \<Rightarrow> file_row list" where
  "file_queryset nc s = filter (\<lambda>f. f_removedtime f = None \<and>
     (case nc_sip nc of Some r \<Rightarrow> f_sip f = Some (s_uuid r)
      | None \<Rightarrow> f_transfer f = map_option tr_uuid (nc_transfer nc))) (Files s)"

definition normalize_path_for_db :: "('e cn_env_scheme) \<Rightarrow> name_changer \<Rightarrow> string \<Rightarrow> string" where
  "normalize_path_for_db E nc path = str_replace1 (cn_nfc E path) (nc_sip_path nc) (nc_group_type nc)"

definition nc_agents :: "name_changer \<Rightarrow> ('s nc_world_scheme, agent_row list) py" where
  "nc_agents nc = (case nc_sip nc of
      Some r \<Rightarrow> SIP_agents r
    | None \<Rightarrow> (case nc_transfer nc of
         Some t \<Rightarrow> Transfer_agents t
       | None \<Rightarrow> py_raise (AttributeError ''agents'')))"

text \<open>One file of the loop: saved and given an event when its normalised location is in the batch.\<close>

definition apply_file_update ::
  "('e cn_env_scheme) \<Rightarrow> name_changer \<Rightarrow> (string \<times> string) list \<Rightarrow> file_row \<Rightarrow>
     ('s nc_world_scheme, event_row list) py" where
  "apply_file_update E nc index f = (case f_currentlocation f of
      None \<Rightarrow> py_raise (AttributeError ''decode'')
    | Some l \<Rightarrow>
        (let old_location = cn_nfc E l in
         case map_of index old_location of
           None \<Rightarrow> py_ret []
         | Some changed_location \<Rightarrow>
             py_seq (File_save (f\<lparr>f_currentlocation := Some changed_location\<rparr>))
               (py_bind (uuid4 (env.truncate E)) (\<lambda>u. py_ret [(new_event u)\<lparr>e_file_uuid := Some (f_uuid f),
                  e_event_type := ''filename change'', e_event_datetime := nc_date nc,
                  e_event_detail := EVENT_DETAIL,
                  e_event_outcome_detail := name_change_note old_location changed_location\<rparr>]))))"

definition apply_file_updates :: "('e cn_env_scheme) \<Rightarrow> name_changer \<Rightarrow> ('s nc_world_scheme, unit) py" where
  "apply_file_updates E nc =
     py_bind (nc_agents nc) (\<lambda>event_agents.
     py_bind (py_get (\<lambda>s. (file_queryset nc s, files_index s))) (\<lambda>(files, index).
     py_bind (py_map (apply_file_update E nc index) files) (\<lambda>events.
     py_seq (Event_bulk_create (env.truncate E) (concat events))
    (py_seq (link_events (map e_file_uuid (concat events)) (map a_id event_agents))
            (py_mod (\<lambda>s. s\<lparr>files_index := []\<rparr>))))))"

definition apply_dir_update ::
  "('e cn_env_scheme) \<Rightarrow> (string \<times> string) list \<Rightarrow> directory_row \<Rightarrow> ('s nc_world_scheme, unit) py" where
  "apply_dir_update E index d = (case dir_currentlocation d of
      None \<Rightarrow> py_raise (AttributeError ''decode'')
    | Some l \<Rightarrow> (case map_of index (cn_nfc E l) of
         None \<Rightarrow> py_ret ()
       | Some changed_location \<Rightarrow> py_mod (\<lambda>s. s\<lparr>Directories :=
           row_save dir_uuid (d\<lparr>dir_currentlocation := Some changed_location\<rparr>) (Directories s)\<rparr>)))"

definition apply_dir_updates :: "('e cn_env_scheme) \<Rightarrow> name_changer \<Rightarrow> ('s nc_world_scheme, unit) py" where
  "apply_dir_updates E nc =
     py_bind (py_get (\<lambda>s. (directory_queryset nc s, dirs_index s))) (\<lambda>(dirs, index).
     case dirs of
       None \<Rightarrow> py_ret ()
     | Some ds \<Rightarrow> py_seq (py_for ds (apply_dir_update E index)) (py_mod (\<lambda>s. s\<lparr>dirs_index := []\<rparr>)))"

definition add_file_to_batch ::
  "('e cn_env_scheme) \<Rightarrow> name_changer \<Rightarrow> string \<Rightarrow> string \<Rightarrow> ('s nc_world_scheme, unit) py" where
  "add_file_to_batch E nc old_path new_path =
     py_seq (py_mod (\<lambda>s. s\<lparr>files_index := dict_set (files_index s)
         (normalize_path_for_db E nc old_path) (normalize_path_for_db E nc new_path)\<rparr>))
       (py_bind (py_get (\<lambda>s. length (files_index s))) (\<lambda>n.
          py_when (BATCH_SIZE \<le> n) (apply_file_updates E nc)))"

definition add_dir_to_batch ::
  "('e cn_env_scheme) \<Rightarrow> name_changer \<Rightarrow> string \<Rightarrow> string \<Rightarrow> ('s nc_world_scheme, unit) py" where
  "add_dir_to_batch E nc old_path new_path =
     py_seq (py_mod (\<lambda>s. s\<lparr>dirs_index := dict_set (dirs_index s)
         (path_join (normalize_path_for_db E nc old_path) [])
         (path_join (normalize_path_for_db E nc new_path) [])\<rparr>))
       (py_bind (py_get (\<lambda>s. length (dirs_index s))) (\<lambda>n.
          py_when (BATCH_SIZE \<le> n) (apply_dir_updates E nc)))"

definition consume_change ::
  "('e cn_env_scheme) \<Rightarrow> name_changer \<Rightarrow> string \<Rightarrow> string \<Rightarrow> bool \<Rightarrow> bool \<Rightarrow> ('s nc_world_scheme, unit) py" where
  "consume_change E nc old_path new_path is_dir was_changed =
     (if \<not> was_changed then job_pyprint Stdout [''No filename changes for'', old_path]
      else py_seq (if is_dir then add_dir_to_batch E nc old_path new_path
                   else add_file_to_batch E nc old_path new_path)
             (job_pyprint Stdout [''Changed name:'', old_path, '' -> '', new_path]))"

definition change_objects :: "nat \<Rightarrow> ('e cn_env_scheme) \<Rightarrow> name_changer \<Rightarrow> ('s nc_world_scheme, unit) py" where
  "change_objects limit E nc =
     py_seq (change_tree limit E (consume_change E nc) (nc_objects_directory nc) (nc_objects_directory nc))
    (py_seq (apply_file_updates E nc) (apply_dir_updates E nc))"

text \<open>The body of \<open>call\<close> for one job.\<close>

definition change_object_names_job :: "nat \<Rightarrow> ('e cn_env_scheme) \<Rightarrow> ('s nc_world_scheme, unit) py" where
  "change_object_names_job limit E =
     JobContext (env_traceback E) True
       (py_bind (nth_arg 1) (\<lambda>objects_directory. py_bind (nth_arg 2) (\<lambda>sip_uuid.
        py_bind (nth_arg 3) (\<lambda>date. py_bind (nth_arg 5) (\<lambda>group_type.
        py_bind (nth_arg 6) (\<lambda>group_sql. py_bind (nth_arg 7) (\<lambda>sip_path.
        py_bind (NameChanger_init objects_directory sip_uuid date (''%'' @ group_type @ ''%'') group_sql
                   sip_path) (\<lambda>nc.
        py_seq (change_objects limit E nc) (upd_job (set_status 0 ''success''))))))))))"

section \<open>Lemmas on names\<close>

lemma allowed_no_slash: "allowed_char c \<Longrightarrow> c \<noteq> slash"
  by (auto simp: allowed_char_def)

lemma allowed_digit: "k < 10 \<Longrightarrow> allowed_char (digit_char k)"
  by (simp add: allowed_char_def digit_char_code)

lemma digit_not_underscore: "CHR ''_'' \<notin> set (str_nat n)"
proof
  assume "CHR ''_'' \<in> set (str_nat n)"
  then obtain k where "k < 10" "CHR ''_'' = digit_char k" using str_nat_digits by blast
  then have "(of_char (CHR ''_'') :: nat) = 48 + k" using digit_char_code by metis
  with \<open>k < 10\<close> show False by simp
qed

lemma change_name_result:
  assumes "change_name u b = Inr c"
  shows "c \<noteq> []" and "list_all allowed_char c"
proof -
  obtain d where d: "d \<noteq> []" and c: "c = concat (map (\<lambda>x. if allowed_char x then [x] else REPLACEMENT_CHAR) d)"
    using assms by (auto simp: change_name_def Let_def split: if_splits)
  show "c \<noteq> []" using d by (cases d) (auto simp: c REPLACEMENT_CHAR_def)
  have "allowed_char (CHR ''_'')" by (simp add: allowed_char_def)
  then show "list_all allowed_char c" by (auto simp: c list_all_iff REPLACEMENT_CHAR_def split: if_splits)
qed

lemma set_py_take: "set (py_take k s) \<subseteq> set s"
  by (auto simp: py_take_def dest: in_set_takeD)

lemma candidate_allowed:
  assumes "list_all allowed_char t" and "list_all allowed_char e"
  shows "list_all allowed_char (candidate_name t e m n)"
proof -
  have "allowed_char (CHR ''_'')" by (simp add: allowed_char_def)
  moreover have "list_all allowed_char (str_nat n)"
    using str_nat_digits [of _ n] allowed_digit by (auto simp: list_all_iff)
  moreover have "list_all allowed_char (py_take k t)" for k
    using assms(1) set_py_take [of k t] by (auto simp: list_all_iff)
  ultimately show ?thesis using assms(2) by (simp add: candidate_name_def REPLACEMENT_CHAR_def)
qed

lemma candidate_inj:
  assumes "candidate_name t e m (Suc i) = candidate_name t e m (Suc j)"
  shows "i = j"
proof -
  let ?x = "\<lambda>i. py_take (m - (int (length REPLACEMENT_CHAR) + int (length (str_nat (Suc i))))) t"
  have "?x i @ CHR ''_'' # str_nat (Suc i) = ?x j @ CHR ''_'' # str_nat (Suc j)"
    using assms by (simp add: candidate_name_def REPLACEMENT_CHAR_def)
  then have "str_split (CHR ''_'') (?x i @ CHR ''_'' # str_nat (Suc i)) =
      str_split (CHR ''_'') (?x j @ CHR ''_'' # str_nat (Suc j))" by simp
  then have "str_nat (Suc i) = str_nat (Suc j)"
    by (simp add: str_split_snoc [OF digit_not_underscore])
  then show ?thesis using str_nat_inj by blast
qed

lemma candidate_plain: "list_all allowed_char (candidate_name t e m (Suc i)) \<Longrightarrow>
    plain_name (candidate_name t e m (Suc i))"
proof -
  assume a: "list_all allowed_char (candidate_name t e m (Suc i))"
  have "CHR ''_'' \<in> set (candidate_name t e m (Suc i))"
    by (simp add: candidate_name_def REPLACEMENT_CHAR_def)
  then have "candidate_name t e m (Suc i) \<notin> {[], ''.'', ''..''}" by auto
  then show ?thesis using a allowed_no_slash by (auto simp: plain_name_def list_all_iff)
qed

section \<open>The search for a free name ends\<close>

lemma first_free_None: "first_free fuel n f k = None \<Longrightarrow> i < fuel \<Longrightarrow> os_exists n (f (k + i))"
proof (induction fuel arbitrary: k i)
  case (Suc fuel)
  show ?case
  proof (cases i)
    case (Suc j)
    with Suc.prems Suc.IH [of "Suc k" j] show ?thesis by (simp split: if_splits)
  qed (use Suc.prems in \<open>simp split: if_splits\<close>)
qed simp

lemma first_free_Some: "first_free fuel n f k = Some p \<Longrightarrow> \<exists>i. p = f i \<and> \<not> os_exists n p"
  by (induction fuel arbitrary: k) (auto split: if_splits)

lemma first_free_found:
  assumes d: "fs_at n (path_comps d) = Some (FDir es)"
    and t: "list_all allowed_char t" and e: "list_all allowed_char e"
  shows "\<exists>p. first_free (length es + 3) n (\<lambda>k. d @ [slash] @ candidate_name t e m k) 0 = Some p"
proof (rule ccontr)
  let ?c = "candidate_name t e m"
  assume "\<not> ?thesis"
  then have ex: "os_exists n (d @ [slash] @ ?c k)" if "k < length es + 3" for k
    using first_free_None [of "length es + 3" n "\<lambda>k. d @ [slash] @ ?c k" 0 k] that by auto
  have "?c (Suc i) \<in> fst ` set es" if "i < length es + 2" for i
  proof -
    have a: "list_all allowed_char (?c (Suc i))" using t e by (rule candidate_allowed)
    then have "slash \<notin> set (?c (Suc i))" using allowed_no_slash by (auto simp: list_all_iff)
    then show ?thesis
      using ex [of "Suc i"] that candidate_plain [OF a] os_exists_child [OF d] by auto
  qed
  then have "(\<lambda>i. ?c (Suc i)) ` {..< length es + 2} \<subseteq> fst ` set es" by auto
  moreover have "inj_on (\<lambda>i. ?c (Suc i)) {..< length es + 2}"
    by (auto intro: inj_onI dest: candidate_inj)
  ultimately have "length es + 2 \<le> card (fst ` set es)"
    using card_mono [of "fst ` set es"] by (metis card_image card_lessThan finite_imageI finite_set)
  also have "\<dots> \<le> length es" by (metis card_length length_map list.set_map)
  finally show False by simp
qed

section \<open>One batch of file updates\<close>

definition changed_to :: "('e cn_env_scheme) \<Rightarrow> (string \<times> string) list \<Rightarrow> file_row \<Rightarrow> string option" where
  "changed_to E index f =
     (case f_currentlocation f of None \<Rightarrow> None | Some l \<Rightarrow> map_of index (cn_nfc E l))"

definition change_event :: "('e cn_env_scheme) \<Rightarrow> name_changer \<Rightarrow> (string \<times> string) list \<Rightarrow> file_row \<Rightarrow> nat \<Rightarrow> event_row" where
  "change_event E nc index f i = (new_event (env_uuid4 E i))\<lparr>e_file_uuid := Some (f_uuid f),
     e_event_type := ''filename change'', e_event_datetime := nc_date nc, e_event_detail := EVENT_DETAIL,
     e_event_outcome_detail := name_change_note (cn_nfc E (the (f_currentlocation f)))
       (the (changed_to E index f))\<rparr>"

abbreviation relocate :: "('e cn_env_scheme) \<Rightarrow> (string \<times> string) list \<Rightarrow> file_row \<Rightarrow> file_row" where
  "relocate E index f \<equiv> f\<lparr>f_currentlocation := changed_to E index f\<rparr>"

lemma apply_file_update_cases:
  assumes "f_currentlocation f \<noteq> None"
  shows "apply_file_update E nc index f s =
     (if changed_to E index f = None then (Inr [], s)
      else (Inr [change_event E nc index f (uuids s)],
            s\<lparr>Files := row_save f_uuid (relocate E index f) (Files s), uuids := Suc (uuids s)\<rparr>))"
  using assms
  by (auto simp: apply_file_update_def changed_to_def change_event_def Let_def py_simps File_save_def
      env.truncate_def split: option.splits)

lemma map_file_updates:
  assumes "\<And>f. f \<in> set files \<Longrightarrow> f_currentlocation f \<noteq> None"
  shows "\<exists>evs. py_map (apply_file_update E nc index) files s =
     (let cf = filter (\<lambda>f. changed_to E index f \<noteq> None) files
      in (Inr evs, s\<lparr>Files := foldl (\<lambda>rs f. row_save f_uuid (relocate E index f) rs) (Files s) cf,
                     uuids := uuids s + length cf\<rparr>)) \<and>
     concat evs = (let cf = filter (\<lambda>f. changed_to E index f \<noteq> None) files
       in map (\<lambda>(f, i). change_event E nc index f i) (zip cf [uuids s ..< uuids s + length cf]))"
  using assms
proof (induction files arbitrary: s)
  case Nil
  show ?case by (rule exI [of _ "[]"]) (simp add: py_simps)
next
  case (Cons f files)
  have f: "f_currentlocation f \<noteq> None" using Cons.prems by simp
  show ?case
  proof (cases "changed_to E index f")
    case None
    obtain evs where IH: "py_map (apply_file_update E nc index) files s =
     (let cf = filter (\<lambda>f. changed_to E index f \<noteq> None) files
      in (Inr evs, s\<lparr>Files := foldl (\<lambda>rs f. row_save f_uuid (relocate E index f) rs) (Files s) cf,
                     uuids := uuids s + length cf\<rparr>))"
     "concat evs = (let cf = filter (\<lambda>f. changed_to E index f \<noteq> None) files
       in map (\<lambda>(f, i). change_event E nc index f i) (zip cf [uuids s ..< uuids s + length cf]))"
      using Cons.IH [of s] Cons.prems by auto
    show ?thesis
      by (rule exI [of _ "[] # evs"])
        (use None IH in \<open>simp add: py_simps apply_file_update_cases [OF f] Let_def\<close>)
  next
    case (Some l)
    let ?s = "s\<lparr>Files := row_save f_uuid (relocate E index f) (Files s), uuids := Suc (uuids s)\<rparr>"
    obtain evs where IH: "py_map (apply_file_update E nc index) files ?s =
     (let cf = filter (\<lambda>f. changed_to E index f \<noteq> None) files
      in (Inr evs, ?s\<lparr>Files := foldl (\<lambda>rs f. row_save f_uuid (relocate E index f) rs) (Files ?s) cf,
                     uuids := uuids ?s + length cf\<rparr>))"
     "concat evs = (let cf = filter (\<lambda>f. changed_to E index f \<noteq> None) files
       in map (\<lambda>(f, i). change_event E nc index f i) (zip cf [uuids ?s ..< uuids ?s + length cf]))"
      using Cons.IH [of ?s] Cons.prems by auto
    have "[uuids s ..< Suc (uuids s + k)] = uuids s # [Suc (uuids s) ..< Suc (uuids s + k)]" for k
      by (simp add: upt_conv_Cons del: upt_Suc)
    then show ?thesis
      by (intro exI [of _ "[change_event E nc index f (uuids s)] # evs"])
        (use Some IH in \<open>simp add: py_simps apply_file_update_cases [OF f] Let_def del: upt_Suc\<close>)
  qed
qed

section \<open>Properties\<close>

text \<open>C14. Renaming one directory entry: for an entry of a directory, \<open>change_path\<close> returns (the search
  for a free name ends), the resulting name is non-empty and has only letters, digits and the
  characters \<open>-_.()\<close>, no other entry of the directory is overwritten or changed, and what was
  stored under the old name is stored under the new one. This holds whatever the
  transliteration yields.\<close>

theorem change_path_renames:
  fixes s :: "'s world_scheme"
  assumes d: "fs_at (fs s) (path_comps d) = Some (FDir es)" "d \<noteq> []" "last d \<noteq> slash"
    and b: "plain_name b" "map_of es b = Some node"
  shows "\<exists>c t. change_path E (d @ [slash] @ b) mx s = (Inr (d @ [slash] @ c), t) \<and>
     c \<noteq> [] \<and> list_all allowed_char c \<and> fs_node (fs t) (d @ [slash] @ c) = Some node \<and>
     (c \<noteq> b \<longrightarrow> \<not> os_exists (fs s) (d @ [slash] @ c) \<and> fs_node (fs t) (d @ [slash] @ b) = None) \<and>
     (\<forall>x q. x \<noteq> b \<and> x \<noteq> c \<longrightarrow> fs_at (fs t) (path_comps d @ x # q) = fs_at (fs s) (path_comps d @ x # q))"
proof -
  have slash_b: "slash \<notin> set b" and "b \<noteq> []" using b(1) by (auto simp: plain_name_def)
  then obtain c where c: "change_name (cn_unidecode E) b = Inr c" by (auto simp: change_name_def Let_def)
  note ok = change_name_result [OF c]
  have base: "basename (d @ [slash] @ b) = b" using slash_b by (rule basename_snoc)
  have dir: "dirname (d @ [slash] @ b) = d"
    using path_head_snoc [OF slash_b, of d] d(2,3)
    by (cases d rule: rev_cases) (simp_all add: dirname_def str_rstrip_def list_all_iff)
  show ?thesis
  proof (cases "b = c")
    case True
    have "fs_node (fs s) (d @ [slash] @ b) = Some node"
      using d(1) b by (simp add: fs_node_def path_comps_child fs_at_append del: append.simps)
    with True ok c base show ?thesis
      by (intro exI [of _ b] exI [of _ s]) (simp add: change_path_def py_simps Let_def del: append.simps)
  next
    case False
    obtain title ext where split: "splitext c = (title, ext)" by (cases "splitext c")
    have te: "list_all allowed_char title" "list_all allowed_char ext"
      using splitext_append [of c] ok(2) split by (auto simp: list_all_iff)
    let ?m = "mx - int (length ext)"
    let ?path = "\<lambda>k. d @ [slash] @ candidate_name title ext ?m k"
    have no_slash: "slash \<notin> set (candidate_name title ext ?m k)" for k
      using candidate_allowed [OF te] allowed_no_slash by (auto simp: list_all_iff)
    have "\<not> startswith (candidate_name title ext ?m k) [slash]" for k
      using no_slash [of k] by (cases "candidate_name title ext ?m k") auto
    then have join: "path_join d (candidate_name title ext ?m k) = ?path k" for k
      using d(2,3) by (intro path_join_dir) (auto simp: endswith_char)
    have entries: "dir_entries (fs s) d = es" using d(1) by (simp add: dir_entries_def)
    obtain p where p: "first_free (length es + 3) (fs s) ?path 0 = Some p"
      using first_free_found [OF d(1) te] by blast
    then obtain k where k: "p = ?path k" "\<not> os_exists (fs s) p" using first_free_Some by blast
    let ?c = "candidate_name title ext ?m k"
    have plain: "plain_name ?c" using k os_exists_child [OF d(1) no_slash [of k]] by auto
    obtain n' where mv: "shutil_move (d @ [slash] @ b) p (fs s) = Inr n'" "fs_node n' p = Some node"
       "fs_node n' (d @ [slash] @ b) = None"
       "\<forall>x q. x \<noteq> b \<and> x \<noteq> ?c \<longrightarrow> fs_at n' (path_comps d @ x # q) = fs_at (fs s) (path_comps d @ x # q)"
      using shutil_move_sibling [OF d(1) b no_slash [of k]] k by auto
    have "change_path E (d @ [slash] @ b) mx s = (Inr p, s\<lparr>fs := n'\<rparr>)"
      using False c mv(1) p
      by (simp add: change_path_def py_simps Let_def base dir split join entries del: append.simps)
    then show ?thesis
      using k mv plain candidate_allowed [OF te, of ?m k]
      by (intro exI [of _ ?c] exI [of _ "s\<lparr>fs := n'\<rparr>"]) (simp add: plain_name_def del: append.simps)
  qed
qed

definition cn_env_ex :: cn_env where
  "cn_env_ex = \<lparr>env_now = (\<lambda>n. ''now'' @ str_nat n), env_uuid4 = (\<lambda>n. ''uuid'' @ str_nat n),
     env_traceback = (\<lambda>e. []), env_cwd = ''/'', cn_unidecode = (\<lambda>x. x), cn_nfc = (\<lambda>x. x),
     cn_name_max = 255\<rparr>"

theorem change_path_renames_witness:
  "\<exists>c t. change_path cn_env_ex (''/o'' @ [slash] @ ''a b'') 255
       (world_ex\<lparr>fs := FDir [(''o'', FDir [(''a b'', FFile ''x''), (''a_b'', FFile ''y'')])]\<rparr>) =
     (Inr (''/o'' @ [slash] @ c), t) \<and> list_all allowed_char c \<and>
     fs_node (fs t) (''/o'' @ [slash] @ c) = Some (FFile ''x'')"
proof -
  let ?s = "world_ex\<lparr>fs := FDir [(''o'', FDir [(''a b'', FFile ''x''), (''a_b'', FFile ''y'')])]\<rparr>"
  have "fs_at (fs ?s) (path_comps ''/o'') = Some (FDir [(''a b'', FFile ''x''), (''a_b'', FFile ''y'')])"
    by (simp add: path_comps_def)
  moreover have "plain_name ''a b''" by (simp add: plain_name_def)
  ultimately show ?thesis
    using change_path_renames [of ?s "''/o''" "[(''a b'', FFile ''x''), (''a_b'', FFile ''y'')]" "''a b''"
        "FFile ''x''" cn_env_ex 255] by auto
qed

text \<open>C15. One batch of renamed files: with fresh event identifiers \<open>apply_file_updates\<close> returns, exactly
  the files of the unit whose normalised location is in the batch get their new location, each
  gets one \<open>filename change\<close> event naming both locations, and the batch is empty afterwards. The
  agents are added to all events of these files, also to those recorded before.\<close>

theorem apply_file_updates_effect:
  fixes s :: "'s nc_world_scheme" and E :: "'e cn_env_scheme"
  assumes inv: "db_inv s" and ags: "nc_agents nc s = (Inr ags, s)" "set ags \<subseteq> set (Agents s)"
    and locs: "\<And>f. f \<in> set (file_queryset nc s) \<Longrightarrow> f_currentlocation f \<noteq> None"
    and fresh: "inj (env_uuid4 E)" "\<And>i. Some (env_uuid4 E i) \<notin> e_event_id ` set (Events s)"
  defines "cf \<equiv> filter (\<lambda>f. changed_to E (files_index s) f \<noteq> None) (file_queryset nc s)"
  shows "\<exists>st new. apply_file_updates E nc s = (Inr (), st) \<and> files_index st = [] \<and>
     Files st = map (\<lambda>f. if f \<in> set cf then relocate E (files_index s) f else f) (Files s) \<and>
     Events st = map (\<lambda>e. if e_file_uuid e \<in> Some ` f_uuid ` set cf then add_agents (map a_id ags) e else e)
       (Events s) @ new \<and>
     map event_summary new = map (\<lambda>f. (Some (f_uuid f), ''filename change'', EVENT_DETAIL,
       name_change_note (cn_nfc E (the (f_currentlocation f))) (the (changed_to E (files_index s) f)),
       remdups (map a_id ags))) cf"
proof -
  let ?idx = "files_index s" and ?ags = "map a_id ags" and ?g = "relocate E (files_index s)"
  let ?evs = "map (\<lambda>(f, i). change_event E nc ?idx f i) (zip cf [uuids s ..< uuids s + length cf])"
  define s1 where "s1 = s\<lparr>Files := map (\<lambda>f. if f \<in> set cf then ?g f else f) (Files s),
    uuids := uuids s + length cf\<rparr>"
  have sub: "set cf \<subseteq> set (Files s)" by (auto simp: cf_def file_queryset_def)
  have fold: "foldl (\<lambda>rs f. row_save f_uuid (?g f) rs) (Files s) cf =
      map (\<lambda>f. if f \<in> set cf then ?g f else f) (Files s)"
    using inv sub by (intro save_all) (simp_all add: db_inv_def)
  obtain evs where evs: "py_map (apply_file_update E nc ?idx) (file_queryset nc s) s = (Inr evs, s1)"
    "concat evs = ?evs"
    using map_file_updates [of "file_queryset nc s" E nc ?idx s, OF locs]
    unfolding Let_def cf_def [symmetric] fold s1_def [symmetric] by blast
  have inv1: "db_inv s1"
    using db_inv_update_files [of s ?g "\<lambda>f. f \<in> set cf"] inv
    by (simp add: s1_def row_update_def)
  have ids: "map e_event_id ?evs = map (\<lambda>i. Some (env_uuid4 E i)) [uuids s ..< uuids s + length cf]"
    by (intro nth_equalityI) (simp_all add: change_event_def new_event_def)
  have uuids: "distinct (map e_event_id ?evs)"
    unfolding ids using fresh(1) by (auto simp: distinct_map intro: inj_onI dest: injD)
  have new_ids: "e_event_id e \<noteq> None \<and> e_event_id e \<notin> e_event_id ` set (Events s1)" if e: "e \<in> set ?evs" for e
  proof -
    obtain i where "e_event_id e = Some (env_uuid4 E i)"
      using e by (auto simp: change_event_def new_event_def)
    then show ?thesis using fresh(2) [of i] by (simp add: s1_def)
  qed
  have "f_uuid ` set (Files s1) = f_uuid ` set (Files s)"
    by (simp add: s1_def image_Un image_image) blast
  then have files: "e_file_uuid e \<in> Some ` f_uuid ` set (Files s1) \<and> e_agents e = []" if "e \<in> set ?evs" for e
    using that sub by (auto simp: change_event_def new_event_def dest!: set_zip_leftD)
  have agents: "set ?ags \<subseteq> a_id ` set (Agents s1)" using ags(2) by (auto simp: s1_def)
  have fs: "map e_file_uuid ?evs = map (\<lambda>f. Some (f_uuid f)) cf"
    by (intro nth_equalityI) (simp_all add: change_event_def)
  have file_set: "e_file_uuid ` set ?evs = Some ` f_uuid ` set cf"
    using arg_cong [OF fs, of set] by (simp only: set_map image_image)
  have sum: "map (\<lambda>e. event_summary (e\<lparr>e_agents := remdups ?ags\<rparr>)) ?evs =
     map (\<lambda>f. (Some (f_uuid f), ''filename change'', EVENT_DETAIL,
       name_change_note (cn_nfc E (the (f_currentlocation f))) (the (changed_to E ?idx f)), remdups ?ags)) cf"
    by (intro nth_equalityI) (simp_all add: event_summary_def change_event_def)
  obtain c p new where new: "py_seq (Event_bulk_create (env.truncate E) ?evs) (link_events (map e_file_uuid ?evs) ?ags) s1 =
       (Inr (), s1\<lparr>clock := c, next_pk := p, Events := map (\<lambda>e. if e_file_uuid e \<in> Some ` f_uuid ` set cf
          then add_agents ?ags e else e) (Events s1) @ new\<rparr>)"
    "map event_summary new = map (\<lambda>f. (Some (f_uuid f), ''filename change'', EVENT_DETAIL,
       name_change_note (cn_nfc E (the (f_currentlocation f))) (the (changed_to E ?idx f)), remdups ?ags)) cf"
    using create_and_link [OF inv1 uuids new_ids files agents, of "env.truncate E"] unfolding file_set sum by blast
  let ?t = "s1\<lparr>clock := c, next_pk := p, Events := map (\<lambda>e. if e_file_uuid e \<in> Some ` f_uuid ` set cf
          then add_agents ?ags e else e) (Events s1) @ new, files_index := []\<rparr>"
  have "apply_file_updates E nc s = (Inr (), ?t)"
    using ags(1) evs new(1) by (simp add: apply_file_updates_def py_simps split: prod.splits sum.splits)
  with new(2) show ?thesis by (intro exI [of _ ?t] exI [of _ new]) (simp add: s1_def)
qed

definition nc_world_ex :: nc_world where
  "nc_world_ex = world.extend world_ex (nc_world.fields
     [(''%transferDirectory%objects/a'', ''%transferDirectory%objects/b'')] [])"

definition name_changer_ex :: name_changer where
  "name_changer_ex = \<lparr>nc_transfer = Some transfer_ex, nc_sip = None, nc_objects_directory = ''/o'',
     nc_date = ''now'', nc_group_type = ''%transferDirectory%'', nc_sip_path = ''/t/''\<rparr>"

lemmas nc_ex_defs = nc_world_ex_def name_changer_ex_def cn_env_ex_def world.extend_def nc_world.fields_def ex_defs

theorem apply_file_updates_effect_witness:
  "\<exists>st. apply_file_updates cn_env_ex name_changer_ex nc_world_ex = (Inr (), st) \<and> files_index st = [] \<and>
     map f_currentlocation (Files st) = [Some ''%transferDirectory%objects/b''] \<and>
     map e_event_type (Events st) = [''filename change''] \<and> map e_agents (Events st) = [[2]]"
proof -
  have inv: "db_inv nc_world_ex"
    by (simp add: nc_ex_defs db_inv_def file_fks_ok_def)
  have ags: "nc_agents name_changer_ex nc_world_ex = (Inr [agent_ex], nc_world_ex)"
    by (simp add: nc_agents_def Transfer_agents_def unit_agents_eq agent_variable_ok_def package_agents_def
        unit_variables_of_def nc_ex_defs)
  have inj: "inj (env_uuid4 cn_env_ex)" using str_nat_inj by (auto intro: injI simp: cn_env_ex_def)
  have q: "file_queryset name_changer_ex nc_world_ex = [file_ex]"
    by (simp add: file_queryset_def nc_ex_defs)
  have ch: "changed_to cn_env_ex (files_index nc_world_ex) file_ex = Some ''%transferDirectory%objects/b''"
    by (simp add: changed_to_def nc_ex_defs)
  have tab: "Files nc_world_ex = [file_ex]" "Events nc_world_ex = []" "agent_ex \<in> set (Agents nc_world_ex)"
    "a_id agent_ex = 2" "f_currentlocation file_ex \<noteq> None"
    by (simp_all add: nc_ex_defs)
  obtain st new where "apply_file_updates cn_env_ex name_changer_ex nc_world_ex = (Inr (), st)"
    "files_index st = []" "Files st = [relocate cn_env_ex (files_index nc_world_ex) file_ex]" "Events st = new"
    "map (\<lambda>(u, t, d, n, a). (t, a)) (map event_summary new) = [(''filename change'', [2])]"
    using apply_file_updates_effect [OF inv ags, of cn_env_ex] inj by (auto simp: q ch tab)
  then show ?thesis by (intro exI [of _ st]) (auto simp: ch event_summary_def)
qed

end
