(* ===== verification/VerifyChecksum.thy ===== *)
theory VerifyChecksum
  imports BulkEvents
begin

text \<open>
  \<open>clientScripts/verify_checksum.py\<close>: comparing a transfer with the checksum files it came with.
  The coreutils programs (\<open>md5sum\<close> and its siblings) are a field of the environment: the exit
  status and output of a command in a working directory, or the \<open>OSError\<close> of starting it.
\<close>

record vc_env = env +
  vc_exec :: "string list \<Rightarrow> string option \<Rightarrow> fnode \<Rightarrow> py_exn + int \<times> string"
  vc_signal :: "int \<Rightarrow> string"

text \<open>The mutable attribute of a \<open>Hashsum\<close> object.\<close>

record hs_world = world +
  command_called :: "string list option"

record Hashsum =
  hs_hashfile :: string
  hs_COMMAND :: string

section \<open>subprocess.check\_output\<close>

definition repr_tuple :: "string list \<Rightarrow> string" where
  "repr_tuple xs = ''('' @ str_join '', '' (map repr_str xs) @ (if length xs = 1 then '',)'' else '')'')"

text \<open>\<open>str(CalledProcessError)\<close>; for a process ended by a signal the text names the signal.\<close>

definition called_process_str :: "(int \<Rightarrow> string) \<Rightarrow> string list \<Rightarrow> int \<Rightarrow> string" where
  "called_process_str signal cmd code =
     ''Command '' @ [CHR 0x27] @ repr_tuple cmd @ [CHR 0x27] @
     (if code < 0 then '' died with '' @ signal (- code) @ ''.''
      else '' returned non-zero exit status '' @ str_int code @ ''.'')"

definition check_output :: "('e vc_env_scheme) \<Rightarrow> string list \<Rightarrow> string option \<Rightarrow> fnode \<Rightarrow> py_exn + string" where
  "check_output E cmd cwd n = (case vc_exec E cmd cwd n of
      Inl e \<Rightarrow> Inl e
    | Inr (code, out) \<Rightarrow> if code = 0 then Inr out
        else Inl (CalledProcessError code (called_process_str (vc_signal E) cmd code) out))"

section \<open>Hashsum\<close>

definition HASHFILES_COMMANDS :: "(string \<times> string) list" where
  "HASHFILES_COMMANDS = [(''checksum.md5'', ''md5sum''), (''checksum.sha1'', ''sha1sum''),
     (''checksum.sha256'', ''sha256sum''), (''checksum.sha512'', ''sha512sum'')]"

definition OKAY_STRING :: string where "OKAY_STRING = '': OK''"
definition FAIL_STRING :: string where "FAIL_STRING = '': FAILED''"
definition ZERO_STRING :: string where "ZERO_STRING = ''no properly formatted''"
definition IMPROPER_STRING :: string where "IMPROPER_STRING = ''improperly formatted''"
definition FAILED_OPEN :: string where "FAILED_OPEN = '': FAILED open or read''"
definition EXIT_NON_ZERO :: string where "EXIT_NON_ZERO = ''returned non-zero exit status 1''"

definition Hashsum_init :: "string \<Rightarrow> ('s hs_world_scheme, Hashsum) py" where
  "Hashsum_init path =
     py_seq (py_mod (\<lambda>s. s\<lparr>command_called := None\<rparr>))
       (case map_of HASHFILES_COMMANDS (basename path) of
          None \<Rightarrow> py_raise NoHashCommandAvailable
        | Some c \<Rightarrow> py_ret \<lparr>hs_hashfile = path, hs_COMMAND = c\<rparr>)"

definition hashsum_call ::
  "('e vc_env_scheme) \<Rightarrow> Hashsum \<Rightarrow> string list \<Rightarrow> string option \<Rightarrow> ('s hs_world_scheme, string list) py" where
  "hashsum_call E h args cwd =
     (let cmd = hs_COMMAND h # args in
      py_seq (py_mod (\<lambda>s. s\<lparr>command_called := Some cmd\<rparr>))
        (py_bind (fs_get (check_output E cmd cwd)) (\<lambda>r.
         py_bind (py_lift r) (\<lambda>out. py_ret (str_split (CHR 0x0A) out)))))"

text \<open>\<open>for _ in open(path)\<close>: text mode ends a line at a line feed, a carriage return, or both.\<close>

fun universal_newlines :: "string \<Rightarrow> string" where
  "universal_newlines [] = []"
| "universal_newlines (c # cs) =
     (if c = CHR 0x0D then (case cs of
         d # ds \<Rightarrow> if d = CHR 0x0A then CHR 0x0A # universal_newlines ds else CHR 0x0A # universal_newlines cs
       | [] \<Rightarrow> [CHR 0x0A])
      else c # universal_newlines cs)"

definition text_lines :: "string \<Rightarrow> nat" where
  "text_lines s = (let t = universal_newlines s
     in length (filter (\<lambda>c. c = CHR 0x0A) t) + (if t = [] \<or> last t = CHR 0x0A then 0 else 1))"

definition count_lines_of :: "string \<Rightarrow> ('s world_scheme, nat) py" where
  "count_lines_of path = py_bind (fs_get (\<lambda>n. read_file n path)) (\<lambda>r.
     py_bind (py_lift r) (\<lambda>content. py_ret (text_lines content)))"

definition count_files_of :: "string \<Rightarrow> ('s world_scheme, nat) py" where
  "count_files_of path = fs_get (\<lambda>n. sum_list (map (\<lambda>(_, _, files). length files) (os_walk n path)))"

definition get_ext :: "string \<Rightarrow> string" where
  "get_ext path = (let ext = snd (splitext path) in if ext = [] then path else str_replace ext ''.'' [])"

definition count_and_compare_lines :: "Hashsum \<Rightarrow> string \<Rightarrow> ('s hs_world_scheme, bool) py" where
  "count_and_compare_lines h objects_dir =
     py_bind (count_lines_of (hs_hashfile h)) (\<lambda>lines.
     py_bind (count_files_of objects_dir) (\<lambda>objects.
     if lines = objects then py_ret True
     else py_seq (job_pyprint Stderr [get_ext (hs_hashfile h) @ '': Comparison failed with '' @ str_nat lines @
            '' checksum lines and '' @ str_nat objects @ '' transfer files''])
          (py_ret False)))"

text \<open>One line of the output of a failed comparison.\<close>

definition report_line :: "Hashsum \<Rightarrow> string \<Rightarrow> ('s jstate_scheme, unit) py" where
  "report_line h line =
     (let report = job_pyprint Stderr [get_ext (hs_hashfile h) @ '': '' @ line] in
      if line = [] \<or> endswith line OKAY_STRING then py_ret ()
      else py_seq (py_when (endswith line FAIL_STRING \<or> str_contains ZERO_STRING line \<or>
                            str_contains IMPROPER_STRING line) report)
                  (py_when (endswith line FAILED_OPEN) report))"

text \<open>The handler of a failed comparison.\<close>

definition report_failure :: "Hashsum \<Rightarrow> int \<Rightarrow> string \<Rightarrow> string \<Rightarrow> ('s jstate_scheme, int) py" where
  "report_failure h code text output =
     py_seq (py_when (str_contains EXIT_NON_ZERO text)
       (job_pyprint Stderr [get_ext (hs_hashfile h) @ '': comparison exited with status: '' @ str_int code @
          ''. Please check the formatting of the checksums or integrity of the files.'']))
    (py_seq (py_for (str_split (CHR 0x0A) output) (report_line h)) (py_ret code))"

definition compare_hashes :: "('e vc_env_scheme) \<Rightarrow> Hashsum \<Rightarrow> string \<Rightarrow> ('s hs_world_scheme, int) py" where
  "compare_hashes E h transfer_dir =
     (let objects_dir = path_join transfer_dir ''objects'' in
      py_bind (count_and_compare_lines h objects_dir) (\<lambda>same.
      if \<not> same then py_ret 1
      else py_try (py_seq (hashsum_call E h [''-c'', ''--strict'', hs_hashfile h] (Some objects_dir)) (py_ret 0))
        (\<lambda>e. case e of
           CalledProcessError code text output \<Rightarrow> Some (report_failure h code text output)
         | _ \<Rightarrow> None)))"

definition version :: "('e vc_env_scheme) \<Rightarrow> Hashsum \<Rightarrow> ('s hs_world_scheme, string) py" where
  "version E h = py_try (py_bind (hashsum_call E h [''--version''] None) (\<lambda>ls. py_ret (hd ls)))
     (\<lambda>e. case e of CalledProcessError _ _ _ \<Rightarrow> Some (py_ret (hs_COMMAND h)) | _ \<Rightarrow> None)"

definition get_command_detail :: "('e vc_env_scheme) \<Rightarrow> Hashsum \<Rightarrow> ('s hs_world_scheme, string) py" where
  "get_command_detail E h = py_bind (py_get command_called) (\<lambda>called.
     case called of
       None \<Rightarrow> py_raise (PREMISFailure
         ''Unable to retrieve information about the hashsum command called by the script'')
     | Some cmd \<Rightarrow> py_bind (version E h) (\<lambda>v.
         py_ret (''program='' @ [CHR 0x22] @ str_join '' '' cmd @ [CHR 0x22] @ ''; version='' @
                 [CHR 0x22] @ v @ [CHR 0x22])))"

section \<open>Events\<close>

definition get_file_queryset :: "string \<Rightarrow> ('s world_scheme, file_row list) py" where
  "get_file_queryset transfer_uuid =
     py_bind (py_get (\<lambda>s. filter (\<lambda>f. f_removedtime f = None \<and> f_transfer f = Some transfer_uuid) (Files s)))
       (\<lambda>files. if files = []
          then py_raise (PREMISFailure (''Unable to find the transfer objects for the SIP: '' @ [CHR 0x27] @
                 transfer_uuid @ [CHR 0x27] @ '' in the database''))
          else py_ret files)"

definition fixity_event :: "env \<Rightarrow> string \<Rightarrow> file_row \<Rightarrow> ('s world_scheme, event_row) py" where
  "fixity_event E detail f = py_bind (now E) (\<lambda>t. py_bind (uuid4 E) (\<lambda>u.
     py_ret ((new_event u)\<lparr>e_file_uuid := Some (f_uuid f), e_event_type := ''fixity check'',
       e_event_datetime := t, e_event_outcome := ''pass'', e_event_detail := detail\<rparr>)))"

definition write_premis_event_per_file ::
  "env \<Rightarrow> file_row list \<Rightarrow> string \<Rightarrow> string \<Rightarrow> ('s world_scheme, unit) py" where
  "write_premis_event_per_file E files transfer_uuid event_detail =
     py_bind (get_transfer transfer_uuid) (\<lambda>t. py_bind (Transfer_agents t) (\<lambda>agents.
     atomic (py_bind (py_map (fixity_event E event_detail) files) (\<lambda>events.
       py_seq (Event_bulk_create E events)
              (link_events (map e_file_uuid events) (map a_id agents))))))"

section \<open>run\_hashsum\_commands\<close>

text \<open>The body of the loop over the checksum files: the amount added to the return code.\<close>

definition try_hashfile ::
  "('e vc_env_scheme) \<Rightarrow> string \<Rightarrow> string \<Rightarrow> file_row list \<Rightarrow> string \<Rightarrow> ('s hs_world_scheme, int) py" where
  "try_hashfile E transfer_dir transfer_uuid files hashfile =
     (let hashfilepath = path_joins transfer_dir [''metadata'', hashfile] in
      py_bind (fs_get (\<lambda>n. os_exists n hashfilepath)) (\<lambda>found.
      if \<not> found then py_ret 0
      else py_bind (py_try (py_bind (Hashsum_init hashfilepath) (\<lambda>h. py_ret (Some h)))
             (\<lambda>e. case e of NoHashCommandAvailable \<Rightarrow> Some (py_seq
                 (job_pyprint Stdout [''Nothing to do for '' @ get_ext hashfilepath @ ''. No command available.''])
                 (py_ret None)) | _ \<Rightarrow> None)) (\<lambda>hashsum.
           case hashsum of None \<Rightarrow> py_ret 0
           | Some h \<Rightarrow>
               py_seq (job_pyprint Stderr [''Comparing transfer checksums with the supplied '' @
                         get_ext hashfilepath @ '' file''])
              (py_bind (compare_hashes E h transfer_dir) (\<lambda>result.
               if result = 0
               then py_seq (job_pyprint Stdout [get_ext hashfile @ '': Comparison was OK''])
                   (py_bind (get_command_detail E h) (\<lambda>detail.
                    py_seq (write_premis_event_per_file (env.truncate E) files transfer_uuid detail)
                           (py_ret 0)))
               else py_ret result)))))"

definition run_hashsum_commands :: "('e vc_env_scheme) \<Rightarrow> ('s hs_world_scheme, int) py" where
  "run_hashsum_commands E =
     py_bind (py_get (\<lambda>s. j_args (cur_job s))) (\<lambda>args.
     if length args \<le> 2
     then py_seq (log_msg ERROR (''Cannot access expected module arguments: '' @ repr_list args)) (py_ret 1)
     else (let transfer_dir = args ! 1; transfer_uuid = args ! 2 in
       py_bind (get_file_queryset transfer_uuid) (\<lambda>files.
       py_bind (py_map (try_hashfile E transfer_dir transfer_uuid files) (map fst HASHFILES_COMMANDS))
         (\<lambda>results. py_ret (sum_list results)))))"

definition verify_checksum_job :: "('e vc_env_scheme) \<Rightarrow> ('s hs_world_scheme, unit) py" where
  "verify_checksum_job E = JobContext (env_traceback E) True
     (py_bind (run_hashsum_commands E) (\<lambda>code. upd_job (set_status code ''success'')))"

definition verify_checksum_call :: "('e vc_env_scheme) \<Rightarrow> job list \<Rightarrow> ('s hs_world_scheme, job list) py" where
  "verify_checksum_call E jobs = run_jobs (verify_checksum_job E) jobs"

section \<open>Every job of a batch is run\<close>

lemma keeps_is_job_hashsum [keeps_intros]:
  "keeps (is_job u) (Hashsum_init p)" "keeps (is_job u) (hashsum_call E h args cwd)"
  "keeps (is_job u) (count_and_compare_lines h d)"
  unfolding Hashsum_init_def hashsum_call_def count_and_compare_lines_def count_lines_of_def count_files_of_def
  by (intro keeps_intros keeps_bind; simp add: is_job_def)+

lemma keeps_is_job_compare [keeps_intros]:
  "keeps (is_job u) (compare_hashes E h d)" "keeps (is_job u) (get_command_detail E h)"
  unfolding compare_hashes_def get_command_detail_def version_def report_failure_def report_line_def
  by (intro keeps_intros keeps_bind keeps_try; (auto split: py_exn.splits if_splits intro!: keeps_intros)?)+

lemma keeps_is_job_hashfile [keeps_intros]:
  "keeps (is_job u) (try_hashfile E d t files hf)"
  unfolding try_hashfile_def write_premis_event_per_file_def fixity_event_def Transfer_agents_def
  by (intro keeps_intros keeps_bind keeps_try; (auto split: py_exn.splits if_splits intro!: keeps_intros)?)

interpretation verify_checksum: job_body "verify_checksum_job E" for E :: "'e vc_env_scheme"
  unfolding verify_checksum_job_def run_hashsum_commands_def get_file_queryset_def
  by (rule job_body_context) (intro keeps_intros keeps_bind)

text \<open>
  As long as starting a program raises no more than an \<open>Exception\<close> (\<open>subprocess\<close> raises \<open>OSError\<close>,
  \<open>ValueError\<close> and its own errors), no step of the script leaves the process.
\<close>

lemma contained_hashsum:
  assumes ex: "\<And>cmd cwd n e. vc_exec E cmd cwd n = Inl e \<Longrightarrow> is_Exception e"
  shows "contained (hashsum_call E h args cwd)"
proof -
  have "is_Exception e" if "check_output E cmd c n = Inl e" for cmd c n e
    using that ex by (auto simp: check_output_def is_Exception_def split: sum.splits if_splits)
  then show ?thesis
    by (auto simp: hashsum_call_def contained_def py_simps Let_def split: sum.splits)
qed

lemma contained_read_file: "read_file n p = Inl e \<Longrightarrow> is_Exception e"
  by (auto simp: read_file_def ENOENT_def EISDIR_def is_Exception_def split: option.splits fnode.splits)

lemma contained_counts [contained_intros]:
  "contained (count_lines_of p)" "contained (count_files_of p)"
  unfolding count_lines_of_def count_files_of_def fs_get_def
  by (intro contained_read contained_intros; erule contained_read_file)+

lemma contained_reports [contained_intros]:
  "contained (count_and_compare_lines h d)" "contained (report_failure h code t out)"
  unfolding count_and_compare_lines_def report_failure_def report_line_def Let_def
  by (intro contained_intros contained_bind; simp)+

lemma contained_comparison:
  assumes ex: "\<And>cmd cwd n e. vc_exec E cmd cwd n = Inl e \<Longrightarrow> is_Exception e"
  shows "contained (compare_hashes E h d)" "contained (get_command_detail E h)"
  unfolding compare_hashes_def get_command_detail_def version_def Let_def
  by (intro contained_intros contained_bind contained_handler contained_hashsum [OF ex];
      (simp add: is_Exception_def)?; auto split: py_exn.splits intro!: contained_intros)+

lemma contained_agents [contained_intros]: "contained (Transfer_agents t)"
proof -
  have "is_Exception e" if "py_int v = Inl e" for v e
    using that by (auto simp: py_int_def is_Exception_def Let_def split: if_splits list.splits option.splits)
  then show ?thesis
    unfolding Transfer_agents_def unit_agents_def
    by (intro contained_bind contained_intros) (auto simp: contained_def py_simps)
qed

lemma contained_number_events: "contained (number_events E es)"
  by (induction es) (simp_all add: contained_basic contained_bind contained_world)

lemma contained_bulk [contained_intros]:
  "contained (Event_bulk_create E es)" "contained (link_events us as)"
  unfolding Event_bulk_create_def link_events_def
  by (intro contained_bind contained_number_events contained_read contained_intros;
      auto simp: is_Exception_def split: if_splits)+

lemma contained_run_hashsum_commands:
  assumes ex: "\<And>cmd cwd n e. vc_exec E cmd cwd n = Inl e \<Longrightarrow> is_Exception e"
  shows "contained (run_hashsum_commands E)"
  unfolding run_hashsum_commands_def get_file_queryset_def try_hashfile_def Hashsum_init_def
    write_premis_event_per_file_def fixity_event_def Let_def
  by (intro contained_intros contained_bind contained_handler contained_comparison [OF ex];
      (simp add: is_Exception_def)?; auto split: py_exn.splits intro!: contained_intros)

section \<open>What a comparison yields\<close>










section \<open>Events of a successful comparison\<close>

lemma hs_upd [simp]:
  "db_inv (s\<lparr>command_called := c\<rparr>) = db_inv s"
  by (simp add: db_inv_def file_fks_ok_def event_fks_ok_def derivation_fks_ok_def)











abbreviation fixity_key :: "file_row \<Rightarrow> string option \<times> string \<times> string" where
  "fixity_key f \<equiv> (Some (f_uuid f), ''fixity check'', ''pass'')"


section \<open>One checksum file\<close>









section \<open>Properties\<close>


definition vc_env_ex :: vc_env where
  "vc_env_ex = \<lparr>env_now = (\<lambda>n. ''now'' @ str_nat n), env_uuid4 = (\<lambda>n. ''uuid'' @ str_nat n),
     env_traceback = (\<lambda>e. []), env_cwd = ''/'',
     vc_exec = (\<lambda>cmd cwd n. if hd cmd = ''md5sum'' \<and> (case cwd of None \<Rightarrow> True | Some d \<Rightarrow> os_isdir n d)
       then Inr (0, ''a: OK'') else Inl ENOENT),
     vc_signal = (\<lambda>i. [])\<rparr>"

definition vc_world_ex :: hs_world where
  "vc_world_ex = (world.extend world_ex (hs_world.fields None))\<lparr>
     cur_job := Job_init ''verify_checksum'' ''task'' [''/t'', ''t''] True,
     fs := FDir [(''t'', FDir [(''metadata'', FDir [(''checksum.md5'', FFile ''0cc1 a'')]),
       (''objects'', FDir [(''a'', FFile ''x'')])])]\<rparr>"



text \<open>C17. Every job of a batch is run, whatever goes wrong inside another. As long as starting a tool
  raises no more than an \<open>Exception\<close>, \<open>call(jobs)\<close> returns the jobs it was given, in their order: there
  is a sequence of states, the first the one the call starts in and the last the one it ends in, such
  that \<open>run_hashsum_commands\<close> is run for the \<open>i\<close>-th job in the \<open>i\<close>-th state. When it returns a code
  the job is left with the status \<open>success\<close> and that code; when it raises, the job gets the exit code
  1, the status \<open>error\<close> and the text of the exception, and the next job starts from what was left.\<close>

theorem verify_checksum_call_runs_every_job:
  fixes s :: "'s hs_world_scheme"
  assumes ex: "\<And>cmd cwd n e. vc_exec E cmd cwd n = Inl e \<Longrightarrow> is_Exception e"
  shows "\<exists>js states. verify_checksum_call E jobs s = (Inr js, last states) \<and>
     map j_uuid js = map j_uuid jobs \<and> length states = Suc (length jobs) \<and> states ! 0 = s \<and>
     (\<forall>i < length jobs.
        case run_hashsum_commands E ((states ! i)\<lparr>cur_job := jobs ! i, log_buffer := Some []\<rparr>) of
          (Inr code, t) \<Rightarrow> js ! i = set_status code ''success'' (cur_job t) \<and>
             states ! Suc i = t\<lparr>cur_job := js ! i, log_buffer := None\<rparr>
        | (Inl e, t) \<Rightarrow> js ! i = (cur_job t)\<lparr>j_error := j_error (cur_job t) @ exn_str e @ env_traceback E e,
               j_int_code := 1, j_status_code := ''error''\<rparr> \<and>
             states ! Suc i = t\<lparr>cur_job := js ! i, log_buffer := None\<rparr>)"
proof -
  let ?run = "\<lambda>s. run_hashsum_commands E (s\<lparr>log_buffer := Some []\<rparr>)"
  note contained_run_hashsum_commands [OF ex]
  then have "contained (py_bind (run_hashsum_commands E) (\<lambda>code. upd_job (set_status code ''success'')))"
    by (intro contained_bind contained_intros)
  then have "fst (verify_checksum_job E s) = Inr ()" for s :: "'s hs_world_scheme"
    unfolding verify_checksum_job_def by (rule JobContext_returns)
  then obtain js states where run: "verify_checksum_call E jobs s = (Inr js, last states)" "length js = length jobs"
     "length states = Suc (length jobs)" "states ! 0 = s"
     "\<forall>i < length jobs. verify_checksum_job E ((states ! i)\<lparr>cur_job := jobs ! i\<rparr>) = (Inr (), states ! Suc i) \<and>
        js ! i = cur_job (states ! Suc i)"
    using run_jobs_each [of "verify_checksum_job E" jobs s] unfolding verify_checksum_call_def by blast
  have same: "map j_uuid js = map j_uuid jobs"
    using verify_checksum.all_jobs_run [of jobs E s] run(1) unfolding verify_checksum_call_def by simp
  have job: "case ?run u of
        (Inr code, t) \<Rightarrow> v = t\<lparr>cur_job := set_status code ''success'' (cur_job t), log_buffer := None\<rparr>
      | (Inl e, t) \<Rightarrow> v = t\<lparr>cur_job := (cur_job t)\<lparr>j_error := j_error (cur_job t) @ exn_str e @ env_traceback E e,
           j_int_code := 1, j_status_code := ''error''\<rparr>, log_buffer := None\<rparr>"
    if "verify_checksum_job E u = (Inr (), v)" for u v :: "'s hs_world_scheme"
    using that by (auto simp: verify_checksum_job_def JobContext_def py_simps set_status_def write_error_def Let_def
        split: prod.splits sum.splits if_splits)
  show ?thesis
  proof (intro exI [of _ js] exI [of _ states] conjI allI impI)
    fix i
    assume "i < length jobs"
    with run(5) have "verify_checksum_job E ((states ! i)\<lparr>cur_job := jobs ! i\<rparr>) = (Inr (), states ! Suc i)"
      "js ! i = cur_job (states ! Suc i)" by auto
    then show "case run_hashsum_commands E ((states ! i)\<lparr>cur_job := jobs ! i, log_buffer := Some []\<rparr>) of
          (Inr code, t) \<Rightarrow> js ! i = set_status code ''success'' (cur_job t) \<and>
             states ! Suc i = t\<lparr>cur_job := js ! i, log_buffer := None\<rparr>
        | (Inl e, t) \<Rightarrow> js ! i = (cur_job t)\<lparr>j_error := j_error (cur_job t) @ exn_str e @ env_traceback E e,
               j_int_code := 1, j_status_code := ''error''\<rparr> \<and>
             states ! Suc i = t\<lparr>cur_job := js ! i, log_buffer := None\<rparr>"
      using job by (fastforce split: prod.splits sum.splits)
  qed (use run same in simp_all)
qed

text \<open>The first job names a transfer that does not exist and fails; the second is still verified.\<close>

theorem verify_checksum_call_runs_every_job_witness:
  "\<exists>js t. verify_checksum_call vc_env_ex [Job_init ''verify_checksum'' ''one'' [''/t'', ''unknown''] True,
       Job_init ''verify_checksum'' ''two'' [''/t'', ''t''] True] vc_world_ex = (Inr js, t) \<and>
     map j_uuid js = [''one'', ''two''] \<and> map j_int_code js = [1, 0] \<and> map j_status_code js = [''error'', ''success''] \<and>
     map (snd \<circ> event_key) (Events t) = [fixity_key file_ex]"
proof -
  let ?jobs = "[Job_init ''verify_checksum'' ''one'' [''/t'', ''unknown''] True,
     Job_init ''verify_checksum'' ''two'' [''/t'', ''t''] True]"
  have "is_Exception e" if "vc_exec vc_env_ex cmd cwd n = Inl e" for cmd cwd n e
    using that by (auto simp: vc_env_ex_def ENOENT_def is_Exception_def split: if_splits)
  then obtain js states where js: "verify_checksum_call vc_env_ex ?jobs vc_world_ex = (Inr js, last states)"
    "map j_uuid js = map j_uuid ?jobs"
    using verify_checksum_call_runs_every_job [of vc_env_ex ?jobs vc_world_ex] by blast
  moreover have "case verify_checksum_call vc_env_ex ?jobs vc_world_ex of
      (Inr js, t) \<Rightarrow> map j_int_code js = [1, 0] \<and> map j_status_code js = [''error'', ''success''] \<and>
         map (snd \<circ> event_key) (Events t) = [fixity_key file_ex]
    | (Inl e, t) \<Rightarrow> False"
    by code_simp
  ultimately show ?thesis by (auto simp: Job_init_def)
qed

end
