(* ===== verification/Replacement.thy ===== *)
theory Replacement
  imports AMFunctions
begin

text \<open>
  \<open>utils/dicts.py\<close>: the replacement dictionary that carries the variables of a unit or file to
  commands. A dictionary is an association list in insertion order; \<open>ast.literal_eval\<close> is an
  argument of \<open>fromstring\<close>.
\<close>

section \<open>Arguments\<close>

datatype unit_arg = NoUnit | UnitUuid string | UnitSIP sip_row | UnitTransfer transfer_row

datatype file_arg = NoFile | FileUuid string | FileModel file_row

record dict_config =
  shared_directory :: string
  processing_directory :: string
  rejected_directory :: string
  watch_directory :: string

definition no_attribute :: "string \<Rightarrow> py_exn" where
  "no_attribute a = AttributeError ([CHR 0x27] @ ''NoneType'' @ [CHR 0x27] @ '' object has no attribute '' @ repr_str a)"

definition resolve_file :: "file_arg \<Rightarrow> ('s world_scheme, file_row option) py" where
  "resolve_file file = (case file of
      NoFile \<Rightarrow> py_ret None
    | FileModel f \<Rightarrow> py_ret (Some f)
    | FileUuid u \<Rightarrow> py_bind (get_file u) (\<lambda>f. py_ret (Some f)))"

text \<open>A UUID is looked up as a SIP first and, if that raises, as a transfer.\<close>

definition resolve_unit :: "unit_arg \<Rightarrow> ('s world_scheme, unit_arg) py" where
  "resolve_unit unit = (case unit of
      UnitUuid u \<Rightarrow> py_try (py_bind (get_sip u) (\<lambda>r. py_ret (UnitSIP r)))
        (\<lambda>e. if is_Exception e then Some (py_bind (get_transfer u) (\<lambda>t. py_ret (UnitTransfer t))) else None)
    | _ \<Rightarrow> py_ret unit)"

text \<open>Following \<open>file_.sip\<close> and \<open>file_.transfer\<close>: an unset foreign key is \<open>None\<close>, not an error.\<close>

definition file_sip :: "file_row \<Rightarrow> ('s world_scheme, unit_arg) py" where
  "file_sip f = (case f_sip f of None \<Rightarrow> py_ret NoUnit
     | Some u \<Rightarrow> py_bind (get_sip u) (\<lambda>r. py_ret (UnitSIP r)))"

definition file_transfer :: "file_row \<Rightarrow> ('s world_scheme, unit_arg) py" where
  "file_transfer f = (case f_transfer f of None \<Rightarrow> py_ret NoUnit
     | Some u \<Rightarrow> py_bind (get_transfer u) (\<lambda>t. py_ret (UnitTransfer t)))"

definition unit_of_file :: "file_row option \<Rightarrow> unit_arg \<Rightarrow> ('s world_scheme, unit_arg) py" where
  "unit_of_file file unit = (case (file, unit) of
      (Some f, NoUnit) \<Rightarrow> py_try (file_sip f)
         (\<lambda>e. if is_Exception e then Some (file_transfer f) else None)
    | _ \<Rightarrow> py_ret unit)"

definition unit_uuid :: "unit_arg \<Rightarrow> string" where
  "unit_uuid unit = (case unit of UnitSIP r \<Rightarrow> s_uuid r | UnitTransfer t \<Rightarrow> tr_uuid t | _ \<Rightarrow> [])"

definition unit_location :: "unit_arg \<Rightarrow> string option" where
  "unit_location unit = (case unit of UnitSIP r \<Rightarrow> s_currentpath r
     | UnitTransfer t \<Rightarrow> Some (tr_currentlocation t) | _ \<Rightarrow> None)"

section \<open>frommodel\<close>

definition unit_variables ::
  "env \<Rightarrow> string \<Rightarrow> unit_arg \<Rightarrow> string \<Rightarrow> string \<Rightarrow> (string \<times> string) list" where
  "unit_variables E utype unit relative_location sipdir =
     [(''%SIPUUID%'', unit_uuid unit),
      (''%SIPName%'', str_replace (basename (str_rstrip slash sipdir)) (''-'' @ unit_uuid unit) []),
      (''%currentPath%'', sipdir),
      (''%SIPDirectory%'', sipdir),
      (''%SIPDirectoryBasename%'', basename (abspath (env_cwd E) sipdir)),
      (''%SIPLogsDirectory%'', path_joins sipdir [''logs'', []]),
      (''%SIPObjectsDirectory%'', path_joins sipdir [''objects'', []])]
     @ (if utype = ''sip'' then [(''%relativeLocation%'', relative_location)]
        else if utype = ''transfer''
        then [(''%transferDirectory%'', sipdir), (''%relativeLocation%'', relative_location)]
        else [])"

definition file_variables ::
  "string \<Rightarrow> file_row \<Rightarrow> string \<Rightarrow> string \<Rightarrow> (string \<times> string) list" where
  "file_variables utype f origin current_location =
     (let (name, ext) = splitext current_location in
      [(''%originalLocation%'', origin),
       (''%currentLocation%'', current_location),
       (''%fileDirectory%'', dirname current_location),
       (''%fileGrpUse%'', f_filegrpuse f)]
      @ (if utype = ''file'' then [(''%relativeLocation%'', current_location)] else [])
      @ [(''%inputFile%'', current_location),
         (''%fileFullName%'', current_location),
         (''%fileName%'', basename name),
         (''%fileExtension%'', tl ext),
         (''%fileExtensionWithDot%'', ext)])"

definition config_variables :: "dict_config \<Rightarrow> (string \<times> string) list" where
  "config_variables cf =
     [(''%tmpDirectory%'', path_joins (shared_directory cf) [''tmp'', []]),
      (''%processingDirectory%'', processing_directory cf),
      (''%watchDirectoryPath%'', watch_directory cf),
      (''%rejectedDirectory%'', rejected_directory cf)]"

text \<open>\<open>base_location\<close>: the path of the file's SIP, or, when that raises, of its transfer.\<close>

definition file_base_location :: "file_row \<Rightarrow> ('s world_scheme, string option) py" where
  "file_base_location f =
     py_try (py_bind (file_sip f) (\<lambda>u. if u = NoUnit then py_raise (no_attribute ''currentpath'')
                                    else py_ret (unit_location u)))
       (\<lambda>e. if is_Exception e
             then Some (py_bind (file_transfer f) (\<lambda>u.
                    if u = NoUnit then py_raise (no_attribute ''currentlocation'')
                    else py_ret (unit_location u)))
             else None)"

definition need_str :: "string \<Rightarrow> string option \<Rightarrow> py_exn + string" where
  "need_str attr x = (case x of None \<Rightarrow> Inl (no_attribute attr) | Some v \<Rightarrow> Inr v)"

text \<open>The two halves of \<open>frommodel\<close>: what it adds for the unit and what it adds for the file.\<close>

definition frommodel_unit ::
  "env \<Rightarrow> dict_config \<Rightarrow> string \<Rightarrow> unit_arg \<Rightarrow> bool \<Rightarrow> py_exn + (string option \<times> (string \<times> string) list)" where
  "frommodel_unit E cf utype unit expand_path =
     (if unit = NoUnit then Inr (None, [])
      else map_sum id (\<lambda>relative_location.
             (let sipdir = (if expand_path
                 then str_replace relative_location ''%sharedPath%'' (shared_directory cf)
                 else relative_location)
              in (Some sipdir, unit_variables E utype unit relative_location sipdir)))
           (need_str (if expand_path then ''replace'' else ''rstrip'') (unit_location unit)))"

definition frommodel_file ::
  "dict_config \<Rightarrow> string \<Rightarrow> file_row \<Rightarrow> string option \<Rightarrow> bool \<Rightarrow>
     ('s world_scheme, (string \<times> string) list) py" where
  "frommodel_file cf utype f sipdir expand_path =
     py_bind (file_base_location f) (\<lambda>base.
     py_bind (if expand_path \<and> sipdir \<noteq> None
        then py_bind (py_lift (need_str ''replace'' base)) (\<lambda>b.
             (let base_location = str_replace b ''%sharedPath%'' (shared_directory cf);
                  origin = str_replace (f_originallocation f) ''%transferDirectory%'' base_location
              in py_bind (py_lift (need_str ''decode'' (f_currentlocation f))) (\<lambda>c.
                 py_ret (origin, str_replace (str_replace c ''%transferDirectory%'' base_location)
                                   ''%SIPDirectory%'' (the sipdir)))))
        else py_bind (py_lift (need_str ''decode'' (f_currentlocation f))) (\<lambda>c.
             py_ret (f_originallocation f, c))) (\<lambda>(origin, current_location).
     py_ret ((''%fileUUID%'', f_uuid f) # file_variables utype f origin current_location)))"

definition frommodel ::
  "env \<Rightarrow> dict_config \<Rightarrow> string \<Rightarrow> unit_arg \<Rightarrow> file_arg \<Rightarrow> bool \<Rightarrow>
     ('s world_scheme, (string \<times> string) list) py" where
  "frommodel E cf utype sip file expand_path =
     py_bind (resolve_file file) (\<lambda>f.
     py_bind (resolve_unit sip) (\<lambda>sip1.
     py_bind (unit_of_file f sip1) (\<lambda>unit.
     py_bind (py_lift (frommodel_unit E cf utype unit expand_path)) (\<lambda>(sipdir, unit_vars).
     py_bind (case f of None \<Rightarrow> py_ret [] | Some r \<Rightarrow> frommodel_file cf utype r sipdir expand_path)
       (\<lambda>file_vars.
     py_ret (dict_update [] (unit_vars @ file_vars @ config_variables cf)))))))"

definition fromstring ::
  "(string \<Rightarrow> py_exn + (string \<times> string) list) \<Rightarrow> string \<Rightarrow> py_exn + (string \<times> string) list" where
  "fromstring literal_eval s = literal_eval s"

section \<open>replace and to\_gnu\_options\<close>

definition rd_replace1 :: "(string \<times> string) list \<Rightarrow> string \<Rightarrow> string" where
  "rd_replace1 rd orig = foldl (\<lambda>orig (key, val). str_replace orig key val) orig rd"

definition rd_replace :: "(string \<times> string) list \<Rightarrow> string option list \<Rightarrow> string option list" where
  "rd_replace rd strings = map (map_option (rd_replace1 rd)) strings"

definition replace_string_values ::
  "env \<Rightarrow> dict_config \<Rightarrow> string \<Rightarrow> string \<Rightarrow> unit_arg \<Rightarrow> file_arg \<Rightarrow> bool \<Rightarrow> ('s world_scheme, string) py" where
  "replace_string_values E cf string utype sip file expand_path =
     py_bind (frommodel E cf utype sip file expand_path) (\<lambda>rd. py_ret (rd_replace1 rd string))"

definition is_upper :: "char \<Rightarrow> bool" where
  "is_upper c = (65 \<le> (of_char c :: nat) \<and> (of_char c :: nat) \<le> 90)"

definition is_lower :: "char \<Rightarrow> bool" where
  "is_lower c = (97 \<le> (of_char c :: nat) \<and> (of_char c :: nat) \<le> 122)"

definition to_lower :: "char \<Rightarrow> char" where
  "to_lower c = (if is_upper c then char_of (of_char c + 32 :: nat) else c)"

text \<open>\<open>re.sub("([A-Z]+)", " \1", s)\<close>: a blank before every run of capitals; the flag says that the
  previous character belongs to the run.\<close>

fun space_capital_runs :: "bool \<Rightarrow> string \<Rightarrow> string" where
  "space_capital_runs in_run [] = []"
| "space_capital_runs in_run (c # cs) =
     (if is_upper c then (if in_run then [c] else [CHR '' '', c]) @ space_capital_runs True cs
      else c # space_capital_runs False cs)"

text \<open>\<open>re.sub("([A-Z][a-z]+)", " \1", s)\<close>: a blank before every capital that a small letter
  follows.\<close>

fun space_capitalised :: "string \<Rightarrow> string" where
  "space_capitalised (c # d # cs) =
     (if is_upper c \<and> is_lower d then CHR '' '' # c # space_capitalised (d # cs)
      else c # space_capitalised (d # cs))"
| "space_capitalised cs = cs"

definition gnu_optname :: "string \<Rightarrow> string" where
  "gnu_optname key =
     map to_lower (str_join ''-'' (filter (\<lambda>w. w \<noteq> [])
       (str_split (CHR '' '') (space_capitalised (space_capital_runs False (butlast (tl key)))))))"

definition to_gnu_options :: "(string \<times> string) list \<Rightarrow> string list" where
  "to_gnu_options rd = map (\<lambda>(key, val). ''--'' @ gnu_optname key @ ''='' @ val) rd"

section \<open>Lemmas\<close>

lemma dict_update_lookup:
  "map_of (dict_update [] kvs) k = map_of (rev kvs) k"
  by (simp add: map_of_dict_update)

lemma frommodel_unit_Some:
  assumes "unit \<noteq> NoUnit" and "unit_location unit = Some loc"
  shows "frommodel_unit E cf ty unit True =
     (let sipdir = str_replace loc ''%sharedPath%'' (shared_directory cf)
      in Inr (Some sipdir, unit_variables E ty unit loc sipdir))"
  using assms by (simp add: frommodel_unit_def need_str_def Let_def)

text \<open>The base location of a file whose SIP exists, and of a file that only has a transfer.\<close>

lemma file_base_location_sip:
  assumes "db_inv s" and "f_sip f = Some (s_uuid r)" and "r \<in> set (SIPs s)"
  shows "file_base_location f s = (Inr (s_currentpath r), s)"
  using assms by (simp add: file_base_location_def file_sip_def py_simps get_by_key unit_location_def)

lemma file_base_location_transfer:
  assumes "db_inv s" and "f_sip f = None" and "f_transfer f = Some (tr_uuid t)" and "t \<in> set (Transfers s)"
  shows "file_base_location f s = (Inr (Some (tr_currentlocation t)), s)"
  using assms
  by (simp add: file_base_location_def file_sip_def file_transfer_def py_simps get_by_key
      unit_location_def is_Exception_def no_attribute_def)

section \<open>Properties\<close>

text \<open>The variables of a file in a SIP: for a file whose SIP is known, \<open>frommodel\<close> returns a
  dictionary in which the SIP directory is the SIP's path with the shared path put in, the
  current location of the file is an expanded path with both directory variables resolved
  against it, and base name and extension of the file are those of that path.\<close>

theorem frommodel_file_in_sip:
  assumes inv: "db_inv s" and f: "f \<in> set (Files s)" "f_sip f = Some (s_uuid r)"
    and r: "r \<in> set (SIPs s)" "s_currentpath r = Some path"
    and c: "f_currentlocation f = Some loc"
  shows "\<exists>rd. frommodel E cf ''file'' NoUnit (FileUuid (f_uuid f)) True s = (Inr rd, s) \<and>
     (let sipdir = str_replace path ''%sharedPath%'' (shared_directory cf);
          current = str_replace (str_replace loc ''%transferDirectory%'' sipdir) ''%SIPDirectory%'' sipdir
      in map_of rd ''%SIPUUID%'' = Some (s_uuid r) \<and>
         map_of rd ''%SIPDirectory%'' = Some sipdir \<and>
         map_of rd ''%fileUUID%'' = Some (f_uuid f) \<and>
         map_of rd ''%currentLocation%'' = Some current \<and>
         map_of rd ''%relativeLocation%'' = Some current \<and>
         map_of rd ''%originalLocation%'' =
           Some (str_replace (f_originallocation f) ''%transferDirectory%'' sipdir) \<and>
         map_of rd ''%fileDirectory%'' = Some (dirname current) \<and>
         map_of rd ''%fileExtensionWithDot%'' = Some (snd (splitext current)))"
proof -
  let ?sipdir = "str_replace path ''%sharedPath%'' (shared_directory cf)"
  let ?current = "str_replace (str_replace loc ''%transferDirectory%'' ?sipdir) ''%SIPDirectory%'' ?sipdir"
  let ?origin = "str_replace (f_originallocation f) ''%transferDirectory%'' ?sipdir"
  let ?rd = "dict_update [] (unit_variables E ''file'' (UnitSIP r) path ?sipdir @
    ((''%fileUUID%'', f_uuid f) # file_variables ''file'' f ?origin ?current) @ config_variables cf)"
  have "frommodel_unit E cf ''file'' (UnitSIP r) True =
      Inr (Some ?sipdir, unit_variables E ''file'' (UnitSIP r) path ?sipdir)"
    using frommodel_unit_Some [of "UnitSIP r" path] r(2) by (simp add: unit_location_def Let_def)
  moreover have "frommodel_file cf ''file'' f (Some ?sipdir) True s =
      (Inr ((''%fileUUID%'', f_uuid f) # file_variables ''file'' f ?origin ?current), s)"
    using file_base_location_sip [OF inv f(2) r(1)] r(2) c
    by (simp add: frommodel_file_def py_simps need_str_def Let_def)
  ultimately have "frommodel E cf ''file'' NoUnit (FileUuid (f_uuid f)) True s = (Inr ?rd, s)"
    using inv f r
    by (simp add: frommodel_def py_simps resolve_file_def resolve_unit_def unit_of_file_def file_sip_def
        get_by_key)
  then show ?thesis
    by (intro exI [of _ ?rd])
      (simp add: dict_update_lookup unit_variables_def file_variables_def config_variables_def
        unit_uuid_def split_beta Let_def)
qed

theorem frommodel_file_in_sip_witness:
  "\<exists>(s :: world) rd. frommodel env_ex \<lparr>shared_directory = ''/shared/'', processing_directory = [],
       rejected_directory = [], watch_directory = []\<rparr> ''file'' NoUnit (FileUuid ''f'') True s =
     (Inr rd, s) \<and> map_of rd ''%SIPDirectory%'' = Some ''/shared/x/''"
proof -
  let ?r = "\<lparr>s_uuid = ''sip'', s_createdtime = [], s_currentpath = Some ''%sharedPath%x/'',
     s_hidden = False, s_aip_filename = None, s_sip_type = ''SIP'', s_identifiers = [],
     s_diruuids = False, s_status = 0, s_completed_at = None\<rparr>"
  let ?f = "file_ex\<lparr>f_sip := Some ''sip''\<rparr>"
  let ?s = "world_ex\<lparr>SIPs := [?r], Files := [?f]\<rparr>"
  have inv: "db_inv ?s" by (simp add: ex_defs db_inv_def file_fks_ok_def)
  have u: "f_uuid ?f = ''f''" by (simp add: ex_defs)
  have "\<exists>rd. frommodel env_ex \<lparr>shared_directory = ''/shared/'', processing_directory = [],
       rejected_directory = [], watch_directory = []\<rparr> ''file'' NoUnit (FileUuid (f_uuid ?f)) True ?s =
     (Inr rd, ?s) \<and> map_of rd ''%SIPDirectory%'' =
       Some (str_replace ''%sharedPath%x/'' ''%sharedPath%'' ''/shared/'')"
    using frommodel_file_in_sip [OF inv, of ?f ?r "''%sharedPath%x/''" "''%transferDirectory%objects/a''"
        env_ex "\<lparr>shared_directory = ''/shared/'', processing_directory = [],
       rejected_directory = [], watch_directory = []\<rparr>"]
    unfolding Let_def by (auto simp: ex_defs)
  moreover have "str_replace ''%sharedPath%x/'' ''%sharedPath%'' ''/shared/'' = ''/shared/x/''"
    by (simp add: str_replace_def)
  ultimately show ?thesis unfolding u by metis
qed

text \<open>A file that belongs to a transfer only, looked up without naming the unit, gets none of the
  unit's variables, and its locations keep the variable \<open>%transferDirectory%\<close> although expanded
  paths were asked for: the transfer is consulted only if following the missing SIP raises, and
  following an unset foreign key does not raise.\<close>

theorem frommodel_transfer_file_not_expanded:
  assumes inv: "db_inv s" and f: "f \<in> set (Files s)" "f_sip f = None" "f_transfer f = Some (tr_uuid t)"
    and t: "t \<in> set (Transfers s)" and c: "f_currentlocation f = Some loc"
  shows "\<exists>rd. frommodel E cf ''file'' NoUnit (FileUuid (f_uuid f)) True s = (Inr rd, s) \<and>
     map_of rd ''%SIPUUID%'' = None \<and> map_of rd ''%SIPDirectory%'' = None \<and>
     map_of rd ''%currentLocation%'' = Some loc \<and>
     map_of rd ''%originalLocation%'' = Some (f_originallocation f)"
proof -
  let ?rd = "dict_update [] (((''%fileUUID%'', f_uuid f) #
    file_variables ''file'' f (f_originallocation f) loc) @ config_variables cf)"
  have "frommodel_file cf ''file'' f None True s =
      (Inr ((''%fileUUID%'', f_uuid f) # file_variables ''file'' f (f_originallocation f) loc), s)"
    using file_base_location_transfer [OF inv f(2,3) t] c
    by (simp add: frommodel_file_def py_simps need_str_def)
  then have "frommodel E cf ''file'' NoUnit (FileUuid (f_uuid f)) True s = (Inr ?rd, s)"
    using inv f
    by (simp add: frommodel_def py_simps resolve_file_def resolve_unit_def unit_of_file_def file_sip_def
        get_by_key frommodel_unit_def)
  then show ?thesis
    by (intro exI [of _ ?rd])
      (simp add: dict_update_lookup file_variables_def config_variables_def split_beta Let_def)
qed

theorem frommodel_transfer_file_not_expanded_witness:
  "\<exists>rd. frommodel env_ex \<lparr>shared_directory = ''/shared/'', processing_directory = [],
       rejected_directory = [], watch_directory = []\<rparr> ''file'' NoUnit (FileUuid ''f'') True world_ex =
     (Inr rd, world_ex) \<and> map_of rd ''%SIPDirectory%'' = None \<and>
     map_of rd ''%currentLocation%'' = Some ''%transferDirectory%objects/a''"
proof -
  have u: "f_uuid file_ex = ''f''" and sip: "f_sip file_ex = None"
    and tr: "f_transfer file_ex = Some (tr_uuid transfer_ex)"
    and t: "transfer_ex \<in> set (Transfers world_ex)"
    and c: "f_currentlocation file_ex = Some ''%transferDirectory%objects/a''"
    by (simp_all add: ex_defs)
  show ?thesis
    using frommodel_transfer_file_not_expanded [OF world_ex_inv file_ex_in sip tr t c, of env_ex]
    unfolding u by blast
qed

end
