(* ===== verification/Clamscan.thy ===== *)
theory Clamscan
  imports Scripts Replacement Complex_Main
begin

text \<open>
  \<open>clientScripts/archivematica_clamscan.py\<close>: the virus check of a file. The clamd client library
  and the \<open>clamscan\<close> program are fields of the environment: connecting, the version string, the
  result of scanning a path or a stream, and the status and output of the command, each
  possibly an exception. So are the settings; sizes in megabytes are rationals.
\<close>

datatype clamd_addr = UnixSocket string | NetworkSocket string int

type_synonym clamd_result = "py_exn + (string \<times> string \<times> string option) list"

record clam_env = env +
  CLAMAV_SERVER :: string
  CLAMAV_PASS_BY_STREAM :: bool
  CLAMAV_CLIENT_BACKEND :: string
  CLAMAV_CLIENT_MAX_FILE_SIZE :: rat
  CLAMAV_CLIENT_MAX_SCAN_SIZE :: rat
  clamd_connect :: "clamd_addr \<Rightarrow> py_exn + unit"
  clamd_version :: "clamd_addr \<Rightarrow> py_exn + string"
  clamd_scan :: "clamd_addr \<Rightarrow> string \<Rightarrow> fnode \<Rightarrow> clamd_result"
  clamd_instream :: "clamd_addr \<Rightarrow> string \<Rightarrow> clamd_result"
  clamscan_exec :: "string list \<Rightarrow> fnode \<Rightarrow> py_exn + int \<times> string"
  float_str :: "rat \<Rightarrow> string"

section \<open>Version strings\<close>

text \<open>
  The two types the version comes in: clamd's client returns text, \<open>check_output\<close> returns bytes.
  Splitting bytes at a text separator is a type error.
\<close>

datatype py_text = Text string | Bytes string

definition clamav_version_parts :: "py_text \<Rightarrow> py_exn + string option \<times> string option" where
  "clamav_version_parts ver = (case ver of
      Bytes _ \<Rightarrow> Inl (TypeError ''a bytes-like object is required'')
    | Text t \<Rightarrow> (case str_split slash t of
        [version] \<Rightarrow> if startswith version ''ClamAV'' then Inr (Some version, None) else Inr (None, None)
      | [version, defs, date] \<Rightarrow> Inr (Some version, Some (defs @ ''/'' @ date))
      | _ \<Rightarrow> Inr (None, None)))"

section \<open>Scanners\<close>

datatype scanner = ClamScanner | ClamdScanner clamd_addr

type_synonym scan_result = "bool option \<times> string option \<times> string option"

definition program :: "scanner \<Rightarrow> string" where
  "program sc = (case sc of ClamScanner \<Rightarrow> ''ClamAV (clamscan)'' | ClamdScanner _ \<Rightarrow> ''ClamAV (clamd)'')"

definition clamd_address :: "string \<Rightarrow> py_exn + clamd_addr" where
  "clamd_address addr = (if CHR '':'' \<notin> set addr then Inr (UnixSocket addr)
     else case str_split (CHR '':'') addr of
       [host, port] \<Rightarrow> map_sum id (NetworkSocket host) (py_int port)
     | _ \<Rightarrow> Inl (ValueError ''too many values to unpack (expected 2)''))"

definition get_client :: "('e clam_env_scheme) \<Rightarrow> py_exn + clamd_addr" where
  "get_client E = (case clamd_address (CLAMAV_SERVER E) of
      Inl e \<Rightarrow> Inl e
    | Inr a \<Rightarrow> (case clamd_connect E a of Inl e \<Rightarrow> Inl e | Inr _ \<Rightarrow> Inr a))"

definition clamd_exception_handler :: "py_exn \<Rightarrow> ('s jstate_scheme, bool option) py" where
  "clamd_exception_handler err = (case err of
      OSError n m \<Rightarrow> if n = 32
        then py_seq (log_msg ERROR ''[Errno 32] Broken pipe. File not scanned. Check Clamd StreamMaxLength'') (py_ret None)
        else py_seq (log_msg ERROR (''Virus scanning failed: '' @ m)) (py_ret (Some False))
    | BufferTooLongError m \<Rightarrow>
        py_seq (log_msg ERROR ''Clamd BufferTooLongError. File not scanned. Check Clamd StreamMaxLength'') (py_ret None)
    | ClamdConnectionError m \<Rightarrow>
        py_seq (log_msg ERROR (''Clamd ConnectionError. File not scanned. Check Clamd output: '' @ m)) (py_ret None)
    | _ \<Rightarrow> py_seq (log_msg ERROR (''Virus scanning failed: '' @ exn_str err)) (py_ret (Some False)))"

definition pass_by_reference :: "('e clam_env_scheme) \<Rightarrow> clamd_addr \<Rightarrow> string \<Rightarrow> ('s world_scheme, (string \<times> string \<times> string option) list) py" where
  "pass_by_reference E a path =
     py_seq (log_msg INFO ''File being being read by Clamdscan from filesystem             reference.'')
       (py_bind (fs_get (clamd_scan E a path)) py_lift)"

definition pass_by_stream :: "('e clam_env_scheme) \<Rightarrow> clamd_addr \<Rightarrow> string \<Rightarrow> ('s world_scheme, (string \<times> string \<times> string option) list) py" where
  "pass_by_stream E a path =
     py_seq (log_msg INFO ''File contents being streamed to Clamdscan.'')
       (py_bind (fs_get (\<lambda>n. read_file n path)) (\<lambda>r. py_bind (py_lift r) (\<lambda>content.
        py_lift (clamd_instream E a content))))"

definition ClamdScanner_scan :: "('e clam_env_scheme) \<Rightarrow> clamd_addr \<Rightarrow> string \<Rightarrow> ('s world_scheme, scan_result) py" where
  "ClamdScanner_scan E a path =
     (let (scan, result_key) = (if CLAMAV_PASS_BY_STREAM E then (pass_by_stream E a path, ''stream'')
                                else (pass_by_reference E a path, path)) in
      py_bind (py_try
          (py_bind scan (\<lambda>result. case map_of result result_key of
               None \<Rightarrow> py_raise (KeyError result_key)
             | Some (state, details) \<Rightarrow> py_ret (Some False, Some state, details)))
          (\<lambda>err. if is_Exception err
                 then Some (py_bind (clamd_exception_handler err) (\<lambda>passed. py_ret (passed, None, None)))
                 else None))
        (\<lambda>(passed, state, details).
          py_ret (if state = Some ''OK'' then Some True else passed, state, details)))"

text \<open>\<open>'%dM' % x\<close> truncates towards zero.\<close>

definition megabytes :: "rat \<Rightarrow> string" where
  "megabytes x = str_int (if x \<ge> 0 then \<lfloor>x\<rfloor> else \<lceil>x\<rceil>) @ ''M''"

definition ClamScanner_call :: "('e clam_env_scheme) \<Rightarrow> string list \<Rightarrow> ('s world_scheme, py_text) py" where
  "ClamScanner_call E args = py_bind (fs_get (clamscan_exec E (''clamscan'' # args))) (\<lambda>r.
     py_bind (py_lift r) (\<lambda>(code, out).
       if code = 0 then py_ret (Bytes out) else py_raise (CalledProcessError code ''clamscan failed'' out)))"

definition ClamScanner_scan :: "('e clam_env_scheme) \<Rightarrow> string \<Rightarrow> ('s world_scheme, scan_result) py" where
  "ClamScanner_scan E path =
     py_try (py_seq (ClamScanner_call E [''--max-filesize='' @ megabytes (CLAMAV_CLIENT_MAX_FILE_SIZE E),
                       ''--max-scansize='' @ megabytes (CLAMAV_CLIENT_MAX_SCAN_SIZE E), path])
              (py_ret (Some True, Some ''OK'', None)))
       (\<lambda>e. case e of
          CalledProcessError code _ out \<Rightarrow> Some (
            if code = 1 then py_ret (Some False, Some ''FOUND'', None)
            else py_seq (log_msg ERROR (''Virus scanning failed: '' @ out)) (py_ret (Some False, Some ''ERROR'', None)))
        | _ \<Rightarrow> None)"

text \<open>
  \<open>version_attrs\<close>. The code caches the tuple in the scanner, which lives for one file; the client's
  answer is a fixed value here, so asking again gives the same.
\<close>

definition version_attrs :: "('e clam_env_scheme) \<Rightarrow> scanner \<Rightarrow> ('s world_scheme, string option \<times> string option) py" where
  "version_attrs E sc = (case sc of
      ClamdScanner a \<Rightarrow> py_bind (py_lift (clamd_version E a)) (\<lambda>v. py_lift (clamav_version_parts (Text v)))
    | ClamScanner \<Rightarrow> py_try (py_bind (ClamScanner_call E [''-V'']) (\<lambda>v. py_lift (clamav_version_parts v)))
        (\<lambda>e. case e of CalledProcessError _ _ _ \<Rightarrow> Some (py_ret (None, None)) | _ \<Rightarrow> None))"

definition scan :: "('e clam_env_scheme) \<Rightarrow> scanner \<Rightarrow> string \<Rightarrow> ('s world_scheme, scan_result) py" where
  "scan E sc path = (case sc of ClamScanner \<Rightarrow> ClamScanner_scan E path | ClamdScanner a \<Rightarrow> ClamdScanner_scan E a path)"

definition SCANNERS_NAMES :: "string list" where "SCANNERS_NAMES = [''clamscanner'', ''clamdscanner'']"

definition WARNING :: nat where "WARNING = 30"

definition get_scanner :: "('e clam_env_scheme) \<Rightarrow> ('s jstate_scheme, scanner) py" where
  "get_scanner E =
     (let choice = map to_lower (CLAMAV_CLIENT_BACKEND E);
          clamd = py_bind (py_lift (get_client E)) (\<lambda>a. py_ret (ClamdScanner a)) in
      if choice \<notin> set SCANNERS_NAMES
      then py_seq (log_msg WARNING (''Unexpected antivirus scanner (CLAMAV_CLIENT_BACKEND): '' @ [CHR 0x22] @ choice @
             [CHR 0x22] @ ''; using ClamdScanner.'')) clamd
      else if choice = ''clamscanner'' then py_ret ClamScanner else clamd)"

section \<open>Scanning one file\<close>

record queued_event =
  q_fileUUID :: string
  q_eventIdentifierUUID :: string
  q_eventType :: string
  q_eventDateTime :: datetime
  q_eventDetail :: string
  q_eventOutcome :: string

text \<open>The event queue of a batch and the local variables of \<open>scan_file\<close> its \<open>finally\<close> clause reads.\<close>

record clam_world = world +
  event_queue :: "queued_event list"
  v_scanner :: "scanner option"
  v_passed :: "bool option"

definition file_already_scanned :: "string \<Rightarrow> ('s world_scheme, bool) py" where
  "file_already_scanned file_uuid = py_get (\<lambda>s. file_uuid \<noteq> ''None'' \<and>
     (\<exists>e \<in> set (Events s). e_file_uuid e = Some file_uuid \<and> e_event_type e = ''virus check''))"

definition opt_str :: "string option \<Rightarrow> string" where
  "opt_str x = (case x of None \<Rightarrow> ''None'' | Some t \<Rightarrow> t)"

definition scanner_detail :: "('e clam_env_scheme) \<Rightarrow> scanner option \<Rightarrow> ('s world_scheme, string) py" where
  "scanner_detail E sc = (case sc of
      None \<Rightarrow> py_ret []
    | Some sc \<Rightarrow> py_bind (version_attrs E sc) (\<lambda>(version, definitions).
        py_ret (''program='' @ [CHR 0x22] @ program sc @ [CHR 0x22] @ ''; version='' @ [CHR 0x22] @ opt_str version @
          [CHR 0x22] @ ''; virusDefinitions='' @ [CHR 0x22] @ opt_str definitions @ [CHR 0x22])))"

definition queue_event ::
  "('e clam_env_scheme) \<Rightarrow> string \<Rightarrow> datetime \<Rightarrow> scanner option \<Rightarrow> bool option \<Rightarrow> ('s clam_world_scheme, unit) py" where
  "queue_event E file_uuid date scanner passed =
     (if file_uuid = ''None'' then py_ret () else
      case passed of
        None \<Rightarrow> py_ret ()
      | Some p \<Rightarrow> (let outcome = (if p then ''Pass'' else ''Fail'') in
          py_bind (scanner_detail E scanner) (\<lambda>detail.
          py_seq (log_msg INFO (''Recording new event for file '' @ file_uuid @ '' (outcome: '' @ outcome @ '')''))
         (py_bind (uuid4 (env.truncate E)) (\<lambda>u.
          py_mod (\<lambda>s. s\<lparr>event_queue := event_queue s @ [\<lparr>q_fileUUID = file_uuid, q_eventIdentifierUUID = u,
            q_eventType = ''virus check'', q_eventDateTime = date, q_eventDetail = detail,
            q_eventOutcome = outcome\<rparr>]\<rparr>))))))"

definition get_size :: "string \<Rightarrow> string \<Rightarrow> ('s world_scheme, int option) py" where
  "get_size file_uuid path =
     (let fallback = py_try (py_bind (fs_get (\<lambda>n. os_getsize n path)) (\<lambda>r. py_bind (py_lift r) (\<lambda>z. py_ret (Some z))))
            (\<lambda>e. if is_Exception e then Some (py_ret None) else None) in
      if file_uuid \<noteq> ''None''
      then py_bind (py_try (py_bind (get_file file_uuid) (\<lambda>f. py_ret (Some (f_size f))))
             (\<lambda>e. case e of DoesNotExist _ \<Rightarrow> Some (py_ret None) | ValidationError _ \<Rightarrow> Some (py_ret None) | _ \<Rightarrow> None))
           (\<lambda>r. case r of Some z \<Rightarrow> py_ret z | None \<Rightarrow> fallback)
      else fallback)"

definition set_passed :: "bool option \<Rightarrow> ('s clam_world_scheme, unit) py" where
  "set_passed p = py_mod (\<lambda>s. s\<lparr>v_passed := p\<rparr>)"

text \<open>The \<open>try\<close> block; \<open>Some c\<close> stands for \<open>return c\<close>.\<close>

definition scan_attempt ::
  "('e clam_env_scheme) \<Rightarrow> string \<Rightarrow> string \<Rightarrow> ('s clam_world_scheme, int option) py" where
  "scan_attempt E file_uuid path = py_bind (get_size file_uuid path) (\<lambda>file_size.
     case file_size of
       None \<Rightarrow> py_seq (log_msg ERROR ''Getting file size returned: None'') (py_ret (Some 1))
     | Some z \<Rightarrow>
       (let max_file_size = CLAMAV_CLIENT_MAX_FILE_SIZE E * 1024 * 1024;
            max_scan_size = CLAMAV_CLIENT_MAX_SCAN_SIZE E * 1024 * 1024;
            too_large = (\<lambda>what limit. py_seq (log_msg INFO (''File will not be scanned. Size '' @ str_int z @
               '' bytes greater than scanner max '' @ what @ '' size '' @ float_str E limit @ '' bytes''))
              (py_seq (set_passed None) (py_ret None)))
        in if max_file_size < of_int z then too_large ''file'' max_file_size
           else if max_scan_size < of_int z then too_large ''scan'' max_scan_size
           else py_bind (get_scanner E) (\<lambda>sc.
                py_seq (py_mod (\<lambda>s. s\<lparr>v_scanner := Some sc\<rparr>))
               (py_bind (version_attrs E sc) (\<lambda>(version, definitions).
                py_seq (log_msg INFO (''Using scanner '' @ program sc @ '' ('' @ opt_str version @ '' - '' @
                          opt_str definitions @ '')''))
               (py_bind (scan E sc path) (\<lambda>(passed, state, details).
                py_seq (set_passed passed) (py_ret None))))))))"

definition scan_file ::
  "('e clam_env_scheme) \<Rightarrow> string \<Rightarrow> string \<Rightarrow> datetime \<Rightarrow> string \<Rightarrow> ('s clam_world_scheme, int) py" where
  "scan_file E file_uuid path date task_uuid =
     py_bind (file_already_scanned file_uuid) (\<lambda>scanned.
     if scanned then py_seq (log_msg INFO ''Virus scan already performed, not running scan again'') (py_ret 0)
     else
       py_seq (py_mod (\<lambda>s. s\<lparr>v_scanner := None, v_passed := Some False\<rparr>))
      (py_bind (py_finally
         (py_bind (py_try (scan_attempt E file_uuid path)
             (\<lambda>e. if is_Exception e
                   then Some (py_seq (log_msg ERROR (''Unexpected error scanning file '' @ path)) (py_ret (Some 1)))
                   else None))
           (\<lambda>r. py_bind (py_get v_passed) (\<lambda>passed.
             py_seq (py_when (r = None \<and> passed \<noteq> None) (log_msg INFO (''File '' @ path @ '' scanned!''))) (py_ret r))))
         (py_bind (py_get (\<lambda>s. (v_scanner s, v_passed s))) (\<lambda>(scanner, passed).
            queue_event E file_uuid date scanner passed)))
       (\<lambda>r. case r of
          Some c \<Rightarrow> py_ret c
        | None \<Rightarrow> py_bind (py_get v_passed) (\<lambda>passed. py_ret (if passed = Some False then 1 else 0)))))"

section \<open>call\<close>

definition clamscan_job :: "('e clam_env_scheme) \<Rightarrow> ('s clam_world_scheme, unit) py" where
  "clamscan_job E = JobContext (env_traceback E) True
     (py_bind (py_get (\<lambda>s. tl (j_args (cur_job s)))) (\<lambda>args. case args of
        [file_uuid, path, date, task_uuid] \<Rightarrow>
          py_bind (scan_file E file_uuid path date task_uuid) (\<lambda>code. upd_job (set_status code ''success''))
      | _ \<Rightarrow> py_raise (TypeError ''scan_file() got an unexpected number of arguments'')))"

definition insert_queued :: "env \<Rightarrow> queued_event \<Rightarrow> ('s world_scheme, unit) py" where
  "insert_queued E e = py_seq (insertIntoEvents E (q_fileUUID e) (q_eventIdentifierUUID e) (q_eventType e)
     (Some (q_eventDateTime e)) (q_eventDetail e) (q_eventOutcome e) [] []) (py_ret ())"

definition clamscan_call :: "('e clam_env_scheme) \<Rightarrow> job list \<Rightarrow> ('s clam_world_scheme, job list) py" where
  "clamscan_call E jobs =
     py_seq (py_mod (\<lambda>s. s\<lparr>event_queue := []\<rparr>))
    (py_bind (run_jobs (clamscan_job E) jobs) (\<lambda>jobs'.
     py_bind (py_get event_queue) (\<lambda>queue.
     py_seq (atomic (py_for queue (insert_queued (env.truncate E)))) (py_ret jobs'))))"

section \<open>The scanner interface\<close>

lemma log_upd_clam [simp]:
  "event_queue (log_upd l m s) = event_queue s" "v_scanner (log_upd l m s) = v_scanner s"
  "v_passed (log_upd l m s) = v_passed s"
  by (simp_all add: log_upd_def log_msg_def py_mod_apply split: option.splits)

text \<open>
  What \<open>scan_file\<close> relies on of \<open>ScannerBase.scan\<close>: a file passes exactly when the reported state
  is \<open>OK\<close>, and a file that was not scanned has no state.
\<close>

locale virus_scanner =
  fixes scan_path :: "string \<Rightarrow> ('s, scan_result) py"
  assumes passes_iff_ok: "fst (scan_path p s) = Inr (passed, state, details) \<Longrightarrow>
      passed = Some True \<longleftrightarrow> state = Some ''OK''"
    and unscanned: "fst (scan_path p s) = Inr (None, state, details) \<Longrightarrow> state = None"
begin

lemma other_state_fails:
  assumes "fst (scan_path p s) = Inr (passed, Some state, details)" and "state \<noteq> ''OK''"
  shows "passed = Some False"
  using passes_iff_ok [OF assms(1)] unscanned [of p s "Some state" details] assms by (cases passed) auto

end

lemma clamd_handler_result:
  "\<exists>r t. clamd_exception_handler e s = (Inr r, t) \<and> r \<noteq> Some True"
  by (auto simp: clamd_exception_handler_def py_simps split: py_exn.splits)

lemma ClamdScanner_scan_cases:
  fixes s :: "'s world_scheme"
  assumes "fst (ClamdScanner_scan E a p s) = Inr (passed, state, details)"
  shows "(passed = Some True \<longleftrightarrow> state = Some ''OK'') \<and> (passed = None \<longrightarrow> state = None)"
proof -
  define m :: "('s world_scheme, _) py"
    where "m = (if CLAMAV_PASS_BY_STREAM E then pass_by_stream E a p else pass_by_reference E a p)"
  define key where "key = (if CLAMAV_PASS_BY_STREAM E then ''stream'' else p)"
  have run: "(ClamdScanner_scan E a p :: ('s world_scheme, _) py) = py_bind (py_try
      (py_bind m (\<lambda>result. case map_of result key of
           None \<Rightarrow> py_raise (KeyError key)
         | Some (state, details) \<Rightarrow> py_ret (Some False, Some state, details)))
      (\<lambda>err. if is_Exception err
             then Some (py_bind (clamd_exception_handler err) (\<lambda>passed. py_ret (passed, None, None)))
             else None))
     (\<lambda>(passed, state, details). py_ret (if state = Some ''OK'' then Some True else passed, state, details))"
    unfolding ClamdScanner_scan_def m_def key_def by (cases "CLAMAV_PASS_BY_STREAM E") simp_all
  obtain r t where m: "m s = (r, t)" by (cases "m s")
  define h where "h = clamd_exception_handler (case r of Inl e \<Rightarrow> e | Inr _ \<Rightarrow> KeyError key) t"
  obtain q u where h: "h = (Inr q, u)" "q \<noteq> Some True" unfolding h_def using clamd_handler_result by blast
  have "is_Exception (KeyError k)" for k by (simp add: is_Exception_def)
  then show ?thesis
    using assms m h unfolding run h_def
    by (auto simp: py_simps split: sum.splits option.splits prod.splits if_splits)
qed

interpretation clamd: virus_scanner "ClamdScanner_scan E a" for E a
  using ClamdScanner_scan_cases by unfold_locales blast+

interpretation clamscan: virus_scanner "ClamScanner_scan E" for E
  by unfold_locales
    (auto simp: ClamScanner_scan_def py_simps split: prod.splits sum.splits py_exn.splits if_splits)

text \<open>Whatever the configured scanner is.\<close>

interpretation configured: virus_scanner "scan E sc :: string \<Rightarrow> ('s world_scheme, scan_result) py"
  for E :: "'e clam_env_scheme" and sc
proof (cases sc)
  case ClamScanner
  then have eq: "(scan E sc :: string \<Rightarrow> ('s world_scheme, scan_result) py) = ClamScanner_scan E"
    by (simp add: scan_def fun_eq_iff)
  show "virus_scanner (scan E sc :: string \<Rightarrow> ('s world_scheme, scan_result) py)"
    unfolding eq by (rule clamscan.virus_scanner_axioms)
next
  case (ClamdScanner a)
  then have eq: "(scan E sc :: string \<Rightarrow> ('s world_scheme, scan_result) py) = ClamdScanner_scan E a"
    by (simp add: scan_def fun_eq_iff)
  show "virus_scanner (scan E sc :: string \<Rightarrow> ('s world_scheme, scan_result) py)"
    unfolding eq by (rule clamd.virus_scanner_axioms)
qed

section \<open>The verdict on a file\<close>

text \<open>What clamd's answer means: passed, failed, or (\<open>None\<close>) not scanned.\<close>

definition clamd_answer :: "('e clam_env_scheme) \<Rightarrow> clamd_addr \<Rightarrow> string \<Rightarrow> fnode \<Rightarrow> clamd_result" where
  "clamd_answer E a path n = (if CLAMAV_PASS_BY_STREAM E
     then (case read_file n path of Inl e \<Rightarrow> Inl e | Inr content \<Rightarrow> clamd_instream E a content)
     else clamd_scan E a path n)"

fun not_scanned :: "py_exn \<Rightarrow> bool" where
  "not_scanned (OSError n m) = (n = 32)"
| "not_scanned (BufferTooLongError m) = True"
| "not_scanned (ClamdConnectionError m) = True"
| "not_scanned e = False"

definition clamd_verdict :: "('e clam_env_scheme) \<Rightarrow> clamd_addr \<Rightarrow> string \<Rightarrow> fnode \<Rightarrow> bool option" where
  "clamd_verdict E a path n = (case clamd_answer E a path n of
      Inl e \<Rightarrow> if not_scanned e then None else Some False
    | Inr result \<Rightarrow> (case map_of result (if CLAMAV_PASS_BY_STREAM E then ''stream'' else path) of
        Some (state, _) \<Rightarrow> Some (state = ''OK'') | None \<Rightarrow> Some False))"

lemma clamd_handler_eq:
  "\<exists>t. clamd_exception_handler e s = (Inr (if not_scanned e then None else Some False), t) \<and> only_logged s t"
  by (cases e) (auto simp: clamd_exception_handler_def py_simps)

lemma ClamdScanner_scan_verdict:
  fixes s :: "'s world_scheme"
  assumes "\<And>e. clamd_answer E a p (fs s) = Inl e \<Longrightarrow> is_Exception e"
  shows "\<exists>state details t. ClamdScanner_scan E a p s = (Inr (clamd_verdict E a p (fs s), state, details), t) \<and> only_logged s t"
proof -
  define m :: "('s world_scheme, _) py"
    where "m = (if CLAMAV_PASS_BY_STREAM E then pass_by_stream E a p else pass_by_reference E a p)"
  define key where "key = (if CLAMAV_PASS_BY_STREAM E then ''stream'' else p)"
  have "\<exists>l x. m s = (clamd_answer E a p (fs s), log_upd l x s)"
    by (auto simp: m_def pass_by_stream_def pass_by_reference_def py_simps clamd_answer_def split: sum.splits)
  then obtain t where m: "m s = (clamd_answer E a p (fs s), t)" "only_logged s t" by auto
  let ?e = "case clamd_answer E a p (fs s) of Inl e \<Rightarrow> e | Inr _ \<Rightarrow> KeyError key"
  obtain u where u: "clamd_exception_handler ?e t = (Inr (if not_scanned ?e then None else Some False), u)" "only_logged t u"
    using clamd_handler_eq by blast
  have su: "only_logged s u" using m(2) u(2) by (rule only_logged_trans)
  have key: "is_Exception (KeyError k)" for k by (simp add: is_Exception_def)
  have "ClamdScanner_scan E a p s = (case clamd_answer E a p (fs s) of
      Inl e \<Rightarrow> (Inr (clamd_verdict E a p (fs s), None, None), u)
    | Inr result \<Rightarrow> (case map_of result key of
        None \<Rightarrow> (Inr (clamd_verdict E a p (fs s), None, None), u)
      | Some (state, details) \<Rightarrow> (Inr (clamd_verdict E a p (fs s), Some state, details), t)))"
    using m(1) u(1) assms key unfolding m_def key_def
    by (auto simp: ClamdScanner_scan_def py_simps clamd_verdict_def Let_def split: sum.splits option.splits)
  then show ?thesis using su m(2) by (auto split: sum.splits option.splits)
qed

section \<open>One file from start to end\<close>

lemma version_parts_text: "\<exists>v d. clamav_version_parts (Text t) = Inr (v, d)"
  by (auto simp: clamav_version_parts_def split: list.splits)

lemma get_size_known:
  assumes "db_inv s" and "f \<in> set (Files s)" and "f_uuid f \<noteq> ''None''"
  shows "get_size (f_uuid f) path s = (Inr (f_size f), s)"
  using assms by (simp add: get_size_def py_simps get_by_key Let_def)

lemma get_scanner_clamd:
  assumes "map to_lower (CLAMAV_CLIENT_BACKEND E) \<noteq> ''clamscanner''" and "get_client E = Inr a"
  shows "\<exists>t. get_scanner E s = (Inr (ClamdScanner a), t) \<and> only_logged s t"
  using assms by (auto simp: get_scanner_def Let_def py_simps)

lemma only_logged_clam:
  assumes "only_logged s t"
  shows "only_logged (s\<lparr>v_scanner := x\<rparr>) (t\<lparr>v_scanner := x\<rparr>)" "only_logged (s\<lparr>v_passed := p\<rparr>) (t\<lparr>v_passed := p\<rparr>)"
    "v_passed t = v_passed s" "v_scanner t = v_scanner s" "event_queue t = event_queue s"
  using assms by (cases s; cases t; simp add: only_logged_def)+

text \<open>The queue entry a verdict leads to.\<close>

definition queue_entry :: "queued_event \<Rightarrow> string \<times> string \<times> datetime \<times> string" where
  "queue_entry q = (q_fileUUID q, q_eventType q, q_eventDateTime q, q_eventOutcome q)"

lemma queue_event_eq:
  assumes "u \<noteq> ''None''" and "passed \<noteq> None \<Longrightarrow> \<exists>d. scanner_detail E sc s = (Inr d, s)"
  shows "\<exists>t. queue_event E u date sc passed s = (Inr (), t) \<and> Events t = Events s \<and> Files t = Files s \<and> fs t = fs s \<and>
     v_passed t = v_passed s \<and> map queue_entry (event_queue t) = map queue_entry (event_queue s) @
       (case passed of None \<Rightarrow> [] | Some b \<Rightarrow> [(u, ''virus check'', date, if b then ''Pass'' else ''Fail'')])"
proof (cases passed)
  case None
  then show ?thesis using assms(1) by (simp add: queue_event_def py_simps)
next
  case (Some b)
  then obtain d where "scanner_detail E sc s = (Inr d, s)" using assms(2) by auto
  then show ?thesis using Some assms(1) by (auto simp: queue_event_def py_simps Let_def queue_entry_def)
qed

text \<open>A file within the limits, scanned through clamd: the attempt ends with clamd's verdict.\<close>

definition within_limits :: "('e clam_env_scheme) \<Rightarrow> int \<Rightarrow> bool" where
  "within_limits E z \<longleftrightarrow> of_int z \<le> CLAMAV_CLIENT_MAX_FILE_SIZE E * 1024 * 1024 \<and>
     of_int z \<le> CLAMAV_CLIENT_MAX_SCAN_SIZE E * 1024 * 1024"

lemma scan_attempt_clamd:
  fixes s :: "'s clam_world_scheme"
  assumes size: "get_size u path s = (Inr (Some z), s)" and lim: "within_limits E z"
    and backend: "map to_lower (CLAMAV_CLIENT_BACKEND E) \<noteq> ''clamscanner''" "get_client E = Inr a"
    and ver: "clamd_version E a = Inr v"
    and exns: "\<And>e. clamd_answer E a path (fs s) = Inl e \<Longrightarrow> is_Exception e"
  shows "\<exists>t. scan_attempt E u path s = (Inr None, t) \<and> only_logged (s\<lparr>v_scanner := Some (ClamdScanner a),
     v_passed := clamd_verdict E a path (fs s)\<rparr>) t"
proof -
  obtain w where w: "get_scanner E s = (Inr (ClamdScanner a), w)" "only_logged s w"
    using get_scanner_clamd [OF backend] by blast
  obtain vn d where vd: "clamav_version_parts (Text v) = Inr (vn, d)" using version_parts_text by blast
  let ?w = "log_upd INFO (''Using scanner '' @ program (ClamdScanner a) @ '' ('' @ opt_str vn @ '' - '' @ opt_str d @ '')'')
    (w\<lparr>v_scanner := Some (ClamdScanner a)\<rparr>)"
  have "fs ?w = fs s" using only_logged_same(8) [OF w(2)] by simp
  then obtain st dt x where x: "scan E (ClamdScanner a) path ?w = (Inr (clamd_verdict E a path (fs s), st, dt), x)"
    "only_logged ?w x"
    using ClamdScanner_scan_verdict [of E a path ?w] exns by (auto simp: scan_def)
  have run: "scan_attempt E u path s = (Inr None, x\<lparr>v_passed := clamd_verdict E a path (fs s)\<rparr>)"
    using size lim w(1) ver vd x(1)
    by (simp add: scan_attempt_def py_simps Let_def within_limits_def version_attrs_def set_passed_def not_less)
  have "only_logged (s\<lparr>v_scanner := Some (ClamdScanner a)\<rparr>) x"
    by (rule only_logged_trans [OF only_logged_trans [OF only_logged_clam(1) [OF w(2)] only_logged_upd(2)] x(2)])
  from only_logged_clam(2) [OF this] show ?thesis unfolding run by blast
qed

section \<open>Nothing but the scanner lets a file pass\<close>

lemma keeps_logged_reads [keeps_intros]:
  "keeps (only_logged s) (get_file u)" "keeps (only_logged s) (get_size u p)"
  unfolding get_file_def get_size_def
  by (intro keeps_intros keeps_bind keeps_try; (auto split: py_exn.splits if_splits intro: keeps_intros)?)+

lemma keeps_logged_scanner [keeps_intros]:
  "keeps (only_logged s) (get_scanner E)" "keeps (only_logged s) (ClamScanner_call E args)"
  unfolding get_scanner_def ClamScanner_call_def by (intro keeps_intros keeps_bind)+

lemma keeps_logged_handler [keeps_intros]: "keeps (only_logged s) (clamd_exception_handler e)"
  by (cases e) (auto simp: clamd_exception_handler_def intro!: keeps_intros)

lemma keeps_logged_version [keeps_intros]: "keeps (only_logged s) (version_attrs E sc)"
  by (cases sc) (auto simp: version_attrs_def split: py_exn.splits intro!: keeps_intros keeps_bind keeps_try)

lemma keeps_logged_scan [keeps_intros]: "keeps (only_logged s) (scan E sc p)"
proof (cases sc)
  case ClamScanner
  then show ?thesis
    by (auto simp: scan_def ClamScanner_scan_def split: py_exn.splits intro!: keeps_intros keeps_try)
next
  case (ClamdScanner a)
  have "keeps (only_logged s) (pass_by_stream E a p)" "keeps (only_logged s) (pass_by_reference E a p)"
    unfolding pass_by_stream_def pass_by_reference_def by (intro keeps_intros keeps_bind)+
  with ClamdScanner show ?thesis
    by (auto simp: scan_def ClamdScanner_scan_def Let_def split: prod.splits option.splits
        intro!: keeps_intros keeps_bind)
qed

text \<open>
  What a run of the \<open>try\<close> block guarantees however it ends: the queue is untouched and a passed
  file has been reported \<open>OK\<close> on the unchanged file system.
\<close>

definition attempt_inv :: "('e clam_env_scheme) \<Rightarrow> string \<Rightarrow> 's clam_world_scheme \<Rightarrow> 's clam_world_scheme \<Rightarrow> bool" where
  "attempt_inv E p s0 s \<longleftrightarrow> fs s = fs s0 \<and> event_queue s = event_queue s0 \<and> uuids s = uuids s0 \<and>
     (v_passed s = Some True \<longrightarrow> (\<exists>sc (s' :: 's clam_world_scheme) d t. fs s' = fs s0 \<and>
        scan E sc p s' = (Inr (Some True, Some ''OK'', d), t)))"

lemma attempt_inv_logged: "only_logged s t \<Longrightarrow> attempt_inv E p s0 t = attempt_inv E p s0 s"
  using only_logged_same [of s t] only_logged_clam [of s t] by (simp add: attempt_inv_def)

lemma keeps_attempt_logged:
  assumes "\<And>s. keeps (only_logged s) m"
  shows "keeps (attempt_inv E p s0) m"
  using logged_only [OF assms] attempt_inv_logged unfolding keeps_def by blast

lemma keeps_attempt:
  fixes s0 :: "'s clam_world_scheme"
  shows "keeps (attempt_inv E p s0) (scan_attempt E u p)"
proof -
  let ?I = "attempt_inv E p s0"
  define verdict :: "scanner \<Rightarrow> ('s clam_world_scheme, int option) py" where "verdict sc =
    py_bind (scan E sc p) (\<lambda>(passed, state, details). py_seq (set_passed passed) (py_ret None))" for sc
  have tail: "keeps ?I (verdict sc)" for sc
    unfolding verdict_def
  proof (rule keepsI)
    fix s :: "'s clam_world_scheme" assume inv: "?I s"
    obtain r t where r: "scan E sc p s = (r, t)" by (cases "scan E sc p s")
    have "keeps ?I (scan E sc p)" by (intro keeps_attempt_logged keeps_intros)
    from keepsD [OF this inv] have t: "?I t" using r by simp
    have "\<exists>d. r = Inr (Some True, Some ''OK'', d)" if "r = Inr (Some True, state, d)" for state d
      using configured.passes_iff_ok [of E sc p s "Some True" state d] r that by simp
    then show "?I (snd (py_bind (scan E sc p)
        (\<lambda>(passed, state, details). py_seq (set_passed passed) (py_ret None)) s))"
      using r t inv by (auto simp: py_simps set_passed_def attempt_inv_def split: sum.splits prod.splits) blast+
  qed
  have none: "keeps ?I (set_passed None)" by (auto simp: keeps_def set_passed_def py_simps attempt_inv_def)
  show ?thesis
    unfolding scan_attempt_def verdict_def [symmetric]
    by (intro keeps_intros keeps_bind tail none keeps_attempt_logged [of "get_size u p"]
        keeps_attempt_logged [of "get_scanner E"] keeps_attempt_logged [of "log_msg l m" for l m]
        keeps_attempt_logged [of "version_attrs E sc" for sc])
      (auto simp: attempt_inv_def)
qed

lemma queue_event_passes:
  assumes "q \<in> set (event_queue (snd (queue_event E u date sc passed s)))" and "q \<notin> set (event_queue s)"
    and "q_eventOutcome q = ''Pass''"
  shows "passed = Some True"
proof -
  have "keeps (only_logged s) (scanner_detail E sc)"
    unfolding scanner_detail_def by (intro keeps_intros keeps_bind)
  then have "only_logged s (snd (scanner_detail E sc s))" by (simp add: keeps_def)
  from only_logged_clam(5) [OF this] show ?thesis
    using assms by (auto simp: queue_event_def py_simps Let_def split: if_splits option.splits prod.splits sum.splits)
qed

section \<open>Properties\<close>

text \<open>C18. The virus check through clamd, on every path. For a known file with a recorded size that was
  not checked before, with a client that connects and answers with a version, \<open>scan_file\<close>
  returns: a file above one of the size limits, or one clamd could not take (broken pipe, buffer
  too long, connection lost), gives 0 and no event; a file reported \<open>OK\<close> gives 0 and one
  \<open>virus check\<close> event with outcome \<open>Pass\<close> in the queue; any other answer or exception gives 1
  and an event with outcome \<open>Fail\<close>.\<close>

theorem scan_file_verdict:
  fixes s :: "'s clam_world_scheme"
  assumes inv: "db_inv s" and f: "f \<in> set (Files s)" "f_uuid f \<noteq> ''None''" "f_size f = Some z"
    and new: "\<And>e. e \<in> set (Events s) \<Longrightarrow> e_file_uuid e \<noteq> Some (f_uuid f) \<or> e_event_type e \<noteq> ''virus check''"
    and backend: "map to_lower (CLAMAV_CLIENT_BACKEND E) \<noteq> ''clamscanner''" "get_client E = Inr a"
    and ver: "clamd_version E a = Inr v"
    and exns: "\<And>e. clamd_answer E a path (fs s) = Inl e \<Longrightarrow> is_Exception e"
  defines "passed \<equiv> (if within_limits E z then clamd_verdict E a path (fs s) else None)"
  shows "\<exists>t. scan_file E (f_uuid f) path date task s = (Inr (if passed = Some False then 1 else 0), t) \<and>
     Events t = Events s \<and> Files t = Files s \<and>
     map queue_entry (event_queue t) = map queue_entry (event_queue s) @ (case passed of None \<Rightarrow> []
       | Some b \<Rightarrow> [(f_uuid f, ''virus check'', date, if b then ''Pass'' else ''Fail'')])"
proof -
  let ?s = "s\<lparr>v_scanner := None, v_passed := Some False\<rparr>"
  have inv': "db_inv ?s" using inv by (simp add: db_inv_def file_fks_ok_def event_fks_ok_def derivation_fks_ok_def)
  have size: "get_size (f_uuid f) path ?s = (Inr (Some z), ?s)"
    using get_size_known [OF inv', of f path] f by simp
  have scanned: "file_already_scanned (f_uuid f) s = (Inr False, s)"
    using new by (auto simp: file_already_scanned_def py_simps)
  obtain vn d where vd: "clamav_version_parts (Text v) = Inr (vn, d)" using version_parts_text by blast
  have "\<exists>sc t. scan_attempt E (f_uuid f) path ?s = (Inr None, t) \<and> only_logged (s\<lparr>v_scanner := sc, v_passed := passed\<rparr>) t \<and>
      (sc = None \<or> sc = Some (ClamdScanner a))"
  proof (cases "within_limits E z")
    case True
    then show ?thesis
      using scan_attempt_clamd [OF size True backend ver] exns by (auto simp: passed_def)
  next
    case False
    have "only_logged (s\<lparr>v_scanner := None, v_passed := None\<rparr>) ((log_upd l m ?s)\<lparr>v_passed := None\<rparr>)" for l m
      using only_logged_clam(2) [OF only_logged_upd(2) [of ?s l m], of None] by simp
    with False size show ?thesis
      by (auto simp: scan_attempt_def within_limits_def py_simps set_passed_def Let_def passed_def not_le)
  qed
  then obtain sc t where t: "scan_attempt E (f_uuid f) path ?s = (Inr None, t)"
    "only_logged (s\<lparr>v_scanner := sc, v_passed := passed\<rparr>) t" "sc = None \<or> sc = Some (ClamdScanner a)" by blast
  let ?u = "if passed \<noteq> None then log_upd INFO (''File '' @ path @ '' scanned!'') t else t"
  have u: "only_logged (s\<lparr>v_scanner := sc, v_passed := passed\<rparr>) ?u"
    using t(2) by (auto intro: only_logged_trans)
  have detail: "\<exists>d. scanner_detail E sc ?u = (Inr d, ?u)"
    using t(3) ver vd by (auto simp: scanner_detail_def py_simps version_attrs_def)
  obtain w where w: "queue_event E (f_uuid f) date sc passed ?u = (Inr (), w)" "Events w = Events ?u" "Files w = Files ?u"
    "v_passed w = v_passed ?u" "map queue_entry (event_queue w) = map queue_entry (event_queue ?u) @
       (case passed of None \<Rightarrow> [] | Some b \<Rightarrow> [(f_uuid f, ''virus check'', date, if b then ''Pass'' else ''Fail'')])"
    using queue_event_eq [OF f(2) detail, where passed = passed] by blast
  have same: "Events ?u = Events s" "Files ?u = Files s" "v_passed ?u = passed" "v_scanner ?u = sc" "event_queue ?u = event_queue s"
    "v_passed t = passed"
    using only_logged_same [OF u] only_logged_clam [OF u] only_logged_clam [OF t(2)] by simp_all
  have "scan_file E (f_uuid f) path date task s = (Inr (if passed = Some False then 1 else 0), w)"
    using scanned t(1) w(1,4) same by (cases passed) (simp_all add: scan_file_def py_simps)
  with w same show ?thesis by auto
qed

definition clam_env_ex :: clam_env where
  "clam_env_ex = \<lparr>env_now = (\<lambda>n. ''now'' @ str_nat n), env_uuid4 = (\<lambda>n. ''uuid'' @ str_nat n),
     env_traceback = (\<lambda>e. []), env_cwd = ''/'', CLAMAV_SERVER = ''/run/clamd'', CLAMAV_PASS_BY_STREAM = True,
     CLAMAV_CLIENT_BACKEND = ''clamdscanner'', CLAMAV_CLIENT_MAX_FILE_SIZE = 42, CLAMAV_CLIENT_MAX_SCAN_SIZE = 42,
     clamd_connect = (\<lambda>a. Inr ()), clamd_version = (\<lambda>a. Inr ''ClamAV 0.99.2''),
     clamd_scan = (\<lambda>a p n. Inr [(p, ''OK'', None)]),
     clamd_instream = (\<lambda>a c. Inr [(''stream'', if c = ''x'' then ''FOUND'' else ''OK'', None)]),
     clamscan_exec = (\<lambda>c n. Inr (0, ''ClamAV 0.99.2'')), float_str = (\<lambda>x. [])\<rparr>"

definition clam_world_ex :: clam_world where
  "clam_world_ex = (world.extend world_ex (clam_world.fields [] None None))\<lparr>
     Files := [file_ex\<lparr>f_size := Some 1\<rparr>], fs := FDir [(''a'', FFile ''x'')]\<rparr>"

definition clam_world_clean :: clam_world where
  "clam_world_clean = clam_world_ex\<lparr>fs := FDir [(''a'', FFile ''y'')]\<rparr>"

lemmas clam_ex_defs = clam_env_ex_def clam_world_ex_def world.extend_def clam_world.fields_def ex_defs

lemma clam_world_ex_inv: "db_inv clam_world_ex"
  by (simp add: clam_ex_defs db_inv_def file_fks_ok_def)

theorem scan_file_verdict_witness:
  "\<exists>t. scan_file clam_env_ex ''f'' ''/a'' ''2020'' ''task'' clam_world_ex = (Inr 1, t) \<and>
     map queue_entry (event_queue t) = [(''f'', ''virus check'', ''2020'', ''Fail'')]"
proof -
  let ?f = "file_ex\<lparr>f_size := Some 1\<rparr>" and ?E = clam_env_ex and ?s = clam_world_ex
  have f: "?f \<in> set (Files ?s)" "f_uuid ?f = ''f''" "f_size ?f = Some 1" by (simp_all add: clam_ex_defs)
  have ev: "Events ?s = []" "event_queue ?s = []" by (simp_all add: clam_ex_defs)
  have backend: "map to_lower (CLAMAV_CLIENT_BACKEND ?E) \<noteq> ''clamscanner''"
    by (simp add: clam_env_ex_def to_lower_def is_upper_def)
  have client: "get_client ?E = Inr (UnixSocket ''/run/clamd'')"
    by (simp add: clam_env_ex_def get_client_def clamd_address_def)
  have ver: "clamd_version ?E (UnixSocket ''/run/clamd'') = Inr ''ClamAV 0.99.2''" by (simp add: clam_env_ex_def)
  have ans: "clamd_answer ?E (UnixSocket ''/run/clamd'') ''/a'' (fs ?s) = Inr [(''stream'', ''FOUND'', None)]"
    by (simp add: clamd_answer_def clam_ex_defs read_file_def fs_node_def path_comps_def)
  then have verdict: "clamd_verdict ?E (UnixSocket ''/run/clamd'') ''/a'' (fs ?s) = Some False"
    by (simp add: clamd_verdict_def clam_env_ex_def)
  have lim: "within_limits ?E 1" by (simp add: within_limits_def clam_env_ex_def)
  have exns: "is_Exception e" if "clamd_answer ?E (UnixSocket ''/run/clamd'') ''/a'' (fs ?s) = Inl e" for e
    using that ans by simp
  show ?thesis
    using scan_file_verdict [OF clam_world_ex_inv f(1) _ f(3) _ backend client ver exns,
        where path = "''/a''" and date = "''2020''" and task = "''task''"]
    unfolding f(2) ev by (auto simp: lim verdict)
qed

text \<open>No file passes the virus check unless its scanner reported it \<open>OK\<close>: whatever the settings, the
  answers and exceptions of the scanners and the state, an event with outcome \<open>Pass\<close> that
  \<open>scan_file\<close> adds to the queue means that scanning that path, on the file system as it is,
  returned the state \<open>OK\<close>.\<close>

theorem pass_needs_ok:
  fixes s :: "'s clam_world_scheme"
  assumes "q \<in> set (event_queue (snd (scan_file E u p date task s)))" and "q \<notin> set (event_queue s)"
    and "q_eventOutcome q = ''Pass''"
  shows "\<exists>sc (s' :: 's clam_world_scheme) d t. fs s' = fs s \<and> scan E sc p s' = (Inr (Some True, Some ''OK'', d), t)"
proof -
  define m :: "('s clam_world_scheme, int option) py" where "m = py_bind (py_try (scan_attempt E u p)
      (\<lambda>e. if is_Exception e
            then Some (py_seq (log_msg ERROR (''Unexpected error scanning file '' @ p)) (py_ret (Some 1)))
            else None))
    (\<lambda>r. py_bind (py_get v_passed) (\<lambda>passed.
      py_seq (py_when (r = None \<and> passed \<noteq> None) (log_msg INFO (''File '' @ p @ '' scanned!''))) (py_ret r)))"
  let ?s = "s\<lparr>v_scanner := None, v_passed := Some False\<rparr>" and ?I = "attempt_inv E p s"
  have "keeps ?I m"
    unfolding m_def
    by (intro keeps_intros keeps_bind keeps_attempt keeps_attempt_logged [of "log_msg l x" for l x])
  moreover have "?I ?s" by (simp add: attempt_inv_def)
  ultimately have inv: "?I (snd (m ?s))" by (rule keepsD)
  define t where "t = snd (m ?s)"
  have "event_queue (snd (scan_file E u p date task s)) = event_queue (snd (queue_event E u date (v_scanner t) (v_passed t) t))"
    if "\<not> (u \<noteq> ''None'' \<and> (\<exists>e \<in> set (Events s). e_file_uuid e = Some u \<and> e_event_type e = ''virus check''))"
    using that unfolding scan_file_def m_def [symmetric] t_def
    by (auto simp: py_simps file_already_scanned_def split: prod.splits sum.splits option.splits)
  moreover have "event_queue (snd (scan_file E u p date task s)) = event_queue s"
    if "u \<noteq> ''None'' \<and> (\<exists>e \<in> set (Events s). e_file_uuid e = Some u \<and> e_event_type e = ''virus check'')"
    using that by (auto simp: scan_file_def py_simps file_already_scanned_def)
  ultimately have "q \<in> set (event_queue (snd (queue_event E u date (v_scanner t) (v_passed t) t)))"
    using assms(1,2) by metis
  moreover have "q \<notin> set (event_queue t)" using inv assms(2) by (simp add: attempt_inv_def t_def)
  ultimately have "v_passed t = Some True" using assms(3) by (rule queue_event_passes)
  then show ?thesis using inv by (simp add: attempt_inv_def t_def)
qed

theorem pass_needs_ok_witness:
  "\<exists>sc (s' :: clam_world) d t. fs s' = fs clam_world_clean \<and>
     scan clam_env_ex sc ''/a'' s' = (Inr (Some True, Some ''OK'', d), t)"
proof -
  let ?E = clam_env_ex and ?s = clam_world_clean
  let ?q = "\<lparr>q_fileUUID = ''f'', q_eventIdentifierUUID = ''uuid'' @ str_nat 0, q_eventType = ''virus check'',
    q_eventDateTime = ''2020'', q_eventDetail = ''program='' @ [CHR 0x22] @ ''ClamAV (clamd)'' @ [CHR 0x22] @ ''; version='' @
      [CHR 0x22] @ ''ClamAV 0.99.2'' @ [CHR 0x22] @ ''; virusDefinitions='' @ [CHR 0x22] @ ''None'' @ [CHR 0x22],
    q_eventOutcome = ''Pass''\<rparr>"
  have size: "get_size ''f'' ''/a'' (?s\<lparr>v_scanner := None, v_passed := Some False\<rparr>) =
      (Inr (Some 1), ?s\<lparr>v_scanner := None, v_passed := Some False\<rparr>)"
    by (simp add: get_size_def get_file_def py_simps clam_world_clean_def clam_ex_defs get_one_def Let_def)
  have sc: "get_scanner ?E t = (Inr (ClamdScanner (UnixSocket ''/run/clamd'')), t)" for t :: clam_world
    by (simp add: get_scanner_def Let_def clam_env_ex_def to_lower_def is_upper_def SCANNERS_NAMES_def py_simps get_client_def
        clamd_address_def)
  have ver: "version_attrs ?E (ClamdScanner a) t = (Inr (Some ''ClamAV 0.99.2'', None), t)" for a and t :: clam_world
    by (simp add: version_attrs_def py_simps clam_env_ex_def clamav_version_parts_def)
  have scn: "scan ?E (ClamdScanner a) ''/a'' t = (Inr (Some True, Some ''OK'', None),
      log_upd INFO ''File contents being streamed to Clamdscan.'' t)" if "fs t = fs ?s" for a and t :: clam_world
    using that by (simp add: scan_def ClamdScanner_scan_def clam_env_ex_def pass_by_stream_def py_simps read_file_def
        fs_node_def path_comps_def clam_world_clean_def)
  have tab: "Events ?s = []" "event_queue ?s = []" "uuids ?s = 0" by (simp_all add: clam_world_clean_def clam_ex_defs)
  have lim: "CLAMAV_CLIENT_MAX_FILE_SIZE ?E = 42" "CLAMAV_CLIENT_MAX_SCAN_SIZE ?E = 42"
    "env_uuid4 ?E 0 = ''uuid'' @ str_nat 0" by (simp_all add: clam_env_ex_def)
  have "event_queue (snd (scan_file ?E ''f'' ''/a'' ''2020'' ''task'' ?s)) = [?q]"
    by (simp add: scan_file_def scan_attempt_def py_simps file_already_scanned_def tab size sc ver scn lim Let_def
        set_passed_def queue_event_def scanner_detail_def program_def opt_str_def env.truncate_def)
  then show ?thesis
    using pass_needs_ok [of ?q ?E "''f''" "''/a''" "''2020''" "''task''" ?s]
    by (simp add: clam_world_clean_def clam_ex_defs)
qed

text \<open>C19. The \<open>clamscan\<close> backend never scans: with \<open>CLAMAV_CLIENT_BACKEND\<close> set to \<open>clamscanner\<close> and the
  program installed, every file within the limits makes \<open>scan_file\<close> raise a \<open>TypeError\<close> (the
  version is bytes and is split at a text separator, once when it is logged and again while the
  event of the failure is prepared), and no event is queued.\<close>

theorem clamscan_backend_raises:
  fixes s :: "'s clam_world_scheme"
  assumes inv: "db_inv s" and f: "f \<in> set (Files s)" "f_uuid f \<noteq> ''None''" "f_size f = Some z"
    and new: "\<And>e. e \<in> set (Events s) \<Longrightarrow> e_file_uuid e \<noteq> Some (f_uuid f) \<or> e_event_type e \<noteq> ''virus check''"
    and backend: "map to_lower (CLAMAV_CLIENT_BACKEND E) = ''clamscanner''" and lim: "within_limits E z"
    and installed: "clamscan_exec E [''clamscan'', ''-V''] (fs s) = Inr (0, out)"
  shows "\<exists>t. scan_file E (f_uuid f) path date task s = (Inl (TypeError ''a bytes-like object is required''), t) \<and>
     event_queue t = event_queue s \<and> Events t = Events s"
proof -
  let ?s = "s\<lparr>v_scanner := None, v_passed := Some False\<rparr>"
  let ?e = "TypeError ''a bytes-like object is required''"
  have inv': "db_inv ?s" using inv by (simp add: db_inv_def file_fks_ok_def event_fks_ok_def derivation_fks_ok_def)
  have size: "get_size (f_uuid f) path ?s = (Inr (Some z), ?s)"
    using get_size_known [OF inv', of f path] f by simp
  have scanned: "file_already_scanned (f_uuid f) s = (Inr False, s)"
    using new by (auto simp: file_already_scanned_def py_simps)
  have ver: "version_attrs E ClamScanner t = (Inl ?e, t)" if "fs t = fs s" for t :: "'s clam_world_scheme"
    using that installed by (simp add: version_attrs_def ClamScanner_call_def py_simps clamav_version_parts_def)
  have "scan_attempt E (f_uuid f) path ?s = (Inl ?e, ?s\<lparr>v_scanner := Some ClamScanner\<rparr>)"
    using size lim backend ver
    by (simp add: scan_attempt_def py_simps within_limits_def Let_def not_less get_scanner_def SCANNERS_NAMES_def)
  then show ?thesis
    using scanned f(2) ver
    by (simp add: scan_file_def py_simps is_Exception_def queue_event_def Let_def scanner_detail_def)
qed

theorem clamscan_backend_raises_witness:
  "\<exists>t. scan_file (clam_env_ex\<lparr>CLAMAV_CLIENT_BACKEND := ''clamscanner''\<rparr>) ''f'' ''/a'' ''2020'' ''task'' clam_world_ex =
     (Inl (TypeError ''a bytes-like object is required''), t) \<and> event_queue t = [] \<and> Events t = []"
proof -
  let ?f = "file_ex\<lparr>f_size := Some 1\<rparr>" and ?s = clam_world_ex
  let ?E = "clam_env_ex\<lparr>CLAMAV_CLIENT_BACKEND := ''clamscanner''\<rparr>"
  have f: "?f \<in> set (Files ?s)" "f_uuid ?f = ''f''" "f_size ?f = Some 1" by (simp_all add: clam_ex_defs)
  have ev: "Events ?s = []" "event_queue ?s = []" by (simp_all add: clam_ex_defs)
  have backend: "map to_lower (CLAMAV_CLIENT_BACKEND ?E) = ''clamscanner''" by (simp add: to_lower_def is_upper_def)
  have lim: "within_limits ?E 1" by (simp add: within_limits_def clam_env_ex_def)
  have exec: "clamscan_exec ?E [''clamscan'', ''-V''] (fs ?s) = Inr (0, ''ClamAV 0.99.2'')"
    by (simp add: clam_env_ex_def)
  show ?thesis
    using clamscan_backend_raises [OF clam_world_ex_inv f(1) _ f(3) _ backend lim exec,
        where path = "''/a''" and date = "''2020''" and task = "''task''"]
    unfolding f(2) ev by auto
qed

end
