(* ===== verification/FPR.thy ===== *)
theory FPR
  imports Scripts
begin

text \<open>
  The format policy registry as the client scripts use it (\<open>fpr/models.py\<close>): format versions,
  tools, commands and rules, their versioning (saving a new version disables the one it
  replaces), and \<open>FileFormatVersion\<close>, the link of a file to its format.
\<close>

section \<open>Rows\<close>

record format_version_row =
  fv_uuid :: string
  fv_format :: "string option"
  fv_version :: "string option"
  fv_pronom_id :: "string option"
  fv_description :: "string option"
  fv_access_format :: bool
  fv_preservation_format :: bool
  fv_replaces :: "string option"
  fv_enabled :: bool

record fptool_row =
  ft_uuid :: string
  ft_description :: string
  ft_version :: string
  ft_enabled :: bool

record fpcommand_row =
  fc_uuid :: string
  fc_tool :: "string option"
  fc_description :: string
  fc_command :: string
  fc_script_type :: string
  fc_output_location :: "string option"
  fc_output_format :: "string option"
  fc_command_usage :: string
  fc_verification_command :: "string option"
  fc_event_detail_command :: "string option"
  fc_replaces :: "string option"
  fc_enabled :: bool

record fprule_row =
  fr_uuid :: string
  fr_purpose :: string
  fr_command :: string
  fr_format :: string
  fr_count_attempts :: int
  fr_count_okay :: int
  fr_count_not_okay :: int
  fr_replaces :: "string option"
  fr_enabled :: bool

record file_format_version_row =
  ffv_file_uuid :: string
  ffv_format_version :: string

record fpr_world = world +
  FormatVersions :: "format_version_row list"
  FPTools :: "fptool_row list"
  FPCommands :: "fpcommand_row list"
  Rules :: "fprule_row list"
  FileFormatVersions :: "file_format_version_row list"

section \<open>Queries\<close>

text \<open>The manager \<open>active\<close> only returns enabled rows.\<close>

definition active_rules :: "'s fpr_world_scheme \<Rightarrow> fprule_row list" where
  "active_rules s = filter fr_enabled (Rules s)"

definition active_format_versions :: "'s fpr_world_scheme \<Rightarrow> format_version_row list" where
  "active_format_versions s = filter fv_enabled (FormatVersions s)"

text \<open>\<open>FormatVersion.active.get(fileformatversion__file_uuid=u)\<close>: one result per link.\<close>

definition get_format_of_file :: "string \<Rightarrow> ('s fpr_world_scheme, format_version_row) py" where
  "get_format_of_file u = py_bind (py_get (\<lambda>s. concat (map (\<lambda>l.
        filter (\<lambda>v. fv_uuid v = ffv_format_version l) (active_format_versions s))
      (filter (\<lambda>l. ffv_file_uuid l = u) (FileFormatVersions s)))))
     (\<lambda>rs. py_lift (get_one ''FormatVersion'' rs))"

definition rule_command :: "fprule_row \<Rightarrow> ('s fpr_world_scheme, fpcommand_row) py" where
  "rule_command r = py_bind (py_get (\<lambda>s. filter (\<lambda>c. fc_uuid c = fr_command r) (FPCommands s)))
     (\<lambda>rs. py_lift (get_one ''FPCommand'' rs))"

definition command_tool :: "fpcommand_row \<Rightarrow> ('s fpr_world_scheme, fptool_row) py" where
  "command_tool c = (case fc_tool c of
      None \<Rightarrow> py_raise (AttributeError ''description'')
    | Some u \<Rightarrow> py_bind (py_get (\<lambda>s. filter (\<lambda>t. ft_uuid t = u) (FPTools s)))
        (\<lambda>rs. py_lift (get_one ''FPTool'' rs)))"

section \<open>Versions\<close>

text \<open>
  \<open>VersionedModel.save(replacing)\<close> for a rule: with a row to replace, the object becomes a new,
  enabled row that points to it, and the replaced row is disabled and saved.
\<close>

definition save_rule :: "env \<Rightarrow> fprule_row option \<Rightarrow> fprule_row \<Rightarrow> ('s fpr_world_scheme, fprule_row) py" where
  "save_rule E replacing r = (case replacing of
      None \<Rightarrow> py_seq (py_mod (\<lambda>s. s\<lparr>Rules := row_save fr_uuid r (Rules s)\<rparr>)) (py_ret r)
    | Some old \<Rightarrow>
        py_bind (uuid4 E) (\<lambda>u.
        (let r' = r\<lparr>fr_replaces := Some (fr_uuid old), fr_uuid := u, fr_enabled := True\<rparr> in
         py_seq (py_mod (\<lambda>s. s\<lparr>Rules := row_save fr_uuid (old\<lparr>fr_enabled := False\<rparr>) (Rules s)\<rparr>))
        (py_bind (py_get (\<lambda>s. row_insert fr_uuid True r' (Rules s))) (\<lambda>x.
         py_bind (py_lift x) (\<lambda>rows. py_seq (py_mod (\<lambda>s. s\<lparr>Rules := rows\<rparr>)) (py_ret r')))))))"

text \<open>\<open>FormatVersion.validate_unique\<close>: no second enabled version with the same PRONOM id.\<close>

definition validate_unique_format :: "bool \<Rightarrow> format_version_row \<Rightarrow> ('s fpr_world_scheme, unit) py" where
  "validate_unique_format adding v = (case fv_pronom_id v of
      None \<Rightarrow> py_raise (TypeError ''object of type NoneType has no len()'')
    | Some p \<Rightarrow> if p = [] then py_ret ()
        else py_bind (py_get (\<lambda>s. filter (\<lambda>w. fv_pronom_id w = Some p \<and> fv_enabled w \<and>
               (adding \<or> fv_uuid w \<noteq> fv_uuid v)) (FormatVersions s)))
             (\<lambda>rs. if rs = [] then py_ret () else py_raise (ValidationError
               ''Unable to save, an active Format Version  with this pronom id already exists.'')))"

interpretation rule_table: keyed_table fr_uuid "row_insert fr_uuid" "row_save fr_uuid"
  by (rule row_insert_table)

section \<open>Example state\<close>

definition rule_ex :: fprule_row where
  "rule_ex = \<lparr>fr_uuid = ''r'', fr_purpose = ''validation'', fr_command = ''c'', fr_format = ''v'', fr_count_attempts = 0,
     fr_count_okay = 0, fr_count_not_okay = 0, fr_replaces = None, fr_enabled = True\<rparr>"

definition fpr_world_ex :: fpr_world where
  "fpr_world_ex = world.extend world_ex (fpr_world.fields
     [\<lparr>fv_uuid = ''v'', fv_format = None, fv_version = None, fv_pronom_id = Some ''fmt/1'', fv_description = None,
        fv_access_format = False, fv_preservation_format = True, fv_replaces = None, fv_enabled = True\<rparr>]
     [\<lparr>ft_uuid = ''tool'', ft_description = ''JHOVE'', ft_version = ''1.6'', ft_enabled = True\<rparr>]
     [\<lparr>fc_uuid = ''c'', fc_tool = Some ''tool'', fc_description = ''Validate'', fc_command = ''x'',
        fc_script_type = ''as_is'', fc_output_location = None, fc_output_format = None, fc_command_usage = ''validation'',
        fc_verification_command = None, fc_event_detail_command = None, fc_replaces = None, fc_enabled = True\<rparr>]
     [rule_ex] [\<lparr>ffv_file_uuid = ''f'', ffv_format_version = ''v''\<rparr>])"

lemmas fpr_ex_defs = fpr_world_ex_def rule_ex_def world.extend_def fpr_world.fields_def ex_defs

section \<open>Properties\<close>

text \<open>Replacing a rule: saving a new version of an existing, enabled rule returns the new row, which
  is enabled and points to the old one; in the table the old row is disabled, the new row is
  added and all others stay, so that exactly the new version takes the old one's place among the
  active rules.\<close>

theorem save_rule_replaces:
  fixes s :: "'s fpr_world_scheme"
  assumes d: "distinct (map fr_uuid (Rules s))" and old: "old \<in> set (Rules s)" "fr_enabled old"
    and fresh: "env_uuid4 E (uuids s) \<notin> fr_uuid ` set (Rules s)"
  shows "\<exists>t new. save_rule E (Some old) r s = (Inr new, t) \<and> fr_replaces new = Some (fr_uuid old) \<and> fr_enabled new \<and>
     fr_purpose new = fr_purpose r \<and> fr_command new = fr_command r \<and> fr_format new = fr_format r \<and>
     active_rules t = filter (\<lambda>x. x \<noteq> old) (active_rules s) @ [new] \<and> distinct (map fr_uuid (Rules t))"
proof -
  let ?u = "env_uuid4 E (uuids s)" and ?off = "old\<lparr>fr_enabled := False\<rparr>"
  let ?new = "r\<lparr>fr_replaces := Some (fr_uuid old), fr_uuid := ?u, fr_enabled := True\<rparr>"
  let ?rows = "row_save fr_uuid ?off (Rules s)"
  have mem: "fr_uuid ?off \<in> fr_uuid ` set (Rules s)" using old(1) by simp
  have rows: "?rows = map (\<lambda>x. if x = old then ?off else x) (Rules s)"
    using d old(1) rule_table.save_old [OF mem] by (auto simp: distinct_map dest: inj_onD)
  have keys: "map fr_uuid ?rows = map fr_uuid (Rules s)" by (rule rule_table.save_keys [OF mem])
  have "fr_uuid ` set ?rows = fr_uuid ` set (Rules s)" using keys by (metis list.set_map)
  then have ins: "row_insert fr_uuid True ?new ?rows = Inr (?rows @ [?new])"
    using fresh by (simp add: row_insert_def)
  let ?t = "s\<lparr>uuids := Suc (uuids s), Rules := ?rows @ [?new]\<rparr>"
  have run: "save_rule E (Some old) r s = (Inr ?new, ?t)"
    using ins by (simp add: save_rule_def py_simps Let_def)
  have "filter fr_enabled (map (\<lambda>x. if x = old then ?off else x) xs) = filter (\<lambda>x. x \<noteq> old) (filter fr_enabled xs)" for xs
    by (induction xs) auto
  then have "active_rules ?t = filter (\<lambda>x. x \<noteq> old) (active_rules s) @ [?new]"
    unfolding rows by (simp add: active_rules_def)
  moreover have "distinct (map fr_uuid (Rules ?t))"
    using keys d fresh by simp
  ultimately show ?thesis using run by (intro exI [of _ ?t] exI [of _ ?new]) simp
qed

theorem save_rule_replaces_witness:
  "\<exists>t new. save_rule env_ex (Some rule_ex) rule_ex fpr_world_ex = (Inr new, t) \<and> active_rules t = [new] \<and>
     fr_replaces new = Some ''r''"
proof -
  have rules: "Rules fpr_world_ex = [rule_ex]" "fr_uuid rule_ex = ''r''" "fr_enabled rule_ex" "active_rules fpr_world_ex = [rule_ex]"
    by (simp_all add: fpr_ex_defs active_rules_def)
  have fresh: "env_uuid4 env_ex (uuids fpr_world_ex) \<notin> fr_uuid ` set (Rules fpr_world_ex)"
    by (simp add: rules env_ex_def)
  show ?thesis
    using save_rule_replaces [of fpr_world_ex rule_ex env_ex rule_ex] fresh by (auto simp: rules)
qed

end
