(* ===== verification/SubProcess.thy ===== *)
theory SubProcess
  imports Scripts CommandLine
begin

text \<open>
  \<open>utils/executeOrRunSubProcess.py\<close>: running FPR commands. Starting a process is a field of the
  environment: the exit status and the output of a command line with its standard input and
  environment, and the file system it leaves, or the exception of \<open>Popen\<close> or \<open>communicate\<close>.
  What the functions print on the worker's own terminal is not modelled; \<open>escape\<close>, which
  replaces bytes that are not UTF-8, is the identity on strings.
\<close>

record sp_env = env +
  sp_environ :: "(string \<times> string) list"
  sp_run :: "string list \<Rightarrow> string \<Rightarrow> (string \<times> string) list \<Rightarrow> fnode \<Rightarrow> (py_exn + int \<times> string \<times> string) \<times> fnode"
  sp_tmpname :: "fnode \<Rightarrow> string"

datatype py_command = CmdStr string | CmdList "string list"

datatype py_input = StrIn string | BytesIn string | FileIn string

fun input_text :: "py_input \<Rightarrow> string" where
  "input_text (StrIn t) = t"
| "input_text (BytesIn t) = t"
| "input_text (FileIn t) = t"

type_synonym proc_result = "int \<times> string \<times> string"

section \<open>launchSubProcess\<close>

definition process_environment :: "(string \<times> string) list \<Rightarrow> (string \<times> string) list \<Rightarrow> (string \<times> string) list" where
  "process_environment environ env_updates =
     (let my_env = dict_set environ ''PYTHONIOENCODING'' ''utf-8'';
          my_env = (if map_of my_env ''LANG'' \<in> {None, Some []} then dict_set my_env ''LANG'' ''en_US.UTF-8'' else my_env);
          my_env = (if map_of my_env ''LANGUAGE'' \<in> {None, Some []}
                    then dict_set my_env ''LANGUAGE'' (the (map_of my_env ''LANG'')) else my_env)
      in dict_update my_env env_updates)"

definition run_process ::
  "('e sp_env_scheme) \<Rightarrow> string list \<Rightarrow> string \<Rightarrow> (string \<times> string) list \<Rightarrow> ('s world_scheme, proc_result) py" where
  "run_process E command stdin my_env =
     (\<lambda>s. case sp_run E command stdin my_env (fs s) of (r, n) \<Rightarrow> (r, s\<lparr>fs := n\<rparr>))"

text \<open>\<open>" ".join(command)\<close>: of a command that is still a string, its characters.\<close>

definition join_command :: "py_command \<Rightarrow> string" where
  "join_command command = (case command of
      CmdStr c \<Rightarrow> str_join '' '' (map (\<lambda>x. [x]) c) | CmdList l \<Rightarrow> str_join '' '' l)"

definition report_error :: "py_command \<Rightarrow> py_exn \<Rightarrow> ('s, proc_result) py option" where
  "report_error command e = (case e of
      OSError _ m \<Rightarrow> Some (py_ret (-1, ''Config Error!'', m))
    | _ \<Rightarrow> if is_Exception e then Some (py_ret (-1, ''Execution failed:'', join_command command)) else None)"

definition launchSubProcess ::
  "('e sp_env_scheme) \<Rightarrow> py_command \<Rightarrow> py_input \<Rightarrow> string list \<Rightarrow> (string \<times> string) list \<Rightarrow> bool \<Rightarrow>
     ('s world_scheme, proc_result) py" where
  "launchSubProcess E command stdIn arguments env_updates capture_output =
     (case (case command of CmdStr c \<Rightarrow> shlex_split LSpace [] False c | CmdList l \<Rightarrow> Inr (l @ arguments)) of
        Inl e \<Rightarrow> py_try (py_raise e) (report_error command)
      | Inr argv \<Rightarrow>
          py_try (py_bind (run_process E argv (input_text stdIn) (process_environment (sp_environ E) env_updates))
              (\<lambda>(retcode, out, err).
                 (let stdOut = (if capture_output then out else []);
                      stdError = (if \<not> capture_output \<and> retcode = 0 then [] else err)
                  in py_ret (retcode, stdOut, stdError))))
            (report_error (CmdList argv)))"

section \<open>createAndRunScript\<close>

definition createAndRunScript ::
  "('e sp_env_scheme) \<Rightarrow> py_command \<Rightarrow> py_input \<Rightarrow> string list \<Rightarrow> (string \<times> string) list \<Rightarrow> bool \<Rightarrow>
     ('s world_scheme, proc_result) py" where
  "createAndRunScript E text stdIn arguments env_updates capture_output =
     py_bind (fs_get (sp_tmpname E)) (\<lambda>name.
     py_seq (fs_do (write_file name (case text of CmdStr t \<Rightarrow> t | CmdList l \<Rightarrow> str_join '' '' l)))
    (py_bind (launchSubProcess E (CmdList (name # arguments)) (StrIn []) [] env_updates capture_output) (\<lambda>ret.
     py_seq (fs_do (os_remove name)) (py_ret ret))))"

section \<open>executeOrRun\<close>

definition shebang :: "string \<Rightarrow> py_command \<Rightarrow> py_exn + py_command" where
  "shebang line text = (case text of
      CmdStr t \<Rightarrow> Inr (CmdStr (line @ [CHR 0x0A] @ t))
    | CmdList _ \<Rightarrow> Inl (ValueError ''command must be a str''))"

definition executeOrRun ::
  "('e sp_env_scheme) \<Rightarrow> string \<Rightarrow> py_command \<Rightarrow> py_input \<Rightarrow> string list \<Rightarrow> (string \<times> string) list \<Rightarrow> bool \<Rightarrow>
     ('s world_scheme, proc_result) py" where
  "executeOrRun E ty text stdIn arguments env_updates capture_output =
     (if ty = ''command'' then launchSubProcess E text stdIn arguments env_updates capture_output
      else if ty = ''bashScript''
      then py_bind (py_lift (shebang ''#!/bin/bash'' text)) (\<lambda>text.
             createAndRunScript E text stdIn arguments env_updates capture_output)
      else if ty = ''pythonScript''
      then py_bind (py_lift (shebang ''#!/usr/bin/env python'' text)) (\<lambda>text.
             createAndRunScript E text stdIn arguments env_updates capture_output)
      else if ty = ''as_is'' then createAndRunScript E text stdIn arguments env_updates capture_output
      else py_raise (ValueError (''unknown type '' @ ty)))"

section \<open>Lemmas\<close>

lemma shlex_split_exn: "shlex_split st tok q cs = Inl e \<Longrightarrow> \<exists>m. e = ValueError m"
proof (induction st tok q cs rule: shlex_split.induct)
  case (4 tok q c cs)
  then show ?case
    by (cases "shlex_split LSpace [] False cs") (auto split: if_splits)
qed (auto split: if_splits)

text \<open>The result of a process, or what stands for it when it could not be run.\<close>

definition proc_outcome :: "string list \<Rightarrow> bool \<Rightarrow> py_exn + proc_result \<Rightarrow> proc_result" where
  "proc_outcome argv capture r = (case r of
      Inr (code, out, err) \<Rightarrow> (code, if capture then out else [], if \<not> capture \<and> code = 0 then [] else err)
    | Inl (OSError _ m) \<Rightarrow> (-1, ''Config Error!'', m)
    | Inl _ \<Rightarrow> (-1, ''Execution failed:'', str_join '' '' argv))"

lemma proc_outcome_cases:
  "\<exists>code out err. proc_outcome argv capture r = (code, out, err) \<and> (code = -1 \<or> (\<exists>out' err'. r = Inr (code, out', err')))"
proof (cases r)
  case (Inl e)
  then show ?thesis by (cases e) (simp_all add: proc_outcome_def)
next
  case (Inr x)
  then show ?thesis by (cases x) (simp add: proc_outcome_def)
qed

lemma launch_list:
  assumes "\<And>e n. sp_run E (l @ args) (input_text i) (process_environment (sp_environ E) upd) (fs s) = (Inl e, n) \<Longrightarrow> is_Exception e"
  shows "launchSubProcess E (CmdList l) i args upd capture s =
     (case sp_run E (l @ args) (input_text i) (process_environment (sp_environ E) upd) (fs s) of
        (r, n) \<Rightarrow> (Inr (proc_outcome (l @ args) capture r), s\<lparr>fs := n\<rparr>))"
proof -
  obtain r n where r: "sp_run E (l @ args) (input_text i) (process_environment (sp_environ E) upd) (fs s) = (r, n)"
    by (cases "sp_run E (l @ args) (input_text i) (process_environment (sp_environ E) upd) (fs s)")
  show ?thesis
  proof (cases r)
    case (Inl e)
    with r assms have "is_Exception e" by blast
    with Inl r show ?thesis
      by (cases e) (simp_all add: launchSubProcess_def py_simps run_process_def report_error_def proc_outcome_def
          join_command_def)
  next
    case (Inr x)
    with r show ?thesis
      by (cases x) (simp add: launchSubProcess_def py_simps run_process_def proc_outcome_def Let_def)
  qed
qed

section \<open>Example state\<close>

definition sp_env_ex :: sp_env where
  "sp_env_ex = \<lparr>env_now = (\<lambda>n. ''now'' @ str_nat n), env_uuid4 = (\<lambda>n. ''uuid'' @ str_nat n),
     env_traceback = (\<lambda>e. []), env_cwd = ''/'', sp_environ = [(''LANG'', [])],
     sp_run = (\<lambda>argv i env n. if argv = [] then (Inl (IndexError ''list index out of range''), n)
       else (Inr (0, concat argv @ i, []), n)), sp_tmpname = (\<lambda>n. ''/tmpfile'')\<rparr>"

section \<open>Properties\<close>

text \<open>\<open>launchSubProcess\<close> always returns: whatever the command (also one that cannot be split into
  words), the environment and the exceptions of starting the process, the result is an exit
  status with two texts; when there was no process result, the status is -1.\<close>

theorem launchSubProcess_returns:
  assumes "\<And>argv i e n. sp_run E argv i (process_environment (sp_environ E) upd) (fs s) = (Inl e, n) \<Longrightarrow> is_Exception e"
  shows "\<exists>code out err t. launchSubProcess E command i args upd capture s = (Inr (code, out, err), t) \<and>
     (code = -1 \<or> (\<exists>argv out' err' n. sp_run E argv (input_text i) (process_environment (sp_environ E) upd) (fs s) =
        (Inr (code, out', err'), n) \<and> t = s\<lparr>fs := n\<rparr>))"
proof -
  have list: ?thesis if eq: "launchSubProcess E command i args upd capture s = launchSubProcess E (CmdList argv) i [] upd capture s" for argv
  proof -
    obtain r n where r: "sp_run E argv (input_text i) (process_environment (sp_environ E) upd) (fs s) = (r, n)"
      by (cases "sp_run E argv (input_text i) (process_environment (sp_environ E) upd) (fs s)")
    with assms have "is_Exception e" if "r = Inl e" for e using that by blast
    with r have "launchSubProcess E command i args upd capture s = (Inr (proc_outcome argv capture r), s\<lparr>fs := n\<rparr>)"
      unfolding eq using launch_list [of E argv "[]" i upd s capture] by simp
    moreover obtain code out err where "proc_outcome argv capture r = (code, out, err)"
      "code = -1 \<or> (\<exists>out' err'. r = Inr (code, out', err'))"
      using proc_outcome_cases [of argv capture r] by blast
    ultimately show ?thesis using r by (metis (no_types))
  qed
  show ?thesis
  proof (cases command)
    case (CmdList l)
    then show ?thesis by (intro list [of "l @ args"]) (simp add: launchSubProcess_def)
  next
    case (CmdStr c)
    show ?thesis
    proof (cases "shlex_split LSpace [] False c")
      case (Inl e)
      then obtain m where "e = ValueError m" using shlex_split_exn by blast
      then show ?thesis
        using Inl CmdStr by (simp add: launchSubProcess_def py_simps report_error_def is_Exception_def)
    next
      case (Inr argv)
      with CmdStr show ?thesis by (intro list [of argv]) (simp add: launchSubProcess_def)
    qed
  qed
qed

theorem launchSubProcess_returns_witness:
  "\<exists>code out err t. launchSubProcess sp_env_ex (CmdStr ''tool --x'') (StrIn []) [] [] True world_ex = (Inr (code, out, err), t) \<and>
     (code = -1 \<or> (\<exists>argv out' err' n. sp_run sp_env_ex argv [] (process_environment (sp_environ sp_env_ex) []) (fs world_ex) =
        (Inr (code, out', err'), n) \<and> t = world_ex\<lparr>fs := n\<rparr>))"
proof -
  have "is_Exception e" if "sp_run sp_env_ex argv i (process_environment (sp_environ sp_env_ex) []) (fs world_ex) = (Inl e, n)"
    for argv i e n
    using that by (auto simp: sp_env_ex_def is_Exception_def split: if_splits)
  from launchSubProcess_returns [of sp_env_ex "[]" world_ex "CmdStr ''tool --x''" "StrIn []" "[]" True, OF this]
  show ?thesis by simp
qed

text \<open>A script is run from a temporary file that is gone afterwards, and never gets the standard
  input it was called with: for a Bash script with a fresh temporary name, \<open>executeOrRun\<close> writes
  the shebang line and the text to that file, runs it with the arguments, the environment and an
  empty standard input whatever \<open>stdIn\<close> is, removes the file and returns the outcome of the
  process.\<close>

theorem executeOrRun_bash:
  fixes s :: "'s world_scheme" and E :: "'e sp_env_scheme"
  defines "name \<equiv> sp_tmpname E (fs s)"
  assumes written: "write_file (name) (''#!/bin/bash'' @ [CHR 0x0A] @ script) (fs s) = Inr n1"
    and run: "sp_run E (name # args) [] (process_environment (sp_environ E) upd) n1 = (r, n2)"
    and exn: "\<And>e. r = Inl e \<Longrightarrow> is_Exception e"
    and remove: "os_remove (name) n2 = Inr n3"
  shows "executeOrRun E ''bashScript'' (CmdStr script) stdIn args upd capture s =
     (Inr (proc_outcome (name # args) capture r), s\<lparr>fs := n3\<rparr>)"
proof -
  have "launchSubProcess E (CmdList (name # args)) (StrIn []) [] upd capture (s\<lparr>fs := n1\<rparr>) =
      (Inr (proc_outcome (name # args) capture r), s\<lparr>fs := n2\<rparr>)"
    using launch_list [of E "name # args" "[]" "StrIn []" upd "s\<lparr>fs := n1\<rparr>" capture] run exn by simp
  then show ?thesis
    using written remove
    by (simp add: executeOrRun_def shebang_def createAndRunScript_def py_simps name_def)
qed

theorem executeOrRun_bash_witness:
  "executeOrRun sp_env_ex ''bashScript'' (CmdStr ''x'') (StrIn ''in'') [''a''] [] True world_ex =
     (Inr (0, ''/tmpfilea'', []), world_ex)"
proof -
  have w: "write_file ''/tmpfile'' (''#!/bin/bash'' @ [CHR 0x0A] @ ''x'') (fs world_ex) =
      Inr (FDir [(''tmpfile'', FFile (''#!/bin/bash'' @ [CHR 0x0A] @ ''x''))])"
    by (simp add: write_file_def world_ex_def os_isdir_def fs_node_def path_comps_def)
  have r: "os_remove ''/tmpfile'' (FDir [(''tmpfile'', FFile (''#!/bin/bash'' @ [CHR 0x0A] @ ''x''))]) = Inr (FDir [])"
    by (simp add: os_remove_def fs_node_def path_comps_def dict_del_def)
  have tmp: "sp_tmpname sp_env_ex (fs world_ex) = ''/tmpfile''" by (simp add: sp_env_ex_def)
  have run: "sp_run sp_env_ex (''/tmpfile'' # [''a'']) [] (process_environment (sp_environ sp_env_ex) [])
      (FDir [(''tmpfile'', FFile (''#!/bin/bash'' @ [CHR 0x0A] @ ''x''))]) =
      (Inr (0, ''/tmpfilea'', []), FDir [(''tmpfile'', FFile (''#!/bin/bash'' @ [CHR 0x0A] @ ''x''))])"
    by (simp add: sp_env_ex_def)
  show ?thesis
    using executeOrRun_bash [of sp_env_ex world_ex, unfolded tmp, OF w run _ r, of "StrIn ''in''" True]
    by (simp add: proc_outcome_def world_ex_def)
qed

end
