(* ===== verification/Commands.thy ===== *)
theory Commands
  imports FPR SubProcess Replacement
begin

text \<open>
  What the client scripts that run format policy commands share: the choice of the rules that
  apply to a file, and the facts on what running a command can change.
\<close>

section \<open>Rules that apply to a file\<close>

definition missing_or_invalid :: "py_exn \<Rightarrow> bool" where
  "missing_or_invalid e = (case e of DoesNotExist _ \<Rightarrow> True | ValidationError _ \<Rightarrow> True | _ \<Rightarrow> False)"

text \<open>The rules for the format of a file and a purpose or, when there are none, the default rules.\<close>

definition applicable_rules :: "string \<Rightarrow> string \<Rightarrow> ('s fpr_world_scheme, fprule_row list) py" where
  "applicable_rules purpose file_uuid =
     py_bind (py_try (py_bind (get_format_of_file file_uuid) (\<lambda>fmt. py_ret (Some fmt)))
        (\<lambda>e. if missing_or_invalid e then Some (py_ret None) else None)) (\<lambda>fmt.
     py_bind (py_get (\<lambda>s. case fmt of None \<Rightarrow> []
         | Some f \<Rightarrow> filter (\<lambda>r. fr_format r = fv_uuid f \<and> fr_purpose r = purpose) (active_rules s))) (\<lambda>rules.
     if rules \<noteq> [] then py_ret rules
     else py_get (\<lambda>s. filter (\<lambda>r. fr_purpose r = ''default_'' @ purpose) (active_rules s))))"

section \<open>Computations that only read\<close>

text \<open>A computation that only reads keeps everything.\<close>

lemma keeps_reads: "(\<And>s. keeps ((=) s) m) \<Longrightarrow> keeps P m"
  by (auto simp: keeps_def)

lemma reads_tables [keeps_intros]:
  "keeps ((=) s) (get_file u)" "keeps ((=) s) (get_sip u)" "keeps ((=) s) (get_transfer u)"
  unfolding get_file_def get_sip_def get_transfer_def by (intro keeps_intros keeps_bind)+

lemma reads_frommodel [keeps_intros]: "keeps ((=) s) (frommodel E cf ty sip file ex)"
proof -
  have units: "keeps ((=) s) (file_sip f)" "keeps ((=) s) (file_transfer f)" for f
    unfolding file_sip_def file_transfer_def by (intro keeps_intros keeps_bind)+
  have "keeps ((=) s) (resolve_file file)" "keeps ((=) s) (resolve_unit sip)" "keeps ((=) s) (unit_of_file f u)" for f u
    unfolding resolve_file_def resolve_unit_def unit_of_file_def
    by (auto split: file_arg.splits unit_arg.splits option.splits intro!: keeps_intros keeps_bind units)
  moreover have "keeps ((=) s) (frommodel_file cf ty f d ex)" for f d
    unfolding frommodel_file_def file_base_location_def by (intro keeps_intros keeps_bind units)
  ultimately show ?thesis
    unfolding frommodel_def by (intro keeps_intros keeps_bind)
qed

lemma reads_replace_string_values [keeps_intros]: "keeps ((=) s) (replace_string_values E cf str ty sip file ex)"
  unfolding replace_string_values_def by (intro keeps_intros keeps_bind)

lemma reads_fpr [keeps_intros]:
  "keeps ((=) s) (rule_command r)" "keeps ((=) s) (command_tool c)" "keeps ((=) s) (applicable_rules p u)"
  unfolding rule_command_def command_tool_def applicable_rules_def get_format_of_file_def
  by (intro keeps_intros keeps_bind)+

section \<open>Running a command leaves the tables alone\<close>

text \<open>A command changes the file system and nothing else.\<close>

lemma keeps_process:
  assumes "\<And>s n. P s \<Longrightarrow> P (s\<lparr>fs := n\<rparr>)"
  shows "keeps P (executeOrRun E ty c i args upd cap)"
proof -
  have "keeps P (run_process E a b c)" for a b c
    using assms by (auto simp: keeps_def run_process_def split: prod.splits)
  then have "keeps P (launchSubProcess E c i args upd cap)" for c i args
    unfolding launchSubProcess_def
    by (auto split: sum.splits simp: report_error_def intro!: keeps_intros keeps_bind keeps_try split: py_exn.splits if_splits)
  moreover have "keeps P (fs_do g)" for g using assms by (auto simp: keeps_def py_simps split: sum.splits)
  moreover have "keeps P (fs_get h)" for h :: "fnode \<Rightarrow> 'c" by (auto simp: keeps_def py_simps)
  ultimately show ?thesis
    unfolding executeOrRun_def createAndRunScript_def by (intro keeps_intros keeps_bind)
qed

definition events_are :: "event_row list \<Rightarrow> 's world_scheme \<Rightarrow> bool" where
  "events_are ev s \<longleftrightarrow> db_inv s \<and> Events s = ev"

lemma events_are_upd [simp]:
  "events_are ev (s\<lparr>cur_job := j\<rparr>) = events_are ev s" "events_are ev (s\<lparr>fs := n\<rparr>) = events_are ev s"
  by (simp_all add: events_are_def db_inv_def file_fks_ok_def event_fks_ok_def derivation_fks_ok_def)

lemma keeps_events_job [keeps_intros]:
  "keeps (events_are ev) (upd_job f)" "keeps (events_are ev) (fs_do g)" "keeps (events_are ev) (fs_get h)"
  by (auto simp: keeps_def py_simps split: sum.splits)

lemma keeps_events_process [keeps_intros]: "keeps (events_are ev) (executeOrRun E ty c i args upd cap)"
  by (rule keeps_process) simp

section \<open>The loop over the rules\<close>

text \<open>
  A script runs every rule that applies and collects the results. What it needs of one run is a statement
  on the events it adds, by its result, that can be put together: then the statement holds of the results of all rules.
\<close>

locale rule_loop =
  fixes run_rule :: "'r \<Rightarrow> ('s world_scheme, 'c) py"
    and added :: "event_row list \<Rightarrow> 'c list \<Rightarrow> 's world_scheme \<Rightarrow> bool"
  assumes added_none: "events_are ev s \<Longrightarrow> added ev [] s"
    and added_inv: "added ev cs s \<Longrightarrow> db_inv s"
    and added_append: "added ev as s \<Longrightarrow> added (Events s) bs t \<Longrightarrow> added ev (as @ bs) t"
    and one_rule: "ensures (events_are ev) (run_rule r) (\<lambda>c. added ev [c])"
begin

lemma all_rules: "ensures (events_are ev) (py_map run_rule rules) (\<lambda>cs t. added ev cs t \<and> length cs = length rules)"
proof (induction rules arbitrary: ev)
  case Nil
  show ?case by (auto intro!: ensures_ret added_none)
next
  case (Cons r rules)
  show ?case
    unfolding py_map.simps
  proof (rule ensures_bind [OF one_rule], rule ensures_bind)
    fix c
    show "ensures (added ev [c]) (py_map run_rule rules) (\<lambda>cs t. added ev (c # cs) t \<and> length cs = length rules)"
    proof (unfold ensures_def, intro allI impI)
      fix s cs t assume s: "added ev [c] s" and run: "py_map run_rule rules s = (Inr cs, t)"
      have "events_are (Events s) s" using added_inv [OF s] by (simp add: events_are_def)
      from ensuresD [OF Cons.IH this run] added_append [OF s, of cs t]
      show "added ev (c # cs) t \<and> length cs = length rules" by simp
    qed
  qed (auto intro: ensures_ret)
qed

end

section \<open>An insertion appends one event\<close>

lemma reads_agents [keeps_intros]: "keeps ((=) s) (getAMAgentsForFile u)"
proof -
  have "keeps ((=) s) (unit_agents a b)" for a b
    unfolding unit_agents_def get_unit_variable_def by (intro keeps_intros keeps_bind)
  then show ?thesis
    unfolding getAMAgentsForFile_def SIP_agents_def Transfer_agents_def by (intro keeps_intros keeps_bind)
qed

text \<open>
  The tables that scripts read and write together with the disk and what a script's state adds: one
  predicate, so that a run is described by how it changes them.
\<close>

definition tables ::
  "fnode \<Rightarrow> file_row list \<Rightarrow> event_row list \<Rightarrow> derivation_row list \<Rightarrow> 's \<Rightarrow> 's world_scheme \<Rightarrow> bool" where
  "tables n fl ev de m s \<longleftrightarrow> db_inv s \<and> fs s = n \<and> Files s = fl \<and> Events s = ev \<and> Derivations s = de \<and> world.more s = m"

lemma tables_upd [simp]:
  "tables n fl ev de m (s\<lparr>cur_job := j\<rparr>) = tables n fl ev de m s" "tables n fl ev de m (s\<lparr>clock := k\<rparr>) = tables n fl ev de m s"
  "tables n fl ev de m (s\<lparr>uuids := k\<rparr>) = tables n fl ev de m s"
  by (simp_all add: tables_def)

lemma keeps_tables [keeps_intros]:
  fixes E :: env
  shows "keeps (tables n fl ev de m) (upd_job f)" "keeps (tables n fl ev de m) (now E)" "keeps (tables n fl ev de m) (uuid4 E)"
    "keeps (tables n fl ev de m) auto_pk" "keeps (tables n fl ev de m) (fs_get g)"
  by (auto simp: keeps_def py_simps tables_def db_inv_pk)

lemma create_appends:
  assumes ids: "\<forall>e \<in> set (Events s). e_id e < next_pk s"
    and run: "py_bind (Event_create E e) (\<lambda>event. py_seq (event_agents_add (e_id event) as) (py_ret event)) s = (Inr x, t)"
  shows "\<exists>e'. Events t = Events s @ [e'] \<and> e_event_id e' = e_event_id e \<and> e_file_uuid e' = e_file_uuid e \<and>
      e_event_type e' = e_event_type e \<and> e_event_detail e' = e_event_detail e \<and> e_event_outcome e' = e_event_outcome e \<and>
      e_event_outcome_detail e' = e_event_outcome_detail e" "fs t = fs s"
    "Files t = Files s" "Derivations t = Derivations s" "world.more t = world.more s"
proof -
  let ?e = "e\<lparr>e_id := next_pk s, e_event_datetime := env_now E (clock s)\<rparr>"
  have upd: "row_update (\<lambda>x. e_id x = next_pk s) g (Events s @ [?e]) = Events s @ [g ?e]" for g
    using ids by (subst row_update_append, subst row_update_absent) (auto simp: row_update_sole)
  show "\<exists>e'. Events t = Events s @ [e'] \<and> e_event_id e' = e_event_id e \<and> e_file_uuid e' = e_file_uuid e \<and>
      e_event_type e' = e_event_type e \<and> e_event_detail e' = e_event_detail e \<and> e_event_outcome e' = e_event_outcome e \<and>
      e_event_outcome_detail e' = e_event_outcome_detail e" "fs t = fs s"
    "Files t = Files s" "Derivations t = Derivations s" "world.more t = world.more s"
    using run
    by (auto simp: py_bind_apply Event_create_apply py_seq_apply event_agents_add_def upd py_ret_apply split: if_splits)
qed

definition event_says ::
  "string \<Rightarrow> string \<Rightarrow> string \<Rightarrow> string \<Rightarrow> string \<Rightarrow> event_row \<Rightarrow> bool" where
  "event_says u ty det out detail e \<longleftrightarrow> e_file_uuid e = Some u \<and> e_event_type e = ty \<and> e_event_detail e = det \<and>
     e_event_outcome e = out \<and> e_event_outcome_detail e = detail"

lemma insertIntoEvents_ensures:
  fixes m :: 's
  shows "ensures (tables n fl ev de m) (insertIntoEvents E u eid ty date det out detail as)
     (\<lambda>_ t. \<exists>e. tables n fl (ev @ [e]) de m t \<and> event_says u ty det out detail e \<and> (eid \<noteq> [] \<longrightarrow> e_event_id e = Some eid))"
  (is "ensures ?P _ ?Q")
proof -
  have create: "ensures ?P (py_bind (Event_create E ((new_event i)\<lparr>e_file_uuid := Some u, e_event_type := ty,
         e_event_datetime := d, e_event_detail := det, e_event_outcome := out, e_event_outcome_detail := detail\<rparr>))
       (\<lambda>event. py_seq (event_agents_add (e_id event) ag) (py_ret event))) ?Q"
    (is "ensures _ ?create _") if "eid \<noteq> [] \<longrightarrow> i = eid" for i d ag
  proof (unfold ensures_def, intro allI impI)
    fix s :: "'s world_scheme" and x t assume s: "?P s" and run: "?create s = (Inr x, t)"
    have ids: "\<forall>e \<in> set (Events s). e_id e < next_pk s" using s by (simp add: tables_def db_inv_def)
    have "keeps db_inv ?create" by (intro keeps_intros keeps_bind keeps_Event_create) (simp add: new_event_def)
    from keepsD [OF this, of s] have "db_inv t" using run s by (simp add: tables_def)
    then show "?Q x t"
      using create_appends [OF ids run] s that by (auto simp: tables_def event_says_def new_event_def)
  qed
  have eid: "ensures ?P (if eid = [] then uuid4 E else py_ret eid) (\<lambda>i t. ?P t \<and> (eid \<noteq> [] \<longrightarrow> i = eid))"
    by (auto simp: ensures_def py_simps)
  show ?thesis
    unfolding insertIntoEvents_def
    by (rule ensures_bind_keeps, intro keeps_intros, rule ensures_bind_keeps, intro keeps_if keeps_ret keeps_reads [OF reads_agents],
        rule ensures_bind [OF eid], rule ensures_pure, erule create)
qed

lemma insertIntoEvents_appends:
  assumes inv: "db_inv s" and run: "insertIntoEvents E u eid ty date det out detail as s = (Inr x, t)"
  shows "\<exists>e. Events t = Events s @ [e] \<and> e_file_uuid e = Some u \<and> e_event_type e = ty \<and> e_event_outcome e = out"
  using ensuresD [OF insertIntoEvents_ensures _ run, of "fs s" "Files s" "Events s" "Derivations s" "world.more s"] inv
  by (auto simp: tables_def event_says_def)

text \<open>An event without a date is dated by the clock.\<close>

lemma insertIntoEvents_now:
  "insertIntoEvents E u eid ty None det out nt as s =
   insertIntoEvents E u eid ty (Some (env_now E (clock s))) det out nt as (s\<lparr>clock := Suc (clock s)\<rparr>)"
  by (simp add: insertIntoEvents_def now_def py_simps)

section \<open>What the functions on files leave in the tables\<close>

lemma get_size_ensures:
  "ensures (tables n fl ev de m) (get_size_and_checksum h p None None None)
     (\<lambda>(size, sum, ctype) t. tables n fl ev de m t \<and> os_getsize n p = Inr size \<and>
        (\<exists>content. read_file n p = Inr content \<and> h ctype content = Inr sum))"
proof -
  have setting: "keeps (tables n fl ev de m) (get_setting a b)" for a b
    unfolding get_setting_def by (intro keeps_intros keeps_bind)
  have sum: "ensures (tables n fl ev de m) (get_file_checksum h p c)
      (\<lambda>sum t. tables n fl ev de m t \<and> (\<exists>content. read_file n p = Inr content \<and> h c content = Inr sum))" for c
    by (auto simp: ensures_def get_file_checksum_def py_simps tables_def split: sum.splits)
  have sz: "ensures (tables n fl ev de m) (py_bind (fs_get (\<lambda>t. os_getsize t p)) py_lift)
      (\<lambda>size t. tables n fl ev de m t \<and> os_getsize n p = Inr size)"
    by (auto simp: ensures_def py_simps tables_def)
  show ?thesis
    unfolding get_size_and_checksum_def option.case
    by (rule ensures_bind [OF sz], rule ensures_pure, rule ensures_bind_keeps [OF setting], rule ensures_bind [OF sum],
        rule ensures_pure, rule ensures_ret) auto
qed

lemma insertIntoFiles_ensures:
  "ensures (tables n fl ev de m) (insertIntoFiles E u p (Some d) [] sip use None)
     (\<lambda>f t. tables n (fl @ [f]) ev de m t \<and> u \<notin> f_uuid ` set fl \<and> f_uuid f = u \<and> f_sip f = Some sip \<and> f_filegrpuse f = use \<and>
        f_currentlocation f = Some p \<and> f_originallocation f = p)"
proof (unfold ensures_def, intro allI impI)
  fix s :: "'a world_scheme" and f t
  assume s: "tables n fl ev de m s" and run: "insertIntoFiles E u p (Some d) [] sip use None s = (Inr f, t)"
  have "db_inv t" using keepsD [OF keeps_insertIntoFiles, of s E u p "Some d" "[]" sip use None] run s by (simp add: tables_def)
  then show "tables n (fl @ [f]) ev de m t \<and> u \<notin> f_uuid ` set fl \<and> f_uuid f = u \<and> f_sip f = Some sip \<and> f_filegrpuse f = use \<and>
        f_currentlocation f = Some p \<and> f_originallocation f = p"
    using run s
    by (auto simp: insertIntoFiles_def File_create_def new_file_def row_insert_def tables_def py_simps Let_def split: if_splits)
qed

lemma insert_derivation_ensures:
  "ensures (tables n fl ev de m) (insertIntoDerivations a b e)
     (\<lambda>_ t. \<exists>d. tables n fl ev (de @ [d]) m t \<and> d_source_file d = a \<and> d_derived_file d = b \<and> d_event d = e)"
proof (unfold ensures_def, intro allI impI)
  fix s :: "'a world_scheme" and x t
  assume s: "tables n fl ev de m s" and run: "insertIntoDerivations a b e s = (Inr x, t)"
  have "db_inv t" using keepsD [OF keeps_insertIntoDerivations, of s a b e] run s by (simp add: tables_def)
  then show "\<exists>d. tables n fl ev (de @ [d]) m t \<and> d_source_file d = a \<and> d_derived_file d = b \<and> d_event d = e"
    using run s
    by (auto simp: insertIntoDerivations_def row_insert_def tables_def py_simps Let_def split: if_splits)
qed

lemma update_last_file:
  assumes "f_uuid f = u" "u \<notin> f_uuid ` set fl"
  shows "row_update (\<lambda>f. f_uuid f = u) g (fl @ [f]) = fl @ [g f]"
proof -
  have "f_uuid x \<noteq> u" if "x \<in> set fl" for x using that assms(2) by auto
  then show ?thesis using assms(1) by (simp add: row_update_def map_idI)
qed

lemma addFileToSIP_ensures:
  "ensures (tables n fl ev de m) (addFileToSIP E p u sip (Some d) ty use)
     (\<lambda>_ t. \<exists>f e. tables n (fl @ [f]) (ev @ [e]) de m t \<and> event_says u ty [] [] [] e \<and>
        (u \<notin> f_uuid ` set fl \<and> f_uuid f = u \<and> f_sip f = Some sip \<and> f_filegrpuse f = use \<and> f_currentlocation f = Some p))"
  unfolding addFileToSIP_def
proof (rule ensures_seq [OF insertIntoFiles_ensures], rule ensures_pure)
  fix f :: file_row assume f: "u \<notin> f_uuid ` set fl \<and> f_uuid f = u \<and> f_sip f = Some sip \<and> f_filegrpuse f = use \<and>
        f_currentlocation f = Some p \<and> f_originallocation f = p"
  show "ensures (tables n (fl @ [f]) ev de m) (py_seq (insertIntoEvents E u [] ty (Some d) [] [] [] []) (py_ret ()))
     (\<lambda>_ t. \<exists>f e. tables n (fl @ [f]) (ev @ [e]) de m t \<and> event_says u ty [] [] [] e \<and>
        (u \<notin> f_uuid ` set fl \<and> f_uuid f = u \<and> f_sip f = Some sip \<and> f_filegrpuse f = use \<and> f_currentlocation f = Some p))"
    by (rule ensures_seq [OF insertIntoEvents_ensures], rule ensures_ret) (use f in blast)
qed

lemma updateSize_ensures:
  assumes f: "f_uuid f = u" "u \<notin> f_uuid ` set fl"
  shows "ensures (tables n (fl @ [f]) ev de m) (updateSizeAndChecksum E h u p d None None None True)
     (\<lambda>_ t. \<exists>size sum ct e. tables n (fl @ [f\<lparr>f_size := Some size, f_checksum := sum, f_checksumtype := ct\<rparr>]) (ev @ [e]) de m t \<and>
        event_says u ''message digest calculation'' (digest_event_detail ct) [] sum e \<and>
        os_getsize n p = Inr size \<and> (\<exists>content. read_file n p = Inr content \<and> h ct content = Inr sum))"
  unfolding updateSizeAndChecksum_def
proof (rule ensures_bind [OF get_size_ensures])
  fix r :: "int \<times> string \<times> string"
  obtain size sum ct where r: "r = (size, sum, ct)" by (cases r)
  let ?g = "\<lambda>f. f\<lparr>f_size := Some size, f_checksum := sum, f_checksumtype := ct\<rparr>"
  have upd: "ensures (tables n (fl @ [f]) ev de m) (update_files (\<lambda>f. f_uuid f = u) ?g) (\<lambda>_. tables n (fl @ [?g f]) ev de m)"
    using db_inv_update_files [of _ ?g "\<lambda>f. f_uuid f = u"] update_last_file [OF f, of ?g]
    by (fastforce simp: ensures_def update_files_def py_simps tables_def)
  show "ensures ((case r of (size, sum, ctype) \<Rightarrow> \<lambda>t. tables n (fl @ [f]) ev de m t \<and> os_getsize n p = Inr size \<and>
        (\<exists>content. read_file n p = Inr content \<and> h ctype content = Inr sum)))
     (case r of (size, sum, ctype) \<Rightarrow> py_seq (update_files (\<lambda>f. f_uuid f = u)
         (\<lambda>f. f\<lparr>f_size := Some size, f_checksum := sum, f_checksumtype := ctype\<rparr>))
       (py_when True (py_seq (insertIntoEvents E u [] ''message digest calculation'' d (digest_event_detail ctype) [] sum []) (py_ret ()))))
     (\<lambda>_ t. \<exists>size sum ct e. tables n (fl @ [f\<lparr>f_size := Some size, f_checksum := sum, f_checksumtype := ct\<rparr>]) (ev @ [e]) de m t \<and>
        event_says u ''message digest calculation'' (digest_event_detail ct) [] sum e \<and>
        os_getsize n p = Inr size \<and> (\<exists>content. read_file n p = Inr content \<and> h ct content = Inr sum))"
    unfolding r prod.case py_when_def if_True
    by (rule ensures_pure, rule ensures_seq [OF upd], rule ensures_seq [OF insertIntoEvents_ensures], rule ensures_ret) blast
qed

section \<open>The registry is out of reach of the database functions\<close>

text \<open>
  The functions that work on the base tables cannot touch what a script's state adds to them. A predicate on
  the added part alone is kept by all of them.
\<close>

definition on_more :: "('s \<Rightarrow> bool) \<Rightarrow> 's world_scheme \<Rightarrow> bool" where
  "on_more P s \<longleftrightarrow> P (world.more s)"

lemma on_more_upd [simp]:
  "on_more P (s\<lparr>cur_job := j\<rparr>) = on_more P s" "on_more P (s\<lparr>fs := n\<rparr>) = on_more P s"
  "on_more P (s\<lparr>clock := k\<rparr>) = on_more P s" "on_more P (s\<lparr>uuids := k\<rparr>) = on_more P s"
  "on_more P (s\<lparr>next_pk := k\<rparr>) = on_more P s" "on_more P (s\<lparr>Events := es\<rparr>) = on_more P s"
  "on_more P (s\<lparr>Files := fl\<rparr>) = on_more P s" "on_more P (s\<lparr>UnitVariables := vs\<rparr>) = on_more P s"
  "on_more P (s\<lparr>Derivations := ds\<rparr>) = on_more P s" "on_more P (s\<lparr>CommandOutputs := os\<rparr>) = on_more P s"
  by (simp_all add: on_more_def)

lemma keeps_more_basic [keeps_intros]:
  fixes E :: env
  shows "keeps (on_more P) (upd_job f)" "keeps (on_more P) (now E)" "keeps (on_more P) (uuid4 E)" "keeps (on_more P) auto_pk"
    "keeps (on_more P) (fs_get g)" "keeps (on_more P) (fs_do h)" "keeps (on_more P) (event_agents_add pk as)"
  by (auto simp: keeps_def py_simps event_agents_add_def split: sum.splits)

lemma keeps_more_process [keeps_intros]: "keeps (on_more P) (executeOrRun E ty c i args upd cap)"
  by (rule keeps_process) simp

lemma keeps_more_Event_create [keeps_intros]: "keeps (on_more P) (Event_create E e)"
  unfolding Event_create_def by (intro keeps_intros keeps_bind) auto

lemma keeps_more_insertIntoEvents [keeps_intros]: "keeps (on_more P) (insertIntoEvents E u eid ty d det out nt as)"
  unfolding insertIntoEvents_def by (intro keeps_intros keeps_bind keeps_reads [OF reads_agents])

end
