(* ===== verification/Validate.thy ===== *)
theory Validate
  imports Commands
begin

text \<open>
  \<open>clientScripts/validate_file.py\<close>: validating a file with the FPR commands that apply to its
  format. \<open>ast.literal_eval\<close> on the output of a command is a field of the environment (a
  dictionary of texts, or an exception), as is the text of \<open>pformat\<close>.
\<close>

record val_env = sp_env +
  va_config :: dict_config
  va_literal_eval :: "string \<Rightarrow> py_exn + (string \<times> string option) list"
  va_pformat :: "string \<Rightarrow> string"

record Validator =
  va_file_path :: string
  va_file_uuid :: string
  va_sip_uuid :: string
  va_shared_path :: string
  va_file_type :: string
  va_purpose :: string

text \<open>The attributes of a validator that are computed on demand.\<close>

record val_world = fpr_world +
  sip_logs_dir_cache :: "string option"
  sip_pres_val_dir_cache :: "string option"

definition SUCCESS_CODE :: int where "SUCCESS_CODE = 0"
definition FAIL_CODE :: int where "FAIL_CODE = 1"
definition NOT_DERIVATIVE_CODE :: int where "NOT_DERIVATIVE_CODE = 0"
definition NO_RULES_CODE :: int where "NO_RULES_CODE = 0"
definition DERIVATIVE_TYPES :: "string set" where "DERIVATIVE_TYPES = {''preservation'', ''access''}"

definition Validator_init ::
  "string \<Rightarrow> string \<Rightarrow> string \<Rightarrow> string option \<Rightarrow> string \<Rightarrow> ('s val_world_scheme, Validator) py" where
  "Validator_init file_path file_uuid sip_uuid shared_path file_type =
     py_seq (py_mod (\<lambda>s. s\<lparr>sip_logs_dir_cache := None, sip_pres_val_dir_cache := None\<rparr>))
       (py_ret \<lparr>va_file_path = file_path, va_file_uuid = file_uuid, va_sip_uuid = sip_uuid,
          va_shared_path = (case shared_path of None \<Rightarrow> [] | Some p \<Rightarrow> p), va_file_type = file_type,
          va_purpose = ''validation''\<rparr>)"

section \<open>Which rules apply\<close>

definition get_rules :: "Validator \<Rightarrow> ('s fpr_world_scheme, fprule_row list) py" where
  "get_rules v = applicable_rules (va_purpose v) (va_file_uuid v)"

definition get_derivation :: "(string option \<Rightarrow> 's world_scheme \<Rightarrow> bool) \<Rightarrow> string \<Rightarrow> ('s world_scheme, derivation_row) py" where
  "get_derivation event_ok u = py_bind (py_get (\<lambda>s. filter (\<lambda>d. d_derived_file d = u \<and> event_ok (d_event d) s) (Derivations s)))
     (\<lambda>rs. py_lift (get_one ''Derivation'' rs))"

definition file_is_preservation_derivative :: "Validator \<Rightarrow> ('s world_scheme, bool) py" where
  "file_is_preservation_derivative v =
     py_try (py_seq (get_derivation (\<lambda>ev s. ev \<noteq> None \<and> (\<exists>e \<in> set (Events s). e_event_id e = ev \<and> e_event_type e = ''normalization''))
         (va_file_uuid v)) (py_ret True))
       (\<lambda>e. if missing_or_invalid e then Some (py_ret False) else None)"

definition file_is_access_derivative :: "Validator \<Rightarrow> ('s world_scheme, bool) py" where
  "file_is_access_derivative v =
     py_try (py_bind (get_file (va_file_uuid v)) (\<lambda>f.
         if f_filegrpuse f = ''access''
         then py_try (py_seq (get_derivation (\<lambda>ev s. ev = None) (va_file_uuid v)) (py_ret True))
                (\<lambda>e. if missing_or_invalid e then Some (py_ret False) else None)
         else py_ret False))
       (\<lambda>e. if missing_or_invalid e then Some (py_ret False) else None)"

definition file_is_derivative :: "Validator \<Rightarrow> ('s world_scheme, bool) py" where
  "file_is_derivative v = (if va_file_type v = ''preservation'' then file_is_preservation_derivative v
     else file_is_access_derivative v)"

definition not_derivative_msg :: "Validator \<Rightarrow> string" where
  "not_derivative_msg v = (if va_file_type v = ''preservation'' then ''is not a preservation derivative''
     else ''is not an access derivative'')"

section \<open>Where the output is saved\<close>

definition sip_logs_dir :: "Validator \<Rightarrow> ('s val_world_scheme, string option) py" where
  "sip_logs_dir v = py_bind (py_get sip_logs_dir_cache) (\<lambda>cached.
     if cached \<noteq> None \<and> cached \<noteq> Some [] then py_ret cached
     else py_bind (py_try (py_bind (get_sip (va_sip_uuid v)) (\<lambda>r. py_ret (Some r)))
            (\<lambda>e. case e of DoesNotExist _ \<Rightarrow> Some (py_ret None) | MultipleObjectsReturned _ \<Rightarrow> Some (py_ret None)
               | ValidationError _ \<Rightarrow> Some (py_ret None) | _ \<Rightarrow> None)) (\<lambda>sip.
          case sip of
            None \<Rightarrow> py_seq (upd_job (print_error [''Warning: unable to retrieve SIP model corresponding to SIP UUID '' @
                      va_sip_uuid v])) (py_ret None)
          | Some r \<Rightarrow> (case s_currentpath r of
              None \<Rightarrow> py_raise (AttributeError ''replace'')
            | Some p \<Rightarrow>
               (let logs_dir = path_join (str_replace1 p ''%sharedPath%'' (va_shared_path v)) ''logs'' in
                py_bind (fs_get (\<lambda>n. os_isdir n logs_dir)) (\<lambda>found.
                if found then py_seq (py_mod (\<lambda>s. s\<lparr>sip_logs_dir_cache := Some logs_dir\<rparr>)) (py_ret (Some logs_dir))
                else py_seq (upd_job (print_error [''Warning: unable to find a logs/ directory in the SIP with UUID '' @
                       va_sip_uuid v])) (py_ret None))))))"

text \<open>The code reads \<open>sip_logs_dir\<close> a second time once it is set, which returns the cached value.\<close>

definition sip_pres_val_dir :: "Validator \<Rightarrow> ('s val_world_scheme, string option) py" where
  "sip_pres_val_dir v = py_bind (py_get sip_pres_val_dir_cache) (\<lambda>cached.
     if cached \<noteq> None \<and> cached \<noteq> Some [] then py_ret cached
     else py_bind (sip_logs_dir v) (\<lambda>logs.
       py_seq (case logs of
           None \<Rightarrow> py_ret ()
         | Some logs_dir \<Rightarrow>
             (let dir = path_join logs_dir ''implementationChecks'';
                  keep = py_mod (\<lambda>s. s\<lparr>sip_pres_val_dir_cache := Some dir\<rparr>) in
              py_bind (fs_get (\<lambda>n. os_isdir n dir)) (\<lambda>found.
              if found then keep
              else py_bind (py_try (py_seq (fs_do (os_makedirs dir)) (py_ret True))
                     (\<lambda>e. case e of OSError _ _ \<Rightarrow> Some (py_ret False) | _ \<Rightarrow> None)) (\<lambda>made.
                   py_when made keep))))
         (py_get sip_pres_val_dir_cache)))"

definition save_stdout_to_logs_dir :: "Validator \<Rightarrow> (string \<times> string option) list \<Rightarrow> ('s val_world_scheme, unit) py" where
  "save_stdout_to_logs_dir v output = (case map_of output ''stdout'' of
      Some (Some stdout) \<Rightarrow> if stdout = [] then py_ret ()
        else py_bind (sip_pres_val_dir v) (\<lambda>dir. case dir of
           None \<Rightarrow> py_ret ()
         | Some d \<Rightarrow> fs_do (write_file (path_join d (basename (va_file_path v) @ ''.xml'')) stdout))
    | _ \<Rightarrow> py_ret ())"

section \<open>Running a rule\<close>

text \<open>\<open>output.get(key)\<close>: absent and \<open>None\<close> are the same.\<close>

definition output_get :: "(string \<times> string option) list \<Rightarrow> string \<Rightarrow> string option" where
  "output_get output key = (case map_of output key of Some x \<Rightarrow> x | None \<Rightarrow> None)"

text \<open>The two text columns of an event are not nullable: a missing value is refused on insertion.\<close>

definition insert_validation_event ::
  "env \<Rightarrow> string \<Rightarrow> string \<Rightarrow> string option \<Rightarrow> string option \<Rightarrow> ('s world_scheme, unit) py" where
  "insert_validation_event E u detail outcome outcome_note = (case (outcome, outcome_note) of
      (Some out, Some nt) \<Rightarrow> py_seq (insertIntoEvents E u [] ''validation'' None detail out nt []) (py_ret ())
    | _ \<Rightarrow> py_seq (now E) (py_seq (getAMAgentsForFile u) (py_seq (uuid4 E)
        (py_raise (IntegrityError ''Column cannot be null'')))))"

definition command_line :: "('e val_env_scheme) \<Rightarrow> Validator \<Rightarrow> fpcommand_row \<Rightarrow> ('s world_scheme, string \<times> string list) py" where
  "command_line E v c = (if fc_script_type c \<in> {''bashScript'', ''command''}
     then py_bind (replace_string_values (env.truncate E) (va_config E) (fc_command c) ''file'' (UnitUuid (va_sip_uuid v))
            (FileUuid (va_file_uuid v)) True) (\<lambda>t. py_ret (t, []))
     else py_ret (fc_command c, [va_file_path v]))"

text \<open>What the outcome in the output means: the word returned by \<open>_execute_rule_command\<close> and its message.\<close>

definition judge_output ::
  "('e val_env_scheme) \<Rightarrow> fpcommand_row \<Rightarrow> string \<Rightarrow> (string \<times> string option) list \<Rightarrow> ('s jstate_scheme, string) py" where
  "judge_output E c stdout output =
     (let outcome = output_get output ''eventOutcomeInformation'' in
      if outcome = Some ''pass''
      then py_seq (upd_job (print_output [''Command '' @ [CHR 0x22] @ fc_description c @ [CHR 0x22] @ '' was successful'']))
             (py_ret ''passed'')
      else if outcome = Some ''partial pass''
      then py_seq (upd_job (print_output [''Command '' @ [CHR 0x22] @ fc_description c @ [CHR 0x22] @
             '' was partially successful''])) (py_ret ''passed'')
      else py_seq (job_pyprint Stderr [''Command '' @ fc_description c @ '' indicated failure with this output:'' @
             [CHR 0x0A, CHR 0x0A] @ va_pformat E stdout]) (py_ret ''failed''))"

definition execute_rule_command :: "('e val_env_scheme) \<Rightarrow> Validator \<Rightarrow> fprule_row \<Rightarrow> ('s val_world_scheme, string) py" where
  "execute_rule_command E v rule =
     py_bind (rule_command rule) (\<lambda>c.
     py_bind (command_line E v c) (\<lambda>(command_to_execute, args).
     py_seq (upd_job (print_output [''Running'', fc_description c]))
    (py_bind (executeOrRun E (fc_script_type c) (CmdStr command_to_execute) (StrIn []) args [] True)
      (\<lambda>(exitstatus, stdout, stderr).
     if exitstatus \<noteq> 0
     then py_seq (upd_job (print_error [''Command '' @ fc_description c @ '' failed with exit status '' @ str_int exitstatus @
            ''; stderr: '' @ stderr])) (py_ret ''failed'')
     else py_bind (py_lift (va_literal_eval E stdout)) (\<lambda>output.
          py_bind (command_tool c) (\<lambda>tool.
          (let event_detail = ''program='' @ [CHR 0x22] @ ft_description tool @ [CHR 0x22] @ ''; version='' @ [CHR 0x22] @
                 ft_version tool @ [CHR 0x22] in
           py_bind (judge_output E c stdout output) (\<lambda>result.
           py_seq (py_when (va_file_type v = ''preservation'') (save_stdout_to_logs_dir v output))
          (py_seq (upd_job (print_output [''Creating '' @ va_purpose v @ '' event for '' @ va_file_path v @ '' ('' @
                     va_file_uuid v @ '')'']))
          (py_seq (insert_validation_event (env.truncate E) (va_file_uuid v) event_detail
                     (output_get output ''eventOutcomeInformation'') (output_get output ''eventOutcomeDetailNote''))
                  (py_ret result)))))))))))"

fun execute_rules :: "('e val_env_scheme) \<Rightarrow> Validator \<Rightarrow> fprule_row list \<Rightarrow> ('s val_world_scheme, int) py" where
  "execute_rules E v [] = py_ret SUCCESS_CODE"
| "execute_rules E v (rule # rules) = py_bind (execute_rule_command E v rule) (\<lambda>result.
     if result = ''failed'' then py_ret FAIL_CODE else execute_rules E v rules)"

definition validate :: "('e val_env_scheme) \<Rightarrow> Validator \<Rightarrow> ('s val_world_scheme, int) py" where
  "validate E v =
     py_bind (if va_file_type v \<in> DERIVATIVE_TYPES then file_is_derivative v else py_ret True) (\<lambda>go_on.
     if \<not> go_on
     then py_seq (upd_job (print_output [''File '' @ va_file_uuid v @ '' '' @ not_derivative_msg v @ ''; not validating.'']))
            (py_ret NOT_DERIVATIVE_CODE)
     else py_bind (get_rules v) (\<lambda>rules.
          if rules = [] then py_ret NO_RULES_CODE else execute_rules E v rules))"

section \<open>call\<close>

definition get_shared_path :: "string list \<Rightarrow> string option" where
  "get_shared_path argv = (if 4 < length argv then Some (argv ! 4) else None)"

definition get_file_type :: "string list \<Rightarrow> string" where
  "get_file_type argv = (if 5 < length argv then argv ! 5 else ''original'')"

definition validate_main ::
  "('e val_env_scheme) \<Rightarrow> string \<Rightarrow> string \<Rightarrow> string \<Rightarrow> string option \<Rightarrow> string \<Rightarrow> ('s val_world_scheme, int) py" where
  "validate_main E file_path file_uuid sip_uuid shared_path file_type =
     py_bind (Validator_init file_path file_uuid sip_uuid shared_path file_type) (validate E)"

definition validate_file_job :: "('e val_env_scheme) \<Rightarrow> ('s val_world_scheme, unit) py" where
  "validate_file_job E = JobContext (env_traceback E) True
     (py_bind (nth_arg 1) (\<lambda>file_path. py_bind (nth_arg 2) (\<lambda>file_uuid. py_bind (nth_arg 3) (\<lambda>sip_uuid.
      py_bind (py_get (\<lambda>s. j_args (cur_job s))) (\<lambda>args.
      py_bind (validate_main E file_path file_uuid sip_uuid (get_shared_path args) (get_file_type args)) (\<lambda>code.
      upd_job (set_status code ''success'')))))))"

section \<open>Everything but the insertion leaves the events alone\<close>

lemma events_are_cache [simp]:
  "events_are ev (s'\<lparr>sip_logs_dir_cache := c\<rparr>) = events_are ev s'"
  "events_are ev (s'\<lparr>sip_pres_val_dir_cache := c\<rparr>) = events_are ev s'"
  by (simp_all add: events_are_def db_inv_def file_fks_ok_def event_fks_ok_def derivation_fks_ok_def)

lemma reads_validator [keeps_intros]:
  "keeps ((=) s) (get_rules v)" "keeps ((=) s) (command_line E v c)"
  unfolding get_rules_def command_line_def by (intro keeps_intros keeps_bind)+

lemma keeps_events_validator [keeps_intros]:
  "keeps (events_are ev) (judge_output E c out output)" "keeps (events_are ev) (save_stdout_to_logs_dir v output)"
proof -
  show "keeps (events_are ev) (judge_output E c out output)"
    by (auto simp: keeps_def judge_output_def py_simps Let_def)
  have "keeps (events_are ev) (sip_logs_dir v)"
    unfolding sip_logs_dir_def
    by (intro keeps_intros keeps_bind keeps_try; (auto split: py_exn.splits intro!: keeps_intros keeps_reads [of "get_sip u" for u])?)
  then have "keeps (events_are ev) (sip_pres_val_dir v)"
    unfolding sip_pres_val_dir_def
    by (intro keeps_intros keeps_bind keeps_try; (auto split: py_exn.splits intro!: keeps_intros)?)
  then show "keeps (events_are ev) (save_stdout_to_logs_dir v output)"
    unfolding save_stdout_to_logs_dir_def by (auto split: option.splits intro!: keeps_intros keeps_bind)
qed

section \<open>One rule\<close>

definition accepted :: "string option \<Rightarrow> bool" where
  "accepted outcome \<longleftrightarrow> outcome = Some ''pass'' \<or> outcome = Some ''partial pass''"

definition validation_of :: "Validator \<Rightarrow> event_row \<Rightarrow> bool" where
  "validation_of v e \<longleftrightarrow> e_file_uuid e = Some (va_file_uuid v) \<and> e_event_type e = ''validation''"

lemma insert_validation_ensures:
  "ensures (events_are ev) (insert_validation_event E u detail outcome nt :: ('s world_scheme, unit) py) (\<lambda>_ t. db_inv t \<and>
     (\<exists>e. Events t = ev @ [e] \<and> e_file_uuid e = Some u \<and> e_event_type e = ''validation'' \<and> outcome = Some (e_event_outcome e)))"
proof (cases "outcome = None \<or> nt = None")
  case True
  then have "fst (insert_validation_event E u detail outcome nt s) \<noteq> Inr x" for x and s :: "'s world_scheme"
    by (cases outcome; cases nt) (auto simp: insert_validation_event_def py_simps split: prod.splits sum.splits)
  then show ?thesis unfolding ensures_def by (metis fst_conv)
next
  case False
  then obtain out n where o: "outcome = Some out" "nt = Some n" by auto
  have "keeps db_inv (insertIntoEvents E u [] ''validation'' None detail out n [] :: ('s world_scheme, _) py)"
    by (rule keeps_insertIntoEvents)
  then have "ensures (events_are ev) (insertIntoEvents E u [] ''validation'' None detail out n [] :: ('s world_scheme, _) py)
     (\<lambda>_ t. db_inv t \<and> (\<exists>e. Events t = ev @ [e] \<and> e_file_uuid e = Some u \<and> e_event_type e = ''validation'' \<and>
        e_event_outcome e = out))"
    unfolding ensures_def events_are_def keeps_def using insertIntoEvents_appends by (metis snd_conv)
  then show ?thesis
    unfolding insert_validation_event_def o prod.case option.case by (rule ensures_seq) (auto intro!: ensures_ret)
qed

lemma judge_ensures:
  "ensures P (judge_output E c out output) (\<lambda>r _. (r = ''passed'' \<or> r = ''failed'') \<and>
     (r = ''passed'' \<longleftrightarrow> accepted (output_get output ''eventOutcomeInformation'')))"
  by (auto simp: ensures_def judge_output_def py_simps Let_def accepted_def split: if_splits)

text \<open>A rule that passes records one accepted event; one that fails records at most one, not accepted.\<close>

lemma execute_rule_ensures:
  fixes E :: "'e val_env_scheme"
  shows "ensures (events_are ev) (execute_rule_command E v rule :: ('s val_world_scheme, string) py) (\<lambda>r t. db_inv t \<and>
     (r = ''passed'' \<and> (\<exists>e. Events t = ev @ [e] \<and> validation_of v e \<and> accepted (Some (e_event_outcome e))) \<or>
      r = ''failed'' \<and> (\<exists>es. Events t = ev @ es \<and> length es \<le> 1 \<and>
        (\<forall>e \<in> set es. validation_of v e \<and> \<not> accepted (Some (e_event_outcome e))))))"
    (is "ensures _ _ ?Q")
proof -
  have judge: "ensures (events_are ev) (judge_output E c out op :: ('s val_world_scheme, string) py) (\<lambda>r t. events_are ev t \<and>
     (r = ''passed'' \<or> r = ''failed'') \<and> (r = ''passed'' \<longleftrightarrow> accepted (output_get op ''eventOutcomeInformation'')))" for c out op
    using judge_ensures [of "events_are ev" E c out op] ensures_keeps [OF keeps_events_validator(1)]
    unfolding ensures_def by blast
  have reads: "keeps (events_are ev) (rule_command rule :: ('s val_world_scheme, _) py)"
    "keeps (events_are ev) (command_line E v c :: ('s val_world_scheme, _) py)"
    "keeps (events_are ev) (command_tool c :: ('s val_world_scheme, _) py)" for c
    by (rule keeps_reads [OF reads_fpr(1)], rule keeps_reads [OF reads_validator(2)], rule keeps_reads [OF reads_fpr(2)])
  have fail: "ensures (events_are ev) (py_seq (upd_job f) (py_ret ''failed'') :: ('s val_world_scheme, string) py) ?Q" for f
    by (intro ensures_seq_keeps keeps_intros ensures_ret) (auto simp: events_are_def)
  have store: "ensures (\<lambda>t. events_are ev t \<and> (r = ''passed'' \<or> r = ''failed'') \<and> (r = ''passed'' \<longleftrightarrow> accepted outcome))
      (py_seq (py_when b (save_stdout_to_logs_dir v op)) (py_seq (upd_job f)
        (py_seq (insert_validation_event (env.truncate E) (va_file_uuid v) d outcome nt) (py_ret r))) ::
          ('s val_world_scheme, string) py) ?Q" for r b op f d outcome nt
  proof (cases "(r = ''passed'' \<or> r = ''failed'') \<and> (r = ''passed'' \<longleftrightarrow> accepted outcome)")
    case True
    have "ensures (events_are ev) (py_seq (py_when b (save_stdout_to_logs_dir v op)) (py_seq (upd_job f)
        (py_seq (insert_validation_event (env.truncate E) (va_file_uuid v) d outcome nt) (py_ret r))) ::
          ('s val_world_scheme, string) py) ?Q"
      using True
      by (intro ensures_seq_keeps keeps_intros ensures_seq [OF insert_validation_ensures] ensures_ret)
        (fastforce simp: validation_of_def)
    then show ?thesis by (rule ensures_weaken) auto
  qed (auto simp: ensures_def)
  show ?thesis
    unfolding execute_rule_command_def Let_def
    by (intro ensures_bind_keeps ensures_seq_keeps reads keeps_intros ensures_if fail ensures_bind [OF judge] store
        ensures_case_prod)
qed

text \<open>
  What the events say after running a list of rules: the accepted outcomes come first, and there
  is one for every rule exactly when the result is success.
\<close>

definition rules_run :: "Validator \<Rightarrow> nat \<Rightarrow> event_row list \<Rightarrow> int \<Rightarrow> 's world_scheme \<Rightarrow> bool" where
  "rules_run v n ev code t \<longleftrightarrow> db_inv t \<and> (\<exists>ok bad. Events t = ev @ ok @ bad \<and>
     (\<forall>e \<in> set ok. validation_of v e \<and> accepted (Some (e_event_outcome e))) \<and>
     (\<forall>e \<in> set bad. validation_of v e \<and> \<not> accepted (Some (e_event_outcome e))) \<and>
     (code = 0 \<and> length ok = n \<and> bad = [] \<or> code = 1 \<and> length ok < n \<and> length bad \<le> 1))"

lemma rules_run_step:
  assumes "rules_run v n (ev @ [e]) code t" and "validation_of v e" and "accepted (Some (e_event_outcome e))"
  shows "rules_run v (Suc n) ev code t"
proof -
  obtain ok bad where "Events t = ev @ (e # ok) @ bad"
    "\<forall>e \<in> set (e # ok). validation_of v e \<and> accepted (Some (e_event_outcome e))"
    "\<forall>e \<in> set bad. validation_of v e \<and> \<not> accepted (Some (e_event_outcome e))"
    "code = 0 \<and> length (e # ok) = Suc n \<and> bad = [] \<or> code = 1 \<and> length (e # ok) < Suc n \<and> length bad \<le> 1" "db_inv t"
    using assms by (auto simp: rules_run_def)
  then show ?thesis unfolding rules_run_def by blast
qed

lemma execute_rules_ensures:
  "ensures (events_are ev) (execute_rules E v rules :: ('s val_world_scheme, int) py) (rules_run v (length rules) ev)"
proof (induction rules arbitrary: ev)
  case Nil
  show ?case by (auto intro!: ensures_ret simp: rules_run_def events_are_def SUCCESS_CODE_def)
next
  case (Cons rule rules)
  show ?case
    unfolding execute_rules.simps
  proof (rule ensures_bind [OF execute_rule_ensures])
    fix r
    show "ensures (\<lambda>t :: 's val_world_scheme. db_inv t \<and>
       (r = ''passed'' \<and> (\<exists>e. Events t = ev @ [e] \<and> validation_of v e \<and> accepted (Some (e_event_outcome e))) \<or>
        r = ''failed'' \<and> (\<exists>es. Events t = ev @ es \<and> length es \<le> 1 \<and>
          (\<forall>e \<in> set es. validation_of v e \<and> \<not> accepted (Some (e_event_outcome e))))))
      (if r = ''failed'' then py_ret FAIL_CODE else execute_rules E v rules) (rules_run v (length (rule # rules)) ev)"
      (is "ensures ?R _ _")
    proof (cases "r = ''failed''")
      case True
      have "rules_run v (length (rule # rules)) ev FAIL_CODE t" if "?R t" for t
        using that True unfolding rules_run_def FAIL_CODE_def by (fastforce intro: exI [of _ "[]"])
      then show ?thesis using True by (auto intro!: ensures_ret)
    next
      case False
      have "rules_run v (length (rule # rules)) ev code t'"
        if R: "?R t" and rest: "execute_rules E v rules t = (Inr code, t')" for t t' code
      proof -
        obtain e where e: "Events t = ev @ [e]" "validation_of v e" "accepted (Some (e_event_outcome e))" "db_inv t"
          using R False by auto
        then have "events_are (ev @ [e]) t" by (simp add: events_are_def)
        from ensuresD [OF Cons.IH this rest] e show ?thesis by (simp add: rules_run_step)
      qed
      with False show ?thesis by (auto simp: ensures_def)
    qed
  qed
qed

section \<open>Example state\<close>

definition val_env_ex :: val_env where
  "val_env_ex = sp_env.extend (sp_env_ex\<lparr>sp_run := \<lambda>argv i env n. (Inr (0, ''out'', []), n)\<rparr>) (val_env.fields
     \<lparr>shared_directory = ''/s/'', processing_directory = [], rejected_directory = [], watch_directory = []\<rparr>
     (\<lambda>t. Inr [(''eventOutcomeInformation'', Some ''pass''), (''eventOutcomeDetailNote'', Some ''ok'')]) (\<lambda>t. t))"

definition val_world_ex :: val_world where
  "val_world_ex = fpr_world.extend fpr_world_ex (val_world.fields None None)"

definition validator_ex :: Validator where
  "validator_ex = \<lparr>va_file_path = ''/a'', va_file_uuid = ''f'', va_sip_uuid = ''t'', va_shared_path = [],
     va_file_type = ''original'', va_purpose = ''validation''\<rparr>"

lemmas val_ex_defs = val_env_ex_def val_world_ex_def validator_ex_def fpr_world.extend_def val_world.fields_def
  sp_env.extend_def val_env.fields_def sp_env_ex_def fpr_ex_defs

section \<open>Properties\<close>

text \<open>A file is reported valid only if every rule accepted it. Whenever \<open>validate\<close> returns for an
  original file, the events it added are validation events of that file, first the accepted
  ones (\<open>pass\<close> or \<open>partial pass\<close>) and then at most one that is not; it returns 0 exactly when
  there is one accepted event for every rule that applies and no other, and 1 exactly when a rule
  was missed or not accepted. All rules after the first failure are skipped, and the integrity of
  the database is kept.\<close>

theorem validate_accepts_only_passed:
  fixes s :: "'s val_world_scheme"
  assumes inv: "db_inv s" and orig: "va_file_type v \<notin> DERIVATIVE_TYPES"
    and rules: "get_rules v s = (Inr rules, s)" and run: "validate E v s = (Inr code, t)"
  shows "rules_run v (length rules) (Events s) code t"
proof (cases "rules = []")
  case True
  then have "code = 0" "t = s" using run orig rules by (auto simp: validate_def py_simps NO_RULES_CODE_def)
  then show ?thesis using inv True by (simp add: rules_run_def)
next
  case False
  then have "execute_rules E v rules s = (Inr code, t)"
    using run orig rules by (simp add: validate_def py_simps)
  moreover have "events_are (Events s) s" using inv by (simp add: events_are_def)
  ultimately show ?thesis by (intro ensuresD [OF execute_rules_ensures])
qed

theorem validate_accepts_only_passed_witness:
  "\<exists>t. validate val_env_ex validator_ex val_world_ex = (Inr 0, t) \<and> rules_run validator_ex 1 [] 0 t"
proof -
  let ?E = val_env_ex and ?v = validator_ex and ?s = val_world_ex
  have inv: "db_inv ?s" by (simp add: val_ex_defs db_inv_def file_fks_ok_def)
  have orig: "va_file_type ?v \<notin> DERIVATIVE_TYPES" by (simp add: validator_ex_def DERIVATIVE_TYPES_def)
  have rules: "get_rules ?v ?s = (Inr [rule_ex], ?s)"
    by (simp add: get_rules_def applicable_rules_def get_format_of_file_def py_simps val_ex_defs active_format_versions_def active_rules_def get_one_def)
  have v: "va_file_type ?v = ''original''" "va_file_path ?v = ''/a''" "va_file_uuid ?v = ''f''" "va_purpose ?v = ''validation''"
    by (simp_all add: validator_ex_def)
  let ?c = "hd (FPCommands ?s)"
  have cmd: "rule_command rule_ex ?s = (Inr ?c, ?s)"
    by (simp add: rule_command_def py_simps val_ex_defs get_one_def)
  have c: "fc_script_type ?c = ''as_is''" "fc_command ?c = ''x''" "fc_description ?c = ''Validate''" "fc_tool ?c = Some ''tool''"
    by (simp_all add: val_ex_defs)
  have exec: "executeOrRun ?E ''as_is'' (CmdStr ''x'') (StrIn []) [''/a''] [] True (?s\<lparr>cur_job := j\<rparr>) =
      (Inr (0, ''out'', []), ?s\<lparr>cur_job := j\<rparr>)" for j
    by (simp add: executeOrRun_def createAndRunScript_def launchSubProcess_def run_process_def py_simps val_ex_defs
        write_file_def os_isdir_def os_remove_def fs_node_def path_comps_def dict_del_def)
  have lit: "va_literal_eval ?E ''out'' = Inr [(''eventOutcomeInformation'', Some ''pass''), (''eventOutcomeDetailNote'', Some ''ok'')]"
    by (simp add: val_ex_defs)
  have tool: "command_tool ?c (?s\<lparr>cur_job := j\<rparr>) = (Inr (hd (FPTools ?s)), ?s\<lparr>cur_job := j\<rparr>)" for j
    unfolding command_tool_def c(4) by (simp add: py_simps val_ex_defs get_one_def)
  have ins: "\<exists>t. insert_validation_event (env.truncate ?E) ''f'' d (Some ''pass'') (Some ''ok'') (?s\<lparr>cur_job := j\<rparr>) = (Inr (), t)" for d j
  proof -
    let ?t = "?s\<lparr>cur_job := j, clock := Suc (clock ?s)\<rparr>" and ?F = "env.truncate ?E"
    have t: "db_inv ?t" "file_ex \<in> set (Files ?t)" "Events ?t = []" "f_uuid file_ex = ''f''"
      by (simp_all add: val_ex_defs db_inv_def file_fks_ok_def)
    have ag: "file_agents_ok ?t file_ex"
      by (simp add: val_ex_defs file_agents_ok_def agent_variable_ok_def unit_variables_of_def)
    have uu: "env_uuid4 ?F (uuids ?t) \<noteq> []" by (simp add: val_ex_defs env.defs)
    have ev: "Some (env_uuid4 ?F (uuids ?t)) \<notin> e_event_id ` set (Events ?t)" unfolding t(3) by simp
    obtain e t' where r: "insertIntoEvents ?F (f_uuid file_ex) [] ''validation'' (Some (env_now ?F (clock ?s))) d ''pass'' ''ok'' [] ?t = (Inr e, t')"
      using insertIntoEvents_step [OF t(1,2) ag uu ev] by blast
    have st: "?s\<lparr>cur_job := j\<rparr>\<lparr>clock := Suc (clock (?s\<lparr>cur_job := j\<rparr>))\<rparr> = ?t" "clock (?s\<lparr>cur_job := j\<rparr>) = clock ?s" by simp_all
    have "insertIntoEvents ?F ''f'' [] ''validation'' None d ''pass'' ''ok'' [] (?s\<lparr>cur_job := j\<rparr>) = (Inr e, t')"
      unfolding insertIntoEvents_now st using r t(4) by (simp only:)
    then show ?thesis by (simp add: insert_validation_event_def py_simps)
  qed
  obtain T where T: "\<And>d j. insert_validation_event (env.truncate ?E) ''f'' d (Some ''pass'') (Some ''ok'') (?s\<lparr>cur_job := j\<rparr>) = (Inr (), T d j)"
    using ins by (metis (no_types))
  have "\<exists>t. execute_rule_command ?E ?v rule_ex ?s = (Inr ''passed'', t)"
    by (simp add: T execute_rule_command_def py_simps cmd command_line_def c v exec lit tool judge_output_def output_get_def)
  then have "\<exists>t. validate ?E ?v ?s = (Inr 0, t)"
    using orig by (auto simp: validate_def py_simps rules SUCCESS_CODE_def)
  then obtain t where run: "validate ?E ?v ?s = (Inr 0, t)" by blast
  have "Events ?s = []" by (simp add: val_ex_defs)
  with validate_accepts_only_passed [OF inv orig rules run] run show ?thesis by auto
qed

end
