(* ===== verification/PolicyCheck.thy ===== *)
theory PolicyCheck
  imports Validate
begin

text \<open>
  \<open>clientScripts/policy_check.py\<close>: checking a file against the policies of the registry. A method that
  also exists in \<open>Validate\<close> is prefixed by its class. \<open>json.loads\<close> on the output of a command is a field of
  the environment: an object of texts, or the exception it raises.
\<close>

record pc_env = sp_env +
  pc_config :: dict_config
  pc_json_loads :: "string \<Rightarrow> py_exn + (string \<times> string option) list"

record PolicyChecker =
  pc_file_path :: string
  pc_file_uuid :: string
  pc_sip_uuid :: string
  pc_shared_path :: string
  pc_file_type :: string
  pc_policies_dir :: string
  is_manually_normalized_access_derivative :: bool

text \<open>The attributes that are set after the object was made.\<close>

record pc_world = fpr_world +
  pc_sip_logs_dir :: "string option"
  pc_sip_subm_doc_dir :: "string option"
  pc_sip_policy_checks_dir :: "string option"
  pc_file_model :: "file_row option"

definition NOT_APPLICABLE_CODE :: int where "NOT_APPLICABLE_CODE = 0"

definition get_is_manually_normalized_access_derivative :: "string \<Rightarrow> string \<Rightarrow> bool" where
  "get_is_manually_normalized_access_derivative file_uuid file_path =
     (file_uuid = ''None'' \<and> endswith (dirname file_path) ''/DIP/objects'')"

definition PolicyChecker_init ::
  "string \<Rightarrow> string \<Rightarrow> string \<Rightarrow> string \<Rightarrow> string \<Rightarrow> ('s pc_world_scheme, PolicyChecker) py" where
  "PolicyChecker_init file_path file_uuid sip_uuid shared_path file_type =
     py_seq (py_mod (\<lambda>s. s\<lparr>pc_sip_logs_dir := None, pc_sip_subm_doc_dir := None, pc_sip_policy_checks_dir := None, pc_file_model := None\<rparr>))
       (py_ret \<lparr>pc_file_path = file_path, pc_file_uuid = file_uuid, pc_sip_uuid = sip_uuid, pc_shared_path = shared_path,
          pc_file_type = file_type, pc_policies_dir = path_joins shared_path [''sharedMicroServiceTasksConfigs'', ''policies''],
          is_manually_normalized_access_derivative = get_is_manually_normalized_access_derivative file_uuid file_path\<rparr>)"

section \<open>Which files are checked\<close>

definition PolicyChecker_file_is_derivative :: "PolicyChecker \<Rightarrow> bool \<Rightarrow> ('s world_scheme, bool) py" where
  "PolicyChecker_file_is_derivative p for_access =
     (if is_manually_normalized_access_derivative p then py_ret True
      else py_try (py_seq (get_derivation (\<lambda>ev s. if for_access then ev = None
            else ev \<noteq> None \<and> (\<exists>e \<in> set (Events s). e_event_id e = ev \<and> e_event_type e = ''normalization'')) (pc_file_uuid p)) (py_ret True))
        (\<lambda>e. if missing_or_invalid e then Some (py_ret False) else None))"

definition file_is_for_access :: "PolicyChecker \<Rightarrow> ('s pc_world_scheme, bool) py" where
  "file_is_for_access p = (if is_manually_normalized_access_derivative p then py_ret True
     else py_bind (py_get pc_file_model) (\<lambda>f. case f of
        None \<Rightarrow> py_raise (AttributeError ''file_model'') | Some r \<Rightarrow> py_ret (f_filegrpuse r = ''access'')))"

definition we_check_this_type_of_file :: "PolicyChecker \<Rightarrow> ('s pc_world_scheme, bool) py" where
  "we_check_this_type_of_file p =
     (if pc_file_type p = ''original'' then py_ret True
      else if pc_file_type p = ''preservation''
      then py_bind (PolicyChecker_file_is_derivative p False) (\<lambda>der.
           py_bind (if \<not> der then py_ret True else file_is_for_access p) (\<lambda>skip.
           if skip then py_seq (job_pyprint Stdout [''File '' @ pc_file_uuid p @ '' is not a preservation derivative; not performing a policy check.''])
                  (py_ret False)
           else py_ret True))
      else if pc_file_type p = ''access''
      then py_bind (PolicyChecker_file_is_derivative p True) (\<lambda>der.
           py_bind (if der then file_is_for_access p else py_ret False) (\<lambda>go_on.
           if go_on then py_ret True
           else py_seq (job_pyprint Stdout [''File '' @ pc_file_uuid p @ '' is not an access derivative; not performing a policy check.''])
               (py_bind (PolicyChecker_file_is_derivative p True) (\<lambda>der2.
                py_seq (py_when (\<not> der2) (job_pyprint Stdout [''File '' @ pc_file_uuid p @ '' is not a derivative.'']))
               (py_bind (file_is_for_access p) (\<lambda>acc.
                py_seq (py_when (\<not> acc) (job_pyprint Stdout [''File '' @ pc_file_uuid p @ '' is not for access.'']))
                       (py_ret False)))))))
      else py_ret True)"

section \<open>Which rules apply\<close>

definition get_manually_normalized_access_derivative_file_uuid :: "PolicyChecker \<Rightarrow> ('s world_scheme, string option) py" where
  "get_manually_normalized_access_derivative_file_uuid p =
     (let path = ''%transferDirectory%objects/manualNormalization/access/'' @ drop 37 (basename (pc_file_path p)) in
      py_bind (py_get (\<lambda>s. get_one ''File'' (filter (\<lambda>f. f_originallocation f = path \<and> f_sip f = Some (pc_sip_uuid p)) (Files s)))) (\<lambda>r.
      py_ret (case r of Inr f \<Rightarrow> Some (f_uuid f) | Inl _ \<Rightarrow> None)))"

text \<open>
  \<open>FormatVersion.active.get(fileformatversion__file_uuid=None)\<close> is a query for the formats that no file
  is linked to.
\<close>

definition format_of_optional_file :: "string option \<Rightarrow> ('s fpr_world_scheme, format_version_row) py" where
  "format_of_optional_file u = (case u of
      Some x \<Rightarrow> get_format_of_file x
    | None \<Rightarrow> py_bind (py_get (\<lambda>s. filter (\<lambda>v. fv_uuid v \<notin> ffv_format_version ` set (FileFormatVersions s)) (active_format_versions s)))
        (\<lambda>rs. py_lift (get_one ''FormatVersion'' rs)))"

definition PolicyChecker_get_rules :: "PolicyChecker \<Rightarrow> ('s fpr_world_scheme, fprule_row list) py" where
  "PolicyChecker_get_rules p =
     py_bind (if is_manually_normalized_access_derivative p then get_manually_normalized_access_derivative_file_uuid p
              else py_ret (Some (pc_file_uuid p))) (\<lambda>u.
     py_bind (py_try (py_bind (format_of_optional_file u) (\<lambda>fmt. py_ret (Some fmt)))
        (\<lambda>e. if missing_or_invalid e then Some (py_ret None) else None)) (\<lambda>fmt.
     py_bind (py_get (\<lambda>s. case fmt of None \<Rightarrow> []
         | Some f \<Rightarrow> filter (\<lambda>r. fr_format r = fv_uuid f \<and> fr_purpose r = ''policy_check'') (active_rules s))) (\<lambda>rules.
     if rules \<noteq> [] then py_ret rules
     else py_get (\<lambda>s. filter (\<lambda>r. fr_purpose r = ''default_policy_check'') (active_rules s)))))"

section \<open>Where the output is saved\<close>

text \<open>The path of the unit a checked file belongs to; \<open>None\<close> when there is no such unit.\<close>

definition unit_path :: "string \<Rightarrow> string \<Rightarrow> ('s world_scheme, string option) py" where
  "unit_path unit_type u =
     py_bind (py_try (if unit_type = ''Transfer'' then py_bind (get_transfer u) (\<lambda>r. py_ret (Some (Some (tr_currentlocation r))))
                      else py_bind (get_sip u) (\<lambda>r. py_ret (Some (s_currentpath r))))
        (\<lambda>e. case e of DoesNotExist _ \<Rightarrow> Some (py_ret None) | MultipleObjectsReturned _ \<Rightarrow> Some (py_ret None)
               | ValidationError _ \<Rightarrow> Some (py_ret None) | _ \<Rightarrow> None)) (\<lambda>r. case r of
       None \<Rightarrow> py_ret None
     | Some x \<Rightarrow> py_bind (py_lift (need_str ''replace'' x)) (\<lambda>path. py_ret (Some path)))"

definition set_dir :: "string option \<Rightarrow> bool" where
  "set_dir d = (d \<noteq> None \<and> d \<noteq> Some [])"

definition PolicyChecker_sip_logs_dir :: "PolicyChecker \<Rightarrow> ('s pc_world_scheme, string option) py" where
  "PolicyChecker_sip_logs_dir p = py_bind (py_get pc_sip_logs_dir) (\<lambda>cached.
     if set_dir cached then py_ret cached
     else (let unit_type = (if pc_file_type p = ''original'' then ''Transfer'' else ''SIP'') in
       py_bind (unit_path unit_type (pc_sip_uuid p)) (\<lambda>found. case found of
         None \<Rightarrow> py_seq (upd_job (print_error [''Warning: unable to retrieve '' @ unit_type @ '' model corresponding to '' @ unit_type @
                  '' UUID '' @ pc_sip_uuid p])) (py_ret None)
       | Some path \<Rightarrow>
           (let logs_dir = path_join (str_replace1 path ''%sharedPath%'' (pc_shared_path p)) ''logs'' in
            py_bind (fs_get (\<lambda>n. os_isdir n logs_dir)) (\<lambda>isdir.
            if isdir then py_seq (py_mod (\<lambda>s. s\<lparr>pc_sip_logs_dir := Some logs_dir\<rparr>)) (py_ret (Some logs_dir))
            else py_seq (upd_job (print_error [''Warning: unable to find a logs/ directory in the '' @ unit_type @ '' with UUID '' @
                   pc_sip_uuid p])) (py_ret None))))))"

definition sip_subm_doc_dir :: "PolicyChecker \<Rightarrow> ('s pc_world_scheme, string option) py" where
  "sip_subm_doc_dir p = py_bind (py_get pc_sip_subm_doc_dir) (\<lambda>cached.
     if set_dir cached then py_ret cached
     else py_bind (unit_path ''SIP'' (pc_sip_uuid p)) (\<lambda>found. case found of
         None \<Rightarrow> py_seq (upd_job (print_error [''Warning: unable to retrieve SIP model corresponding to SIP UUID '' @ pc_sip_uuid p @
                  '' (when attempting to get the path to metadata/submissionDocumentation/''])) (py_ret None)
       | Some path \<Rightarrow>
           (let dir = path_joins (str_replace1 path ''%sharedPath%'' (pc_shared_path p)) [''metadata'', ''submissionDocumentation''] in
            py_bind (fs_get (\<lambda>n. os_isdir n dir)) (\<lambda>isdir.
            if isdir then py_seq (py_mod (\<lambda>s. s\<lparr>pc_sip_subm_doc_dir := Some dir\<rparr>)) (py_ret (Some dir))
            else py_seq (upd_job (print_error [''Warning: unable to find a metadata/submissionDocumentation/ directory in the SIP with UUID '' @
                   pc_sip_uuid p])) (py_ret None)))))"

definition sip_policy_checks_dir :: "PolicyChecker \<Rightarrow> ('s pc_world_scheme, string option) py" where
  "sip_policy_checks_dir p = py_bind (py_get pc_sip_policy_checks_dir) (\<lambda>cached.
     if set_dir cached then py_ret cached
     else py_bind (PolicyChecker_sip_logs_dir p) (\<lambda>logs.
       py_seq (case logs of
           None \<Rightarrow> py_ret ()
         | Some logs_dir \<Rightarrow>
             (let dir = path_join logs_dir ''policyChecks'';
                  keep = py_mod (\<lambda>s. s\<lparr>pc_sip_policy_checks_dir := Some dir\<rparr>) in
              py_bind (fs_get (\<lambda>n. os_isdir n dir)) (\<lambda>found.
              if found then keep
              else py_bind (py_try (py_seq (fs_do (os_makedirs dir)) (py_ret True))
                     (\<lambda>e. case e of OSError _ _ \<Rightarrow> Some (py_ret False) | _ \<Rightarrow> None)) (\<lambda>made.
                   py_when made keep))))
         (py_get pc_sip_policy_checks_dir)))"

definition make_dir :: "string \<Rightarrow> ('s world_scheme, unit) py" where
  "make_dir dir = py_bind (fs_get (\<lambda>n. os_isdir n dir)) (\<lambda>isdir. py_when (\<not> isdir) (fs_do (os_makedirs dir)))"

definition PolicyChecker_save_stdout_to_logs_dir :: "PolicyChecker \<Rightarrow> (string \<times> string option) list \<Rightarrow> ('s pc_world_scheme, unit) py" where
  "PolicyChecker_save_stdout_to_logs_dir p output =
     (let policy_filename = output_get output ''policyFileName''; mc_stdout = output_get output ''stdout'' in
      if set_dir policy_filename \<and> set_dir mc_stdout
      then py_bind (sip_policy_checks_dir p) (\<lambda>dir.
        py_when (set_dir dir)
          (let policy_dirpath = path_join (the dir) (fst (splitext (the policy_filename))) in
           py_seq (make_dir policy_dirpath)
             (fs_do (write_file (path_join policy_dirpath (basename (pc_file_path p) @ ''.xml'')) (the mc_stdout)))))
      else py_ret ())"

definition save_policy_to_subm_doc_dir :: "PolicyChecker \<Rightarrow> (string \<times> string option) list \<Rightarrow> ('s pc_world_scheme, unit) py" where
  "save_policy_to_subm_doc_dir p output =
     (let policy_filename = output_get output ''policyFileName''; policy = output_get output ''policy'' in
      if set_dir policy_filename \<and> set_dir policy
      then py_bind (sip_subm_doc_dir p) (\<lambda>dir.
        py_when (set_dir dir)
          (let sip_policies_dir = path_join (the dir) ''policies''; dst = path_join sip_policies_dir (the policy_filename) in
           py_seq (make_dir sip_policies_dir)
          (py_bind (fs_get (\<lambda>n. os_isfile n dst)) (\<lambda>isfile. py_when (\<not> isfile) (fs_do (write_file dst (the policy)))))))
      else py_ret ())"

definition save_to_logs_dir :: "PolicyChecker \<Rightarrow> (string \<times> string option) list \<Rightarrow> ('s pc_world_scheme, unit) py" where
  "save_to_logs_dir p output =
     py_seq (PolicyChecker_save_stdout_to_logs_dir p output) (save_policy_to_subm_doc_dir p output)"

section \<open>Running the rules\<close>

definition get_command_to_execute :: "('e pc_env_scheme) \<Rightarrow> PolicyChecker \<Rightarrow> fpcommand_row \<Rightarrow> ('s world_scheme, string \<times> string list) py" where
  "get_command_to_execute E p c = (if fc_script_type c \<in> {''bashScript'', ''command''}
     then py_bind (replace_string_values (env.truncate E) (pc_config E) (fc_command c) ''file'' (UnitUuid (pc_sip_uuid p))
            (FileUuid (pc_file_uuid p)) True) (\<lambda>t. py_ret (t, []))
     else py_ret (fc_command c, [pc_file_path p, pc_policies_dir p]))"

definition none_str :: "string option \<Rightarrow> string" where
  "none_str x = (case x of None \<Rightarrow> ''None'' | Some t \<Rightarrow> t)"

definition PolicyChecker_execute_rule_command :: "('e pc_env_scheme) \<Rightarrow> PolicyChecker \<Rightarrow> fprule_row \<Rightarrow> ('s pc_world_scheme, string) py" where
  "PolicyChecker_execute_rule_command E p rule =
     py_bind (rule_command rule) (\<lambda>c.
     py_bind (get_command_to_execute E p c) (\<lambda>(command_to_execute, args).
     py_seq (job_pyprint Stdout [''Running'', fc_description c])
    (py_bind (executeOrRun E (fc_script_type c) (CmdStr command_to_execute) (StrIn []) args [] True) (\<lambda>(exitstatus, stdout, stderr).
     py_bind (py_try (py_lift (pc_json_loads E stdout)) (\<lambda>e. case e of
         ValueError _ \<Rightarrow> Some (py_seq (log_msg ERROR (''Unable to load an object from the malformed JSON: '' @ [CHR 0x0A] @ stderr @
             [CHR 0x0A] @ env_traceback E e)) (py_raise e)) | _ \<Rightarrow> None)) (\<lambda>output.
     py_seq (py_when (pc_file_type p \<in> {''preservation'', ''original''}) (save_to_logs_dir p output))
    (if exitstatus \<noteq> 0
     then py_seq (upd_job (print_error [''Command '' @ fc_description c @ '' failed with exit status '' @ str_int exitstatus @
            ''; stderr:'', stderr])) (py_ret ''failed'')
     else
     py_seq (job_pyprint Stdout [''Command '' @ fc_description c @ '' completed with output '' @ stdout])
    (py_bind (command_tool c) (\<lambda>tool.
     (let event_detail = ''program='' @ [dquote] @ ft_description tool @ [dquote] @ ''; version='' @ [dquote] @ ft_version tool @ [dquote];
          outcome = output_get output ''eventOutcomeInformation''; details = output_get output ''eventOutcomeDetailNote'' in
      py_seq (py_when (outcome \<noteq> Some ''pass'') (upd_job (print_error [''Command '' @ fc_description c @
          '' returned a non-pass outcome for the policy check;'' @ [CHR 0x0A, CHR 0x0A] @ ''outcome: '' @ none_str outcome @
          [CHR 0x0A, CHR 0x0A] @ ''details: '' @ none_str details @ ''.''])))
     (py_seq (job_pyprint Stdout [''Creating policy checking event for '' @ pc_file_path p @ '' ('' @ pc_file_uuid p @ '')''])
     (py_seq (py_when (\<not> is_manually_normalized_access_derivative p)
        (insert_validation_event (env.truncate E) (pc_file_uuid p) event_detail outcome details))
      (py_ret (if outcome \<noteq> Some ''pass'' then ''failed'' else ''passed'')))))))))))))"

text \<open>All rules are run, also after one that failed.\<close>

definition check_rules :: "('e pc_env_scheme) \<Rightarrow> PolicyChecker \<Rightarrow> fprule_row list \<Rightarrow> ('s pc_world_scheme, int) py" where
  "check_rules E p rules = py_bind (py_map (PolicyChecker_execute_rule_command E p) rules) (\<lambda>rule_outputs.
     py_ret (if ''failed'' \<in> set rule_outputs then FAIL_CODE else SUCCESS_CODE))"

definition policy_check :: "('e pc_env_scheme) \<Rightarrow> PolicyChecker \<Rightarrow> ('s pc_world_scheme, int) py" where
  "policy_check E p =
     py_bind (if is_manually_normalized_access_derivative p then py_ret True
       else py_bind (py_try (py_bind (get_file (pc_file_uuid p)) (\<lambda>f. py_ret (Some f)))
              (\<lambda>e. if missing_or_invalid e then Some (py_ret None) else None)) (\<lambda>found. case found of
            None \<Rightarrow> py_seq (job_pyprint Stdout [''Not performing a policy check because there is no file with UUID '' @ pc_file_uuid p @ ''.''])
                     (py_ret False)
          | Some f \<Rightarrow> py_seq (py_mod (\<lambda>s. s\<lparr>pc_file_model := Some f\<rparr>)) (py_ret True))) (\<lambda>known.
     if \<not> known then py_ret NOT_APPLICABLE_CODE
     else py_bind (we_check_this_type_of_file p) (\<lambda>ours.
       if \<not> ours then py_ret NOT_APPLICABLE_CODE
       else py_bind (PolicyChecker_get_rules p) (\<lambda>rules.
         if rules = []
         then py_seq (job_pyprint Stdout [''Not performing a policy check because there are no relevant FPR rules'']) (py_ret NOT_APPLICABLE_CODE)
         else check_rules E p rules)))"

definition policy_check_job :: "('e pc_env_scheme) \<Rightarrow> ('s pc_world_scheme, unit) py" where
  "policy_check_job E = JobContext (env_traceback E) True
     (py_bind (nth_arg 1) (\<lambda>file_path. py_bind (nth_arg 2) (\<lambda>file_uuid. py_bind (nth_arg 3) (\<lambda>sip_uuid.
      py_bind (nth_arg 4) (\<lambda>shared_path. py_bind (nth_arg 5) (\<lambda>file_type.
      py_try (py_bind (PolicyChecker_init file_path file_uuid sip_uuid shared_path file_type) (\<lambda>p.
              py_bind (policy_check E p) (\<lambda>code. upd_job (set_status code ''success''))))
        (\<lambda>e. case e of ValueError _ \<Rightarrow> Some (upd_job (set_status FAIL_CODE ''success'')) | _ \<Rightarrow> None)))))))"

section \<open>Everything but the insertion leaves the events alone\<close>

lemma events_are_pc [simp]:
  "events_are ev (s'\<lparr>pc_sip_logs_dir := c\<rparr>) = events_are ev s'" "events_are ev (s'\<lparr>pc_sip_subm_doc_dir := c\<rparr>) = events_are ev s'"
  "events_are ev (s'\<lparr>pc_sip_policy_checks_dir := c\<rparr>) = events_are ev s'"
  by (simp_all add: events_are_def db_inv_def file_fks_ok_def event_fks_ok_def derivation_fks_ok_def)

lemma keeps_events_print [keeps_intros]: "keeps (events_are ev) (job_pyprint h ss)" "keeps (events_are ev) (log_msg l msg)"
  by (auto simp: keeps_def py_simps job_pyprint_def events_are_def split: sum.splits)

lemma reads_unit_path: "keeps ((=) s) (unit_path ty u)"
  unfolding unit_path_def
  by (intro keeps_intros keeps_bind keeps_try; (auto split: py_exn.splits intro!: keeps_intros)?)

lemma keeps_events_dirs:
  "keeps (events_are ev) (PolicyChecker_sip_logs_dir p)" "keeps (events_are ev) (sip_subm_doc_dir p)"
  "keeps (events_are ev) (sip_policy_checks_dir p)"
proof -
  show logs: "keeps (events_are ev) (PolicyChecker_sip_logs_dir p)"
    unfolding PolicyChecker_sip_logs_dir_def by (intro keeps_intros keeps_bind keeps_reads [OF reads_unit_path]) auto
  show "keeps (events_are ev) (sip_subm_doc_dir p)"
    unfolding sip_subm_doc_dir_def by (intro keeps_intros keeps_bind keeps_reads [OF reads_unit_path]) auto
  show "keeps (events_are ev) (sip_policy_checks_dir p)"
    unfolding sip_policy_checks_dir_def
    by (intro keeps_intros keeps_bind keeps_try logs; (auto split: py_exn.splits intro!: keeps_intros)?)
qed

lemma keeps_events_save [keeps_intros]: "keeps (events_are ev) (save_to_logs_dir p output)"
proof -
  have "keeps (events_are ev) (make_dir d)" for d
    unfolding make_dir_def by (intro keeps_intros keeps_bind)
  then show ?thesis
    unfolding save_to_logs_dir_def PolicyChecker_save_stdout_to_logs_dir_def save_policy_to_subm_doc_dir_def Let_def
    by (intro keeps_intros keeps_bind keeps_events_dirs)
qed

lemma reads_command_to_execute: "keeps ((=) s) (get_command_to_execute E p c)"
  unfolding get_command_to_execute_def by (intro keeps_intros keeps_bind)

section \<open>One rule\<close>

definition check_event :: "PolicyChecker \<Rightarrow> event_row \<Rightarrow> bool" where
  "check_event p e \<longleftrightarrow> e_file_uuid e = Some (pc_file_uuid p) \<and> e_event_type e = ''validation''"

text \<open>A rule that passes adds an event with the outcome pass; one that fails adds at most one, with another outcome.\<close>

definition rule_checked :: "PolicyChecker \<Rightarrow> event_row list \<Rightarrow> string \<Rightarrow> 's world_scheme \<Rightarrow> bool" where
  "rule_checked p ev r t \<longleftrightarrow> db_inv t \<and> (\<exists>new. Events t = ev @ new \<and> (\<forall>e \<in> set new. check_event p e) \<and> length new \<le> 1 \<and>
     (r \<noteq> ''failed'' \<longleftrightarrow> length new = 1 \<and> (\<forall>e \<in> set new. e_event_outcome e = ''pass'')))"

lemma execute_check_ensures:
  fixes E :: "'e pc_env_scheme"
  assumes auto: "\<not> is_manually_normalized_access_derivative p"
  shows "ensures (events_are ev) (PolicyChecker_execute_rule_command E p rule :: ('s pc_world_scheme, string) py) (rule_checked p ev)"
proof -
  let ?P = "events_are ev :: 's pc_world_scheme \<Rightarrow> bool"
  have reads: "keeps ?P (rule_command rule)" "keeps ?P (get_command_to_execute E p c)" "keeps ?P (command_tool c)" for c
    by (rule keeps_reads [OF reads_fpr(1)], rule keeps_reads [OF reads_command_to_execute], rule keeps_reads [OF reads_fpr(2)])
  have json: "keeps ?P (py_try (py_lift r) (\<lambda>e. case e of ValueError _ \<Rightarrow> Some (py_seq (log_msg l (g e)) (py_raise e)) | _ \<Rightarrow> None))" for r l g
    by (rule keeps_try) (auto split: py_exn.splits intro!: keeps_intros)
  have fail: "ensures ?P (py_seq (upd_job f) (py_ret ''failed'')) (rule_checked p ev)" for f
    by (intro ensures_seq_keeps keeps_intros ensures_ret) (auto simp: rule_checked_def events_are_def)
  have event: "ensures ?P (py_seq (insert_validation_event F (pc_file_uuid p) d outcome nt)
      (py_ret (if outcome \<noteq> Some ''pass'' then ''failed'' else ''passed''))) (rule_checked p ev)" for F d outcome nt
    by (rule ensures_seq [OF insert_validation_ensures], rule ensures_ret)
      (auto simp: rule_checked_def check_event_def)
  show ?thesis
    unfolding PolicyChecker_execute_rule_command_def Let_def
    by (simp only: auto simp_thms py_when_def [of True] if_True,
        intro ensures_bind_keeps ensures_seq_keeps reads json keeps_intros ensures_if fail event ensures_case_prod)
qed

text \<open>A manually normalized access derivative has no row in the database: nothing is recorded for it.\<close>

lemma execute_check_manual:
  fixes E :: "'e pc_env_scheme"
  assumes manual: "is_manually_normalized_access_derivative p"
  shows "keeps (events_are ev) (PolicyChecker_execute_rule_command E p rule :: ('s pc_world_scheme, string) py)"
proof -
  let ?P = "events_are ev :: 's pc_world_scheme \<Rightarrow> bool"
  have reads: "keeps ?P (rule_command rule)" "keeps ?P (get_command_to_execute E p c)" "keeps ?P (command_tool c)" for c
    by (rule keeps_reads [OF reads_fpr(1)], rule keeps_reads [OF reads_command_to_execute], rule keeps_reads [OF reads_fpr(2)])
  have json: "keeps ?P (py_try (py_lift r) (\<lambda>e. case e of ValueError _ \<Rightarrow> Some (py_seq (log_msg l (g e)) (py_raise e)) | _ \<Rightarrow> None))" for r l g
    by (rule keeps_try) (auto split: py_exn.splits intro!: keeps_intros)
  show ?thesis
    unfolding PolicyChecker_execute_rule_command_def Let_def
    by (simp only: manual simp_thms py_when_def [of False] if_False,
        intro keeps_bind keeps_intros reads json)
qed

definition rules_checked :: "PolicyChecker \<Rightarrow> event_row list \<Rightarrow> string list \<Rightarrow> 's world_scheme \<Rightarrow> bool" where
  "rules_checked p ev rs t \<longleftrightarrow> db_inv t \<and> (\<exists>new. Events t = ev @ new \<and> (\<forall>e \<in> set new. check_event p e) \<and> length new \<le> length rs \<and>
     (''failed'' \<notin> set rs \<longleftrightarrow> length new = length rs \<and> (\<forall>e \<in> set new. e_event_outcome e = ''pass'')))"

lemma rules_checked_append:
  assumes "rules_checked p ev as s" and "rules_checked p (Events s) bs t"
  shows "rules_checked p ev (as @ bs) t"
proof -
  obtain a where a: "Events s = ev @ a" "\<forall>e \<in> set a. check_event p e" "length a \<le> length as"
    "''failed'' \<notin> set as \<longleftrightarrow> length a = length as \<and> (\<forall>e \<in> set a. e_event_outcome e = ''pass'')"
    using assms(1) unfolding rules_checked_def by blast
  obtain b where b: "db_inv t" "Events t = Events s @ b" "\<forall>e \<in> set b. check_event p e" "length b \<le> length bs"
    "''failed'' \<notin> set bs \<longleftrightarrow> length b = length bs \<and> (\<forall>e \<in> set b. e_event_outcome e = ''pass'')"
    using assms(2) unfolding rules_checked_def by blast
  have "length (a @ b) = length (as @ bs) \<longleftrightarrow> length a = length as \<and> length b = length bs" using a(3) b(4) by auto
  then have "''failed'' \<notin> set (as @ bs) \<longleftrightarrow> length (a @ b) = length (as @ bs) \<and> (\<forall>e \<in> set (a @ b). e_event_outcome e = ''pass'')"
    using a(4) b(5) by auto
  then show ?thesis
    unfolding rules_checked_def using a b by (intro conjI exI [of _ "a @ b"]) auto
qed

lemma checker_rule_loop:
  fixes E :: "'e pc_env_scheme"
  assumes "\<not> is_manually_normalized_access_derivative p"
  shows "rule_loop (PolicyChecker_execute_rule_command E p :: _ \<Rightarrow> ('s pc_world_scheme, string) py) (rules_checked p)"
proof unfold_locales
  show "rules_checked p ev [] s" if "events_are ev s" for ev and s :: "'s pc_world_scheme"
    using that by (simp add: rules_checked_def events_are_def)
  show "db_inv s" if "rules_checked p ev rs s" for ev rs and s :: "'s pc_world_scheme"
    using that by (simp add: rules_checked_def)
  show "ensures (events_are ev) (PolicyChecker_execute_rule_command E p r :: ('s pc_world_scheme, string) py) (\<lambda>c. rules_checked p ev [c])" for ev r
    by (rule ensures_weaken [OF execute_check_ensures [OF assms]]) (auto simp: rule_checked_def rules_checked_def)
qed (rule rules_checked_append)

section \<open>Example state\<close>

definition pc_env_ex :: pc_env where
  "pc_env_ex = sp_env.extend sp_env_ex (pc_env.fields \<lparr>shared_directory = [], processing_directory = [], rejected_directory = [],
     watch_directory = []\<rparr> (\<lambda>t. Inr [(''eventOutcomeInformation'', Some ''pass''), (''eventOutcomeDetailNote'', Some ''ok'')]))"

definition pc_world_ex :: pc_world where
  "pc_world_ex = fpr_world.extend fpr_world_ex (pc_world.fields None None None None)"

definition checker_ex :: PolicyChecker where
  "checker_ex = \<lparr>pc_file_path = ''/a'', pc_file_uuid = ''f'', pc_sip_uuid = ''s'', pc_shared_path = ''/'', pc_file_type = ''access'',
     pc_policies_dir = ''/p'', is_manually_normalized_access_derivative = False\<rparr>"

section \<open>Properties\<close>

text \<open>C26. A policy check reports success exactly when every rule passed. When the loop over the rules of a file
  returns, its code is 0 or 1. For a file with a row in the database the rules have added at most one
  validation event each, all on the file, and the code is 0 if and only if there is one event per rule
  and all say pass. For a manually normalized access derivative, which has no row, no event is recorded,
  whatever the rules yield.\<close>

theorem check_passes_iff_all_pass:
  assumes inv: "db_inv s" and run: "check_rules E p rules s = (Inr code, t)"
  shows "(code = 0 \<or> code = 1) \<and>
    (if is_manually_normalized_access_derivative p then Events t = Events s
     else \<exists>new. Events t = Events s @ new \<and> (\<forall>e \<in> set new. check_event p e) \<and> length new \<le> length rules \<and>
       (code = 0 \<longleftrightarrow> length new = length rules \<and> (\<forall>e \<in> set new. e_event_outcome e = ''pass'')))"
proof -
  obtain rs where rs: "py_map (PolicyChecker_execute_rule_command E p) rules s = (Inr rs, t)"
    and code: "code = (if ''failed'' \<in> set rs then FAIL_CODE else SUCCESS_CODE)"
    using run by (auto simp: check_rules_def py_simps split: prod.splits sum.splits)
  have ev: "events_are (Events s) s" using inv by (simp add: events_are_def)
  show ?thesis
  proof (cases "is_manually_normalized_access_derivative p")
    case True
    have "keeps (events_are (Events s)) (py_map (PolicyChecker_execute_rule_command E p) rules)"
      by (intro keeps_intros execute_check_manual [OF True])
    from keepsD [OF this ev] rs True code show ?thesis
      by (simp add: events_are_def FAIL_CODE_def SUCCESS_CODE_def)
  next
    case False
    from ensuresD [OF rule_loop.all_rules [OF checker_rule_loop [OF False]] ev rs] code False show ?thesis
      by (auto simp: rules_checked_def FAIL_CODE_def SUCCESS_CODE_def)
  qed
qed

theorem check_passes_iff_all_pass_witness:
  "\<exists>code t. check_rules pc_env_ex checker_ex [rule_ex] pc_world_ex = (Inr code, t) \<and> code = 0 \<and> length (Events t) = 1"
proof -
  let ?run = "check_rules pc_env_ex checker_ex [rule_ex] pc_world_ex"
  have "fst ?run = Inr 0" by code_simp
  then obtain t where run: "?run = (Inr 0, t)" by (cases ?run) auto
  have inv: "db_inv pc_world_ex" and auto: "\<not> is_manually_normalized_access_derivative checker_ex" and none: "Events pc_world_ex = []"
    by code_simp+
  show ?thesis using check_passes_iff_all_pass [OF inv run] run auto by (auto simp: none)
qed

end
