(* ===== verification/Characterize.thy ===== *)
theory Characterize
  imports Commands
begin

text \<open>
  \<open>clientScripts/characterize_file.py\<close>: running the characterisation commands of the registry on a
  file and storing their XML output. Whether a text is well-formed XML and the command line
  parser of the script are fields of the environment.
\<close>

record ch_env = sp_env +
  ch_config :: dict_config
  ch_xml_ok :: "string \<Rightarrow> bool"
  ch_parse_args :: "string list \<Rightarrow> py_exn + string \<times> string"

section \<open>One rule\<close>

definition characterize_command ::
  "('e ch_env_scheme) \<Rightarrow> string \<Rightarrow> string \<Rightarrow> fpcommand_row \<Rightarrow> ('s world_scheme, string \<times> string list) py" where
  "characterize_command E file_uuid sip_uuid c =
     (if fc_script_type c = ''bashScript'' \<or> fc_script_type c = ''command''
      then py_bind (replace_string_values (env.truncate E) (ch_config E) (fc_command c) ''file'' (UnitUuid sip_uuid)
             (FileUuid file_uuid) True) (\<lambda>t. py_ret (t, []))
      else py_bind (frommodel (env.truncate E) (ch_config E) ''file'' (UnitUuid sip_uuid) (FileUuid file_uuid) True)
             (\<lambda>rd. py_ret (fc_command c, to_gnu_options rd)))"

text \<open>\<open>rule.command.output_format and rule.command.output_format.pronom_id == "fmt/101"\<close>\<close>

definition collects_xml :: "fpcommand_row \<Rightarrow> ('s fpr_world_scheme, bool) py" where
  "collects_xml c = (case fc_output_format c of
      None \<Rightarrow> py_ret False
    | Some u \<Rightarrow> py_bind (py_get (\<lambda>s. filter (\<lambda>v. fv_uuid v = u) (FormatVersions s))) (\<lambda>rs.
        py_bind (py_lift (get_one ''FormatVersion'' rs)) (\<lambda>v. py_ret (fv_pronom_id v = Some ''fmt/101''))))"

definition command_label :: "fpcommand_row \<Rightarrow> string" where
  "command_label c = [dquote] @ fc_description c @ [dquote] @ '' ('' @ fc_uuid c @ '')''"

text \<open>The body of the loop over the rules; the result says that the rule failed.\<close>

definition characterize_rule ::
  "('e ch_env_scheme) \<Rightarrow> string \<Rightarrow> string \<Rightarrow> fprule_row \<Rightarrow> ('s fpr_world_scheme, bool) py" where
  "characterize_rule E file_uuid sip_uuid rule =
     py_bind (rule_command rule) (\<lambda>c.
     py_bind (characterize_command E file_uuid sip_uuid c) (\<lambda>(command_to_execute, args).
     py_bind (executeOrRun E (fc_script_type c) (CmdStr command_to_execute) (StrIn []) args [] True)
       (\<lambda>(exitstatus, stdout, stderr).
     py_seq (upd_job (write_output stdout))
    (py_seq (upd_job (write_error stderr))
    (if exitstatus \<noteq> 0
     then py_seq (upd_job (write_error (''Command '' @ fc_description c @ '' failed with exit status '' @ str_int exitstatus @
            ''; stderr:''))) (py_ret True)
     else py_bind (collects_xml c) (\<lambda>xml.
       if xml
       then if ch_xml_ok E stdout
            then py_seq (insertIntoFPCommandOutput file_uuid stdout (fr_uuid rule))
                (py_seq (upd_job (write_output (''Saved XML output for command '' @ command_label c))) (py_ret False))
            else py_seq (upd_job (write_error (''XML output for command '' @ command_label c @
                   '' was not valid XML; not saving to database''))) (py_ret True)
       else py_seq (upd_job (write_error (''Tool output for command '' @ command_label c @
              '' is not XML; not saving to database''))) (py_ret False)))))))"

section \<open>main\<close>

definition characterize_main :: "('e ch_env_scheme) \<Rightarrow> string \<Rightarrow> string \<Rightarrow> ('s fpr_world_scheme, int) py" where
  "characterize_main E file_uuid sip_uuid =
     py_bind (py_get (\<lambda>s. list_ex (\<lambda>r. o_file r = file_uuid) (CommandOutputs s))) (\<lambda>done.
     if done then py_ret 0
     else py_bind (applicable_rules ''characterization'' file_uuid) (\<lambda>rules.
          py_bind (py_map (characterize_rule E file_uuid sip_uuid) rules) (\<lambda>failed.
          py_ret (if list_ex (\<lambda>b. b) failed then 255 else 0))))"

definition characterize_file_job :: "('e ch_env_scheme) \<Rightarrow> ('s fpr_world_scheme, unit) py" where
  "characterize_file_job E = JobContext (env_traceback E) False
     (py_bind (py_get (\<lambda>s. tl (j_args (cur_job s)))) (\<lambda>args.
      py_bind (py_lift (ch_parse_args E args)) (\<lambda>(file_uuid, sip_uuid).
      py_bind (characterize_main E file_uuid sip_uuid) (\<lambda>code. upd_job (set_status code ''success'')))))"

section \<open>What a rule leaves\<close>

text \<open>The state up to the things the script does not touch: the registry, the files and the stored outputs.\<close>

definition registry :: "'s fpr_world_scheme \<Rightarrow> 's fpr_world_scheme \<Rightarrow> bool" where
  "registry s t \<longleftrightarrow> FPCommands t = FPCommands s \<and> FormatVersions t = FormatVersions s \<and> Files t = Files s \<and>
     Rules t = Rules s \<and> FPRules t = FPRules s \<and> next_pk s \<le> next_pk t"

definition outputs_are :: "'s fpr_world_scheme \<Rightarrow> command_output_row list \<Rightarrow> 's fpr_world_scheme \<Rightarrow> bool" where
  "outputs_are s outs t \<longleftrightarrow> registry s t \<and> CommandOutputs t = outs"

lemma outputs_are_upd [simp]:
  "outputs_are s outs (t\<lparr>cur_job := j\<rparr>) = outputs_are s outs t" "outputs_are s outs (t\<lparr>fs := n\<rparr>) = outputs_are s outs t"
  by (simp_all add: outputs_are_def registry_def)

lemma keeps_outputs [keeps_intros]:
  "keeps (outputs_are s outs) (upd_job f)" "keeps (outputs_are s outs) (executeOrRun E ty c i args upd cap)"
  by (simp add: keeps_def py_simps, rule keeps_process, simp)

text \<open>Whether the output of a rule's command is collected: the command's output format is XML.\<close>

definition xml_rule :: "'s fpr_world_scheme \<Rightarrow> fprule_row \<Rightarrow> bool" where
  "xml_rule s rule \<longleftrightarrow> (\<exists>c v. c \<in> set (FPCommands s) \<and> fc_uuid c = fr_command rule \<and> v \<in> set (FormatVersions s) \<and>
     fc_output_format c = Some (fv_uuid v) \<and> fv_pronom_id v = Some ''fmt/101'')"

lemma rule_command_found:
  "ensures (outputs_are s outs) (rule_command rule)
     (\<lambda>c t. outputs_are s outs t \<and> filter (\<lambda>c. fc_uuid c = fr_command rule) (FPCommands s) = [c])"
  by (auto simp: ensures_def rule_command_def py_simps outputs_are_def registry_def get_one_def split: list.splits)

lemma collects_xml_iff:
  assumes "filter (\<lambda>c. fc_uuid c = fr_command rule) (FPCommands s) = [c]"
  shows "ensures (outputs_are s outs) (collects_xml c) (\<lambda>b t. outputs_are s outs t \<and> b = xml_rule s rule)"
proof -
  have c: "c' = c" if "c' \<in> set (FPCommands s)" "fc_uuid c' = fr_command rule" for c'
  proof -
    have "c' \<in> set (filter (\<lambda>c. fc_uuid c = fr_command rule) (FPCommands s))" using that by simp
    then show ?thesis unfolding assms by simp
  qed
  have mem: "c \<in> set (FPCommands s)" "fc_uuid c = fr_command rule"
    using assms by (auto dest: filter_eq_ConsD)
  have iff: "xml_rule s rule \<longleftrightarrow> (\<exists>v \<in> set (FormatVersions s). fc_output_format c = Some (fv_uuid v) \<and> fv_pronom_id v = Some ''fmt/101'')"
    unfolding xml_rule_def using c mem by blast
  have one: "(fv_pronom_id w = Some ''fmt/101'') = xml_rule s rule"
    if "fc_output_format c = Some u" "filter (\<lambda>v. fv_uuid v = u) (FormatVersions s) = [w]" for u w
  proof -
    have "{v \<in> set (FormatVersions s). fv_uuid v = u} = {w}"
      using arg_cong [OF that(2), of set] by simp
    then show ?thesis unfolding iff that(1) by auto
  qed
  show ?thesis
  proof (cases "fc_output_format c")
    case None
    then show ?thesis using iff by (simp add: collects_xml_def ensures_ret)
  next
    case (Some u)
    then show ?thesis using one
      by (auto simp: ensures_def collects_xml_def py_simps outputs_are_def registry_def get_one_def split: list.splits)
  qed
qed

lemma insert_output_appends:
  "ensures (outputs_are s outs) (insertIntoFPCommandOutput u xml rule)
     (\<lambda>_ t. \<exists>pk. outputs_are s (outs @ [\<lparr>o_id = pk, o_file = u, o_content = Some xml, o_rule = rule\<rparr>]) t)"
  by (auto simp: ensures_def insertIntoFPCommandOutput_def py_simps Let_def row_insert_def outputs_are_def registry_def
      split: if_splits)

lemma reads_command [keeps_intros]: "keeps ((=) s) (characterize_command E u sip c)"
  unfolding characterize_command_def by (intro keeps_intros keeps_bind)

definition stored :: "('e ch_env_scheme) \<Rightarrow> string \<Rightarrow> command_output_row \<Rightarrow> bool" where
  "stored E u r \<longleftrightarrow> o_file r = u \<and> (\<exists>c. o_content r = Some c \<and> ch_xml_ok E c)"

lemma characterize_rule_ensures:
  fixes E :: "'e ch_env_scheme"
  shows "ensures (outputs_are s outs) (characterize_rule E u sip rule)
     (\<lambda>failed t. \<exists>new. outputs_are s (outs @ new) t \<and> (\<forall>r \<in> set new. stored E u r) \<and>
        map o_rule new = (if \<not> failed \<and> xml_rule s rule then [fr_uuid rule] else []))"
    (is "ensures _ _ ?Q")
proof -
  have quiet: "ensures (outputs_are s outs) (py_seq (upd_job f) (py_ret b)) ?Q" if "b \<or> \<not> xml_rule s rule" for f b
    using that by (intro ensures_seq_keeps keeps_intros ensures_ret) (auto intro: exI [of _ "[]"])
  have store: "ensures (outputs_are s outs) (py_seq (insertIntoFPCommandOutput u xml (fr_uuid rule))
      (py_seq (upd_job f) (py_ret False))) ?Q" if "xml_rule s rule" "ch_xml_ok E xml" for xml f
  proof (rule ensures_seq [OF insert_output_appends], intro ensures_seq ensures_ret)
    show "ensures (\<lambda>t. \<exists>pk. outputs_are s (outs @ [\<lparr>o_id = pk, o_file = u, o_content = Some xml, o_rule = fr_uuid rule\<rparr>]) t)
        (upd_job f) (\<lambda>_ t. \<exists>pk. outputs_are s (outs @ [\<lparr>o_id = pk, o_file = u, o_content = Some xml, o_rule = fr_uuid rule\<rparr>]) t)"
      by (auto simp: ensures_def py_simps)
  qed (use that in \<open>force simp: stored_def\<close>)
  have judge: "ensures (outputs_are s outs) (py_bind (collects_xml c) (\<lambda>xml.
       if xml then if ch_xml_ok E out then py_seq (insertIntoFPCommandOutput u out (fr_uuid rule))
            (py_seq (upd_job f1) (py_ret False)) else py_seq (upd_job f2) (py_ret True)
       else py_seq (upd_job f3) (py_ret False))) ?Q"
    if "filter (\<lambda>c. fc_uuid c = fr_command rule) (FPCommands s) = [c]" for c out f1 f2 f3
    by (rule ensures_bind [OF collects_xml_iff [OF that]], rule ensures_pure) (intro ensures_if store quiet; simp)
  show ?thesis
    unfolding characterize_rule_def
    by (rule ensures_bind [OF rule_command_found], rule ensures_pure,
        rule ensures_bind_keeps, rule keeps_reads, rule reads_command, intro ensures_case_prod,
        rule ensures_bind_keeps, rule keeps_outputs, intro ensures_case_prod,
        (rule ensures_seq_keeps, rule keeps_outputs)+, rule ensures_if, rule quiet, simp, rule judge)
qed

lemma characterize_rules_ensures:
  fixes E :: "'e ch_env_scheme"
  shows "ensures (outputs_are s outs) (py_map (characterize_rule E u sip) rules)
     (\<lambda>failed t. length failed = length rules \<and> (\<exists>new. outputs_are s (outs @ new) t \<and> (\<forall>r \<in> set new. stored E u r) \<and>
        map o_rule new = map fr_uuid (map fst (filter (\<lambda>(r, b). \<not> b \<and> xml_rule s r) (zip rules failed)))))"
proof (induction rules arbitrary: outs)
  case Nil
  show ?case by (auto intro!: ensures_ret)
next
  case (Cons rule rules)
  have step: "ensures (\<lambda>t. \<exists>new. outputs_are s (outs @ new) t \<and> (\<forall>r \<in> set new. stored E u r) \<and>
        map o_rule new = (if \<not> b \<and> xml_rule s rule then [fr_uuid rule] else []))
     (py_bind (py_map (characterize_rule E u sip) rules) (\<lambda>bs. py_ret (b # bs)))
     (\<lambda>failed t. length failed = length (rule # rules) \<and> (\<exists>new. outputs_are s (outs @ new) t \<and> (\<forall>r \<in> set new. stored E u r) \<and>
        map o_rule new = map fr_uuid (map fst (filter (\<lambda>(r, b). \<not> b \<and> xml_rule s r) (zip (rule # rules) failed)))))" for b
  proof (unfold ensures_def, intro allI impI)
    fix t bs t'
    assume "\<exists>new. outputs_are s (outs @ new) t \<and> (\<forall>r \<in> set new. stored E u r) \<and>
        map o_rule new = (if \<not> b \<and> xml_rule s rule then [fr_uuid rule] else [])"
    then obtain n1 where n1: "outputs_are s (outs @ n1) t" "\<forall>r \<in> set n1. stored E u r"
      "map o_rule n1 = (if \<not> b \<and> xml_rule s rule then [fr_uuid rule] else [])" by blast
    assume "py_bind (py_map (characterize_rule E u sip) rules) (\<lambda>bs. py_ret (b # bs)) t = (Inr bs, t')"
    then obtain cs where cs: "py_map (characterize_rule E u sip) rules t = (Inr cs, t')" "bs = b # cs"
      by (auto simp: py_simps split: prod.splits sum.splits)
    obtain n2 where "outputs_are s ((outs @ n1) @ n2) t'" "\<forall>r \<in> set n2. stored E u r" "length cs = length rules"
      "map o_rule n2 = map fr_uuid (map fst (filter (\<lambda>(r, b). \<not> b \<and> xml_rule s r) (zip rules cs)))"
      using ensuresD [OF Cons.IH n1(1) cs(1)] by blast
    with n1 cs(2) show "length bs = length (rule # rules) \<and> (\<exists>new. outputs_are s (outs @ new) t' \<and> (\<forall>r \<in> set new. stored E u r) \<and>
        map o_rule new = map fr_uuid (map fst (filter (\<lambda>(r, b). \<not> b \<and> xml_rule s r) (zip (rule # rules) bs))))"
      by (intro conjI exI [of _ "n1 @ n2"]) auto
  qed
  show ?case unfolding py_map.simps by (rule ensures_bind [OF characterize_rule_ensures step])
qed

section \<open>Example state\<close>

definition ch_env_ex :: ch_env where
  "ch_env_ex = sp_env.extend (sp_env_ex\<lparr>sp_run := \<lambda>argv i env n. (Inr (0, ''<a/>'', []), n)\<rparr>) (ch_env.fields
     \<lparr>shared_directory = ''/s/'', processing_directory = [], rejected_directory = [], watch_directory = []\<rparr>
     (\<lambda>t. t = ''<a/>'') (\<lambda>args. Inr (''f'', ''t'')))"

text \<open>A file of a format with one characterisation command, which writes XML.\<close>

definition ch_rule_ex :: fprule_row where "ch_rule_ex = rule_ex\<lparr>fr_purpose := ''characterization'', fr_uuid := ''rule''\<rparr>"

definition ch_world_ex :: fpr_world where
  "ch_world_ex = fpr_world_ex\<lparr>Rules := [ch_rule_ex],
     FPCommands := map (fc_output_format_update (\<lambda>_. Some ''v'')) (FPCommands fpr_world_ex),
     FormatVersions := map (fv_pronom_id_update (\<lambda>_. Some ''fmt/101'')) (FormatVersions fpr_world_ex),
     fs := FDir []\<rparr>"

lemmas ch_ex_defs = ch_env_ex_def ch_world_ex_def ch_rule_ex_def ch_env.fields_def sp_env.extend_def sp_env_ex_def fpr_ex_defs

section \<open>Properties\<close>

text \<open>Characterising a file that has no stored output runs every rule that applies to it. The
  return code is 255 when a rule failed and 0 otherwise, and the outputs stored are exactly those of the
  rules that did not fail and whose command writes XML, in the order of the rules: each is linked to
  the file and is well-formed.\<close>

theorem characterize_stores_xml:
  fixes s :: "'s fpr_world_scheme"
  assumes "\<not> list_ex (\<lambda>r. o_file r = u) (CommandOutputs s)"
    and rules: "applicable_rules ''characterization'' u s = (Inr rules, s)"
    and run: "characterize_main E u sip s = (Inr code, t)"
  shows "\<exists>failed new. length failed = length rules \<and> code = (if True \<in> set failed then 255 else 0) \<and>
     CommandOutputs t = CommandOutputs s @ new \<and> (\<forall>r \<in> set new. stored E u r) \<and>
     map o_rule new = map fr_uuid (map fst (filter (\<lambda>(r, b). \<not> b \<and> xml_rule s r) (zip rules failed)))"
proof -
  obtain failed where f: "py_map (characterize_rule E u sip) rules s = (Inr failed, t)"
    "code = (if list_ex (\<lambda>b. b) failed then 255 else 0)"
    using run assms(1) rules by (auto simp: characterize_main_def py_simps split: prod.splits sum.splits)
  have "outputs_are s (CommandOutputs s) s" by (simp add: outputs_are_def registry_def)
  from ensuresD [OF characterize_rules_ensures this f(1)] f(2) show ?thesis
    by (auto simp: outputs_are_def list_ex_iff)
qed

theorem characterize_stores_xml_witness:
  "\<exists>t. characterize_main ch_env_ex ''f'' ''t'' ch_world_ex = (Inr 0, t) \<and> map o_rule (CommandOutputs t) = [''rule'']"
proof -
  let ?s = ch_world_ex
  have none: "\<not> list_ex (\<lambda>r. o_file r = ''f'') (CommandOutputs ?s)" by (simp add: ch_ex_defs)
  have rules: "applicable_rules ''characterization'' ''f'' ?s = (Inr [ch_rule_ex], ?s)"
    by (simp add: applicable_rules_def get_format_of_file_def py_simps ch_ex_defs active_format_versions_def active_rules_def get_one_def)
  let ?c = "hd (FPCommands ?s)"
  have cmd: "rule_command ch_rule_ex ?s = (Inr ?c, ?s)"
    by (simp add: rule_command_def py_simps ch_ex_defs get_one_def)
  have c: "fc_script_type ?c = ''as_is''" "fc_command ?c = ''x''" "fc_output_format ?c = Some ''v''" "fr_uuid ch_rule_ex = ''rule''"
    by (simp_all add: ch_ex_defs)
  have xml: "ch_xml_ok ch_env_ex = (\<lambda>t. t = ''<a/>'')" by (simp add: ch_ex_defs)
  have "\<exists>rd. frommodel (env.truncate ch_env_ex) (ch_config ch_env_ex) ''file'' (UnitUuid ''t'') (FileUuid ''f'') True ?s = (Inr rd, ?s)"
    by (simp add: frommodel_def resolve_file_def resolve_unit_def unit_of_file_def frommodel_unit_def frommodel_file_def
        file_base_location_def file_sip_def file_transfer_def need_str_def unit_location_def get_file_def get_sip_def
        get_transfer_def py_simps ch_ex_defs get_one_def no_attribute_def is_Exception_def Let_def)
  then obtain rd where rd: "frommodel (env.truncate ch_env_ex) (ch_config ch_env_ex) ''file'' (UnitUuid ''t'') (FileUuid ''f'') True ?s = (Inr rd, ?s)"
    by blast
  have exec: "executeOrRun ch_env_ex ''as_is'' (CmdStr ''x'') (StrIn []) args [] True ?s = (Inr (0, ''<a/>'', []), ?s)" for args
    by (simp add: executeOrRun_def createAndRunScript_def launchSubProcess_def run_process_def py_simps ch_ex_defs
        write_file_def os_isdir_def os_remove_def fs_node_def path_comps_def dict_del_def)
  have xmlc: "collects_xml ?c (?s\<lparr>cur_job := j\<rparr>) = (Inr True, ?s\<lparr>cur_job := j\<rparr>)" for j
    unfolding collects_xml_def c(3) by (simp add: py_simps ch_ex_defs get_one_def)
  have ins: "\<exists>t. insertIntoFPCommandOutput ''f'' x ''rule'' (?s\<lparr>cur_job := j\<rparr>) = (Inr (), t)" for x j
    by (simp add: insertIntoFPCommandOutput_def py_simps Let_def row_insert_def ch_ex_defs)
  then obtain T where T: "\<And>x j. insertIntoFPCommandOutput ''f'' x ''rule'' (?s\<lparr>cur_job := j\<rparr>) = (Inr (), T x j)"
    by (metis (no_types))
  have run: "\<exists>t. characterize_main ch_env_ex ''f'' ''t'' ?s = (Inr 0, t)"
    using none
    by (simp add: characterize_main_def py_simps rules characterize_rule_def cmd c characterize_command_def rd exec xmlc T xml)
  then obtain t where t: "characterize_main ch_env_ex ''f'' ''t'' ?s = (Inr 0, t)" by blast
  have "xml_rule ?s ch_rule_ex" by (simp add: xml_rule_def ch_ex_defs)
  moreover have "CommandOutputs ?s = []" by (simp add: ch_ex_defs)
  ultimately show ?thesis
    using characterize_stores_xml [OF none rules t] t c(4) by (auto simp: length_Suc_conv split: if_splits)
qed

end
