(* ===== verification/Transcoder.thy ===== *)
theory Transcoder
  imports Commands
begin

text \<open>
  \<open>clientScripts/transcoder.py\<close>: a command of the registry with its verification and event detail
  commands, and the linker that runs it and counts the successes of its rule. The replacement dictionary
  is one object that the commands share; only the constructor writes to it, so the constructor returns it and
  \<open>execute\<close> takes it. It is \<open>None\<close> when the caller could not build one.
\<close>

type_synonym rdict = "(string \<times> string) list option"

section \<open>Command\<close>

datatype Command = Command
  (cm_fpcommand: fpcommand_row) (cm_command: string) (cm_type: string) (cm_output_location: "string option")
  (cm_std_out: string) (cm_exit_code: "int option")
  (cm_verification_command: "Command option") (cm_event_detail_command: "Command option")

definition rd_get :: "string \<Rightarrow> rdict \<Rightarrow> py_exn + (string \<times> string) list" where
  "rd_get attr rd = (case rd of None \<Rightarrow> Inl (no_attribute attr) | Some d \<Rightarrow> Inr d)"

text \<open>The output location with its variables replaced, which the dictionary also gets.\<close>

definition set_output_location :: "string option \<Rightarrow> rdict \<Rightarrow> py_exn + string option \<times> rdict" where
  "set_output_location loc rd = (if loc = None \<or> loc = Some [] then Inr (loc, rd)
     else map_sum id (\<lambda>d. let l = rd_replace1 d (the loc) in (Some l, Some (dict_set d ''%outputLocation%'' l)))
            (rd_get ''replace'' rd))"

definition get_fpcommand :: "string \<Rightarrow> ('s fpr_world_scheme, fpcommand_row) py" where
  "get_fpcommand u = py_bind (py_get (\<lambda>s. filter (\<lambda>c. fc_uuid c = u) (FPCommands s)))
     (\<lambda>rs. py_lift (get_one ''FPCommand'' rs))"

text \<open>
  \<open>Command.__init__\<close>. The commands refer to each other by foreign keys, so the objects may nest without
  end; the number is the recursion limit of the interpreter.
\<close>

fun Command_init :: "nat \<Rightarrow> fpcommand_row \<Rightarrow> rdict \<Rightarrow> ('s fpr_world_scheme, Command \<times> rdict) py"
and nested_init :: "nat \<Rightarrow> string option \<Rightarrow> rdict \<Rightarrow> ('s fpr_world_scheme, Command option \<times> rdict) py"
where
  "Command_init 0 c rd = py_raise (PyException ''maximum recursion depth exceeded'')"
| "Command_init (Suc n) c rd =
     py_bind (py_lift (set_output_location (fc_output_location c) rd)) (\<lambda>(loc, rd1).
     py_bind (nested_init n (fc_verification_command c) rd1) (\<lambda>(ver, rd2).
     py_bind (nested_init n (fc_event_detail_command c) rd2) (\<lambda>(det, rd3).
     py_ret (Command c (fc_command c) (fc_script_type c) loc [] None ver det, rd3))))"
| "nested_init n None rd = py_ret (None, rd)"
| "nested_init n (Some u) rd =
     py_bind (get_fpcommand u) (\<lambda>c. py_bind (Command_init n c rd) (\<lambda>(cmd, rd'). py_ret (Some cmd, rd')))"

text \<open>\<open>Command.__str__\<close>\<close>

fun command_str :: "Command \<Rightarrow> string" where
  "command_str (Command fp cmd ty loc so ec ver det) =
     ''[COMMAND] '' @ fc_description fp @ [CHR 0x0A, CHR 0x09] @ ''Executing: '' @ cmd @ [CHR 0x0A, CHR 0x09] @ ''Command: '' @
     (case ver of None \<Rightarrow> ''None'' | Some v \<Rightarrow> command_str v) @ [CHR 0x0A, CHR 0x09] @ ''Output location: '' @
     (case loc of None \<Rightarrow> ''None'' | Some l \<Rightarrow> l) @ [CHR 0x0A]"

text \<open>Command lines and bash scripts get the variables replaced, other scripts get them as options.\<close>

definition command_and_args :: "rdict \<Rightarrow> string \<Rightarrow> string \<Rightarrow> py_exn + string \<times> string list" where
  "command_and_args rd ty cmd = (if ty \<in> {''command'', ''bashScript''}
     then map_sum id (\<lambda>d. (rd_replace1 d cmd, [])) (rd_get ''replace'' rd)
     else map_sum id (\<lambda>d. (cmd, to_gnu_options d)) (rd_get ''to_gnu_options'' rd))"

definition opt_int_str :: "int option \<Rightarrow> string" where
  "opt_int_str x = (case x of None \<Rightarrow> ''None'' | Some i \<Rightarrow> str_int i)"

text \<open>
  \<open>Command.execute\<close>: the exit code and the object as the run leaves it. The two nested commands have no
  callback.
\<close>

fun Command_execute ::
  "('e sp_env_scheme) \<Rightarrow> rdict \<Rightarrow> bool \<Rightarrow> (Command \<Rightarrow> ('s world_scheme, Command) py) option \<Rightarrow> Command \<Rightarrow>
     ('s world_scheme, int option \<times> Command) py" where
  "Command_execute E rd skip_on_success on_success (Command fp cmd ty loc so ec ver det) =
     py_bind (py_lift (command_and_args rd ty cmd)) (\<lambda>(cmd', args).
     py_seq (upd_job (print_output [''Command to execute:'', cmd']))
    (py_seq (upd_job (print_output [''-----'']))
    (py_seq (upd_job (print_output [''Command stdout:'']))
    (py_bind (executeOrRun E ty (CmdStr cmd') (StrIn []) args [] True) (\<lambda>(code, std_out, std_err).
     py_seq (upd_job (write_output std_out))
    (py_seq (upd_job (write_error std_err))
    (py_seq (upd_job (print_output [''-----'']))
    (py_seq (upd_job (print_output [''Command exit code:'', str_int code]))
    (py_bind (if code = 0 then (case ver of
          None \<Rightarrow> py_ret (Some code, None)
        | Some v \<Rightarrow>
            py_seq (upd_job (print_output [''Running verification command'', command_str v]))
           (py_seq (upd_job (print_output [''-----'']))
           (py_seq (upd_job (print_output [''Command stdout:'']))
           (py_bind (Command_execute E rd True None v) (\<lambda>(code', v').
            py_seq (upd_job (print_output [''-----'']))
           (py_seq (upd_job (print_output [''Verification Command exit code:'', opt_int_str code']))
                   (py_ret (code', Some v'))))))))
        else py_ret (Some code, ver)) (\<lambda>(code1, ver1).
     py_bind (if code1 = Some 0 then (case det of
          None \<Rightarrow> py_ret None
        | Some d \<Rightarrow>
            py_seq (upd_job (print_output [''Running event detail command'', command_str d]))
           (py_bind (Command_execute E rd True None d) (\<lambda>(_, d'). py_ret (Some d'))))
        else py_ret det) (\<lambda>det1.
     (let c' = Command fp cmd' ty loc std_out code1 ver1 det1 in
      if code1 \<noteq> Some 0
      then py_seq (upd_job (print_error [''Failed:'', fc_description fp]))
          (py_seq (upd_job (print_error [''Standard out:'', std_out]))
          (py_seq (upd_job (print_error [''Standard error:'', std_err]))
                  (py_ret (code1, c'))))
      else case (skip_on_success, on_success) of
          (False, Some callback) \<Rightarrow> py_bind (callback c') (\<lambda>c''. py_ret (cm_exit_code c'', c''))
        | _ \<Rightarrow> py_ret (code1, c')))))))))))))"

section \<open>CommandLinker\<close>

text \<open>
  \<open>fprule.save()\<close> with the counters set by \<open>F\<close> expressions: the database adds 1 to its own value of the
  counter; the counter not touched is written as the object has it.
\<close>

definition save_counts :: "bool \<Rightarrow> fprule_row \<Rightarrow> ('s fpr_world_scheme, unit) py" where
  "save_counts okay rule = py_bind (py_get (\<lambda>s. filter (\<lambda>r. fr_uuid r = fr_uuid rule) (Rules s))) (\<lambda>rs. case rs of
      [] \<Rightarrow> py_raise (ValueError ''F() expressions can only be used to update, not to insert.'')
    | r # _ \<Rightarrow> py_mod (\<lambda>s. s\<lparr>Rules := row_save fr_uuid
        (if okay then rule\<lparr>fr_count_attempts := fr_count_attempts r + 1, fr_count_okay := fr_count_okay r + 1\<rparr>
         else rule\<lparr>fr_count_attempts := fr_count_attempts r + 1, fr_count_not_okay := fr_count_not_okay r + 1\<rparr>) (Rules s)\<rparr>))"

definition CommandLinker_execute ::
  "('e sp_env_scheme) \<Rightarrow> fprule_row \<Rightarrow> rdict \<Rightarrow> (Command \<Rightarrow> ('s fpr_world_scheme, Command) py) \<Rightarrow> Command \<Rightarrow>
     ('s fpr_world_scheme, int option \<times> Command) py" where
  "CommandLinker_execute E rule rd on_success cmd =
     py_bind (Command_execute E rd False (Some on_success) cmd) (\<lambda>(ret, cmd').
     py_seq (save_counts (ret = None \<or> ret = Some 0) rule) (py_ret (ret, cmd')))"

section \<open>What a command can change\<close>

text \<open>A command, with the commands nested in it, changes the job and the file system; the rest is left to the callback.\<close>

lemma keeps_Command_execute:
  fixes P :: "'s world_scheme \<Rightarrow> bool"
  assumes job: "\<And>s j. P s \<Longrightarrow> P (s\<lparr>cur_job := j\<rparr>)" and disk: "\<And>s n. P s \<Longrightarrow> P (s\<lparr>fs := n\<rparr>)"
  shows "(\<And>g c. f = Some g \<Longrightarrow> keeps P (g c)) \<Longrightarrow> keeps P (Command_execute E rd b f c)"
proof (induction E rd b f c rule: Command_execute.induct)
  case (1 E rd skip f fp cmd ty loc so ec ver det)
  have jobs: "keeps P (upd_job h)" for h using job by (simp add: keeps_def py_simps)
  have proc: "keeps P (executeOrRun E ty' c i args upd cap)" for ty' c i args upd cap
    by (rule keeps_process) (rule disk)
  have ver: "keeps P (Command_execute E rd True None v)" if "ver = Some v" for v
    using "1.IH"(1) that by simp
  have det: "keeps P (Command_execute E rd True None d)" if "det = Some d" for d
    using "1.IH"(2) that by simp
  show ?case
    unfolding Command_execute.simps
    by (intro keeps_intros keeps_bind jobs proc ver det; (simp add: "1.prems" split: bool.splits option.splits)?)
      (auto intro!: keeps_intros keeps_bind "1.prems" split: bool.splits option.splits)
qed

section \<open>The callback\<close>

lemma execute_with_callback:
  "Command_execute E rd False (Some f) c =
     py_bind (Command_execute E rd True None c) (\<lambda>(code, c').
       if code = Some 0 then py_bind (f c') (\<lambda>c''. py_ret (cm_exit_code c'', c'')) else py_ret (code, c'))"
proof (cases c)
  case (Command fp cmd ty loc so ec ver det)
  show ?thesis
    unfolding Command Command_execute.simps Let_def
    by (simp add: py_bind_assoc bind_seq bind_ret bind_if bind_case_prod cong: if_cong)
qed

section \<open>Example state\<close>

definition transcode_ex :: Command where
  "transcode_ex = Command (hd (FPCommands fpr_world_ex)) ''x'' ''as_is'' None [] None None None"

section \<open>Properties\<close>

text \<open>The callback runs after success only: executing a command with a callback is executing it without,
  and then, exactly when it ended with exit code 0, calling the callback on the object as the run left it;
  the callback has the last word on the exit code. In particular a command that fails, or whose verification
  fails, leaves the database alone.\<close>

theorem on_success_after_success:
  "Command_execute E rd False (Some f) c =
     py_bind (Command_execute E rd True None c) (\<lambda>(code, c').
       if code = Some 0 then py_bind (f c') (\<lambda>c''. py_ret (cm_exit_code c'', c'')) else py_ret (code, c'))"
  by (rule execute_with_callback)

text \<open>Every attempt is counted once: when the linker returns, the rule's row in the table has one more
  attempt and one more success or failure, by the exit code it returns, and all other rows are as before.\<close>

theorem linker_counts_attempt:
  assumes run: "CommandLinker_execute E rule rd f cmd s = (Inr (ret, cmd'), t)"
    and rule: "rule \<in> set (Rules s)" "distinct (map fr_uuid (Rules s))"
    and callback: "\<forall>c s. Rules (snd (f c s)) = Rules s"
  shows "Rules t = map (\<lambda>r. if r = rule then if ret = None \<or> ret = Some 0
       then rule\<lparr>fr_count_attempts := fr_count_attempts rule + 1, fr_count_okay := fr_count_okay rule + 1\<rparr>
       else rule\<lparr>fr_count_attempts := fr_count_attempts rule + 1, fr_count_not_okay := fr_count_not_okay rule + 1\<rparr>
     else r) (Rules s)"
proof -
  let ?P = "\<lambda>t. Rules t = Rules s"
  obtain u where u: "Command_execute E rd False (Some f) cmd s = (Inr (ret, cmd'), u)"
    and save: "save_counts (ret = None \<or> ret = Some 0) rule u = (Inr (), t)"
    using run by (auto simp: CommandLinker_execute_def py_simps split: prod.splits sum.splits)
  have "keeps ?P (Command_execute E rd False (Some f) cmd)"
    by (rule keeps_Command_execute) (use callback in \<open>auto simp: keeps_def\<close>)
  then have same: "Rules u = Rules s" using u unfolding keeps_def by (metis snd_conv)
  have "filter (\<lambda>r. fr_uuid r = fr_uuid rule) (Rules s) = [rule]"
    using rule(2,1) by (rule filter_key_unique)
  then have t: "Rules t = row_save fr_uuid (if ret = None \<or> ret = Some 0
       then rule\<lparr>fr_count_attempts := fr_count_attempts rule + 1, fr_count_okay := fr_count_okay rule + 1\<rparr>
       else rule\<lparr>fr_count_attempts := fr_count_attempts rule + 1, fr_count_not_okay := fr_count_not_okay rule + 1\<rparr>) (Rules s)"
    using save same by (cases "ret = None \<or> ret = Some 0") (auto simp: save_counts_def py_simps)
  have key: "fr_uuid r = fr_uuid rule \<longleftrightarrow> r = rule" if "r \<in> set (Rules s)" for r
    using that rule by (auto simp: distinct_map dest: inj_onD)
  show ?thesis
    unfolding t using rule(1) key by (auto simp: rule_table.save_old intro!: map_cong)
qed

theorem linker_counts_attempt_witness:
  "\<exists>r t. CommandLinker_execute sp_env_ex rule_ex (Some []) py_ret transcode_ex fpr_world_ex = (Inr r, t) \<and>
     fst r = Some 0 \<and> Rules t = [rule_ex\<lparr>fr_count_attempts := 1, fr_count_okay := 1\<rparr>]"
proof -
  let ?s = fpr_world_ex
  have exec: "executeOrRun sp_env_ex ''as_is'' (CmdStr ''x'') (StrIn []) [] [] True (?s\<lparr>cur_job := j\<rparr>) =
      (Inr (0, ''/tmpfile'', []), ?s\<lparr>cur_job := j\<rparr>)" for j
    by (simp add: executeOrRun_def createAndRunScript_def launchSubProcess_def run_process_def py_simps sp_env_ex_def fpr_ex_defs
        write_file_def os_isdir_def os_remove_def fs_node_def path_comps_def dict_del_def)
  have rules: "Rules ?s = [rule_ex]" "distinct (map fr_uuid (Rules ?s))" "fr_count_attempts rule_ex = 0" "fr_count_okay rule_ex = 0"
    by (simp_all add: fpr_ex_defs)
  have run: "\<exists>r t. CommandLinker_execute sp_env_ex rule_ex (Some []) py_ret transcode_ex ?s = (Inr r, t) \<and> fst r = Some 0"
    by (simp add: CommandLinker_execute_def transcode_ex_def command_and_args_def rd_get_def to_gnu_options_def py_simps exec
        save_counts_def rules)
  then obtain r t where r: "CommandLinker_execute sp_env_ex rule_ex (Some []) py_ret transcode_ex ?s = (Inr r, t)" "fst r = Some 0"
    by blast
  have "Rules t = map (\<lambda>r. if r = rule_ex then rule_ex\<lparr>fr_count_attempts := 1, fr_count_okay := 1\<rparr> else r) [rule_ex]"
    using linker_counts_attempt [of sp_env_ex rule_ex "Some []" py_ret transcode_ex ?s "fst r" "snd r" t] r
    by (cases r) (simp add: rules py_simps)
  then show ?thesis using r by simp
qed

end
