(* ===== verification/Identify.thy ===== *)
theory Identify
  imports Commands
begin

text \<open>
  File format identification: the identification part of the registry (\<open>fpr/models.py\<close>: formats,
  identification tools, commands and rules) and \<open>clientScripts/identify_file_format.py\<close>. The order
  in which the database sorts text and the command line parser are fields of the environment.
\<close>

section \<open>Rows\<close>

record format_row =
  fo_uuid :: string
  fo_description :: string
  fo_group :: "string option"

record idtool_row =
  it_uuid :: string
  it_description :: string
  it_version :: string
  it_enabled :: bool

record idcommand_row =
  ic_uuid :: string
  ic_description :: string
  ic_config :: string
  ic_script :: string
  ic_script_type :: string
  ic_tool :: "string option"
  ic_replaces :: "string option"
  ic_enabled :: bool

record idrule_row =
  ir_uuid :: string
  ir_command :: string
  ir_format :: string
  ir_command_output :: string
  ir_replaces :: "string option"
  ir_enabled :: bool

record file_id_row =
  fi_id :: nat
  fi_file :: "string option"
  fi_format_name :: string
  fi_format_version :: string
  fi_format_registry_name :: string
  fi_format_registry_key :: string

record id_world = fpr_world +
  Formats :: "format_row list"
  IDTools :: "idtool_row list"
  IDCommands :: "idcommand_row list"
  IDRules :: "idrule_row list"
  FileIDs :: "file_id_row list"

record id_env = sp_env +
  id_before :: "string \<Rightarrow> string \<Rightarrow> bool"
  id_parse_args :: "string list \<Rightarrow> py_exn + string \<times> string \<times> string \<times> bool"

section \<open>The registry\<close>

text \<open>
  \<open>IDCommand.save\<close>: an enabled command disables the one that was enabled, unless it is the same row;
  then it is saved as any versioned row, which with a row to replace makes it a new, enabled row.
\<close>

definition disable_others :: "idcommand_row \<Rightarrow> ('s id_world_scheme, unit) py" where
  "disable_others c =
     py_when (ic_enabled c)
       (py_bind (py_get (\<lambda>s. get_one ''IDCommand'' (filter ic_enabled (IDCommands s)))) (\<lambda>r. case r of
          Inl (DoesNotExist _) \<Rightarrow> py_ret ()
        | Inl e \<Rightarrow> py_raise e
        | Inr cmd \<Rightarrow> py_when (ic_uuid cmd \<noteq> ic_uuid c)
            (py_mod (\<lambda>s. s\<lparr>IDCommands := row_save ic_uuid (cmd\<lparr>ic_enabled := False\<rparr>) (IDCommands s)\<rparr>))))"

definition save_idcommand :: "env \<Rightarrow> idcommand_row option \<Rightarrow> idcommand_row \<Rightarrow> ('s id_world_scheme, idcommand_row) py" where
  "save_idcommand E replacing c =
     py_seq (disable_others c)
      (case replacing of
         None \<Rightarrow> py_seq (py_mod (\<lambda>s. s\<lparr>IDCommands := row_save ic_uuid c (IDCommands s)\<rparr>)) (py_ret c)
       | Some old \<Rightarrow>
           py_bind (uuid4 E) (\<lambda>u.
           (let c' = c\<lparr>ic_replaces := Some (ic_uuid old), ic_uuid := u, ic_enabled := True\<rparr> in
            py_seq (py_mod (\<lambda>s. s\<lparr>IDCommands := row_save ic_uuid (old\<lparr>ic_enabled := False\<rparr>) (IDCommands s)\<rparr>))
           (py_bind (py_get (\<lambda>s. row_insert ic_uuid True c' (IDCommands s))) (\<lambda>x.
            py_bind (py_lift x) (\<lambda>rows. py_seq (py_mod (\<lambda>s. s\<lparr>IDCommands := rows\<rparr>)) (py_ret c')))))))"

text \<open>\<open>IDRule.validate_unique\<close>\<close>

definition validate_unique_idrule :: "bool \<Rightarrow> idrule_row \<Rightarrow> ('s id_world_scheme, unit) py" where
  "validate_unique_idrule adding r =
     py_bind (py_get (\<lambda>s. filter (\<lambda>q. ir_command q = ir_command r \<and> ir_command_output q = ir_command_output r \<and>
         ir_enabled q \<and> (adding \<or> ir_uuid q \<noteq> ir_uuid r)) (IDRules s)))
       (\<lambda>rs. if rs = [] then py_ret () else py_raise (ValidationError
          ''Unable to save, a rule with this output already exists for this command.''))"

text \<open>\<open>IDCommand.active.first()\<close>: the enabled commands are ordered by their description.\<close>

definition default_idcommand :: "('e id_env_scheme) \<Rightarrow> ('s id_world_scheme, idcommand_row option) py" where
  "default_idcommand E = py_get (\<lambda>s. first_by (\<lambda>c d. id_before E (ic_description c) (ic_description d))
     (filter ic_enabled (IDCommands s)))"

definition idcommand_tool :: "idcommand_row \<Rightarrow> ('s id_world_scheme, idtool_row) py" where
  "idcommand_tool c = (case ic_tool c of
      None \<Rightarrow> py_raise (AttributeError ''description'')
    | Some u \<Rightarrow> py_bind (py_get (\<lambda>s. filter (\<lambda>t. it_uuid t = u) (IDTools s))) (\<lambda>rs. py_lift (get_one ''IDTool'' rs)))"

section \<open>identify\_file\_format\<close>

definition SUCCESS :: int where "SUCCESS = 0"
definition ERROR_CODE :: int where "ERROR_CODE = 255"

definition save_id_preference :: "env \<Rightarrow> file_row \<Rightarrow> bool \<Rightarrow> ('s world_scheme, unit) py" where
  "save_id_preference E f val =
     (case (if f_sip f = None then f_transfer f else f_sip f) of
        None \<Rightarrow> py_raise (no_attribute ''pk'')
      | Some unit \<Rightarrow>
          (let rd = ''{'' @ repr_str ''%IDCommand%'' @ '': '' @ repr_str (if val then ''True'' else ''False'') @ ''}'' in
           py_bind (uuid4 E) (\<lambda>pk. py_bind (uuid4 E) (\<lambda>link. py_bind (now E) (\<lambda>t1. py_bind (now E) (\<lambda>t2.
           py_bind (py_get (\<lambda>s. row_insert u_id True
               \<lparr>u_id = pk, u_unittype = None, u_unituuid = Some unit, u_variable = Some ''replacementDict'',
                u_variablevalue = Some rd, u_microservicechainlink = Some link, u_createdtime = t1, u_updatedtime = t2\<rparr>
               (UnitVariables s))) (\<lambda>r. py_bind (py_lift r) (\<lambda>rows. py_mod (\<lambda>s. s\<lparr>UnitVariables := rows\<rparr>)))))))))"

definition write_identification_event ::
  "env \<Rightarrow> string \<Rightarrow> idcommand_row \<Rightarrow> string option \<Rightarrow> bool \<Rightarrow> ('s id_world_scheme, unit) py" where
  "write_identification_event E file_uuid command fmt success =
     py_bind (idcommand_tool command) (\<lambda>tool.
     (let event_detail_text = ''program='' @ [dquote] @ it_description tool @ [dquote] @ ''; version='' @ [dquote] @
            it_version tool @ [dquote];
          event_outcome_text = (if success then ''Positive'' else ''Not identified'');
          fmt' = (if fmt = None \<or> fmt = Some [] then ''No Matching Format'' else the fmt)
      in py_bind (now E) (\<lambda>date. py_bind (uuid4 E) (\<lambda>eid.
         py_seq (insertIntoEvents E file_uuid eid ''format identification'' (Some date) event_detail_text event_outcome_text
           fmt' []) (py_ret ())))))"

definition format_of_version :: "format_version_row \<Rightarrow> ('s id_world_scheme, format_row) py" where
  "format_of_version v = (case fv_format v of
      None \<Rightarrow> py_raise (no_attribute ''description'')
    | Some u \<Rightarrow> py_bind (py_get (\<lambda>s. filter (\<lambda>f. fo_uuid f = u) (Formats s))) (\<lambda>rs. py_lift (get_one ''Format'' rs)))"

definition FileID_create :: "file_id_row \<Rightarrow> ('s id_world_scheme, unit) py" where
  "FileID_create r = py_bind auto_pk (\<lambda>pk.
     py_bind (py_get (\<lambda>s. row_insert fi_id (fi_file r = None \<or> the (fi_file r) \<in> f_uuid ` set (Files s)) (r\<lparr>fi_id := pk\<rparr>) (FileIDs s)))
       (\<lambda>x. py_bind (py_lift x) (\<lambda>rows. py_mod (\<lambda>s. s\<lparr>FileIDs := rows\<rparr>))))"

definition write_file_id :: "string \<Rightarrow> format_version_row \<Rightarrow> string \<Rightarrow> ('s id_world_scheme, unit) py" where
  "write_file_id file_uuid v out =
     (let (format_registry, key) = (if fv_pronom_id v = None \<or> fv_pronom_id v = Some []
            then (''Archivematica Format Policy Registry'', out) else (''PRONOM'', the (fv_pronom_id v)));
          version = (case fv_version v of None \<Rightarrow> [] | Some x \<Rightarrow> x)
      in py_bind (format_of_version v) (\<lambda>f.
         FileID_create \<lparr>fi_id = 0, fi_file = Some file_uuid, fi_format_name = fo_description f, fi_format_version = version,
           fi_format_registry_name = format_registry, fi_format_registry_key = key\<rparr>))"

text \<open>\<open>output.strip()\<close>\<close>

definition py_space :: "char \<Rightarrow> bool" where
  "py_space c = (let n = (of_char c :: nat) in 9 \<le> n \<and> n \<le> 13 \<or> 28 \<le> n \<and> n \<le> 32 \<or> n = 133 \<or> n = 160)"

definition py_strip :: "string \<Rightarrow> string" where
  "py_strip t = rev (dropWhile py_space (rev (dropWhile py_space t)))"

text \<open>The format the output stands for: by its PUID, or by the rule of the command for this output.\<close>

definition identified_version :: "idcommand_row \<Rightarrow> string \<Rightarrow> ('s id_world_scheme, format_version_row) py" where
  "identified_version command out =
     (if ic_config command = ''PUID''
      then py_bind (py_get (\<lambda>s. filter (\<lambda>v. fv_pronom_id v = Some out) (active_format_versions s)))
             (\<lambda>rs. py_lift (get_one ''FormatVersion'' rs))
      else py_bind (py_get (\<lambda>s. filter (\<lambda>r. ir_enabled r \<and> ir_command_output r = out \<and> ir_command r = ic_uuid command) (IDRules s)))
             (\<lambda>rs. py_bind (py_lift (get_one ''IDRule'' rs)) (\<lambda>r.
              py_bind (py_get (\<lambda>s. filter (\<lambda>v. fv_uuid v = ir_format r) (FormatVersions s))) (\<lambda>vs.
              py_lift (get_one ''FormatVersion'' vs)))))"

definition id_failure :: "py_exn \<Rightarrow> string \<Rightarrow> string option" where
  "id_failure e out =
     (if e = DoesNotExist ''IDRule''
      then Some (''Error: No FPR identification rule for tool output '' @ [dquote] @ out @ [dquote] @ '' found'')
      else if e = MultipleObjectsReturned ''IDRule''
      then Some (''Error: Multiple FPR identification rules for tool output '' @ [dquote] @ out @ [dquote] @ '' found'')
      else if e = DoesNotExist ''FormatVersion''
      then Some (''Error: No FPR format record found for PUID '' @ out)
      else None)"

text \<open>\<open>FileFormatVersion.objects.get_or_create\<close> and the update when the link exists.\<close>

definition set_format :: "string \<Rightarrow> format_version_row \<Rightarrow> ('s fpr_world_scheme, unit) py" where
  "set_format file_uuid v =
     py_bind (py_get (\<lambda>s. filter (\<lambda>l. ffv_file_uuid l = file_uuid) (FileFormatVersions s))) (\<lambda>ls. case ls of
        [] \<Rightarrow> py_bind (py_get (\<lambda>s. file_uuid \<in> f_uuid ` set (Files s) \<and> fv_uuid v \<in> fv_uuid ` set (FormatVersions s))) (\<lambda>ok.
            if ok then py_mod (\<lambda>s. s\<lparr>FileFormatVersions := FileFormatVersions s @
                 [\<lparr>ffv_file_uuid = file_uuid, ffv_format_version = fv_uuid v\<rparr>]\<rparr>)
            else py_raise (IntegrityError ''Cannot add or update a child row''))
      | [l] \<Rightarrow> py_mod (\<lambda>s. s\<lparr>FileFormatVersions := map (\<lambda>l. if ffv_file_uuid l = file_uuid
            then l\<lparr>ffv_format_version := fv_uuid v\<rparr> else l) (FileFormatVersions s)\<rparr>)
      | _ \<Rightarrow> py_raise (MultipleObjectsReturned ''FileFormatVersion''))"

definition identify_main ::
  "('e id_env_scheme) \<Rightarrow> string \<Rightarrow> string \<Rightarrow> string \<Rightarrow> bool \<Rightarrow> ('s id_world_scheme, int) py" where
  "identify_main E enabled file_path file_uuid disable_reidentify =
     (if enabled \<noteq> ''True''
      then py_seq (upd_job (print_output [''Skipping file format identification''])) (py_ret SUCCESS)
      else py_bind (default_idcommand E) (\<lambda>found. case found of
        None \<Rightarrow> py_seq (upd_job (write_error (''Unable to determine IDCommand.'' @ [CHR 0x0A]))) (py_ret ERROR_CODE)
      | Some command \<Rightarrow>
          py_seq (upd_job (print_output [''IDCommand:'', ic_description command]))
         (py_seq (upd_job (print_output [''IDCommand UUID:'', ic_uuid command]))
         (py_bind (idcommand_tool command) (\<lambda>tool.
          py_seq (upd_job (print_output [''IDTool:'', it_description tool]))
         (py_seq (upd_job (print_output [''IDTool UUID:'', it_uuid tool]))
         (py_seq (upd_job (print_output [''File: ('' @ file_uuid @ '') '' @ file_path]))
         (py_bind (get_file file_uuid) (\<lambda>f.
          py_bind (py_get (\<lambda>s. list_ex (\<lambda>e. e_file_uuid e = Some (f_uuid f) \<and> e_event_type e = ''format identification'') (Events s)))
            (\<lambda>identified.
          if disable_reidentify \<and> identified
          then py_seq (upd_job (print_output
                 [''This file has already been identified, and re-identification is disabled. Skipping.''])) (py_ret SUCCESS)
          else
          py_seq (save_id_preference (env.truncate E) f True)
         (py_bind (executeOrRun E (ic_script_type command) (CmdStr (ic_script command)) (StrIn []) [file_path] [] True)
            (\<lambda>(exitcode, stdout, err).
          (let out = py_strip stdout in
          if exitcode \<noteq> 0
          then py_seq (upd_job (print_error [''Error: IDCommand with UUID '' @ ic_uuid command @ '' exited non-zero.'']))
              (py_seq (upd_job (print_error [''Error: '' @ err])) (py_ret ERROR_CODE))
          else
          py_seq (upd_job (print_output [''Command output:'', out]))
         (py_bind (py_try (py_bind (identified_version command out) (\<lambda>v. py_ret (Some v)))
             (\<lambda>e. map_option (\<lambda>msg. py_seq (upd_job (print_error [msg]))
                (py_seq (write_identification_event (env.truncate E) file_uuid command None False) (py_ret None)))
              (id_failure e out))) (\<lambda>version. case version of
            None \<Rightarrow> py_ret ERROR_CODE
          | Some v \<Rightarrow>
              py_seq (set_format file_uuid v)
             (py_seq (upd_job (print_output [file_path @ '' identified as a '' @ (case fv_description v of None \<Rightarrow> ''None'' | Some d \<Rightarrow> d)]))
             (py_seq (write_identification_event (env.truncate E) file_uuid command (fv_pronom_id v) True)
             (py_seq (write_file_id file_uuid v out) (py_ret SUCCESS)))))))))))))))))))"

definition identify_file_format_job :: "('e id_env_scheme) \<Rightarrow> ('s id_world_scheme, unit) py" where
  "identify_file_format_job E = JobContext (env_traceback E) False
     (py_bind (py_get (\<lambda>s. tl (j_args (cur_job s)))) (\<lambda>args.
      py_bind (py_lift (id_parse_args E args)) (\<lambda>(idcommand, file_path, file_uuid, disable_reidentify).
      py_bind (identify_main E idcommand file_path file_uuid disable_reidentify) (\<lambda>code.
      upd_job (set_status code ''success'')))))"

section \<open>Links of files to formats\<close>

text \<open>The abstract view of \<open>FileFormatVersion\<close>: a map from files to formats.\<close>

definition links_ok :: "'s fpr_world_scheme \<Rightarrow> bool" where
  "links_ok s = distinct (map ffv_file_uuid (FileFormatVersions s))"

definition format_map :: "'s fpr_world_scheme \<Rightarrow> string \<rightharpoonup> string" where
  "format_map s = map_of (map (\<lambda>l. (ffv_file_uuid l, ffv_format_version l)) (FileFormatVersions s))"

definition links_are :: "file_format_version_row list \<Rightarrow> format_version_row list \<Rightarrow> 's fpr_world_scheme \<Rightarrow> bool" where
  "links_are ls vs s \<longleftrightarrow> FileFormatVersions s = ls \<and> FormatVersions s = vs"

lemma keeps_links_more:
  fixes m :: "('s fpr_world_scheme, 'a) py"
  assumes "\<And>Q. keeps (on_more Q) m"
  shows "keeps (links_are ls vs) m"
proof (rule keepsI)
  fix s :: "'s fpr_world_scheme" assume s: "links_are ls vs s"
  have "world.more (snd (m s)) = world.more s"
    using keepsD [OF assms [of "(=) (world.more s)"], of s] by (simp add: on_more_def)
  then have "FileFormatVersions (snd (m s)) = FileFormatVersions s" "FormatVersions (snd (m s)) = FormatVersions s"
    by (cases s; cases "snd (m s)"; simp)+
  with s show "links_are ls vs (snd (m s))" by (simp add: links_are_def)
qed

lemma reads_identify [keeps_intros]:
  "keeps ((=) s) (idcommand_tool c)" "keeps ((=) s) (identified_version c out)" "keeps ((=) s) (format_of_version v)"
  unfolding idcommand_tool_def identified_version_def format_of_version_def by (intro keeps_intros keeps_bind)+

lemma keeps_more_id_preference: "keeps (on_more Q) (save_id_preference E f b)"
  unfolding save_id_preference_def Let_def by (intro keeps_intros keeps_bind) simp_all

lemma keeps_more_id_event: "keeps (on_more Q) (write_identification_event E u c fmt ok)"
  unfolding write_identification_event_def Let_def by (intro keeps_intros keeps_bind keeps_reads [OF reads_identify(1)])

lemma keeps_links [keeps_intros]:
  "keeps (links_are ls vs) (upd_job f)" "keeps (links_are ls vs) (executeOrRun E ty c i args upd cap)"
  "keeps (links_are ls vs) (save_id_preference E' g b)" "keeps (links_are ls vs) (write_identification_event E' u ic fmt ok)"
  by (intro keeps_links_more keeps_more_id_preference keeps_more_id_event keeps_more_basic keeps_more_process)+

lemma keeps_links_write_file_id [keeps_intros]: "keeps (links_are ls vs) (write_file_id u v out)"
proof -
  have "keeps (links_are ls vs) (FileID_create r)" for r
    unfolding FileID_create_def
    by (intro keeps_intros keeps_bind keeps_links_more [of auto_pk]) (simp add: links_are_def)
  then show ?thesis
    unfolding write_file_id_def Let_def by (intro keeps_intros keeps_bind keeps_reads [OF reads_identify(3)])
qed

text \<open>\<open>set_format\<close> updates the map.\<close>

abbreviation link_pair :: "file_format_version_row \<Rightarrow> string \<times> string" where
  "link_pair l \<equiv> (ffv_file_uuid l, ffv_format_version l)"

lemma relink_map:
  "map_of (map link_pair (map (\<lambda>l. if ffv_file_uuid l = u then l\<lparr>ffv_format_version := x\<rparr> else l) xs)) k =
     (if k = u then if u \<in> ffv_file_uuid ` set xs then Some x else None else map_of (map link_pair xs) k)"
  by (induction xs) auto

lemma link_map_None: "filter (\<lambda>l. ffv_file_uuid l = u) xs = [] \<longleftrightarrow> u \<notin> ffv_file_uuid ` set xs"
  by (auto simp: filter_empty_conv)

lemma set_format_map:
  assumes "set_format u v s = (Inr (), t)"
  shows "format_map t = (format_map s)(u \<mapsto> fv_uuid v)" and "links_ok s \<Longrightarrow> links_ok t"
    and "fv_uuid v \<in> fv_uuid ` set (FormatVersions s) \<or> u \<in> dom (format_map s)"
proof -
  let ?ls = "FileFormatVersions s" and ?new = "\<lparr>ffv_file_uuid = u, ffv_format_version = fv_uuid v\<rparr>"
  consider (new) "u \<notin> ffv_file_uuid ` set ?ls" "t = s\<lparr>FileFormatVersions := ?ls @ [?new]\<rparr>"
      "fv_uuid v \<in> fv_uuid ` set (FormatVersions s)"
    | (old) "u \<in> ffv_file_uuid ` set ?ls" "t = s\<lparr>FileFormatVersions :=
        map (\<lambda>l. if ffv_file_uuid l = u then l\<lparr>ffv_format_version := fv_uuid v\<rparr> else l) ?ls\<rparr>"
  proof (cases "filter (\<lambda>l. ffv_file_uuid l = u) ?ls")
    case Nil
    moreover from this have "u \<notin> ffv_file_uuid ` set ?ls" by (simp add: link_map_None)
    ultimately show ?thesis using assms new by (auto simp: set_format_def py_simps split: if_splits)
  next
    case (Cons l ls)
    then have "u \<in> ffv_file_uuid ` set ?ls" by (auto dest: filter_eq_ConsD)
    then show ?thesis using assms old Cons by (cases ls) (auto simp: set_format_def py_simps)
  qed
  note cases = this
  have dom: "dom (format_map s) = ffv_file_uuid ` set ?ls" by (simp add: format_map_def dom_map_of_conv_image_fst image_image)
  show "format_map t = (format_map s)(u \<mapsto> fv_uuid v)"
  proof (cases rule: cases)
    case new
    then have "map_of (map link_pair ?ls) u = None" by (auto simp: map_of_eq_None_iff image_image)
    then show ?thesis using new by (auto simp: format_map_def map_add_def fun_eq_iff split: option.splits)
  next
    case old
    then show ?thesis by (simp add: format_map_def fun_eq_iff relink_map del: map_map)
  qed
  have keys: "map ffv_file_uuid (map (\<lambda>l. if ffv_file_uuid l = u then l\<lparr>ffv_format_version := fv_uuid v\<rparr> else l) ls) = map ffv_file_uuid ls"
    for ls by (induction ls) auto
  show "links_ok s \<Longrightarrow> links_ok t"
    by (cases rule: cases) (auto simp: links_ok_def keys simp del: map_map distinct_map)
  show "fv_uuid v \<in> fv_uuid ` set (FormatVersions s) \<or> u \<in> dom (format_map s)"
    by (cases rule: cases) (simp_all add: dom)
qed

section \<open>Identifying a file\<close>

text \<open>Identification is skipped when it is not wanted, or not wanted again.\<close>

definition id_skipped :: "string \<Rightarrow> string \<Rightarrow> bool \<Rightarrow> 's world_scheme \<Rightarrow> bool" where
  "id_skipped enabled u disable_reidentify s \<longleftrightarrow> enabled \<noteq> ''True'' \<or> (disable_reidentify \<and>
     list_ex (\<lambda>e. e_file_uuid e = Some u \<and> e_event_type e = ''format identification'') (Events s))"

text \<open>What a run that returns leaves of the links \<open>ls\<close>.\<close>

definition id_result :: "'s fpr_world_scheme \<Rightarrow> string \<Rightarrow> bool \<Rightarrow> int \<Rightarrow> 's fpr_world_scheme \<Rightarrow> bool" where
  "id_result s u skip code t \<longleftrightarrow> (links_ok s \<longrightarrow> links_ok t) \<and>
     (if code = SUCCESS \<and> \<not> skip then \<exists>v \<in> set (FormatVersions s). format_map t = (format_map s)(u \<mapsto> fv_uuid v)
      else (code = SUCCESS \<or> code = ERROR_CODE) \<and> format_map t = format_map s)"

abbreviation same_links :: "'s fpr_world_scheme \<Rightarrow> 's fpr_world_scheme \<Rightarrow> bool" where
  "same_links s \<equiv> links_are (FileFormatVersions s) (FormatVersions s)"

lemma same_links_result:
  "same_links s t \<Longrightarrow> skip \<and> code = SUCCESS \<or> code = ERROR_CODE \<Longrightarrow> id_result s u skip code t"
  by (auto simp: id_result_def links_are_def links_ok_def format_map_def SUCCESS_def ERROR_CODE_def)

lemma identified_ensures:
  "ensures (same_links s) (identified_version c out) (\<lambda>v t. same_links s t \<and> v \<in> set (FormatVersions s))"
proof -
  have "ensures (same_links s) (identified_version c out) (\<lambda>v t. v \<in> set (FormatVersions s))"
    by (auto simp: ensures_def identified_version_def py_simps get_one_def active_format_versions_def links_are_def
        split: list.splits if_splits dest: filter_eq_ConsD)
  moreover have "ensures (same_links s) (identified_version c out) (\<lambda>_. same_links s)"
    by (rule ensures_keeps, rule keeps_reads, rule reads_identify)
  ultimately show ?thesis unfolding ensures_def by blast
qed

lemma record_format_ensures:
  assumes "v \<in> set (FormatVersions s)"
  shows "ensures (same_links s) (py_seq (set_format u v) (py_seq (upd_job f)
      (py_seq (write_identification_event E u c p b) (py_seq (write_file_id u v out) (py_ret SUCCESS)))))
    (id_result s u False)"
proof (unfold ensures_def, intro allI impI)
  fix t code t' assume t: "same_links s t" and run: "py_seq (set_format u v) (py_seq (upd_job f)
      (py_seq (write_identification_event E u c p b) (py_seq (write_file_id u v out) (py_ret SUCCESS)))) t = (Inr code, t')"
  obtain t1 where t1: "set_format u v t = (Inr (), t1)" and rest: "py_seq (upd_job f)
      (py_seq (write_identification_event E u c p b) (py_seq (write_file_id u v out) (py_ret SUCCESS))) t1 = (Inr code, t')"
    using run by (auto simp: py_seq_apply split: prod.splits sum.splits)
  have "keeps (same_links t1) (py_seq (upd_job f)
      (py_seq (write_identification_event E u c p b) (py_seq (write_file_id u v out) (py_ret SUCCESS))))"
    by (intro keeps_intros)
  then have "same_links t1 t'" using rest unfolding keeps_def by (metis links_are_def snd_conv)
  moreover have "code = SUCCESS" using rest by (auto simp: py_simps split: prod.splits sum.splits)
  ultimately show "id_result s u False code t'"
    using set_format_map [OF t1] t assms
    by (auto simp: id_result_def links_are_def links_ok_def format_map_def)
qed

lemma identify_version_ensures:
  fixes s :: "'s id_world_scheme"
  shows "ensures (same_links s) (py_bind (py_try (py_bind (identified_version c out) (\<lambda>v. py_ret (Some v)))
      (\<lambda>e. map_option (\<lambda>msg. py_seq (upd_job (print_error [msg]))
         (py_seq (write_identification_event E u c None False) (py_ret None))) (id_failure e out)))
     (\<lambda>version. case version of None \<Rightarrow> py_ret ERROR_CODE
      | Some v \<Rightarrow> py_seq (set_format u v) (py_seq (upd_job (g v))
          (py_seq (write_identification_event E u c (fv_pronom_id v) True) (py_seq (write_file_id u v out) (py_ret SUCCESS))))))
    (id_result s u False)"
proof (rule ensures_bind)
  let ?R = "\<lambda>version t. same_links s t \<and> (\<forall>v. version = Some v \<longrightarrow> v \<in> set (FormatVersions s))"
  show "ensures (same_links s) (py_try (py_bind (identified_version c out) (\<lambda>v. py_ret (Some v)))
      (\<lambda>e. map_option (\<lambda>msg. py_seq (upd_job (print_error [msg]))
         (py_seq (write_identification_event E u c None False) (py_ret None))) (id_failure e out))) ?R"
  proof (rule ensures_try)
    show "keeps (same_links s) (py_bind (identified_version c out) (\<lambda>v. py_ret (Some v)))"
      by (intro keeps_bind keeps_ret keeps_reads [OF reads_identify(2)])
    show "ensures (same_links s) (py_bind (identified_version c out) (\<lambda>v. py_ret (Some v))) ?R"
      by (rule ensures_bind [OF identified_ensures]) (auto intro: ensures_ret)
    fix e and k :: "('s id_world_scheme, format_version_row option) py"
    assume "map_option (\<lambda>msg. py_seq (upd_job (print_error [msg]))
         (py_seq (write_identification_event E u c None False) (py_ret None))) (id_failure e out) = Some k"
    then show "ensures (same_links s) k ?R"
      by (auto intro!: ensures_seq_keeps keeps_intros ensures_ret)
  qed
  show "ensures (?R version) (case version of None \<Rightarrow> py_ret ERROR_CODE
      | Some v \<Rightarrow> py_seq (set_format u v) (py_seq (upd_job (g v))
          (py_seq (write_identification_event E u c (fv_pronom_id v) True) (py_seq (write_file_id u v out) (py_ret SUCCESS)))))
    (id_result s u False)" for version
  proof (cases version)
    case None
    then show ?thesis by (auto intro!: ensures_ret same_links_result)
  next
    case (Some v)
    show ?thesis
      unfolding Some option.case
      by (rule ensures_weaken [of "\<lambda>t. same_links s t \<and> v \<in> set (FormatVersions s)"],
          rule ensures_pure, erule record_format_ensures) auto
  qed
qed

lemma identify_ensures:
  fixes s :: "'s id_world_scheme"
  shows "ensures (\<lambda>t. same_links s t \<and> Events t = Events s) (identify_main E enabled path u dis)
    (id_result s u (id_skipped enabled u dis s))" (is "ensures ?P _ ?Q")
proof (cases "enabled = ''True''")
  case False
  then show ?thesis
    unfolding identify_main_def
    by (auto simp: ensures_def py_simps id_skipped_def links_are_def intro!: same_links_result)
next
  case True
  let ?ident = "list_ex (\<lambda>e. e_file_uuid e = Some u \<and> e_event_type e = ''format identification'') (Events s)"
  have job: "keeps ?P (upd_job f)" for f by (simp add: keeps_def py_simps links_are_def)
  have tool: "keeps ?P (idcommand_tool c)" for c by (rule keeps_reads [OF reads_identify(1)])
  have found: "ensures ?P (get_file u) (\<lambda>f t. ?P t \<and> f_uuid f = u)"
    by (auto simp: ensures_def get_file_def py_simps get_one_def split: list.splits dest: filter_eq_ConsD)
  have ident: "ensures ?P (py_get (\<lambda>t. list_ex (\<lambda>e. e_file_uuid e = Some (f_uuid f) \<and> e_event_type e = ''format identification'') (Events t)))
      (\<lambda>b t. same_links s t \<and> b = ?ident)" if "f_uuid f = u" for f
    using that by (simp add: ensures_def py_simps)
  have ended: "ensures (same_links s) (py_seq (upd_job f) (py_ret ERROR_CODE)) (id_result s u sk)" for f sk
    by (intro ensures_seq_keeps keeps_intros ensures_ret same_links_result) auto
  have skip: "ensures (same_links s) (py_seq (upd_job f) (py_ret SUCCESS)) ?Q" if "dis \<and> ?ident" for f
    using that by (intro ensures_seq_keeps keeps_intros ensures_ret same_links_result) (auto simp: id_skipped_def)
  have not_skipped: "ensures (same_links s) m ?Q" if "ensures (same_links s) m (id_result s u False)" "\<not> (dis \<and> ?ident)"
    for m
  proof -
    have "id_skipped enabled u dis s = False" using that(2) True by (simp add: id_skipped_def)
    with that(1) show ?thesis by simp
  qed
  show ?thesis
    unfolding identify_main_def Let_def
    by (rule ensures_if, simp add: True, rule ensures_bind_keeps, simp add: default_idcommand_def keeps_get, rule ensures_case_option,
        rule ensures_weaken [OF ended], simp, assumption,
        (rule ensures_seq_keeps, rule job)+, rule ensures_bind_keeps, rule tool, (rule ensures_seq_keeps, rule job)+,
        rule ensures_bind [OF found], rule ensures_pure, rule ensures_bind [OF ident], assumption, rule ensures_pure,
        rule ensures_if, rule skip, simp, rule not_skipped,
        rule ensures_seq_keeps, rule keeps_links, rule ensures_bind_keeps, rule keeps_links, intro ensures_case_prod,
        rule ensures_if, rule ensures_seq_keeps, rule keeps_links, rule ended,
        rule ensures_seq_keeps, rule keeps_links, rule identify_version_ensures, simp)
qed

section \<open>At most one enabled command\<close>

definition one_enabled :: "'s id_world_scheme \<Rightarrow> bool" where
  "one_enabled s \<longleftrightarrow> distinct (map ic_uuid (IDCommands s)) \<and>
     (\<forall>c \<in> set (IDCommands s). \<forall>d \<in> set (IDCommands s). ic_enabled c \<and> ic_enabled d \<longrightarrow> c = d)"

interpretation idcommand_table: keyed_table ic_uuid "row_insert ic_uuid" "row_save ic_uuid"
  by (rule row_insert_table)

text \<open>The enabled commands once all but the row of \<open>c\<close> are disabled.\<close>

lemma disable_others_returns:
  assumes inv: "one_enabled s" and c: "ic_enabled c"
  shows "\<exists>rows. disable_others c s = (Inr (), s\<lparr>IDCommands := rows\<rparr>) \<and> map ic_uuid rows = map ic_uuid (IDCommands s) \<and>
     (\<forall>d \<in> set rows. ic_enabled d \<longrightarrow> ic_uuid d = ic_uuid c)"
proof -
  let ?cs = "IDCommands s"
  have d: "distinct (map ic_uuid ?cs)" using inv by (simp add: one_enabled_def)
  consider "filter ic_enabled ?cs = []" | cmd where "filter ic_enabled ?cs = [cmd]"
  proof (cases "filter ic_enabled ?cs")
    case (Cons a as)
    have "distinct (a # as)" using distinct_filter [of ?cs ic_enabled] d Cons by (simp add: distinct_map)
    moreover have "{x \<in> set ?cs. ic_enabled x} = set (a # as)" using arg_cong [OF Cons, of set] by simp
    then have "x \<in> set ?cs" "ic_enabled x" if "x \<in> set (a # as)" for x using that by blast+
    then have "x = a" if "x \<in> set (a # as)" for x using that inv unfolding one_enabled_def by (meson list.set_intros(1))
    ultimately have "as = []" by (cases as) auto
    with Cons that(2) show ?thesis by simp
  qed (use that(1) in simp)
  then show ?thesis
  proof cases
    case 1
    then show ?thesis using c by (intro exI [of _ ?cs]) (auto simp: disable_others_def py_simps get_one_def filter_empty_conv)
  next
    case 2
    have "{x \<in> set ?cs. ic_enabled x} = set (filter ic_enabled ?cs)" by simp
    also have "\<dots> = {cmd}" unfolding 2 by simp
    finally have cmd: "cmd \<in> set ?cs" "ic_enabled cmd" and only: "\<And>x. x \<in> set ?cs \<Longrightarrow> ic_enabled x \<Longrightarrow> x = cmd"
      by blast+
    let ?off = "cmd\<lparr>ic_enabled := False\<rparr>"
    have mem: "ic_uuid ?off \<in> ic_uuid ` set ?cs" using cmd(1) by simp
    show ?thesis
    proof (cases "ic_uuid cmd = ic_uuid c")
      case True
      then show ?thesis using 2 c only by (intro exI [of _ ?cs]) (auto simp: disable_others_def py_simps get_one_def)
    next
      case False
      have "\<forall>d \<in> set (row_save ic_uuid ?off ?cs). \<not> ic_enabled d"
      proof
        fix d assume "d \<in> set (row_save ic_uuid ?off ?cs)"
        then have "d = ?off \<or> d \<in> set ?cs \<and> ic_uuid d \<noteq> ic_uuid cmd"
          unfolding idcommand_table.save_row [OF mem] by auto
        then show "\<not> ic_enabled d" using only [of d] by (cases "d = ?off") auto
      qed
      then show ?thesis using 2 c False idcommand_table.save_keys [OF mem]
        by (intro exI [of _ "row_save ic_uuid ?off ?cs"]) (auto simp: disable_others_def py_simps get_one_def)
    qed
  qed
qed

lemma save_row_all: "set (row_save key r rows) = insert r {x \<in> set rows. key x \<noteq> key r}"
  by (auto simp: row_save_def row_update_def) (metis imageI)

lemma save_keys_all: "distinct (map key rows) \<Longrightarrow> distinct (map key (row_save key r rows))"
  by (auto simp: row_save_def row_update_def comp_def if_distrib [of key] cong: map_cong)

text \<open>Saving without replacing.\<close>

lemma save_plain_one_enabled:
  assumes inv: "one_enabled s"
  shows "\<exists>t. save_idcommand E None c s = (Inr c, t) \<and> one_enabled t \<and> c \<in> set (IDCommands t)"
proof (cases "ic_enabled c")
  case True
  obtain rows where rows: "disable_others c s = (Inr (), s\<lparr>IDCommands := rows\<rparr>)" "map ic_uuid rows = map ic_uuid (IDCommands s)"
    "\<forall>d \<in> set rows. ic_enabled d \<longrightarrow> ic_uuid d = ic_uuid c"
    using disable_others_returns [OF inv True] by blast
  have "distinct (map ic_uuid rows)" using inv rows(2) by (simp add: one_enabled_def)
  then have "one_enabled (s\<lparr>IDCommands := row_save ic_uuid c rows\<rparr>)"
    using rows(3) by (auto simp: one_enabled_def save_row_all save_keys_all)
  then show ?thesis using rows(1) by (simp add: save_idcommand_def py_simps save_row_all)
next
  case False
  then have "one_enabled (s\<lparr>IDCommands := row_save ic_uuid c (IDCommands s)\<rparr>)"
    using inv by (auto simp: one_enabled_def save_row_all save_keys_all)
  then show ?thesis using False by (simp add: save_idcommand_def disable_others_def py_simps save_row_all)
qed

text \<open>Saving an enabled command as the new version of an existing one.\<close>

lemma save_replacing_one_enabled:
  assumes inv: "one_enabled s" and c: "ic_enabled c"
    and row: "ic_uuid c = ic_uuid old \<or> ic_uuid c \<notin> ic_uuid ` set (IDCommands s)"
    and fresh: "env_uuid4 E (uuids s) \<notin> ic_uuid ` set (IDCommands s)" "env_uuid4 E (uuids s) \<noteq> ic_uuid old"
  shows "\<exists>c' t. save_idcommand E (Some old) c s = (Inr c', t) \<and> one_enabled t \<and> c' \<in> set (IDCommands t) \<and> ic_enabled c'"
proof -
  let ?u = "env_uuid4 E (uuids s)" and ?off = "old\<lparr>ic_enabled := False\<rparr>"
  let ?c = "c\<lparr>ic_replaces := Some (ic_uuid old), ic_uuid := ?u, ic_enabled := True\<rparr>"
  obtain rows where rows: "disable_others c s = (Inr (), s\<lparr>IDCommands := rows\<rparr>)" "map ic_uuid rows = map ic_uuid (IDCommands s)"
    "\<forall>d \<in> set rows. ic_enabled d \<longrightarrow> ic_uuid d = ic_uuid c"
    using disable_others_returns [OF inv c] by blast
  have keys: "ic_uuid ` set rows = ic_uuid ` set (IDCommands s)" using rows(2) by (metis list.set_map)
  let ?rows = "row_save ic_uuid ?off rows"
  have off: "\<not> ic_enabled d" if "d \<in> set ?rows" for d
  proof
    assume e: "ic_enabled d"
    with that have "d \<in> set rows" "ic_uuid d \<noteq> ic_uuid old" by (auto simp: save_row_all)
    with e rows(3) row keys show False by (metis imageI)
  qed
  have new: "?u \<notin> ic_uuid ` set ?rows" using fresh keys by (auto simp: save_row_all)
  let ?t = "s\<lparr>uuids := Suc (uuids s), IDCommands := ?rows @ [?c]\<rparr>"
  have "save_idcommand E (Some old) c s = (Inr ?c, ?t)"
    using rows(1) new by (simp add: save_idcommand_def py_simps Let_def row_insert_def)
  moreover have "distinct (map ic_uuid ?rows)" using inv rows(2) save_keys_all by (metis one_enabled_def)
  then have "one_enabled ?t" using off new by (auto simp: one_enabled_def)
  ultimately show ?thesis by (intro exI [of _ ?c] exI [of _ ?t]) simp
qed

section \<open>Example state\<close>

definition idcommand_ex :: idcommand_row where
  "idcommand_ex = \<lparr>ic_uuid = ''ic'', ic_description = ''Fido'', ic_config = ''PUID'', ic_script = ''x'', ic_script_type = ''as_is'',
     ic_tool = Some ''it'', ic_replaces = None, ic_enabled = True\<rparr>"

definition idtool_ex :: idtool_row where
  "idtool_ex = \<lparr>it_uuid = ''it'', it_description = ''Fido'', it_version = ''1'', it_enabled = True\<rparr>"

definition format_ex :: format_row where
  "format_ex = \<lparr>fo_uuid = ''fo'', fo_description = ''Plain text'', fo_group = None\<rparr>"

definition id_version_ex :: format_version_row where
  "id_version_ex = \<lparr>fv_uuid = ''v'', fv_format = Some ''fo'', fv_version = None, fv_pronom_id = Some ''fmt/1'', fv_description = None,
     fv_access_format = False, fv_preservation_format = True, fv_replaces = None, fv_enabled = True\<rparr>"

definition id_world_ex :: id_world where
  "id_world_ex = fpr_world.extend (fpr_world_ex\<lparr>FileFormatVersions := [], FormatVersions := [id_version_ex]\<rparr>)
     (id_world.fields [format_ex] [idtool_ex] [idcommand_ex] [] [])"

definition id_env_ex :: id_env where
  "id_env_ex = sp_env.extend (sp_env_ex\<lparr>sp_run := \<lambda>argv i env n. (Inr (0, '' fmt/1 '', []), n)\<rparr>)
     (id_env.fields (\<lambda>a b. False) (\<lambda>args. Inr (''True'', ''/a'', ''f'', False)))"

lemmas id_ex_defs = id_world_ex_def idcommand_ex_def id_env_ex_def id_env.fields_def id_world.fields_def fpr_world.extend_def
  sp_env.extend_def sp_env_ex_def fpr_ex_defs

text \<open>The run of the example, step by step: the state after the preference was saved, and after the link.\<close>

definition id_mid_ex :: "unit_variable_row \<Rightarrow> job \<Rightarrow> id_world" where
  "id_mid_ex uv j = id_world_ex\<lparr>cur_job := j, uuids := 2, clock := 2, UnitVariables := [uv]\<rparr>"

lemma id_world_ex_sel:
  "FormatVersions id_world_ex = [id_version_ex]" "FileFormatVersions id_world_ex = []" "Files id_world_ex = [file_ex]"
  "Events id_world_ex = []" "IDTools id_world_ex = [idtool_ex]" "Formats id_world_ex = [format_ex]" "FileIDs id_world_ex = []"
  "IDCommands id_world_ex = [idcommand_ex]" "IDRules id_world_ex = []" "fs id_world_ex = FDir []" "UnitVariables id_world_ex = []"
  "uuids id_world_ex = 0" "clock id_world_ex = 0" "SIPs id_world_ex = []" "Transfers id_world_ex = [transfer_ex]"
  "Derivations id_world_ex = []" "Agents id_world_ex = [agent_ex]"
  by (simp_all add: id_world_ex_def fpr_world.extend_def id_world.fields_def fpr_world_ex_def world.extend_def
      fpr_world.fields_def world_ex_def)

lemma id_mid_ex_sel:
  "FormatVersions (id_mid_ex uv j) = [id_version_ex]" "FileFormatVersions (id_mid_ex uv j) = []"
  "Files (id_mid_ex uv j) = [file_ex]" "(id_mid_ex uv j)\<lparr>cur_job := j'\<rparr> = id_mid_ex uv j'" "cur_job (id_mid_ex uv j) = j"
  "Events (id_mid_ex uv j) = []" "IDTools (id_mid_ex uv j) = [idtool_ex]" "Formats (id_mid_ex uv j) = [format_ex]"
  "FileIDs (id_mid_ex uv j) = []" "clock (id_mid_ex uv j) = 2" "uuids (id_mid_ex uv j) = 2" "fs (id_mid_ex uv j) = FDir []"
  "SIPs (id_mid_ex uv j) = []" "Transfers (id_mid_ex uv j) = [transfer_ex]" "Derivations (id_mid_ex uv j) = []"
  "Agents (id_mid_ex uv j) = [agent_ex]" "UnitVariables (id_mid_ex uv j) = [uv]"
  by (simp_all add: id_mid_ex_def id_world_ex_sel)

lemma id_ex_rows:
  "fv_uuid id_version_ex = ''v''" "fv_pronom_id id_version_ex = Some ''fmt/1''" "fv_enabled id_version_ex"
  "fv_format id_version_ex = Some ''fo''" "it_uuid idtool_ex = ''it''" "fo_uuid format_ex = ''fo''" "ic_enabled idcommand_ex"
  "ic_tool idcommand_ex = Some ''it''" "ic_config idcommand_ex = ''PUID''" "ic_script_type idcommand_ex = ''as_is''"
  "ic_script idcommand_ex = ''x''" "f_uuid file_ex = ''f''" "f_sip file_ex = None" "f_transfer file_ex = Some ''t''"
  by (simp_all add: id_version_ex_def idtool_ex_def format_ex_def idcommand_ex_def ex_defs)

lemma id_ex_start:
  "default_idcommand id_env_ex id_world_ex = (Inr (Some idcommand_ex), id_world_ex)"
  "idcommand_tool idcommand_ex (id_world_ex\<lparr>cur_job := j\<rparr>) = (Inr idtool_ex, id_world_ex\<lparr>cur_job := j\<rparr>)"
  "get_file ''f'' (id_world_ex\<lparr>cur_job := j\<rparr>) = (Inr file_ex, id_world_ex\<lparr>cur_job := j\<rparr>)"
  by (simp_all add: default_idcommand_def idcommand_tool_def get_file_def py_simps id_ex_rows id_world_ex_sel get_one_def)

lemma id_ex_preference:
  "\<exists>uv. u_unittype uv = None \<and>
     (\<forall>j. save_id_preference (env.truncate id_env_ex) file_ex True (id_world_ex\<lparr>cur_job := j\<rparr>) = (Inr (), id_mid_ex uv j))"
  by (simp add: save_id_preference_def py_simps Let_def row_insert_def id_ex_rows id_world_ex_sel id_mid_ex_def numeral_2_eq_2)
    (rule exI, rule conjI [rotated], rule allI, rule refl, simp)

lemma id_ex_version:
  "executeOrRun id_env_ex ''as_is'' (CmdStr ''x'') (StrIn []) [''/a''] [] True (id_mid_ex uv j) = (Inr (0, '' fmt/1 '', []), id_mid_ex uv j)"
  "identified_version idcommand_ex ''fmt/1'' (id_mid_ex uv j) = (Inr id_version_ex, id_mid_ex uv j)"
  "set_format ''f'' id_version_ex (id_mid_ex uv j) =
     (Inr (), (id_mid_ex uv j)\<lparr>FileFormatVersions := [\<lparr>ffv_file_uuid = ''f'', ffv_format_version = ''v''\<rparr>]\<rparr>)"
  by (simp_all add: executeOrRun_def createAndRunScript_def launchSubProcess_def run_process_def py_simps id_env_ex_def
      sp_env.extend_def id_env.fields_def sp_env_ex_def id_mid_ex_sel
      write_file_def os_isdir_def os_remove_def fs_node_def path_comps_def dict_del_def
      identified_version_def active_format_versions_def id_ex_rows get_one_def set_format_def)

lemma id_ex_event:
  fixes uv j ls
  defines "s2 \<equiv> (id_mid_ex uv j)\<lparr>FileFormatVersions := ls\<rparr>"
  assumes "u_unittype uv = None"
  shows "\<exists>e. write_identification_event (env.truncate id_env_ex) ''f'' idcommand_ex (Some ''fmt/1'') True s2 =
     (Inr (), s2\<lparr>uuids := 3, clock := 4, next_pk := Suc (next_pk s2), Events := [e]\<rparr>)"
proof -
  let ?t = "s2\<lparr>clock := 3, uuids := 3\<rparr>" and ?F = "env.truncate id_env_ex"
  have tool: "idcommand_tool idcommand_ex s2 = (Inr idtool_ex, s2)"
    by (simp add: idcommand_tool_def s2_def id_ex_rows id_mid_ex_sel py_simps get_one_def)
  have inv: "db_inv ?t" by (simp add: s2_def id_mid_ex_sel db_inv_def file_fks_ok_def ex_defs)
  have mem: "file_ex \<in> set (Files ?t)" by (simp add: s2_def id_mid_ex_sel)
  have ag: "file_agents_ok ?t file_ex"
    using assms(2) by (simp add: file_agents_ok_def id_ex_rows agent_variable_ok_def unit_variables_of_def s2_def id_mid_ex_sel)
  have u: "env_uuid4 ?F 2 \<noteq> []" by (simp add: id_env_ex_def sp_env.extend_def id_env.fields_def sp_env_ex_def env.truncate_def)
  have ev: "Some (env_uuid4 ?F 2) \<notin> e_event_id ` set (Events ?t)" by (simp add: s2_def id_mid_ex_sel)
  have c: "clock s2 = 2" "uuids s2 = 2" "Events s2 = []" by (simp_all add: s2_def id_mid_ex_sel)
  from insertIntoEvents_eq [OF inv mem ag u ev, of "[]" ?F] show ?thesis
    by (simp add: write_identification_event_def tool py_simps c Let_def id_ex_rows) (rule exI, rule refl)
qed

lemma id_ex_file_id:
  "Formats t = [format_ex] \<Longrightarrow> Files t = [file_ex] \<Longrightarrow> FileIDs t = [] \<Longrightarrow>
     write_file_id ''f'' id_version_ex out t = (Inr (), t\<lparr>next_pk := Suc (next_pk t), FileIDs :=
       [\<lparr>fi_id = next_pk t, fi_file = Some ''f'', fi_format_name = fo_description format_ex,
         fi_format_version = (case fv_version id_version_ex of None \<Rightarrow> [] | Some x \<Rightarrow> x),
         fi_format_registry_name = ''PRONOM'', fi_format_registry_key = ''fmt/1''\<rparr>]\<rparr>)"
  by (simp add: write_file_id_def format_of_version_def FileID_create_def py_simps id_ex_rows get_one_def row_insert_def)

section \<open>Properties\<close>

text \<open>C20. Identification is an update of the map from files to formats: when it returns success
  and was not skipped, the file is linked to an existing format version and the links of all other
  files are as before; when it is skipped or fails, no link changes. A file never gets a second
  link.\<close>

theorem identify_updates_format:
  assumes "links_ok s" and "identify_main E enabled path u disable_reidentify s = (Inr code, t)"
  shows "links_ok t \<and>
    (if code = SUCCESS \<and> \<not> id_skipped enabled u disable_reidentify s
     then \<exists>v \<in> set (FormatVersions s). format_map t = (format_map s)(u \<mapsto> fv_uuid v)
     else (code = SUCCESS \<or> code = ERROR_CODE) \<and> format_map t = format_map s)"
  using ensuresD [OF identify_ensures _ assms(2)] assms(1) by (simp add: id_result_def links_are_def)

theorem identify_updates_format_witness:
  "\<exists>t. identify_main id_env_ex ''True'' ''/a'' ''f'' False id_world_ex = (Inr SUCCESS, t) \<and> links_ok t \<and> format_map t = [''f'' \<mapsto> ''v'']"
proof -
  obtain uv where uv: "u_unittype uv = None"
    "\<And>j. save_id_preference (env.truncate id_env_ex) file_ex True (id_world_ex\<lparr>cur_job := j\<rparr>) = (Inr (), id_mid_ex uv j)"
    using id_ex_preference by blast
  have strip: "py_strip '' fmt/1 '' = ''fmt/1''" by code_simp
  let ?ls = "[\<lparr>ffv_file_uuid = ''f'', ffv_format_version = ''v''\<rparr>]"
  have upd: "((id_mid_ex uv j)\<lparr>FileFormatVersions := ls\<rparr>)\<lparr>cur_job := j'\<rparr> = (id_mid_ex uv j')\<lparr>FileFormatVersions := ls\<rparr>" for j j' ls
    by (simp add: id_mid_ex_def)
  obtain T where T: "\<And>j. write_identification_event (env.truncate id_env_ex) ''f'' idcommand_ex (Some ''fmt/1'') True
      ((id_mid_ex uv j)\<lparr>FileFormatVersions := ?ls\<rparr>) = (Inr (), ((id_mid_ex uv j)\<lparr>FileFormatVersions := ?ls\<rparr>)
        \<lparr>uuids := 3, clock := 4, next_pk := Suc (next_pk ((id_mid_ex uv j)\<lparr>FileFormatVersions := ?ls\<rparr>)), Events := [T j]\<rparr>)"
    using id_ex_event [OF uv(1)] by (metis (no_types))
  have "\<exists>t. identify_main id_env_ex ''True'' ''/a'' ''f'' False id_world_ex = (Inr SUCCESS, t)"
    unfolding identify_main_def
    by (simp add: py_simps id_ex_start uv(2) id_ex_rows id_ex_version id_mid_ex_sel strip Let_def upd T id_ex_file_id)
  then obtain t where t: "identify_main id_env_ex ''True'' ''/a'' ''f'' False id_world_ex = (Inr SUCCESS, t)" by blast
  have ok: "links_ok id_world_ex" by (simp add: links_ok_def id_world_ex_sel)
  have "\<not> id_skipped ''True'' ''f'' False id_world_ex" by (simp add: id_skipped_def)
  with identify_updates_format [OF ok t] t show ?thesis
    by (simp add: id_world_ex_sel id_ex_rows format_map_def [of id_world_ex])
qed

text \<open>At most one identification command is enabled: saving a command keeps this, and an enabled
  command is the only enabled one after it was saved. With a row to replace this needs that the
  command saved is a new object or the replaced row itself, and that it is enabled.\<close>

theorem save_idcommand_one_enabled:
  assumes "one_enabled s" and "env_uuid4 E (uuids s) \<notin> ic_uuid ` set (IDCommands s)"
    and "\<forall>old. replacing = Some old \<longrightarrow> old \<in> set (IDCommands s) \<and> ic_enabled c \<and>
       (ic_uuid c = ic_uuid old \<or> ic_uuid c \<notin> ic_uuid ` set (IDCommands s))"
  shows "\<exists>c' t. save_idcommand E replacing c s = (Inr c', t) \<and> one_enabled t \<and> c' \<in> set (IDCommands t) \<and>
     ic_enabled c' = ic_enabled c"
proof (cases replacing)
  case None
  then show ?thesis using save_plain_one_enabled [OF assms(1), of E c] by auto
next
  case (Some old)
  with assms(2,3) have "ic_enabled c" "ic_uuid c = ic_uuid old \<or> ic_uuid c \<notin> ic_uuid ` set (IDCommands s)"
    "env_uuid4 E (uuids s) \<noteq> ic_uuid old" by auto
  with save_replacing_one_enabled [OF assms(1) _ _ assms(2)] Some show ?thesis by metis
qed

theorem save_idcommand_one_enabled_witness:
  "\<exists>c t. save_idcommand env_ex (Some idcommand_ex) idcommand_ex id_world_ex = (Inr c, t) \<and> one_enabled t \<and>
     c \<in> set (IDCommands t) \<and> ic_enabled c"
proof -
  have s: "IDCommands id_world_ex = [idcommand_ex]" "ic_uuid idcommand_ex = ''ic''" "ic_enabled idcommand_ex"
    by (simp_all add: id_world_ex_def idcommand_ex_def fpr_world.extend_def id_world.fields_def)
  have "one_enabled id_world_ex" "env_uuid4 env_ex (uuids id_world_ex) \<notin> ic_uuid ` set (IDCommands id_world_ex)"
    by (simp_all add: one_enabled_def s env_ex_def)
  from save_idcommand_one_enabled [OF this, of "Some idcommand_ex" idcommand_ex] show ?thesis by (simp add: s)
qed

end
