(* ===== verification/Normalize.thy ===== *)
theory Normalize
  imports Transcoder Identify
begin

text \<open>
  \<open>clientScripts/normalize.py\<close>: choosing the normalization command of a file, running it through
  \<open>Transcoder\<close> and recording what it made. The hash functions, the CSV reader, the database's
  case-insensitive \<open>LIKE\<close>, the recursion limit and the command line parser are fields of the environment.
\<close>

record NormalizeArgs =
  purpose :: string
  file_uuid :: string
  file_path :: string
  sip_path :: string
  sip_uuid :: string
  task_uuid :: string
  normalize_file_grp_use :: string
  thumbnail_mode :: string

text \<open>The CSV reader gives the rows with the line reached, or the \<open>ValueError\<close> or \<open>csv.Error\<close> it raises there.\<close>

record nz_env = sp_env +
  nz_config :: dict_config
  nz_hexdigest :: hexdigest
  nz_csv :: "string \<Rightarrow> (nat \<times> (py_exn + string list)) list"
  nz_iendswith :: "string \<Rightarrow> string \<Rightarrow> bool"
  nz_recursion :: nat
  nz_parse_args :: "string list \<Rightarrow> py_exn + NormalizeArgs"

record format_group_row =
  fg_uuid :: string
  fg_description :: string

record nz_world = id_world +
  FormatGroups :: "format_group_row list"

definition RULE_FAILED :: int where "RULE_FAILED = 1"
definition NO_RULE_FOUND :: int where "NO_RULE_FOUND = 2"

section \<open>The replacement dictionary\<close>

text \<open>Prefix, postfix and output directory for a purpose.\<close>

definition output_names :: "NormalizeArgs \<Rightarrow> (string \<times> string \<times> string) option" where
  "output_names opts =
     (if str_contains ''preservation'' (purpose opts) then Some ([], ''-'' @ task_uuid opts, dirname (file_path opts) @ ''/'')
      else if str_contains ''access'' (purpose opts)
      then Some (file_uuid opts @ ''-'', [], path_joins (sip_path opts) [''DIP'', ''objects''] @ ''/'')
      else if str_contains ''thumbnail'' (purpose opts)
      then Some ([], file_uuid opts, path_join (sip_path opts) ''thumbnails'' @ ''/'')
      else None)"

definition get_replacement_dict :: "('e nz_env_scheme) \<Rightarrow> NormalizeArgs \<Rightarrow> ('s world_scheme, rdict) py" where
  "get_replacement_dict E opts = (case output_names opts of
      None \<Rightarrow> py_seq (upd_job (print_error [''Unsupported command purpose'', purpose opts])) (py_ret None)
    | Some (prefix, postfix, output_dir) \<Rightarrow>
        py_bind (frommodel (env.truncate E) (nz_config E) ''file'' NoUnit (FileUuid (file_uuid opts)) True) (\<lambda>rd.
        (let output_filename = prefix @ fst (splitext (basename (file_path opts))) @ postfix
         in py_ret (Some (dict_update rd
              [(''%outputDirectory%'', output_dir), (''%prefix%'', prefix), (''%postfix%'', postfix),
               (''%outputFileName%'', output_filename), (''%outputFilePath%'', path_join output_dir output_filename)])))))"

section \<open>Manual normalization\<close>

text \<open>The row of the CSV for an original, or the line and the exception at which reading stopped.\<close>

fun find_csv_row ::
  "string \<Rightarrow> (nat \<times> (py_exn + string list)) list \<Rightarrow> nat \<times> py_exn + (string \<times> string \<times> string) option" where
  "find_csv_row bname [] = Inr None"
| "find_csv_row bname ((line, Inl e) # rows) = Inl (line, e)"
| "find_csv_row bname ((line, Inr row) # rows) =
     (if row = [] \<or> CHR ''#'' \<in> set (hd row) then find_csv_row bname rows
      else case row of
         [original, access_file, preservation_file] \<Rightarrow>
           if original = bname then Inr (Some (original, access_file, preservation_file)) else find_csv_row bname rows
       | _ \<Rightarrow> Inl (line, ValueError (if length row < 3
                then ''not enough values to unpack (expected 3, got '' @ str_nat (length row) @ '')''
                else ''too many values to unpack (expected 3)'')))"

definition csv_target :: "string \<Rightarrow> string \<times> string \<times> string \<Rightarrow> string option" where
  "csv_target pu row = (case row of (_, access_file, preservation_file) \<Rightarrow>
     if str_contains ''preservation'' pu \<and> preservation_file = [] then None
     else if str_contains ''access'' pu \<and> access_file = [] then None
     else if str_contains ''preservation'' pu then Some preservation_file
     else if str_contains ''access'' pu then Some access_file
     else None)"

text \<open>The path, without extension, at which a manually normalized file is expected.\<close>

definition manual_path :: "NormalizeArgs \<Rightarrow> string option" where
  "manual_path opts =
     (let path = fst (splitext (str_replace1 (file_path opts) (sip_path opts) ''%SIPDirectory%'')) in
      if str_contains ''preservation'' (purpose opts)
      then Some (str_replace path ''%SIPDirectory%objects/'' ''%SIPDirectory%objects/manualNormalization/preservation/'')
      else if str_contains ''access'' (purpose opts)
      then Some (str_replace path ''%SIPDirectory%objects/'' ''%SIPDirectory%objects/manualNormalization/access/'')
      else None)"

definition loc_text :: "file_row \<Rightarrow> string" where
  "loc_text f = (case f_currentlocation f of None \<Rightarrow> [] | Some l \<Rightarrow> l)"

definition manual_matches :: "string \<Rightarrow> string \<Rightarrow> 's world_scheme \<Rightarrow> file_row list" where
  "manual_matches sip path s = filter (\<lambda>f. f_sip f = Some sip \<and> loc_startswith path f) (Files s)"

text \<open>The lookup by path.\<close>

definition find_by_path :: "NormalizeArgs \<Rightarrow> ('s world_scheme, file_row option) py" where
  "find_by_path opts = (case manual_path opts of
      None \<Rightarrow> py_ret None
    | Some path \<Rightarrow>
        py_seq (upd_job (print_output [''Checking for a manually normalized file by trying to get the'' @
          '' unique file that matches SIP UUID '' @ sip_uuid opts @ '' and whose currentlocation'' @
          '' value starts with this path: '' @ path @ ''.'']))
       (py_bind (py_get (manual_matches (sip_uuid opts) path)) (\<lambda>matches.
        if matches = [] then py_seq (upd_job (print_output [''No such file found.''])) (py_ret None)
        else if length matches > 1
        then py_seq (upd_job (print_output [''Multiple files matching path '' @ path @ '' found. Returning the shortest one.'']))
            (let ret = the (first_by (\<lambda>f g. lt_text (loc_text f) (loc_text g)) matches)
             in py_seq (upd_job (print_output [''Returning file at '' @ loc_text ret])) (py_ret (Some ret)))
        else py_ret (Some (hd matches)))))"

definition check_manual_normalization :: "('e nz_env_scheme) \<Rightarrow> NormalizeArgs \<Rightarrow> ('s world_scheme, file_row option) py" where
  "check_manual_normalization E opts =
     (let normalization_csv = path_joins (sip_path opts) [''objects'', ''manualNormalization'', ''normalization.csv''] in
      py_bind (get_file (file_uuid opts)) (\<lambda>f0.
      (let bname = str_replace1 (str_replace1 (f_originallocation f0) ''%transferDirectory%objects/'' [])
                     ''%SIPDirectory%objects/'' [] in
      py_bind (fs_get (\<lambda>n. if os_isfile n normalization_csv then Some (read_file n normalization_csv) else None)) (\<lambda>r. case r of
        None \<Rightarrow> find_by_path opts
      | Some content \<Rightarrow>
          py_bind (py_lift content) (\<lambda>text.
          case find_csv_row bname (nz_csv E text) of
            Inl (line, e) \<Rightarrow>
              py_seq (upd_job (print_error [''Error reading'', normalization_csv, '' on line'', str_nat line]))
             (py_seq (upd_job (print_error [env_traceback E e])) (py_ret None))
          | Inr None \<Rightarrow> find_by_path opts
          | Inr (Some row) \<Rightarrow>
              py_seq (upd_job (print_output [''Filename'', bname, ''matches entry in normalization.csv'', fst row]))
             (case csv_target (purpose opts) row of
                None \<Rightarrow> py_ret None
              | Some filename \<Rightarrow>
                  py_seq (upd_job (print_output [''Looking for'', filename, ''in database'']))
                 (py_bind (py_get (\<lambda>s. get_one ''File'' (filter (\<lambda>f. f_sip f = Some (sip_uuid opts) \<and>
                      nz_iendswith E (f_originallocation f) filename) (Files s)))) (\<lambda>found.
                  py_bind (py_lift found) (\<lambda>f. py_ret (Some f))))))))))"

section \<open>Recording the result\<close>

definition insert_derivation_event ::
  "env \<Rightarrow> string \<Rightarrow> string \<Rightarrow> string \<Rightarrow> string \<Rightarrow> string option \<Rightarrow> datetime option \<Rightarrow> ('s world_scheme, unit) py" where
  "insert_derivation_event E original_uuid output_uuid derivation_uuid event_detail_output outcome_detail_note today =
     py_bind (case today of None \<Rightarrow> now E | Some d \<Rightarrow> py_ret d) (\<lambda>date.
     py_seq (insertIntoEvents E original_uuid derivation_uuid ''normalization'' (Some date) event_detail_output []
         (case outcome_detail_note of None \<Rightarrow> [] | Some n \<Rightarrow> n) [])
            (insertIntoDerivations original_uuid output_uuid (Some derivation_uuid)))"

text \<open>\<open>Derivation(...).save()\<close>\<close>

definition Derivation_save :: "string \<Rightarrow> string \<Rightarrow> string option \<Rightarrow> ('s world_scheme, unit) py" where
  "Derivation_save source derived event = py_bind auto_pk (\<lambda>pk.
     (let d = \<lparr>d_id = pk, d_source_file = source, d_derived_file = derived, d_event = event\<rparr>
      in py_bind (py_get (\<lambda>s. row_insert d_id (derivation_fks_ok s d) d (Derivations s))) (\<lambda>r.
         py_bind (py_lift r) (\<lambda>rows. py_mod (\<lambda>s. s\<lparr>Derivations := rows\<rparr>)))))"

definition output_format_of :: "fpcommand_row \<Rightarrow> ('s fpr_world_scheme, format_version_row option) py" where
  "output_format_of c = (case fc_output_format c of
      None \<Rightarrow> py_ret None
    | Some u \<Rightarrow> py_bind (py_get (\<lambda>s. filter (\<lambda>v. fv_uuid v = u) (FormatVersions s)))
        (\<lambda>rs. py_bind (py_lift (get_one ''FormatVersion'' rs)) (\<lambda>v. py_ret (Some v))))"

text \<open>\<open>FileFormatVersion(...).save()\<close>; both columns are required and refer to rows.\<close>

definition FileFormatVersion_save :: "string \<Rightarrow> format_version_row option \<Rightarrow> ('s fpr_world_scheme, unit) py" where
  "FileFormatVersion_save u version = (case version of
      None \<Rightarrow> py_raise (IntegrityError ''Column cannot be null'')
    | Some v \<Rightarrow> py_bind (py_get (\<lambda>s. u \<in> f_uuid ` set (Files s) \<and> fv_uuid v \<in> fv_uuid ` set (FormatVersions s))) (\<lambda>ok.
        if ok then py_mod (\<lambda>s. s\<lparr>FileFormatVersions := FileFormatVersions s @
             [\<lparr>ffv_file_uuid = u, ffv_format_version = fv_uuid v\<rparr>]\<rparr>)
        else py_raise (IntegrityError ''Cannot add or update a child row'')))"

text \<open>The files a command made: the output itself, or every file below it.\<close>

definition transcoded_files :: "string \<Rightarrow> fnode \<Rightarrow> string list" where
  "transcoded_files loc n =
     (if loc = [] then []
      else if os_isfile n loc then [loc]
      else if os_isdir n loc
      then concat (map (\<lambda>(path, _, files). filter (os_isfile n) (map (path_join path) files)) (os_walk n loc))
      else [])"

definition event_detail_text :: "Command \<Rightarrow> string" where
  "event_detail_text c = ''ArchivematicaFPRCommandID='' @ [dquote] @ fc_uuid (cm_fpcommand c) @ [dquote] @
     (case cm_event_detail_command c of None \<Rightarrow> [] | Some d \<Rightarrow> ''; '' @ cm_std_out d)"

text \<open>The body of the loop over the files made.\<close>

definition record_output ::
  "('e nz_env_scheme) \<Rightarrow> NormalizeArgs \<Rightarrow> string \<Rightarrow> Command \<Rightarrow> string \<Rightarrow> ('s id_world_scheme, unit) py" where
  "record_output E opts derivation_event_uuid c ef =
     (if str_contains ''thumbnails'' (purpose opts) then py_ret ()
      else py_bind (now (env.truncate E)) (\<lambda>today.
        (let output_file_uuid = task_uuid opts;
             path_relative_to_sip = str_replace1 ef (sip_path opts) ''%SIPDirectory%'' in
         py_seq (addFileToSIP (env.truncate E) path_relative_to_sip output_file_uuid (sip_uuid opts) (Some today)
             ''creation'' (purpose opts))
        (py_bind (uuid4 (env.truncate E)) (\<lambda>_.
         py_seq (updateSizeAndChecksum (env.truncate E) (nz_hexdigest E) output_file_uuid ef (Some today) None None None True)
        (py_seq (if str_contains ''preservation'' (purpose opts)
            then insert_derivation_event (env.truncate E) (file_uuid opts) output_file_uuid derivation_event_uuid
                   (event_detail_text c) (Some path_relative_to_sip) (Some today)
            else Derivation_save (file_uuid opts) output_file_uuid None)
        (py_bind (output_format_of (cm_fpcommand c)) (\<lambda>version.
         py_seq (FileFormatVersion_save output_file_uuid version)
        (py_bind (case version of None \<Rightarrow> py_raise (no_attribute ''format'') | Some v \<Rightarrow> format_of_version v) (\<lambda>f.
         FileID_create \<lparr>fi_id = 0, fi_file = Some output_file_uuid, fi_format_name = fo_description f,
           fi_format_version = [], fi_format_registry_name = [], fi_format_registry_key = []\<rparr>))))))))))"

text \<open>An unset output location becomes the empty text; a location where nothing is gives exit code -2.\<close>

definition checked_output :: "Command \<Rightarrow> fnode \<Rightarrow> Command" where
  "checked_output c n = (case c of Command fp cmd ty loc so ec ver det \<Rightarrow>
     (let l = (case loc of None \<Rightarrow> [] | Some l \<Rightarrow> l) in
      Command fp cmd ty (Some l) so (if l \<noteq> [] \<and> \<not> os_isfile n l \<and> \<not> os_isdir n l then Some (- 2) else ec) ver det))"

definition once_normalized ::
  "('e nz_env_scheme) \<Rightarrow> NormalizeArgs \<Rightarrow> Command \<Rightarrow> ('s id_world_scheme, Command) py" where
  "once_normalized E opts command =
     py_bind (py_get fs) (\<lambda>n.
     (let c = checked_output command n; loc = the (cm_output_location c) in
      py_seq (py_when (loc \<noteq> [] \<and> \<not> os_isfile n loc \<and> \<not> os_isdir n loc)
         (upd_job (print_error [''Error - output file does not exist ['', loc, '']''])))
     (py_bind (uuid4 (env.truncate E)) (\<lambda>derivation_event_uuid.
      py_seq (py_for (transcoded_files loc n) (record_output E opts derivation_event_uuid c)) (py_ret c)))))"

section \<open>main\<close>

text \<open>\<open>str\<close> of a format version, which follows the foreign keys to the format and its group.\<close>

definition format_str :: "format_row \<Rightarrow> ('s nz_world_scheme, string) py" where
  "format_str f = (case fo_group f of
      None \<Rightarrow> py_raise (no_attribute ''description'')
    | Some u \<Rightarrow> py_bind (py_get (\<lambda>s. filter (\<lambda>g. fg_uuid g = u) (FormatGroups s))) (\<lambda>rs.
        py_bind (py_lift (get_one ''FormatGroup'' rs)) (\<lambda>g. py_ret (fg_description g @ '': '' @ fo_description f))))"

definition opt_str :: "string option \<Rightarrow> string" where
  "opt_str x = (case x of None \<Rightarrow> ''None'' | Some t \<Rightarrow> t)"

definition format_version_str :: "format_version_row \<Rightarrow> ('s nz_world_scheme, string) py" where
  "format_version_str v =
     py_bind (case fv_format v of None \<Rightarrow> py_ret ''None'' | Some _ \<Rightarrow> py_bind (format_of_version v) format_str) (\<lambda>fmt.
     py_ret (fmt @ '': '' @ opt_str (fv_description v) @ '' ('' @ opt_str (fv_pronom_id v) @ '')''))"

definition rule_str :: "fprule_row \<Rightarrow> string" where
  "rule_str r = ''Format policy rule '' @ fr_uuid r"

definition get_default_rule :: "string \<Rightarrow> ('s fpr_world_scheme, fprule_row) py" where
  "get_default_rule pu = py_bind (py_get (\<lambda>s. filter (\<lambda>r. fr_purpose r = ''default_'' @ pu) (active_rules s)))
     (\<lambda>rs. py_lift (get_one ''FPRule'' rs))"

text \<open>Old derivatives of the same purpose: the derived files are marked as deleted, the links removed.\<close>

definition old_derivatives :: "string \<Rightarrow> string \<Rightarrow> 's world_scheme \<Rightarrow> derivation_row list" where
  "old_derivatives source pu s = filter (\<lambda>d. d_source_file d = source \<and>
     list_ex (\<lambda>f. f_uuid f = d_derived_file d \<and> f_filegrpuse f = pu) (Files s)) (Derivations s)"

definition clean_up_derivatives :: "env \<Rightarrow> string \<Rightarrow> string \<Rightarrow> ('s world_scheme, unit) py" where
  "clean_up_derivatives E source pu =
     py_bind (py_get (old_derivatives source pu)) (\<lambda>derivatives.
     py_seq (py_for derivatives (\<lambda>d.
         py_seq (upd_job (print_output [pu, ''derivative'', d_derived_file d, ''already exists, marking as deleted'']))
        (py_seq (update_files (\<lambda>f. f_uuid f = d_derived_file d) (\<lambda>f. f\<lparr>f_filegrpuse := ''deleted''\<rparr>))
                (py_when (pu \<noteq> ''thumbnail'')
                  (py_seq (insertIntoEvents E (d_derived_file d) [] ''deletion'' None [] [] [] []) (py_ret ()))))))
       (py_when (derivatives \<noteq> [])
         (py_mod (\<lambda>s. s\<lparr>Derivations := filter (\<lambda>d. d_id d \<notin> d_id ` set derivatives) (Derivations s)\<rparr>))))"

text \<open>
  The rule for the file: that of its format, or the default rule. \<open>Inl\<close> is the exit code with which
  \<open>main\<close> ends when there is none.
\<close>

definition format_rule :: "NormalizeArgs \<Rightarrow> ('s nz_world_scheme, int + fprule_row option) py" where
  "format_rule opts =
     py_bind (py_get (\<lambda>s. get_one ''FileFormatVersion'' (filter (\<lambda>l. ffv_file_uuid l = file_uuid opts) (FileFormatVersions s)))) (\<lambda>r.
     case r of
       Inl e \<Rightarrow> if missing_or_invalid e then py_ret (Inr None) else py_raise e
     | Inr link \<Rightarrow>
         py_bind (py_get (\<lambda>s. filter (\<lambda>v. fv_uuid v = ffv_format_version link) (FormatVersions s))) (\<lambda>vs.
         py_bind (py_lift (get_one ''FormatVersion'' vs)) (\<lambda>v.
         py_bind (format_version_str v) (\<lambda>txt.
         py_seq (upd_job (print_output [''File format:'', txt]))
        (py_bind (py_get (\<lambda>s. get_one ''FPRule'' (filter (\<lambda>r. fr_format r = fv_uuid v \<and> fr_purpose r = purpose opts)
             (active_rules s)))) (\<lambda>found. case found of
             Inr rule \<Rightarrow> py_ret (Inr (Some rule))
           | Inl (DoesNotExist _) \<Rightarrow>
               if purpose opts = ''thumbnail'' \<and> thumbnail_mode opts = ''generate_non_default''
               then py_seq (job_pyprint Stdout [''Thumbnail not generated as no rule found for format'']) (py_ret (Inl SUCCESS))
               else py_ret (Inr None)
           | Inl e \<Rightarrow> py_raise e))))))"

definition rule_or_default :: "NormalizeArgs \<Rightarrow> string \<Rightarrow> ('s nz_world_scheme, int + fprule_row) py" where
  "rule_or_default opts location =
     py_bind (format_rule opts) (\<lambda>r. case r of
       Inl code \<Rightarrow> py_ret (Inl code)
     | Inr (Some rule) \<Rightarrow> py_ret (Inr rule)
     | Inr None \<Rightarrow>
         py_try (py_bind (get_default_rule (purpose opts)) (\<lambda>rule.
             py_seq (upd_job (print_output [basename location, ''not identified or without rule'', ''- Falling back to default'',
               purpose opts, ''rule''])) (py_ret (Inr rule))))
           (\<lambda>e. if e = DoesNotExist ''FPRule''
             then Some (py_seq (upd_job (print_output [''Not normalizing'', basename location,
                    '' - No rule or default rule found to normalize for'', purpose opts])) (py_ret (Inl NO_RULE_FOUND)))
             else None))"

text \<open>Building a linker and executing it: the command object is made first, with the shared dictionary.\<close>

definition run_rule ::
  "('e nz_env_scheme) \<Rightarrow> NormalizeArgs \<Rightarrow> fprule_row \<Rightarrow> fpcommand_row \<Rightarrow> rdict \<Rightarrow>
     ('s nz_world_scheme, int option \<times> Command \<times> rdict) py" where
  "run_rule E opts rule command rd =
     py_bind (Command_init (nz_recursion E) command rd) (\<lambda>(cmd, rd').
     py_bind (CommandLinker_execute E rule rd' (once_normalized E opts) cmd) (\<lambda>(ret, cmd').
     py_ret (ret, cmd', rd')))"

text \<open>The fallback to the default rule when an access or thumbnail command failed and left no file.\<close>

definition needs_fallback :: "string \<Rightarrow> int option \<Rightarrow> Command \<Rightarrow> fnode \<Rightarrow> bool" where
  "needs_fallback pu exitstatus cmd n = (exitstatus \<noteq> Some 0 \<and> pu \<in> {''access'', ''thumbnail''} \<and>
     (case cm_output_location cmd of None \<Rightarrow> False | Some l \<Rightarrow> l \<noteq> [] \<and> \<not> os_isfile n l))"

definition run_fallback ::
  "('e nz_env_scheme) \<Rightarrow> NormalizeArgs \<Rightarrow> string \<Rightarrow> fpcommand_row \<Rightarrow> int option \<Rightarrow> Command \<Rightarrow> rdict \<Rightarrow>
     ('s nz_world_scheme, int option \<times> Command \<times> fpcommand_row) py" where
  "run_fallback E opts location command exitstatus cmd rd =
     py_bind (py_try (py_bind (get_default_rule (purpose opts)) (\<lambda>rule.
          py_seq (upd_job (print_output [purpose opts, ''normalization failed, falling back to default'', purpose opts, ''rule'']))
            (py_ret (Some rule))))
        (\<lambda>e. if e = DoesNotExist ''FPRule''
          then Some (py_seq (upd_job (print_output [''Not retrying normalizing for'', basename location,
                 '' - No default rule found to normalize for'', purpose opts])) (py_ret None))
          else None)) (\<lambda>fallback. case fallback of
       None \<Rightarrow> py_ret (exitstatus, cmd, command)
     | Some rule \<Rightarrow>
         py_bind (rule_command rule) (\<lambda>c.
         if fc_uuid c = fc_uuid command then py_ret (exitstatus, cmd, command)
         else py_seq (upd_job (print_output [''Fallback Format Policy Rule:'', rule_str rule]))
             (py_seq (upd_job (print_output [''Fallback Format Policy Command'', fc_description c]))
             (py_bind (run_rule E opts rule c rd) (\<lambda>(ret, cmd', _). py_ret (ret, cmd', c))))))"

text \<open>\<open>shutil.copyfile\<close>\<close>

definition shutil_copyfile :: "string \<Rightarrow> string \<Rightarrow> fnode \<Rightarrow> py_exn + fnode" where
  "shutil_copyfile src dst n =
     (if src = [] then Inl ENOENT
      else if os_exists n src \<and> path_comps src = path_comps dst then Inl (OSError 0 ''are the same file'')
      else case read_file n src of Inl e \<Rightarrow> Inl e | Inr c \<Rightarrow> write_file dst c n)"

definition store_thumbnail :: "('e nz_env_scheme) \<Rightarrow> NormalizeArgs \<Rightarrow> Command \<Rightarrow> ('s world_scheme, unit) py" where
  "store_thumbnail E opts cmd =
     (let thumbnail_storage_dir = path_joins (shared_directory (nz_config E)) [''www'', ''thumbnails'', sip_uuid opts] in
      py_seq (py_try (fs_do (os_makedirs thumbnail_storage_dir)) (\<lambda>e. Some
          (py_bind (fs_get (\<lambda>n. os_isdir n thumbnail_storage_dir)) (\<lambda>isdir.
           if e = EEXIST \<and> isdir then py_ret () else py_raise e))))
        (case cm_output_location cmd of
           None \<Rightarrow> py_raise (TypeError ''expected str, bytes or os.PathLike object, not NoneType'')
         | Some thumbnail_filepath \<Rightarrow>
             fs_do (shutil_copyfile thumbnail_filepath
               (path_join thumbnail_storage_dir (file_uuid opts @ snd (splitext thumbnail_filepath))))))"

definition normalize_with_rule ::
  "('e nz_env_scheme) \<Rightarrow> NormalizeArgs \<Rightarrow> string \<Rightarrow> fprule_row \<Rightarrow> ('s nz_world_scheme, int) py" where
  "normalize_with_rule E opts location rule =
     py_seq (upd_job (print_output [''Format Policy Rule:'', rule_str rule]))
    (py_bind (rule_command rule) (\<lambda>command.
     py_seq (upd_job (print_output [''Format Policy Command'', fc_description command]))
    (py_bind (get_replacement_dict E opts) (\<lambda>rd.
     py_bind (run_rule E opts rule command rd) (\<lambda>(exitstatus, cmd, rd').
     py_bind (fs_get (needs_fallback (purpose opts) exitstatus cmd)) (\<lambda>again.
     py_bind (if again then run_fallback E opts location command exitstatus cmd rd'
              else py_ret (exitstatus, cmd, command)) (\<lambda>(exitstatus', cmd', command').
     py_seq (py_when (str_contains ''thumbnail'' (purpose opts)) (store_thumbnail E opts cmd'))
    (if exitstatus' \<noteq> Some 0
     then py_seq (upd_job (print_error [''Command'', fc_description command', ''failed!''])) (py_ret RULE_FAILED)
     else py_seq (upd_job (print_output [''Successfully normalized '', basename (file_path opts), ''for'', purpose opts]))
            (py_ret SUCCESS)))))))))"

definition normalize_main :: "('e nz_env_scheme) \<Rightarrow> NormalizeArgs \<Rightarrow> ('s nz_world_scheme, int) py" where
  "normalize_main E opts =
     py_bind (py_try (py_bind (get_file (file_uuid opts)) (\<lambda>f. py_ret (Some f)))
        (\<lambda>e. if missing_or_invalid e then Some (py_ret None) else None)) (\<lambda>found. case found of
       None \<Rightarrow> py_seq (upd_job (print_error [''File with uuid'', file_uuid opts, ''does not exist in database.'']))
                 (py_ret NO_RULE_FOUND)
     | Some f \<Rightarrow>
         py_bind (py_lift (need_str ''decode'' (f_currentlocation f))) (\<lambda>location.
         py_seq (upd_job (print_output [''File found:'', f_uuid f, location]))
        (if normalize_file_grp_use opts \<noteq> ''submissionDocumentation'' \<and>
            startswith location ''%SIPDirectory%objects/submissionDocumentation''
         then py_seq (upd_job (print_output [''File'', basename (file_path opts), ''in objects/submissionDocumentation, skipping'']))
                (py_ret SUCCESS)
         else if f_filegrpuse f \<noteq> normalize_file_grp_use opts
         then py_seq (upd_job (print_output [basename (file_path opts), ''is file group usage'', f_filegrpuse f, ''instead of '',
                normalize_file_grp_use opts, '' - skipping''])) (py_ret SUCCESS)
         else
         py_seq (clean_up_derivatives (env.truncate E) (f_uuid f) (purpose opts))
        (py_bind (check_manual_normalization E opts) (\<lambda>manual. case manual of
           Some m \<Rightarrow>
             py_bind (py_lift (need_str ''decode'' (f_currentlocation m))) (\<lambda>target.
             py_seq (upd_job (print_output [basename (file_path opts), ''was already manually normalized into'', target]))
            (py_seq (py_when (str_contains ''preservation'' (purpose opts))
               (py_bind (uuid4 (env.truncate E)) (\<lambda>u.
                insert_derivation_event (env.truncate E) (file_uuid opts) (f_uuid m) u ''manual normalization'' None None)))
              (py_ret SUCCESS)))
         | None \<Rightarrow>
             py_bind (rule_or_default opts location) (\<lambda>r. case r of
               Inl code \<Rightarrow> py_ret code
             | Inr rule \<Rightarrow> normalize_with_rule E opts location rule))))))"

definition normalize_job :: "('e nz_env_scheme) \<Rightarrow> ('s nz_world_scheme, unit) py" where
  "normalize_job E = JobContext (env_traceback E) False
     (py_bind (py_get (\<lambda>s. tl (j_args (cur_job s)))) (\<lambda>args.
      py_bind (py_lift (nz_parse_args E args)) (\<lambda>opts.
      if purpose opts = ''thumbnail'' \<and> thumbnail_mode opts = ''do_not_generate''
      then py_seq (job_pyprint Stdout [''Thumbnail generation has been disabled'']) (upd_job (set_status SUCCESS ''success''))
      else py_try (py_bind (normalize_main E opts) (\<lambda>code. upd_job (set_status code ''success'')))
        (\<lambda>e. if is_Exception e
          then Some (py_seq (upd_job (print_error [exn_str e])) (upd_job (set_status 1 ''success'')))
          else None))))"

section \<open>Integrity does not depend on the registry\<close>

lemma db_inv_registry [simp]:
  "db_inv (s\<lparr>Rules := rs\<rparr>) = db_inv s" "db_inv (s\<lparr>FileFormatVersions := ls\<rparr>) = db_inv s"
  by (simp_all add: db_inv_def file_fks_ok_def event_fks_ok_def derivation_fks_ok_def)

lemma db_inv_FileIDs [simp]: "db_inv (s\<lparr>FileIDs := ids\<rparr>) = db_inv s"
  by (simp add: db_inv_def file_fks_ok_def event_fks_ok_def derivation_fks_ok_def)

section \<open>What one output leaves in the tables\<close>

lemma derivation_event_ensures:
  "ensures (tables n fl ev de m) (insert_derivation_event E a b i det (Some p) (Some d))
     (\<lambda>_ t. \<exists>e r. tables n fl (ev @ [e]) (de @ [r]) m t \<and> event_says a ''normalization'' det [] p e \<and>
        (i \<noteq> [] \<longrightarrow> e_event_id e = Some i) \<and> d_source_file r = a \<and> d_derived_file r = b \<and> d_event r = Some i)"
  unfolding insert_derivation_event_def option.case
proof (rule ensures_bind_keeps [OF keeps_ret], rule ensures_seq [OF insertIntoEvents_ensures], rule ensures_ex)
  fix e
  show "ensures (\<lambda>t. tables n fl (ev @ [e]) de m t \<and> event_says a ''normalization'' det [] p e \<and> (i \<noteq> [] \<longrightarrow> e_event_id e = Some i))
     (insertIntoDerivations a b (Some i))
     (\<lambda>_ t. \<exists>e r. tables n fl (ev @ [e]) (de @ [r]) m t \<and> event_says a ''normalization'' det [] p e \<and>
        (i \<noteq> [] \<longrightarrow> e_event_id e = Some i) \<and> d_source_file r = a \<and> d_derived_file r = b \<and> d_event r = Some i)"
    by (rule ensures_pure, rule ensures_weaken [OF insert_derivation_ensures]) auto
qed

lemma more_same:
  fixes s t :: "'s id_world_scheme"
  assumes "world.more t = world.more s"
  shows "FileFormatVersions t = FileFormatVersions s" "FormatVersions t = FormatVersions s"
    "Formats t = Formats s" "FileIDs t = FileIDs s"
  using assms by (cases s; cases t; simp)+

text \<open>The two rows that say which format the copy has: the link to the format version and the format's name.\<close>

definition copy_file_id :: "string \<Rightarrow> format_row \<Rightarrow> file_id_row" where
  "copy_file_id u f = \<lparr>fi_id = 0, fi_file = Some u, fi_format_name = fo_description f, fi_format_version = [],
     fi_format_registry_name = [], fi_format_registry_key = []\<rparr>"

definition format_recorded :: "string \<Rightarrow> fpcommand_row \<Rightarrow> 's id_world_scheme \<Rightarrow> 's id_world_scheme \<Rightarrow> bool" where
  "format_recorded u c s t \<longleftrightarrow> (\<exists>v f pk. v \<in> set (FormatVersions s) \<and> fc_output_format c = Some (fv_uuid v) \<and>
     f \<in> set (Formats s) \<and> fv_format v = Some (fo_uuid f) \<and>
     FileFormatVersions t = FileFormatVersions s @ [\<lparr>ffv_file_uuid = u, ffv_format_version = fv_uuid v\<rparr>] \<and>
     FileIDs t = FileIDs s @ [(copy_file_id u f)\<lparr>fi_id := pk\<rparr>])"

lemma record_format_tail_ensures:
  fixes s :: "'s id_world_scheme"
  shows "ensures (tables n fl ev de (world.more s)) (py_bind (output_format_of c) (\<lambda>version.
       py_seq (FileFormatVersion_save u version)
      (py_bind (case version of None \<Rightarrow> py_raise (no_attribute ''format'') | Some v \<Rightarrow> format_of_version v)
         (\<lambda>f. FileID_create (copy_file_id u f)))))
     (\<lambda>_ t. Files t = fl \<and> Events t = ev \<and> Derivations t = de \<and> format_recorded u c s t)"
  (is "ensures ?T _ (\<lambda>_. ?Q)")
proof -
  let ?link = "\<lambda>v. \<lparr>ffv_file_uuid = u, ffv_format_version = fv_uuid v\<rparr>"
  let ?L = "\<lambda>v t. Files t = fl \<and> Events t = ev \<and> Derivations t = de \<and> Formats t = Formats s \<and> FileIDs t = FileIDs s \<and>
     FileFormatVersions t = FileFormatVersions s @ [?link v]"
  have version: "ensures ?T (output_format_of c) (\<lambda>version t. ?T t \<and>
      (\<forall>v. version = Some v \<longrightarrow> fc_output_format c = Some (fv_uuid v) \<and> v \<in> set (FormatVersions s)))"
  proof (unfold ensures_def, intro allI impI)
    fix t :: "'s id_world_scheme" and x t'
    assume t: "?T t" and run: "output_format_of c t = (Inr x, t')"
    have "FormatVersions t = FormatVersions s" using t more_same(2) unfolding tables_def by blast
    with t run show "?T t' \<and> (\<forall>v. x = Some v \<longrightarrow> fc_output_format c = Some (fv_uuid v) \<and> v \<in> set (FormatVersions s))"
      by (auto simp: output_format_of_def py_simps split: option.splits sum.splits
          dest: get_one_mem [where P = "\<lambda>v. fv_uuid v = i" for i])
  qed
  have save: "ensures ?T (FileFormatVersion_save u (Some v)) (\<lambda>_. ?L v)" for v
  proof (unfold ensures_def, intro allI impI)
    fix t :: "'s id_world_scheme" and x t'
    assume t: "?T t" and run: "FileFormatVersion_save u (Some v) t = (Inr x, t')"
    have same: "FileFormatVersions t = FileFormatVersions s" "Formats t = Formats s" "FileIDs t = FileIDs s"
      using t more_same unfolding tables_def by blast+
    have "t' = t\<lparr>FileFormatVersions := FileFormatVersions t @ [?link v]\<rparr>"
      using run by (auto simp: FileFormatVersion_save_def py_simps split: if_splits)
    then show "?L v t'" using t same unfolding tables_def by simp
  qed
  have file_id: "ensures (?L v) (py_bind (format_of_version v) (\<lambda>f. FileID_create (copy_file_id u f))) (\<lambda>_. ?Q)"
    if v: "fc_output_format c = Some (fv_uuid v)" "v \<in> set (FormatVersions s)" for v
  proof (unfold ensures_def, intro allI impI)
    fix t :: "'s id_world_scheme" and x t'
    assume t: "?L v t" and run: "py_bind (format_of_version v) (\<lambda>f. FileID_create (copy_file_id u f)) t = (Inr x, t')"
    obtain f where f: "format_of_version v t = (Inr f, t)" "f \<in> set (Formats t)" "fv_format v = Some (fo_uuid f)"
      and create: "FileID_create (copy_file_id u f) t = (Inr x, t')"
      using run by (auto simp: format_of_version_def py_simps split: option.splits sum.splits prod.splits
          dest: get_one_mem [where P = "\<lambda>v. fo_uuid v = i" for i])
    obtain pk where "t' = t\<lparr>next_pk := Suc (next_pk t), FileIDs := FileIDs t @ [(copy_file_id u f)\<lparr>fi_id := pk\<rparr>]\<rparr>"
      using create by (auto simp: FileID_create_def py_simps auto_pk_def row_insert_def split: if_splits)
    then show "?Q t'" using t f v unfolding format_recorded_def by auto
  qed
  have "ensures ?T (py_seq (FileFormatVersion_save u version)
      (py_bind (case version of None \<Rightarrow> py_raise (no_attribute ''format'') | Some v \<Rightarrow> format_of_version v)
        (\<lambda>f. FileID_create (copy_file_id u f)))) (\<lambda>_. ?Q)"
    if "\<forall>v. version = Some v \<longrightarrow> fc_output_format c = Some (fv_uuid v) \<and> v \<in> set (FormatVersions s)" for version
  proof (cases version)
    case (Some v)
    show ?thesis unfolding Some option.case
      by (rule ensures_seq [OF save], rule file_id) (use that Some in simp_all)
  qed (simp add: ensures_def FileFormatVersion_save_def py_simps)
  then show ?thesis by (intro ensures_bind [OF version]) (rule ensures_pure, simp)
qed

lemma update_file_keys:
  assumes "\<And>f. f_uuid (g f) = f_uuid f"
  shows "f_uuid ` set (row_update p g rows) = f_uuid ` set rows"
proof -
  have "map f_uuid (row_update p g rows) = map f_uuid rows" using assms by (simp add: row_update_def)
  then show ?thesis by (metis list.set_map)
qed

section \<open>A second output\<close>

definition has_file :: "string \<Rightarrow> 's world_scheme \<Rightarrow> bool" where
  "has_file u s \<longleftrightarrow> u \<in> f_uuid ` set (Files s)"

lemma has_file_upd [simp]:
  "has_file u (s\<lparr>cur_job := j\<rparr>) = has_file u s" "has_file u (s\<lparr>clock := k\<rparr>) = has_file u s" "has_file u (s\<lparr>uuids := k\<rparr>) = has_file u s"
  "has_file u (s\<lparr>next_pk := k\<rparr>) = has_file u s" "has_file u (s\<lparr>Events := es\<rparr>) = has_file u s"
  "has_file u (s\<lparr>Derivations := ds\<rparr>) = has_file u s"
  by (simp_all add: has_file_def)

lemma has_file_registry [simp]: "has_file u (s\<lparr>FileFormatVersions := ls\<rparr>) = has_file u s"
  by (simp add: has_file_def)

lemma has_file_FileIDs [simp]: "has_file u (s\<lparr>FileIDs := ids\<rparr>) = has_file u s"
  by (simp add: has_file_def)

lemma keeps_has_file [keeps_intros]:
  fixes E :: env
  shows "keeps (has_file u) (now E)" "keeps (has_file u) (uuid4 E)" "keeps (has_file u) auto_pk" "keeps (has_file u) (fs_get g)"
    "keeps (has_file u) (event_agents_add pk as)" "keeps (has_file u) (get_setting a b)"
  by (auto simp: keeps_def py_simps event_agents_add_def get_setting_def split: sum.splits)

lemma keeps_has_file_events [keeps_intros]: "keeps (has_file u) (insertIntoEvents E x eid ty d det out nt as)"
proof -
  have "keeps (has_file u) (Event_create E e)" for e
    unfolding Event_create_def by (intro keeps_intros keeps_bind) auto
  then show ?thesis
    unfolding insertIntoEvents_def by (intro keeps_intros keeps_bind keeps_reads [OF reads_agents])
qed

text \<open>After a file is added its key is taken, whatever follows.\<close>

lemma record_output_has_file:
  assumes "\<not> str_contains ''thumbnails'' (purpose opts)"
  shows "ensures (\<lambda>_. True) (record_output E opts u c ef) (\<lambda>_. has_file (task_uuid opts))"
proof -
  let ?u = "task_uuid opts"
  have add: "ensures (\<lambda>_. True) (addFileToSIP F p ?u sip (Some d) ty use) (\<lambda>_. has_file ?u)" for F p d sip ty use
    unfolding addFileToSIP_def
    by (rule ensures_seq [where R = "\<lambda>_. has_file ?u"], (auto simp: ensures_def insertIntoFiles_def File_create_def new_file_def
          row_insert_def has_file_def py_simps Let_def split: if_splits)[1], rule ensures_keeps, intro keeps_intros)
  have upd: "keeps (has_file ?u) (updateSizeAndChecksum F h x p d None None None True)" for F h x p d
    unfolding updateSizeAndChecksum_def get_size_and_checksum_def get_file_checksum_def update_files_def option.case
    by (intro keeps_intros keeps_bind) (simp add: has_file_def update_file_keys)
  have der: "keeps (has_file ?u) (insert_derivation_event F a b i det n d)" "keeps (has_file ?u) (Derivation_save a b e)"
    for F a b i det n d e
    unfolding insert_derivation_event_def insertIntoDerivations_def Derivation_save_def Let_def
    by (intro keeps_intros keeps_bind; simp)+
  have reg: "keeps (has_file ?u) (FileFormatVersion_save x v)" "keeps (has_file ?u) (FileID_create r)"
    "keeps (has_file ?u) (output_format_of cmd)" for x v r cmd
    unfolding FileFormatVersion_save_def FileID_create_def output_format_of_def
    by (intro keeps_intros keeps_bind; simp)+
  have fmt: "keeps (has_file ?u) (format_of_version v)" for v
    unfolding format_of_version_def by (intro keeps_intros keeps_bind)
  show ?thesis
    unfolding record_output_def Let_def
    by (simp only: assms if_False, rule ensures_bind_keeps, simp add: keeps_def, rule ensures_seq [OF add], rule ensures_keeps,
        intro keeps_intros keeps_bind upd der reg fmt)
qed
lemma record_output_taken:
  assumes "\<not> str_contains ''thumbnails'' (purpose opts)" and "has_file (task_uuid opts) s"
  shows "\<exists>e. fst (record_output E opts u c ef s) = Inl e"
proof -
  have "\<exists>e. fst (addFileToSIP F p (task_uuid opts) sip d ty use t) = Inl e" if "has_file (task_uuid opts) t" for F p sip d ty use t
    using that by (auto simp: addFileToSIP_def insertIntoFiles_def File_create_def new_file_def row_insert_def has_file_def py_simps Let_def
        split: option.splits)
  from this [of "s\<lparr>clock := Suc (clock s)\<rparr>"] assms obtain e where
    "fst (addFileToSIP (env.truncate E) (str_replace1 ef (sip_path opts) ''%SIPDirectory%'') (task_uuid opts) (sip_uuid opts)
       (Some (env_now (env.truncate E) (clock s))) ''creation'' (purpose opts) (s\<lparr>clock := Suc (clock s)\<rparr>)) = Inl e"
    by fastforce
  then show ?thesis using assms(1) by (auto simp: record_output_def now_def py_simps Let_def split: prod.splits)
qed

section \<open>A preservation copy\<close>

text \<open>The row of a file made at \<open>p\<close>, with the size and checksum of its content, and what is recorded of it.\<close>

definition made_file :: "('e nz_env_scheme) \<Rightarrow> NormalizeArgs \<Rightarrow> fnode \<Rightarrow> string \<Rightarrow> file_row \<Rightarrow> bool" where
  "made_file E opts n p f \<longleftrightarrow> f_uuid f = task_uuid opts \<and> f_sip f = Some (sip_uuid opts) \<and> f_filegrpuse f = purpose opts \<and>
     f_currentlocation f = Some (str_replace1 p (sip_path opts) ''%SIPDirectory%'') \<and>
     (\<exists>size. os_getsize n p = Inr size \<and> f_size f = Some size) \<and>
     (\<exists>content. read_file n p = Inr content \<and> nz_hexdigest E (f_checksumtype f) content = Inr (f_checksum f))"

text \<open>The state without the tables and counters that recording a copy may change, and without the job.\<close>

definition rest_of :: "'s id_world_scheme \<Rightarrow> 's id_world_scheme" where
  "rest_of s = s\<lparr>cur_job := Job_init [] [] [] False, Files := [], Events := [], Derivations := [], next_pk := 0, clock := 0,
     uuids := 0, FileFormatVersions := [], FileIDs := []\<rparr>"

lemma rest_of_upd [simp]:
  fixes s :: "'s id_world_scheme"
  shows "rest_of (s\<lparr>cur_job := j\<rparr>) = rest_of s" "rest_of (s\<lparr>Files := a\<rparr>) = rest_of s" "rest_of (s\<lparr>Events := b\<rparr>) = rest_of s"
    "rest_of (s\<lparr>Derivations := d\<rparr>) = rest_of s" "rest_of (s\<lparr>next_pk := k\<rparr>) = rest_of s" "rest_of (s\<lparr>clock := k\<rparr>) = rest_of s"
    "rest_of (s\<lparr>uuids := k\<rparr>) = rest_of s" "rest_of (s\<lparr>FileFormatVersions := l\<rparr>) = rest_of s"
    "rest_of (s\<lparr>FileIDs := i\<rparr>) = rest_of s"
  by (simp_all add: rest_of_def)

definition rest_is :: "'s id_world_scheme \<Rightarrow> 's id_world_scheme \<Rightarrow> bool" where
  "rest_is r t \<longleftrightarrow> rest_of t = r"

lemma keeps_rest_basic [keeps_intros]:
  fixes E :: env and r :: "'s id_world_scheme"
  shows "keeps (rest_is r) (now E)" "keeps (rest_is r) (uuid4 E)" "keeps (rest_is r) auto_pk" "keeps (rest_is r) (fs_get g)"
    "keeps (rest_is r) (event_agents_add pk as)" "keeps (rest_is r) (get_setting a b)"
  by (auto simp: keeps_def py_simps event_agents_add_def get_setting_def rest_is_def split: sum.splits)

lemma keeps_rest_events [keeps_intros]:
  fixes r :: "'s id_world_scheme"
  shows "keeps (rest_is r) (insertIntoEvents E x eid ty d det out nt as)"
proof -
  have "keeps (rest_is r) (Event_create E e)" for e
    unfolding Event_create_def by (intro keeps_intros keeps_bind) (auto simp: rest_is_def)
  then show ?thesis
    unfolding insertIntoEvents_def by (intro keeps_intros keeps_bind keeps_reads [OF reads_agents])
qed

lemma keeps_rest_record_output:
  fixes r :: "'s id_world_scheme"
  shows "keeps (rest_is r) (record_output E opts u c ef)"
proof -
  have add: "keeps (rest_is r) (addFileToSIP F p x sip d ty use)" for F p x d sip ty use
    unfolding addFileToSIP_def insertIntoFiles_def File_create_def Let_def
    by (intro keeps_intros keeps_bind; simp add: rest_is_def)
  have upd: "keeps (rest_is r) (updateSizeAndChecksum F h x p d None None None True)" for F h x p d
    unfolding updateSizeAndChecksum_def get_size_and_checksum_def get_file_checksum_def update_files_def option.case
    by (intro keeps_intros keeps_bind) (simp add: rest_is_def)
  have der: "keeps (rest_is r) (insert_derivation_event F a b i det n d)" "keeps (rest_is r) (Derivation_save a b e)"
    for F a b i det n d e
    unfolding insert_derivation_event_def insertIntoDerivations_def Derivation_save_def Let_def
    by (intro keeps_intros keeps_bind; simp add: rest_is_def)+
  have reg: "keeps (rest_is r) (FileFormatVersion_save x v)" "keeps (rest_is r) (FileID_create i)"
    "keeps (rest_is r) (output_format_of cmd)" "keeps (rest_is r) (format_of_version w)" for x v i cmd w
    unfolding FileFormatVersion_save_def FileID_create_def output_format_of_def format_of_version_def
    by (intro keeps_intros keeps_bind; simp add: rest_is_def)+
  show ?thesis
    unfolding record_output_def Let_def by (intro keeps_intros keeps_bind add upd der reg)
qed

definition normalization_recorded ::
  "('e nz_env_scheme) \<Rightarrow> NormalizeArgs \<Rightarrow> Command \<Rightarrow> string \<Rightarrow> string \<Rightarrow> 's id_world_scheme \<Rightarrow> 's id_world_scheme \<Rightarrow> bool" where
  "normalization_recorded E opts c u p s t \<longleftrightarrow> (\<exists>f made digest norm d. Files t = Files s @ [f] \<and> made_file E opts (fs s) p f \<and>
     Events t = Events s @ [made, digest, norm] \<and> event_says (task_uuid opts) ''creation'' [] [] [] made \<and>
     event_says (task_uuid opts) ''message digest calculation'' (digest_event_detail (f_checksumtype f)) [] (f_checksum f) digest \<and>
     event_says (file_uuid opts) ''normalization'' (event_detail_text c) [] (str_replace1 p (sip_path opts) ''%SIPDirectory%'') norm \<and>
     e_event_id norm = Some u \<and> Derivations t = Derivations s @ [d] \<and> d_source_file d = file_uuid opts \<and>
     d_derived_file d = task_uuid opts \<and> d_event d = Some u) \<and> format_recorded (task_uuid opts) (cm_fpcommand c) s t"

lemma record_output_ensures:
  fixes s :: "'s id_world_scheme"
  assumes pu: "str_contains ''preservation'' (purpose opts)" "\<not> str_contains ''thumbnails'' (purpose opts)" and u: "u \<noteq> []"
  shows "ensures (tables (fs s) (Files s) (Events s) (Derivations s) (world.more s)) (record_output E opts u c p)
     (\<lambda>_. normalization_recorded E opts c u p s)"
proof -
  let ?T = "\<lambda>fl ev de. tables (fs s) fl ev de (world.more s)" and ?rel = "str_replace1 p (sip_path opts) ''%SIPDirectory%''"
  let ?F = "env.truncate E"
  let ?g = "\<lambda>f size sum ct. f\<lparr>f_size := Some size, f_checksum := sum, f_checksumtype := ct\<rparr>"
  have last: "ensures (?T (Files s @ [?g f size sum ct]) (Events s @ [made] @ [digest]) (Derivations s))
      (py_seq (insert_derivation_event ?F (file_uuid opts) (task_uuid opts) u (event_detail_text c) (Some ?rel) (Some day))
      (py_bind (output_format_of (cm_fpcommand c)) (\<lambda>version.
         py_seq (FileFormatVersion_save (task_uuid opts) version)
        (py_bind (case version of None \<Rightarrow> py_raise (no_attribute ''format'') | Some v \<Rightarrow> format_of_version v) 
           (\<lambda>f. FileID_create (copy_file_id (task_uuid opts) f))))))
      (\<lambda>_. normalization_recorded E opts c u p s)"
    if f: "f_uuid f = task_uuid opts" "f_sip f = Some (sip_uuid opts)" "f_filegrpuse f = purpose opts" "f_currentlocation f = Some ?rel"
      and made: "event_says (task_uuid opts) ''creation'' [] [] [] made"
      and digest: "event_says (task_uuid opts) ''message digest calculation'' (digest_event_detail ct) [] sum digest"
      and content: "os_getsize (fs s) p = Inr size" "\<exists>content. read_file (fs s) p = Inr content \<and> nz_hexdigest E ct content = Inr sum"
    for f made digest size sum ct day
    by (rule ensures_seq [OF derivation_event_ensures], (rule ensures_ex)+, rule ensures_pure,
        rule ensures_weaken [OF record_format_tail_ensures])
      (assumption, use f made digest content u in \<open>auto simp: normalization_recorded_def made_file_def\<close>)
  show ?thesis
    unfolding record_output_def Let_def copy_file_id_def [symmetric]
    apply (simp only: pu if_True if_False)
    apply (rule ensures_bind_keeps, rule keeps_tables)
    apply (rule ensures_seq [OF addFileToSIP_ensures], (rule ensures_ex)+, rule ensures_pure)
    apply (rule ensures_bind_keeps, rule keeps_tables)
    apply (rule ensures_seq [OF updateSize_ensures], simp, simp, (rule ensures_ex)+, rule ensures_pure)
    apply (rule ensures_weaken [OF last])
    apply auto
    done
qed

text \<open>The callback, up to what it prints: one round per file made.\<close>

lemma once_normalized_run:
  assumes l: "cm_output_location c = Some l"
  obtains j where "once_normalized E opts c s =
     (case py_for (transcoded_files l (fs s)) (record_output E opts (env_uuid4 E (uuids s)) (checked_output c (fs s)))
         (s\<lparr>cur_job := j, uuids := Suc (uuids s)\<rparr>) of
        (Inl e, t) \<Rightarrow> (Inl e, t) | (Inr _, t) \<Rightarrow> (Inr (checked_output c (fs s)), t))"
proof -
  let ?b = "l \<noteq> [] \<and> \<not> os_isfile (fs s) l \<and> \<not> os_isdir (fs s) l"
  let ?j = "if ?b then print_error [''Error - output file does not exist ['', l, '']''] (cur_job s) else cur_job s"
  have loc: "the (cm_output_location (checked_output c (fs s))) = l"
    using l by (cases c) (simp add: checked_output_def Let_def)
  have u: "env_uuid4 (env.truncate E) = env_uuid4 E" by (simp add: env.truncate_def)
  have split: "py_seq (py_for xs g) (py_ret c') t = (case py_for xs g t of (Inl e, t) \<Rightarrow> (Inl e, t) | (Inr _, t) \<Rightarrow> (Inr c', t))"
    for xs g and c' :: Command and t :: "'a id_world_scheme"
    by (simp add: py_seq_apply py_ret_apply split: prod.splits sum.splits)
  show ?thesis
    by (rule that [of ?j])
      (cases ?b; simp add: once_normalized_def Let_def loc py_bind_apply py_get_apply py_when_def upd_job_apply uuid4_def u split
        py_seq_apply [of "py_ret ()"] py_seq_apply [of "upd_job f" for f] py_ret_apply; blast)
qed

section \<open>Example state\<close>

definition nz_args_ex :: NormalizeArgs where
  "nz_args_ex = \<lparr>purpose = ''preservation'', file_uuid = ''f'', file_path = ''/s/objects/a.n'', sip_path = ''/s/'',
     sip_uuid = ''sip'', task_uuid = ''t'', normalize_file_grp_use = ''original'', thumbnail_mode = ''generate''\<rparr>"

definition nz_sip_ex :: sip_row where
  "nz_sip_ex = \<lparr>s_uuid = ''sip'', s_createdtime = [], s_currentpath = Some ''/s/'', s_hidden = False, s_aip_filename = None,
     s_sip_type = ''SIP'', s_identifiers = [], s_diruuids = False, s_status = 1, s_completed_at = None\<rparr>"

definition nz_env_ex :: nz_env where
  "nz_env_ex = sp_env.extend sp_env_ex (nz_env.fields \<lparr>shared_directory = ''/'', processing_directory = [], rejected_directory = [],
     watch_directory = []\<rparr> (\<lambda>a t. Inr t) (\<lambda>t. []) endswith 9 (\<lambda>args. Inr nz_args_ex))"

definition manual_file :: "string \<Rightarrow> string \<Rightarrow> file_row" where
  "manual_file u name = (new_file u)\<lparr>f_sip := Some ''sip'',
     f_currentlocation := Some (''%SIPDirectory%objects/manualNormalization/preservation/'' @ name)\<rparr>"

definition nz_world_ex :: nz_world where
  "nz_world_ex = id_world.extend (id_world_ex\<lparr>SIPs := [nz_sip_ex],
     Files := [file_ex\<lparr>f_sip := Some ''sip''\<rparr>, manual_file ''m'' ''a.t'', manual_file ''n'' ''a-1.t''],
     fs := FDir [(''s'', FDir [(''o'', FFile ''abc''), (''d'', FDir [(''x'', FFile []), (''y'', FFile [])])])]\<rparr>)
     (nz_world.fields [\<lparr>fg_uuid = ''g'', fg_description = ''Text''\<rparr>])"

definition nz_command_ex :: "string \<Rightarrow> Command" where
  "nz_command_ex loc = Command ((hd (FPCommands fpr_world_ex))\<lparr>fc_output_format := Some ''v''\<rparr>) ''x'' ''as_is'' (Some loc) [] (Some 0) None None"

lemmas nz_ex_defs = nz_args_ex_def nz_sip_ex_def nz_env_ex_def manual_file_def nz_world_ex_def nz_command_ex_def sp_env.extend_def
  nz_env.fields_def id_world.extend_def nz_world.fields_def id_ex_defs

section \<open>Properties\<close>

text \<open>C23. A command with two output files cannot be recorded: every output gets the UUID of the task, so
  unless the purpose says thumbnails, the callback raises as soon as there is a second file.\<close>

theorem second_output_fails:
  assumes pu: "\<not> str_contains ''thumbnails'' (purpose opts)"
    and two: "2 \<le> length (transcoded_files (the (cm_output_location c)) (fs s))" and loc: "cm_output_location c \<noteq> None"
  shows "\<exists>e. fst (once_normalized E opts c s) = Inl e"
proof -
  obtain l where l: "cm_output_location c = Some l" using loc by blast
  obtain x y zs where xs: "transcoded_files l (fs s) = x # y # zs"
    using two l by (cases "transcoded_files l (fs s)" rule: list.exhaust; cases "tl (transcoded_files l (fs s))") auto
  have "\<exists>e. fst (py_for (x # y # zs) (record_output E opts u d) t) = Inl e" for u d t
  proof (cases "record_output E opts u d x t")
    case (Pair r t')
    have "has_file (task_uuid opts) t'" if "r = Inr ()"
      using ensuresD [OF record_output_has_file [OF pu], where s = t] Pair that by blast
    then show ?thesis
      using Pair record_output_taken [OF pu, of t' E u d y] by (cases r) (auto simp: py_simps split: prod.splits)
  qed
  note raises = this
  obtain j where run: "once_normalized E opts c s =
     (case py_for (x # y # zs) (record_output E opts (env_uuid4 E (uuids s)) (checked_output c (fs s)))
         (s\<lparr>cur_job := j, uuids := Suc (uuids s)\<rparr>) of
        (Inl e, t) \<Rightarrow> (Inl e, t) | (Inr _, t) \<Rightarrow> (Inr (checked_output c (fs s)), t))"
    by (rule once_normalized_run [OF l, of E opts s]) (simp only: xs)
  show ?thesis
    using raises [of "env_uuid4 E (uuids s)" "checked_output c (fs s)" "s\<lparr>cur_job := j, uuids := Suc (uuids s)\<rparr>"]
    unfolding run by (auto split: prod.splits simp del: py_for.simps)
qed

theorem second_output_fails_witness:
  "\<exists>e. fst (once_normalized nz_env_ex nz_args_ex (nz_command_ex ''/s/d'') nz_world_ex) = Inl e"
  by (rule second_output_fails) code_simp+

text \<open>C22. Looking for a manually normalized file always returns and only writes to the job: nothing if no file of
  the SIP starts with the expected path, and otherwise the match whose location comes first in
  lexicographic order.\<close>

theorem find_by_path_first:
  assumes path: "manual_path opts = Some path"
  shows "\<exists>r t. find_by_path opts s = (Inr r, t) \<and> only_logged s t \<and>
     (case r of None \<Rightarrow> manual_matches (sip_uuid opts) path s = []
      | Some f \<Rightarrow> f \<in> set (manual_matches (sip_uuid opts) path s) \<and>
          (\<forall>g \<in> set (manual_matches (sip_uuid opts) path s). \<not> lt_text (loc_text g) (loc_text f)))"
proof -
  let ?lt = "\<lambda>f g. lt_text (loc_text f) (loc_text g)" and ?m = "manual_matches (sip_uuid opts) path s"
  have job: "manual_matches a b (t\<lparr>cur_job := j\<rparr>) = manual_matches a b t" for a b t j
    by (simp add: manual_matches_def)
  have irr: "\<not> lt_text a a" for a using lt_text_asym by blast
  show ?thesis
  proof (cases "length ?m > 1")
    case True
    then obtain f where f: "first_by ?lt ?m = Some f" using first_by_None [of ?lt ?m] by fastforce
    have "f \<in> set ?m \<and> (\<forall>g \<in> set ?m. \<not> ?lt g f)"
      by (rule first_by_least [OF _ _ f]) (simp_all add: lt_text_linear lt_text_asym)
    then show ?thesis
      using True path f by (auto simp: find_by_path_def py_simps Let_def job only_logged_def)
  next
    case False
    then show ?thesis
      using path by (cases ?m) (auto simp: find_by_path_def py_simps Let_def job only_logged_def irr)
  qed
qed

theorem find_by_path_first_witness:
  "\<exists>t. find_by_path nz_args_ex nz_world_ex = (Inr (Some (manual_file ''n'' ''a-1.t'')), t) \<and>
     length (loc_text (manual_file ''m'' ''a.t'')) < length (loc_text (manual_file ''n'' ''a-1.t''))"
proof -
  let ?p = "''%SIPDirectory%objects/manualNormalization/preservation/a''" and ?m = "manual_file ''m'' ''a.t''" and ?n = "manual_file ''n'' ''a-1.t''"
  have path: "manual_path nz_args_ex = Some ?p" by code_simp
  have matches: "manual_matches (sip_uuid nz_args_ex) ?p nz_world_ex = [?m, ?n]" by code_simp
  have order: "lt_text (loc_text ?n) (loc_text ?m)" "length (loc_text ?m) < length (loc_text ?n)" by code_simp+
  obtain r t where run: "find_by_path nz_args_ex nz_world_ex = (Inr r, t)"
    and r: "case r of None \<Rightarrow> [?m, ?n] = [] | Some f \<Rightarrow> f \<in> set [?m, ?n] \<and> (\<forall>g \<in> set [?m, ?n]. \<not> lt_text (loc_text g) (loc_text f))"
    using find_by_path_first [OF path, of nz_world_ex] unfolding matches by blast
  have "r = Some ?n" using r order(1) by (auto split: option.splits)
  then show ?thesis using run order(2) by blast
qed

text \<open>C21. A preservation copy is recorded completely, and nothing else is: when the callback returns after a
  command that made one file, the file table has one new row with the task's UUID, the SIP, the purpose,
  the location in the SIP and the size and checksum of the file on disk; three events are added, two on
  the new file and the normalization event on the original; a derivation links original, copy and
  event; the copy is linked to the output format version of the command, and a file identification
  names the description of that version's format. All older rows of these tables are as before, and
  the rest of the state (the other tables, the registry and the file system) is unchanged, apart from
  the counters and the job.\<close>

theorem preservation_copy_recorded:
  fixes s :: "'s id_world_scheme"
  assumes inv: "db_inv s" and pu: "str_contains ''preservation'' (purpose opts)" "\<not> str_contains ''thumbnails'' (purpose opts)"
    and one: "transcoded_files (the (cm_output_location c)) (fs s) = [p]" and loc: "cm_output_location c \<noteq> None"
    and uuid: "env_uuid4 E (uuids s) \<noteq> []" and run: "once_normalized E opts c s = (Inr c', t)"
  shows "normalization_recorded E opts c (env_uuid4 E (uuids s)) p s t \<and> rest_of t = rest_of s"
proof -
  let ?u = "env_uuid4 E (uuids s)" and ?c = "checked_output c (fs s)"
  have c: "event_detail_text ?c = event_detail_text c"
    "cm_fpcommand ?c = cm_fpcommand c"
    using loc by (cases c; auto simp: checked_output_def event_detail_text_def Let_def)+
  obtain l where l: "cm_output_location c = Some l" using loc by blast
  obtain j where "py_for [p] (record_output E opts ?u ?c) (s\<lparr>cur_job := j, uuids := Suc (uuids s)\<rparr>) = (Inr (), t)"
    using run one l by (rule_tac once_normalized_run [OF l, of E opts s]) (auto split: prod.splits sum.splits)
  then have rec: "record_output E opts ?u ?c p (s\<lparr>cur_job := j, uuids := Suc (uuids s)\<rparr>) = (Inr (), t)"
    by (auto simp: py_simps split: prod.splits sum.splits)
  have "tables (fs s) (Files s) (Events s) (Derivations s) (world.more s) (s\<lparr>cur_job := j, uuids := Suc (uuids s)\<rparr>)"
    using inv by (simp add: tables_def)
  with rec have "normalization_recorded E opts ?c ?u p s t"
    using ensuresD [OF record_output_ensures [OF pu uuid, of s E ?c p]] by blast
  moreover have "rest_is (rest_of s) t"
    using keepsD [OF keeps_rest_record_output, of "rest_of s" "s\<lparr>cur_job := j, uuids := Suc (uuids s)\<rparr>" E opts ?u ?c p] rec
    by (simp add: rest_is_def)
  ultimately show ?thesis by (simp add: normalization_recorded_def c rest_is_def)
qed

theorem preservation_copy_recorded_witness:
  "\<exists>c t. once_normalized nz_env_ex nz_args_ex (nz_command_ex ''/s/o'') nz_world_ex = (Inr c, t) \<and>
     normalization_recorded nz_env_ex nz_args_ex (nz_command_ex ''/s/o'') ''uuid0'' ''/s/o'' nz_world_ex t \<and>
     rest_of t = rest_of nz_world_ex"
proof -
  let ?E = nz_env_ex and ?o = nz_args_ex and ?c = "nz_command_ex ''/s/o''" and ?s = nz_world_ex
  have "\<not> isl (fst (once_normalized ?E ?o ?c ?s))" by code_simp
  then obtain c t where run: "once_normalized ?E ?o ?c ?s = (Inr c, t)"
    by (cases "once_normalized ?E ?o ?c ?s"; cases "fst (once_normalized ?E ?o ?c ?s)") auto
  have u: "env_uuid4 ?E (uuids ?s) = ''uuid0''" by code_simp
  have inv: "db_inv ?s" by code_simp
  have pu: "str_contains ''preservation'' (purpose ?o)" "\<not> str_contains ''thumbnails'' (purpose ?o)" by code_simp+
  have out: "transcoded_files (the (cm_output_location ?c)) (fs ?s) = [''/s/o'']" "cm_output_location ?c \<noteq> None" by code_simp+
  show ?thesis
    using preservation_copy_recorded [OF inv pu out _ run] run unfolding u by blast
qed

end
