(* ===== verification/Transcribe.thy ===== *)
theory Transcribe
  imports Commands
begin

text \<open>
  \<open>clientScripts/transcribe_file.py\<close>: running the transcription commands of the registry on an original,
  or on a derivative when there is no rule for the original's format, and recording the texts they make.
  Hashing and the command line parser are fields of the environment.
\<close>

record ts_env = sp_env +
  ts_config :: dict_config
  ts_hexdigest :: hexdigest
  ts_parse_args :: "string list \<Rightarrow> py_exn + string \<times> string"

section \<open>Records\<close>

definition insert_transcription_event :: "env \<Rightarrow> int \<Rightarrow> string \<Rightarrow> fpcommand_row \<Rightarrow> string \<Rightarrow> ('s fpr_world_scheme, string) py" where
  "insert_transcription_event E status file_uuid c relative_location =
     (let outcome = (if status = 0 then ''transcribed'' else ''not transcribed'') in
      py_bind (command_tool c) (\<lambda>tool.
      (let event_detail = ''program='' @ ft_description tool @ ''; version='' @ ft_version tool @ ''; command='' @ [dquote] @
             str_replace (fc_command c) [dquote] [backslash, dquote] @ [dquote] in
       py_bind (uuid4 E) (\<lambda>event_uuid.
       py_seq (insertIntoEvents E file_uuid event_uuid ''transcription'' None event_detail outcome relative_location [])
              (py_ret event_uuid)))))"

definition insert_file_into_database ::
  "('e ts_env_scheme) \<Rightarrow> string \<Rightarrow> string \<Rightarrow> string \<Rightarrow> string \<Rightarrow> string \<Rightarrow> ('s world_scheme, unit) py" where
  "insert_file_into_database E file_uuid sip_uuid event_uuid output_path relative_path =
     (let F = env.truncate E in
      py_bind (uuid4 F) (\<lambda>transcription_uuid.
      py_bind (now F) (\<lambda>today.
      py_seq (addFileToSIP F relative_path transcription_uuid sip_uuid (Some today) ''creation'' ''text/ocr'')
     (py_bind (uuid4 F) (\<lambda>_.
      py_seq (updateSizeAndChecksum F (ts_hexdigest E) transcription_uuid output_path (Some today) None None None True)
             (insertIntoDerivations file_uuid transcription_uuid (Some event_uuid)))))))"

section \<open>Which rules apply\<close>

definition fetch_rules_for :: "string \<Rightarrow> ('s fpr_world_scheme, fprule_row list) py" where
  "fetch_rules_for file_uuid =
     py_bind (py_get (\<lambda>s. get_one ''FileFormatVersion'' (filter (\<lambda>l. ffv_file_uuid l = file_uuid) (FileFormatVersions s)))) (\<lambda>r. case r of
       Inl e \<Rightarrow> if missing_or_invalid e then py_ret [] else py_raise e
     | Inr l \<Rightarrow> py_get (\<lambda>s. filter (\<lambda>r. fr_format r = ffv_format_version l \<and> fr_purpose r = ''transcription'') (active_rules s)))"

text \<open>The loop over the derivations, which ends at the first file with rules.\<close>

fun first_derivative :: "derivation_row list \<Rightarrow> ('s fpr_world_scheme, (file_row \<times> fprule_row list) option) py" where
  "first_derivative [] = py_ret None"
| "first_derivative (d # ds) =
     py_bind (get_file (d_derived_file d)) (\<lambda>derived_file.
     if f_filegrpuse derived_file = ''thumbnail'' then first_derivative ds
     else py_bind (fetch_rules_for (f_uuid derived_file)) (\<lambda>rules.
          if rules \<noteq> [] then py_ret (Some (derived_file, rules)) else first_derivative ds))"

definition fetch_rules_for_derivatives :: "file_row \<Rightarrow> ('s fpr_world_scheme, (file_row \<times> fprule_row list) option) py" where
  "fetch_rules_for_derivatives f =
     py_bind (py_get (\<lambda>s. filter (\<lambda>d. d_source_file d = f_uuid f) (Derivations s))) first_derivative"

section \<open>main\<close>

definition dict_get :: "(string \<times> string) list \<Rightarrow> string \<Rightarrow> py_exn + string" where
  "dict_get rd key = (case map_of rd key of None \<Rightarrow> Inl (KeyError key) | Some v \<Rightarrow> Inr v)"

text \<open>The body of the loop over the rules; the result is the exit status of the command.\<close>

definition transcribe_rule :: "('e ts_env_scheme) \<Rightarrow> string \<Rightarrow> (string \<times> string) list \<Rightarrow> fprule_row \<Rightarrow> ('s fpr_world_scheme, int) py" where
  "transcribe_rule E file_uuid rd rule =
     py_bind (rule_command rule) (\<lambda>c.
     (let (script, args) = (if fc_script_type c \<in> {''bashScript'', ''command''} then (rd_replace1 rd (fc_command c), [])
            else (fc_command c, to_gnu_options rd)) in
      py_bind (executeOrRun E (fc_script_type c) (CmdStr script) (StrIn []) args [] True) (\<lambda>(exitstatus, stdout, stderr).
      py_seq (upd_job (write_output stdout))
     (py_seq (upd_job (write_error stderr))
     (py_bind (py_lift (need_str ''replace'' (map_option (rd_replace1 rd) (fc_output_location c)))) (\<lambda>output_path.
      py_bind (py_lift (dict_get rd ''%SIPDirectory%'')) (\<lambda>sip_directory.
      (let relative_path = str_replace output_path sip_directory ''%SIPDirectory%'' in
       py_bind (insert_transcription_event (env.truncate E) exitstatus file_uuid c relative_path) (\<lambda>event.
       py_bind (fs_get (\<lambda>n. output_path \<noteq> [] \<and> os_isfile n output_path)) (\<lambda>isfile.
       py_seq (if isfile then py_bind (py_lift (dict_get rd ''%SIPUUID%'')) (\<lambda>sip_uuid.
                 insert_file_into_database E file_uuid sip_uuid event output_path relative_path) else py_ret ())
              (py_ret exitstatus)))))))))))"

definition transcribe_rules :: "('e ts_env_scheme) \<Rightarrow> string \<Rightarrow> (string \<times> string) list \<Rightarrow> fprule_row list \<Rightarrow> ('s fpr_world_scheme, int) py" where
  "transcribe_rules E file_uuid rd rules = py_bind (py_map (transcribe_rule E file_uuid rd) rules) (\<lambda>codes.
     py_ret (if list_all (\<lambda>c. c = 0) codes then 0 else 1))"

definition transcribe_main :: "('e ts_env_scheme) \<Rightarrow> string \<Rightarrow> ('s fpr_world_scheme, int) py" where
  "transcribe_main E file_uuid =
     py_bind (get_file file_uuid) (\<lambda>f.
     if f_filegrpuse f \<noteq> ''original''
     then py_seq (upd_job (print_error [file_uuid @ '' is not an original; not transcribing''])) (py_ret 0)
     else py_bind (fetch_rules_for (f_uuid f)) (\<lambda>own.
       py_bind (if own \<noteq> [] then py_ret (Some (f, own)) else fetch_rules_for_derivatives f) (\<lambda>found. case found of
         None \<Rightarrow> py_seq (upd_job (print_error [''No rules found for file '' @ file_uuid @ '' and its derivatives; not transcribing'']))
                   (py_ret 0)
       | Some (f', rules) \<Rightarrow>
           (let kind = (if f_filegrpuse f' = ''original'' then ''original'' else f_filegrpuse f' @ '' derivative'') in
            py_seq (upd_job (print_error [''Transcribing '' @ kind @ '' '' @ f_uuid f']))
           (py_bind (frommodel (env.truncate E) (ts_config E) ''file'' NoUnit (FileModel f') True) (\<lambda>rd.
            transcribe_rules E file_uuid rd rules))))))"

definition transcribe_job :: "('e ts_env_scheme) \<Rightarrow> ('s fpr_world_scheme, unit) py" where
  "transcribe_job E = JobContext (env_traceback E) False
     (py_bind (py_get (\<lambda>s. tl (j_args (cur_job s)))) (\<lambda>args.
      py_bind (py_lift (ts_parse_args E args)) (\<lambda>(task_uuid, file_uuid).
      py_bind (transcribe_main E file_uuid) (\<lambda>code. upd_job (set_status code ''success'')))))"

section \<open>The events of a rule\<close>

definition transcription :: "event_row \<Rightarrow> bool" where
  "transcription e \<longleftrightarrow> e_event_type e = ''transcription''"

text \<open>Facts on the tables, seen through the events alone.\<close>

lemma ensures_events_tables:
  assumes "\<And>n fl de m. ensures (tables n fl ev de m) c Q"
  shows "ensures (events_are ev) c Q"
  unfolding ensures_def
proof (intro allI impI)
  fix s x t assume s: "events_are ev s" and run: "c s = (Inr x, t)"
  have "tables (fs s) (Files s) ev (Derivations s) (world.more s) s" using s by (simp add: tables_def events_are_def)
  from ensuresD [OF assms this run] show "Q x t" .
qed

lemma insert_file_ensures:
  fixes E :: "'e ts_env_scheme"
  shows "ensures (events_are ev) (insert_file_into_database E u sip ev_id out rel :: ('s world_scheme, unit) py)
     (\<lambda>_ t. \<exists>new. events_are (ev @ new) t \<and> (\<forall>e \<in> set new. \<not> transcription e))"
proof (rule ensures_events_tables, unfold insert_file_into_database_def Let_def)
  fix n fl de and m :: 's
  let ?Q = "\<lambda>_ t. \<exists>new. events_are (ev @ new) t \<and> (\<forall>e \<in> set new. \<not> transcription e)"
  have last: "ensures (tables n fl' (ev @ [a] @ [b]) de m) (insertIntoDerivations u x y) ?Q"
    if "event_says i ''creation'' [] [] [] a" "event_says i ''message digest calculation'' d [] sum b" for fl' a b x y i d sum
    by (rule ensures_weaken [OF insert_derivation_ensures], assumption)
      (use that in \<open>auto simp: events_are_def tables_def event_says_def transcription_def intro!: exI [of _ "[a, b]"]\<close>)
  show "ensures (tables n fl ev de m) (py_bind (uuid4 (env.truncate E)) (\<lambda>transcription_uuid. py_bind (now (env.truncate E)) (\<lambda>today.
      py_seq (addFileToSIP (env.truncate E) rel transcription_uuid sip (Some today) ''creation'' ''text/ocr'')
     (py_bind (uuid4 (env.truncate E)) (\<lambda>_.
      py_seq (updateSizeAndChecksum (env.truncate E) (ts_hexdigest E) transcription_uuid out (Some today) None None None True)
             (insertIntoDerivations u transcription_uuid (Some ev_id))))))) ?Q"
    apply (rule ensures_bind_keeps, rule keeps_tables)+
    apply (rule ensures_seq [OF addFileToSIP_ensures], (rule ensures_ex)+, rule ensures_pure)
    apply (rule ensures_bind_keeps, rule keeps_tables)
    apply (rule ensures_seq [OF updateSize_ensures], simp, simp, (rule ensures_ex)+, rule ensures_pure)
    apply (rule ensures_weaken [OF last])
    apply auto
    done
qed

text \<open>
  The events a run adds: one transcription event on the file per exit status, in order, with the outcome
  that the status stands for.
\<close>

definition outcome_of :: "int \<Rightarrow> string" where
  "outcome_of code = (if code = 0 then ''transcribed'' else ''not transcribed'')"

definition transcriptions :: "string \<Rightarrow> event_row list \<Rightarrow> int list \<Rightarrow> 's world_scheme \<Rightarrow> bool" where
  "transcriptions u ev codes t \<longleftrightarrow> db_inv t \<and> (\<exists>new. Events t = ev @ new \<and>
     (\<forall>e \<in> set (filter transcription new). e_file_uuid e = Some u) \<and>
     map e_event_outcome (filter transcription new) = map outcome_of codes)"

lemma transcriptions_append:
  assumes "transcriptions u ev as s" "transcriptions u (Events s) bs t"
  shows "transcriptions u ev (as @ bs) t"
proof -
  obtain a where a: "Events s = ev @ a" "\<forall>e \<in> set (filter transcription a). e_file_uuid e = Some u"
    "map e_event_outcome (filter transcription a) = map outcome_of as" using assms(1) unfolding transcriptions_def by blast
  obtain b where b: "db_inv t" "Events t = Events s @ b" "\<forall>e \<in> set (filter transcription b). e_file_uuid e = Some u"
    "map e_event_outcome (filter transcription b) = map outcome_of bs" using assms(2) unfolding transcriptions_def by blast
  show ?thesis unfolding transcriptions_def using a b by (intro conjI exI [of _ "a @ b"]) auto
qed

lemma insert_transcription_ensures:
  fixes E :: env
  shows "ensures (events_are ev) (insert_transcription_event E code u c rel :: ('s fpr_world_scheme, string) py)
     (\<lambda>_ t. \<exists>e. events_are (ev @ [e]) t \<and> transcription e \<and> e_file_uuid e = Some u \<and> e_event_outcome e = outcome_of code)"
proof (rule ensures_events_tables)
  fix n fl de and m :: "'s fpr_world_ext"
  show "ensures (tables n fl ev de m) (insert_transcription_event E code u c rel :: ('s fpr_world_scheme, string) py)
     (\<lambda>_ t. \<exists>e. events_are (ev @ [e]) t \<and> transcription e \<and> e_file_uuid e = Some u \<and> e_event_outcome e = outcome_of code)"
    unfolding insert_transcription_event_def Let_def
    by (rule ensures_bind_keeps, rule keeps_reads [OF reads_fpr(2)], rule ensures_bind_keeps, rule keeps_tables,
        rule ensures_seq [OF insertIntoEvents_ensures], rule ensures_ret)
      (auto simp: tables_def events_are_def event_says_def transcription_def outcome_of_def)
qed

lemma transcribe_rule_ensures:
  fixes E :: "'e ts_env_scheme"
  shows "ensures (events_are ev) (transcribe_rule E u rd rule :: ('s fpr_world_scheme, int) py) (\<lambda>code. transcriptions u ev [code])"
proof -
  let ?P = "events_are ev :: 's fpr_world_scheme \<Rightarrow> bool"
  have rest: "ensures (events_are (ev @ [e])) (py_bind (fs_get g) (\<lambda>isfile. py_seq (if isfile then py_bind (py_lift r) (\<lambda>sip.
        insert_file_into_database E u sip i out rel) else py_ret ()) (py_ret code)) :: ('s fpr_world_scheme, int) py)
      (\<lambda>code. transcriptions u ev [code])"
    if e: "transcription e" "e_file_uuid e = Some u" "e_event_outcome e = outcome_of code" for e g r i out rel code
  proof (rule ensures_bind_keeps, rule keeps_events_job(3), rule ensures_seq)
    show "ensures (events_are (ev @ [e])) (if b then py_bind (py_lift r) (\<lambda>sip. insert_file_into_database E u sip i out rel) else py_ret ())
       (\<lambda>_ t :: 's fpr_world_scheme. \<exists>new. events_are ((ev @ [e]) @ new) t \<and> (\<forall>e \<in> set new. \<not> transcription e))" for b
      by (rule ensures_if, rule ensures_bind_keeps, rule keeps_lift, rule insert_file_ensures, rule ensures_ret, rule exI [of _ "[]"], simp)
    show "ensures (\<lambda>t :: 's fpr_world_scheme. \<exists>new. events_are ((ev @ [e]) @ new) t \<and> (\<forall>e \<in> set new. \<not> transcription e)) (py_ret code)
       (\<lambda>code. transcriptions u ev [code])"
    proof (rule ensures_ret, elim exE conjE)
      fix t :: "'s fpr_world_scheme" and new assume t: "events_are ((ev @ [e]) @ new) t" "\<forall>e \<in> set new. \<not> transcription e"
      have "filter transcription new = []" using t(2) by (simp add: filter_empty_conv)
      then show "transcriptions u ev [code] t"
        using t e by (auto simp: transcriptions_def events_are_def)
    qed
  qed
  show ?thesis
    unfolding transcribe_rule_def Let_def
    apply (rule ensures_bind_keeps, rule keeps_reads [OF reads_fpr(1)], rule ensures_case_prod)
    apply (rule ensures_bind_keeps, rule keeps_events_process, intro ensures_case_prod ensures_seq_keeps keeps_intros)
    apply ((rule ensures_bind_keeps, rule keeps_lift)+, rule ensures_bind [OF insert_transcription_ensures], rule ensures_ex)
    apply (rule ensures_pure, rule rest, simp_all)
    done
qed

interpretation transcribe: rule_loop "transcribe_rule E u rd" "transcriptions u" for E u rd
proof unfold_locales
  show "transcriptions u ev [] s" if "events_are ev s" for ev and s :: "'b fpr_world_scheme"
    using that by (simp add: transcriptions_def events_are_def)
  show "db_inv s" if "transcriptions u ev cs s" for ev cs and s :: "'b fpr_world_scheme"
    using that by (simp add: transcriptions_def)
qed (rule transcriptions_append, assumption+, rule transcribe_rule_ensures)

section \<open>Example state\<close>

definition ts_env_ex :: ts_env where
  "ts_env_ex = sp_env.extend sp_env_ex (ts_env.fields \<lparr>shared_directory = [], processing_directory = [], rejected_directory = [],
     watch_directory = []\<rparr> (\<lambda>a t. Inr t) (\<lambda>args. Inr (''t'', ''f'')))"

definition ts_world_ex :: fpr_world where
  "ts_world_ex = fpr_world_ex\<lparr>FPCommands := map (fc_output_location_update (\<lambda>_. Some ''/o'')) (FPCommands fpr_world_ex)\<rparr>"

section \<open>Properties\<close>

text \<open>The outcome of a transcription is what its events say: when the loop over the rules returns, every rule
  has added exactly one transcription event, in order and on the file that was asked for, and the
  code is 0 if and only if all of them say transcribed.\<close>

theorem transcription_events:
  assumes inv: "db_inv s" and run: "transcribe_rules E u rd rules s = (Inr code, t)"
  shows "\<exists>new. Events t = Events s @ new \<and> length (filter transcription new) = length rules \<and>
     (\<forall>e \<in> set (filter transcription new). e_file_uuid e = Some u) \<and> (code = 0 \<or> code = 1) \<and>
     (code = 0 \<longleftrightarrow> (\<forall>e \<in> set (filter transcription new). e_event_outcome e = ''transcribed''))"
proof -
  obtain codes where codes: "py_map (transcribe_rule E u rd) rules s = (Inr codes, t)"
    and code: "code = (if list_all (\<lambda>c. c = 0) codes then 0 else 1)"
    using run by (auto simp: transcribe_rules_def py_simps split: prod.splits sum.splits)
  have "events_are (Events s) s" using inv by (simp add: events_are_def)
  from ensuresD [OF transcribe.all_rules this codes] obtain new where new: "Events t = Events s @ new"
    "\<forall>e \<in> set (filter transcription new). e_file_uuid e = Some u" "length codes = length rules"
    and out: "map e_event_outcome (filter transcription new) = map outcome_of codes"
    unfolding transcriptions_def by blast
  have "length (filter transcription new) = length rules" using arg_cong [OF out, of length] new(3) by simp
  moreover have "list_all (\<lambda>c. c = 0) cs \<longleftrightarrow> (\<forall>x \<in> set (map outcome_of cs). x = ''transcribed'')" for cs
    by (induction cs) (simp_all add: outcome_of_def)
  from this [of codes] have "list_all (\<lambda>c. c = 0) codes \<longleftrightarrow> (\<forall>e \<in> set (filter transcription new). e_event_outcome e = ''transcribed'')"
    unfolding out [symmetric] by simp
  ultimately show ?thesis using new code by auto
qed

theorem transcription_events_witness:
  "\<exists>code t. transcribe_rules ts_env_ex ''f'' [(''%SIPDirectory%'', ''/'')] [rule_ex] ts_world_ex = (Inr code, t) \<and> code = 0 \<and>
     length (filter transcription (Events t)) = 1"
proof -
  let ?run = "transcribe_rules ts_env_ex ''f'' [(''%SIPDirectory%'', ''/'')] [rule_ex] ts_world_ex"
  have "fst ?run = Inr 0" by code_simp
  then obtain t where run: "?run = (Inr 0, t)" by (cases ?run) auto
  have inv: "db_inv ts_world_ex" and none: "Events ts_world_ex = []" by code_simp+
  show ?thesis using transcription_events [OF inv run] run by (auto simp: none)
qed

end
