(* ===== verification/AssignUUIDs.thy ===== *)
theory AssignUUIDs
  imports Commands
begin

text \<open>
  \<open>clientScripts/assign_file_uuids.py\<close>: every file below a directory gets a row in the database. A METS
  document of a re-ingested AIP is what \<open>metsrw\<close> shows of it: a lookup of entries by path, with their
  administrative sections; texts are found in an XML document by \<open>lxml\<close>. Both, and the command
  line parser, are fields of the environment.
\<close>

section \<open>Arguments and environment\<close>

record assign_args =
  aa_date :: string
  aa_sip_directory :: string
  aa_sip_uuid :: "string option"
  aa_transfer_uuid :: "string option"
  aa_use :: string
  aa_filter_subdir :: "string option"
  aa_update_use :: bool

text \<open>An entry; a section is a list of subsections, each with its kind and its XML document.\<close>

record mets_entry =
  me_path :: string
  me_file_uuid :: string
  me_use :: string
  me_amdsecs :: "(string \<times> string) list list"

type_synonym mets_document = "string \<Rightarrow> mets_entry option"

record as_env = env +
  as_parse_args :: "string list \<Rightarrow> py_exn + assign_args"
  as_fromfile :: "string \<Rightarrow> py_exn + mets_document"
  as_findtext :: "bool \<Rightarrow> string \<Rightarrow> string \<Rightarrow> string option"

section \<open>Files known from a METS document\<close>

text \<open>\<open>namespaces.xml_findtext_premis\<close>; the flag selects the namespaces of PREMIS 2.\<close>

definition xml_findtext_premis :: "(bool \<Rightarrow> string \<Rightarrow> string \<Rightarrow> string option) \<Rightarrow> string \<Rightarrow> string \<Rightarrow> string \<Rightarrow> string" where
  "xml_findtext_premis findtext elem path dflt =
     (let match = (case findtext False elem path of None \<Rightarrow> findtext True elem path | Some t \<Rightarrow> Some t)
      in case match of None \<Rightarrow> dflt | Some t \<Rightarrow> if t = [] then dflt else t)"

record file_info =
  in_uuid :: string
  in_filegrpuse :: string
  in_current_path :: string
  in_original_path :: string

text \<open>The document of the last \<open>techMD\<close> of the first section.\<close>

definition techmd_document :: "mets_entry \<Rightarrow> py_exn + string" where
  "techmd_document entry = (case me_amdsecs entry of
      [] \<Rightarrow> Inl (IndexError ''list index out of range'')
    | amdsec # _ \<Rightarrow> (case rev (filter (\<lambda>(kind, _). kind = ''techMD'') amdsec) of
          [] \<Rightarrow> Inl (PyException ''cannot access local variable techmd'')
        | (_, doc) # _ \<Rightarrow> Inr doc))"

definition get_file_info_from_mets ::
  "('e as_env_scheme) \<Rightarrow> mets_document \<Rightarrow> string \<Rightarrow> ('s jstate_scheme, file_info option) py" where
  "get_file_info_from_mets E mets file_path_relative_to_sip =
     (let rel = str_replace1 (str_replace1 file_path_relative_to_sip ''%transferDirectory%'' []) ''%SIPDirectory%'' [] in
      case mets rel of
        None \<Rightarrow> py_seq (upd_job (print_error [''FSEntry for file '' @ rel @ '' not found in METS''])) (py_ret None)
      | Some entry \<Rightarrow>
          py_seq (upd_job (print_output [''File '' @ me_path entry @ '' with UUID '' @ me_file_uuid entry @ '' found in METS.'']))
         (py_bind (py_lift (techmd_document entry)) (\<lambda>pobject.
          py_ret (Some \<lparr>in_uuid = me_file_uuid entry, in_filegrpuse = me_use entry, in_current_path = file_path_relative_to_sip,
            in_original_path = xml_findtext_premis (as_findtext E) pobject ''premis:originalName'' []\<rparr>))))"

definition info_str :: "file_info option \<Rightarrow> string" where
  "info_str info = (case info of None \<Rightarrow> ''{}''
    | Some i \<Rightarrow> ''{'' @ repr_str ''uuid'' @ '': '' @ repr_str (in_uuid i) @ '', '' @ repr_str ''filegrpuse'' @ '': '' @ repr_str (in_filegrpuse i) @
        '', '' @ repr_str ''current_path'' @ '': '' @ repr_str (in_current_path i) @ '', '' @ repr_str ''original_path'' @ '': '' @
        repr_str (in_original_path i) @ ''}'')"

section \<open>One file\<close>

definition assign_transfer_file_uuid ::
  "('e as_env_scheme) \<Rightarrow> assign_args \<Rightarrow> mets_document option \<Rightarrow> string \<Rightarrow> string \<Rightarrow> ('s world_scheme, unit) py" where
  "assign_transfer_file_uuid E a mets transfer_uuid file_path =
     (let rel = str_replace1 file_path (aa_sip_directory a) ''%transferDirectory%'' in
      py_bind (get_transfer transfer_uuid) (\<lambda>transfer.
      (let reingest = (tr_type transfer = ARCHIVEMATICA_AIP \<and> mets \<noteq> None) in
      py_bind (if reingest then get_file_info_from_mets E (the mets) rel else py_ret None) (\<lambda>info.
      (let event_type = (if reingest then ''reingestion'' else ''ingestion'');
           known = (case info of None \<Rightarrow> [] | Some i \<Rightarrow> in_uuid i);
           use = (case info of None \<Rightarrow> aa_use a | Some i \<Rightarrow> in_filegrpuse i);
           path = (case info of None \<Rightarrow> rel | Some i \<Rightarrow> in_original_path i) in
      py_bind (if known = [] then py_bind (uuid4 (env.truncate E)) (\<lambda>u.
            py_seq (upd_job (print_output [''Generated UUID for file '' @ u])) (py_ret u)) else py_ret known) (\<lambda>file_uuid.
      py_seq (addFileToTransfer (env.truncate E) path file_uuid transfer_uuid (Some (aa_date a)) event_type [] use None)
     (py_when reingest
        (py_seq (upd_job (print_output [''Updating current location for'', file_uuid, ''with'', info_str info]))
        (case info of None \<Rightarrow> py_raise (KeyError ''current_path'')
         | Some i \<Rightarrow> update_files (\<lambda>f. f_uuid f = file_uuid) (\<lambda>f. f\<lparr>f_currentlocation := Some (in_current_path i)\<rparr>))))))))))"

text \<open>\<open>first()\<close> on a query without an order takes the row with the smallest key.\<close>

definition assign_sip_file_uuid :: "('e as_env_scheme) \<Rightarrow> assign_args \<Rightarrow> string \<Rightarrow> string \<Rightarrow> ('s world_scheme, unit) py" where
  "assign_sip_file_uuid E a sip_uuid file_path =
     py_bind (uuid4 (env.truncate E)) (\<lambda>file_uuid.
     (let rel = str_replace1 file_path (aa_sip_directory a) ''%SIPDirectory%'' in
      py_bind (py_get (\<lambda>s. first_by (\<lambda>f g. lt_text (f_uuid f) (f_uuid g))
          (filter (\<lambda>f. f_currentlocation f = Some rel \<and> f_sip f = Some sip_uuid) (Files s)))) (\<lambda>found. case found of
        Some matching_file \<Rightarrow>
          py_seq (upd_job (print_error [''File already has UUID: '' @ f_uuid matching_file]))
            (py_when (aa_update_use a) (File_save (matching_file\<lparr>f_filegrpuse := aa_use a\<rparr>)))
      | None \<Rightarrow>
          py_seq (upd_job (print_output [''Generated UUID for file '' @ file_uuid @ ''.'']))
            (addFileToSIP (env.truncate E) rel file_uuid sip_uuid (Some (aa_date a)) ''ingestion'' (aa_use a)))))"

section \<open>A directory\<close>

definition assign_file :: "('e as_env_scheme) \<Rightarrow> assign_args \<Rightarrow> mets_document option \<Rightarrow> string \<Rightarrow> ('s world_scheme, unit) py" where
  "assign_file E a mets file_path = (case aa_transfer_uuid a of
      Some transfer_uuid \<Rightarrow> assign_transfer_file_uuid E a mets transfer_uuid file_path
    | None \<Rightarrow> assign_sip_file_uuid E a (case aa_sip_uuid a of None \<Rightarrow> [] | Some u \<Rightarrow> u) file_path)"

text \<open>One transaction per chunk of ten; the last chunk of a directory is filled up with \<open>None\<close>.\<close>

definition assign_uuids_to_files_in_dir ::
  "('e as_env_scheme) \<Rightarrow> assign_args \<Rightarrow> mets_document option \<Rightarrow> string \<Rightarrow> ('s world_scheme, int) py" where
  "assign_uuids_to_files_in_dir E a mets target_dir =
     py_bind (fs_get (\<lambda>n. os_walk n target_dir)) (\<lambda>dirs.
     py_seq (py_for dirs (\<lambda>(root, _, filenames).
        py_for (chunk_iterable (map Some filenames) 10 None) (\<lambda>file_chunk.
          atomic (py_for file_chunk (\<lambda>x. case x of
              None \<Rightarrow> py_ret ()
            | Some filename \<Rightarrow> if filename = [] then py_ret () else assign_file E a mets (path_join root filename))))))
      (py_ret 0))"

section \<open>Jobs\<close>

text \<open>Both or neither of the two UUIDs.\<close>

definition bad_units :: "assign_args \<Rightarrow> bool" where
  "bad_units a = ((aa_sip_uuid a \<noteq> None \<and> aa_transfer_uuid a \<noteq> None) \<or> (aa_sip_uuid a = None \<and> aa_transfer_uuid a = None))"

definition read_mets :: "('e as_env_scheme) \<Rightarrow> string \<Rightarrow> ('s world_scheme, mets_document option) py" where
  "read_mets E sip_directory =
     py_bind (py_try (py_bind (find_mets_file sip_directory) (\<lambda>p. py_ret (Some p)))
        (\<lambda>e. case e of OSError n m \<Rightarrow> Some (py_seq (upd_job (print_error [''METS file not found: [Errno '' @ str_int n @ ''] '' @ m])) (py_ret None))
             | _ \<Rightarrow> None)) (\<lambda>mets_file. case mets_file of
       None \<Rightarrow> py_ret None
     | Some p \<Rightarrow>
         py_seq (upd_job (print_output [''Reading METS file '' @ p @ '' for reingested file information.'']))
        (py_bind (py_lift (as_fromfile E p)) (\<lambda>m. py_ret (Some m))))"

definition assign_job :: "('e as_env_scheme) \<Rightarrow> ('s world_scheme, unit) py" where
  "assign_job E = JobContext (env_traceback E) True
     (py_bind (py_get (\<lambda>s. tl (j_args (cur_job s)))) (\<lambda>args.
      py_bind (py_lift (as_parse_args E args)) (\<lambda>a.
      if bad_units a
      then py_seq (upd_job (print_error [''SIP exclusive-or Transfer UUID must be defined''])) (upd_job (set_status 2 ''success''))
      else py_bind (read_mets E (aa_sip_directory a)) (\<lambda>mets.
        (let target_dir = (case aa_filter_subdir a of None \<Rightarrow> aa_sip_directory a
             | Some d \<Rightarrow> if d = [] then aa_sip_directory a else path_join (aa_sip_directory a) d) in
         py_bind (assign_uuids_to_files_in_dir E a mets target_dir) (\<lambda>code. upd_job (set_status code ''success'')))))))"

text \<open>The \<open>return\<close> for bad arguments leaves the loop over the jobs.\<close>

fun assign_call :: "('e as_env_scheme) \<Rightarrow> job list \<Rightarrow> ('s world_scheme, job list) py" where
  "assign_call E [] = py_ret []"
| "assign_call E (j # js) =
     py_seq (py_mod (\<lambda>s. s\<lparr>cur_job := j\<rparr>))
    (py_seq (assign_job E)
    (py_bind (py_get cur_job) (\<lambda>j'.
     case as_parse_args E (tl (j_args j)) of
       Inr a \<Rightarrow> if bad_units a then py_ret (j' # js) else py_bind (assign_call E js) (\<lambda>js'. py_ret (j' # js'))
     | Inl _ \<Rightarrow> py_bind (assign_call E js) (\<lambda>js'. py_ret (j' # js')))))"

section \<open>What is registered\<close>

definition files_below :: "fnode \<Rightarrow> string \<Rightarrow> string list" where
  "files_below n dir = concat (map (\<lambda>(root, _, filenames). map (path_join root) (filter (\<lambda>x. x \<noteq> []) filenames)) (os_walk n dir))"

text \<open>A row of the transfer at a path, and an ingestion event that says so.\<close>

definition registered :: "assign_args \<Rightarrow> string \<Rightarrow> event_row list \<Rightarrow> file_row \<Rightarrow> bool" where
  "registered a tr ev f \<longleftrightarrow> f_transfer f = Some tr \<and> f_sip f = None \<and> f_filegrpuse f = aa_use a \<and>
     (\<exists>e \<in> set ev. event_says (f_uuid f) ''ingestion'' [] [] [] e)"

definition transfer_path :: "assign_args \<Rightarrow> string \<Rightarrow> string" where
  "transfer_path a p = str_replace1 p (aa_sip_directory a) ''%transferDirectory%''"

text \<open>The state after the files at the given paths were added to the state \<open>s\<close>.\<close>

definition files_added :: "assign_args \<Rightarrow> string \<Rightarrow> 's world_scheme \<Rightarrow> string list \<Rightarrow> 's world_scheme \<Rightarrow> bool" where
  "files_added a tr s paths t \<longleftrightarrow> (\<exists>new ev. tables (fs s) (Files s @ new) (Events s @ ev) (Derivations s) (world.more s) t \<and>
     map f_currentlocation new = map (\<lambda>p. Some (transfer_path a p)) paths \<and> (\<forall>f \<in> set new. registered a tr ev f))"

lemma insert_transfer_file_ensures:
  "ensures (tables n fl ev de m) (insertIntoFiles E u p (Some d) tr [] use (Some orig))
     (\<lambda>f t. tables n (fl @ [f]) ev de m t \<and> f_uuid f = u \<and> f_transfer f = Some tr \<and> f_sip f = None \<and> f_filegrpuse f = use \<and>
        f_currentlocation f = Some p)"
proof (unfold ensures_def, intro allI impI)
  fix s :: "'a world_scheme" and f t
  assume s: "tables n fl ev de m s" and run: "insertIntoFiles E u p (Some d) tr [] use (Some orig) s = (Inr f, t)"
  have "db_inv t" using keepsD [OF keeps_insertIntoFiles, of s E u p "Some d" tr "[]" use "Some orig"] run s by (simp add: tables_def)
  then show "tables n (fl @ [f]) ev de m t \<and> f_uuid f = u \<and> f_transfer f = Some tr \<and> f_sip f = None \<and> f_filegrpuse f = use \<and>
        f_currentlocation f = Some p"
    using run s
    by (auto simp: insertIntoFiles_def File_create_def new_file_def row_insert_def tables_def py_simps Let_def split: if_splits)
qed

lemma accession_ensures:
  "ensures (tables n fl ev de m) (addAccessionEvent E u tr d) (\<lambda>_ t. \<exists>es. tables n fl (ev @ es) de m t)"
  unfolding addAccessionEvent_def py_when_def
  by (rule ensures_bind_keeps, rule keeps_reads [OF reads_tables(3)], rule ensures_if,
      rule ensures_seq [OF insertIntoEvents_ensures], rule ensures_ret, blast,
      rule ensures_ret, rule exI [of _ "[]"], simp)

lemma addFileToTransfer_ensures:
  "ensures (tables n fl ev de m) (addFileToTransfer E p u tr (Some d) ty det use None)
     (\<lambda>f t. \<exists>e es. tables n (fl @ [f]) (ev @ [e] @ es) de m t \<and> event_says u ty det [] [] e \<and>
        f_uuid f = u \<and> f_transfer f = Some tr \<and> f_sip f = None \<and> f_filegrpuse f = use \<and> f_currentlocation f = Some p)"
  unfolding addFileToTransfer_def Let_def option.case
proof (rule ensures_bind [OF insert_transfer_file_ensures], rule ensures_pure, rule ensures_seq [OF insertIntoEvents_ensures],
    rule ensures_ex, rule ensures_pure, rule ensures_seq [OF accession_ensures], rule ensures_ex, rule ensures_ret)
  fix f x e y es s
  assume "f_uuid f = u \<and> f_transfer f = Some tr \<and> f_sip f = None \<and> f_filegrpuse f = use \<and> f_currentlocation f = Some p"
    "event_says u ty det [] [] e \<and> ([] \<noteq> [] \<longrightarrow> e_event_id e = Some [])" "tables n (fl @ [f]) ((ev @ [e]) @ es) de m s"
  then show "\<exists>e es. tables n (fl @ [f]) (ev @ [e] @ es) de m s \<and> event_says u ty det [] [] e \<and>
        f_uuid f = u \<and> f_transfer f = Some tr \<and> f_sip f = None \<and> f_filegrpuse f = use \<and> f_currentlocation f = Some p"
    by auto
qed

text \<open>Without a METS document every file is new.\<close>

lemma assign_transfer_new:
  "assign_transfer_file_uuid E a None tr p = py_bind (get_transfer tr) (\<lambda>_.
     py_bind (py_bind (uuid4 (env.truncate E)) (\<lambda>u. py_seq (upd_job (print_output [''Generated UUID for file '' @ u])) (py_ret u))) (\<lambda>u.
     py_seq (addFileToTransfer (env.truncate E) (transfer_path a p) u tr (Some (aa_date a)) ''ingestion'' [] (aa_use a) None) (py_ret ())))"
  by (simp add: assign_transfer_file_uuid_def Let_def bind_ret py_when_def transfer_path_def)

lemma assign_transfer_ensures:
  fixes s :: "'s world_scheme"
  shows "ensures (files_added a tr s paths) (assign_transfer_file_uuid E a None tr p) (\<lambda>_. files_added a tr s (paths @ [p]))"
  unfolding files_added_def
proof (intro ensures_ex)
  fix new ev
  let ?T = "\<lambda>new ev. tables (fs s) (Files s @ new) (Events s @ ev) (Derivations s) (world.more s)"
  let ?A = "map f_currentlocation new = map (\<lambda>p. Some (transfer_path a p)) paths \<and> (\<forall>f \<in> set new. registered a tr ev f)"
  let ?Q = "\<lambda>t. \<exists>new ev. ?T new ev t \<and> map f_currentlocation new = map (\<lambda>p. Some (transfer_path a p)) (paths @ [p]) \<and>
      (\<forall>f \<in> set new. registered a tr ev f)"
  have add: "ensures (?T new ev) (py_seq (addFileToTransfer F (transfer_path a p) u tr (Some d) ''ingestion'' [] (aa_use a) None) (py_ret ()))
      (\<lambda>_. ?Q)" if A: ?A for F u d
  proof (rule ensures_seq [OF addFileToTransfer_ensures], (rule ensures_ex)+, rule ensures_ret)
    fix f e es and t :: "'s world_scheme"
    assume f: "tables (fs s) ((Files s @ new) @ [f]) ((Events s @ ev) @ [e] @ es) (Derivations s) (world.more s) t \<and>
       event_says u ''ingestion'' [] [] [] e \<and>
       f_uuid f = u \<and> f_transfer f = Some tr \<and> f_sip f = None \<and> f_filegrpuse f = aa_use a \<and> f_currentlocation f = Some (transfer_path a p)"
    then have "registered a tr (ev @ e # es) f" by (auto simp: registered_def)
    moreover have "registered a tr (ev @ e # es) g" if "g \<in> set new" for g using A that by (auto simp: registered_def)
    ultimately show "?Q t" using A f by (intro exI [of _ "new @ [f]"] exI [of _ "ev @ e # es"]) auto
  qed
  show "ensures (\<lambda>t. ?T new ev t \<and> ?A) (assign_transfer_file_uuid E a None tr p) (\<lambda>_. ?Q)"
    unfolding assign_transfer_new
    by (rule ensures_pure, rule ensures_bind_keeps, rule keeps_reads [OF reads_tables(3)],
        rule ensures_bind_keeps, intro keeps_intros keeps_bind, rule add)
qed

lemma ensures_atomic: "ensures P m Q \<Longrightarrow> ensures P (atomic m) Q"
  by (auto simp: ensures_def py_simps split: prod.splits sum.splits)

text \<open>The files of one directory, chunk by chunk.\<close>

definition named_path :: "string \<Rightarrow> string option \<Rightarrow> string list" where
  "named_path root x = (case x of None \<Rightarrow> [] | Some filename \<Rightarrow> if filename = [] then [] else [path_join root filename])"

lemma chunks_paths:
  "concat (map (\<lambda>c. concat (map (named_path root) c)) (chunk_iterable (map Some filenames) 10 None)) =
     map (path_join root) (filter (\<lambda>x. x \<noteq> []) filenames)"
proof -
  let ?cs = "chunk_iterable (map Some filenames) 10 None"
  obtain k where k: "concat ?cs = map Some filenames @ replicate k None"
    using chunk_iterable_partition [of 10 "map Some filenames" None] by auto
  have "concat (map (\<lambda>c. concat (map (named_path root) c)) cs) = concat (map (named_path root) (concat cs))" for cs
    by (induction cs) simp_all
  then have "concat (map (\<lambda>c. concat (map (named_path root) c)) ?cs) = concat (map (named_path root) (concat ?cs))" .
  also have "\<dots> = concat (map (\<lambda>x. named_path root (Some x)) filenames)"
    by (simp add: k comp_def named_path_def map_replicate_const)
  also have "\<dots> = map (path_join root) (filter (\<lambda>x. x \<noteq> []) filenames)"
    by (induction filenames) (auto simp: named_path_def)
  finally show ?thesis .
qed

lemma assign_dir_ensures:
  fixes s :: "'s world_scheme"
  assumes tr: "aa_transfer_uuid a = Some tr"
  shows "ensures (files_added a tr s paths) (py_for (chunk_iterable (map Some filenames) 10 None) (\<lambda>file_chunk.
      atomic (py_for file_chunk (\<lambda>x. case x of None \<Rightarrow> py_ret ()
        | Some filename \<Rightarrow> if filename = [] then py_ret () else assign_file E a None (path_join root filename)))))
    (\<lambda>_. files_added a tr s (paths @ map (path_join root) (filter (\<lambda>x. x \<noteq> []) filenames)))"
  unfolding chunks_paths [symmetric]
proof (rule ensures_for, rule ensures_atomic, rule ensures_for)
  fix x paths
  show "ensures (files_added a tr s paths) (case x of None \<Rightarrow> py_ret ()
        | Some filename \<Rightarrow> if filename = [] then py_ret () else assign_file E a None (path_join root filename))
     (\<lambda>_. files_added a tr s (paths @ named_path root x))"
    using assign_transfer_ensures [of a tr s paths E]
    by (cases x) (auto simp: named_path_def assign_file_def tr intro!: ensures_ret)
qed

section \<open>Example state\<close>

definition assign_args_ex :: assign_args where
  "assign_args_ex = \<lparr>aa_date = [], aa_sip_directory = ''/t/'', aa_sip_uuid = None, aa_transfer_uuid = Some ''t'', aa_use = ''original'',
     aa_filter_subdir = None, aa_update_use = True\<rparr>"

definition as_env_ex :: as_env where
  "as_env_ex = env.extend env_ex (as_env.fields (\<lambda>args. if args = [] then Inr (assign_args_ex\<lparr>aa_transfer_uuid := None\<rparr>) else Inr assign_args_ex)
     (\<lambda>p. Inr (\<lambda>_. None)) (\<lambda>b d p. None))"

definition as_world_ex :: world where
  "as_world_ex = world_ex\<lparr>Files := [], fs := FDir [(''t'', FDir [(''a'', FFile []), (''d'', FDir [(''b'', FFile [])])])]\<rparr>"

section \<open>Properties\<close>

text \<open>C24. Every file of a transfer is registered: when the walk over a transfer without a METS document returns,
  the file table has exactly one new row per file on disk below the directory, in the order of the
  walk and under its path in the transfer, and each has its ingestion event; all older rows stay and the
  UUIDs are unique.\<close>

theorem transfer_files_registered:
  fixes s :: "'s world_scheme"
  assumes inv: "db_inv s" and tr: "aa_transfer_uuid a = Some tr"
    and run: "assign_uuids_to_files_in_dir E a None dir s = (Inr code, t)"
  shows "code = 0 \<and> (\<exists>new ev. Files t = Files s @ new \<and> Events t = Events s @ ev \<and> distinct (map f_uuid (Files t)) \<and>
     map f_currentlocation new = map (\<lambda>p. Some (transfer_path a p)) (files_below (fs s) dir) \<and>
     (\<forall>f \<in> set new. registered a tr ev f))"
proof -
  have start: "files_added a tr s [] s"
    unfolding files_added_def using inv by (intro exI [of _ "[]"]) (simp add: tables_def)
  have "ensures (files_added a tr s []) (py_for (os_walk (fs s) dir) (\<lambda>(root, _, filenames).
        py_for (chunk_iterable (map Some filenames) 10 None) (\<lambda>file_chunk.
          atomic (py_for file_chunk (\<lambda>x. case x of None \<Rightarrow> py_ret ()
            | Some filename \<Rightarrow> if filename = [] then py_ret () else assign_file E a None (path_join root filename))))))
     (\<lambda>_. files_added a tr s ([] @ files_below (fs s) dir))"
    unfolding files_below_def
    by (rule ensures_for) (auto intro!: assign_dir_ensures [OF tr])
  then have "files_added a tr s (files_below (fs s) dir) t \<and> code = 0"
    using start run unfolding ensures_def assign_uuids_to_files_in_dir_def
    by (auto simp: py_simps split: prod.splits sum.splits)
  then show ?thesis by (auto simp: files_added_def tables_def db_inv_def)
qed

theorem transfer_files_registered_witness:
  "\<exists>code t. assign_uuids_to_files_in_dir as_env_ex assign_args_ex None ''/t/'' as_world_ex = (Inr code, t) \<and>
     map f_currentlocation (Files t) = [Some ''%transferDirectory%a'', Some ''%transferDirectory%d/b'']"
proof -
  let ?run = "assign_uuids_to_files_in_dir as_env_ex assign_args_ex None ''/t/'' as_world_ex"
  have "\<not> isl (fst ?run)" by code_simp
  then obtain code t where run: "?run = (Inr code, t)" by (cases ?run; cases "fst ?run") auto
  have inv: "db_inv as_world_ex" by code_simp
  have tr: "aa_transfer_uuid assign_args_ex = Some ''t''" by code_simp
  have paths: "map (\<lambda>p. Some (transfer_path assign_args_ex p)) (files_below (fs as_world_ex) ''/t/'') =
      [Some ''%transferDirectory%a'', Some ''%transferDirectory%d/b'']" by code_simp
  have "Files as_world_ex = []" by code_simp
  then show ?thesis using transfer_files_registered [OF inv tr run] run unfolding paths by auto
qed

text \<open>C25. Bad arguments end the batch: a job that names both or neither of SIP and transfer gets exit code 2, and
  the jobs after it in the batch are returned as they came, without having been run.\<close>

theorem bad_arguments_end_batch:
  assumes "as_parse_args E (tl (j_args j)) = Inr a" and "bad_units a"
  shows "\<exists>j'. assign_call E (j # js) s = (Inr (j' # js), s\<lparr>cur_job := j', log_buffer := None\<rparr>) \<and> j_int_code j' = 2"
  using assms
  by (simp add: assign_job_def JobContext_def py_simps set_status_def print_error_def write_error_def)

theorem bad_arguments_end_batch_witness:
  "\<exists>j'. assign_call as_env_ex [Job_init [] [] [] False, Job_init [] [] [''a'', ''b''] False] as_world_ex =
     (Inr [j', Job_init [] [] [''a'', ''b''] False], as_world_ex\<lparr>cur_job := j', log_buffer := None\<rparr>) \<and> j_int_code j' = 2"
  by (rule bad_arguments_end_batch [where a = "assign_args_ex\<lparr>aa_transfer_uuid := None\<rparr>"]) code_simp+

end
