(* ===== verification/UnitScripts.thy ===== *)
theory UnitScripts
  imports Commands
begin

text \<open>
  Client scripts that work on a whole transfer or SIP: moving it (\<open>move_sip.py\<close>, \<open>move_transfer.py\<close>), checking
  its layout (\<open>verify_sip_compliance.py\<close>, \<open>verify_transfer_compliance.py\<close>), removing files
  (\<open>remove_hidden_files_and_directories.py\<close>, \<open>remove_unneeded_files.py\<close>, \<open>remove_files_without_premis_metadata.py\<close>,
  \<open>retry_normalize_remove_normalized.py\<close>), finding service copies (\<open>check_for_service_directory.py\<close>) and packages
  (\<open>has_packages.py\<close>). Functions with the same name are prefixed by their module.
\<close>

section \<open>Moving a unit\<close>

text \<open>\<open>fileOperations.rename\<close> runs the command \<open>mv\<close>.\<close>

definition mv_command :: "('e sp_env_scheme) \<Rightarrow> string \<Rightarrow> string \<Rightarrow> ('s world_scheme, proc_result) py" where
  "mv_command E source destination = executeOrRun E ''command'' (CmdList [''mv'', source, destination]) (StrIn []) [] [] True"

definition strip_slash :: "string \<Rightarrow> string" where
  "strip_slash src = (if endswith src ''/'' then butlast src else src)"

text \<open>The path of the moved unit in the database, without the final separator.\<close>

definition moved_path :: "string \<Rightarrow> string \<Rightarrow> string \<Rightarrow> string" where
  "moved_path src dst shared =
     (let dest0 = str_replace1 dst shared ''%sharedPath%'';
          dest1 = (if endswith dest0 ''/'' then path_join dest0 (basename src) else dest0)
      in if endswith dest1 ''/.'' then path_join (butlast dest1) (basename src) else dest1)"

definition move_sip_updateDB :: "string \<Rightarrow> string \<Rightarrow> ('s world_scheme, unit) py" where
  "move_sip_updateDB dst sip_uuid = py_mod (\<lambda>s. s\<lparr>SIPs := row_update (\<lambda>r. s_uuid r = sip_uuid) (\<lambda>r. r\<lparr>s_currentpath := Some dst\<rparr>) (SIPs s)\<rparr>)"

definition move_sip_moveSIP :: "('e sp_env_scheme) \<Rightarrow> string \<Rightarrow> string \<Rightarrow> string \<Rightarrow> string \<Rightarrow> ('s world_scheme, int) py" where
  "move_sip_moveSIP E src0 dst sipUUID sharedDirectoryPath =
     (let src = strip_slash src0; dest_path = path_join dst (basename src) in
      py_seq (move_sip_updateDB (moved_path src dst sharedDirectoryPath @ ''/'') sipUUID)
     (py_bind (fs_get (\<lambda>n. os_exists n dest_path)) (\<lambda>present.
      py_seq (py_when present
         (py_seq (job_pyprint Stderr [dest_path, ''exists, deleting'']) (fs_do (shutil_rmtree dest_path))))
        (rename (mv_command E) job_pyprint src dst False))))"

definition move_transfer_updateDB :: "string \<Rightarrow> string \<Rightarrow> ('s world_scheme, unit) py" where
  "move_transfer_updateDB dst transferUUID = py_mod (\<lambda>s. s\<lparr>Transfers := row_update (\<lambda>r. tr_uuid r = transferUUID)
     (\<lambda>r. r\<lparr>tr_currentlocation := dst\<rparr>) (Transfers s)\<rparr>)"

definition move_transfer_moveSIP :: "('e sp_env_scheme) \<Rightarrow> string \<Rightarrow> string \<Rightarrow> string \<Rightarrow> string \<Rightarrow> ('s world_scheme, int) py" where
  "move_transfer_moveSIP E src0 dst transferUUID sharedDirectoryPath =
     (let src = strip_slash src0; dest = moved_path src dst sharedDirectoryPath in
      py_bind (fs_get (\<lambda>n. os_isdir n src)) (\<lambda>isdir.
      py_seq (move_transfer_updateDB (if isdir then dest @ ''/'' else dest) transferUUID)
             (rename (mv_command E) job_pyprint src dst False)))"

definition move_job ::
  "(string \<Rightarrow> string \<Rightarrow> string \<Rightarrow> string \<Rightarrow> ('s world_scheme, int) py) \<Rightarrow> (py_exn \<Rightarrow> string) \<Rightarrow> ('s world_scheme, unit) py" where
  "move_job move traceback = JobContext traceback False
     (py_bind (nth_arg 1) (\<lambda>src. py_bind (nth_arg 2) (\<lambda>dst. py_bind (nth_arg 3) (\<lambda>u. py_bind (nth_arg 4) (\<lambda>shared.
      py_bind (move src dst u shared) (\<lambda>code. upd_job (set_status code ''success'')))))))"

section \<open>The layout of a unit\<close>

definition UNIT_DIRECTORIES :: "string list" where
  "UNIT_DIRECTORIES = [''objects'', ''logs'', ''metadata'', ''metadata/submissionDocumentation'']"

definition ALLOWABLE_FILES :: "string list" where
  "ALLOWABLE_FILES = [''processingMCP.xml'']"

text \<open>\<open>os.walk\<close> does not raise, so the handler of \<open>checkDirectory\<close> is never used.\<close>

definition checkDirectory :: "string \<Rightarrow> int \<Rightarrow> ('s world_scheme, int) py" where
  "checkDirectory directory ret = py_bind (fs_get (\<lambda>n. os_walk n directory)) (\<lambda>_. py_ret ret)"

primrec verifyDirectories :: "string \<Rightarrow> string list \<Rightarrow> int \<Rightarrow> ('s world_scheme, int) py" where
  "verifyDirectories SIPDir [] ret = py_ret ret"
| "verifyDirectories SIPDir (directory # ds) ret =
     py_bind (fs_get (\<lambda>n. os_isdir n (path_join SIPDir directory))) (\<lambda>isdir.
     if \<not> isdir
     then py_seq (job_pyprint Stderr [''Required Directory Does Not Exist: '' @ directory]) (verifyDirectories SIPDir ds (ret + 1))
     else verifyDirectories SIPDir ds ret)"

definition verifyDirectoriesExist :: "string \<Rightarrow> int \<Rightarrow> ('s world_scheme, int) py" where
  "verifyDirectoriesExist SIPDir ret = verifyDirectories SIPDir UNIT_DIRECTORIES ret"

primrec verifyEntries :: "string \<Rightarrow> string list \<Rightarrow> int \<Rightarrow> ('s world_scheme, int) py" where
  "verifyEntries SIPDir [] ret = py_ret ret"
| "verifyEntries SIPDir (entry # es) ret =
     py_bind (fs_get (\<lambda>n. os_isdir n (path_join SIPDir entry))) (\<lambda>isdir.
     if isdir \<and> entry \<notin> set UNIT_DIRECTORIES
     then py_seq (job_pyprint Stderr [''Error, directory exists: '' @ entry]) (verifyEntries SIPDir es (ret + 1))
     else if \<not> isdir \<and> entry \<notin> set ALLOWABLE_FILES
     then py_seq (job_pyprint Stderr [''Error, file exists: '' @ entry]) (verifyEntries SIPDir es (ret + 1))
     else verifyEntries SIPDir es ret)"

definition verifyNothingElseAtTopLevel :: "string \<Rightarrow> int \<Rightarrow> ('s world_scheme, int) py" where
  "verifyNothingElseAtTopLevel SIPDir ret =
     py_bind (fs_get (\<lambda>n. os_listdir n SIPDir)) (\<lambda>r. py_bind (py_lift r) (\<lambda>entries. verifyEntries SIPDir entries ret))"

definition verifyThereAreFiles :: "string \<Rightarrow> int \<Rightarrow> ('s world_scheme, int) py" where
  "verifyThereAreFiles SIPDir ret =
     py_bind (fs_get (\<lambda>n. list_ex (\<lambda>(_, _, files). files \<noteq> []) (os_walk n SIPDir))) (\<lambda>some.
     if some then py_ret ret
     else py_seq (job_pyprint Stderr [''Error, no files found'']) (py_ret (ret + 1)))"

definition verify_sip_compliance :: "string \<Rightarrow> ('s world_scheme, int) py" where
  "verify_sip_compliance SIPDir =
     py_bind (verifyDirectoriesExist SIPDir 0) (\<lambda>ret1. py_bind (verifyNothingElseAtTopLevel SIPDir ret1) (checkDirectory SIPDir))"

definition verify_transfer_compliance :: "string \<Rightarrow> ('s world_scheme, int) py" where
  "verify_transfer_compliance SIPDir =
     py_bind (verifyDirectoriesExist SIPDir 0) (\<lambda>ret1. py_bind (verifyNothingElseAtTopLevel SIPDir ret1) (\<lambda>ret2.
     py_bind (checkDirectory SIPDir ret2) (verifyThereAreFiles SIPDir)))"

definition compliance_job :: "(string \<Rightarrow> ('s world_scheme, int) py) \<Rightarrow> (py_exn \<Rightarrow> string) \<Rightarrow> ('s world_scheme, unit) py" where
  "compliance_job verify traceback = JobContext traceback False
     (py_bind (nth_arg 1) (\<lambda>SIPDir. py_bind (verify SIPDir) (\<lambda>ret. upd_job (set_status ret ''success''))))"

section \<open>Removing files\<close>

text \<open>The number is the recursion limit of the interpreter.\<close>

fun removeHiddenFilesFromDirectory :: "nat \<Rightarrow> string \<Rightarrow> ('s world_scheme, unit) py" where
  "removeHiddenFilesFromDirectory 0 dir = py_raise (PyException ''maximum recursion depth exceeded'')"
| "removeHiddenFilesFromDirectory (Suc k) dir =
     py_bind (fs_get (\<lambda>n. os_listdir n dir)) (\<lambda>r. py_bind (py_lift r) (\<lambda>items.
     py_for items (\<lambda>item.
       (let fullPath = path_join dir item in
        py_bind (fs_get (\<lambda>n. (os_isdir n fullPath, os_isfile n fullPath))) (\<lambda>(isdir, isfile).
        if isdir
        then if startswith item ''.''
             then py_seq (job_pyprint Stdout [''Removing directory: '', fullPath]) (fs_do (shutil_rmtree fullPath))
             else removeHiddenFilesFromDirectory k fullPath
        else if isfile
        then if startswith item ''.'' \<or> endswith item ''~''
             then py_seq (job_pyprint Stdout [''Removing file: '', fullPath]) (fs_do (os_remove fullPath))
             else py_ret ()
        else job_pyprint Stderr [''Not file or directory: '', fullPath])))))"

definition remove_hidden_job :: "nat \<Rightarrow> (py_exn \<Rightarrow> string) \<Rightarrow> ('s world_scheme, unit) py" where
  "remove_hidden_job limit traceback = JobContext traceback False
     (py_bind (nth_arg 1) (removeHiddenFilesFromDirectory limit))"

text \<open>\<open>removable\<close> is the setting \<open>REMOVABLE_FILES\<close>.\<close>

definition remove_file :: "env \<Rightarrow> string \<Rightarrow> string \<Rightarrow> string \<Rightarrow> ('s world_scheme, unit) py" where
  "remove_file E removable target_file file_uuid =
     (let name = basename target_file in
      py_when (name \<in> set (map str_strip (str_split (CHR '','') removable)))
       (py_seq (upd_job (print_output [''Removing '' @ name @ '' (UUID: '' @ file_uuid @ '')'']))
       (py_seq (py_try (fs_do (os_remove target_file)) (\<lambda>e. case e of OSError _ _ \<Rightarrow> Some (fs_do (shutil_rmtree target_file)) | _ \<Rightarrow> None))
               (py_when (file_uuid \<noteq> [] \<and> file_uuid \<noteq> ''None'') (fileWasRemoved E file_uuid None [] [] [])))))"

definition remove_unneeded_job :: "env \<Rightarrow> string \<Rightarrow> ('s world_scheme, unit) py" where
  "remove_unneeded_job E removable = JobContext (env_traceback E) False
     (py_bind (nth_arg 1) (\<lambda>target. py_bind (nth_arg 2) (\<lambda>file_uuid.
      py_seq (remove_file E removable target file_uuid) (upd_job (set_status 0 ''success'')))))"

definition verifyFileUUID :: "string \<Rightarrow> string \<Rightarrow> string \<Rightarrow> ('s world_scheme, unit) py" where
  "verifyFileUUID fileUUID filePath sipDirectory =
     (let relativeFilePath = str_replace1 filePath sipDirectory ''%SIPDirectory%'' in
      if fileUUID = ''None''
      then py_seq (upd_job (print_output [''Deleting'', relativeFilePath, ''because it is not in the database.''])) (fs_do (os_remove filePath))
      else py_bind (get_file fileUUID) (\<lambda>f.
        py_when (f_filegrpuse f = ''deleted'')
         (py_bind (fs_get (\<lambda>n. os_exists n filePath)) (\<lambda>present.
          py_when present
           (py_seq (upd_job (print_output [''Deleting'', relativeFilePath, ''because it is marked as deleted''])) (fs_do (os_remove filePath)))))))"

text \<open>\<open>parse\<close> is the argument parser: the input file, the SIP's directory and the UUID of the file.\<close>

definition remove_without_premis_job ::
  "(string list \<Rightarrow> py_exn + string \<times> string \<times> string) \<Rightarrow> (py_exn \<Rightarrow> string) \<Rightarrow> ('s world_scheme, unit) py" where
  "remove_without_premis_job parse traceback = JobContext traceback False
     (py_bind (py_get (\<lambda>s. parse (tl (j_args (cur_job s))))) (\<lambda>r. py_bind (py_lift r) (\<lambda>(inputFile, sipDirectory, fileUUID).
      verifyFileUUID fileUUID inputFile sipDirectory)))"

section \<open>Removing normalized files\<close>

text \<open>\<open>except Exception\<close>: a message and the traceback.\<close>

definition report_trace :: "(py_exn \<Rightarrow> string) \<Rightarrow> string \<Rightarrow> py_exn \<Rightarrow> ('s jstate_scheme, unit) py" where
  "report_trace traceback msg e = py_seq (job_pyprint Stderr [msg]) (upd_job (print_output [traceback e]))"

definition guarded :: "(py_exn \<Rightarrow> string) \<Rightarrow> string \<Rightarrow> ('s jstate_scheme, unit) py \<Rightarrow> ('s jstate_scheme, unit) py" where
  "guarded traceback msg m = py_try m (\<lambda>e. if is_Exception e then Some (report_trace traceback msg e) else None)"

definition remove_tree :: "env \<Rightarrow> string \<Rightarrow> string \<Rightarrow> ('s world_scheme, unit) py" where
  "remove_tree E msg dir =
     py_try (py_bind (fs_get (\<lambda>n. os_isdir n dir)) (\<lambda>isdir. py_when isdir (fs_do (shutil_rmtree dir))))
       (\<lambda>e. case e of OSError _ _ \<Rightarrow> Some (report_trace (env_traceback E) msg e) | _ \<Rightarrow> None)"

definition removeDIP :: "env \<Rightarrow> string \<Rightarrow> ('s world_scheme, unit) py" where
  "removeDIP E SIPDirectory = remove_tree E ''Error deleting DIP'' (path_join SIPDirectory ''DIP'')"

definition removeThumbnails :: "env \<Rightarrow> string \<Rightarrow> ('s world_scheme, unit) py" where
  "removeThumbnails E SIPDirectory = remove_tree E ''Error deleting thumbnails'' (path_join SIPDirectory ''thumbnails'')"

definition remove_preservation_file :: "env \<Rightarrow> string \<Rightarrow> file_row \<Rightarrow> ('s world_scheme, unit) py" where
  "remove_preservation_file E SIPDirectory f = guarded (env_traceback E) ''Error removing preservation files''
     (py_bind (now E) (\<lambda>t.
      py_seq (File_save (f\<lparr>f_removedtime := Some t\<rparr>))
     (py_bind (py_lift (need_str ''decode'' (f_currentlocation f))) (\<lambda>loc.
      fs_do (os_remove (str_replace1 loc ''%SIPDirectory%'' SIPDirectory))))))"

text \<open>Deleting rows; the derivations of an event go with it.\<close>

definition in_sip :: "'s world_scheme \<Rightarrow> string \<Rightarrow> string \<Rightarrow> bool" where
  "in_sip s sip u = list_ex (\<lambda>f. f_uuid f = u \<and> f_sip f = Some sip) (Files s)"

definition delete_manual_links :: "string \<Rightarrow> ('s world_scheme, unit) py" where
  "delete_manual_links sip = py_mod (\<lambda>s. s\<lparr>Derivations := filter (\<lambda>d. \<not> list_ex (\<lambda>f. f_uuid f = d_derived_file d \<and>
     f_filegrpuse f = ''manualNormalization'' \<and> f_sip f = Some sip) (Files s)) (Derivations s)\<rparr>)"

definition delete_normalization_events :: "string \<Rightarrow> ('s world_scheme, unit) py" where
  "delete_normalization_events sip = py_mod (\<lambda>s.
     (let gone = (\<lambda>e. e_event_type e = ''normalization'' \<and> (case e_file_uuid e of None \<Rightarrow> False | Some u \<Rightarrow> in_sip s sip u));
          ids = e_event_id ` set (filter gone (Events s)) in
      s\<lparr>Events := filter (\<lambda>e. \<not> gone e) (Events s),
        Derivations := filter (\<lambda>d. d_event d = None \<or> d_event d \<notin> ids) (Derivations s)\<rparr>))"

definition removePreservationFiles :: "env \<Rightarrow> string \<Rightarrow> string \<Rightarrow> ('s world_scheme, unit) py" where
  "removePreservationFiles E SIPDirectory SIPUUID =
     py_seq (guarded (env_traceback E) ''Error running SQL''
        (py_bind (py_get (\<lambda>s. filter (\<lambda>f. f_sip f = Some SIPUUID \<and> f_removedtime f = None \<and> f_filegrpuse f = ''preservation'') (Files s)))
          (\<lambda>files. py_for files (remove_preservation_file E SIPDirectory))))
    (py_seq (guarded (env_traceback E) ''Error deleting manual normalization links from database'' (delete_manual_links SIPUUID))
            (guarded (env_traceback E) ''Error deleting normalization events from database.'' (delete_normalization_events SIPUUID)))"

text \<open>\<open>parse\<close> gives the directory, the UUID and the three flags.\<close>

definition retry_normalize_job ::
  "env \<Rightarrow> (string list \<Rightarrow> py_exn + string \<times> string \<times> bool \<times> bool \<times> bool) \<Rightarrow> ('s world_scheme, unit) py" where
  "retry_normalize_job E parse = JobContext (env_traceback E) False
     (py_bind (py_get (\<lambda>s. parse (tl (j_args (cur_job s))))) (\<lambda>r. py_bind (py_lift r)
       (\<lambda>(SIPDirectory, SIPUUID, preservation, thumbnails, access).
        py_seq (py_when preservation (removePreservationFiles E SIPDirectory SIPUUID))
       (py_seq (py_when thumbnails (removeThumbnails E SIPDirectory))
               (py_when access (removeDIP E SIPDirectory))))))"

section \<open>Service copies\<close>

text \<open>\<open>str.rfind\<close>\<close>

fun str_rfind :: "string \<Rightarrow> string \<Rightarrow> nat option" where
  "str_rfind [] p = (if p = [] then Some 0 else None)"
| "str_rfind (c # cs) p = (case str_rfind cs p of Some i \<Rightarrow> Some (Suc i)
     | None \<Rightarrow> if startswith (c # cs) p then Some 0 else None)"

text \<open>
  The prefix of the original's name. Without a period \<open>rfind\<close> gives -1, and the slice up to -1
  drops the last character.
\<close>

definition original_prefix :: "string \<Rightarrow> string" where
  "original_prefix name = (case str_rfind name ''_me.'' of
      Some a \<Rightarrow> take a name @ ''_m.''
    | None \<Rightarrow> (case str_rfind name ''.'' of Some a \<Rightarrow> take (Suc a) name | None \<Rightarrow> butlast name))"

definition link_service_copy :: "string \<Rightarrow> string \<Rightarrow> string \<Rightarrow> string \<Rightarrow> ('s world_scheme, unit) py" where
  "link_service_copy SIPDirectory SIPUUID path name =
     (let file1Full = str_replace1 (path_join path name) SIPDirectory ''%SIPDirectory%'';
          file2Full = str_replace1 (path_join path (original_prefix name)) (SIPDirectory @ ''objects/service/'') ''%SIPDirectory%objects/'' in
      py_bind (py_get (\<lambda>s. get_one ''File'' (filter (\<lambda>f. f_currentlocation f = Some file1Full \<and> f_removedtime f = None \<and>
           f_sip f = Some SIPUUID) (Files s)))) (\<lambda>r1. py_bind (py_lift r1) (\<lambda>f.
      py_bind (py_get (\<lambda>s. get_one ''File'' (filter (\<lambda>f. loc_startswith file2Full f \<and> f_removedtime f = None \<and>
           f_sip f = Some SIPUUID) (Files s)))) (\<lambda>r2. py_bind (py_lift r2) (\<lambda>grp_file.
      File_save (f\<lparr>f_filegrpuse := ''service'', f_filegrpuuid := f_uuid grp_file\<rparr>))))))"

definition link_service_copies :: "string \<Rightarrow> string \<Rightarrow> string \<Rightarrow> ('s world_scheme, int) py" where
  "link_service_copies SIPDirectory serviceDirectory SIPUUID =
     py_seq (job_pyprint Stdout [SIPDirectory])
    (py_bind (fs_get (\<lambda>n. os_walk n serviceDirectory)) (\<lambda>dirs.
     py_seq (py_for dirs (\<lambda>(path, _, files). py_for files (link_service_copy SIPDirectory SIPUUID path))) (py_ret 0)))"

text \<open>\<open>parse\<close> gives the directory, the UUID and the name of the directory for service copies.\<close>

definition service_job ::
  "(string list \<Rightarrow> py_exn + string \<times> string \<times> string) \<Rightarrow> (py_exn \<Rightarrow> string) \<Rightarrow> ('s world_scheme, unit) py" where
  "service_job parse traceback = JobContext traceback False
     (py_bind (py_get (\<lambda>s. parse (tl (j_args (cur_job s))))) (\<lambda>r. py_bind (py_lift r) (\<lambda>(SIPDirectory, SIPUUID, service).
      (let serviceDirectory = path_join SIPDirectory service in
       py_bind (fs_get (\<lambda>n. os_isdir n serviceDirectory)) (\<lambda>isdir.
       if \<not> isdir
       then py_seq (job_pyprint Stdout [''no service directory in this sip'']) (upd_job (set_status 0 ''success''))
       else py_bind (link_service_copies SIPDirectory serviceDirectory SIPUUID) (\<lambda>code. upd_job (set_status code ''success'')))))))"

section \<open>Packages\<close>

definition is_extractable :: "file_row \<Rightarrow> ('s fpr_world_scheme, bool) py" where
  "is_extractable f =
     py_bind (py_get (\<lambda>s. get_one ''FileFormatVersion'' (filter (\<lambda>l. ffv_file_uuid l = f_uuid f) (FileFormatVersions s)))) (\<lambda>r. case r of
       Inl e \<Rightarrow> if e = DoesNotExist ''FileFormatVersion'' then py_ret False else py_raise e
     | Inr l \<Rightarrow> py_get (\<lambda>s. list_ex (\<lambda>r. fr_purpose r = ''extract'' \<and> fr_format r = ffv_format_version l) (active_rules s)))"

definition already_extracted :: "file_row \<Rightarrow> ('s world_scheme, bool) py" where
  "already_extracted f = py_bind (py_lift (need_str ''decode'' (f_currentlocation f))) (\<lambda>loc.
     py_get (\<lambda>s. list_ex (\<lambda>e. e_event_type e = ''unpacking'' \<and> str_contains loc (e_event_detail e) \<and>
       list_ex (\<lambda>g. e_file_uuid e = Some (f_uuid g) \<and> f_transfer g = f_transfer f \<and> loc_startswith loc g \<and> f_removedtime g = None \<and>
         f_uuid g \<noteq> f_uuid f) (Files s)) (Events s)))"

fun first_package :: "file_row list \<Rightarrow> ('s fpr_world_scheme, int) py" where
  "first_package [] = py_seq (job_pyprint Stdout [''No extractable files found.'']) (py_ret 1)"
| "first_package (f # files) =
     py_bind (is_extractable f) (\<lambda>ext.
     py_bind (if ext then py_bind (already_extracted f) (\<lambda>done. py_ret (\<not> done)) else py_ret False) (\<lambda>found.
     if found then py_bind (py_lift (need_str ''decode'' (f_currentlocation f))) (\<lambda>loc.
            py_seq (job_pyprint Stdout [loc, ''is extractable and has not yet been extracted.'']) (py_ret 0))
     else first_package files))"

definition has_packages :: "string \<Rightarrow> ('s fpr_world_scheme, int) py" where
  "has_packages sip_uuid =
     py_bind (get_transfer sip_uuid) (\<lambda>transfer.
     py_bind (py_get (\<lambda>s. filter (\<lambda>f. f_transfer f = Some (tr_uuid transfer) \<and> f_removedtime f = None) (Files s))) first_package)"

definition has_packages_job :: "(py_exn \<Rightarrow> string) \<Rightarrow> ('s fpr_world_scheme, unit) py" where
  "has_packages_job traceback = JobContext traceback False
     (py_bind (nth_arg 1) (\<lambda>sip_uuid. py_bind (has_packages sip_uuid) (\<lambda>code. upd_job (set_status code ''success''))))"

section \<open>Replacing a subtree\<close>

text \<open>The tree with the node at a path replaced.\<close>

fun fs_set :: "string list \<Rightarrow> fnode \<Rightarrow> fnode \<Rightarrow> fnode" where
  "fs_set [] m n = m"
| "fs_set (x # xs) m (FFile c) = FFile c"
| "fs_set (x # xs) m (FDir es) =
     (case map_of es x of None \<Rightarrow> FDir es | Some n \<Rightarrow> FDir (dict_set es x (fs_set xs m n)))"

lemma dict_set_same: "map_of d k = Some v \<Longrightarrow> dict_set d k v = d"
  by (induction d) (auto split: if_splits)

lemma dict_set_twice: "dict_set (dict_set d k v) k w = dict_set d k w"
  by (induction d) auto

lemma dict_set_middle: "k \<notin> fst ` set xs \<Longrightarrow> dict_set (xs @ (k, v) # ys) k w = xs @ (k, w) # ys"
  by (induction xs) auto

lemma dict_del_middle: "k \<notin> fst ` set xs \<Longrightarrow> k \<notin> fst ` set ys \<Longrightarrow> dict_del (xs @ (k, v) # ys) k = xs @ ys"
  by (induction xs) (auto simp: dict_del_def filter_id_conv)

lemma fs_at_set: "fs_at n p = Some m0 \<Longrightarrow> fs_at (fs_set p m n) p = Some m"
  by (induction p m n rule: fs_set.induct) (auto simp: map_of_dict_set split: option.splits)

lemma fs_set_twice: "fs_set p m (fs_set p m' n) = fs_set p m n"
  by (induction p m n rule: fs_set.induct) (auto simp: map_of_dict_set dict_set_twice split: option.splits)

lemma fs_set_same: "fs_at n p = Some m \<Longrightarrow> fs_set p m n = n"
  by (induction p m n rule: fs_set.induct) (auto simp: dict_set_same split: option.splits)

lemma fs_set_child:
  "fs_at n p = Some (FDir es) \<Longrightarrow> map_of es x = Some m0 \<Longrightarrow> fs_set (p @ [x]) m n = fs_set p (FDir (dict_set es x m)) n"
  by (induction p m n rule: fs_set.induct) (auto split: option.splits)

lemma fs_put_child:
  "fs_at n p = Some (FDir es) \<Longrightarrow> fs_put (p @ [x]) None n = Some (fs_set p (FDir (dict_del es x)) n)"
proof (induction p "FDir (dict_del es x)" n rule: fs_set.induct)
  case (3 y ys fes)
  then show ?case by (cases "map_of fes y") auto
qed auto

section \<open>Hidden files\<close>

definition hidden :: "string \<Rightarrow> fnode \<Rightarrow> bool" where
  "hidden x n \<longleftrightarrow> startswith x ''.'' \<or> \<not> node_is_dir n \<and> endswith x ''~''"

text \<open>The tree without the hidden entries, at every depth.\<close>

fun prune :: "fnode \<Rightarrow> fnode"
and prune_entries :: "(string \<times> fnode) list \<Rightarrow> (string \<times> fnode) list"
where
  "prune (FFile c) = FFile c"
| "prune (FDir es) = FDir (prune_entries es)"
| "prune_entries [] = []"
| "prune_entries ((x, n) # es) = (if hidden x n then prune_entries es else (x, prune n) # prune_entries es)"

fun tree_depth :: "fnode \<Rightarrow> nat"
and entries_depth :: "(string \<times> fnode) list \<Rightarrow> nat"
where
  "tree_depth (FFile c) = 0"
| "tree_depth (FDir es) = Suc (entries_depth es)"
| "entries_depth [] = 0"
| "entries_depth ((x, n) # es) = max (tree_depth n) (entries_depth es)"

lemma prune_entries_keys: "fst ` set (prune_entries es) \<subseteq> fst ` set es"
proof (induction es)
  case (Cons e es)
  then show ?case by (cases e) auto
qed simp

lemma prune_entries_append: "prune_entries (xs @ ys) = prune_entries xs @ prune_entries ys"
proof (induction xs)
  case (Cons e xs)
  then show ?case by (cases e) auto
qed simp

text \<open>The job after a run, and the tree.\<close>

definition fs_becomes :: "'s world_scheme \<Rightarrow> fnode \<Rightarrow> 's world_scheme \<Rightarrow> bool" where
  "fs_becomes s n t \<longleftrightarrow> (\<exists>j. t = s\<lparr>cur_job := j, fs := n\<rparr>)"

abbreviation remove_item :: "nat \<Rightarrow> string \<Rightarrow> string \<Rightarrow> ('s world_scheme, unit) py" where
  "remove_item k dir item \<equiv>
     (let fullPath = path_join dir item in
        py_bind (fs_get (\<lambda>n. (os_isdir n fullPath, os_isfile n fullPath))) (\<lambda>(isdir, isfile).
        if isdir
        then if startswith item ''.''
             then py_seq (job_pyprint Stdout [''Removing directory: '', fullPath]) (fs_do (shutil_rmtree fullPath))
             else removeHiddenFilesFromDirectory k fullPath
        else if isfile
        then if startswith item ''.'' \<or> endswith item ''~''
             then py_seq (job_pyprint Stdout [''Removing file: '', fullPath]) (fs_do (os_remove fullPath))
             else py_ret ()
        else job_pyprint Stderr [''Not file or directory: '', fullPath]))"

lemma remove_item_step:
  fixes s :: "'s world_scheme"
  assumes at: "fs_at (fs s) (path_comps dir) = Some (FDir (pre @ (x, m) # post))" and x: "plain_name x"
    and new: "x \<notin> fst ` set pre" "x \<notin> fst ` set post"
    and rec: "\<not> hidden x m \<Longrightarrow> node_is_dir m \<Longrightarrow> fs_node (fs s) (path_join dir x) = Some m \<Longrightarrow>
      \<exists>t. removeHiddenFilesFromDirectory k (path_join dir x) s = (Inr (), t) \<and>
        fs_becomes s (fs_set (path_comps (path_join dir x)) (prune m) (fs s)) t"
  shows "\<exists>t. remove_item k dir x s = (Inr (), t) \<and>
     fs_becomes s (fs_set (path_comps dir) (FDir (pre @ prune_entries [(x, m)] @ post)) (fs s)) t"
proof -
  let ?D = "path_comps dir"
  have comps: "path_comps (path_join dir x) = ?D @ [x]" "path_join dir x \<noteq> []" using path_join_child [OF x] by auto
  have m: "map_of (pre @ (x, m) # post) x = Some m"
    using new(1) by (induction pre) auto
  have node: "fs_node (fs s) (path_join dir x) = Some m"
    using at m by (simp add: fs_node_def comps fs_at_append)
  have del: "fs_put (?D @ [x]) None (fs s) = Some (fs_set ?D (FDir (pre @ post)) (fs s))"
    using fs_put_child [OF at, of x] dict_del_middle [OF new] by simp
  have sub: "fs_set (?D @ [x]) m' (fs s) = fs_set ?D (FDir (pre @ (x, m') # post)) (fs s)" for m'
    using fs_set_child [OF at m] dict_set_middle [OF new(1)] by simp
  show ?thesis
  proof (cases "hidden x m")
    case True
    then show ?thesis
      using node del by (cases m)
        (auto simp: hidden_def os_isdir_def os_isfile_def shutil_rmtree_def os_remove_def comps py_simps fs_becomes_def Let_def)
  next
    case vis: False
    show ?thesis
    proof (cases m)
      case (FFile c)
      then show ?thesis using vis node fs_set_same [OF at]
        by (auto simp: hidden_def os_isdir_def os_isfile_def py_simps fs_becomes_def Let_def intro!: exI [of _ "cur_job s"])
    next
      case (FDir es)
      then show ?thesis using vis node rec sub by (auto simp: hidden_def os_isdir_def os_isfile_def py_simps comps Let_def)
    qed
  qed
qed

lemma remove_items:
  fixes s :: "'s world_scheme"
  assumes rec: "\<And>x m (s :: 's world_scheme). (x, m) \<in> set post \<Longrightarrow> node_is_dir m \<Longrightarrow> fs_node (fs s) (path_join dir x) = Some m \<Longrightarrow>
      \<exists>t. removeHiddenFilesFromDirectory k (path_join dir x) s = (Inr (), t) \<and>
        fs_becomes s (fs_set (path_comps (path_join dir x)) (prune m) (fs s)) t"
    and "fs_at (fs s) (path_comps dir) = Some (FDir (pre @ post))"
    and "distinct (map fst (pre @ post))" and "entries_ok post"
  shows "\<exists>t. py_for (map fst post) (remove_item k dir) s = (Inr (), t) \<and>
     fs_becomes s (fs_set (path_comps dir) (FDir (pre @ prune_entries post)) (fs s)) t"
  using assms
proof (induction post arbitrary: s pre)
  case Nil
  then have "fs_set (path_comps dir) (FDir pre) (fs s) = fs s" by (simp add: fs_set_same)
  then show ?case by (auto simp: py_simps fs_becomes_def intro: exI [of _ "cur_job s"])
next
  case (Cons e post)
  obtain x m where e: "e = (x, m)" by (cases e)
  let ?pre = "pre @ prune_entries [(x, m)]" and ?D = "path_comps dir"
  have "\<exists>t. remove_item k dir x s = (Inr (), t) \<and> fs_becomes s (fs_set ?D (FDir (pre @ prune_entries [(x, m)] @ post)) (fs s)) t"
    by (rule remove_item_step) (use Cons.prems e in auto)
  then obtain t where t: "remove_item k dir x s = (Inr (), t)" "fs_becomes s (fs_set ?D (FDir (?pre @ post)) (fs s)) t"
    by (auto simp: append_assoc)
  have fst: "fs t = fs_set ?D (FDir (?pre @ post)) (fs s)" using t(2) by (auto simp: fs_becomes_def)
  have "\<exists>u. py_for (map fst post) (remove_item k dir) t = (Inr (), u) \<and> fs_becomes t (fs_set ?D (FDir (?pre @ prune_entries post)) (fs t)) u"
  proof (rule Cons.IH)
    show "fs_at (fs t) ?D = Some (FDir (?pre @ post))" unfolding fst by (rule fs_at_set [OF Cons.prems(2)])
    show "distinct (map fst (?pre @ post))" "entries_ok post" using Cons.prems e by auto
    show "\<exists>ta. removeHiddenFilesFromDirectory k (path_join dir x) s = (Inr (), ta) \<and>
        fs_becomes s (fs_set (path_comps (path_join dir x)) (prune m) (fs s)) ta"
      if "(x, m) \<in> set post" "node_is_dir m" "fs_node (fs s) (path_join dir x) = Some m" for x m and s :: "'s world_scheme"
      using Cons.prems(1) that by simp
  qed
  then obtain u where u: "py_for (map fst post) (remove_item k dir) t = (Inr (), u)"
    "fs_becomes t (fs_set ?D (FDir (?pre @ prune_entries post)) (fs t)) u" by blast
  have "fs_becomes s (fs_set ?D (FDir (pre @ prune_entries (e # post))) (fs s)) u"
    using t(2) u(2) prune_entries_append [of "[e]" post]
    unfolding fst fs_set_twice by (auto simp: fs_becomes_def e)
  moreover have "py_for (map fst (e # post)) (remove_item k dir) s = (Inr (), u)"
    using t(1) u(1) by (simp add: e py_seq_apply del: split_paired_All)
  ultimately show ?case by blast
qed

lemma entries_depth_mem: "(x, m) \<in> set es \<Longrightarrow> tree_depth m \<le> entries_depth es"
  by (induction es) auto

lemma entries_ok_mem: "(x, m) \<in> set es \<Longrightarrow> entries_ok es \<Longrightarrow> tree_ok m \<and> plain_name x"
  by (induction es) auto

lemma remove_hidden_runs:
  fixes s :: "'s world_scheme"
  assumes "fs_node (fs s) dir = Some (FDir es)" and "tree_ok (FDir es)" and "tree_depth (FDir es) \<le> k"
  shows "\<exists>t. removeHiddenFilesFromDirectory k dir s = (Inr (), t) \<and>
     fs_becomes s (fs_set (path_comps dir) (prune (FDir es)) (fs s)) t"
  using assms
proof (induction k arbitrary: dir es s)
  case (Suc k)
  have at: "fs_at (fs s) (path_comps dir) = Some (FDir es)" using Suc.prems(1) by (simp add: fs_node_def split: if_splits)
  have "\<exists>t. py_for (map fst es) (remove_item k dir) s = (Inr (), t) \<and>
      fs_becomes s (fs_set (path_comps dir) (FDir ([] @ prune_entries es)) (fs s)) t"
  proof (rule remove_items)
    fix x m and s :: "'s world_scheme"
    assume x: "(x, m) \<in> set es" and m: "node_is_dir m" and node: "fs_node (fs s) (path_join dir x) = Some m"
    then obtain es' where es': "m = FDir es'" by (cases m) auto
    have "tree_depth m \<le> k" "tree_ok m"
      using entries_depth_mem [OF x] entries_ok_mem [OF x] Suc.prems by auto
    then show "\<exists>t. removeHiddenFilesFromDirectory k (path_join dir x) s = (Inr (), t) \<and>
        fs_becomes s (fs_set (path_comps (path_join dir x)) (prune m) (fs s)) t"
      using Suc.IH node unfolding es' by blast
  qed (use at Suc.prems in auto)
  then show ?case using Suc.prems(1) by (simp add: py_bind_apply py_lift_apply fs_get_apply os_listdir_def)
qed simp

section \<open>Removing normalized files, row by row\<close>

definition to_remove :: "string \<Rightarrow> file_row \<Rightarrow> bool" where
  "to_remove sip f \<longleftrightarrow> f_sip f = Some sip \<and> f_removedtime f = None \<and> f_filegrpuse f = ''preservation''"

lemma to_remove_abs: "to_remove sip = (\<lambda>f. f_sip f = Some sip \<and> f_removedtime f = None \<and> f_filegrpuse f = ''preservation'')"
  by (simp add: fun_eq_iff to_remove_def)

text \<open>
  What is left of the rows and of the disk, without reference to the order of the steps: the rows picked by \<open>P\<close>
  get a date of removal and the others stay, and a copy is deleted where it can be.
\<close>

definition marked_removed :: "(file_row \<Rightarrow> bool) \<Rightarrow> file_row list \<Rightarrow> file_row list \<Rightarrow> bool" where
  "marked_removed P = list_all2 (\<lambda>f g. if P f then \<exists>d. g = f\<lparr>f_removedtime := Some d\<rparr> else g = f)"

definition unlink_copy :: "string \<Rightarrow> file_row \<Rightarrow> fnode \<Rightarrow> fnode" where
  "unlink_copy dir f n = (case f_currentlocation f of
      None \<Rightarrow> n
    | Some loc \<Rightarrow> (case os_remove (str_replace1 loc ''%SIPDirectory%'' dir) n of Inl _ \<Rightarrow> n | Inr m \<Rightarrow> m))"

text \<open>Whatever happens on disk, the row is marked.\<close>

lemma remove_preservation_file_marks:
  "\<exists>j. remove_preservation_file E dir f s =
     (Inr (), s\<lparr>clock := Suc (clock s), Files := row_save f_uuid (f\<lparr>f_removedtime := Some (env_now E (clock s))\<rparr>) (Files s),
        cur_job := j, fs := unlink_copy dir f (fs s)\<rparr>)"
proof -
  have "is_Exception e" if "os_remove p n = Inl e" for p n e
    using that by (auto simp: os_remove_def ENOENT_def EISDIR_def is_Exception_def split: option.splits fnode.splits)
  moreover have "is_Exception e" if "need_str a x = Inl e" for a x e
    using that by (auto simp: need_str_def no_attribute_def is_Exception_def split: option.splits)
  ultimately show ?thesis
    unfolding remove_preservation_file_def guarded_def report_trace_def
    by (cases s; cases "need_str ''decode'' (f_currentlocation f)";
        cases "os_remove (str_replace1 (the (f_currentlocation f)) ''%SIPDirectory%'' dir) (fs s)")
      (auto simp: py_simps now_def File_save_def need_str_def unlink_copy_def split: option.splits)
qed

lemma save_one_row:
  assumes "distinct (map f_uuid rows)" and "f \<in> set rows" and "f_uuid g = f_uuid f"
  shows "row_save f_uuid g rows = map (\<lambda>x. if x = f then g else x) rows"
proof -
  have "x = f" if "x \<in> set rows" "f_uuid x = f_uuid f" for x
    using assms(1,2) that by (auto simp: distinct_map dest: inj_onD)
  then have "row_update (\<lambda>x. f_uuid x = f_uuid g) (\<lambda>_. g) rows = map (\<lambda>x. if x = f then g else x) rows"
    using assms(3) unfolding row_update_def by (intro map_cong refl) auto
  moreover have "f_uuid g \<in> f_uuid ` set rows" using assms(2,3) by simp
  ultimately show ?thesis by (simp add: row_save_def)
qed

lemma marked_removed_trans:
  assumes "marked_removed (\<lambda>x. x \<in> set fl) (map (\<lambda>x. if x = f then g else x) rows) out"
    and "g = f\<lparr>f_removedtime := Some d\<rparr>" and "g \<notin> set fl"
  shows "marked_removed (\<lambda>x. x \<in> set (f # fl)) rows out"
  unfolding marked_removed_def
proof (rule list_all2_mono [OF assms(1) [unfolded marked_removed_def list_all2_map1]])
  fix x y
  assume xy: "if (if x = f then g else x) \<in> set fl then \<exists>d. y = (if x = f then g else x)\<lparr>f_removedtime := Some d\<rparr>
     else y = (if x = f then g else x)"
  show "if x \<in> set (f # fl) then \<exists>d. y = x\<lparr>f_removedtime := Some d\<rparr> else y = x"
  proof (cases "x = f")
    case True
    with xy assms(3) have "y = f\<lparr>f_removedtime := Some d\<rparr>" unfolding assms(2) [symmetric] by simp
    with True show ?thesis by auto
  next
    case False
    with xy show ?thesis by (auto split: if_splits)
  qed
qed

lemma remove_files_effect:
  fixes s :: "'s world_scheme"
  assumes "distinct (map f_uuid (Files s))" and "distinct (map f_uuid fl)" and "set fl \<subseteq> set (Files s)"
  shows "\<exists>j c rows. py_for fl (remove_preservation_file E dir) s =
      (Inr (), s\<lparr>cur_job := j, clock := c, Files := rows, fs := fold (unlink_copy dir) fl (fs s)\<rparr>) \<and>
     marked_removed (\<lambda>x. x \<in> set fl) (Files s) rows"
  using assms
proof (induction fl arbitrary: s)
  case Nil
  have "marked_removed (\<lambda>x. False) (Files s) (Files s)"
    unfolding marked_removed_def by (auto intro: list_all2_refl)
  then show ?case
    by (intro exI [of _ "cur_job s"] exI [of _ "clock s"] exI [of _ "Files s"]) (simp add: py_simps)
next
  case (Cons f fl)
  let ?g = "f\<lparr>f_removedtime := Some (env_now E (clock s))\<rparr>"
  let ?rows = "map (\<lambda>x. if x = f then ?g else x) (Files s)"
  have saved: "row_save f_uuid ?g (Files s) = ?rows"
    using Cons.prems by (intro save_one_row) auto
  obtain j where run: "remove_preservation_file E dir f s =
      (Inr (), s\<lparr>clock := Suc (clock s), Files := ?rows, cur_job := j, fs := unlink_copy dir f (fs s)\<rparr>)" (is "_ = (_, ?s)")
    using remove_preservation_file_marks [of E dir f s] unfolding saved by blast
  have keys: "map f_uuid ?rows = map f_uuid (Files s)" by (simp add: map_eq_conv)
  have g: "?g \<notin> set fl" "f \<notin> set fl" using Cons.prems(2) by (auto simp: image_iff)
  have sub: "set fl \<subseteq> set (Files ?s)"
    using Cons.prems(3) g(2) by (auto simp: image_iff)
  obtain k c rows where IH: "py_for fl (remove_preservation_file E dir) ?s =
      (Inr (), ?s\<lparr>cur_job := k, clock := c, Files := rows, fs := fold (unlink_copy dir) fl (fs ?s)\<rparr>)"
    "marked_removed (\<lambda>x. x \<in> set fl) (Files ?s) rows"
  proof -
    have "distinct (map f_uuid (Files ?s))" using Cons.prems(1) unfolding keys [symmetric] by simp
    moreover have "distinct (map f_uuid fl)" using Cons.prems(2) by simp
    ultimately show ?thesis using Cons.IH [OF _ _ sub] that by blast
  qed
  have "marked_removed (\<lambda>x. x \<in> set (f # fl)) (Files s) rows"
    by (rule marked_removed_trans [OF _ refl g(1)]) (use IH(2) in simp)
  with run IH(1) show ?case
    by (intro exI [of _ k] exI [of _ c] exI [of _ rows]) (simp add: py_simps)
qed

lemma marked_filter:
  assumes "marked_removed (\<lambda>x. x \<in> set (filter P rows)) rows out"
  shows "marked_removed P rows out"
proof -
  have "list_all2 (\<lambda>f g. if P f then \<exists>d. g = f\<lparr>f_removedtime := Some d\<rparr> else g = f) rows out"
    using assms unfolding marked_removed_def
    by (rule list.rel_mono_strong) (auto split: if_splits)
  then show ?thesis unfolding marked_removed_def .
qed

text \<open>What a deletion by SIP looks at does not depend on the date of removal.\<close>

lemma marked_same_sip:
  assumes "marked_removed P rows out"
  shows "list_ex (\<lambda>f. f_uuid f = u \<and> f_sip f = Some sip) out = list_ex (\<lambda>f. f_uuid f = u \<and> f_sip f = Some sip) rows"
    and "list_ex (\<lambda>f. f_uuid f = u \<and> f_filegrpuse f = use \<and> f_sip f = Some sip) out =
      list_ex (\<lambda>f. f_uuid f = u \<and> f_filegrpuse f = use \<and> f_sip f = Some sip) rows"
  using assms unfolding marked_removed_def
  by (induction rows out rule: list_all2_induct) (auto split: if_splits)

definition undone_event :: "string \<Rightarrow> file_row list \<Rightarrow> event_row \<Rightarrow> bool" where
  "undone_event sip files e \<longleftrightarrow> e_event_type e = ''normalization'' \<and>
     (\<exists>f \<in> set files. f_sip f = Some sip \<and> e_file_uuid e = Some (f_uuid f))"

definition undone_link :: "string \<Rightarrow> file_row list \<Rightarrow> event_row list \<Rightarrow> derivation_row \<Rightarrow> bool" where
  "undone_link sip files events d \<longleftrightarrow>
     (\<exists>f \<in> set files. f_sip f = Some sip \<and> f_filegrpuse f = ''manualNormalization'' \<and> d_derived_file d = f_uuid f) \<or>
     (\<exists>e \<in> set events. undone_event sip files e \<and> d_event d \<noteq> None \<and> d_event d = e_event_id e)"

lemma deletions_apply:
  assumes m: "marked_removed P rows (Files t)"
  shows "delete_manual_links sip t = (Inr (), t\<lparr>Derivations := filter (\<lambda>d. \<not> (\<exists>f \<in> set rows. f_sip f = Some sip \<and>
       f_filegrpuse f = ''manualNormalization'' \<and> d_derived_file d = f_uuid f)) (Derivations t)\<rparr>)"
    and "delete_normalization_events sip t = (Inr (), t\<lparr>Events := filter (\<lambda>e. \<not> undone_event sip rows e) (Events t),
       Derivations := filter (\<lambda>d. \<not> (\<exists>e \<in> set (Events t). undone_event sip rows e \<and> d_event d \<noteq> None \<and>
         d_event d = e_event_id e)) (Derivations t)\<rparr>)"
proof -
  have "list_ex (\<lambda>f. f_uuid f = u \<and> f_filegrpuse f = use \<and> f_sip f = Some sip) (Files t) =
      (\<exists>f \<in> set rows. f_sip f = Some sip \<and> f_filegrpuse f = use \<and> u = f_uuid f)" for u use
    unfolding marked_same_sip(2) [OF m] by (auto simp: list_ex_iff)
  then show "delete_manual_links sip t = (Inr (), t\<lparr>Derivations := filter (\<lambda>d. \<not> (\<exists>f \<in> set rows. f_sip f = Some sip \<and>
       f_filegrpuse f = ''manualNormalization'' \<and> d_derived_file d = f_uuid f)) (Derivations t)\<rparr>)"
    by (simp add: delete_manual_links_def py_mod_apply)
  have "in_sip t sip u = (\<exists>f \<in> set rows. f_sip f = Some sip \<and> u = f_uuid f)" for u
    unfolding in_sip_def marked_same_sip(1) [OF m] by (auto simp: list_ex_iff)
  then have gone: "(e_event_type e = ''normalization'' \<and> (case e_file_uuid e of None \<Rightarrow> False | Some u \<Rightarrow> in_sip t sip u)) =
      undone_event sip rows e" for e
    by (auto simp: undone_event_def split: option.splits)
  have links: "filter (\<lambda>d. d_event d = None \<or> d_event d \<notin> e_event_id ` {e \<in> set (Events t). undone_event sip rows e}) ds =
      filter (\<lambda>d. \<not> (\<exists>e \<in> set (Events t). undone_event sip rows e \<and> d_event d \<noteq> None \<and> d_event d = e_event_id e)) ds" for ds
    by (intro filter_cong refl) auto
  show "delete_normalization_events sip t = (Inr (), t\<lparr>Events := filter (\<lambda>e. \<not> undone_event sip rows e) (Events t),
       Derivations := filter (\<lambda>d. \<not> (\<exists>e \<in> set (Events t). undone_event sip rows e \<and> d_event d \<noteq> None \<and>
         d_event d = e_event_id e)) (Derivations t)\<rparr>)"
    unfolding delete_normalization_events_def py_mod_apply Let_def gone set_filter links ..
qed

lemma removePreservationFiles_runs:
  fixes s :: "'s world_scheme"
  assumes "db_inv s"
  shows "\<exists>j c rows. removePreservationFiles E dir sip s = (Inr (), s\<lparr>cur_job := j, clock := c, Files := rows,
       fs := fold (unlink_copy dir) (filter (to_remove sip) (Files s)) (fs s),
       Events := filter (\<lambda>e. \<not> undone_event sip (Files s) e) (Events s),
       Derivations := filter (\<lambda>d. \<not> undone_link sip (Files s) (Events s) d) (Derivations s)\<rparr>) \<and>
     marked_removed (to_remove sip) (Files s) rows"
proof -
  let ?fl = "filter (to_remove sip) (Files s)"
  have d: "distinct (map f_uuid (Files s))" using assms by (simp add: db_inv_def)
  then have "distinct (map f_uuid ?fl)" by (rule distinct_map_filter)
  with d obtain j c rows where run: "py_for ?fl (remove_preservation_file E dir) s =
      (Inr (), s\<lparr>cur_job := j, clock := c, Files := rows, fs := fold (unlink_copy dir) ?fl (fs s)\<rparr>)"
    and m: "marked_removed (\<lambda>x. x \<in> set ?fl) (Files s) rows"
    using remove_files_effect [of s ?fl E dir] by auto
  let ?t = "s\<lparr>cur_job := j, clock := c, Files := rows, fs := fold (unlink_copy dir) ?fl (fs s)\<rparr>"
  let ?ds = "filter (\<lambda>d. \<not> (\<exists>f \<in> set (Files s). f_sip f = Some sip \<and>
       f_filegrpuse f = ''manualNormalization'' \<and> d_derived_file d = f_uuid f)) (Derivations s)"
  let ?u = "?t\<lparr>Events := filter (\<lambda>e. \<not> undone_event sip (Files s) e) (Events s),
       Derivations := filter (\<lambda>d. \<not> undone_link sip (Files s) (Events s) d) (Derivations s)\<rparr>"
  have mt: "marked_removed (\<lambda>x. x \<in> set ?fl) (Files s) (Files ?t)"
    "marked_removed (\<lambda>x. x \<in> set ?fl) (Files s) (Files (?t\<lparr>Derivations := ?ds\<rparr>))" using m by simp_all
  have first: "guarded (env_traceback E) ''Error running SQL'' (py_bind (py_get (\<lambda>s. filter (to_remove sip) (Files s)))
      (\<lambda>files. py_for files (remove_preservation_file E dir))) s = (Inr (), ?t)"
    using run by (simp add: guarded_def py_try_apply py_bind_apply py_get_apply)
  have second: "delete_manual_links sip ?t = (Inr (), ?t\<lparr>Derivations := ?ds\<rparr>)"
    unfolding deletions_apply(1) [OF mt(1)] by simp
  have "filter (\<lambda>d. \<not> (\<exists>e \<in> set (Events s). undone_event sip (Files s) e \<and> d_event d \<noteq> None \<and> d_event d = e_event_id e)) ?ds =
      filter (\<lambda>d. \<not> undone_link sip (Files s) (Events s) d) (Derivations s)"
    unfolding filter_filter by (intro filter_cong refl) (auto simp: undone_link_def)
  then have third: "delete_normalization_events sip (?t\<lparr>Derivations := ?ds\<rparr>) = (Inr (), ?u)"
    unfolding deletions_apply(2) [OF mt(2)] by simp
  have "removePreservationFiles E dir sip s = (Inr (), ?u)"
    unfolding removePreservationFiles_def to_remove_abs [symmetric] py_seq_apply first prod.case sum.case
    by (simp only: guarded_def py_seq_apply py_try_apply second third prod.case sum.case)
  with marked_filter [OF m] show ?thesis by blast
qed

section \<open>The layout of a unit, counted\<close>

definition absent_directories :: "fnode \<Rightarrow> string \<Rightarrow> string list" where
  "absent_directories n d = filter (\<lambda>x. \<not> os_isdir n (path_join d x)) UNIT_DIRECTORIES"

definition stray_entries :: "(string \<times> fnode) list \<Rightarrow> string list" where
  "stray_entries es = map fst (filter (\<lambda>(x, n). x \<notin> set (if node_is_dir n then UNIT_DIRECTORIES else ALLOWABLE_FILES)) es)"

lemma verifyDirectories_counts:
  "\<exists>j. verifyDirectories d ds ret s =
     (Inr (ret + int (length (filter (\<lambda>x. \<not> os_isdir (fs s) (path_join d x)) ds))), s\<lparr>cur_job := j\<rparr>)"
proof (induction ds arbitrary: ret s)
  case Nil
  then show ?case by (auto simp: py_simps intro: exI [of _ "cur_job s"])
next
  case (Cons x ds)
  let ?s = "s\<lparr>cur_job := write_error (str_join '' '' [''Required Directory Does Not Exist: '' @ x] @ [CHR 0x0A]) (cur_job s)\<rparr>"
  from Cons [of "ret + 1" ?s] Cons [of ret s] show ?case by (auto simp: py_simps)
qed

lemma verifyEntries_counts:
  assumes "\<forall>(x, n) \<in> set es. fs_node (fs s) (path_join d x) = Some n"
  shows "\<exists>j. verifyEntries d (map fst es) ret s = (Inr (ret + int (length (stray_entries es))), s\<lparr>cur_job := j\<rparr>)"
  using assms
proof (induction es arbitrary: ret s)
  case Nil
  then show ?case by (auto simp: py_simps stray_entries_def intro: exI [of _ "cur_job s"])
next
  case (Cons e es)
  obtain x n where e: "e = (x, n)" by (cases e)
  have "os_isdir (fs s) (path_join d x) = node_is_dir n" using Cons.prems e by (cases n) (auto simp: os_isdir_def)
  moreover have "\<exists>j. verifyEntries d (map fst es) r (s\<lparr>cur_job := k\<rparr>) =
      (Inr (r + int (length (stray_entries es))), s\<lparr>cur_job := j\<rparr>)" for r k
    using Cons.IH [of "s\<lparr>cur_job := k\<rparr>" r] Cons.prems by auto
  note this [of "ret + 1" "write_error (str_join '' '' [''Error, directory exists: '' @ x] @ [CHR 0x0A]) (cur_job s)"]
    this [of "ret + 1" "write_error (str_join '' '' [''Error, file exists: '' @ x] @ [CHR 0x0A]) (cur_job s)"] this [of ret "cur_job s"]
  ultimately show ?case by (auto simp: e py_simps stray_entries_def)
qed

lemma walk_finds_files:
  "list_ex (\<lambda>(_, _, files). files \<noteq> []) (walk_node d n) \<longleftrightarrow> node_is_dir n \<and> count_files n \<noteq> 0"
proof -
  have "list_ex (\<lambda>(_, _, files). files \<noteq> []) w \<longleftrightarrow> sum_list (map (\<lambda>(_, _, files). length files) w) \<noteq> 0"
    for w :: "(string \<times> string list \<times> string list) list"
    by (induction w) auto
  note this [of "walk_node d n", unfolded walk_counts(1)]
  then show ?thesis by (cases "node_is_dir n") simp_all
qed

lemma transfer_compliance_run:
  assumes dir: "fs_node (fs s) d = Some (FDir es)" and ok: "tree_ok (FDir es)"
  shows "\<exists>j. verify_transfer_compliance d s = (Inr (int (length (absent_directories (fs s) d)) + int (length (stray_entries es)) +
     (if count_files (FDir es) = 0 then 1 else 0)), s\<lparr>cur_job := j\<rparr>)"
proof -
  have at: "fs_at (fs s) (path_comps d) = Some (FDir es)" using dir by (simp add: fs_node_def split: if_splits)
  obtain j1 where j1: "verifyDirectoriesExist d 0 s = (Inr (int (length (absent_directories (fs s) d))), s\<lparr>cur_job := j1\<rparr>)"
    using verifyDirectories_counts [of d UNIT_DIRECTORIES 0 s] by (auto simp: verifyDirectoriesExist_def absent_directories_def)
  have "fs_node (fs s) (path_join d x) = Some n" if "(x, n) \<in> set es" for x n
    using entry_node [OF at _ that] entries_ok_mem [OF that] ok by simp
  then have "\<exists>j. verifyEntries d (map fst es) ret (s\<lparr>cur_job := j1\<rparr>) = (Inr (ret + int (length (stray_entries es))), s\<lparr>cur_job := j\<rparr>)" for ret
    using verifyEntries_counts [of es "s\<lparr>cur_job := j1\<rparr>" d ret] by auto
  then obtain j2 where j2: "verifyNothingElseAtTopLevel d (int (length (absent_directories (fs s) d))) (s\<lparr>cur_job := j1\<rparr>) =
      (Inr (int (length (absent_directories (fs s) d)) + int (length (stray_entries es))), s\<lparr>cur_job := j2\<rparr>)"
    using dir by (auto simp: verifyNothingElseAtTopLevel_def py_simps os_listdir_def)
  have some: "list_ex (\<lambda>(_, _, files). files \<noteq> []) (os_walk (fs s) d) \<longleftrightarrow> count_files (FDir es) \<noteq> 0"
    using walk_finds_files [of d "FDir es"] dir by (simp add: os_walk_def)
  show ?thesis
    unfolding verify_transfer_compliance_def verifyThereAreFiles_def checkDirectory_def
    using j1 j2 some by (simp add: py_simps) blast
qed

section \<open>Moving leaves the other columns alone\<close>

text \<open>The steps after the update of the database, a process and changes on disk, do not touch it.\<close>

definition sips_are :: "sip_row list \<Rightarrow> 's world_scheme \<Rightarrow> bool" where
  "sips_are rows s \<longleftrightarrow> SIPs s = rows"

lemma keeps_sips [keeps_intros]:
  "keeps (sips_are rows) (upd_job f)" "keeps (sips_are rows) (job_pyprint h ss)" "keeps (sips_are rows) (fs_do g)"
  "keeps (sips_are rows) (fs_get q)"
  by (auto simp: keeps_def py_simps job_pyprint_def sips_are_def split: sum.splits)

lemma keeps_sips_mv [keeps_intros]: "keeps (sips_are rows) (mv_command E a b)"
  unfolding mv_command_def by (rule keeps_process) (simp add: sips_are_def)

lemma keeps_sips_rename [keeps_intros]: "keeps (sips_are rows) (rename (mv_command E) job_pyprint a b False)"
  unfolding rename_def by (intro keeps_intros keeps_bind)

section \<open>Example state\<close>

definition unit_ex :: fnode where
  "unit_ex = FDir [(''t'', FDir [(''objects'', FDir [(''a~'', FFile []), (''b'', FFile ''x''), (''.git'', FDir [(''c'', FFile [])])]),
     (''logs'', FDir []), (''metadata'', FDir [(''submissionDocumentation'', FDir [])]), (''.hidden'', FFile [])])]"

definition unit_world_ex :: world where
  "unit_world_ex = world_ex\<lparr>fs := unit_ex\<rparr>"

section \<open>Properties\<close>

text \<open>C28. On a directory, the check of a transfer returns and changes nothing but the output of its job, and the code
  it returns is the number of faults: the required directories that are missing, the entries at the top level that are
  neither required directories nor allowed files, and one when there is no file at all. So the job succeeds exactly
  for a compliant layout.\<close>

theorem transfer_compliance_counts:
  assumes dir: "fs_node (fs s) d = Some (FDir es)" and ok: "tree_ok (FDir es)"
  shows "\<exists>j. verify_transfer_compliance d s = (Inr (int (length (absent_directories (fs s) d)) + int (length (stray_entries es)) +
     (if count_files (FDir es) = 0 then 1 else 0)), s\<lparr>cur_job := j\<rparr>)"
  by (rule transfer_compliance_run [OF assms])

theorem transfer_compliance_counts_witness:
  "\<exists>j. verify_transfer_compliance ''/t'' unit_world_ex = (Inr 1, unit_world_ex\<lparr>cur_job := j\<rparr>)"
proof -
  let ?es = "case fs_node (fs unit_world_ex) ''/t'' of Some (FDir es) \<Rightarrow> es | _ \<Rightarrow> []"
  have "fs_node (fs unit_world_ex) ''/t'' = Some (FDir ?es)" "tree_ok (FDir ?es)" by code_simp+
  moreover have "int (length (absent_directories (fs unit_world_ex) ''/t'')) + int (length (stray_entries ?es)) +
     (if count_files (FDir ?es) = 0 then 1 else 0) = 1" by code_simp
  ultimately show ?thesis using transfer_compliance_counts [of unit_world_ex "''/t''" ?es] by simp
qed

text \<open>C27. Removing hidden files returns and leaves the tree that has, at every depth, neither the entries whose
  names start with a period nor the files whose names end with a tilde, and everything else in its place; tables
  are untouched. The tree must not be deeper than the interpreter's recursion limit.\<close>

theorem remove_hidden_prunes:
  assumes "fs_node (fs s) dir = Some (FDir es)" and "tree_ok (FDir es)" and "tree_depth (FDir es) \<le> limit"
  shows "\<exists>j. removeHiddenFilesFromDirectory limit dir s =
     (Inr (), s\<lparr>cur_job := j, fs := fs_set (path_comps dir) (prune (FDir es)) (fs s)\<rparr>)"
  using remove_hidden_runs [OF assms] by (auto simp: fs_becomes_def)

theorem remove_hidden_prunes_witness:
  "\<exists>j. removeHiddenFilesFromDirectory 1000 ''/t'' unit_world_ex = (Inr (), unit_world_ex\<lparr>cur_job := j,
     fs := FDir [(''t'', FDir [(''objects'', FDir [(''b'', FFile ''x'')]), (''logs'', FDir []),
       (''metadata'', FDir [(''submissionDocumentation'', FDir [])])])]\<rparr>)"
proof -
  let ?es = "case fs_node (fs unit_world_ex) ''/t'' of Some (FDir es) \<Rightarrow> es | _ \<Rightarrow> []"
  have "fs_node (fs unit_world_ex) ''/t'' = Some (FDir ?es)" "tree_ok (FDir ?es)" "tree_depth (FDir ?es) \<le> 1000" by code_simp+
  moreover have "fs_set (path_comps ''/t'') (prune (FDir ?es)) (fs unit_world_ex) =
     FDir [(''t'', FDir [(''objects'', FDir [(''b'', FFile ''x'')]), (''logs'', FDir []),
       (''metadata'', FDir [(''submissionDocumentation'', FDir [])])])]" by code_simp
  ultimately show ?thesis using remove_hidden_prunes [of unit_world_ex "''/t''" ?es 1000] by simp
qed

text \<open>Whatever the command that moves a SIP does, and even when the deletion of an existing destination raises,
  the new path is in the table afterwards: the path is stored first, and nothing takes it back.\<close>

theorem move_sip_updates_first:
  "SIPs (snd (move_sip_moveSIP E src dst u shared s)) = row_update (\<lambda>r. s_uuid r = u)
     (\<lambda>r. r\<lparr>s_currentpath := Some (moved_path (strip_slash src) dst shared @ ''/'')\<rparr>) (SIPs s)"
  (is "_ = ?rows")
proof -
  let ?rest = "py_bind (fs_get (\<lambda>n. os_exists n (path_join dst (basename (strip_slash src))))) (\<lambda>present.
      py_seq (py_when present (py_seq (job_pyprint Stderr [path_join dst (basename (strip_slash src)), ''exists, deleting''])
         (fs_do (shutil_rmtree (path_join dst (basename (strip_slash src))))))) 
        (rename (mv_command E) job_pyprint (strip_slash src) dst False))"
  have "keeps (sips_are ?rows) ?rest" by (intro keeps_intros keeps_bind)
  from keepsD [OF this, of "s\<lparr>SIPs := ?rows\<rparr>"] show ?thesis
    by (simp add: move_sip_moveSIP_def move_sip_updateDB_def Let_def py_seq_apply py_mod_apply sips_are_def)
qed

text \<open>C29. Undoing normalization always returns and has exactly this effect: the preservation copies of the SIP that
  are not removed yet get a date of removal, whether or not their files could be deleted, and no other row
  or column of the file table changes; on disk exactly their files are deleted, as far as they exist; the
  normalization events of the files of the SIP are deleted and all other events stay; the derivations
  that lead to a manually normalized file of the SIP and those made by a deleted event are deleted and all
  other derivations stay; the other tables are unchanged.\<close>

theorem retry_removal_complete:
  fixes s :: "'s world_scheme" and sip :: string
  assumes "db_inv s"
  defines "copy \<equiv> \<lambda>f. f_sip f = Some sip \<and> f_removedtime f = None \<and> f_filegrpuse f = ''preservation''"
  shows "\<exists>j c rows. removePreservationFiles E dir sip s = (Inr (), s\<lparr>cur_job := j, clock := c, Files := rows,
       fs := fold (unlink_copy dir) (filter copy (Files s)) (fs s),
       Events := filter (\<lambda>e. \<not> undone_event sip (Files s) e) (Events s),
       Derivations := filter (\<lambda>d. \<not> undone_link sip (Files s) (Events s) d) (Derivations s)\<rparr>) \<and>
     list_all2 (\<lambda>f g. if copy f then \<exists>d. g = f\<lparr>f_removedtime := Some d\<rparr> else g = f) (Files s) rows"
  using removePreservationFiles_runs [OF assms(1), of E dir sip]
  unfolding copy_def to_remove_abs marked_removed_def .

text \<open>
  A SIP with an original, a preservation copy on disk, one whose file is missing and a manually normalized file,
  and a file of another SIP with a normalization event of its own.
\<close>

definition retry_file :: "string \<Rightarrow> string \<Rightarrow> string \<Rightarrow> file_row" where
  "retry_file u sip use = (new_file u)\<lparr>f_sip := Some sip, f_filegrpuse := use,
     f_currentlocation := Some (''%SIPDirectory%objects/'' @ u)\<rparr>"

definition retry_event :: "nat \<Rightarrow> string \<Rightarrow> string \<Rightarrow> string \<Rightarrow> event_row" where
  "retry_event pk u file_uuid ty = (new_event u)\<lparr>e_id := pk, e_file_uuid := Some file_uuid, e_event_type := ty\<rparr>"

definition retry_sip :: "string \<Rightarrow> sip_row" where
  "retry_sip u = \<lparr>s_uuid = u, s_createdtime = [], s_currentpath = None, s_hidden = False, s_aip_filename = None,
     s_sip_type = ''SIP'', s_identifiers = [], s_diruuids = False, s_status = 1, s_completed_at = None\<rparr>"

definition retry_link :: "nat \<Rightarrow> string \<Rightarrow> string \<Rightarrow> string option \<Rightarrow> derivation_row" where
  "retry_link pk a b ev = \<lparr>d_id = pk, d_source_file = a, d_derived_file = b, d_event = ev\<rparr>"

definition retry_world :: world where
  "retry_world = world_ex\<lparr>next_pk := 9, SIPs := [retry_sip ''s'', retry_sip ''z''],
     Files := [retry_file ''o'' ''s'' ''original'', retry_file ''p'' ''s'' ''preservation'', retry_file ''q'' ''s'' ''preservation'',
       retry_file ''m'' ''s'' ''manualNormalization'', retry_file ''x'' ''z'' ''preservation''],
     Events := [retry_event 0 ''e0'' ''o'' ''ingestion'', retry_event 1 ''e1'' ''o'' ''normalization'', retry_event 2 ''e2'' ''x'' ''normalization''],
     Derivations := [retry_link 0 ''o'' ''p'' (Some ''e1''), retry_link 1 ''o'' ''m'' None, retry_link 2 ''o'' ''x'' (Some ''e2''),
       retry_link 3 ''o'' ''q'' None],
     fs := FDir [(''s'', FDir [(''objects'', FDir [(''o'', FFile []), (''p'', FFile []), (''x'', FFile [])])])]\<rparr>"

theorem retry_removal_complete_witness:
  "\<exists>j c d d'. removePreservationFiles env_ex ''/s/'' ''s'' retry_world = (Inr (), retry_world\<lparr>cur_job := j, clock := c,
     Files := [retry_file ''o'' ''s'' ''original'', (retry_file ''p'' ''s'' ''preservation'')\<lparr>f_removedtime := Some d\<rparr>,
       (retry_file ''q'' ''s'' ''preservation'')\<lparr>f_removedtime := Some d'\<rparr>, retry_file ''m'' ''s'' ''manualNormalization'',
       retry_file ''x'' ''z'' ''preservation''],
     fs := FDir [(''s'', FDir [(''objects'', FDir [(''o'', FFile []), (''x'', FFile [])])])],
     Events := [retry_event 0 ''e0'' ''o'' ''ingestion'', retry_event 2 ''e2'' ''x'' ''normalization''],
     Derivations := [retry_link 2 ''o'' ''x'' (Some ''e2''), retry_link 3 ''o'' ''q'' None]\<rparr>)"
proof -
  let ?copy = "\<lambda>f. f_sip f = Some ''s'' \<and> f_removedtime f = None \<and> f_filegrpuse f = ''preservation''"
  have inv: "db_inv retry_world" by code_simp
  have files: "Files retry_world = [retry_file ''o'' ''s'' ''original'', retry_file ''p'' ''s'' ''preservation'', retry_file ''q'' ''s'' ''preservation'',
       retry_file ''m'' ''s'' ''manualNormalization'', retry_file ''x'' ''z'' ''preservation'']" by code_simp
  have flags: "?copy (retry_file ''p'' ''s'' ''preservation'')" "?copy (retry_file ''q'' ''s'' ''preservation'')"
    "\<not> ?copy (retry_file ''o'' ''s'' ''original'')" "\<not> ?copy (retry_file ''m'' ''s'' ''manualNormalization'')"
    "\<not> ?copy (retry_file ''x'' ''z'' ''preservation'')" by code_simp+
  have disk: "fold (unlink_copy ''/s/'') (filter ?copy (Files retry_world)) (fs retry_world) =
      FDir [(''s'', FDir [(''objects'', FDir [(''o'', FFile []), (''x'', FFile [])])])]" by code_simp
  have events: "filter (\<lambda>e. \<not> undone_event ''s'' (Files retry_world) e) (Events retry_world) =
      [retry_event 0 ''e0'' ''o'' ''ingestion'', retry_event 2 ''e2'' ''x'' ''normalization'']" by code_simp
  have links: "filter (\<lambda>d. \<not> undone_link ''s'' (Files retry_world) (Events retry_world) d) (Derivations retry_world) =
      [retry_link 2 ''o'' ''x'' (Some ''e2''), retry_link 3 ''o'' ''q'' None]" by code_simp
  from retry_removal_complete [OF inv, of env_ex "''/s/''" "''s''"]
  obtain j c rows where run: "removePreservationFiles env_ex ''/s/'' ''s'' retry_world = (Inr (), retry_world\<lparr>cur_job := j, clock := c,
       Files := rows, fs := FDir [(''s'', FDir [(''objects'', FDir [(''o'', FFile []), (''x'', FFile [])])])],
       Events := [retry_event 0 ''e0'' ''o'' ''ingestion'', retry_event 2 ''e2'' ''x'' ''normalization''],
       Derivations := [retry_link 2 ''o'' ''x'' (Some ''e2''), retry_link 3 ''o'' ''q'' None]\<rparr>)"
    and rows: "list_all2 (\<lambda>f g. if ?copy f then \<exists>d. g = f\<lparr>f_removedtime := Some d\<rparr> else g = f) (Files retry_world) rows"
    unfolding disk events links by blast
  have "\<exists>d d'. rows = [retry_file ''o'' ''s'' ''original'', (retry_file ''p'' ''s'' ''preservation'')\<lparr>f_removedtime := Some d\<rparr>,
       (retry_file ''q'' ''s'' ''preservation'')\<lparr>f_removedtime := Some d'\<rparr>, retry_file ''m'' ''s'' ''manualNormalization'',
       retry_file ''x'' ''z'' ''preservation'']"
    using rows unfolding files list_all2_Cons1 list_all2_Nil
    by (simp only: flags simp_thms if_True if_False) blast
  with run show ?thesis by blast
qed

end
