(* ===== verification/LoadPremis.thy ===== *)
theory LoadPremis
  imports Commands
begin

text \<open>
  \<open>clientScripts/load_premis_events_from_xml.py\<close>: importing the events of a PREMIS document into the tables of a
  transfer. The document is validated, its objects, agents and events become dictionaries keyed by identifier, the
  relations stated on either side are completed and checked, and only a document without faults is saved.

  lxml and metsrw are parameters: the schema, the parser and the elements as metsrw shows them. A Python set is the
  list of its members without repetition, in the order in which they were added.
\<close>

section \<open>Elements of the document\<close>

type_synonym premis_id = "string \<times> string"

text \<open>A text attribute that is missing or not a text is \<open>None\<close>.\<close>

record premis_object =
  po_identifier :: premis_id
  po_original_name :: "string option"
  po_linking_events :: "premis_id list"

record premis_agent =
  pa_identifier :: premis_id
  pa_name :: "string option"
  pa_type :: string
  pa_linking_events :: "premis_id list"

record premis_event =
  pe_identifier :: premis_id
  pe_type :: string
  pe_date_time :: string
  pe_event_details :: "string option list"
  pe_event_outcomes :: "string option list"
  pe_outcome_detail_notes :: "string option list"
  pe_linking_objects :: "premis_id list"
  pe_linking_agents :: "premis_id list"

record premis_tree =
  pt_version :: "string option"
  pt_objects :: "premis_object list"
  pt_agents :: "premis_agent list"
  pt_events :: "premis_event list"

text \<open>A point in time as Django reads it: the text of date and time, and the zone when there is one.\<close>

record moment =
  m_text :: string
  m_tz :: "string option"

record lp_env = env +
  lp_xmlschema :: "string \<Rightarrow> py_exn + (premis_tree \<Rightarrow> py_exn option)"
  lp_etree_parse :: "string \<Rightarrow> py_exn + premis_tree"
  lp_premis_version :: string
  lp_versions :: "string list"
  lp_dateparse_datetime :: "string \<Rightarrow> py_exn + moment option"
  lp_dateparse_date :: "string \<Rightarrow> py_exn + string option"
  lp_default_timezone :: string

section \<open>Texts\<close>

definition format_identifier_details :: "premis_id \<Rightarrow> string \<Rightarrow> string" where
  "format_identifier_details ident element_type =
     ''premis:'' @ element_type @ ''IdentifierType='' @ [CHR 0x27] @ fst ident @ [CHR 0x27] @
     '' and premis:'' @ element_type @ ''IdentifierValue='' @ [CHR 0x27] @ snd ident @ [CHR 0x27]"

definition format_identifier :: "premis_id \<Rightarrow> string \<Rightarrow> string" where
  "format_identifier ident element_type =
     ''premis:'' @ element_type @ '' element with '' @ format_identifier_details ident element_type"

definition format_as_grouped_identifiers :: "premis_id list \<Rightarrow> string \<Rightarrow> string" where
  "format_as_grouped_identifiers identifiers element_type =
     str_join '','' (map (\<lambda>i. ''('' @ format_identifier_details i element_type @ '')'') identifiers)"

definition log_missing_original_name :: "premis_id \<Rightarrow> ('s jstate_scheme, unit) py" where
  "log_missing_original_name i = job_pyprint Stderr
     [''The '' @ format_identifier i ''object'' @ '' does not contain a premis:originalName element'']"

definition log_filename_mismatch :: "premis_id \<Rightarrow> string \<Rightarrow> ('s jstate_scheme, unit) py" where
  "log_filename_mismatch i original_name = job_pyprint Stderr
     [''The '' @ format_identifier i ''object'' @ '' contains a premis:originalName value that does not match any filename in this transfer: '' @
      [CHR 0x27] @ original_name @ [CHR 0x27]]"

definition log_missing_xsd :: "string \<Rightarrow> ('s jstate_scheme, unit) py" where
  "log_missing_xsd path = job_pyprint Stderr [''The PREMIS XML schema asset '' @ path @ '' is unavailable'']"

definition log_invalid_xsd :: "string \<Rightarrow> py_exn \<Rightarrow> ('s jstate_scheme, unit) py" where
  "log_invalid_xsd path e = job_pyprint Stderr [''Could not parse the PREMIS XML schema '' @ path, exn_str e]"

definition log_invalid_events_xml :: "string \<Rightarrow> py_exn \<Rightarrow> ('s jstate_scheme, unit) py" where
  "log_invalid_events_xml path e = job_pyprint Stderr
     [''Could not validate the events XML file '' @ path @ '' using the PREMIS 3 XML schema'', exn_str e]"

definition log_event_without_files :: "premis_id \<Rightarrow> ('s jstate_scheme, unit) py" where
  "log_event_without_files i = job_pyprint Stderr
     [''The '' @ format_identifier i ''event'' @ '' is not related to any filename in the transfer files'']"

definition log_event_without_agents :: "premis_id \<Rightarrow> ('s jstate_scheme, unit) py" where
  "log_event_without_agents i = job_pyprint Stderr [''The '' @ format_identifier i ''event'' @ '' is not related to any agents'']"

definition log_missing_events_xml :: "string \<Rightarrow> ('s jstate_scheme, unit) py" where
  "log_missing_events_xml path = job_pyprint Stdout [''No events XML file found at path '' @ path]"

definition log_invalid_event_datetime :: "premis_event \<Rightarrow> ('s jstate_scheme, unit) py" where
  "log_invalid_event_datetime p = job_pyprint Stderr
     [''The '' @ format_identifier (pe_identifier p) ''event'' @
      '' contains a premis:eventDateTime value that could not be parsed: '' @ pe_date_time p]"

definition log_unrelated_file :: "premis_id \<Rightarrow> ('s jstate_scheme, unit) py" where
  "log_unrelated_file i = job_pyprint Stderr [''The '' @ format_identifier i ''object'' @ '' is not related to any premis:event element'']"

definition log_unrelated_agent :: "premis_id \<Rightarrow> ('s jstate_scheme, unit) py" where
  "log_unrelated_agent i = job_pyprint Stderr [''The '' @ format_identifier i ''agent'' @ '' is not related to any premis:event element'']"

definition log_unrelated_event_to_files :: "premis_id \<Rightarrow> ('s jstate_scheme, unit) py" where
  "log_unrelated_event_to_files i = job_pyprint Stderr
     [''The '' @ format_identifier i ''event'' @ '' is not related to any premis:object element'']"

definition log_unrelated_event_to_agents :: "premis_id \<Rightarrow> ('s jstate_scheme, unit) py" where
  "log_unrelated_event_to_agents i = job_pyprint Stderr
     [''The '' @ format_identifier i ''event'' @ '' is not related to any premis:agent element'']"

text \<open>The four messages on references to elements that do not exist differ in the kinds of the elements.\<close>

definition log_nonexistent :: "string \<Rightarrow> string \<Rightarrow> premis_id \<Rightarrow> premis_id list \<Rightarrow> ('s jstate_scheme, unit) py" where
  "log_nonexistent kind linked i nonexistent = job_pyprint Stderr
     [''The '' @ format_identifier i kind @ '' contains premis:linking'' @
      (case linked of [] \<Rightarrow> [] | c # cs \<Rightarrow> char_of (of_char c - 32 :: nat) # cs) @
      ''Identifier elements that reference premis:'' @ linked @ '' elements that are not present in this document: '' @
      format_as_grouped_identifiers nonexistent linked]"

definition log_file_related_to_nonexistent_events :: "premis_id \<Rightarrow> premis_id list \<Rightarrow> ('s jstate_scheme, unit) py" where
  "log_file_related_to_nonexistent_events = log_nonexistent ''object'' ''event''"

definition log_agent_related_to_nonexistent_events :: "premis_id \<Rightarrow> premis_id list \<Rightarrow> ('s jstate_scheme, unit) py" where
  "log_agent_related_to_nonexistent_events = log_nonexistent ''agent'' ''event''"

definition log_event_related_to_nonexistent_files :: "premis_id \<Rightarrow> premis_id list \<Rightarrow> ('s jstate_scheme, unit) py" where
  "log_event_related_to_nonexistent_files = log_nonexistent ''event'' ''object''"

definition log_event_related_to_nonexistent_agents :: "premis_id \<Rightarrow> premis_id list \<Rightarrow> ('s jstate_scheme, unit) py" where
  "log_event_related_to_nonexistent_agents = log_nonexistent ''event'' ''agent''"

definition log_event_id_change :: "string \<Rightarrow> string \<Rightarrow> ('s jstate_scheme, unit) py" where
  "log_event_id_change event_id new_event_id = job_pyprint Stdout
     [''Changed event identifier from '' @ event_id @ '' to '' @ new_event_id]"

definition log_event_successfully_created :: "string \<Rightarrow> string \<Rightarrow> ('s jstate_scheme, unit) py" where
  "log_event_successfully_created event_type event_id = job_pyprint Stdout
     [''Imported PREMIS '' @ event_type @ '' event and assigned identifier '' @ event_id]"

section \<open>Reading the document\<close>

text \<open>
  A text that is neither a date with a time nor a date raises; a moment without a zone gets the default one. The
  result is the moment as the database stores it.
\<close>

definition parse_datetime :: "'e lp_env_scheme \<Rightarrow> string \<Rightarrow> py_exn + datetime option" where
  "parse_datetime E val = (case lp_dateparse_datetime E val of
      Inl e \<Rightarrow> Inl e
    | Inr (Some m) \<Rightarrow> Inr (Some (m_text m @ (case m_tz m of None \<Rightarrow> lp_default_timezone E | Some z \<Rightarrow> z)))
    | Inr None \<Rightarrow> (case lp_dateparse_date E val of
        Inl e \<Rightarrow> Inl e
      | Inr (Some d) \<Rightarrow> Inr (Some (d @ ''T00:00:00'' @ lp_default_timezone E))
      | Inr None \<Rightarrow> if val \<noteq> [] then Inl (ValueError (''Unable to parse '' @ [CHR 0x27] @ val @ [CHR 0x27] @ '' as a datetime''))
                   else Inr None))"

definition get_premis_schema :: "'e lp_env_scheme \<Rightarrow> string \<Rightarrow> ('s world_scheme, (premis_tree \<Rightarrow> py_exn option) option) py" where
  "get_premis_schema E premis_xsd_path =
     py_bind (fs_get (\<lambda>n. os_isfile n premis_xsd_path)) (\<lambda>isfile.
     if \<not> isfile then py_seq (log_missing_xsd premis_xsd_path) (py_ret None)
     else py_bind (fs_get (\<lambda>n. read_file n premis_xsd_path)) (\<lambda>r. py_bind (py_lift r) (\<lambda>text.
       py_try (py_bind (py_lift (lp_xmlschema E text)) (\<lambda>sch. py_ret (Some sch)))
         (\<lambda>e. case e of
             LxmlError c _ \<Rightarrow> if c \<in> {''XMLSyntaxError'', ''XMLSchemaParseError''}
                then Some (py_seq (log_invalid_xsd premis_xsd_path e) (py_ret None)) else None
           | _ \<Rightarrow> None))))"

definition get_validated_etree ::
  "'e lp_env_scheme \<Rightarrow> string \<Rightarrow> (premis_tree \<Rightarrow> py_exn option) \<Rightarrow> ('s world_scheme, premis_tree option) py" where
  "get_validated_etree E path premis_schema =
     py_bind (fs_get (\<lambda>n. os_isfile n path)) (\<lambda>isfile.
     if \<not> isfile then py_seq (log_missing_events_xml path) (py_ret None)
     else py_bind (fs_get (\<lambda>n. read_file n path)) (\<lambda>r. py_bind (py_lift r) (\<lambda>text.
       py_try (py_bind (py_lift (lp_etree_parse E text)) (\<lambda>tree.
            case premis_schema tree of None \<Rightarrow> py_ret (Some tree) | Some e \<Rightarrow> py_raise e))
         (\<lambda>e. case e of
             LxmlError c _ \<Rightarrow> if c \<in> {''XMLSyntaxError'', ''DocumentInvalid''}
                then Some (py_seq (log_invalid_events_xml path e) (py_ret None)) else None
           | _ \<Rightarrow> None))))"

definition get_xml_tree :: "'e lp_env_scheme \<Rightarrow> string \<Rightarrow> string \<Rightarrow> ('s world_scheme, premis_tree option) py" where
  "get_xml_tree E xsd_path xml_path =
     py_bind (get_premis_schema E xsd_path) (\<lambda>sch. case sch of
       None \<Rightarrow> py_ret None
     | Some sch \<Rightarrow> get_validated_etree E xml_path sch)"

section \<open>Dictionaries of elements\<close>

record file_element =
  fe_identifier :: premis_id
  fe_original_name :: string
  fe_events :: "premis_id list"

record agent_element =
  ae_identifier :: premis_id
  ae_name :: "string option"
  ae_type :: string
  ae_events :: "premis_id list"

record event_element =
  ee_identifier :: premis_id
  ee_event_id :: string
  ee_event_type :: string
  ee_event_datetime :: "datetime option"
  ee_event_detail :: "string option"
  ee_event_outcome :: "string option"
  ee_event_outcome_detail :: "string option"
  ee_files :: "premis_id list"
  ee_agents :: "premis_id list"

definition set_add :: "'a list \<Rightarrow> 'a \<Rightarrow> 'a list" where
  "set_add xs x = (if x \<in> set xs then xs else xs @ [x])"

definition get_premis_element_children_identifiers :: "premis_id list \<Rightarrow> premis_id list" where
  "get_premis_element_children_identifiers children = foldl set_add [] children"

text \<open>The texts of the children, joined; \<open>None\<close> when that is empty.\<close>

definition get_premis_element_children_text_attribute :: "string option list \<Rightarrow> string option" where
  "get_premis_element_children_text_attribute children =
     (let t = str_join '' '' (map the (filter (\<lambda>x. x \<noteq> None) children)) in if t = [] then None else Some t)"

definition file_element_factory :: "premis_object \<Rightarrow> file_element" where
  "file_element_factory p =
     \<lparr>fe_identifier = po_identifier p,
      fe_original_name = (case po_original_name p of None \<Rightarrow> [] | Some n \<Rightarrow> str_strip n),
      fe_events = get_premis_element_children_identifiers (po_linking_events p)\<rparr>"

definition agent_element_factory :: "premis_agent \<Rightarrow> agent_element" where
  "agent_element_factory p =
     \<lparr>ae_identifier = pa_identifier p, ae_name = pa_name p, ae_type = pa_type p,
      ae_events = get_premis_element_children_identifiers (pa_linking_events p)\<rparr>"

definition event_element_factory :: "'e lp_env_scheme \<Rightarrow> premis_event \<Rightarrow> ('s jstate_scheme, event_element) py" where
  "event_element_factory E p =
     py_bind (if pe_date_time p = [] then py_ret None
        else py_try (py_lift (parse_datetime E (pe_date_time p)))
          (\<lambda>e. case e of ValueError _ \<Rightarrow> Some (py_seq (log_invalid_event_datetime p) (py_ret None)) | _ \<Rightarrow> None)) (\<lambda>date.
     py_ret
       \<lparr>ee_identifier = pe_identifier p, ee_event_id = snd (pe_identifier p), ee_event_type = pe_type p,
        ee_event_datetime = date,
        ee_event_detail = get_premis_element_children_text_attribute (pe_event_details p),
        ee_event_outcome = get_premis_element_children_text_attribute (pe_event_outcomes p),
        ee_event_outcome_detail = get_premis_element_children_text_attribute (pe_outcome_detail_notes p),
        ee_files = get_premis_element_children_identifiers (pe_linking_objects p),
        ee_agents = get_premis_element_children_identifiers (pe_linking_agents p)\<rparr>)"

text \<open>A later element with the same identifier replaces the earlier one.\<close>

fun add_elements ::
  "('p \<Rightarrow> ('s, 'a) py) \<Rightarrow> ('a \<Rightarrow> premis_id) \<Rightarrow> 'p list \<Rightarrow> (premis_id \<times> 'a) list \<Rightarrow> ('s, (premis_id \<times> 'a) list) py" where
  "add_elements factory key [] result = py_ret result"
| "add_elements factory key (p # ps) result =
     py_bind (factory p) (\<lambda>attributes. add_elements factory key ps (dict_set result (key attributes) attributes))"

definition get_elements ::
  "'e lp_env_scheme \<Rightarrow> premis_tree \<Rightarrow> 'p list \<Rightarrow> ('p \<Rightarrow> ('s, 'a) py) \<Rightarrow> ('a \<Rightarrow> premis_id) \<Rightarrow> ('s, (premis_id \<times> 'a) list) py" where
  "get_elements E tree elements factory key =
     (let premis_version = (case pt_version tree of None \<Rightarrow> lp_premis_version E | Some v \<Rightarrow> v) in
      if premis_version \<notin> set (lp_versions E) then py_raise (KeyError premis_version)
      else add_elements factory key elements [])"

section \<open>Checks\<close>

definition TRANSFER_ORIGINAL_LOCATION_PREFIX :: string where
  "TRANSFER_ORIGINAL_LOCATION_PREFIX = ''%transferDirectory%''"

text \<open>The files of the transfer at the original location of a name.\<close>

definition named_files :: "string \<Rightarrow> string \<Rightarrow> 's world_scheme \<Rightarrow> file_row list" where
  "named_files transfer_uuid original_name s = filter (\<lambda>f. f_transfer f = Some transfer_uuid \<and>
     f_originallocation f = TRANSFER_ORIGINAL_LOCATION_PREFIX @ original_name) (Files s)"

fun get_invalid_file_identifiers :: "(premis_id \<times> file_element) list \<Rightarrow> string \<Rightarrow> ('s world_scheme, premis_id list) py" where
  "get_invalid_file_identifiers [] transfer_uuid = py_ret []"
| "get_invalid_file_identifiers ((i, f) # files) transfer_uuid =
     py_bind (if fe_original_name f = [] then py_seq (log_missing_original_name i) (py_ret [i])
        else py_bind (py_get (named_files transfer_uuid (fe_original_name f))) (\<lambda>found.
          if found = [] then py_seq (log_filename_mismatch i (fe_original_name f)) (py_ret [i]) else py_ret [])) (\<lambda>here.
     py_bind (get_invalid_file_identifiers files transfer_uuid) (\<lambda>rest. py_ret (here @ rest)))"

text \<open>A loop that reports the members with a fault and returns whether there were any.\<close>

fun report_each :: "('a \<Rightarrow> bool) \<Rightarrow> ('a \<Rightarrow> ('s, unit) py) \<Rightarrow> 'a list \<Rightarrow> ('s, bool) py" where
  "report_each bad log [] = py_ret False"
| "report_each bad log (x # xs) =
     py_seq (py_when (bad x) (log x)) (py_bind (report_each bad log xs) (\<lambda>r. py_ret (bad x \<or> r)))"

text \<open>Python's \<open>or\<close>: the second operand is evaluated only when the first is false.\<close>

definition py_or :: "('s, bool) py \<Rightarrow> ('s, bool) py \<Rightarrow> ('s, bool) py" where
  "py_or m k = py_bind m (\<lambda>b. if b then py_ret True else k)"

definition print_unrelated_files ::
  "(premis_id \<times> file_element) list \<Rightarrow> (premis_id \<times> event_element) list \<Rightarrow> ('s jstate_scheme, bool) py" where
  "print_unrelated_files files events =
     (let related_files = concat (map (\<lambda>(_, e). ee_files e) events) in
      report_each (\<lambda>i. i \<notin> set related_files) log_unrelated_file (map fst files))"

definition print_unrelated_agents ::
  "(premis_id \<times> agent_element) list \<Rightarrow> (premis_id \<times> event_element) list \<Rightarrow> ('s jstate_scheme, bool) py" where
  "print_unrelated_agents agents events =
     (let related_agents = concat (map (\<lambda>(_, e). ee_agents e) events) in
      report_each (\<lambda>i. i \<notin> set related_agents) log_unrelated_agent (map fst agents))"

definition print_unrelated_events :: "(premis_id \<times> event_element) list \<Rightarrow> ('s jstate_scheme, bool) py" where
  "print_unrelated_events events = report_each (\<lambda>(i, e). ee_files e = [] \<or> ee_agents e = [])
     (\<lambda>(i, e). py_seq (py_when (ee_files e = []) (log_unrelated_event_to_files i))
                      (py_when (ee_agents e = []) (log_unrelated_event_to_agents i))) events"

definition print_unrelated_elements ::
  "(premis_id \<times> file_element) list \<Rightarrow> (premis_id \<times> agent_element) list \<Rightarrow> (premis_id \<times> event_element) list \<Rightarrow>
     ('s jstate_scheme, bool) py" where
  "print_unrelated_elements files agents events =
     py_or (print_unrelated_files files events) (py_or (print_unrelated_agents agents events) (print_unrelated_events events))"

text \<open>The members of a set that are not keys of a dictionary.\<close>

definition dangling :: "premis_id list \<Rightarrow> (premis_id \<times> 'a) list \<Rightarrow> premis_id list" where
  "dangling ids d = filter (\<lambda>i. i \<notin> fst ` set d) ids"

definition print_files_related_to_nonexistent_events ::
  "(premis_id \<times> file_element) list \<Rightarrow> (premis_id \<times> event_element) list \<Rightarrow> ('s jstate_scheme, bool) py" where
  "print_files_related_to_nonexistent_events files events = report_each (\<lambda>(i, f). dangling (fe_events f) events \<noteq> [])
     (\<lambda>(i, f). log_file_related_to_nonexistent_events i (dangling (fe_events f) events)) files"

definition print_agents_related_to_nonexistent_events ::
  "(premis_id \<times> agent_element) list \<Rightarrow> (premis_id \<times> event_element) list \<Rightarrow> ('s jstate_scheme, bool) py" where
  "print_agents_related_to_nonexistent_events agents events = report_each (\<lambda>(i, a). dangling (ae_events a) events \<noteq> [])
     (\<lambda>(i, a). log_agent_related_to_nonexistent_events i (dangling (ae_events a) events)) agents"

definition print_events_related_to_nonexistent_files ::
  "(premis_id \<times> event_element) list \<Rightarrow> (premis_id \<times> file_element) list \<Rightarrow> ('s jstate_scheme, bool) py" where
  "print_events_related_to_nonexistent_files events files = report_each (\<lambda>(i, e). dangling (ee_files e) files \<noteq> [])
     (\<lambda>(i, e). log_event_related_to_nonexistent_files i (dangling (ee_files e) files)) events"

definition print_events_related_to_nonexistent_agents ::
  "(premis_id \<times> event_element) list \<Rightarrow> (premis_id \<times> agent_element) list \<Rightarrow> ('s jstate_scheme, bool) py" where
  "print_events_related_to_nonexistent_agents events agents = report_each (\<lambda>(i, e). dangling (ee_agents e) agents \<noteq> [])
     (\<lambda>(i, e). log_event_related_to_nonexistent_agents i (dangling (ee_agents e) agents)) events"

definition print_nonexistent_references ::
  "(premis_id \<times> file_element) list \<Rightarrow> (premis_id \<times> agent_element) list \<Rightarrow> (premis_id \<times> event_element) list \<Rightarrow>
     ('s jstate_scheme, bool) py" where
  "print_nonexistent_references files agents events =
     py_or (print_files_related_to_nonexistent_events files events)
    (py_or (print_agents_related_to_nonexistent_events agents events)
    (py_or (print_events_related_to_nonexistent_files events files)
           (print_events_related_to_nonexistent_agents events agents)))"

section \<open>Relations\<close>

text \<open>Changing the value at a key that is there.\<close>

definition dict_change :: "('k \<times> 'v) list \<Rightarrow> 'k \<Rightarrow> ('v \<Rightarrow> 'v) \<Rightarrow> ('k \<times> 'v) list" where
  "dict_change d k g = map (\<lambda>(k', v). (k', if k' = k then g v else v)) d"

definition relate_files_to_events ::
  "(premis_id \<times> file_element) list \<Rightarrow> (premis_id \<times> event_element) list \<Rightarrow> (premis_id \<times> event_element) list" where
  "relate_files_to_events files events =
     foldl (\<lambda>events (i, f). foldl (\<lambda>events k. dict_change events k (\<lambda>e. e\<lparr>ee_files := set_add (ee_files e) i\<rparr>))
        events (fe_events f)) events files"

definition relate_agents_to_events ::
  "(premis_id \<times> agent_element) list \<Rightarrow> (premis_id \<times> event_element) list \<Rightarrow> (premis_id \<times> event_element) list" where
  "relate_agents_to_events agents events =
     foldl (\<lambda>events (i, a). foldl (\<lambda>events k. dict_change events k (\<lambda>e. e\<lparr>ee_agents := set_add (ee_agents e) i\<rparr>))
        events (ae_events a)) events agents"

text \<open>The values at the members of a set that are keys.\<close>

definition looked_up :: "(premis_id \<times> 'a) list \<Rightarrow> premis_id list \<Rightarrow> 'a list" where
  "looked_up d ids = map (\<lambda>i. the (map_of d i)) (filter (\<lambda>i. i \<in> fst ` set d) ids)"

definition get_event_agents :: "event_element \<Rightarrow> (premis_id \<times> agent_element) list \<Rightarrow> agent_element list" where
  "get_event_agents e agents = looked_up agents (ee_agents e)"

definition get_event_files :: "event_element \<Rightarrow> (premis_id \<times> file_element) list \<Rightarrow> premis_id list \<Rightarrow> file_element list" where
  "get_event_files e files file_identifiers_to_ignore =
     looked_up files (filter (\<lambda>i. i \<notin> set file_identifiers_to_ignore) (ee_files e))"

record valid_event =
  ve_agents :: "agent_element list"
  ve_files :: "file_element list"
  ve_event :: event_element

fun get_valid_events ::
  "(premis_id \<times> file_element) list \<Rightarrow> (premis_id \<times> agent_element) list \<Rightarrow> premis_id list \<Rightarrow> event_element list \<Rightarrow>
     ('s jstate_scheme, valid_event list \<times> bool) py" where
  "get_valid_events files agents ignore [] = py_ret ([], False)"
| "get_valid_events files agents ignore (e # es) =
     (let event_agents = get_event_agents e agents; event_files = get_event_files e files ignore in
      if event_agents = []
      then py_seq (log_event_without_agents (ee_identifier e))
          (py_bind (get_valid_events files agents ignore es) (\<lambda>(result, _). py_ret (result, True)))
      else if event_files = []
      then py_seq (log_event_without_files (ee_identifier e))
          (py_bind (get_valid_events files agents ignore es) (\<lambda>(result, _). py_ret (result, True)))
      else py_bind (get_valid_events files agents ignore es) (\<lambda>(result, invalid).
           py_ret (\<lparr>ve_agents = event_agents, ve_files = event_files, ve_event = e\<rparr> # result, invalid)))"

section \<open>Saving\<close>

definition get_or_create_agent :: "agent_element \<Rightarrow> ('s world_scheme, agent_row) py" where
  "get_or_create_agent a =
     py_bind (py_get (\<lambda>s. get_one ''Agent'' (filter (\<lambda>r. a_identifiertype r = Some (fst (ae_identifier a)) \<and>
        a_identifiervalue r = Some (snd (ae_identifier a)) \<and> a_name r = ae_name a \<and> a_agenttype r = ae_type a) (Agents s)))) (\<lambda>r.
     case r of
       Inr row \<Rightarrow> py_ret row
     | Inl e \<Rightarrow> if e = DoesNotExist ''Agent''
         then py_bind auto_pk (\<lambda>pk.
             (let row = \<lparr>a_id = pk, a_identifiertype = Some (fst (ae_identifier a)),
                a_identifiervalue = Some (snd (ae_identifier a)), a_name = ae_name a, a_agenttype = ae_type a\<rparr> in
              py_bind (py_get (\<lambda>s. row_insert a_id True row (Agents s))) (\<lambda>r. py_bind (py_lift r) (\<lambda>rows.
              py_seq (py_mod (\<lambda>s. s\<lparr>Agents := rows\<rparr>)) (py_ret row)))))
         else py_raise e)"

definition get_or_create_agents :: "agent_element list \<Rightarrow> ('s world_scheme, agent_row list) py" where
  "get_or_create_agents agents = py_map get_or_create_agent agents"

text \<open>
  \<open>uuid.UUID(text)\<close>: prefixes, braces and hyphens are dropped and 32 hexadecimal digits must remain; the result
  is its canonical text. (\<open>int(text, 16)\<close> also admits underscores, a sign or a prefix among the 32 characters,
  which are left out here.)
\<close>

definition is_hex :: "char \<Rightarrow> bool" where
  "is_hex c = (let n = of_char c :: nat in 48 \<le> n \<and> n \<le> 57 \<or> 65 \<le> n \<and> n \<le> 70 \<or> 97 \<le> n \<and> n \<le> 102)"

definition strip_braces :: "string \<Rightarrow> string" where
  "strip_braces t = (let brace = (\<lambda>c. c = CHR ''{'' \<or> c = CHR ''}'') in rev (dropWhile brace (rev (dropWhile brace t))))"

definition parse_uuid :: "string \<Rightarrow> py_exn + string" where
  "parse_uuid t =
     (let h = map to_lower (str_replace (strip_braces (str_replace (str_replace t ''urn:'' []) ''uuid:'' [])) ''-'' []) in
      if length h = 32 \<and> list_all is_hex h
      then Inr (take 8 h @ ''-'' @ take 4 (drop 8 h) @ ''-'' @ take 4 (drop 12 h) @ ''-'' @ take 4 (drop 16 h) @ ''-'' @ drop 20 h)
      else Inl (ValueError ''badly formed hexadecimal UUID string''))"

definition ensure_event_id_is_uuid :: "'e lp_env_scheme \<Rightarrow> string \<Rightarrow> ('s world_scheme, string) py" where
  "ensure_event_id_is_uuid E event_id =
     py_try (py_bind (py_lift (parse_uuid event_id)) (\<lambda>u.
        py_bind (py_get (\<lambda>s. list_ex (\<lambda>e. e_event_id e = Some u) (Events s))) (\<lambda>exists.
        if exists then py_raise (ValueError (''There is already an event with this event_id '' @ event_id))
        else py_ret event_id)))
      (\<lambda>e. case e of ValueError _ \<Rightarrow> Some (py_bind (uuid4 (env.truncate E)) (\<lambda>new_event_id.
            py_seq (log_event_id_change event_id new_event_id) (py_ret new_event_id))) | _ \<Rightarrow> None)"

text \<open>What the column of a UUID stores.\<close>

definition stored_uuid :: "string \<Rightarrow> string" where
  "stored_uuid t = (case parse_uuid t of Inr u \<Rightarrow> u | Inl _ \<Rightarrow> t)"

definition text_or_empty :: "string option \<Rightarrow> string" where
  "text_or_empty x = (case x of None \<Rightarrow> [] | Some t \<Rightarrow> t)"

text \<open>One event for one file; the result is the identifier, which the event keeps for its next file.\<close>

definition save_event_for_file ::
  "'e lp_env_scheme \<Rightarrow> string \<Rightarrow> event_element \<Rightarrow> nat list \<Rightarrow> string \<Rightarrow> file_element \<Rightarrow> ('s world_scheme, string) py" where
  "save_event_for_file E transfer_uuid e db_agents event_id0 f =
     py_bind (py_get (\<lambda>s. get_one ''File'' (named_files transfer_uuid (fe_original_name f) s))) (\<lambda>r. py_bind (py_lift r) (\<lambda>db_file.
     py_bind (ensure_event_id_is_uuid E event_id0) (\<lambda>event_id.
     py_bind (Event_create (env.truncate E) ((new_event (stored_uuid event_id))\<lparr>e_file_uuid := Some (f_uuid db_file),
         e_event_type := ee_event_type e, e_event_detail := text_or_empty (ee_event_detail e),
         e_event_outcome := text_or_empty (ee_event_outcome e),
         e_event_outcome_detail := text_or_empty (ee_event_outcome_detail e)\<rparr>)) (\<lambda>db_event.
     py_seq (event_agents_add (e_id db_event) db_agents)
    (py_seq (case ee_event_datetime e of None \<Rightarrow> py_ret ()
        | Some d \<Rightarrow> py_mod (\<lambda>s. s\<lparr>Events := row_update (\<lambda>r. e_id r = e_id db_event) (\<lambda>r. r\<lparr>e_event_datetime := d\<rparr>) (Events s)\<rparr>))
    (py_seq (log_event_successfully_created (ee_event_type e) event_id) (py_ret event_id)))))))"

fun save_event_files ::
  "'e lp_env_scheme \<Rightarrow> string \<Rightarrow> event_element \<Rightarrow> nat list \<Rightarrow> string \<Rightarrow> file_element list \<Rightarrow> ('s world_scheme, unit) py" where
  "save_event_files E transfer_uuid e db_agents event_id [] = py_ret ()"
| "save_event_files E transfer_uuid e db_agents event_id (f # fl) =
     py_bind (save_event_for_file E transfer_uuid e db_agents event_id f)
       (\<lambda>event_id'. save_event_files E transfer_uuid e db_agents event_id' fl)"

definition save_events :: "'e lp_env_scheme \<Rightarrow> string \<Rightarrow> valid_event list \<Rightarrow> ('s world_scheme, unit) py" where
  "save_events E transfer_uuid valid_events = py_for valid_events (\<lambda>v.
     py_bind (get_or_create_agents (ve_agents v)) (\<lambda>db_agents.
     save_event_files E transfer_uuid (ve_event v) (map a_id db_agents) (ee_event_id (ve_event v)) (ve_files v)))"

section \<open>The script\<close>

definition load_document :: "'e lp_env_scheme \<Rightarrow> string \<Rightarrow> premis_tree \<Rightarrow> ('s world_scheme, int) py" where
  "load_document E transfer_uuid tree =
     py_bind (get_elements E tree (pt_objects tree) (\<lambda>p. py_ret (file_element_factory p)) fe_identifier) (\<lambda>files.
     py_bind (get_elements E tree (pt_agents tree) (\<lambda>p. py_ret (agent_element_factory p)) ae_identifier) (\<lambda>agents.
     py_bind (get_elements E tree (pt_events tree) (event_element_factory E) ee_identifier) (\<lambda>events0.
     py_bind (get_invalid_file_identifiers files transfer_uuid) (\<lambda>invalid_file_identifiers.
     (let events = relate_agents_to_events agents (relate_files_to_events files events0) in
      py_bind (print_unrelated_elements files agents events) (\<lambda>unrelated_elements_exist.
      py_bind (print_nonexistent_references files agents events) (\<lambda>invalid_relationships_exist.
      py_bind (get_valid_events files agents invalid_file_identifiers (map snd events)) (\<lambda>(valid_events, invalid_events_exist).
      if unrelated_elements_exist \<or> invalid_relationships_exist \<or> invalid_events_exist then py_ret 1
      else py_seq (save_events E transfer_uuid valid_events) (py_ret 0)))))))))"

definition load_premis_main :: "'e lp_env_scheme \<Rightarrow> ('s world_scheme, int) py" where
  "load_premis_main E =
     py_bind (py_get (\<lambda>s. take 3 (drop 1 (j_args (cur_job s))))) (\<lambda>args. case args of
       [transfer_uuid, xsd_path, xml_path] \<Rightarrow>
         py_bind (fs_get (\<lambda>n. os_isfile n xml_path)) (\<lambda>isfile.
         if \<not> isfile then py_seq (log_missing_events_xml xml_path) (py_ret 0)
         else py_bind (get_xml_tree E xsd_path xml_path) (\<lambda>tree. case tree of
             None \<Rightarrow> py_ret 1
           | Some tree \<Rightarrow> load_document E transfer_uuid tree))
     | _ \<Rightarrow> py_raise (ValueError ''not enough values to unpack''))"

definition load_premis_job :: "'e lp_env_scheme \<Rightarrow> ('s world_scheme, unit) py" where
  "load_premis_job E = JobContext (env_traceback E) True
     (atomic (py_bind (load_premis_main E) (\<lambda>code. upd_job (set_status code ''success''))))"

section \<open>Computations that only log\<close>

text \<open>From \<open>s\<close> the computation returns \<open>v\<close> and changes nothing but output and log.\<close>

definition logs :: "'s jstate_scheme \<Rightarrow> ('s jstate_scheme, 'a) py \<Rightarrow> 'a \<Rightarrow> bool" where
  "logs s m v \<longleftrightarrow> (\<exists>t. m s = (Inr v, t) \<and> only_logged s t)"

named_theorems logs_intros "computations that only log, one rule per construct"

lemma logs_ret [logs_intros]: "logs s (py_ret v) v"
  by (simp add: logs_def py_simps)

lemma logs_print [logs_intros]: "logs s (job_pyprint Stdout xs) ()" "logs s (job_pyprint Stderr xs) ()"
  by (auto simp: logs_def py_simps only_logged_def)

lemma logs_get: "logs s (py_get g) (g s)"
  by (simp add: logs_def py_simps)

lemma logs_bind:
  assumes "logs s m v" and "\<And>t. only_logged s t \<Longrightarrow> logs t (f v) w"
  shows "logs s (py_bind m f) w"
proof -
  obtain t where t: "m s = (Inr v, t)" "only_logged s t" using assms(1) by (auto simp: logs_def)
  obtain u where "f v t = (Inr w, u)" "only_logged t u" using assms(2) [OF t(2)] by (auto simp: logs_def)
  with t show ?thesis by (auto simp: logs_def py_bind_apply intro: only_logged_trans)
qed

lemma logs_seq: "logs s m v \<Longrightarrow> (\<And>t. only_logged s t \<Longrightarrow> logs t k w) \<Longrightarrow> logs s (py_seq m k) w"
  unfolding py_seq_def by (rule logs_bind)

lemma logs_when [logs_intros]: "logs s m () \<Longrightarrow> logs s (py_when b m) ()"
  by (simp add: py_when_def logs_ret)

lemma logs_report_each:
  assumes "\<And>x s. logs s (log x) ()"
  shows "logs s (report_each bad log xs) (list_ex bad xs)"
proof (induction xs arbitrary: s)
  case (Cons x xs)
  have "logs s (report_each bad log (x # xs)) (bad x \<or> list_ex bad xs)"
    unfolding report_each.simps
    by (rule logs_seq [OF logs_when [OF assms]], rule logs_bind [OF Cons.IH], rule logs_ret)
  then show ?case by simp
qed (simp add: logs_ret)

lemma logs_or: "(\<And>s. logs s m b) \<Longrightarrow> (\<And>s. logs s k c) \<Longrightarrow> logs s (py_or m k) (b \<or> c)"
  unfolding py_or_def by (rule logs_bind) (auto simp: logs_ret)

lemmas log_defs = log_missing_original_name_def log_filename_mismatch_def log_event_without_files_def log_event_without_agents_def
  log_missing_events_xml_def log_invalid_event_datetime_def log_unrelated_file_def log_unrelated_agent_def
  log_unrelated_event_to_files_def log_unrelated_event_to_agents_def log_nonexistent_def
  log_file_related_to_nonexistent_events_def log_agent_related_to_nonexistent_events_def
  log_event_related_to_nonexistent_files_def log_event_related_to_nonexistent_agents_def log_event_id_change_def
  log_event_successfully_created_def log_missing_xsd_def log_invalid_xsd_def log_invalid_events_xml_def

lemma logs_log:
  "logs s (log_missing_original_name i) ()" "logs s (log_filename_mismatch i n) ()" "logs s (log_event_without_files i) ()"
  "logs s (log_event_without_agents i) ()" "logs s (log_invalid_event_datetime p) ()"
  unfolding log_defs by (rule logs_print)+

lemma logs_unrelated:
  fixes s :: "'s jstate_scheme"
  shows "logs s (print_unrelated_elements files agents events)
     ((\<exists>i \<in> fst ` set files. \<forall>(k, e) \<in> set events. i \<notin> set (ee_files e)) \<or>
      (\<exists>i \<in> fst ` set agents. \<forall>(k, e) \<in> set events. i \<notin> set (ee_agents e)) \<or>
      (\<exists>(k, e) \<in> set events. ee_files e = [] \<or> ee_agents e = []))"
proof -
  have f: "logs s (print_unrelated_files files events) (\<exists>i \<in> fst ` set files. \<forall>(k, e) \<in> set events. i \<notin> set (ee_files e))" for s
    using logs_report_each [of log_unrelated_file s "\<lambda>i. i \<notin> set (concat (map (\<lambda>(_, e). ee_files e) events))" "map fst files"]
    by (simp add: print_unrelated_files_def log_defs logs_print list_ex_iff case_prod_beta)
  have a: "logs s (print_unrelated_agents agents events) (\<exists>i \<in> fst ` set agents. \<forall>(k, e) \<in> set events. i \<notin> set (ee_agents e))" for s
    using logs_report_each [of log_unrelated_agent s "\<lambda>i. i \<notin> set (concat (map (\<lambda>(_, e). ee_agents e) events))" "map fst agents"]
    by (simp add: print_unrelated_agents_def log_defs logs_print list_ex_iff case_prod_beta)
  have e: "logs s (print_unrelated_events events) (\<exists>(k, e) \<in> set events. ee_files e = [] \<or> ee_agents e = [])" for s :: "'s jstate_scheme"
  proof -
    let ?log = "\<lambda>(i, e). py_seq (py_when (ee_files e = []) (log_unrelated_event_to_files i))
        (py_when (ee_agents e = []) (log_unrelated_event_to_agents i)) :: ('s jstate_scheme, unit) py"
    have "logs s (?log x) ()" for x s
      unfolding log_defs by (cases x) (auto intro!: logs_seq [OF logs_when [OF logs_print(2)]] logs_when logs_print)
    then have "logs s (report_each (\<lambda>(i, e). ee_files e = [] \<or> ee_agents e = []) ?log events)
        (list_ex (\<lambda>(i, e). ee_files e = [] \<or> ee_agents e = []) events)" by (rule logs_report_each)
    then show ?thesis by (simp add: print_unrelated_events_def list_ex_iff)
  qed
  show ?thesis unfolding print_unrelated_elements_def by (rule logs_or [OF f logs_or [OF a e]])
qed

lemma dangling_empty: "dangling ids d = [] \<longleftrightarrow> set ids \<subseteq> fst ` set d"
  by (auto simp: dangling_def filter_empty_conv)

lemma logs_nonexistent:
  "logs s (print_nonexistent_references files agents events)
     (\<not> ((\<forall>(i, f) \<in> set files. set (fe_events f) \<subseteq> fst ` set events) \<and>
         (\<forall>(i, a) \<in> set agents. set (ae_events a) \<subseteq> fst ` set events) \<and>
         (\<forall>(k, e) \<in> set events. set (ee_files e) \<subseteq> fst ` set files) \<and>
         (\<forall>(k, e) \<in> set events. set (ee_agents e) \<subseteq> fst ` set agents)))"
proof -
  have each: "logs s (report_each (\<lambda>(i, x). dangling (g x) d \<noteq> []) (\<lambda>(i, x). log_nonexistent a b i (dangling (g x) d)) xs)
      (\<exists>(i, x) \<in> set xs. \<not> set (g x) \<subseteq> fst ` set d)" for s :: "'a jstate_scheme" and g and d :: "(premis_id \<times> 'd) list" and a b xs
    using logs_report_each [of "\<lambda>(i, x). log_nonexistent a b i (dangling (g x) d)" s "\<lambda>(i, x). dangling (g x) d \<noteq> []" xs]
    by (auto simp: list_ex_iff log_defs logs_print dangling_empty split: prod.splits)
  have "logs s (print_nonexistent_references files agents events)
     ((\<exists>(i, f) \<in> set files. \<not> set (fe_events f) \<subseteq> fst ` set events) \<or> (\<exists>(i, a) \<in> set agents. \<not> set (ae_events a) \<subseteq> fst ` set events) \<or>
      (\<exists>(k, e) \<in> set events. \<not> set (ee_files e) \<subseteq> fst ` set files) \<or> (\<exists>(k, e) \<in> set events. \<not> set (ee_agents e) \<subseteq> fst ` set agents))"
    unfolding print_nonexistent_references_def print_files_related_to_nonexistent_events_def print_agents_related_to_nonexistent_events_def
      print_events_related_to_nonexistent_files_def print_events_related_to_nonexistent_agents_def
      log_file_related_to_nonexistent_events_def log_agent_related_to_nonexistent_events_def
      log_event_related_to_nonexistent_files_def log_event_related_to_nonexistent_agents_def
    by (intro logs_or each)
  then show ?thesis by (simp add: case_prod_beta)
qed

section \<open>What the relations become\<close>

lemma set_set_add [simp]: "set (set_add xs x) = insert x (set xs)"
  by (auto simp: set_add_def)

lemma set_foldl_set_add [simp]: "set (foldl set_add xs ys) = set xs \<union> set ys"
  by (induction ys arbitrary: xs) auto

text \<open>The keys of the elements that name \<open>k\<close>, once for every time they do.\<close>

definition naming :: "('x \<Rightarrow> 'k list) \<Rightarrow> 'k \<Rightarrow> ('i \<times> 'x) list \<Rightarrow> 'i list" where
  "naming ks k xs = concat (map (\<lambda>(i, x). map (\<lambda>_. i) (filter ((=) k) (ks x))) xs)"

lemma set_naming: "set (naming ks k xs) = {i. \<exists>x. (i, x) \<in> set xs \<and> k \<in> set (ks x)}"
  by (auto simp: naming_def)

text \<open>The nested loops are one map over the dictionary.\<close>

lemma relate_loops:
  "foldl (\<lambda>d (i, x). foldl (\<lambda>d k. dict_change d k (upd i)) d (ks x)) d xs =
     map (\<lambda>(k, v). (k, foldl (\<lambda>v i. upd i v) v (naming ks k xs))) d"
proof (induction xs arbitrary: d)
  case Nil
  then show ?case by (simp add: naming_def map_idI)
next
  case (Cons y xs)
  obtain i x where y: "y = (i, x)" by (cases y)
  have one: "foldl (\<lambda>d k. dict_change d k (upd i)) d ks' =
      map (\<lambda>(k, v). (k, foldl (\<lambda>v i. upd i v) v (map (\<lambda>_. i) (filter ((=) k) ks')))) d" for ks' d
    by (induction ks' arbitrary: d) (auto simp: dict_change_def intro!: map_idI [symmetric])
  show ?case unfolding y foldl.simps prod.case one Cons.IH by (auto simp: naming_def)
qed

definition event_files :: "(premis_id \<times> file_element) list \<Rightarrow> premis_id \<Rightarrow> event_element \<Rightarrow> premis_id list" where
  "event_files files k e = foldl set_add (ee_files e) (naming fe_events k files)"

definition event_agents :: "(premis_id \<times> agent_element) list \<Rightarrow> premis_id \<Rightarrow> event_element \<Rightarrow> premis_id list" where
  "event_agents agents k e = foldl set_add (ee_agents e) (naming ae_events k agents)"

lemma relate_events:
  "relate_agents_to_events agents (relate_files_to_events files events) =
     map (\<lambda>(k, e). (k, e\<lparr>ee_files := event_files files k e, ee_agents := event_agents agents k e\<rparr>)) events"
proof -
  have "foldl (\<lambda>v i. v\<lparr>ee_files := set_add (ee_files v) i\<rparr>) v is = v\<lparr>ee_files := foldl set_add (ee_files v) is\<rparr>"
    for v :: event_element and "is" by (induction "is" arbitrary: v) auto
  moreover have "foldl (\<lambda>v i. v\<lparr>ee_agents := set_add (ee_agents v) i\<rparr>) v is = v\<lparr>ee_agents := foldl set_add (ee_agents v) is\<rparr>"
    for v :: event_element and "is" by (induction "is" arbitrary: v) auto
  ultimately show ?thesis
    by (simp add: relate_files_to_events_def relate_agents_to_events_def relate_loops event_files_def event_agents_def
        comp_def case_prod_beta)
qed

lemma set_event_files: "set (event_files files k e) = set (ee_files e) \<union> {i. \<exists>f. (i, f) \<in> set files \<and> k \<in> set (fe_events f)}"
  by (simp add: event_files_def set_naming)

lemma set_event_agents: "set (event_agents agents k e) = set (ee_agents e) \<union> {i. \<exists>a. (i, a) \<in> set agents \<and> k \<in> set (ae_events a)}"
  by (simp add: event_agents_def set_naming)

section \<open>Which documents are accepted\<close>

text \<open>
  The relation between events and files, or agents, that the document states on either side, and what a document
  must fulfil: every file and agent takes part in an event, every reference resolves, and every event has an agent and
  a file of the transfer.
\<close>

definition usable_file :: "string \<Rightarrow> 's world_scheme \<Rightarrow> file_element \<Rightarrow> bool" where
  "usable_file transfer_uuid s f \<longleftrightarrow> fe_original_name f \<noteq> [] \<and> named_files transfer_uuid (fe_original_name f) s \<noteq> []"

definition consistent ::
  "(file_element \<Rightarrow> bool) \<Rightarrow> (premis_id \<times> file_element) list \<Rightarrow> (premis_id \<times> agent_element) list \<Rightarrow> (premis_id \<times> event_element) list \<Rightarrow> bool" where
  "consistent usable files agents events \<longleftrightarrow>
     (\<forall>i \<in> fst ` set files. \<exists>(k, e) \<in> set events. i \<in> set (event_files files k e)) \<and>
     (\<forall>i \<in> fst ` set agents. \<exists>(k, e) \<in> set events. i \<in> set (event_agents agents k e)) \<and>
     (\<forall>(i, f) \<in> set files. set (fe_events f) \<subseteq> fst ` set events) \<and>
     (\<forall>(i, a) \<in> set agents. set (ae_events a) \<subseteq> fst ` set events) \<and>
     (\<forall>(k, e) \<in> set events. set (ee_files e) \<subseteq> fst ` set files \<and> set (ee_agents e) \<subseteq> fst ` set agents \<and>
        set (event_agents agents k e) \<noteq> {} \<and> (\<exists>i f. i \<in> set (event_files files k e) \<and> (i, f) \<in> set files \<and> usable f))"

lemma logs_invalid_files:
  fixes s :: "'s world_scheme"
  shows "logs s (get_invalid_file_identifiers files u) (map fst (filter (\<lambda>(i, f). \<not> usable_file u s f) files))"
proof (induction files arbitrary: s)
  case (Cons x files)
  obtain i f where x: "x = (i, f)" by (cases x)
  have same: "usable_file u t = usable_file u s" if "only_logged s t" for t
    using only_logged_same(1) [OF that] by (simp add: fun_eq_iff usable_file_def named_files_def)
  have "logs s (if fe_original_name f = [] then py_seq (log_missing_original_name i) (py_ret [i])
        else py_bind (py_get (named_files u (fe_original_name f))) (\<lambda>found.
          if found = [] then py_seq (log_filename_mismatch i (fe_original_name f)) (py_ret [i]) else py_ret []))
      (if usable_file u s f then [] else [i])"
  proof (cases "fe_original_name f = []")
    case True
    then show ?thesis by (simp add: usable_file_def logs_seq [OF logs_log(1) logs_ret])
  next
    case False
    have "logs s (py_bind (py_get (named_files u (fe_original_name f))) (\<lambda>found.
        if found = [] then py_seq (log_filename_mismatch i (fe_original_name f)) (py_ret [i]) else py_ret []))
      (if named_files u (fe_original_name f) s \<noteq> [] then [] else [i])"
      by (rule logs_bind [OF logs_get]) (simp add: logs_ret logs_seq [OF logs_log(2) logs_ret])
    with False show ?thesis by (simp add: usable_file_def)
  qed
  then have "logs s (get_invalid_file_identifiers ((i, f) # files) u)
      ((if usable_file u s f then [] else [i]) @ map fst (filter (\<lambda>(i, f). \<not> usable_file u s f) files))"
    unfolding get_invalid_file_identifiers.simps
  proof (rule logs_bind)
    fix t :: "'s world_scheme" assume "only_logged s t"
    from Cons.IH [of t, unfolded same [OF this]]
    show "logs t (py_bind (get_invalid_file_identifiers files u) (\<lambda>rest. py_ret ((if usable_file u s f then [] else [i]) @ rest)))
      ((if usable_file u s f then [] else [i]) @ map fst (filter (\<lambda>(i, f). \<not> usable_file u s f) files))"
      by (rule logs_bind) (rule logs_ret)
  qed
  then show ?case by (cases "usable_file u s f") (simp_all add: x del: get_invalid_file_identifiers.simps)
qed (simp add: logs_ret)

definition complete_event :: "(premis_id \<times> file_element) list \<Rightarrow> (premis_id \<times> agent_element) list \<Rightarrow> premis_id list \<Rightarrow> event_element \<Rightarrow> bool" where
  "complete_event files agents ignore e \<longleftrightarrow> get_event_agents e agents \<noteq> [] \<and> get_event_files e files ignore \<noteq> []"

lemma logs_valid_events:
  "logs s (get_valid_events files agents ignore es)
     (map (\<lambda>e. \<lparr>ve_agents = get_event_agents e agents, ve_files = get_event_files e files ignore, ve_event = e\<rparr>)
        (filter (complete_event files agents ignore) es),
      list_ex (\<lambda>e. \<not> complete_event files agents ignore e) es)"
proof (induction es arbitrary: s)
  case (Cons e es)
  note IH = logs_bind [OF Cons.IH]
  consider "get_event_agents e agents = []" "\<not> complete_event files agents ignore e"
    | "get_event_agents e agents \<noteq> []" "get_event_files e files ignore = []" "\<not> complete_event files agents ignore e"
    | "get_event_agents e agents \<noteq> []" "get_event_files e files ignore \<noteq> []" "complete_event files agents ignore e"
    by (auto simp: complete_event_def)
  then show ?case
  proof cases
    case 1
    then show ?thesis by (auto intro!: logs_seq [OF logs_log(4)] IH logs_ret)
  next
    case 2
    then show ?thesis by (auto intro!: logs_seq [OF logs_log(3)] IH logs_ret)
  next
    case 3
    then show ?thesis by (auto simp: Let_def intro!: IH logs_ret)
  qed
qed (simp add: logs_ret)

section \<open>The dictionaries of a document\<close>

definition elements_of :: "('p \<Rightarrow> 'a) \<Rightarrow> ('a \<Rightarrow> premis_id) \<Rightarrow> 'p list \<Rightarrow> (premis_id \<times> 'a) list" where
  "elements_of factory key ps = foldl (\<lambda>d p. dict_set d (key (factory p)) (factory p)) [] ps"

lemma elements_distinct: "distinct (map fst (elements_of factory key ps))"
proof -
  have "distinct (map fst d) \<Longrightarrow> distinct (map fst (foldl (\<lambda>d p. dict_set d (key (factory p)) (factory p)) d ps))" for d
    by (induction ps arbitrary: d) (auto simp: dict_set_distinct)
  then show ?thesis by (simp add: elements_of_def)
qed

definition known_version :: "'e lp_env_scheme \<Rightarrow> premis_tree \<Rightarrow> bool" where
  "known_version E tree \<longleftrightarrow> (case pt_version tree of None \<Rightarrow> lp_premis_version E | Some v \<Rightarrow> v) \<in> set (lp_versions E)"

lemma logs_get_elements:
  assumes "known_version E tree" and "\<And>p s. logs s (factory p) (g p)"
  shows "logs s (get_elements E tree ps factory key) (elements_of g key ps)"
proof -
  have "logs s (add_elements factory key ps d) (foldl (\<lambda>d p. dict_set d (key (g p)) (g p)) d ps)" for d s
  proof (induction ps arbitrary: d s)
    case (Cons p ps)
    show ?case unfolding add_elements.simps foldl.simps by (rule logs_bind [OF assms(2) Cons.IH])
  qed (simp add: logs_ret)
  then show ?thesis using assms(1) by (simp add: get_elements_def elements_of_def known_version_def Let_def)
qed

text \<open>An event without a date it can be read from has none.\<close>

definition event_of :: "'e lp_env_scheme \<Rightarrow> premis_event \<Rightarrow> event_element" where
  "event_of E p =
     \<lparr>ee_identifier = pe_identifier p, ee_event_id = snd (pe_identifier p), ee_event_type = pe_type p,
      ee_event_datetime = (if pe_date_time p = [] then None
         else case parse_datetime E (pe_date_time p) of Inl _ \<Rightarrow> None | Inr d \<Rightarrow> d),
      ee_event_detail = get_premis_element_children_text_attribute (pe_event_details p),
      ee_event_outcome = get_premis_element_children_text_attribute (pe_event_outcomes p),
      ee_event_outcome_detail = get_premis_element_children_text_attribute (pe_outcome_detail_notes p),
      ee_files = get_premis_element_children_identifiers (pe_linking_objects p),
      ee_agents = get_premis_element_children_identifiers (pe_linking_agents p)\<rparr>"

text \<open>Django's parsers raise \<open>ValueError\<close> for a date that does not exist, and nothing else.\<close>

definition dates_raise_ValueError :: "'e lp_env_scheme \<Rightarrow> bool" where
  "dates_raise_ValueError E \<longleftrightarrow> (\<forall>t e. lp_dateparse_datetime E t = Inl e \<or> lp_dateparse_date E t = Inl e \<longrightarrow> (\<exists>m. e = ValueError m))"

lemma logs_event_factory:
  assumes "dates_raise_ValueError E"
  shows "logs s (event_element_factory E p) (event_of E p)"
proof -
  have bad: "\<exists>m. e = ValueError m" if "parse_datetime E t = Inl e" for t e
    using that assms unfolding parse_datetime_def dates_raise_ValueError_def by (auto split: sum.splits option.splits if_splits)
  have "logs s (if pe_date_time p = [] then py_ret None
        else py_try (py_lift (parse_datetime E (pe_date_time p)))
          (\<lambda>e. case e of ValueError _ \<Rightarrow> Some (py_seq (log_invalid_event_datetime p) (py_ret None)) | _ \<Rightarrow> None))
      (ee_event_datetime (event_of E p))"
  proof (cases "parse_datetime E (pe_date_time p)")
    case (Inl e)
    then obtain m where "e = ValueError m" using bad by blast
    then show ?thesis using Inl logs_seq [OF logs_log(5) logs_ret, of s p None]
      by (auto simp: event_of_def logs_def py_try_apply py_lift_apply py_ret_apply)
  qed (auto simp: event_of_def logs_def py_try_apply py_lift_apply py_ret_apply)
  then show ?thesis
    unfolding event_element_factory_def by (rule logs_bind) (simp add: event_of_def logs_ret)
qed

section \<open>Checks and relations together\<close>

lemma looked_up_empty: "looked_up d ids = [] \<longleftrightarrow> set ids \<inter> fst ` set d = {}"
  by (auto simp: looked_up_def filter_empty_conv)

lemma consistent_iff:
  assumes dist: "distinct (map fst files)"
    and events': "events' = map (\<lambda>(k, e). (k, e\<lparr>ee_files := event_files files k e, ee_agents := event_agents agents k e\<rparr>)) events"
  shows "consistent usable files agents events \<longleftrightarrow>
    \<not> ((\<exists>i \<in> fst ` set files. \<forall>(k, e) \<in> set events'. i \<notin> set (ee_files e)) \<or>
       (\<exists>i \<in> fst ` set agents. \<forall>(k, e) \<in> set events'. i \<notin> set (ee_agents e)) \<or>
       (\<exists>(k, e) \<in> set events'. ee_files e = [] \<or> ee_agents e = [])) \<and>
    ((\<forall>(i, f) \<in> set files. set (fe_events f) \<subseteq> fst ` set events') \<and>
     (\<forall>(i, a) \<in> set agents. set (ae_events a) \<subseteq> fst ` set events') \<and>
     (\<forall>(k, e) \<in> set events'. set (ee_files e) \<subseteq> fst ` set files) \<and>
     (\<forall>(k, e) \<in> set events'. set (ee_agents e) \<subseteq> fst ` set agents)) \<and>
    (\<forall>(k, e) \<in> set events'. complete_event files agents (map fst (filter (\<lambda>(i, f). \<not> usable f) files)) e)"
proof -
  have keys: "fst ` set events' = fst ` set events" by (force simp: events')
  have refs: "set (event_files files k e) \<subseteq> fst ` set files \<longleftrightarrow> set (ee_files e) \<subseteq> fst ` set files"
    "set (event_agents agents k e) \<subseteq> fst ` set agents \<longleftrightarrow> set (ee_agents e) \<subseteq> fst ` set agents" for k e
    unfolding set_event_files set_event_agents by force+
  have ignored: "i \<notin> set (map fst (filter (\<lambda>(i, f). \<not> usable f) files)) \<longleftrightarrow> usable f" if "(i, f) \<in> set files" for i f
    using that by (cases i) (auto simp: image_iff dest: eq_key_imp_eq_value [OF dist])
  have complete: "complete_event files agents (map fst (filter (\<lambda>(i, f). \<not> usable f) files))
        (e\<lparr>ee_files := event_files files k e, ee_agents := event_agents agents k e\<rparr>) \<longleftrightarrow>
      set (event_agents agents k e) \<inter> fst ` set agents \<noteq> {} \<and> (\<exists>i f. i \<in> set (event_files files k e) \<and> (i, f) \<in> set files \<and> usable f)" for k e
  proof -
    have "(\<exists>i. i \<in> set (event_files files k e) \<and> i \<notin> set (map fst (filter (\<lambda>(i, f). \<not> usable f) files)) \<and> i \<in> fst ` set files) \<longleftrightarrow>
        (\<exists>i f. i \<in> set (event_files files k e) \<and> (i, f) \<in> set files \<and> usable f)"
      using ignored by (metis (no_types, lifting) image_iff prod.collapse fst_conv)
    then show ?thesis
      by (auto simp: complete_event_def get_event_agents_def get_event_files_def looked_up_empty)
  qed
  let ?U = "\<lambda>x :: premis_id \<times> event_element. (snd x)\<lparr>ee_files := event_files files (fst x) (snd x), ee_agents := event_agents agents (fst x) (snd x)\<rparr>"
  let ?refs = "\<lambda>x. set (ee_files (snd x)) \<subseteq> fst ` set files \<and> set (ee_agents (snd x)) \<subseteq> fst ` set agents"
  let ?full = "\<lambda>x. set (event_agents agents (fst x) (snd x)) \<noteq> {} \<and>
      (\<exists>i f. i \<in> set (event_files files (fst x) (snd x)) \<and> (i, f) \<in> set files \<and> usable f)"
  have all: "(\<forall>(k, e) \<in> set events'. P k e) \<longleftrightarrow> (\<forall>x \<in> set events. P (fst x) (?U x))" for P
    by (simp add: events' case_prod_beta)
  have one: "(\<not> (event_files files (fst x) (snd x) = [] \<or> event_agents agents (fst x) (snd x) = []) \<and>
      (set (event_files files (fst x) (snd x)) \<subseteq> fst ` set files \<and> set (event_agents agents (fst x) (snd x)) \<subseteq> fst ` set agents) \<and>
      complete_event files agents (map fst (filter (\<lambda>(i, f). \<not> usable f) files)) (?U x)) \<longleftrightarrow> ?refs x \<and> ?full x" for x
  proof (cases "?refs x")
    case True
    then have "set (event_agents agents (fst x) (snd x)) \<inter> fst ` set agents = set (event_agents agents (fst x) (snd x))"
      using refs(2) [of "fst x" "snd x"] by (simp add: Int_absorb2)
    with True show ?thesis unfolding refs complete by auto
  qed (simp only: refs, blast)
  have "(\<exists>(k, e) \<in> set events'. P k e) \<longleftrightarrow> \<not> (\<forall>(k, e) \<in> set events'. \<not> P k e)" for P by auto
  note ex = this
  show ?thesis (is "_ \<longleftrightarrow> ?R")
  proof -
    have "?R \<longleftrightarrow> (\<forall>i \<in> fst ` set files. \<exists>(k, e) \<in> set events. i \<in> set (event_files files k e)) \<and>
     (\<forall>i \<in> fst ` set agents. \<exists>(k, e) \<in> set events. i \<in> set (event_agents agents k e)) \<and>
     (\<forall>(i, f) \<in> set files. set (fe_events f) \<subseteq> fst ` set events) \<and> (\<forall>(i, a) \<in> set agents. set (ae_events a) \<subseteq> fst ` set events) \<and>
     (\<forall>x \<in> set events. \<not> (event_files files (fst x) (snd x) = [] \<or> event_agents agents (fst x) (snd x) = []) \<and>
      (set (event_files files (fst x) (snd x)) \<subseteq> fst ` set files \<and> set (event_agents agents (fst x) (snd x)) \<subseteq> fst ` set agents) \<and>
      complete_event files agents (map fst (filter (\<lambda>(i, f). \<not> usable f) files)) (?U x))"
      unfolding keys ex all by (auto simp: case_prod_beta ball_conj_distrib)
    also have "\<dots> \<longleftrightarrow> consistent usable files agents events"
      unfolding consistent_def one by (simp add: case_prod_beta conj_assoc)
    finally show ?thesis ..
  qed
qed

definition doc_files :: "premis_tree \<Rightarrow> (premis_id \<times> file_element) list" where
  "doc_files tree = elements_of file_element_factory fe_identifier (pt_objects tree)"

definition doc_agents :: "premis_tree \<Rightarrow> (premis_id \<times> agent_element) list" where
  "doc_agents tree = elements_of agent_element_factory ae_identifier (pt_agents tree)"

definition doc_events :: "'e lp_env_scheme \<Rightarrow> premis_tree \<Rightarrow> (premis_id \<times> event_element) list" where
  "doc_events E tree = elements_of (event_of E) ee_identifier (pt_events tree)"

text \<open>What is saved of a consistent document: every event with its agents and its usable files.\<close>

definition doc_saved :: "(file_element \<Rightarrow> bool) \<Rightarrow> 'e lp_env_scheme \<Rightarrow> premis_tree \<Rightarrow> valid_event list" where
  "doc_saved usable E tree = (let files = doc_files tree; agents = doc_agents tree in
     map (\<lambda>(k, e). \<lparr>ve_agents = looked_up agents (event_agents agents k e),
        ve_files = looked_up files (filter (\<lambda>i. i \<notin> set (map fst (filter (\<lambda>(i, f). \<not> usable f) files))) (event_files files k e)),
        ve_event = e\<lparr>ee_files := event_files files k e, ee_agents := event_agents agents k e\<rparr>\<rparr>) (doc_events E tree))"

lemma load_document_runs:
  assumes "known_version E tree" and "dates_raise_ValueError E"
  shows "\<exists>t. only_logged s t \<and> load_document E u tree s =
     (if consistent (usable_file u s) (doc_files tree) (doc_agents tree) (doc_events E tree)
      then py_seq (save_events E u (doc_saved (usable_file u s) E tree)) (py_ret 0) t else (Inr 1, t))"
proof -
  let ?files = "doc_files tree" and ?agents = "doc_agents tree" and ?events = "doc_events E tree"
  let ?ignore = "map fst (filter (\<lambda>(i, f). \<not> usable_file u s f) ?files)"
  let ?events' = "relate_agents_to_events ?agents (relate_files_to_events ?files ?events)"
  obtain s1 where s1: "get_elements E tree (pt_objects tree) (\<lambda>p. py_ret (file_element_factory p)) fe_identifier s = (Inr ?files, s1)" "only_logged s s1"
    using logs_get_elements [OF assms(1) logs_ret, where g = file_element_factory and key = fe_identifier and s = s and ps = "pt_objects tree"] by (auto simp: logs_def doc_files_def)
  obtain s2 where s2: "get_elements E tree (pt_agents tree) (\<lambda>p. py_ret (agent_element_factory p)) ae_identifier s1 = (Inr ?agents, s2)" "only_logged s1 s2"
    using logs_get_elements [OF assms(1) logs_ret, where g = agent_element_factory and key = ae_identifier and s = s1 and ps = "pt_agents tree"] by (auto simp: logs_def doc_agents_def)
  obtain s3 where s3: "get_elements E tree (pt_events tree) (event_element_factory E) ee_identifier s2 = (Inr ?events, s3)" "only_logged s2 s3"
    using logs_get_elements [OF assms(1), where factory = "event_element_factory E" and g = "event_of E" and s = s2 and ps = "pt_events tree" and key = ee_identifier]
      logs_event_factory [OF assms(2)] by (auto simp: logs_def doc_events_def)
  have ss3: "only_logged s s3" using s1(2) s2(2) s3(2) only_logged_trans by blast
  have "usable_file u s3 = usable_file u s"
    using only_logged_same(1) [OF ss3] by (simp add: fun_eq_iff usable_file_def named_files_def)
  then obtain s4 where s4: "get_invalid_file_identifiers ?files u s3 = (Inr ?ignore, s4)" "only_logged s3 s4"
    using logs_invalid_files [of s3 ?files u] by (auto simp: logs_def)
  obtain b1 s5 where s5: "print_unrelated_elements ?files ?agents ?events' s4 = (Inr b1, s5)" "only_logged s4 s5"
    "b1 \<longleftrightarrow> (\<exists>i \<in> fst ` set ?files. \<forall>(k, e) \<in> set ?events'. i \<notin> set (ee_files e)) \<or>
      (\<exists>i \<in> fst ` set ?agents. \<forall>(k, e) \<in> set ?events'. i \<notin> set (ee_agents e)) \<or>
      (\<exists>(k, e) \<in> set ?events'. ee_files e = [] \<or> ee_agents e = [])"
    using logs_unrelated [of s4 ?files ?agents ?events'] unfolding logs_def by blast
  obtain b2 s6 where s6: "print_nonexistent_references ?files ?agents ?events' s5 = (Inr b2, s6)" "only_logged s5 s6"
    "\<not> b2 \<longleftrightarrow> (\<forall>(i, f) \<in> set ?files. set (fe_events f) \<subseteq> fst ` set ?events') \<and>
         (\<forall>(i, a) \<in> set ?agents. set (ae_events a) \<subseteq> fst ` set ?events') \<and>
         (\<forall>(k, e) \<in> set ?events'. set (ee_files e) \<subseteq> fst ` set ?files) \<and>
         (\<forall>(k, e) \<in> set ?events'. set (ee_agents e) \<subseteq> fst ` set ?agents)"
    using logs_nonexistent [of s5 ?files ?agents ?events'] unfolding logs_def by blast
  let ?valid = "map (\<lambda>e. \<lparr>ve_agents = get_event_agents e ?agents, ve_files = get_event_files e ?files ?ignore, ve_event = e\<rparr>)
        (filter (complete_event ?files ?agents ?ignore) (map snd ?events'))"
  obtain b3 s7 where s7: "get_valid_events ?files ?agents ?ignore (map snd ?events') s6 = (Inr (?valid, b3), s7)" "only_logged s6 s7"
    "b3 = list_ex (\<lambda>e. \<not> complete_event ?files ?agents ?ignore e) (map snd ?events')"
    using logs_valid_events [of s6 ?files ?agents ?ignore "map snd ?events'"] unfolding logs_def by blast
  have b3: "\<not> b3 \<longleftrightarrow> (\<forall>(k, e) \<in> set ?events'. complete_event ?files ?agents ?ignore e)"
    by (auto simp: s7(3) list_ex_iff)
  have iff: "consistent (usable_file u s) ?files ?agents ?events \<longleftrightarrow> \<not> (b1 \<or> b2 \<or> b3)"
    unfolding consistent_iff [OF elements_distinct [of file_element_factory fe_identifier "pt_objects tree", folded doc_files_def] relate_events]
      s5(3) [symmetric] s6(3) [symmetric] b3 [symmetric] by blast
  have saved: "?valid = doc_saved (usable_file u s) E tree" if "\<not> b3"
  proof -
    have "filter (complete_event ?files ?agents ?ignore) (map snd ?events') = map snd ?events'"
      using that b3 by (auto simp: filter_id_conv)
    then show ?thesis
      by (simp add: doc_saved_def relate_events get_event_agents_def get_event_files_def comp_def case_prod_beta Let_def)
  qed
  have "only_logged s s7" using ss3 s4(2) s5(2) s6(2) s7(2) only_logged_trans by blast
  moreover have "load_document E u tree s =
     (if b1 \<or> b2 \<or> b3 then (Inr 1, s7) else py_seq (save_events E u ?valid) (py_ret 0) s7)"
    unfolding load_document_def Let_def
    using s1(1) s2(1) s3(1) s4(1) s5(1) s6(1) s7(1) by (simp add: py_bind_apply py_ret_apply)
  ultimately show ?thesis using iff saved by auto
qed

section \<open>What saving leaves in the tables\<close>

definition st :: "file_row list \<Rightarrow> event_row list \<Rightarrow> agent_row list \<Rightarrow> 's world_scheme \<Rightarrow> bool" where
  "st fl ev ag s \<longleftrightarrow> db_inv s \<and> Files s = fl \<and> Events s = ev \<and> Agents s = ag"

lemma st_upd [simp]:
  "st fl ev ag (s\<lparr>cur_job := j\<rparr>) = st fl ev ag s" "st fl ev ag (s\<lparr>uuids := k\<rparr>) = st fl ev ag s"
  by (simp_all add: st_def)

text \<open>The columns of an agent that identify it, in the table and in the document.\<close>

definition agent_columns :: "agent_row \<Rightarrow> string option \<times> string option \<times> string option \<times> string" where
  "agent_columns r = (a_identifiertype r, a_identifiervalue r, a_name r, a_agenttype r)"

definition element_columns :: "agent_element \<Rightarrow> string option \<times> string option \<times> string option \<times> string" where
  "element_columns a = (Some (fst (ae_identifier a)), Some (snd (ae_identifier a)), ae_name a, ae_type a)"

definition agent_is :: "agent_element \<Rightarrow> agent_row \<Rightarrow> bool" where
  "agent_is a r \<longleftrightarrow> agent_columns r = element_columns a"

text \<open>The agents of the table after those of a list were looked for: one more for each that was missing.\<close>

definition agents_after :: "agent_row list \<Rightarrow> agent_element list \<Rightarrow> agent_row list \<Rightarrow> bool" where
  "agents_after ag as ag' \<longleftrightarrow> (\<exists>new. ag' = ag @ new) \<and>
     map agent_columns ag' = foldl set_add (map agent_columns ag) (map element_columns as)"

lemma agents_after_refl: "agents_after ag [] ag"
  by (simp add: agents_after_def)

lemma agents_after_trans: "agents_after ag as b \<Longrightarrow> agents_after b bs c \<Longrightarrow> agents_after ag (as @ bs) c"
  by (auto simp: agents_after_def)

text \<open>
  The identifier of a new event: the one of the document when it is a UUID that no event has yet, and a newly drawn
  one otherwise. Only the first file of an event can get the former.
\<close>

definition drawn :: "'e lp_env_scheme \<Rightarrow> event_row \<Rightarrow> bool" where
  "drawn E r \<longleftrightarrow> (\<exists>k. e_event_id r = Some (stored_uuid (env_uuid4 E k)))"

definition id_for :: "'e lp_env_scheme \<Rightarrow> string \<Rightarrow> event_row list \<Rightarrow> event_row \<Rightarrow> bool" where
  "id_for E i ev r = (case parse_uuid i of
      Inr w \<Rightarrow> if Some w \<in> e_event_id ` set ev then drawn E r else e_event_id r = Some w
    | Inl _ \<Rightarrow> drawn E r)"

definition row_ids :: "'e lp_env_scheme \<Rightarrow> string \<Rightarrow> event_row list \<Rightarrow> event_row list \<Rightarrow> bool" where
  "row_ids E i ev rows = (case rows of [] \<Rightarrow> True | r # rs \<Rightarrow> id_for E i ev r \<and> list_all (drawn E) rs)"

lemma id_for_taken: "id_for E i ev r \<Longrightarrow> Some (stored_uuid i) \<in> e_event_id ` set ev \<Longrightarrow> drawn E r"
  by (auto simp: id_for_def stored_uuid_def split: sum.splits if_splits)

lemma row_ids_taken: "row_ids E i ev rows \<Longrightarrow> Some (stored_uuid i) \<in> e_event_id ` set ev \<Longrightarrow> list_all (drawn E) rows"
  by (cases rows) (auto simp: row_ids_def dest: id_for_taken)

text \<open>The row of an event for one file: the file at the original location, the texts and, when the document has one, the date.\<close>

definition imported :: "file_row list \<Rightarrow> string \<Rightarrow> event_element \<Rightarrow> nat list \<Rightarrow> file_element \<Rightarrow> event_row \<Rightarrow> bool" where
  "imported fl u e as f r \<longleftrightarrow>
     (\<exists>db. filter (\<lambda>g. f_transfer g = Some u \<and> f_originallocation g = TRANSFER_ORIGINAL_LOCATION_PREFIX @ fe_original_name f) fl = [db] \<and>
        e_file_uuid r = Some (f_uuid db)) \<and>
     e_event_type r = ee_event_type e \<and> e_event_detail r = text_or_empty (ee_event_detail e) \<and>
     e_event_outcome r = text_or_empty (ee_event_outcome e) \<and> e_event_outcome_detail r = text_or_empty (ee_event_outcome_detail e) \<and>
     (\<forall>d. ee_event_datetime e = Some d \<longrightarrow> e_event_datetime r = d) \<and> set (e_agents r) = set as"

lemma get_or_create_agent_ensures:
  "ensures (st fl ev ag) (get_or_create_agent a :: ('s world_scheme, agent_row) py)
     (\<lambda>r t. \<exists>ag'. st fl ev ag' t \<and> agents_after ag [a] ag' \<and> r \<in> set ag' \<and> agent_is a r)"
proof (unfold ensures_def, intro allI impI)
  fix s :: "'s world_scheme" and r t
  assume s: "st fl ev ag s" and run: "get_or_create_agent a s = (Inr r, t)"
  let ?same = "\<lambda>r. a_identifiertype r = Some (fst (ae_identifier a)) \<and>
        a_identifiervalue r = Some (snd (ae_identifier a)) \<and> a_name r = ae_name a \<and> a_agenttype r = ae_type a"
  have same: "?same r \<longleftrightarrow> agent_columns r = element_columns a" for r
    by (simp add: agent_columns_def element_columns_def)
  let ?found = "get_one ''Agent'' (filter ?same (Agents s))"
  show "\<exists>ag'. st fl ev ag' t \<and> agents_after ag [a] ag' \<and> r \<in> set ag' \<and> agent_is a r"
  proof (cases ?found)
    case (Inr row)
    from get_one_mem [OF this] have row: "row \<in> set (Agents s)" "agent_is a row" by (auto simp: agent_is_def same)
    moreover have "element_columns a \<in> set (map agent_columns (Agents s))" using row unfolding agent_is_def set_map by (metis image_eqI)
    moreover have "r = row" "t = s" using run Inr by (simp_all add: get_or_create_agent_def py_simps)
    ultimately show ?thesis using s by (intro exI [of _ ag]) (simp add: st_def agents_after_def set_add_def)
  next
    case (Inl e)
    let ?row = "\<lparr>a_id = next_pk s, a_identifiertype = Some (fst (ae_identifier a)),
        a_identifiervalue = Some (snd (ae_identifier a)), a_name = ae_name a, a_agenttype = ae_type a\<rparr>"
    have t: "e = DoesNotExist ''Agent''" "r = ?row" "t = s\<lparr>next_pk := Suc (next_pk s), Agents := Agents s @ [?row]\<rparr>"
      using run Inl by (auto simp: get_or_create_agent_def py_simps auto_pk_def Let_def row_insert_def split: if_splits)
    have "filter ?same (Agents s) = []" using Inl t(1) by (auto simp: get_one_def split: list.splits)
    then have "element_columns a \<notin> set (map agent_columns (Agents s))" by (auto simp: filter_empty_conv same)
    moreover have "agent_columns ?row = element_columns a" by (simp add: agent_columns_def element_columns_def)
    moreover have "db_inv t" using db_inv_pk [of s] s unfolding t(3)
      by (auto simp: st_def db_inv_def file_fks_ok_def event_fks_ok_def derivation_fks_ok_def)
    ultimately show ?thesis using s t
      by (intro exI [of _ "ag @ [?row]"]) (simp add: st_def agent_is_def agents_after_def set_add_def)
  qed
qed

lemma get_or_create_agents_ensures:
  "ensures (st fl ev ag) (get_or_create_agents as :: ('s world_scheme, agent_row list) py)
     (\<lambda>rs t. \<exists>ag'. st fl ev ag' t \<and> agents_after ag as ag' \<and> set rs \<subseteq> set ag' \<and> list_all2 agent_is as rs)"
  unfolding get_or_create_agents_def
proof (induction as arbitrary: ag)
  case Nil
  show ?case by (auto intro!: ensures_ret exI [of _ ag] agents_after_refl)
next
  case (Cons a as)
  show ?case
    unfolding py_map.simps
  proof (rule ensures_bind [OF get_or_create_agent_ensures], rule ensures_ex, rule ensures_pure)
    fix r ag1 assume r: "agents_after ag [a] ag1 \<and> r \<in> set ag1 \<and> agent_is a r"
    have more: "agents_after ag (a # as) ag' \<and> r \<in> set ag'" if "agents_after ag1 as ag'" for ag'
      using agents_after_trans [of ag "[a]" ag1 as ag'] r that by (auto simp: agents_after_def)
    show "ensures (st fl ev ag1) (py_bind (py_map get_or_create_agent as) (\<lambda>ys. py_ret (r # ys)) :: ('s world_scheme, agent_row list) py)
       (\<lambda>rs t. \<exists>ag'. st fl ev ag' t \<and> agents_after ag (a # as) ag' \<and> set rs \<subseteq> set ag' \<and> list_all2 agent_is (a # as) rs)"
      by (rule ensures_bind [OF Cons.IH], rule ensures_ret) (use r more in fastforce)
  qed
qed

lemma ensure_id_ensures:
  "ensures (st fl ev ag) (ensure_event_id_is_uuid E i :: ('s world_scheme, string) py)
     (\<lambda>i' t. st fl ev ag t \<and> (\<forall>r. e_event_id r = Some (stored_uuid i') \<longrightarrow> id_for E i ev r))"
proof (unfold ensures_def, intro allI impI)
  fix s :: "'s world_scheme" and i' t
  assume s: "st fl ev ag s" and run: "ensure_event_id_is_uuid E i s = (Inr i', t)"
  let ?new = "env_uuid4 E (uuids s)"
  have draw: "i' = ?new \<and> (\<exists>j. t = s\<lparr>uuids := Suc (uuids s), cur_job := j\<rparr>)"
    if taken: "\<And>w. parse_uuid i = Inr w \<Longrightarrow> Some w \<in> e_event_id ` set (Events s)"
  proof (cases "parse_uuid i")
    case (Inl e)
    then obtain m where "e = ValueError m" by (auto simp: parse_uuid_def Let_def split: if_splits)
    with Inl run show ?thesis
      by (auto simp: ensure_event_id_is_uuid_def py_simps uuid4_def log_defs env.truncate_def)
  next
    case (Inr w)
    then have "list_ex (\<lambda>e. e_event_id e = Some w) (Events s)" using taken by (force simp: list_ex_iff)
    with Inr run show ?thesis
      by (auto simp: ensure_event_id_is_uuid_def py_simps uuid4_def log_defs env.truncate_def)
  qed
  show "st fl ev ag t \<and> (\<forall>r. e_event_id r = Some (stored_uuid i') \<longrightarrow> id_for E i ev r)"
  proof (cases "\<exists>w. parse_uuid i = Inr w \<and> Some w \<notin> e_event_id ` set (Events s)")
    case True
    then obtain w where w: "parse_uuid i = Inr w" "Some w \<notin> e_event_id ` set (Events s)" by blast
    then have "\<not> list_ex (\<lambda>e. e_event_id e = Some w) (Events s)" by (force simp: list_ex_iff)
    then have "i' = i" "t = s"
      using run w(1) by (simp_all add: ensure_event_id_is_uuid_def py_simps)
    with s w show ?thesis by (auto simp: id_for_def stored_uuid_def st_def)
  next
    case False
    then obtain j where "i' = ?new" "t = s\<lparr>uuids := Suc (uuids s), cur_job := j\<rparr>" using draw by blast
    with s False show ?thesis by (auto simp: id_for_def drawn_def st_def split: sum.splits)
  qed
qed

lemma insert_imported_ensures:
  assumes named: "filter (\<lambda>g. f_transfer g = Some u \<and> f_originallocation g = TRANSFER_ORIGINAL_LOCATION_PREFIX @ fe_original_name f) fl = [db]"
  shows "ensures (st fl ev ag)
    (py_bind (Event_create E ((new_event i)\<lparr>e_file_uuid := Some (f_uuid db),
         e_event_type := ee_event_type e, e_event_detail := text_or_empty (ee_event_detail e),
         e_event_outcome := text_or_empty (ee_event_outcome e),
         e_event_outcome_detail := text_or_empty (ee_event_outcome_detail e)\<rparr>)) (\<lambda>db_event.
     py_seq (event_agents_add (e_id db_event) as)
    (py_seq (case ee_event_datetime e of None \<Rightarrow> py_ret ()
        | Some d \<Rightarrow> py_mod (\<lambda>s. s\<lparr>Events := row_update (\<lambda>r. e_id r = e_id db_event) (\<lambda>r. r\<lparr>e_event_datetime := d\<rparr>) (Events s)\<rparr>))
    (py_seq (log_event_successfully_created (ee_event_type e) j) (py_ret j)))) :: ('s world_scheme, string) py)
    (\<lambda>j' t. j' = j \<and> (\<exists>r. st fl (ev @ [r]) ag t \<and> imported fl u e as f r \<and> e_event_id r = Some i))" (is "ensures _ ?m _")
proof (unfold ensures_def, intro allI impI)
  fix s :: "'s world_scheme" and x t
  assume s: "st fl ev ag s" and run: "?m s = (Inr x, t)"
  have ids: "\<forall>e \<in> set (Events s). e_id e < next_pk s" using s by (simp add: st_def db_inv_def)
  have upd: "row_update (\<lambda>x. e_id x = next_pk s) g (Events s @ [y]) = Events s @ [g y]" if "e_id y = next_pk s" for g y
    using ids that by (subst row_update_append, subst row_update_absent) (auto simp: row_update_sole)
  have date: "keeps db_inv (py_mod (\<lambda>s. s\<lparr>Events := row_update (\<lambda>r. e_id r = k) (\<lambda>r. r\<lparr>e_event_datetime := d\<rparr>) (Events s)\<rparr>))" for k d
    unfolding row_update_def by (rule keeps_mod, rule db_inv_map_events) (auto simp: db_inv_def)
  have "keeps db_inv ?m"
    unfolding log_defs
    by (intro keeps_intros keeps_bind keeps_Event_create date) (simp_all add: new_event_def keeps_def py_simps)
  from keepsD [OF this, of s] have "db_inv t" using run s by (simp add: st_def)
  moreover have "x = j" "Files t = Files s" "Agents t = Agents s"
    "\<exists>r. Events t = Events s @ [r] \<and> imported fl u e as f r \<and> e_event_id r = Some i"
    using run named
    by (auto simp: py_bind_apply Event_create_apply py_seq_apply event_agents_add_def upd py_ret_apply py_mod_apply log_defs
        job_pyprint_apply imported_def new_event_def split: if_splits option.splits)
  ultimately show "x = j \<and> (\<exists>r. st fl (ev @ [r]) ag t \<and> imported fl u e as f r \<and> e_event_id r = Some i)"
    using s by (auto simp: st_def)
qed

lemma save_event_for_file_ensures:
  fixes E :: "'e lp_env_scheme"
  shows "ensures (st fl ev ag) (save_event_for_file E u e as i f :: ('s world_scheme, string) py)
     (\<lambda>i' t. \<exists>r. st fl (ev @ [r]) ag t \<and> imported fl u e as f r \<and> id_for E i ev r \<and> e_event_id r = Some (stored_uuid i'))"
proof -
  let ?named = "filter (\<lambda>g. f_transfer g = Some u \<and> f_originallocation g = TRANSFER_ORIGINAL_LOCATION_PREFIX @ fe_original_name f) fl"
  have found: "ensures (st fl ev ag) (py_get (\<lambda>s. get_one ''File'' (named_files u (fe_original_name f) s)) :: ('s world_scheme, _) py)
      (\<lambda>r t. st fl ev ag t \<and> (\<forall>db. r = Inr db \<longrightarrow> ?named = [db]))"
    by (auto simp: ensures_def py_simps st_def named_files_def get_one_cases)
  have lift: "ensures (\<lambda>t. st fl ev ag t \<and> (\<forall>db. r = Inr db \<longrightarrow> ?named = [db])) (py_lift r :: ('s world_scheme, file_row) py)
      (\<lambda>db t. st fl ev ag t \<and> ?named = [db])" for r
    by (auto simp: ensures_def py_simps)
  show ?thesis
    unfolding save_event_for_file_def
    by (rule ensures_bind [OF found], rule ensures_bind [OF lift], rule ensures_pure,
        rule ensures_bind [OF ensure_id_ensures], rule ensures_pure, rule ensures_weaken [OF insert_imported_ensures]) auto
qed

lemma save_event_files_ensures:
  "ensures (st fl ev ag) (save_event_files E u e as i files :: ('s world_scheme, unit) py)
     (\<lambda>_ t. \<exists>rows. st fl (ev @ rows) ag t \<and> list_all2 (imported fl u e as) files rows \<and> row_ids E i ev rows)"
proof (induction files arbitrary: i ev)
  case Nil
  show ?case by (auto intro!: ensures_ret exI [of _ "[]"] simp: row_ids_def)
next
  case (Cons f files)
  show ?case
    unfolding save_event_files.simps
  proof (rule ensures_bind [OF save_event_for_file_ensures], rule ensures_ex, rule ensures_pure)
    fix i' r assume r: "imported fl u e as f r \<and> id_for E i ev r \<and> e_event_id r = Some (stored_uuid i')"
    have "row_ids E i ev (r # rows)" if "row_ids E i' (ev @ [r]) rows" for rows
      using r row_ids_taken [OF that] by (simp add: row_ids_def)
    then show "ensures (st fl (ev @ [r]) ag) (save_event_files E u e as i' files :: ('s world_scheme, unit) py)
      (\<lambda>_ t. \<exists>rows. st fl (ev @ rows) ag t \<and> list_all2 (imported fl u e as) (f # files) rows \<and> row_ids E i ev rows)"
      by (intro ensures_weaken [OF Cons.IH]) (use r in fastforce)+
  qed
qed

text \<open>The rows of one event: its agents, and one row for each of its files.\<close>

definition event_rows :: "file_row list \<Rightarrow> agent_row list \<Rightarrow> string \<Rightarrow> valid_event \<Rightarrow> event_row list \<Rightarrow> bool" where
  "event_rows fl ag u v rows \<longleftrightarrow> (\<exists>rs. list_all2 agent_is (ve_agents v) rs \<and> set rs \<subseteq> set ag \<and>
     list_all2 (imported fl u (ve_event v) (map a_id rs)) (ve_files v) rows)"

text \<open>The identifiers of the rows of all events, each with the events that were there before it.\<close>

fun rows_ids :: "'e lp_env_scheme \<Rightarrow> event_row list \<Rightarrow> valid_event list \<Rightarrow> event_row list list \<Rightarrow> bool" where
  "rows_ids E ev (v # vs) (rows # rowss) \<longleftrightarrow>
     row_ids E (ee_event_id (ve_event v)) ev rows \<and> rows_ids E (ev @ rows) vs rowss"
| "rows_ids E ev vs rowss \<longleftrightarrow> vs = [] \<and> rowss = []"

lemma event_rows_mono: "event_rows fl ag u v rows \<Longrightarrow> set ag \<subseteq> set ag' \<Longrightarrow> event_rows fl ag' u v rows"
  unfolding event_rows_def by fastforce

lemma agents_after_sub: "agents_after ag as ag' \<Longrightarrow> set ag \<subseteq> set ag'"
  by (auto simp: agents_after_def)

text \<open>One event: its agents are looked for, then its files are gone through.\<close>

lemma save_event_ensures:
  "ensures (st fl ev ag) (py_bind (get_or_create_agents (ve_agents v)) (\<lambda>db_agents.
       save_event_files E u (ve_event v) (map a_id db_agents) (ee_event_id (ve_event v)) (ve_files v)) :: ('s world_scheme, unit) py)
     (\<lambda>_ t. \<exists>rows ag'. st fl (ev @ rows) ag' t \<and> agents_after ag (ve_agents v) ag' \<and> event_rows fl ag' u v rows \<and>
        row_ids E (ee_event_id (ve_event v)) ev rows)"
proof (rule ensures_bind [OF get_or_create_agents_ensures], rule ensures_ex, rule ensures_pure)
  fix rs ag' assume rs: "agents_after ag (ve_agents v) ag' \<and> set rs \<subseteq> set ag' \<and> list_all2 agent_is (ve_agents v) rs"
  show "ensures (st fl ev ag') (save_event_files E u (ve_event v) (map a_id rs) (ee_event_id (ve_event v)) (ve_files v) :: ('s world_scheme, unit) py)
     (\<lambda>_ t. \<exists>rows ag'. st fl (ev @ rows) ag' t \<and> agents_after ag (ve_agents v) ag' \<and> event_rows fl ag' u v rows \<and>
        row_ids E (ee_event_id (ve_event v)) ev rows)"
    by (rule ensures_weaken [OF save_event_files_ensures]) (use rs in \<open>auto simp: event_rows_def\<close>)
qed

lemma save_events_ensures:
  "ensures (st fl ev ag) (save_events E u vs :: ('s world_scheme, unit) py)
     (\<lambda>_ t. \<exists>rowss ag'. st fl (ev @ concat rowss) ag' t \<and> agents_after ag (concat (map ve_agents vs)) ag' \<and>
        list_all2 (event_rows fl ag' u) vs rowss \<and> rows_ids E ev vs rowss)"
  unfolding save_events_def
proof (induction vs arbitrary: ev ag)
  case Nil
  show ?case
    by (simp only: py_for.simps, rule ensures_ret, rule exI [of _ "[]"], rule exI [of _ ag]) (simp add: agents_after_refl)
next
  case (Cons v vs)
  show ?case
    unfolding py_for.simps
  proof (rule ensures_seq [OF save_event_ensures], (rule ensures_ex)+, rule ensures_pure)
    fix rows ag1
    assume first: "agents_after ag (ve_agents v) ag1 \<and> event_rows fl ag1 u v rows \<and> row_ids E (ee_event_id (ve_event v)) ev rows"
    show "ensures (st fl (ev @ rows) ag1) (py_for vs (\<lambda>v. py_bind (get_or_create_agents (ve_agents v)) (\<lambda>db_agents.
          save_event_files E u (ve_event v) (map a_id db_agents) (ee_event_id (ve_event v)) (ve_files v))) :: ('s world_scheme, unit) py)
       (\<lambda>_ t. \<exists>rowss ag'. st fl (ev @ concat rowss) ag' t \<and> agents_after ag (concat (map ve_agents (v # vs))) ag' \<and>
          list_all2 (event_rows fl ag' u) (v # vs) rowss \<and> rows_ids E ev (v # vs) rowss)"
    proof (rule ensures_weaken [OF Cons.IH])
      fix x and t :: "'s world_scheme"
      assume "\<exists>rowss ag'. st fl ((ev @ rows) @ concat rowss) ag' t \<and> agents_after ag1 (concat (map ve_agents vs)) ag' \<and>
          list_all2 (event_rows fl ag' u) vs rowss \<and> rows_ids E (ev @ rows) vs rowss"
      then obtain rowss ag' where rest: "st fl ((ev @ rows) @ concat rowss) ag' t" "agents_after ag1 (concat (map ve_agents vs)) ag'"
        "list_all2 (event_rows fl ag' u) vs rowss" "rows_ids E (ev @ rows) vs rowss" by blast
      have "event_rows fl ag' u v rows" using event_rows_mono first agents_after_sub [OF rest(2)] by blast
      with first rest agents_after_trans [OF _ rest(2), of ag "ve_agents v"]
      show "\<exists>rowss ag'. st fl (ev @ concat rowss) ag' t \<and> agents_after ag (concat (map ve_agents (v # vs))) ag' \<and>
          list_all2 (event_rows fl ag' u) (v # vs) rowss \<and> rows_ids E ev (v # vs) rowss"
        by (intro exI [of _ "rows # rowss"] exI [of _ ag']) simp
    qed
  qed
qed

section \<open>What the script leaves alone\<close>

text \<open>The state without the two tables that an import writes, without the counters and without the job.\<close>

definition lp_rest :: "'s world_scheme \<Rightarrow> 's world_scheme" where
  "lp_rest s = s\<lparr>cur_job := Job_init [] [] [] False, log_buffer := None, Events := [], Agents := [], next_pk := 0, clock := 0, uuids := 0\<rparr>"

text \<open>The rest of the state and the exit code of the job, which is set after the script's own code only.\<close>

definition rest_and_code :: "'s world_scheme \<Rightarrow> int \<Rightarrow> 's world_scheme \<Rightarrow> bool" where
  "rest_and_code r c s \<longleftrightarrow> lp_rest s = r \<and> j_int_code (cur_job s) = c"

lemma rest_and_code_upd [simp]:
  fixes s :: "'s world_scheme"
  shows "rest_and_code r c (s\<lparr>Events := ev\<rparr>) = rest_and_code r c s" "rest_and_code r c (s\<lparr>Agents := ag\<rparr>) = rest_and_code r c s"
    "rest_and_code r c (s\<lparr>next_pk := k\<rparr>) = rest_and_code r c s" "rest_and_code r c (s\<lparr>clock := k\<rparr>) = rest_and_code r c s"
    "rest_and_code r c (s\<lparr>uuids := k\<rparr>) = rest_and_code r c s"
  by (simp_all add: rest_and_code_def lp_rest_def)

lemma lp_rest_eqD:
  fixes s t :: "'s world_scheme"
  assumes "lp_rest t = lp_rest s" and "Events t = Events s" and "Agents t = Agents s" and "log_buffer t = None"
  shows "\<exists>j k c i. t = s\<lparr>cur_job := j, log_buffer := None, next_pk := k, clock := c, uuids := i\<rparr>"
  by (rule exI [of _ "cur_job t"], rule exI [of _ "next_pk t"], rule exI [of _ "clock t"], rule exI [of _ "uuids t"])
    (use assms in \<open>cases s; cases t; simp add: lp_rest_def\<close>)

lemma lp_rest_restore:
  fixes s t :: "'s world_scheme"
  shows "lp_rest t = lp_rest s \<Longrightarrow> lp_rest (restore_db (s\<lparr>log_buffer := b\<rparr>) t) = lp_rest s"
  by (cases s; cases t; simp add: lp_rest_def restore_db_def)

lemma keeps_lp_rest [keeps_intros]:
  fixes E :: env and r :: "'s world_scheme"
  shows "keeps (rest_and_code r c) (job_pyprint h ss)" "keeps (rest_and_code r c) (now E)" "keeps (rest_and_code r c) (uuid4 E)"
    "keeps (rest_and_code r c) auto_pk" "keeps (rest_and_code r c) (fs_get g)" "keeps (rest_and_code r c) (event_agents_add pk as)"
proof -
  show "keeps (rest_and_code r c) (job_pyprint h ss)"
    by (cases h) (auto simp: keeps_def py_simps rest_and_code_def lp_rest_def job_pyprint_def pyprint_def)
qed (auto simp: keeps_def py_simps event_agents_add_def)

lemma keeps_rest_report: "(\<And>x. keeps P (log x)) \<Longrightarrow> keeps P (report_each bad log xs)"
  by (induction xs) (auto intro!: keeps_intros keeps_bind)

lemma keeps_rest_checks:
  fixes r :: "'s world_scheme"
  shows "keeps (rest_and_code r c) (print_unrelated_elements files agents events)"
    "keeps (rest_and_code r c) (print_nonexistent_references files agents events)"
    "keeps (rest_and_code r c) (event_element_factory E p)"
  unfolding print_unrelated_elements_def print_unrelated_files_def print_unrelated_agents_def print_unrelated_events_def
    print_nonexistent_references_def print_files_related_to_nonexistent_events_def print_agents_related_to_nonexistent_events_def
    print_events_related_to_nonexistent_files_def print_events_related_to_nonexistent_agents_def event_element_factory_def py_or_def
    log_defs Let_def
  by (auto intro!: keeps_intros keeps_bind keeps_try keeps_rest_report split: py_exn.splits prod.splits)

lemma keeps_rest_lists:
  fixes r :: "'s world_scheme"
  shows "keeps (rest_and_code r c) (get_valid_events files agents ignore es)"
    "keeps (rest_and_code r c) (get_invalid_file_identifiers fls u)"
proof -
  show "keeps (rest_and_code r c) (get_valid_events files agents ignore es)"
    by (induction es) (auto simp: Let_def log_defs intro!: keeps_intros keeps_bind)
  show "keeps (rest_and_code r c) (get_invalid_file_identifiers fls u)"
    by (induction fls) (auto simp: log_defs intro!: keeps_intros keeps_bind)
qed

lemma keeps_rest_elements:
  assumes "\<And>p. keeps P (factory p)"
  shows "keeps P (get_elements E tree ps factory key)"
proof -
  have "keeps P (add_elements factory key ps d)" for d
    by (induction ps arbitrary: d) (auto intro!: keeps_intros keeps_bind assms)
  then show ?thesis by (auto simp: get_elements_def Let_def intro!: keeps_intros)
qed

lemma keeps_rest_save:
  fixes r :: "'s world_scheme"
  shows "keeps (rest_and_code r c) (save_events E u vs)"
proof -
  have agent: "keeps (rest_and_code r c) (get_or_create_agent a)" for a
    unfolding get_or_create_agent_def Let_def
    by (auto intro!: keeps_intros keeps_bind split: sum.splits)
  have create: "keeps (rest_and_code r c) (Event_create F e)" for F e
    unfolding Event_create_def by (intro keeps_intros keeps_bind) auto
  have ident: "keeps (rest_and_code r c) (ensure_event_id_is_uuid E i)" for i
    unfolding ensure_event_id_is_uuid_def log_defs
    by (auto intro!: keeps_intros keeps_bind keeps_try split: py_exn.splits)
  have one: "keeps (rest_and_code r c) (save_event_for_file E u e as i f)" for e as i f
    unfolding save_event_for_file_def log_defs
    by (auto intro!: keeps_intros keeps_bind create ident split: option.splits)
  have "keeps (rest_and_code r c) (save_event_files E u e as i fls)" for e as i fls
    by (induction fls arbitrary: i) (auto intro!: keeps_intros keeps_bind one)
  then show ?thesis
    unfolding save_events_def get_or_create_agents_def by (intro keeps_intros keeps_bind agent)
qed

lemma keeps_rest_document:
  fixes r :: "'s world_scheme"
  shows "keeps (rest_and_code r c) (load_document E u tree)"
  unfolding load_document_def Let_def
  by (intro keeps_intros keeps_bind keeps_rest_elements keeps_rest_checks keeps_rest_lists keeps_rest_save)

lemma keeps_rest_main:
  fixes r :: "'s world_scheme"
  shows "keeps (rest_and_code r c) (load_premis_main E)"
proof -
  have "keeps (rest_and_code r c) (get_xml_tree E a b)" for a b
    unfolding get_xml_tree_def get_premis_schema_def get_validated_etree_def log_defs
    by (auto intro!: keeps_intros keeps_bind keeps_try split: py_exn.splits option.splits if_splits)
  then show ?thesis
    unfolding load_premis_main_def log_defs
    by (auto intro!: keeps_intros keeps_bind keeps_rest_document split: list.splits option.splits)
qed

section \<open>Failure\<close>

lemma logged_steps [keeps_intros]:
  "keeps (only_logged s) (get_premis_schema E p)" "keeps (only_logged s) (get_validated_etree E p sch)"
  unfolding get_premis_schema_def get_validated_etree_def log_defs job_pyprint_def
  by (auto intro!: keeps_intros keeps_bind keeps_try split: option.splits py_exn.splits if_splits)

lemma logged_logs: "(\<And>t. \<exists>v. logs t m v) \<Longrightarrow> keeps (only_logged s) m"
  unfolding keeps_def logs_def by (metis only_logged_trans snd_conv)

lemma logged_checks [keeps_intros]:
  fixes s :: "'s world_scheme"
  shows "keeps (only_logged s) (print_unrelated_elements files agents events)" "keeps (only_logged s) (print_nonexistent_references files agents events)"
    "keeps (only_logged s) (get_valid_events files agents ignore es)" "keeps (only_logged s) (get_invalid_file_identifiers files u)"
  by (rule logged_logs, rule exI, rule logs_unrelated logs_nonexistent logs_valid_events logs_invalid_files)+

lemma logged_elements [keeps_intros]:
  assumes "\<And>p. keeps (only_logged s) (factory p)"
  shows "keeps (only_logged s) (get_elements E tree ps factory key)"
proof -
  have "keeps (only_logged s) (add_elements factory key ps d)" for d
    by (induction ps arbitrary: d) (auto intro!: keeps_intros keeps_bind assms)
  then show ?thesis by (auto simp: get_elements_def Let_def intro!: keeps_intros)
qed

lemma logged_event_factory: "keeps (only_logged s) (event_element_factory E p)"
  unfolding event_element_factory_def log_defs job_pyprint_def
  by (auto intro!: keeps_intros keeps_bind keeps_try split: py_exn.splits if_splits)

lemma load_document_code:
  "ensures (only_logged s) (load_document E u tree) (\<lambda>c t. c = 0 \<or> c = 1 \<and> only_logged s t)"
  unfolding load_document_def Let_def
  by (intro ensures_bind_keeps keeps_intros logged_event_factory ensures_case_prod ensures_if ensures_ret)
    (auto simp: ensures_def py_simps split: prod.splits sum.splits)

lemma load_premis_code:
  "ensures (only_logged s) (load_premis_main E) (\<lambda>c t. c = 0 \<or> c = 1 \<and> only_logged s t)"
proof -
  have tree: "keeps (only_logged s) (get_xml_tree E a b)" for a b
    unfolding get_xml_tree_def by (intro keeps_intros keeps_bind)
  have print: "ensures (only_logged s) (py_seq (log_missing_events_xml p) (py_ret 0)) (\<lambda>c t. c = 0 \<or> c = 1 \<and> only_logged s t)" for p
    by (auto simp: ensures_def py_simps split: prod.splits sum.splits)
  show ?thesis
    unfolding load_premis_main_def
    by (rule ensures_bind_keeps, rule keeps_get)
      (auto split: list.splits intro!: ensures_bind_keeps keeps_intros tree ensures_if print ensures_case_option load_document_code ensures_ret
        simp: ensures_def [where m = "py_raise _"] py_raise_apply)
qed

section \<open>Example state\<close>

definition lp_env_ex :: lp_env where
  "lp_env_ex = env.extend env_ex (lp_env.fields (\<lambda>_. Inr (\<lambda>_. None)) (\<lambda>_. Inl (LxmlError ''XMLSyntaxError'' []))
     ''3.0'' [''3.0''] (\<lambda>_. Inr None) (\<lambda>t. Inr (Some t)) ''Z'')"

definition premis_ex :: premis_tree where
  "premis_ex = \<lparr>pt_version = None,
     pt_objects = [\<lparr>po_identifier = (''f'', ''1''), po_original_name = Some '' objects/a '', po_linking_events = [(''e'', ''1'')]\<rparr>],
     pt_agents = [\<lparr>pa_identifier = (''a'', ''1''), pa_name = Some ''Ann'', pa_type = ''person'', pa_linking_events = []\<rparr>],
     pt_events = [\<lparr>pe_identifier = (''e'', ''1''), pe_type = ''creation'', pe_date_time = ''2020-01-01'', pe_event_details = [Some ''x'', None],
        pe_event_outcomes = [], pe_outcome_detail_notes = [], pe_linking_objects = [], pe_linking_agents = [(''a'', ''1'')]\<rparr>]\<rparr>"

section \<open>Properties\<close>

text \<open>C30. A document is accepted exactly when it is consistent: taken together, the links stated by objects, agents and
  events put every file and agent into an event, name no element that is missing, and give every event an agent and a
  file whose name is an original location of the transfer. An accepted document is saved, any other gives code 1;
  up to this decision only output is written.\<close>

theorem premis_accepted_iff_consistent:
  assumes "known_version E tree" and "dates_raise_ValueError E"
  shows "\<exists>t. only_logged s t \<and> load_document E u tree s =
     (if consistent (usable_file u s) (doc_files tree) (doc_agents tree) (doc_events E tree)
      then py_seq (save_events E u (doc_saved (usable_file u s) E tree)) (py_ret 0) t else (Inr 1, t))"
  by (rule load_document_runs [OF assms])

theorem premis_accepted_iff_consistent_witness:
  "\<exists>t. only_logged world_ex t \<and> load_document lp_env_ex ''t'' premis_ex world_ex =
     py_seq (save_events lp_env_ex ''t'' (doc_saved (usable_file ''t'' world_ex) lp_env_ex premis_ex)) (py_ret 0) t"
proof -
  have "known_version lp_env_ex premis_ex" by code_simp
  moreover have "dates_raise_ValueError lp_env_ex"
    by (simp add: dates_raise_ValueError_def lp_env_ex_def env.extend_def lp_env.fields_def)
  moreover have "consistent (usable_file ''t'' world_ex) (doc_files premis_ex) (doc_agents premis_ex) (doc_events lp_env_ex premis_ex)"
    by (simp add: doc_files_def doc_agents_def doc_events_def premis_ex_def elements_of_def consistent_def event_files_def event_agents_def
      naming_def file_element_factory_def agent_element_factory_def event_of_def get_premis_element_children_identifiers_def set_add_def
      usable_file_def named_files_def ex_defs TRANSFER_ORIGINAL_LOCATION_PREFIX_def str_strip_def is_blank_def)
  ultimately show ?thesis using premis_accepted_iff_consistent [of lp_env_ex premis_ex world_ex "''t''"] by simp
qed

text \<open>C31. After a document was imported the tables have, for every event and every one of its files in the transfer,
  one more event row on that file, with the type, the texts and the date of the document, linked to rows for exactly the
  agents of the event. Its identifier is the one of the document when that is a UUID no event had before, for the
  first file of the event, and a newly drawn one otherwise. The agent table has one more row for every agent of an event
  that it did not have, and none for an agent that it had or that was just added. Nothing else is written: all older
  rows stay and the rest of the state, apart from the counters and the job, is as before.\<close>

theorem premis_import_records:
  fixes s :: "'s world_scheme"
  assumes "db_inv s" and "known_version E tree" and "dates_raise_ValueError E" and "load_document E u tree s = (Inr 0, t)"
  defines "saved \<equiv> doc_saved (usable_file u s) E tree"
  shows "\<exists>rowss new. Events t = Events s @ concat rowss \<and> list_all2 (event_rows (Files s) (Agents t) u) saved rowss \<and>
     rows_ids E (Events s) saved rowss \<and> Agents t = Agents s @ new \<and>
     map agent_columns (Agents t) = foldl set_add (map agent_columns (Agents s)) (map element_columns (concat (map ve_agents saved))) \<and>
     lp_rest t = lp_rest s"
proof -
  obtain t0 where t0: "only_logged s t0" and run: "load_document E u tree s =
     (if consistent (usable_file u s) (doc_files tree) (doc_agents tree) (doc_events E tree)
      then py_seq (save_events E u saved) (py_ret 0) t0 else (Inr 1, t0))"
    using load_document_runs [OF assms(2,3)] unfolding saved_def by blast
  have "db_inv t0" using only_loggedD [OF t0] assms(1) by (metis db_inv_irrelevant(3,4))
  then have st: "st (Files s) (Events s) (Agents s) t0" using only_logged_same [OF t0] by (simp add: st_def)
  have save: "save_events E u saved t0 = (Inr (), t)"
    using run assms(4) by (auto simp: py_seq_apply py_ret_apply split: if_splits prod.splits sum.splits)
  obtain rowss ag' where rows: "st (Files s) (Events s @ concat rowss) ag' t"
    "agents_after (Agents s) (concat (map ve_agents saved)) ag'" "list_all2 (event_rows (Files s) ag' u) saved rowss"
    "rows_ids E (Events s) saved rowss"
    using ensuresD [OF save_events_ensures st save] by blast
  have "rest_and_code (lp_rest s) (j_int_code (cur_job s)) t"
    using keepsD [OF keeps_rest_document, of "lp_rest s" "j_int_code (cur_job s)" s E u tree] assms(4)
    by (simp add: rest_and_code_def)
  then have "lp_rest t = lp_rest s" by (simp add: rest_and_code_def)
  with rows show ?thesis unfolding st_def agents_after_def by blast
qed

theorem premis_import_records_witness:
  "\<exists>t rowss. load_document lp_env_ex ''t'' premis_ex world_ex = (Inr 0, t) \<and> Events t = concat rowss \<and> length (Events t) = 1 \<and>
     list_all2 (event_rows (Files world_ex) (Agents t) ''t'') (doc_saved (usable_file ''t'' world_ex) lp_env_ex premis_ex) rowss \<and>
     map agent_columns (Agents t) = map agent_columns (Agents world_ex) @ [(Some ''a'', Some ''1'', Some ''Ann'', ''person'')]"
proof -
  let ?run = "load_document lp_env_ex ''t'' premis_ex world_ex" and ?saved = "doc_saved (usable_file ''t'' world_ex) lp_env_ex premis_ex"
  have "known_version lp_env_ex premis_ex" by code_simp
  moreover have "dates_raise_ValueError lp_env_ex"
    by (simp add: dates_raise_ValueError_def lp_env_ex_def env.extend_def lp_env.fields_def)
  moreover obtain t where run: "?run = (Inr 0, t)" "length (Events t) = 1"
  proof -
    have "fst ?run = Inr 0" "length (Events (snd ?run)) = 1" by code_simp+
    then show ?thesis using that by (metis prod.collapse)
  qed
  moreover have "Events world_ex = []" by (simp add: ex_defs)
  moreover have "foldl set_add (map agent_columns (Agents world_ex)) (map element_columns (concat (map ve_agents ?saved))) =
      map agent_columns (Agents world_ex) @ [(Some ''a'', Some ''1'', Some ''Ann'', ''person'')]" by code_simp
  ultimately show ?thesis
    using premis_import_records [OF world_ex_inv, of lp_env_ex premis_ex "''t''" t] by (metis append_Nil)
qed

text \<open>C32. A job that does not succeed has changed nothing: when a job that starts with the exit code 0 ends with
  another one, be it because the script returned a failure or because it raised, or when an exception leaves the job,
  all tables and the file system are as they were. Only the job, the counters that are not rolled back and the log handler,
  which is removed, differ. If the script returned at all, it returned 1.\<close>

theorem premis_failure_changes_nothing:
  fixes s :: "'s world_scheme"
  assumes start: "j_int_code (cur_job s) = 0" and run: "load_premis_job E s = (r, t)"
    and failed: "j_int_code (cur_job t) \<noteq> 0 \<or> isl r"
  shows "(\<exists>j k c i. t = s\<lparr>cur_job := j, log_buffer := None, next_pk := k, clock := c, uuids := i\<rparr>) \<and>
     (\<forall>code. fst (load_premis_main E (s\<lparr>log_buffer := Some []\<rparr>)) = Inr code \<longrightarrow> code = 1)"
proof -
  let ?s = "s\<lparr>log_buffer := Some []\<rparr>"
  obtain x u where main: "load_premis_main E ?s = (x, u)" by (cases "load_premis_main E ?s")
  have "rest_and_code (lp_rest s) 0 ?s" using start by (simp add: rest_and_code_def lp_rest_def)
  then have "rest_and_code (lp_rest s) 0 (snd (load_premis_main E ?s))" by (rule keepsD [OF keeps_rest_main])
  with main have u: "lp_rest u = lp_rest s" "j_int_code (cur_job u) = 0"
    by (simp_all add: rest_and_code_def)
  show ?thesis
  proof (cases x)
    case (Inl e)
    then obtain j where t: "t = (restore_db ?s u)\<lparr>cur_job := j, log_buffer := None\<rparr>"
      using run main that [of "cur_job u"] by (auto simp: load_premis_job_def JobContext_def py_simps restore_db_def split: if_splits)
    have "lp_rest t = lp_rest s" "Events t = Events s" "Agents t = Agents s" "log_buffer t = None"
      using lp_rest_restore [OF u(1)] unfolding t by (simp_all add: lp_rest_def restore_db_def)
    with Inl main show ?thesis by (auto intro: lp_rest_eqD)
  next
    case (Inr code)
    have code: "code = 0 \<or> code = 1 \<and> only_logged ?s u"
      using ensuresD [OF load_premis_code, of ?s ?s E code u] main Inr by simp
    have t: "r = Inr ()" "t = u\<lparr>cur_job := set_status code ''success'' (cur_job u), log_buffer := None\<rparr>"
      using run main Inr by (auto simp: load_premis_job_def JobContext_def py_simps)
    with failed u(2) code have "code = 1" "only_logged ?s u" by auto
    then have "Events u = Events s" "Agents u = Agents s" using only_logged_same [of ?s u] by simp_all
    with u(1) t(2) have "lp_rest t = lp_rest s" "Events t = Events s" "Agents t = Agents s" "log_buffer t = None"
      by (simp_all add: lp_rest_def)
    with \<open>code = 1\<close> Inr main show ?thesis by (auto intro: lp_rest_eqD)
  qed
qed

text \<open>A document that is not well formed, and arguments that are missing: the script returns 1, and raises.\<close>

theorem premis_failure_changes_nothing_witness:
  "(\<exists>t j k c i. load_premis_job lp_env_ex (world_ex\<lparr>cur_job := Job_init ''job'' ''task'' [''t'', ''/x'', ''/y''] False,
      fs := FDir [(''x'', FFile []), (''y'', FFile [])]\<rparr>) = (Inr (), t) \<and> j_status_code (cur_job t) = ''success'' \<and> j_int_code (cur_job t) = 1 \<and>
      t = world_ex\<lparr>cur_job := j, fs := FDir [(''x'', FFile []), (''y'', FFile [])], log_buffer := None, next_pk := k, clock := c, uuids := i\<rparr>) \<and>
   (\<exists>t j k c i. load_premis_job lp_env_ex world_ex = (Inr (), t) \<and> j_status_code (cur_job t) = ''error'' \<and>
      t = world_ex\<lparr>cur_job := j, log_buffer := None, next_pk := k, clock := c, uuids := i\<rparr>)"
proof -
  let ?s = "world_ex\<lparr>cur_job := Job_init ''job'' ''task'' [''t'', ''/x'', ''/y''] False, fs := FDir [(''x'', FFile []), (''y'', FFile [])]\<rparr>"
  have run: "case load_premis_job lp_env_ex ?s of (r, t) \<Rightarrow> r = Inr () \<and> j_status_code (cur_job t) = ''success'' \<and> j_int_code (cur_job t) = 1"
    "case load_premis_job lp_env_ex world_ex of (r, t) \<Rightarrow> r = Inr () \<and> j_status_code (cur_job t) = ''error'' \<and> j_int_code (cur_job t) = 1"
    by code_simp+
  have start: "j_int_code (cur_job ?s) = 0" "j_int_code (cur_job world_ex) = 0" by code_simp+
  obtain t where t: "load_premis_job lp_env_ex ?s = (Inr (), t)" "j_status_code (cur_job t) = ''success''" "j_int_code (cur_job t) = 1"
    using run(1) by (cases "load_premis_job lp_env_ex ?s") auto
  obtain v where v: "load_premis_job lp_env_ex world_ex = (Inr (), v)" "j_status_code (cur_job v) = ''error''" "j_int_code (cur_job v) = 1"
    using run(2) by (cases "load_premis_job lp_env_ex world_ex") auto
  obtain j k c i where "t = ?s\<lparr>cur_job := j, log_buffer := None, next_pk := k, clock := c, uuids := i\<rparr>"
    using premis_failure_changes_nothing [OF start(1) t(1)] t(3) by auto
  then have "t = world_ex\<lparr>cur_job := j, fs := FDir [(''x'', FFile []), (''y'', FFile [])], log_buffer := None, next_pk := k, clock := c, uuids := i\<rparr>"
    by simp
  moreover obtain j' k' c' i' where "v = world_ex\<lparr>cur_job := j', log_buffer := None, next_pk := k', clock := c', uuids := i'\<rparr>"
    using premis_failure_changes_nothing [OF start(2) v(1)] v(3) by auto
  ultimately show ?thesis using t(1,2,3) v(1,2) by blast
qed

end
