(* ===== verification/RightsCsv.thy ===== *)
theory RightsCsv
  imports Commands
begin

text \<open>
  \<open>clientScripts/rights_from_csv.py\<close>: reading rights statements from a CSV file into the rights tables of
  \<open>main/models.py\<close>. The reader object is part of the state; its nested dictionary of combinations of file, basis and
  act is the list of the combinations it holds. Python's CSV reader is a parameter: the items that iterating it gives,
  each a row or the exception raised in its place. A row is the list of its columns and values; the value of a column
  that a short row lacks is \<open>None\<close>, and the column of surplus values is \<open>None\<close>.
\<close>

section \<open>Tables\<close>

record metadata_type_row =
  mt_id :: string
  mt_description :: string

record rights_row =
  r_id :: nat
  r_metadataappliestotype :: string
  r_metadataappliestoidentifier :: string
  r_rightsstatementidentifiertype :: string
  r_rightsstatementidentifiervalue :: string
  r_rightsholder :: int
  r_rightsbasis :: string
  r_status :: string

definition RIGHTS_BASIS_CHOICES :: "string list" where
  "RIGHTS_BASIS_CHOICES = [''Copyright'', ''Statute'', ''License'', ''Donor'', ''Policy'', ''Other'']"

record copyright_row =
  rc_id :: nat
  rc_rightsstatement :: nat
  rc_copyrightstatus :: string
  rc_copyrightjurisdiction :: string
  rc_copyrightstatusdeterminationdate :: "string option"
  rc_copyrightapplicablestartdate :: "string option"
  rc_copyrightapplicableenddate :: "string option"
  rc_copyrightenddateopen :: bool

record license_row =
  rl_id :: nat
  rl_rightsstatement :: nat
  rl_licenseterms :: "string option"
  rl_licenseapplicablestartdate :: "string option"
  rl_licenseapplicableenddate :: "string option"
  rl_licenseenddateopen :: bool

record granted_row =
  rg_id :: nat
  rg_rightsstatement :: nat
  rg_act :: string
  rg_startdate :: "string option"
  rg_enddate :: "string option"
  rg_enddateopen :: bool

record statute_row =
  rs_id :: nat
  rs_rightsstatement :: nat
  rs_statutejurisdiction :: string
  rs_statutecitation :: string
  rs_statutedeterminationdate :: "string option"
  rs_statuteapplicablestartdate :: "string option"
  rs_statuteapplicableenddate :: "string option"
  rs_statuteenddateopen :: bool

record other_rights_row =
  ro_id :: nat
  ro_rightsstatement :: nat
  ro_otherrightsbasis :: string
  ro_otherrightsapplicablestartdate :: "string option"
  ro_otherrightsapplicableenddate :: "string option"
  ro_otherrightsenddateopen :: bool

text \<open>Four tables of documentation identifiers and six of notes or restrictions have the same columns.\<close>

record doc_id_row =
  di_id :: nat
  di_parent :: nat
  di_type :: string
  di_value :: string
  di_role :: "string option"

record note_row =
  nt_id :: nat
  nt_parent :: nat
  nt_text :: string

type_synonym copyright_doc_id = doc_id_row
type_synonym license_doc_id = doc_id_row
type_synonym statute_doc_id = doc_id_row
type_synonym other_doc_id = doc_id_row
type_synonym copyright_note = note_row
type_synonym license_note = note_row
type_synonym granted_note = note_row
type_synonym granted_restriction = note_row
type_synonym statute_note = note_row
type_synonym other_note = note_row

section \<open>The reader\<close>

type_synonym csv_row = "(string option \<times> string option) list"

record RightCsvReader =
  rr_transfer_uuid :: string
  rr_rights_csv_filepath :: string
  rr_metadata_applies_to_type :: "string option"
  rr_current_row :: "csv_row option"
  rr_rows_processed :: nat
  rr_object_basis_act_usage :: "(string \<times> string \<times> string option) list"
  rr_has_act :: bool

record rights_world = world +
  MetadataTypes :: "metadata_type_row list"
  RightsStatements :: "rights_row list"
  Copyrights :: "copyright_row list"
  CopyrightDocIds :: "copyright_doc_id list"
  CopyrightNotes :: "copyright_note list"
  Licenses :: "license_row list"
  LicenseDocIds :: "license_doc_id list"
  LicenseNotes :: "license_note list"
  Statutes :: "statute_row list"
  StatuteDocIds :: "statute_doc_id list"
  StatuteNotes :: "statute_note list"
  OtherRights :: "other_rights_row list"
  OtherDocIds :: "other_doc_id list"
  OtherNotes :: "other_note list"
  Granted :: "granted_row list"
  GrantedNotes :: "granted_note list"
  GrantedRestrictions :: "granted_restriction list"
  reader :: RightCsvReader

text \<open>The new row gets the next automatic key.\<close>

definition insert_row :: "(nat \<Rightarrow> 'r) \<Rightarrow> (('r list \<Rightarrow> 'r list) \<Rightarrow> 's world_scheme \<Rightarrow> 's world_scheme) \<Rightarrow> ('s world_scheme, nat) py" where
  "insert_row row tbl = py_bind auto_pk (\<lambda>pk. py_seq (py_mod (tbl (\<lambda>rows. rows @ [row pk]))) (py_ret pk))"

text \<open>A column without a default cannot be null.\<close>

definition not_null :: "string option \<Rightarrow> ('s, string) py" where
  "not_null v = (case v of None \<Rightarrow> py_raise (IntegrityError ''Column cannot be null'') | Some t \<Rightarrow> py_ret t)"

definition required_column_names :: "string list" where
  "required_column_names = [''file'']"

definition optional_column_names :: "string list" where
  "optional_column_names = [''basis'', ''status'', ''determination_date'', ''start_date'', ''end_date'', ''jurisdiction'', ''terms'',
     ''citation'', ''note'', ''grant_act'', ''grant_restriction'', ''grant_start_date'', ''grant_end_date'', ''grant_note'',
     ''doc_id_type'', ''doc_id_value'', ''doc_id_role'']"

definition allowed_column_names :: "string list" where
  "allowed_column_names = optional_column_names @ required_column_names"

text \<open>\<open>str.lower\<close> and \<open>str.capitalize\<close>, on ASCII letters\<close>

definition str_lower :: "string \<Rightarrow> string" where
  "str_lower t = map to_lower t"

definition str_capitalize :: "string \<Rightarrow> string" where
  "str_capitalize t = (case t of [] \<Rightarrow> [] | c # cs \<Rightarrow>
     (let n = of_char c :: nat in if 97 \<le> n \<and> n \<le> 122 then char_of (n - 32) else c) # map to_lower cs)"

definition RightCsvReader_init :: "string \<Rightarrow> string \<Rightarrow> RightCsvReader" where
  "RightCsvReader_init transfer_uuid rights_csv_filepath =
     \<lparr>rr_transfer_uuid = transfer_uuid, rr_rights_csv_filepath = rights_csv_filepath, rr_metadata_applies_to_type = None,
      rr_current_row = None, rr_rows_processed = 0, rr_object_basis_act_usage = [], rr_has_act = False\<rparr>"

definition raise_row :: "string \<Rightarrow> ('s rights_world_scheme, 'a) py" where
  "raise_row message = py_bind (py_get (\<lambda>s. rr_rows_processed (reader s))) (\<lambda>n.
     py_raise (RightsRowException (''[Row '' @ str_nat (n + 1) @ ''] '' @ message)))"

definition validate_columns :: "csv_row \<Rightarrow> ('s rights_world_scheme, unit) py" where
  "validate_columns row =
     py_seq (py_for (map fst row) (\<lambda>column. case column of
         None \<Rightarrow> raise_row ''Invalid column found: None''
       | Some c \<Rightarrow> py_when (c \<notin> set allowed_column_names) (raise_row (''Invalid column found: '' @ c))))
    (py_for required_column_names (\<lambda>c. py_when (Some c \<notin> fst ` set row) (raise_row (''Missing required column: '' @ c))))"

text \<open>The value of a column of a row; \<open>None\<close> when it is missing or blank.\<close>

definition row_value :: "csv_row \<Rightarrow> string \<Rightarrow> py_exn + string option" where
  "row_value row c = (case map_of row (Some c) of
      None \<Rightarrow> Inr None
    | Some None \<Rightarrow> Inl (no_attribute ''strip'')
    | Some (Some v) \<Rightarrow> Inr (if str_strip v = [] then None else Some (str_strip v)))"

definition column_value :: "string \<Rightarrow> ('s rights_world_scheme, string option) py" where
  "column_value c = py_bind (py_get (\<lambda>s. row_value (case rr_current_row (reader s) of None \<Rightarrow> [] | Some row \<Rightarrow> row) c)) py_lift"

definition normalized_basis :: "('s rights_world_scheme, string) py" where
  "normalized_basis = py_bind (column_value ''basis'') (\<lambda>v. py_bind (py_lift (need_str ''lower'' v)) (\<lambda>b.
     py_ret (str_capitalize (str_lower b))))"

definition joined_path :: "string option \<Rightarrow> py_exn + string" where
  "joined_path fp = (case fp of None \<Rightarrow> Inl (TypeError ''can only concatenate str to str'') | Some p \<Rightarrow> Inr p)"

definition create_statement :: "string \<Rightarrow> string option \<Rightarrow> ('s rights_world_scheme, rights_row) py" where
  "create_statement basis fp =
     py_bind (py_lift (joined_path fp)) (\<lambda>filepath.
     py_bind (py_get (\<lambda>s. get_one ''File'' (filter (\<lambda>f. f_originallocation f = ''%transferDirectory%'' @ filepath \<and>
        f_transfer f = Some (rr_transfer_uuid (reader s))) (Files s)))) (\<lambda>r. py_bind (py_lift r) (\<lambda>transfer_file.
     py_bind (py_get (\<lambda>s. rr_metadata_applies_to_type (reader s))) (\<lambda>ty. py_bind (not_null ty) (\<lambda>ty.
     (let row = (\<lambda>pk. \<lparr>r_id = pk, r_metadataappliestotype = ty, r_metadataappliestoidentifier = f_uuid transfer_file,
          r_rightsstatementidentifiertype = [], r_rightsstatementidentifiervalue = [], r_rightsholder = 0,
          r_rightsbasis = basis, r_status = ''ORIGINAL''\<rparr>) in
      py_bind (insert_row row RightsStatements_update) (\<lambda>pk. py_ret (row pk))))))))"

definition generate_rights_statement :: "('s rights_world_scheme, rights_row) py" where
  "generate_rights_statement =
     py_bind normalized_basis (\<lambda>basis.
     if basis \<notin> set RIGHTS_BASIS_CHOICES then raise_row (''Invalid basis: '' @ basis)
     else py_bind (column_value ''file'') (create_statement basis))"

text \<open>The texts the documentation identifier has, with the defaults of the columns; \<open>tbl\<close> is the table.\<close>

definition store_doc_id ::
  "((doc_id_row list \<Rightarrow> doc_id_row list) \<Rightarrow> 's rights_world_scheme \<Rightarrow> 's rights_world_scheme) \<Rightarrow> nat \<Rightarrow> ('s rights_world_scheme, unit) py" where
  "store_doc_id tbl parent =
     py_bind (column_value ''doc_id_type'') (\<lambda>id_type. py_bind (column_value ''doc_id_value'') (\<lambda>id_value.
     py_bind (column_value ''doc_id_role'') (\<lambda>id_role.
     py_when (id_type \<noteq> None \<or> id_value \<noteq> None \<or> id_role \<noteq> None)
      (py_seq (insert_row (\<lambda>pk. \<lparr>di_id = pk, di_parent = parent, di_type = (case id_type of None \<Rightarrow> [] | Some t \<Rightarrow> t),
          di_value = (case id_value of None \<Rightarrow> [] | Some t \<Rightarrow> t), di_role = id_role\<rparr>) tbl) (py_ret ())))))"

definition store_note ::
  "((note_row list \<Rightarrow> note_row list) \<Rightarrow> 's rights_world_scheme \<Rightarrow> 's rights_world_scheme) \<Rightarrow> string \<Rightarrow> nat \<Rightarrow> ('s rights_world_scheme, unit) py" where
  "store_note tbl column parent =
     py_bind (column_value column) (\<lambda>n. case n of
       None \<Rightarrow> py_ret ()
     | Some t \<Rightarrow> py_seq (insert_row (\<lambda>pk. \<lparr>nt_id = pk, nt_parent = parent, nt_text = t\<rparr>) tbl) (py_ret ()))"

text \<open>
  The end date and the flag for an open one. For a copyright the method \<open>lower\<close> itself, not its result, is compared
  with the text, so the flag is never set.
\<close>

definition end_date :: "string \<Rightarrow> bool \<Rightarrow> ('s rights_world_scheme, string option \<times> bool) py" where
  "end_date column called = py_bind (column_value column) (\<lambda>d. py_ret (case d of
       None \<Rightarrow> (None, False)
     | Some t \<Rightarrow> if called \<and> str_lower t = ''open'' then (None, True) else (Some t, False)))"

definition or_default :: "string option \<Rightarrow> string \<Rightarrow> string" where
  "or_default v d = (case v of None \<Rightarrow> d | Some t \<Rightarrow> t)"

definition store_copyright_info :: "nat \<Rightarrow> ('s rights_world_scheme, unit) py" where
  "store_copyright_info rights_statement =
     py_bind (column_value ''status'') (\<lambda>status. py_bind (column_value ''jurisdiction'') (\<lambda>jurisdiction.
     py_bind (column_value ''determination_date'') (\<lambda>determination. py_bind (column_value ''start_date'') (\<lambda>start.
     py_bind (end_date ''end_date'' False) (\<lambda>(ending, open_end).
     py_bind (insert_row (\<lambda>pk. \<lparr>rc_id = pk, rc_rightsstatement = rights_statement, rc_copyrightstatus = or_default status ''unknown'',
         rc_copyrightjurisdiction = or_default jurisdiction [], rc_copyrightstatusdeterminationdate = determination,
         rc_copyrightapplicablestartdate = start, rc_copyrightapplicableenddate = ending, rc_copyrightenddateopen = open_end\<rparr>)
        Copyrights_update) (\<lambda>pk.
     py_seq (store_doc_id CopyrightDocIds_update pk) (store_note CopyrightNotes_update ''note'' pk)))))))"

definition store_license_info :: "nat \<Rightarrow> ('s rights_world_scheme, unit) py" where
  "store_license_info rights_statement =
     py_bind (column_value ''terms'') (\<lambda>terms. py_bind (column_value ''start_date'') (\<lambda>start.
     py_bind (end_date ''end_date'' True) (\<lambda>(ending, open_end).
     py_bind (insert_row (\<lambda>pk. \<lparr>rl_id = pk, rl_rightsstatement = rights_statement, rl_licenseterms = terms,
         rl_licenseapplicablestartdate = start, rl_licenseapplicableenddate = ending, rl_licenseenddateopen = open_end\<rparr>)
        Licenses_update) (\<lambda>pk.
     py_seq (store_doc_id LicenseDocIds_update pk) (store_note LicenseNotes_update ''note'' pk)))))"

definition store_statute_info :: "nat \<Rightarrow> ('s rights_world_scheme, unit) py" where
  "store_statute_info rights_statement =
     py_bind (column_value ''jurisdiction'') (\<lambda>jurisdiction. py_bind (column_value ''citation'') (\<lambda>citation.
     py_bind (column_value ''determination_date'') (\<lambda>determination. py_bind (column_value ''start_date'') (\<lambda>start.
     py_bind (end_date ''end_date'' True) (\<lambda>(ending, open_end).
     py_bind (not_null jurisdiction) (\<lambda>jurisdiction. py_bind (not_null citation) (\<lambda>citation.
     py_bind (insert_row (\<lambda>pk. \<lparr>rs_id = pk, rs_rightsstatement = rights_statement, rs_statutejurisdiction = jurisdiction,
         rs_statutecitation = citation, rs_statutedeterminationdate = determination, rs_statuteapplicablestartdate = start,
         rs_statuteapplicableenddate = ending, rs_statuteenddateopen = open_end\<rparr>) Statutes_update) (\<lambda>pk.
     py_seq (store_doc_id StatuteDocIds_update pk) (store_note StatuteNotes_update ''note'' pk)))))))))"

definition store_other_info :: "nat \<Rightarrow> ('s rights_world_scheme, unit) py" where
  "store_other_info rights_statement =
     py_bind normalized_basis (\<lambda>basis. py_bind (column_value ''start_date'') (\<lambda>start.
     py_bind (end_date ''end_date'' True) (\<lambda>(ending, open_end).
     py_bind (insert_row (\<lambda>pk. \<lparr>ro_id = pk, ro_rightsstatement = rights_statement, ro_otherrightsbasis = basis,
         ro_otherrightsapplicablestartdate = start, ro_otherrightsapplicableenddate = ending, ro_otherrightsenddateopen = open_end\<rparr>)
        OtherRights_update) (\<lambda>pk.
     py_seq (store_doc_id OtherDocIds_update pk) (store_note OtherNotes_update ''note'' pk)))))"

definition store_grant_info :: "nat \<Rightarrow> ('s rights_world_scheme, unit) py" where
  "store_grant_info rights_statement =
     py_bind (column_value ''grant_act'') (\<lambda>act. py_bind (column_value ''grant_start_date'') (\<lambda>start.
     py_bind (end_date ''grant_end_date'' True) (\<lambda>(ending, open_end).
     py_bind (not_null act) (\<lambda>act.
     py_bind (insert_row (\<lambda>pk. \<lparr>rg_id = pk, rg_rightsstatement = rights_statement, rg_act = act, rg_startdate = start,
         rg_enddate = ending, rg_enddateopen = open_end\<rparr>) Granted_update) (\<lambda>pk.
     py_seq (store_note GrantedRestrictions_update ''grant_restriction'' pk) (store_note GrantedNotes_update ''grant_note'' pk))))))"

definition store_row :: "('s rights_world_scheme, unit) py" where
  "store_row =
     py_bind generate_rights_statement (\<lambda>r.
     py_seq (if r_rightsbasis r = ''Copyright'' then store_copyright_info (r_id r)
        else if r_rightsbasis r = ''License'' then store_license_info (r_id r)
        else if r_rightsbasis r = ''Statute'' then store_statute_info (r_id r)
        else if r_rightsbasis r \<in> {''Other'', ''Donor'', ''Policy''} then store_other_info (r_id r)
        else py_ret ())
    (py_bind (py_get (\<lambda>s. rr_has_act (reader s))) (\<lambda>has_act. py_when has_act (store_grant_info (r_id r)))))"

definition upd_reader :: "(RightCsvReader \<Rightarrow> RightCsvReader) \<Rightarrow> ('s rights_world_scheme, unit) py" where
  "upd_reader g = py_mod (\<lambda>s. s\<lparr>reader := g (reader s)\<rparr>)"

text \<open>The end of \<open>parse_row\<close>, from the normalization of the act on.\<close>

definition import_row :: "string \<Rightarrow> string \<Rightarrow> string option \<Rightarrow> ('s rights_world_scheme, unit) py" where
  "import_row filepath basis act0 =
     (let act = map_option (\<lambda>a. str_capitalize (str_lower a)) act0 in
      py_seq (upd_reader (\<lambda>r. r\<lparr>rr_has_act := (act0 \<noteq> None)\<rparr>))
     (py_bind (py_get (\<lambda>s. (filepath, basis, act) \<in> set (rr_object_basis_act_usage (reader s)))) (\<lambda>used.
      py_seq (if \<not> used
         then py_seq store_row (upd_reader (\<lambda>r. r\<lparr>rr_object_basis_act_usage := rr_object_basis_act_usage r @ [(filepath, basis, act)]\<rparr>))
         else py_bind (py_get (\<lambda>s. rr_rows_processed (reader s))) (\<lambda>n.
           job_pyprint Stdout [''Skipping duplicate basis/act combination at row'', str_nat (n + 1)]))
        (upd_reader (\<lambda>r. r\<lparr>rr_rows_processed := rr_rows_processed r + 1\<rparr>)))))"

definition parse_row :: "csv_row \<Rightarrow> ('s rights_world_scheme, unit) py" where
  "parse_row row =
     py_bind (py_get (\<lambda>s. rr_current_row (reader s) = None)) (\<lambda>first.
     py_seq (py_when first (validate_columns row))
    (py_seq (upd_reader (\<lambda>r. r\<lparr>rr_current_row := Some row\<rparr>))
    (py_bind (column_value ''file'') (\<lambda>fp. case fp of
       None \<Rightarrow> raise_row ''No file specified''
     | Some filepath \<Rightarrow>
       py_bind (column_value ''grant_restriction'') (\<lambda>restriction.
       py_seq (py_when (case restriction of None \<Rightarrow> False | Some t \<Rightarrow> str_lower t \<notin> {''disallow'', ''conditional'', ''allow''})
          (raise_row (''The value of element restriction must be: '' @ repr_str ''Allow'' @ '', '' @ repr_str ''Disallow'' @
             '', or '' @ repr_str ''Conditional'')))
      (py_bind normalized_basis (\<lambda>basis.
       py_bind (column_value ''grant_act'') (import_row filepath basis))))))))"

definition parse :: "(string \<Rightarrow> (py_exn + csv_row) list) \<Rightarrow> ('s rights_world_scheme, nat) py" where
  "parse csv_reader =
     py_seq (py_mod (\<lambda>s. s\<lparr>reader := (reader s)\<lparr>rr_metadata_applies_to_type :=
        (case filter (\<lambda>m. mt_description m = ''File'') (MetadataTypes s) of [] \<Rightarrow> None | m # _ \<Rightarrow> Some (mt_id m))\<rparr>\<rparr>))
    (py_bind (py_get (\<lambda>s. read_file (fs s) (rr_rights_csv_filepath (reader s)))) (\<lambda>r. py_bind (py_lift r) (\<lambda>text.
     py_seq (py_for (csv_reader text) (\<lambda>item. py_bind (py_lift item) parse_row))
            (py_get (\<lambda>s. rr_rows_processed (reader s))))))"

definition rights_job :: "(string \<Rightarrow> (py_exn + csv_row) list) \<Rightarrow> (py_exn \<Rightarrow> string) \<Rightarrow> ('s rights_world_scheme, unit) py" where
  "rights_job csv_reader traceback = JobContext traceback False
     (py_bind (nth_arg 1) (\<lambda>transfer_uuid. py_bind (nth_arg 2) (\<lambda>path.
      py_bind (fs_get (\<lambda>n. os_isfile n path)) (\<lambda>isfile.
      if isfile
      then py_seq (job_pyprint Stdout [''Attempting to import rights data...''])
          (py_try (py_seq (py_mod (\<lambda>s. s\<lparr>reader := RightCsvReader_init transfer_uuid path\<rparr>))
              (py_bind (parse csv_reader) (\<lambda>n. job_pyprint Stdout [''Processed rows:'', str_nat n])))
            (\<lambda>e. case e of
                RightsRowException m \<Rightarrow> Some (py_seq (upd_job (print_error [''RightsRowException('' @ repr_str m @ '')'']))
                                                    (upd_job (set_status 1 ''success'')))
              | _ \<Rightarrow> None))
      else job_pyprint Stdout [''No rights.csv file found at'', path]))))"

section \<open>What a step leaves of the reader and of the statements\<close>

definition rv :: "RightCsvReader \<Rightarrow> rights_row list \<Rightarrow> file_row list \<Rightarrow> 's rights_world_scheme \<Rightarrow> bool" where
  "rv rd R F s \<longleftrightarrow> reader s = rd \<and> RightsStatements s = R \<and> Files s = F"

text \<open>The other tables and the job are out of its reach.\<close>

lemma rv_upd [simp]:
  "rv rd R F (s\<lparr>cur_job := j\<rparr>) = rv rd R F s" "rv rd R F (s\<lparr>next_pk := k\<rparr>) = rv rd R F s"
  "rv rd R F (Copyrights_update a s) = rv rd R F s" "rv rd R F (CopyrightDocIds_update b s) = rv rd R F s"
  "rv rd R F (CopyrightNotes_update c s) = rv rd R F s" "rv rd R F (Licenses_update d s) = rv rd R F s"
  "rv rd R F (LicenseDocIds_update b s) = rv rd R F s" "rv rd R F (LicenseNotes_update c s) = rv rd R F s"
  "rv rd R F (Statutes_update e s) = rv rd R F s" "rv rd R F (StatuteDocIds_update b s) = rv rd R F s"
  "rv rd R F (StatuteNotes_update c s) = rv rd R F s" "rv rd R F (OtherRights_update g s) = rv rd R F s"
  "rv rd R F (OtherDocIds_update b s) = rv rd R F s" "rv rd R F (OtherNotes_update c s) = rv rd R F s"
  "rv rd R F (Granted_update h s) = rv rd R F s" "rv rd R F (GrantedNotes_update c s) = rv rd R F s"
  "rv rd R F (GrantedRestrictions_update c s) = rv rd R F s"
  by (simp_all add: rv_def)

lemma keeps_insert_row:
  assumes "\<And>s g. P (tbl g s) = P s" and "\<And>s k. P (s\<lparr>next_pk := k\<rparr>) = P s"
  shows "keeps P (insert_row row tbl)"
  using assms by (simp add: insert_row_def keeps_def py_simps auto_pk_def)

lemma reads_columns [keeps_intros]:
  "keeps P (column_value c)" "keeps P (end_date c b)" "keeps P normalized_basis" "keeps P (not_null v)" "keeps P (raise_row m)"
proof -
  have c: "keeps P (column_value c)" for c unfolding column_value_def by (intro keeps_intros keeps_bind)
  then show "keeps P (column_value c)" "keeps P (end_date c b)" "keeps P normalized_basis"
    unfolding end_date_def normalized_basis_def by (intro keeps_intros keeps_bind c)+
  show "keeps P (not_null v)" "keeps P (raise_row m)"
    unfolding not_null_def raise_row_def by (intro keeps_intros keeps_bind)+
qed

lemma keeps_store_parts:
  assumes "\<And>s g. P (tbl g s) = P s" and "\<And>s k. P (s\<lparr>next_pk := k\<rparr>) = P s"
  shows "keeps P (store_doc_id tbl k)"
  unfolding store_doc_id_def by (intro keeps_intros keeps_bind keeps_insert_row assms)

lemma keeps_store_note:
  assumes "\<And>s g. P (tbl g s) = P s" and "\<And>s k. P (s\<lparr>next_pk := k\<rparr>) = P s"
  shows "keeps P (store_note tbl c k)"
  unfolding store_note_def by (intro keeps_intros keeps_bind keeps_insert_row assms)

lemma keeps_rv_stores:
  "keeps (rv rd R F) (store_copyright_info k)" "keeps (rv rd R F) (store_license_info k)" "keeps (rv rd R F) (store_statute_info k)"
  "keeps (rv rd R F) (store_other_info k)" "keeps (rv rd R F) (store_grant_info k)"
  unfolding store_copyright_info_def store_license_info_def store_statute_info_def store_other_info_def store_grant_info_def
  by (intro keeps_intros keeps_bind keeps_insert_row keeps_store_parts keeps_store_note; simp)+

section \<open>Which statement a row makes\<close>

definition current :: "RightCsvReader \<Rightarrow> csv_row" where
  "current rd = (case rr_current_row rd of None \<Rightarrow> [] | Some row \<Rightarrow> row)"

definition normal_form :: "string \<Rightarrow> string" where
  "normal_form t = str_capitalize (str_lower t)"

text \<open>The combination of file, basis and act that a row is about, if it can be read.\<close>

definition row_combination :: "csv_row \<Rightarrow> (string \<times> string \<times> string option) option" where
  "row_combination row = (case (row_value row ''file'', row_value row ''basis'', row_value row ''grant_act'') of
      (Inr (Some p), Inr (Some b), Inr a) \<Rightarrow> Some (p, normal_form b, map_option normal_form a)
    | _ \<Rightarrow> None)"

text \<open>A statement on the file of the transfer with that original location.\<close>

definition statement_on :: "file_row list \<Rightarrow> string \<Rightarrow> string \<times> string \<times> string option \<Rightarrow> rights_row \<Rightarrow> bool" where
  "statement_on F u = (\<lambda>(p, b, a) r. b \<in> set RIGHTS_BASIS_CHOICES \<and> r_rightsbasis r = b \<and> r_status r = ''ORIGINAL'' \<and>
     (\<exists>f. filter (\<lambda>f. f_originallocation f = ''%transferDirectory%'' @ p \<and> f_transfer f = Some u) F = [f] \<and>
        r_metadataappliestoidentifier r = f_uuid f))"

lemma column_value_ensures:
  "ensures (rv rd R F) (column_value c) (\<lambda>v t. rv rd R F t \<and> row_value (current rd) c = Inr v)"
  by (auto simp: ensures_def column_value_def py_simps rv_def current_def)

lemma normalized_basis_ensures:
  "ensures (rv rd R F) normalized_basis (\<lambda>b t. rv rd R F t \<and> (\<exists>v. row_value (current rd) ''basis'' = Inr (Some v) \<and> b = normal_form v))"
  by (auto simp: ensures_def normalized_basis_def column_value_def py_simps rv_def current_def need_str_def normal_form_def
      split: sum.splits option.splits)

lemma generate_ensures:
  "ensures (rv rd R F) generate_rights_statement (\<lambda>r t. rv rd (R @ [r]) F t \<and>
     (\<exists>p v. row_value (current rd) ''file'' = Inr (Some p) \<and> row_value (current rd) ''basis'' = Inr (Some v) \<and>
        statement_on F (rr_transfer_uuid rd) (p, normal_form v, a) r))"
  unfolding generate_rights_statement_def
proof (rule ensures_bind [OF normalized_basis_ensures], rule ensures_pure, rule ensures_if)
  fix b assume "\<exists>v. row_value (current rd) ''basis'' = Inr (Some v) \<and> b = normal_form v" and choice: "\<not> b \<notin> set RIGHTS_BASIS_CHOICES"
  then obtain v where v: "row_value (current rd) ''basis'' = Inr (Some v)" "b = normal_form v" by blast
  have rest: "ensures (rv rd R F) (create_statement b fp) (\<lambda>r t. rv rd (R @ [r]) F t \<and> (\<exists>p v. row_value (current rd) ''file'' = Inr (Some p) \<and>
      row_value (current rd) ''basis'' = Inr (Some v) \<and> statement_on F (rr_transfer_uuid rd) (p, normal_form v, a) r))"
    if "row_value (current rd) ''file'' = Inr fp" for fp
    using that v choice
    by (auto simp: create_statement_def ensures_def py_simps rv_def joined_path_def not_null_def insert_row_def auto_pk_def get_one_cases
        statement_on_def split: sum.splits option.splits)
  show "ensures (rv rd R F) (py_bind (column_value ''file'') (create_statement b)) (\<lambda>r t. rv rd (R @ [r]) F t \<and>
      (\<exists>p v. row_value (current rd) ''file'' = Inr (Some p) \<and> row_value (current rd) ''basis'' = Inr (Some v) \<and>
        statement_on F (rr_transfer_uuid rd) (p, normal_form v, a) r))"
    by (rule ensures_bind [OF column_value_ensures], rule ensures_pure, erule rest)
qed (auto simp: ensures_def raise_row_def py_simps)

lemma store_row_ensures:
  "ensures (rv rd R F) store_row (\<lambda>_ t. \<exists>r. rv rd (R @ [r]) F t \<and>
     (\<exists>p v. row_value (current rd) ''file'' = Inr (Some p) \<and> row_value (current rd) ''basis'' = Inr (Some v) \<and>
        statement_on F (rr_transfer_uuid rd) (p, normal_form v, a) r))"
  unfolding store_row_def
proof (rule ensures_bind [OF generate_ensures [where a = a]], rule ensures_pure)
  fix r assume r: "\<exists>p v. row_value (current rd) ''file'' = Inr (Some p) \<and> row_value (current rd) ''basis'' = Inr (Some v) \<and>
        statement_on F (rr_transfer_uuid rd) (p, normal_form v, a) r"
  have "keeps (rv rd (R @ [r]) F) (py_seq (if r_rightsbasis r = ''Copyright'' then store_copyright_info (r_id r)
        else if r_rightsbasis r = ''License'' then store_license_info (r_id r)
        else if r_rightsbasis r = ''Statute'' then store_statute_info (r_id r)
        else if r_rightsbasis r \<in> {''Other'', ''Donor'', ''Policy''} then store_other_info (r_id r)
        else py_ret ())
    (py_bind (py_get (\<lambda>s. rr_has_act (reader s))) (\<lambda>has_act. py_when has_act (store_grant_info (r_id r)))))" (is "keeps _ ?m")
    by (intro keeps_intros keeps_bind keeps_rv_stores)
  then show "ensures (rv rd (R @ [r]) F) ?m (\<lambda>_ t. \<exists>r. rv rd (R @ [r]) F t \<and>
     (\<exists>p v. row_value (current rd) ''file'' = Inr (Some p) \<and> row_value (current rd) ''basis'' = Inr (Some v) \<and>
        statement_on F (rr_transfer_uuid rd) (p, normal_form v, a) r))"
    by (rule ensures_weaken [OF ensures_keeps]) (use r in auto)
qed

section \<open>The loop over the rows\<close>

text \<open>After some rows: their combinations without repetition are in use, and each has its statement.\<close>

fun firsts :: "'a list \<Rightarrow> 'a list \<Rightarrow> 'a list" where
  "firsts seen [] = []"
| "firsts seen (x # xs) = (if x \<in> set seen then firsts seen xs else x # firsts (seen @ [x]) xs)"

lemma firsts_distinct: "distinct (firsts seen xs)" and firsts_set: "set (firsts seen xs) = set xs - set seen"
  by (induction seen xs rule: firsts.induct) auto

definition loop_state ::
  "string \<Rightarrow> (string \<times> string \<times> string option) list \<Rightarrow> nat \<Rightarrow> rights_row list \<Rightarrow> file_row list \<Rightarrow> 's rights_world_scheme \<Rightarrow> bool" where
  "loop_state u used n R F s \<longleftrightarrow> rr_transfer_uuid (reader s) = u \<and> rr_object_basis_act_usage (reader s) = used \<and>
     rr_rows_processed (reader s) = n \<and> RightsStatements s = R \<and> Files s = F"

lemma loop_state_rv: "loop_state u used n R F = (\<lambda>s. \<exists>rd. rv rd R F s \<and> (rr_transfer_uuid rd = u \<and> rr_object_basis_act_usage rd = used \<and> rr_rows_processed rd = n))"
  by (auto simp: fun_eq_iff loop_state_def rv_def)

lemma upd_reader_ensures: "ensures (rv rd R F) (upd_reader g) (\<lambda>_. rv (g rd) R F)"
  by (auto simp: ensures_def upd_reader_def py_simps rv_def)

definition row_done ::
  "string \<Rightarrow> (string \<times> string \<times> string option) list \<Rightarrow> nat \<Rightarrow> rights_row list \<Rightarrow> file_row list \<Rightarrow> csv_row \<Rightarrow> 's rights_world_scheme \<Rightarrow> bool" where
  "row_done u used n R F row t \<longleftrightarrow> (\<exists>c. row_combination row = Some c \<and>
     (if c \<in> set used then loop_state u used (n + 1) R F t
      else \<exists>r. loop_state u (used @ [c]) (n + 1) (R @ [r]) F t \<and> statement_on F u c r))"

lemma import_row_ensures:
  assumes row: "rr_current_row rd = Some row" and p: "row_value row ''file'' = Inr (Some p)"
    and b: "row_value row ''basis'' = Inr (Some b)" and act: "row_value row ''grant_act'' = Inr act"
  shows "ensures (rv rd R F) (import_row p (normal_form b) act :: ('s rights_world_scheme, unit) py)
     (\<lambda>_. row_done (rr_transfer_uuid rd) (rr_object_basis_act_usage rd) (rr_rows_processed rd) R F row)"
proof -
  let ?c = "(p, normal_form b, map_option normal_form act)" and ?rd = "rd\<lparr>rr_has_act := (act \<noteq> None)\<rparr>"
  let ?used = "rr_object_basis_act_usage rd" and ?n = "rr_rows_processed rd" and ?u = "rr_transfer_uuid rd"
  have c: "row_combination row = Some ?c" using p b act by (simp add: row_combination_def)
  have cur: "current (rd\<lparr>rr_has_act := h\<rparr>) = row" for h using row by (simp add: current_def)
  have used: "ensures (rv ?rd R F) (py_get (\<lambda>s. ?c \<in> set (rr_object_basis_act_usage (reader s))) :: ('s rights_world_scheme, bool) py)
      (\<lambda>x t. rv ?rd R F t \<and> x = (?c \<in> set ?used))"
    by (auto simp: ensures_def py_simps rv_def)
  have skip: "keeps (rv ?rd R F) (py_bind (py_get (\<lambda>s. rr_rows_processed (reader s))) (\<lambda>n.
      job_pyprint Stdout [''Skipping duplicate basis/act combination at row'', str_nat (n + 1)]) :: ('s rights_world_scheme, unit) py)"
    by (auto simp: keeps_def py_simps)
  have store: "ensures (rv ?rd R F) (store_row :: ('s rights_world_scheme, unit) py) (\<lambda>_ t. \<exists>r. rv ?rd (R @ [r]) F t \<and> statement_on F ?u ?c r)"
    by (rule ensures_weaken [OF store_row_ensures [where a = "map_option normal_form act"]]) (use p b in \<open>auto simp: cur\<close>)
  have last: "ensures (rv rd' R' F) (upd_reader (\<lambda>r. r\<lparr>rr_rows_processed := rr_rows_processed r + 1\<rparr>) :: ('s rights_world_scheme, unit) py)
      (\<lambda>_. row_done ?u ?used ?n R F row)"
    if "rr_transfer_uuid rd' = ?u" "rr_rows_processed rd' = ?n"
      "if ?c \<in> set ?used then rr_object_basis_act_usage rd' = ?used \<and> R' = R
       else rr_object_basis_act_usage rd' = ?used @ [?c] \<and> (\<exists>r. R' = R @ [r] \<and> statement_on F ?u ?c r)" for rd' R'
    by (rule ensures_weaken [OF upd_reader_ensures]) (use that c in \<open>auto simp: row_done_def loop_state_def rv_def split: if_splits\<close>)
  show ?thesis
    unfolding import_row_def Let_def normal_form_def [symmetric]
  proof (rule ensures_seq [OF upd_reader_ensures], rule ensures_bind [OF used], rule ensures_pure)
    fix x assume x: "x = (?c \<in> set ?used)"
    show "ensures (rv ?rd R F) (py_seq (if \<not> x
         then py_seq store_row (upd_reader (\<lambda>r. r\<lparr>rr_object_basis_act_usage := rr_object_basis_act_usage r @ [?c]\<rparr>))
         else py_bind (py_get (\<lambda>s. rr_rows_processed (reader s))) (\<lambda>n.
           job_pyprint Stdout [''Skipping duplicate basis/act combination at row'', str_nat (n + 1)]))
        (upd_reader (\<lambda>r. r\<lparr>rr_rows_processed := rr_rows_processed r + 1\<rparr>)) :: ('s rights_world_scheme, unit) py)
      (\<lambda>_. row_done ?u ?used ?n R F row)"
    proof (cases x)
      case True
      with x show ?thesis unfolding True by (simp only: not_True_eq_False if_False) (rule ensures_seq_keeps [OF skip last]; simp)
    next
      case False
      with x have new: "?c \<notin> set ?used" by simp
      have mid: "ensures (rv ?rd R F) (py_seq store_row (upd_reader (\<lambda>r. r\<lparr>rr_object_basis_act_usage := rr_object_basis_act_usage r @ [?c]\<rparr>))
           :: ('s rights_world_scheme, unit) py)
         (\<lambda>_ t. \<exists>rd' r. rv rd' (R @ [r]) F t \<and> (rr_transfer_uuid rd' = ?u \<and> rr_rows_processed rd' = ?n \<and>
            rr_object_basis_act_usage rd' = ?used @ [?c] \<and> statement_on F ?u ?c r))"
        by (rule ensures_seq [OF store], rule ensures_ex, rule ensures_pure, rule ensures_weaken [OF upd_reader_ensures])
          (assumption, (rule exI)+, rule conjI, assumption, simp)
      show ?thesis unfolding if_P [OF False]
        by (rule ensures_seq [OF mid], (rule ensures_ex)+, rule ensures_pure, rule last) (use new in auto)
    qed
  qed
qed

lemma keeps_validate: "keeps P (validate_columns row)"
  unfolding validate_columns_def by (intro keeps_intros keeps_bind)

lemma ensures_raise_row: "ensures P (raise_row m) Q"
  by (simp add: ensures_def raise_row_def py_simps)

lemma parse_row_ensures:
  "ensures (loop_state u used n R F) (parse_row row :: ('s rights_world_scheme, unit) py) (\<lambda>_. row_done u used n R F row)"
  unfolding parse_row_def
proof (rule ensures_bind_keeps [OF keeps_get], rule ensures_seq_keeps [OF keeps_when [OF keeps_validate]])
  let ?rest = "py_seq (upd_reader (\<lambda>r. r\<lparr>rr_current_row := Some row\<rparr>))
    (py_bind (column_value ''file'') (\<lambda>fp. case fp of
       None \<Rightarrow> raise_row ''No file specified''
     | Some filepath \<Rightarrow>
       py_bind (column_value ''grant_restriction'') (\<lambda>restriction.
       py_seq (py_when (case restriction of None \<Rightarrow> False | Some t \<Rightarrow> str_lower t \<notin> {''disallow'', ''conditional'', ''allow''})
          (raise_row (''The value of element restriction must be: '' @ repr_str ''Allow'' @ '', '' @ repr_str ''Disallow'' @
             '', or '' @ repr_str ''Conditional'')))
      (py_bind normalized_basis (\<lambda>basis.
       py_bind (column_value ''grant_act'') (import_row filepath basis)))))) :: ('s rights_world_scheme, unit) py"
  have "ensures (rv rd R F) ?rest (\<lambda>_. row_done (rr_transfer_uuid rd) (rr_object_basis_act_usage rd) (rr_rows_processed rd) R F row)" for rd
  proof (rule ensures_seq [OF upd_reader_ensures], rule ensures_bind [OF column_value_ensures], rule ensures_pure, rule ensures_case_option)
    fix fp p
    let ?rd = "rd\<lparr>rr_current_row := Some row\<rparr>"
    assume "row_value (current ?rd) ''file'' = Inr fp" "fp = Some p"
    then have p: "row_value row ''file'' = Inr (Some p)" by (simp add: current_def)
    have import_act: "ensures (rv ?rd R F) (py_bind (column_value ''grant_act'') (import_row p (normal_form b)) :: ('s rights_world_scheme, unit) py)
        (\<lambda>_. row_done (rr_transfer_uuid rd) (rr_object_basis_act_usage rd) (rr_rows_processed rd) R F row)"
      if "row_value row ''basis'' = Inr (Some b)" for b
    proof (rule ensures_bind [OF column_value_ensures], rule ensures_pure)
      fix act assume "row_value (current ?rd) ''grant_act'' = Inr act"
      then show "ensures (rv ?rd R F) (import_row p (normal_form b) act :: ('s rights_world_scheme, unit) py)
          (\<lambda>_. row_done (rr_transfer_uuid rd) (rr_object_basis_act_usage rd) (rr_rows_processed rd) R F row)"
        using import_row_ensures [of ?rd row p b act R F] p that by (simp add: current_def)
    qed
    show "ensures (rv ?rd R F) (py_bind (column_value ''grant_restriction'') (\<lambda>restriction.
       py_seq (py_when (case restriction of None \<Rightarrow> False | Some t \<Rightarrow> str_lower t \<notin> {''disallow'', ''conditional'', ''allow''})
          (raise_row (''The value of element restriction must be: '' @ repr_str ''Allow'' @ '', '' @ repr_str ''Disallow'' @
             '', or '' @ repr_str ''Conditional'')))
      (py_bind normalized_basis (\<lambda>basis.
       py_bind (column_value ''grant_act'') (import_row p basis)))) :: ('s rights_world_scheme, unit) py)
      (\<lambda>_. row_done (rr_transfer_uuid rd) (rr_object_basis_act_usage rd) (rr_rows_processed rd) R F row)"
      by (rule ensures_bind_keeps [OF reads_columns(1)], rule ensures_seq_keeps [OF keeps_when [OF reads_columns(5)]],
          rule ensures_bind [OF normalized_basis_ensures], rule ensures_pure) (auto simp: current_def intro!: import_act)
  qed (rule ensures_raise_row)
  then show "ensures (loop_state u used n R F) ?rest (\<lambda>_. row_done u used n R F row)"
    unfolding loop_state_rv by (auto intro!: ensures_ex ensures_pure)
qed

text \<open>All rows: their combinations can be read, and the first row of each combination makes a statement.\<close>

lemma parse_rows_ensures:
  "ensures (loop_state u used n R F) (py_for items (\<lambda>item. py_bind (py_lift item) parse_row) :: ('s rights_world_scheme, unit) py)
     (\<lambda>_ t. \<exists>rows cs new. items = map Inr rows \<and> map row_combination rows = map Some cs \<and>
        loop_state u (used @ firsts used cs) (n + length rows) (R @ new) F t \<and> list_all2 (statement_on F u) (firsts used cs) new)"
proof (induction items arbitrary: used n R)
  case Nil
  show ?case by (auto intro!: ensures_ret exI [of _ "[]"])
next
  case (Cons item items)
  show ?case
    unfolding py_for.simps
  proof (cases item)
    case (Inl e)
    then show "ensures (loop_state u used n R F) (py_seq (py_bind (py_lift item) parse_row) (py_for items (\<lambda>item. py_bind (py_lift item) parse_row))
        :: ('s rights_world_scheme, unit) py)
     (\<lambda>_ t. \<exists>rows cs new. item # items = map Inr rows \<and> map row_combination rows = map Some cs \<and>
        loop_state u (used @ firsts used cs) (n + length rows) (R @ new) F t \<and> list_all2 (statement_on F u) (firsts used cs) new)"
      by (simp add: ensures_def py_simps)
  next
    case (Inr row)
    have one: "ensures (loop_state u used n R F) (py_bind (py_lift item) parse_row :: ('s rights_world_scheme, unit) py) (\<lambda>_. row_done u used n R F row)"
      using parse_row_ensures unfolding Inr by (simp add: ensures_def py_simps)
    have rest: "ensures (row_done u used n R F row) (py_for items (\<lambda>item. py_bind (py_lift item) parse_row) :: ('s rights_world_scheme, unit) py)
     (\<lambda>_ t. \<exists>rows cs new. item # items = map Inr rows \<and> map row_combination rows = map Some cs \<and>
        loop_state u (used @ firsts used cs) (n + length rows) (R @ new) F t \<and> list_all2 (statement_on F u) (firsts used cs) new)" (is "ensures _ ?m ?Q")
    proof (unfold ensures_def, intro allI impI)
      fix s :: "'s rights_world_scheme" and x t assume s: "row_done u used n R F row s" and run: "?m s = (Inr x, t)"
      obtain c where c: "row_combination row = Some c"
        "if c \<in> set used then loop_state u used (n + 1) R F s
         else \<exists>r. loop_state u (used @ [c]) (n + 1) (R @ [r]) F s \<and> statement_on F u c r"
        using s by (auto simp: row_done_def)
      show "?Q x t"
      proof (cases "c \<in> set used")
        case True
        with c(2) have "loop_state u used (n + 1) R F s" by simp
        from ensuresD [OF Cons.IH this run] obtain rows cs new where
          "items = map Inr rows" "map row_combination rows = map Some cs"
          "loop_state u (used @ firsts used cs) (n + 1 + length rows) (R @ new) F t" "list_all2 (statement_on F u) (firsts used cs) new" by blast
        then show ?thesis using True c(1) Inr by (intro exI [of _ "row # rows"] exI [of _ "c # cs"] exI [of _ new]) simp
      next
        case False
        with c(2) obtain r where "loop_state u (used @ [c]) (n + 1) (R @ [r]) F s" and r: "statement_on F u c r" by auto
        from ensuresD [OF Cons.IH this(1) run] obtain rows cs new where
          "items = map Inr rows" "map row_combination rows = map Some cs"
          "loop_state u ((used @ [c]) @ firsts (used @ [c]) cs) (n + 1 + length rows) ((R @ [r]) @ new) F t"
          "list_all2 (statement_on F u) (firsts (used @ [c]) cs) new" by blast
        then show ?thesis using False c(1) Inr r by (intro exI [of _ "row # rows"] exI [of _ "c # cs"] exI [of _ "r # new"]) simp
      qed
    qed
    show "ensures (loop_state u used n R F) (py_seq (py_bind (py_lift item) parse_row) (py_for items (\<lambda>item. py_bind (py_lift item) parse_row))
        :: ('s rights_world_scheme, unit) py)
     (\<lambda>_ t. \<exists>rows cs new. item # items = map Inr rows \<and> map row_combination rows = map Some cs \<and>
        loop_state u (used @ firsts used cs) (n + length rows) (R @ new) F t \<and> list_all2 (statement_on F u) (firsts used cs) new)"
      by (rule ensures_seq [OF one rest])
  qed
qed

lemma parse_ensures:
  fixes s :: "'s rights_world_scheme"
  assumes start: "reader s = RightCsvReader_init u path" and run: "parse csv s = (Inr n, t)"
  shows "\<exists>content rows cs new. read_file (fs s) path = Inr content \<and> csv content = map Inr rows \<and> n = length rows \<and>
     map row_combination rows = map Some cs \<and> RightsStatements t = RightsStatements s @ new \<and>
     list_all2 (statement_on (Files s) u) (firsts [] cs) new"
proof -
  let ?s = "s\<lparr>reader := (reader s)\<lparr>rr_metadata_applies_to_type :=
        (case filter (\<lambda>m. mt_description m = ''File'') (MetadataTypes s) of [] \<Rightarrow> None | m # _ \<Rightarrow> Some (mt_id m))\<rparr>\<rparr>"
  obtain content where read: "read_file (fs s) path = Inr content"
    "py_seq (py_for (csv content) (\<lambda>item. py_bind (py_lift item) parse_row)) (py_get (\<lambda>s. rr_rows_processed (reader s))) ?s = (Inr n, t)"
    using run start by (auto simp: parse_def py_seq_apply py_mod_apply py_bind_apply py_get_apply py_lift_apply RightCsvReader_init_def split: sum.splits)
  have "loop_state u [] 0 (RightsStatements s) (Files s) ?s" using start by (simp add: loop_state_def RightCsvReader_init_def)
  moreover have "py_for (csv content) (\<lambda>item. py_bind (py_lift item) parse_row) ?s = (Inr (), t)" "n = rr_rows_processed (reader t)"
    using read(2) by (auto simp: py_seq_apply py_get_apply split: prod.splits sum.splits)
  ultimately show ?thesis using ensuresD [OF parse_rows_ensures] read(1) by (fastforce simp: loop_state_def)
qed

section \<open>Open ends\<close>

definition no_open_copyright :: "'s rights_world_scheme \<Rightarrow> bool" where
  "no_open_copyright s \<longleftrightarrow> (\<forall>r \<in> set (Copyrights s). \<not> rc_copyrightenddateopen r)"

lemma no_open_upd [simp]:
  "no_open_copyright (s\<lparr>cur_job := j\<rparr>) = no_open_copyright s" "no_open_copyright (s\<lparr>next_pk := k\<rparr>) = no_open_copyright s"
  "no_open_copyright (s\<lparr>reader := rd\<rparr>) = no_open_copyright s" "no_open_copyright (s\<lparr>log_buffer := l\<rparr>) = no_open_copyright s"
  "no_open_copyright (RightsStatements_update a s) = no_open_copyright s" "no_open_copyright (CopyrightDocIds_update b s) = no_open_copyright s"
  "no_open_copyright (CopyrightNotes_update c s) = no_open_copyright s" "no_open_copyright (Licenses_update d s) = no_open_copyright s"
  "no_open_copyright (LicenseDocIds_update b s) = no_open_copyright s" "no_open_copyright (LicenseNotes_update c s) = no_open_copyright s"
  "no_open_copyright (Statutes_update e s) = no_open_copyright s" "no_open_copyright (StatuteDocIds_update b s) = no_open_copyright s"
  "no_open_copyright (StatuteNotes_update c s) = no_open_copyright s" "no_open_copyright (OtherRights_update g s) = no_open_copyright s"
  "no_open_copyright (OtherDocIds_update b s) = no_open_copyright s" "no_open_copyright (OtherNotes_update c s) = no_open_copyright s"
  "no_open_copyright (Granted_update h s) = no_open_copyright s" "no_open_copyright (GrantedNotes_update c s) = no_open_copyright s"
  "no_open_copyright (GrantedRestrictions_update c s) = no_open_copyright s"
  by (simp_all add: no_open_copyright_def)

lemma end_date_uncalled: "end_date c False = py_bind (column_value c) (\<lambda>d. py_ret (d, False))"
  unfolding end_date_def by (rule py_bind_cong) (simp split: option.splits)

lemma keeps_no_open_stores:
  "keeps no_open_copyright (store_copyright_info k)" "keeps no_open_copyright (store_license_info k)"
  "keeps no_open_copyright (store_statute_info k)" "keeps no_open_copyright (store_other_info k)" "keeps no_open_copyright (store_grant_info k)"
proof -
  have "keeps no_open_copyright (insert_row row Copyrights_update)" if "\<And>pk. \<not> rc_copyrightenddateopen (row pk)" for row
    using that by (auto simp: insert_row_def keeps_def py_simps auto_pk_def no_open_copyright_def)
  note copyright = this
  show "keeps no_open_copyright (store_copyright_info k)"
    unfolding store_copyright_info_def end_date_uncalled py_bind_assoc bind_ret prod.case
    by (intro keeps_intros keeps_bind keeps_store_parts keeps_store_note copyright; simp)
  show "keeps no_open_copyright (store_license_info k)"
    "keeps no_open_copyright (store_statute_info k)" "keeps no_open_copyright (store_other_info k)" "keeps no_open_copyright (store_grant_info k)"
    unfolding store_license_info_def store_statute_info_def store_other_info_def store_grant_info_def
    by (intro keeps_intros keeps_bind keeps_insert_row keeps_store_parts keeps_store_note; simp)+
qed

lemma keeps_no_open_parse: "keeps no_open_copyright (parse csv)"
proof -
  have upd: "keeps no_open_copyright (upd_reader g)" for g by (simp add: keeps_def upd_reader_def py_simps)
  have out: "keeps no_open_copyright (job_pyprint Stdout xs)" for xs by (simp add: keeps_def py_simps)
  have "keeps no_open_copyright (create_statement b fp)" for b fp
    unfolding create_statement_def Let_def by (intro keeps_intros keeps_bind keeps_insert_row; simp)
  then have "keeps no_open_copyright store_row"
    unfolding store_row_def generate_rights_statement_def by (intro keeps_intros keeps_bind keeps_no_open_stores)
  then have "keeps no_open_copyright (parse_row row)" for row
    unfolding parse_row_def import_row_def Let_def by (intro keeps_intros keeps_bind keeps_validate upd out)
  then show ?thesis
    unfolding parse_def by (intro keeps_intros keeps_bind) auto
qed

lemma keeps_no_open_job: "keeps no_open_copyright (rights_job csv tb)"
proof -
  have out: "keeps no_open_copyright (job_pyprint Stdout xs)" "keeps no_open_copyright (upd_job f)" "keeps no_open_copyright (fs_get g)" for xs f and g :: "fnode \<Rightarrow> bool"
    by (auto simp: keeps_def py_simps)
  have arg: "keeps no_open_copyright (nth_arg i)" for i unfolding nth_arg_def by (intro keeps_intros keeps_bind)
  show ?thesis
    unfolding rights_job_def JobContext_def
    by (intro keeps_intros keeps_bind keeps_no_open_parse out arg keeps_try) (auto split: py_exn.splits intro!: keeps_intros out)
qed

section \<open>Example state\<close>

definition rights_row_ex :: "string \<Rightarrow> string \<Rightarrow> csv_row" where
  "rights_row_ex basis act = [(Some ''file'', Some ''objects/a''), (Some ''basis'', Some basis), (Some ''grant_act'', Some act),
     (Some ''end_date'', Some ''open'')]"

definition rights_world_ex :: rights_world where
  "rights_world_ex = world.extend (world_ex\<lparr>fs := FDir [(''r.csv'', FFile [])]\<rparr>)
     (rights_world.fields [\<lparr>mt_id = ''m'', mt_description = ''File''\<rparr>] [] [] [] [] [] [] [] [] [] [] [] [] [] [] [] []
        (RightCsvReader_init ''t'' ''/r.csv''))"

definition csv_ex :: "string \<Rightarrow> (py_exn + csv_row) list" where
  "csv_ex content = [Inr (rights_row_ex ''license'' ''Copy''), Inr (rights_row_ex ''LICENSE'' ''copy''), Inr (rights_row_ex ''copyright'' []) ]"

section \<open>Properties\<close>

text \<open>C33. When a CSV file of rights is read to its end, the number returned is that of its rows, and the statements added
  are one for every combination of file, basis and act, in the order of the first rows with them: each is on the one
  file of the transfer with that original location and has the basis of the row.\<close>

theorem rights_statement_per_combination:
  assumes "reader s = RightCsvReader_init u path" and "parse csv s = (Inr n, t)"
  shows "\<exists>content rows cs new. read_file (fs s) path = Inr content \<and> csv content = map Inr rows \<and> n = length rows \<and>
     map row_combination rows = map Some cs \<and> RightsStatements t = RightsStatements s @ new \<and>
     list_all2 (statement_on (Files s) u) (firsts [] cs) new"
  by (rule parse_ensures [OF assms])

theorem rights_statement_per_combination_witness:
  "\<exists>t content rows cs new. parse csv_ex rights_world_ex = (Inr 3, t) \<and> csv_ex content = map Inr rows \<and>
     map row_combination rows = map Some cs \<and> RightsStatements t = new \<and> list_all2 (statement_on (Files rights_world_ex) ''t'') (firsts [] cs) new"
proof -
  have "fst (parse csv_ex rights_world_ex) = Inr 3" by code_simp
  then obtain t where t: "parse csv_ex rights_world_ex = (Inr 3, t)" by (metis prod.collapse)
  have "reader rights_world_ex = RightCsvReader_init ''t'' ''/r.csv''" "RightsStatements rights_world_ex = []" by code_simp+
  with rights_statement_per_combination [OF _ t, of "''t''" "''/r.csv''"] t show ?thesis by fastforce
qed

text \<open>C34. No rights job ever records an open end for a copyright, whatever the rows say: the flag stays unset on every path.\<close>

theorem copyright_end_never_open:
  assumes "\<forall>r. r \<in> set (Copyrights s) \<longrightarrow> \<not> rc_copyrightenddateopen r" and "r \<in> set (Copyrights (snd (rights_job csv tb s)))"
  shows "\<not> rc_copyrightenddateopen r"
  using keepsD [OF keeps_no_open_job, of s csv tb] assms by (simp add: no_open_copyright_def)

theorem copyright_end_never_open_witness:
  "map (\<lambda>r. (rc_copyrightapplicableenddate r, rc_copyrightenddateopen r)) (Copyrights (snd (rights_job csv_ex (\<lambda>_. [])
     (rights_world_ex\<lparr>cur_job := Job_init ''job'' ''task'' [''t'', ''/r.csv''] False\<rparr>)))) = [(Some ''open'', False)]"
proof -
  let ?s = "rights_world_ex\<lparr>cur_job := Job_init ''job'' ''task'' [''t'', ''/r.csv''] False\<rparr>"
  let ?rows = "Copyrights (snd (rights_job csv_ex (\<lambda>_. []) ?s))"
  have ends: "map rc_copyrightapplicableenddate ?rows = [Some ''open'']" by code_simp
  have "Copyrights ?s = []" by code_simp
  then have "\<forall>r. r \<in> set (Copyrights ?s) \<longrightarrow> \<not> rc_copyrightenddateopen r" by simp
  then have "\<not> rc_copyrightenddateopen r" if "r \<in> set ?rows" for r using that by (rule copyright_end_never_open)
  then have "map (\<lambda>r. (rc_copyrightapplicableenddate r, rc_copyrightenddateopen r)) ?rows = map (\<lambda>e. (e, False)) (map rc_copyrightapplicableenddate ?rows)"
    unfolding map_map by (intro map_cong) (auto simp only: o_def)
  then show ?thesis unfolding ends by (simp only: list.map)
qed

end
