(* ===== verification/MoveMerge.thy ===== *)
theory MoveMerge
  imports UnitScripts "HOL-Library.Sublist"
begin

text \<open>
  \<open>clientScripts/move_or_merge.py\<close>: moving a file or a directory, or merging a directory into one that
  exists. The lemmas follow what a single move does to every path of the tree, first for the operations of
  the file system and then for the loop over the files below a directory.
\<close>

section \<open>The script\<close>

fun common_prefix :: "'a list \<Rightarrow> 'a list \<Rightarrow> nat" where
  "common_prefix (x # xs) (y # ys) = (if x = y then Suc (common_prefix xs ys) else 0)"
| "common_prefix _ _ = 0"

text \<open>\<open>os.path.relpath\<close> of absolute paths\<close>

definition relpath :: "string \<Rightarrow> string \<Rightarrow> string" where
  "relpath path start =
     (let p = path_comps path; st = path_comps start; i = common_prefix st p;
          rel = replicate (length st - i) ''..'' @ drop i p
      in if rel = [] then ''.'' else str_join [slash] rel)"

text \<open>\<open>filecmp.cmp\<close> by content: false unless both are regular files with the same content\<close>

definition filecmp_cmp :: "fnode \<Rightarrow> string \<Rightarrow> string \<Rightarrow> py_exn + bool" where
  "filecmp_cmp n a b = (case (fs_node n a, fs_node n b) of
      (Some (FFile c), Some (FFile d)) \<Rightarrow> Inr (c = d)
    | (Some _, Some _) \<Rightarrow> Inr False
    | _ \<Rightarrow> Inl ENOENT)"

definition mkdir_p :: "string \<Rightarrow> ('s world_scheme, unit) py" where
  "mkdir_p path = py_try (fs_do (\<lambda>n. if path = [] then Inl ENOENT else os_makedirs path n))
     (\<lambda>e. case e of OSError err _ \<Rightarrow> if err = 17 then Some (py_ret ()) else None | _ \<Rightarrow> None)"

definition merge_move_file :: "string \<Rightarrow> string \<Rightarrow> ('s world_scheme, unit) py" where
  "merge_move_file src dst =
     py_seq (mkdir_p (dirname dst))
    (py_bind (fs_get (\<lambda>n. os_isfile n dst)) (\<lambda>isfile.
     if isfile
     then py_bind (fs_get (\<lambda>n. filecmp_cmp n src dst)) (\<lambda>r. py_bind (py_lift r) (\<lambda>same.
          if same then fs_do (os_remove src)
          else py_raise (RuntimeError (''Tried to move src='' @ src @ '' to dst='' @ dst @ '', but dst exists and is different''))))
     else fs_do (shutil_move src dst)))"

text \<open>The files of a directory tree, each moved to its place below \<open>dst\<close>.\<close>

definition merge_files :: "string \<Rightarrow> string \<Rightarrow> string \<Rightarrow> string list \<Rightarrow> ('s world_scheme, unit) py" where
  "merge_files src dst root filenames =
     (let rel_root = relpath root src in
      py_for filenames (\<lambda>f. merge_move_file (path_joins src [rel_root, f]) (path_joins dst [rel_root, f])))"

definition move_or_merge :: "string \<Rightarrow> string \<Rightarrow> ('s world_scheme, unit) py" where
  "move_or_merge src dst =
     py_seq (log_msg INFO (''Testing for the existence of src: '' @ src))
    (py_seq (log_msg INFO (''Moving or merging to dst: '' @ dst))
    (py_bind (fs_get (\<lambda>n. os_isfile n src)) (\<lambda>isfile.
     if isfile then merge_move_file src dst
     else py_bind (fs_get (\<lambda>n. os_isdir n src)) (\<lambda>isdir.
       py_when isdir
        (py_bind (fs_get (\<lambda>n. os_exists n dst)) (\<lambda>there.
         if \<not> there
         then py_seq (log_msg INFO (''Creating top-level dst folder: '' @ dst @ '', moving src as-a-whole'')) (fs_do (shutil_move src dst))
         else py_seq (log_msg INFO (''dst: '' @ dst @ '' exists, copying src files one-by-one''))
             (py_bind (fs_get (\<lambda>n. os_walk n src)) (\<lambda>walk.
              py_seq (py_for walk (\<lambda>(root, _, filenames). merge_files src dst root filenames))
                     (fs_do (shutil_rmtree src))))))))))"

text \<open>\<open>main\<close> and \<open>call\<close>; the parameter gives the text \<open>repr\<close> shows for an exception.\<close>

definition move_or_merge_main :: "string \<Rightarrow> string \<Rightarrow> ('s world_scheme, int) py" where
  "move_or_merge_main src dst = py_seq (move_or_merge src dst) (py_ret 0)"

definition move_or_merge_job :: "(py_exn \<Rightarrow> string) \<Rightarrow> (py_exn \<Rightarrow> string) \<Rightarrow> ('s world_scheme, unit) py" where
  "move_or_merge_job py_repr traceback = JobContext traceback True
     (py_bind (nth_arg 1) (\<lambda>src. py_bind (nth_arg 2) (\<lambda>dst.
      py_try (py_bind (move_or_merge_main src dst) (\<lambda>code. upd_job (set_status code ''success'')))
        (\<lambda>e. if is_Exception e
          then Some (py_seq (upd_job (print_error [py_repr e])) (upd_job (set_status 1 ''success''))) else None))))"

section \<open>What binding a path leaves of the other paths\<close>

lemma fs_put_above:
  assumes "fs_put p v n = Some n'" and "p = r @ q" and "q \<noteq> []"
  shows "\<exists>es. fs_at n r = Some (FDir es)"
proof -
  obtain es where "fs_at n (butlast p) = Some (FDir es)" using fs_put_Some_iff [of p v n] assms(1) by auto
  then have "fs_at n (r @ butlast q) = Some (FDir es)" using assms(2,3) by (simp add: butlast_append)
  then show ?thesis
    by (cases "fs_at n r"; cases "the (fs_at n r)"; cases "butlast q") (auto simp: fs_at_append)
qed

lemma fs_put_keeps:
  assumes put: "fs_put p v n = Some n'" and r: "\<not> prefix p r"
  shows "fs_at n r = None \<Longrightarrow> fs_at n' r = None" and "fs_at n r = Some (FFile c) \<Longrightarrow> fs_at n' r = Some (FFile c)"
    and "fs_at n r = Some (FDir es) \<Longrightarrow> \<exists>es'. fs_at n' r = Some (FDir es')"
proof -
  have other: "fs_at n' r = fs_at n r" if "\<not> prefix r p"
    using fs_at_put_other [OF put, of r] r that by (auto simp: prefix_def)
  have above: "\<exists>es. fs_at n r = Some (FDir es)" "\<exists>es. fs_at n' r = Some (FDir es)" if "prefix r p"
  proof -
    from that r obtain q where q: "p = r @ q" "q \<noteq> []" by (auto simp: prefix_def)
    show "\<exists>es. fs_at n r = Some (FDir es)" using fs_put_above [OF put q] .
    show "\<exists>es. fs_at n' r = Some (FDir es)" using fs_at_put_above [of r q v n n'] put q by simp
  qed
  show "fs_at n r = None \<Longrightarrow> fs_at n' r = None" "fs_at n r = Some (FFile c) \<Longrightarrow> fs_at n' r = Some (FFile c)"
    "fs_at n r = Some (FDir es) \<Longrightarrow> \<exists>es'. fs_at n' r = Some (FDir es')"
    using other above by (cases "prefix r p"; auto)+
qed

lemma mk_dirs_keeps_None: "mk_dirs p n = Some n' \<Longrightarrow> \<not> prefix q p \<Longrightarrow> fs_at n q = None \<Longrightarrow> fs_at n' q = None"
proof (induction p n arbitrary: n' q rule: mk_dirs.induct)
  case (3 x xs es)
  have chain: "\<not> prefix r xs \<Longrightarrow> fs_at (mk_chain xs) r = None" for r
  proof (induction xs arbitrary: r)
    case (Cons y ys)
    then show ?case by (cases r) auto
  qed (simp add: neq_Nil_conv, metis fs_at.simps(3) list.exhaust map_of.simps(1) option.simps(4) prefix_order.order_refl)
  from 3 chain show ?case
    by (cases q) (auto simp: map_of_dict_set split: option.splits if_splits)
qed auto

section \<open>Moving one file\<close>

text \<open>
  The file at \<open>a\<close> is, after the step from \<open>n\<close> to \<open>n'\<close>, where it was, at \<open>b\<close>, or inside the directory at \<open>b\<close>;
  every other file is where it was, and nothing appears at free paths that are not at or above \<open>b\<close>, or inside.
\<close>

definition carried :: "string list \<Rightarrow> string list \<Rightarrow> fnode \<Rightarrow> fnode \<Rightarrow> bool" where
  "carried a b n n' \<longleftrightarrow>
     (\<forall>c. fs_at n a = Some (FFile c) \<longrightarrow>
        fs_at n' a = Some (FFile c) \<or> fs_at n' a = None \<and> (fs_at n' b = Some (FFile c) \<or> fs_at n' (b @ [last a]) = Some (FFile c))) \<and>
     (fs_at n a = None \<longrightarrow> fs_at n' a = None) \<and>
     (\<forall>r c. r \<noteq> a \<longrightarrow> fs_at n r = Some (FFile c) \<longrightarrow> fs_at n' r = Some (FFile c)) \<and>
     (\<forall>r. \<not> prefix r (b @ [last a]) \<longrightarrow> fs_at n r = None \<longrightarrow> fs_at n' r = None)"

lemma carried_refl: "carried a b n n"
  by (simp add: carried_def)

lemma below_file: "fs_at n a = Some (FFile c) \<Longrightarrow> fs_at n r \<noteq> None \<Longrightarrow> prefix a r \<Longrightarrow> r = a"
  by (auto simp: prefix_def fs_at_append) (metis fs_at.simps(2) list.exhaust option.distinct(1))

lemma apart_snoc: "\<not> prefix a b \<Longrightarrow> \<not> prefix b a \<Longrightarrow> \<not> prefix (b @ [x]) a \<and> \<not> prefix a (b @ [x])"
  by (auto dest: append_prefixD)

lemma apart_append:
  assumes "\<not> prefix S D" "\<not> prefix D S"
  shows "\<not> prefix (S @ x) (D @ y)" "S @ x \<noteq> D @ y" "D @ y \<noteq> S @ x"
  using assms by (auto simp: prefix_def append_eq_append_conv2)

text \<open>Unbinding the path of a file, and binding a free path.\<close>

lemma unbind_file:
  assumes put: "fs_put a None n = Some n'" and a: "fs_at n a = Some (FFile c)"
  shows "fs_at n' a = None" and "r \<noteq> a \<Longrightarrow> fs_at n r = Some (FFile d) \<Longrightarrow> fs_at n' r = Some (FFile d)"
    and "fs_at n r = None \<Longrightarrow> fs_at n' r = None"
proof -
  show gone: "fs_at n' a = None" using fs_at_put_same [OF put] .
  show "fs_at n' r = Some (FFile d)" if "r \<noteq> a" "fs_at n r = Some (FFile d)"
    using fs_put_keeps(2) [OF put] below_file [OF a, of r] that by auto
  show "fs_at n' r = None" if "fs_at n r = None"
    using fs_put_keeps(1) [OF put _ that] gone by (cases "prefix a r") (auto simp: prefix_def fs_at_append)
qed

lemma bind_free:
  assumes put: "fs_put d (Some m) n = Some n'" and d: "fs_at n d = None"
  shows "fs_at n r = Some (FFile e) \<Longrightarrow> fs_at n' r = Some (FFile e)" and "\<not> prefix d r \<Longrightarrow> fs_at n r = None \<Longrightarrow> fs_at n' r = None"
proof -
  show "fs_at n' r = Some (FFile e)" if "fs_at n r = Some (FFile e)"
    using fs_put_keeps(2) [OF put] d that by (cases "prefix d r") (auto simp: prefix_def fs_at_append)
qed (rule fs_put_keeps(1) [OF put])

lemma rename_carries:
  assumes a: "fs_at n a = Some (FFile c)" and d: "d = b \<or> d = b @ [last a]" "fs_at n d = None"
    and ab: "\<not> prefix a b" "\<not> prefix b a" and run: "fs_rename a d (FFile c) n = Inr n'"
  shows "carried a b n n' \<and> fs_at n' a = None"
proof -
  obtain n1 where n1: "fs_put a None n = Some n1" and n2: "fs_put d (Some (FFile c)) n1 = Some n'"
    using run by (auto simp: fs_rename_def split: option.splits)
  note u = unbind_file [OF n1 a]
  have d1: "fs_at n1 d = None" using u(3) d(2) .
  note v = bind_free [OF n2 d1]
  have "\<not> prefix d a" using d(1) ab apart_snoc [OF ab] by auto
  then have gone: "fs_at n' a = None" using v(2) u(1) by blast
  have here: "fs_at n' d = Some (FFile c)" using fs_at_put_same [OF n2] .
  have free: "fs_at n' r = None" if "\<not> prefix r (b @ [last a])" "fs_at n r = None" for r
  proof (cases "prefix d r")
    case False
    then show ?thesis using v(2) u(3) that by blast
  next
    case True
    moreover have "r \<noteq> d" using that(1) d(1) by auto
    ultimately show ?thesis using below_file [OF here, of r] by blast
  qed
  show ?thesis using a gone here d(1) u(2) v(1) free by (auto simp: carried_def)
qed

lemma remove_carries:
  assumes a: "fs_at n a = Some (FFile c)" and b: "fs_at n b = Some (FFile c)" and ab: "\<not> prefix a b"
    and n': "fs_put a None n = Some n'"
  shows "carried a b n n' \<and> fs_at n' a = None"
proof -
  have "b \<noteq> a" using ab by auto
  with unbind_file [OF n' a] a b show ?thesis by (auto simp: carried_def)
qed

lemma move_carries:
  assumes a: "fs_at n (path_comps src) = Some (FFile c) \<or> fs_at n (path_comps src) = None"
    and names: "src \<noteq> []" "dst \<noteq> []" "basename (str_rstrip slash src) = last (path_comps src)"
    and ab: "\<not> prefix (path_comps src) (path_comps dst)" "\<not> prefix (path_comps dst) (path_comps src)"
    and dst: "\<not> os_isfile n dst" and run: "shutil_move src dst n = Inr n'"
  shows "carried (path_comps src) (path_comps dst) n n' \<and> fs_at n' (path_comps src) = None"
proof -
  let ?a = "path_comps src" and ?b = "path_comps dst"
  let ?d = "move_target n src dst"
  have at: "fs_at n ?a = Some (FFile c)" using a run names(1) by (auto simp: shutil_move_def fs_node_def Let_def)
  have ne: "?a \<noteq> ?b" using ab by auto
  have d: "?d = ?b \<or> ?d = ?b @ [last ?a]" by (simp add: move_target_def names(3))
  then have "?d \<noteq> ?a" using ne apart_snoc [OF ab, of "last ?a"] by auto
  then have run': "fs_rename ?a ?d (FFile c) n = Inr n'" and inside: "os_isdir n dst \<longrightarrow> fs_at n ?d = None"
    using run names(1) at by (auto simp: shutil_move_def fs_node_def Let_def split: if_splits option.splits fnode.splits)
  have "fs_at n ?d = None"
  proof (cases "os_isdir n dst")
    case False
    then have "fs_node n dst = None" using dst by (auto simp: os_isdir_def os_isfile_def split: option.splits fnode.splits)
    then show ?thesis using False names(2) by (simp add: move_target_def fs_node_def)
  qed (use inside in simp)
  from rename_carries [OF at d this ab run'] show ?thesis .
qed

lemma mkdir_p_grows:
  assumes p: "prefix (path_comps path) b"
  shows "\<exists>n. snd (mkdir_p path s) = s\<lparr>fs := n\<rparr> \<and> (\<forall>r c. fs_at (fs s) r = Some (FFile c) \<longrightarrow> fs_at n r = Some (FFile c)) \<and>
     (\<forall>r. \<not> prefix r b \<longrightarrow> fs_at (fs s) r = None \<longrightarrow> fs_at n r = None)"
proof (cases "path \<noteq> [] \<and> \<not> os_exists (fs s) path \<and> mk_dirs (path_comps path) (fs s) \<noteq> None")
  case True
  then obtain n where n: "mk_dirs (path_comps path) (fs s) = Some n" by auto
  have "\<not> prefix r (path_comps path)" if "\<not> prefix r b" for r using p that by (meson prefix_order.trans)
  with True n mk_dirs_keeps_file [OF n] mk_dirs_keeps_None [OF n] show ?thesis
    by (auto simp: mkdir_p_def py_simps os_makedirs_def)
next
  case False
  have "\<exists>e. (if path = [] then Inl ENOENT else os_makedirs path (fs s)) = Inl e" using False by (auto simp: os_makedirs_def)
  then have "snd (mkdir_p path s) = s"
    by (auto simp: mkdir_p_def py_simps split: py_exn.splits if_splits)
  then show ?thesis by (intro exI [of _ "fs s"]) simp
qed

lemma grown_carried:
  assumes "\<forall>r c. fs_at n0 r = Some (FFile c) \<longrightarrow> fs_at n r = Some (FFile c)"
    and "\<forall>r. \<not> prefix r b \<longrightarrow> fs_at n0 r = None \<longrightarrow> fs_at n r = None"
    and ab: "\<not> prefix a b" "\<not> prefix b a" and "carried a b n n'"
  shows "carried a b n0 n'"
  using assms(1,2,5) ab(1) unfolding carried_def by (simp add: prefix_snoc)

lemma merge_move_file_carries:
  assumes a: "fs_at (fs s) (path_comps src) = Some (FFile c) \<or> fs_at (fs s) (path_comps src) = None"
    and names: "src \<noteq> []" "dst \<noteq> []" "basename (str_rstrip slash src) = last (path_comps src)"
      "prefix (path_comps (dirname dst)) (path_comps dst)"
    and ab: "\<not> prefix (path_comps src) (path_comps dst)" "\<not> prefix (path_comps dst) (path_comps src)"
    and run: "merge_move_file src dst s = (r, t)"
  shows "carried (path_comps src) (path_comps dst) (fs s) (fs t) \<and> (r = Inr () \<longrightarrow> fs_at (fs t) (path_comps src) = None)"
proof -
  let ?a = "path_comps src" and ?b = "path_comps dst"
  obtain n where n: "snd (mkdir_p (dirname dst) s) = s\<lparr>fs := n\<rparr>" "\<forall>r c. fs_at (fs s) r = Some (FFile c) \<longrightarrow> fs_at n r = Some (FFile c)"
     "\<forall>r. \<not> prefix r ?b \<longrightarrow> fs_at (fs s) r = None \<longrightarrow> fs_at n r = None"
    using mkdir_p_grows [OF names(4), of s] by blast
  have at: "fs_at n ?a = Some (FFile c) \<or> fs_at n ?a = None" using a n ab(1) by auto
  have "carried ?a ?b n (fs t) \<and> (r = Inr () \<longrightarrow> fs_at (fs t) ?a = None)"
  proof (cases "fst (mkdir_p (dirname dst) s)")
    case (Inl e)
    then have "t = s\<lparr>fs := n\<rparr> \<and> r \<noteq> Inr ()" using n(1) run
      by (cases "mkdir_p (dirname dst) s") (auto simp: merge_move_file_def py_simps)
    then show ?thesis by (simp add: carried_refl)
  next
    case (Inr u)
    with n(1) have "mkdir_p (dirname dst) s = (Inr u, s\<lparr>fs := n\<rparr>)" by (metis prod.collapse)
    note run' = run [unfolded merge_move_file_def py_seq_apply this, simplified, unfolded py_simps, simplified]
    show ?thesis
    proof (cases "os_isfile n dst")
      case False
      with run' show ?thesis
        using move_carries [OF at names(1-3) ab False] by (auto simp: carried_refl split: sum.splits)
    next
      case True
      then obtain d where d: "fs_at n ?b = Some (FFile d)" using names(2)
        by (auto simp: os_isfile_def fs_node_def split: option.splits fnode.splits)
      show ?thesis using at
      proof
        assume "fs_at n ?a = None"
        with run' True show ?thesis using names(1,2) d by (auto simp: filecmp_cmp_def fs_node_def carried_refl)
      next
        assume c: "fs_at n ?a = Some (FFile c)"
        show ?thesis
          using run' True names(1,2) c d remove_carries [OF c _ ab(1)]
          by (auto simp: filecmp_cmp_def fs_node_def carried_refl os_remove_def split: if_splits option.splits)
      qed
    qed
  qed
  with grown_carried [OF n(2,3) ab] show ?thesis by blast
qed

section \<open>Paths below a directory\<close>

definition plain_path :: "string list \<Rightarrow> bool" where
  "plain_path p \<longleftrightarrow> list_all plain_name p"

lemma path_comps_here: "path_comps (path_join d ''.'') = path_comps d"
proof -
  consider "d = []" | d' where "d = d' @ [slash]" | "d \<noteq> []" "\<not> endswith d [slash]"
    by (cases d rule: rev_cases) (auto simp: endswith_def)
  then show ?thesis
  proof cases
    case 1
    then show ?thesis by (simp add: path_join_def path_comps_def startswith_def)
  next
    case 2
    have "path_comps (d' @ [slash]) = path_comps d'" using path_comps_snoc [of "[]" d'] by simp
    then show ?thesis using 2 path_comps_snoc [of "''.''" d'] by (simp add: path_join_def startswith_def endswith_def)
  next
    case 3
    then show ?thesis using path_comps_snoc [of "''.''" d] by (simp add: path_join_def startswith_def)
  qed
qed

lemma str_join_snoc: "xs \<noteq> [] \<Longrightarrow> str_join sep (xs @ [x]) = str_join sep xs @ sep @ x"
  by (induction sep xs rule: str_join.induct) auto

lemma startswith_char: "startswith s [c] \<longleftrightarrow> s \<noteq> [] \<and> hd s = c"
  by (cases s) auto

lemma plain_join:
  assumes "plain_path p" "p \<noteq> []"
  shows "str_join [slash] p \<noteq> []" "\<not> startswith (str_join [slash] p) [slash]"
proof -
  obtain x xs where p: "p = x # xs" using assms(2) by (cases p) auto
  then have x: "x \<noteq> []" "hd x \<noteq> slash" using assms(1) by (auto simp: plain_path_def plain_name_def hd_in_set) (metis hd_in_set)
  have "\<exists>y. str_join [slash] p = x @ y" by (cases xs) (auto simp: p)
  with x show "str_join [slash] p \<noteq> []" "\<not> startswith (str_join [slash] p) [slash]"
    by (auto simp: startswith_char)
qed

lemma path_comps_below:
  "plain_path p \<Longrightarrow> p \<noteq> [] \<Longrightarrow> path_comps (path_join d (str_join [slash] p)) = path_comps d @ p"
proof (induction p rule: rev_induct)
  case (snoc x p)
  then have x: "plain_name x" and p: "plain_path p" by (auto simp: plain_path_def)
  show ?case
  proof (cases "p = []")
    case True
    then show ?thesis using path_join_child(1) [OF x] by simp
  next
    case False
    note j = plain_join [OF p False]
    have "path_join d (str_join [slash] (p @ [x])) = path_join d (str_join [slash] p) @ [slash] @ x"
      using j by (auto simp: path_join_def str_join_snoc False startswith_char)
    then show ?thesis using path_comps_child [OF x] snoc.IH [OF p False] by simp
  qed
qed simp

lemma common_prefix_append: "common_prefix s (s @ p) = length s"
  by (induction s) auto

lemma relpath_below: "path_comps root = path_comps src @ p \<Longrightarrow> relpath root src = (if p = [] then ''.'' else str_join [slash] p)"
  by (simp add: relpath_def common_prefix_append)

lemma rel_dir:
  assumes "path_comps root = path_comps src @ p" and "plain_path p"
  shows "path_comps (path_join d (relpath root src)) = path_comps d @ p"
  using path_comps_below [OF assms(2)] path_comps_here [of d] by (simp add: relpath_below [OF assms(1)])

lemma path_comps_slash: "path_comps (d @ [slash]) = path_comps d"
  using path_comps_snoc [of "[]" d] by simp

lemma str_rstrip_snoc: "str_rstrip c (p @ [x]) = (if x = c then str_rstrip c p else p @ [x])"
  by (simp add: str_rstrip_def)

lemma path_comps_rstrip: "path_comps (str_rstrip slash p) = path_comps p"
proof (induction p rule: rev_induct)
  case (snoc x p)
  then show ?case using path_comps_slash [of p] by (simp add: str_rstrip_snoc)
qed (simp add: str_rstrip_def)

lemma last_name:
  assumes f: "plain_name f"
  shows "basename (str_rstrip slash (path_join d f)) = f" and "path_comps (dirname (path_join d f)) = path_comps d"
    and "d \<noteq> [] \<Longrightarrow> dirname (path_join d f) \<noteq> []"
proof -
  obtain g x where g: "f = g @ [x]" "x \<noteq> slash" using f by (cases f rule: rev_cases) (auto simp: plain_name_def)
  have f': "slash \<notin> set f" "f \<noteq> []" "\<not> startswith f [slash]" using f by (auto simp: plain_name_def startswith_char) (metis hd_in_set)
  obtain h where h: "path_join d f = h @ f" "h = d @ [slash] \<or> h = d \<and> (d = [] \<or> endswith d [slash])"
    using f' by (cases "d = [] \<or> endswith d [slash]") (simp_all add: path_join_def)
  have "str_rstrip slash (h @ f) = h @ f" using str_rstrip_snoc [of slash "h @ g" x] g by simp
  moreover have base: "basename (h @ f) = f \<and> path_head (h @ f) = h"
  proof (cases h rule: rev_cases)
    case Nil
    have "takeWhile (\<lambda>c. c \<noteq> slash) (rev f) = rev f" "dropWhile (\<lambda>c. c \<noteq> slash) (rev f) = []" using f'(1) by (auto simp: takeWhile_eq_all_conv)
    then show ?thesis unfolding Nil append_Nil basename_def path_head_def by (simp only: rev_rev_ident rev.simps)
  next
    case (snoc h' y)
    then have "y = slash" using h(2) by (auto simp: endswith_char)
    then show ?thesis using snoc basename_snoc [OF f'(1), of h'] path_head_snoc [OF f'(1), of h'] by simp
  qed
  ultimately show "basename (str_rstrip slash (path_join d f)) = f" using h(1) by simp
  have "path_comps h = path_comps d" using h(2) path_comps_slash [of d] by auto
  then show "path_comps (dirname (path_join d f)) = path_comps d"
    using base path_comps_rstrip [of h] by (simp add: dirname_def Let_def h(1))
  show "dirname (path_join d f) \<noteq> []" if "d \<noteq> []"
    using base that h(2) by (auto simp: dirname_def Let_def h(1) str_rstrip_def list_all_iff)
qed

lemma path_joins_two: "path_joins d [r, f] = path_join (path_join d r) f"
  by (simp add: path_joins_def)

section \<open>The files a walk meets\<close>

lemma walk_sound:
  "(root, ds, files) \<in> set (walk_node d m) \<Longrightarrow> tree_ok m \<Longrightarrow> \<exists>p. path_comps root = path_comps d @ p \<and> plain_path p \<and>
     (\<forall>f \<in> set files. plain_name f \<and> (\<exists>c. fs_at m (p @ [f]) = Some (FFile c)))"
  "(root, ds, files) \<in> set (walk_entries d es) \<Longrightarrow> entries_ok es \<Longrightarrow> distinct (map fst es) \<Longrightarrow>
     \<exists>p. path_comps root = path_comps d @ p \<and> plain_path p \<and>
     (\<forall>f \<in> set files. plain_name f \<and> (\<exists>c. fs_at (FDir es) (p @ [f]) = Some (FFile c)))"
proof (induction d m and d es rule: walk_node_walk_entries.induct)
  case (2 d es)
  show ?case
  proof (cases "(root, ds, files) \<in> set (walk_entries d es)")
    case True
    with 2 show ?thesis by simp
  next
    case False
    with "2.prems" have r: "root = d" "files = map fst (filter (\<lambda>e. \<not> node_is_dir (snd e)) es)" by auto
    have "plain_name f \<and> (\<exists>c. fs_at (FDir es) [f] = Some (FFile c))" if f: "f \<in> set files" for f
    proof -
      obtain m where m: "(f, m) \<in> set es" "\<not> node_is_dir m" using f unfolding r(2) by auto
      then have "map_of es f = Some m" using "2.prems" by simp
      with m entries_ok_mem [OF m(1)] "2.prems" show ?thesis by (cases m) auto
    qed
    then show ?thesis using r by (intro exI [of _ "[]"]) (simp add: plain_path_def)
  qed
next
  case (4 d x m es)
  show ?case
  proof (cases "(root, ds, files) \<in> set (walk_node (path_join d x) m)")
    case True
    with 4 obtain p where p: "path_comps root = path_comps (path_join d x) @ p" "plain_path p"
      "\<forall>f \<in> set files. plain_name f \<and> (\<exists>c. fs_at m (p @ [f]) = Some (FFile c))" by auto
    then show ?thesis using "4.prems" path_join_child(1) [of x d] by (intro exI [of _ "x # p"]) (auto simp: plain_path_def)
  next
    case False
    with 4 obtain p where p: "path_comps root = path_comps d @ p" "plain_path p"
      "\<forall>f \<in> set files. plain_name f \<and> (\<exists>c. fs_at (FDir es) (p @ [f]) = Some (FFile c))" by auto
    have "fs_at (FDir ((x, m) # es)) (p @ [f]) = fs_at (FDir es) (p @ [f])" if f: "f \<in> set files" for f
    proof -
      obtain c where "fs_at (FDir es) (p @ [f]) = Some (FFile c)" using p(3) f by auto
      moreover have "map_of es x = None" using "4.prems" by (simp add: map_of_eq_None_iff)
      ultimately show ?thesis by (cases p) (auto split: option.splits)
    qed
    with p show ?thesis by (intro exI [of _ p]) simp
  qed
qed auto

lemma walk_covers:
  "fs_at m (p @ [f]) = Some (FFile c) \<Longrightarrow> tree_ok m \<Longrightarrow> \<exists>(root, ds, files) \<in> set (walk_node d m).
     path_comps root = path_comps d @ p \<and> f \<in> set files"
proof (induction p arbitrary: d m)
  case Nil
  then obtain es where es: "m = FDir es" "map_of es f = Some (FFile c)"
    by (cases m) (auto split: option.splits)
  then have "f \<in> fst ` set (filter (\<lambda>e. \<not> node_is_dir (snd e)) es)"
    by (force dest: map_of_SomeD)
  with es(1) show ?case by simp
next
  case (Cons x p)
  then obtain es m' where es: "m = FDir es" "map_of es x = Some m'" "fs_at m' (p @ [f]) = Some (FFile c)"
    by (cases m) (auto split: option.splits)
  have mem: "(x, m') \<in> set es" using es(2) by (rule map_of_SomeD)
  have ok: "tree_ok m'" "plain_name x" using entries_ok_mem [OF mem] Cons.prems(2) es(1) by auto
  have sub: "set (walk_node (path_join d x) m') \<subseteq> set (walk_entries d es)"
    using mem by (induction es) auto
  from Cons.IH [OF es(3) ok(1), of "path_join d x"] sub es(1) show ?case
    by (fastforce simp: path_join_child(1) [OF ok(2)])
qed

section \<open>The loop over the files\<close>

text \<open>
  The state of a merge of the tree at \<open>S\<close> into \<open>D\<close> that started on the file system \<open>n0\<close>: no file is lost, and the
  files \<open>done\<close> are no longer at \<open>S\<close>.
\<close>

definition reached :: "string list \<Rightarrow> fnode \<Rightarrow> string list \<Rightarrow> string \<Rightarrow> bool" where
  "reached D n q c \<longleftrightarrow> fs_at n (D @ q) = Some (FFile c) \<or> fs_at n (D @ q @ [last q]) = Some (FFile c)"

definition merging :: "string list \<Rightarrow> string list \<Rightarrow> fnode \<Rightarrow> string list list \<Rightarrow> 's world_scheme \<Rightarrow> bool" where
  "merging S D n0 Q s \<longleftrightarrow>
     (\<forall>q c. q \<noteq> [] \<and> fs_at n0 (S @ q) = Some (FFile c) \<longrightarrow>
        fs_at (fs s) (S @ q) = Some (FFile c) \<or> fs_at (fs s) (S @ q) = None \<and> reached D (fs s) q c) \<and>
     (\<forall>r c. \<not> prefix S r \<and> fs_at n0 r = Some (FFile c) \<longrightarrow> fs_at (fs s) r = Some (FFile c)) \<and>
     (\<forall>q \<in> set Q. fs_at (fs s) (S @ q) = None)"

lemma merging_at:
  "merging S D n0 Q s \<Longrightarrow> q \<noteq> [] \<Longrightarrow> fs_at n0 (S @ q) = Some (FFile c) \<Longrightarrow>
     fs_at (fs s) (S @ q) = Some (FFile c) \<or> fs_at (fs s) (S @ q) = None \<and> reached D (fs s) q c"
  by (simp add: merging_def)

lemma merging_step:
  assumes inv: "merging S D n0 Q s" and q: "q \<noteq> []" "fs_at n0 (S @ q) = Some (FFile c)"
    and SD: "\<not> prefix S D" "\<not> prefix D S" and step: "carried (S @ q) (D @ q) (fs s) (fs t)"
  shows "merging S D n0 Q t"
proof -
  note apart = apart_append [OF SD]
  have kept: "fs_at (fs t) r = Some (FFile e)" if "r \<noteq> S @ q" "fs_at (fs s) r = Some (FFile e)" for r e
    using step that by (simp add: carried_def)
  have gone: "fs_at (fs t) (S @ q') = None" if "fs_at (fs s) (S @ q') = None" for q'
    using step that apart [of q' "q @ [last q]"] q(1) by (simp add: carried_def)
  have "fs_at (fs t) (S @ q') = Some (FFile e) \<or> fs_at (fs t) (S @ q') = None \<and> reached D (fs t) q' e"
    if q': "q' \<noteq> []" "fs_at n0 (S @ q') = Some (FFile e)" for q' e
  proof -
    from merging_at [OF inv q'] show ?thesis
    proof
      assume 1: "fs_at (fs s) (S @ q') = Some (FFile e)"
      show ?thesis
      proof (cases "q' = q")
        case True
        with 1 step q(1) show ?thesis by (simp add: carried_def reached_def)
      qed (use 1 kept in simp)
    next
      assume "fs_at (fs s) (S @ q') = None \<and> reached D (fs s) q' e"
      then show ?thesis using gone [of q'] kept [OF apart(3)] by (auto simp: reached_def)
    qed
  qed
  moreover have "fs_at (fs t) r = Some (FFile e)" if "\<not> prefix S r" "fs_at n0 r = Some (FFile e)" for r e
  proof -
    have "r \<noteq> S @ q" using that(1) by auto
    moreover have "fs_at (fs s) r = Some (FFile e)" using inv that by (simp add: merging_def)
    ultimately show ?thesis by (rule kept)
  qed
  ultimately show ?thesis using inv gone by (auto simp: merging_def)
qed

lemma merge_move_file_merges:
  fixes s :: "'s world_scheme"
  assumes SD: "\<not> prefix (path_comps src) (path_comps dst)" "\<not> prefix (path_comps dst) (path_comps src)" and dst: "src \<noteq> []" "dst \<noteq> []"
    and root: "path_comps root = path_comps src @ p" "plain_path p" and f: "plain_name f" "fs_at n0 (path_comps src @ p @ [f]) = Some (FFile c)"
    and inv: "merging (path_comps src) (path_comps dst) n0 Q s"
    and run: "merge_move_file (path_joins src [relpath root src, f]) (path_joins dst [relpath root src, f]) s = (r, t)"
  shows "merging (path_comps src) (path_comps dst) n0 Q t \<and> (r = Inr () \<longrightarrow> merging (path_comps src) (path_comps dst) n0 (Q @ [p @ [f]]) t)"
proof -
  let ?S = "path_comps src" and ?D = "path_comps dst" and ?q = "p @ [f]"
  let ?a = "path_joins src [relpath root src, f]" and ?b = "path_joins dst [relpath root src, f]"
  note rel = rel_dir [OF root]
  have comps: "path_comps ?a = ?S @ ?q" "path_comps ?b = ?D @ ?q" "?a \<noteq> []" "?b \<noteq> []"
    using path_join_child [OF f(1)] rel by (simp_all add: path_joins_two)
  have names: "basename (str_rstrip slash ?a) = last (path_comps ?a)" "prefix (path_comps (dirname ?b)) (path_comps ?b)"
    using last_name(1,2) [OF f(1)] rel comps by (simp_all add: path_joins_two)
  have apart: "\<not> prefix (path_comps ?a) (path_comps ?b)" "\<not> prefix (path_comps ?b) (path_comps ?a)"
    unfolding comps using apart_append(1) [OF SD] apart_append(1) [OF SD(2,1)] by blast+
  have at: "fs_at (fs s) (path_comps ?a) = Some (FFile c) \<or> fs_at (fs s) (path_comps ?a) = None"
    unfolding comps(1) using merging_at [OF inv _ f(2)] by auto
  have c: "carried (?S @ ?q) (?D @ ?q) (fs s) (fs t)" "r = Inr () \<longrightarrow> fs_at (fs t) (?S @ ?q) = None"
    using merge_move_file_carries [OF at comps(3,4) names apart run] by (simp_all add: comps(1,2))
  have "merging ?S ?D n0 Q t" using merging_step [OF inv _ _ SD c(1), of c] f(2) by simp
  with c(2) show ?thesis by (auto simp: merging_def)
qed

text \<open>The loops: on every path no file is lost, and when they return all files met are done.\<close>

lemma merge_files_merges:
  fixes src dst :: string and n0 :: fnode
  assumes SD: "\<not> prefix (path_comps src) (path_comps dst)" "\<not> prefix (path_comps dst) (path_comps src)" and dst: "src \<noteq> []" "dst \<noteq> []"
    and root: "path_comps root = path_comps src @ p" "plain_path p"
    and fl: "\<forall>f \<in> set files. plain_name f \<and> (\<exists>c. fs_at n0 (path_comps src @ p @ [f]) = Some (FFile c))"
  shows "keeps (merging (path_comps src) (path_comps dst) n0 Q) (merge_files src dst root files :: ('s world_scheme, unit) py)"
    and "ensures (merging (path_comps src) (path_comps dst) n0 Q) (merge_files src dst root files :: ('s world_scheme, unit) py)
       (\<lambda>_. merging (path_comps src) (path_comps dst) n0 (Q @ map (\<lambda>f. p @ [f]) files))"
proof -
  let ?M = "merging (path_comps src) (path_comps dst) n0"
  let ?m = "\<lambda>f. merge_move_file (path_joins src [relpath root src, f]) (path_joins dst [relpath root src, f]) :: ('s world_scheme, unit) py"
  note one = merge_move_file_merges [OF SD dst root]
  have k: "keeps (?M Q) (?m f)" "ensures (?M Q) (?m f) (\<lambda>_. ?M (Q @ [p @ [f]]))" if f: "f \<in> set files" for f Q
  proof -
    obtain c where c: "plain_name f" "fs_at n0 (path_comps src @ p @ [f]) = Some (FFile c)" using fl f by auto
    show "keeps (?M Q) (?m f)"
    proof (rule keepsI)
      fix s :: "'s world_scheme" assume "?M Q s"
      then show "?M Q (snd (?m f s))" using one [OF c] by (metis prod.collapse)
    qed
    show "ensures (?M Q) (?m f) (\<lambda>_. ?M (Q @ [p @ [f]]))"
      unfolding ensures_def using one [OF c] by auto
  qed
  have "keeps (?M Q) (py_for xs ?m)" if "set xs \<subseteq> set files" for xs
    using that by (induction xs) (auto intro!: keeps_intros k)
  from this [of files] show "keeps (?M Q) (merge_files src dst root files :: ('s world_scheme, unit) py)" by (simp add: merge_files_def Let_def)
  have "ensures (?M Q) (py_for xs ?m) (\<lambda>_. ?M (Q @ map (\<lambda>f. p @ [f]) xs))" if "set xs \<subseteq> set files" for xs
    using that
  proof (induction xs arbitrary: Q)
    case (Cons f xs)
    then have "ensures (?M (Q @ [p @ [f]])) (py_for xs ?m) (\<lambda>_. ?M ((Q @ [p @ [f]]) @ map (\<lambda>f. p @ [f]) xs))" by (intro Cons.IH) simp
    then show ?case using Cons.prems k(2) [of f Q] by (auto intro!: ensures_seq)
  qed (simp add: ensures_ret)
  from this [of files] show "ensures (?M Q) (merge_files src dst root files :: ('s world_scheme, unit) py) (\<lambda>_. ?M (Q @ map (\<lambda>f. p @ [f]) files))"
    by (simp add: merge_files_def Let_def)
qed

lemma merge_walk_merges:
  fixes src dst :: string and n0 :: fnode
  assumes SD: "\<not> prefix (path_comps src) (path_comps dst)" "\<not> prefix (path_comps dst) (path_comps src)" and dst: "src \<noteq> []" "dst \<noteq> []"
    and w: "\<forall>(root, ds, files) \<in> set w. \<exists>p. path_comps root = path_comps src @ p \<and> plain_path p \<and>
      (\<forall>f \<in> set files. plain_name f \<and> (\<exists>c. fs_at n0 (path_comps src @ p @ [f]) = Some (FFile c)))"
  shows "keeps (merging (path_comps src) (path_comps dst) n0 Q) (py_for w (\<lambda>(root, ds, files). merge_files src dst root files :: ('s world_scheme, unit) py))"
    and "ensures (merging (path_comps src) (path_comps dst) n0 Q) (py_for w (\<lambda>(root, ds, files). merge_files src dst root files :: ('s world_scheme, unit) py))
       (\<lambda>_ t. \<exists>Q'. merging (path_comps src) (path_comps dst) n0 Q' t \<and>
          (\<forall>(root, ds, files) \<in> set w. \<forall>p f. path_comps root = path_comps src @ p \<and> f \<in> set files \<longrightarrow> p @ [f] \<in> set Q') \<and> set Q \<subseteq> set Q')"
  using w
proof (induction w arbitrary: Q)
  case Nil
  {
    case 1
    show ?case by (simp add: keeps_intros)
  next
    case 2
    show ?case by (auto intro!: ensures_ret)
  }
next
  case (Cons x w)
  let ?M = "merging (path_comps src) (path_comps dst) n0"
  obtain root ds files where x: "x = (root, ds, files)" by (cases x)
  have p: "\<exists>p. path_comps root = path_comps src @ p \<and> plain_path p \<and>
      (\<forall>f \<in> set files. plain_name f \<and> (\<exists>c. fs_at n0 (path_comps src @ p @ [f]) = Some (FFile c)))"
    if "\<forall>(root, ds, files) \<in> set (x # w). \<exists>p. path_comps root = path_comps src @ p \<and> plain_path p \<and>
      (\<forall>f \<in> set files. plain_name f \<and> (\<exists>c. fs_at n0 (path_comps src @ p @ [f]) = Some (FFile c)))"
    using that by (simp add: x)
  {
    case 1
    from p [OF 1] obtain q where q: "path_comps root = path_comps src @ q" "plain_path q"
      "\<forall>f \<in> set files. plain_name f \<and> (\<exists>c. fs_at n0 (path_comps src @ q @ [f]) = Some (FFile c))" by blast
    show ?case using Cons.IH(1) [of Q] 1 merge_files_merges(1) [OF SD dst q] by (auto simp: x intro!: keeps_intros)
  next
    case 2
    from p [OF 2] obtain q where q: "path_comps root = path_comps src @ q" "plain_path q"
      "\<forall>f \<in> set files. plain_name f \<and> (\<exists>c. fs_at n0 (path_comps src @ q @ [f]) = Some (FFile c))" by blast
    have w: "\<forall>(root, ds, files) \<in> set w. \<exists>p. path_comps root = path_comps src @ p \<and> plain_path p \<and>
      (\<forall>f \<in> set files. plain_name f \<and> (\<exists>c. fs_at n0 (path_comps src @ p @ [f]) = Some (FFile c)))" using 2 by simp
    let ?Q = "Q @ map (\<lambda>f. q @ [f]) files"
    show ?case unfolding x py_for.simps case_prod_conv
    proof (rule ensures_seq [OF merge_files_merges(2) [OF SD dst q]], rule ensures_weaken [OF Cons.IH(2) [of ?Q, OF w]], assumption)
      fix u and t :: "'s world_scheme"
      assume "\<exists>Q'. ?M Q' t \<and>
          (\<forall>(root, ds, files) \<in> set w. \<forall>p f. path_comps root = path_comps src @ p \<and> f \<in> set files \<longrightarrow> p @ [f] \<in> set Q') \<and> set ?Q \<subseteq> set Q'"
      then obtain Q' where "?M Q' t" "\<forall>(root, ds, files) \<in> set w. \<forall>p f. path_comps root = path_comps src @ p \<and> f \<in> set files \<longrightarrow> p @ [f] \<in> set Q'"
        "set ?Q \<subseteq> set Q'" by blast
      then show "\<exists>Q'. ?M Q' t \<and>
          (\<forall>(root, ds, files) \<in> set ((root, ds, files) # w). \<forall>p f. path_comps root = path_comps src @ p \<and> f \<in> set files \<longrightarrow> p @ [f] \<in> set Q') \<and> set Q \<subseteq> set Q'"
        by (intro exI [of _ Q']) (auto simp: q(1))
    qed
  }
qed

section \<open>The whole operation\<close>

text \<open>A directory moved as a whole to a path where there is nothing.\<close>

lemma whole_move:
  assumes node: "fs_node n src = Some (FDir es)" and dst: "dst \<noteq> []" "\<not> os_exists n dst"
    and SD: "\<not> prefix (path_comps src) (path_comps dst)" "\<not> prefix (path_comps dst) (path_comps src)"
    and run: "shutil_move src dst n = Inr n'"
  shows "fs_at n' (path_comps dst @ q) = fs_at n (path_comps src @ q)" and "fs_at n' (path_comps src) = None"
    and "\<not> prefix (path_comps src) r \<Longrightarrow> fs_at n r = Some (FFile c) \<Longrightarrow> fs_at n' r = Some (FFile c)"
proof -
  let ?S = "path_comps src" and ?D = "path_comps dst"
  have at: "fs_at n ?S = Some (FDir es)" "fs_at n ?D = None" "?S \<noteq> ?D"
    using node dst SD by (auto simp: fs_node_def os_exists_def split: if_splits)
  have d: "move_target n src dst = ?D" using dst by (auto simp: move_target_def os_isdir_def os_exists_def)
  have "fs_rename ?S ?D (FDir es) n = Inr n'"
    using run node at unfolding shutil_move_def Let_def d by (auto split: if_splits)
  then obtain n1 n2 where n1: "fs_put ?S None n = Some n1" and n2: "n2 = n1 \<or> mk_dirs (butlast ?D) n1 = Some n2"
    and n3: "fs_put ?D (Some (FDir es)) n2 = Some n'"
    by (auto simp: fs_rename_def split: option.splits)
  have "?D \<noteq> []" using n3 by (cases "?D = []") simp_all
  then have "length (butlast ?D) < length ?D" by (cases "?D" rule: rev_cases) auto
  then have above: "prefix (butlast ?D) ?D" "\<not> prefix ?D (butlast ?D)"
    using prefixeq_butlast [of ?D] by (auto dest!: prefix_length_le)
  have S1: "fs_at n1 ?S = None" and D1: "fs_at n1 ?D = None" using fs_at_put_same [OF n1] fs_put_keeps(1) [OF n1 SD(1) at(2)] by simp_all
  have "\<not> prefix ?S (butlast ?D)" using SD(1) above(1) by (meson prefix_order.trans)
  then have S2: "fs_at n2 ?S = None" and D2: "fs_at n2 ?D = None"
    using n2 S1 D1 mk_dirs_keeps_None [of "butlast ?D" n1 n2] above(2) by auto
  show "fs_at n' (?D @ q) = fs_at n (?S @ q)" using fs_at_put_below [OF n3, of q] at(1) by (simp add: fs_at_append)
  show "fs_at n' ?S = None" using bind_free(2) [OF n3 D2 SD(2) S2] .
  show "fs_at n' r = Some (FFile c)" if "\<not> prefix ?S r" "fs_at n r = Some (FFile c)"
    using fs_put_keeps(2) [OF n1 that] n2 mk_dirs_keeps_file [of "butlast ?D" n1 n2 r c] bind_free(1) [OF n3 D2] by auto
qed

text \<open>The merge, file by file.\<close>

lemma merge_runs:
  fixes s :: "'s world_scheme"
  assumes node: "fs_node (fs s) src = Some (FDir es)" "tree_ok (FDir es)" and dst: "dst \<noteq> []"
    and SD: "\<not> prefix (path_comps src) (path_comps dst)" "\<not> prefix (path_comps dst) (path_comps src)"
    and run: "py_seq (py_for (os_walk (fs s) src) (\<lambda>(root, _, filenames). merge_files src dst root filenames)) (fs_do (shutil_rmtree src)) s = (r, t)"
  shows "merging (path_comps src) (path_comps dst) (fs s) [] t \<and>
     (r = Inr () \<longrightarrow> fs_at (fs t) (path_comps src) = None \<and>
        (\<forall>q c. q \<noteq> [] \<and> fs_at (fs s) (path_comps src @ q) = Some (FFile c) \<longrightarrow> reached (path_comps dst) (fs t) q c))"
proof -
  let ?S = "path_comps src" and ?D = "path_comps dst" and ?w = "walk_node src (FDir es)"
  let ?M = "merging ?S ?D (fs s)"
  have src: "src \<noteq> []" "fs_at (fs s) ?S = Some (FDir es)" using node(1) by (auto simp: fs_node_def split: if_splits)
  then have below: "fs_at (fs s) (?S @ q) = fs_at (FDir es) q" for q by (simp add: fs_at_append)
  have w: "\<forall>(root, ds, files) \<in> set ?w. \<exists>p. path_comps root = ?S @ p \<and> plain_path p \<and>
      (\<forall>f \<in> set files. plain_name f \<and> (\<exists>c. fs_at (fs s) (?S @ p @ [f]) = Some (FFile c)))"
    unfolding below using walk_sound(1) [OF _ node(2)] by blast
  have walk: "os_walk (fs s) src = ?w" using node(1) by (simp add: os_walk_def)
  let ?loop = "py_for ?w (\<lambda>(root, _, filenames). merge_files src dst root filenames) :: ('s world_scheme, unit) py"
  have M0: "?M [] s" by (auto simp: merging_def)
  obtain r1 t1 where t1: "?loop s = (r1, t1)" by (cases "?loop s")
  have M1: "?M [] t1" using keepsD [OF merge_walk_merges(1) [OF SD src(1) dst w] M0] t1 by simp
  show ?thesis
  proof (cases "r1 = Inr () \<and> shutil_rmtree src (fs t1) = Inr (fs t)")
    case False
    then have "t = t1 \<and> r \<noteq> Inr ()" using run t1 unfolding walk
      by (auto simp: py_simps split: sum.splits)
    with M1 show ?thesis by simp
  next
    case True
    from ensuresD [OF merge_walk_merges(2) [OF SD src(1) dst w] M0] t1 True obtain Q where Q: "?M Q t1"
      "\<forall>(root, ds, files) \<in> set ?w. \<forall>p f. path_comps root = ?S @ p \<and> f \<in> set files \<longrightarrow> p @ [f] \<in> set Q" by blast
    have put: "fs_put ?S None (fs t1) = Some (fs t)"
      using True by (auto simp: shutil_rmtree_def split: option.splits fnode.splits)
    have keepD: "fs_at (fs t) (?D @ q) = Some (FFile c)" if "fs_at (fs t1) (?D @ q) = Some (FFile c)" for q c
      using fs_put_keeps(2) [OF put _ that] apart_append(1) [OF SD, of "[]" q] by simp
    have moved: "reached ?D (fs t) q c" if q: "q \<noteq> []" "fs_at (fs s) (?S @ q) = Some (FFile c)" for q c
    proof -
      have "fs_at (FDir es) (butlast q @ [last q]) = Some (FFile c)" using q below by simp
      from walk_covers [OF this node(2), of src] Q(2) have "butlast q @ [last q] \<in> set Q" by blast
      then have "fs_at (fs t1) (?S @ q) = None" using Q(1) q(1) by (simp add: merging_def)
      then have "reached ?D (fs t1) q c" using merging_at [OF Q(1) q] by simp
      then show ?thesis using keepD by (auto simp: reached_def)
    qed
    have gone: "fs_at (fs t) (?S @ q) = None" for q using fs_at_put_below [OF put, of q] by simp
    have "?M [] t"
      using M1 moved gone fs_put_keeps(2) [OF put] by (auto simp: merging_def)
    then show ?thesis using moved gone [of "[]"] by simp
  qed
qed

lemma seq_log: "py_seq (log_msg l m) k s = k (log_upd l m s)"
  by (simp add: py_seq_apply log_msg_apply)

lemma move_or_merge_dir:
  fixes s :: "'s world_scheme"
  assumes "fs_node (fs s) src = Some (FDir es)"
  shows "\<exists>s1. fs s1 = fs s \<and> move_or_merge src dst s =
     (if \<not> os_exists (fs s) dst then fs_do (shutil_move src dst) s1
      else py_seq (py_for (os_walk (fs s1) src) (\<lambda>(root, _, filenames). merge_files src dst root filenames)) (fs_do (shutil_rmtree src)) s1)"
proof -
  have "\<not> os_isfile (fs s) src" "os_isdir (fs s) src" using assms by (simp_all add: os_isfile_def os_isdir_def)
  then show ?thesis
    unfolding move_or_merge_def seq_log py_when_def py_bind_apply fs_get_apply
    by (intro exI [of _ "log_upd INFO (if os_exists (fs s) dst then ''dst: '' @ dst @ '' exists, copying src files one-by-one''
          else ''Creating top-level dst folder: '' @ dst @ '', moving src as-a-whole'')
        (log_upd INFO (''Moving or merging to dst: '' @ dst) (log_upd INFO (''Testing for the existence of src: '' @ src) s))"])
      (simp add: seq_log py_bind_apply fs_get_apply del: append.simps)
qed

section \<open>Example state\<close>

definition merge_ex :: fnode where
  "merge_ex = FDir [(''a'', FDir [(''f'', FFile ''1''), (''d'', FDir [(''g'', FFile ''2'')]), (''h'', FFile ''3'')]),
     (''b'', FDir [(''f'', FFile ''1''), (''h'', FDir []), (''k'', FFile ''4'')])]"

definition merge_world_ex :: world where
  "merge_world_ex = world_ex\<lparr>fs := merge_ex\<rparr>"

section \<open>Properties\<close>

text \<open>C35. Moving or merging a directory loses no file, whether it returns or raises: files outside the source keep their
  place and content, those of the destination included, and every file of the source is, with its content, still in its
  place or at the corresponding path of the destination, or one level deeper where the destination has a directory of its
  name. When it returns, all files have moved and the source is gone. Neither path may contain the other.\<close>

theorem merge_loses_no_file:
  fixes s :: "'s world_scheme"
  assumes "fs_node (fs s) src = Some (FDir es)" and "tree_ok (FDir es)" and "dst \<noteq> []"
    and "\<not> prefix (path_comps src) (path_comps dst)" and "\<not> prefix (path_comps dst) (path_comps src)"
    and "move_or_merge src dst s = (r, t)"
  shows "(\<forall>p c. \<not> prefix (path_comps src) p \<and> fs_at (fs s) p = Some (FFile c) \<longrightarrow> fs_at (fs t) p = Some (FFile c)) \<and>
     (\<forall>q c. fs_at (fs s) (path_comps src @ q) = Some (FFile c) \<longrightarrow>
        r \<noteq> Inr () \<and> fs_at (fs t) (path_comps src @ q) = Some (FFile c) \<or> reached (path_comps dst) (fs t) q c) \<and>
     (r = Inr () \<longrightarrow> fs_at (fs t) (path_comps src) = None)"
proof -
  let ?S = "path_comps src" and ?D = "path_comps dst"
  note node = assms(1) and SD = assms(4,5)
  have not_file: "q \<noteq> []" if "fs_at (fs s) (?S @ q) = Some (FFile c)" for q c
    using that node by (auto simp: fs_node_def split: if_splits)
  obtain s1 where s1: "fs s1 = fs s"
    "(if \<not> os_exists (fs s) dst then fs_do (shutil_move src dst) s1
      else py_seq (py_for (os_walk (fs s1) src) (\<lambda>(root, _, filenames). merge_files src dst root filenames)) (fs_do (shutil_rmtree src)) s1) = (r, t)"
    using move_or_merge_dir [OF node, of dst] assms(6) by auto
  show ?thesis
  proof (cases "os_exists (fs s) dst")
    case True
    have "fs_node (fs s1) src = Some (FDir es)" using node s1(1) by simp
    note m = merge_runs [OF this assms(2,3) SD] 
    have M: "merging ?S ?D (fs s) [] t" and all: "r = Inr () \<longrightarrow> fs_at (fs t) ?S = None \<and>
        (\<forall>q c. q \<noteq> [] \<and> fs_at (fs s) (?S @ q) = Some (FFile c) \<longrightarrow> reached ?D (fs t) q c)"
      using m [unfolded s1(1)] s1(2) True by (simp_all add: s1(1))
    have "r \<noteq> Inr () \<and> fs_at (fs t) (?S @ q) = Some (FFile c) \<or> reached ?D (fs t) q c" if "fs_at (fs s) (?S @ q) = Some (FFile c)" for q c
      using merging_at [OF M not_file [OF that] that] all not_file [OF that] that by auto
    then show ?thesis using M all by (simp add: merging_def)
  next
    case False
    with s1 have move: "r = Inr () \<and> shutil_move src dst (fs s) = Inr (fs t) \<or> r \<noteq> Inr () \<and> fs t = fs s"
      by (auto simp: py_simps split: sum.splits)
    then show ?thesis
    proof
      assume t: "r = Inr () \<and> shutil_move src dst (fs s) = Inr (fs t)"
      note w = whole_move [OF node assms(3) False SD conjunct2 [OF t]]
      show ?thesis using t w(2) w(3) w(1) by (simp add: reached_def)
    qed simp
  qed
qed

theorem merge_loses_no_file_witness:
  "\<exists>t. move_or_merge ''/a'' ''/b'' merge_world_ex = (Inr (), t) \<and> fs_at (fs t) [''b'', ''k''] = Some (FFile ''4'') \<and>
     reached [''b''] (fs t) [''d'', ''g''] ''2'' \<and> reached [''b''] (fs t) [''h''] ''3'' \<and> fs_at (fs t) [''a''] = None"
proof -
  let ?es = "case fs_node (fs merge_world_ex) ''/a'' of Some (FDir es) \<Rightarrow> es | _ \<Rightarrow> []"
  have "fst (move_or_merge ''/a'' ''/b'' merge_world_ex) = Inr ()" by code_simp
  then obtain t where t: "move_or_merge ''/a'' ''/b'' merge_world_ex = (Inr (), t)" by (metis prod.collapse)
  have pre: "fs_node (fs merge_world_ex) ''/a'' = Some (FDir ?es)" "tree_ok (FDir ?es)" "path_comps ''/a'' = [''a'']" "path_comps ''/b'' = [''b'']"
    by code_simp+
  have files: "fs_at (fs merge_world_ex) [''b'', ''k''] = Some (FFile ''4'')" "fs_at (fs merge_world_ex) ([''a''] @ [''d'', ''g'']) = Some (FFile ''2'')"
    "fs_at (fs merge_world_ex) ([''a''] @ [''h'']) = Some (FFile ''3'')" by code_simp+
  note merge_loses_no_file [OF pre(1,2) _ _ _ t, unfolded pre(3,4)]
  with files t show ?thesis by (auto simp del: append.simps)
qed

end
