(* ===== verification/Restructure.thy ===== *)
theory Restructure
  imports MoveMerge Commands
begin

text \<open>
  \<open>clientScripts/restructure_for_compliance.py\<close> with \<open>utils/bag.py\<close>, and \<open>clientScripts/assign_uuids_to_directories.py\<close>:
  bringing a transfer into the layout the later steps expect, and registering its directories. The last sections show
  that the operations keep the tree well formed, what a restructured transfer looks like at its top level, and which
  directories are registered.
\<close>

section \<open>Bags\<close>

text \<open>
  What the library \<open>bagit\<close> does is a parameter: opening a bag and validating it, completely or only by the presence and
  number of the files, gives nothing or the text of a \<open>BagError\<close>. \<open>rs_repr\<close> is the text \<open>repr\<close> shows for an exception, and
  \<open>rs_root_div\<close> reads the structural map of a METS document.
\<close>

record rs_env = env +
  bag_open :: "fnode \<Rightarrow> string \<Rightarrow> string option"
  bag_validate :: "fnode \<Rightarrow> string \<Rightarrow> bool \<Rightarrow> string option"
  rs_repr :: "py_exn \<Rightarrow> string"
  rs_root_div :: "string \<Rightarrow> py_exn + mets_div option"

definition is_bag :: "('e rs_env_scheme) \<Rightarrow> string \<Rightarrow> 's printfn \<Rightarrow> ('s world_scheme, bool) py" where
  "is_bag E path printfn = py_bind (fs_get (\<lambda>n. bag_open E n path)) (\<lambda>err. case err of
      Some m \<Rightarrow> py_seq (printfn Stderr [''Error opening BagIt package:'', m]) (py_ret False)
    | None \<Rightarrow> py_ret True)"

definition is_valid :: "('e rs_env_scheme) \<Rightarrow> string \<Rightarrow> bool \<Rightarrow> 's printfn \<Rightarrow> ('s world_scheme, bool) py" where
  "is_valid E path completeness_only printfn =
     py_bind (fs_get (\<lambda>n. case bag_open E n path of Some m \<Rightarrow> Some m | None \<Rightarrow> bag_validate E n path completeness_only)) (\<lambda>err. case err of
      Some m \<Rightarrow> py_seq (printfn Stderr [''Error validating BagIt package:'', m]) (py_ret False)
    | None \<Rightarrow> py_ret True)"

section \<open>Restructuring\<close>

definition OPTIONAL_FILES :: "string list" where
  "OPTIONAL_FILES = [''processingMCP.xml'', ''README.html'']"

definition is_OSError :: "py_exn \<Rightarrow> bool" where
  "is_OSError e = (case e of OSError _ _ \<Rightarrow> True | _ \<Rightarrow> False)"

definition restructure_move_file :: "string \<Rightarrow> string \<Rightarrow> bool \<Rightarrow> ('s world_scheme, unit) py" where
  "restructure_move_file src dst exit_on_error =
     py_seq (log_msg INFO (''Moving '' @ src @ '' to '' @ dst))
    (py_try (fs_do (shutil_move src dst))
       (\<lambda>e. if is_OSError e then Some (py_seq (job_pyprint Stdout [''Could not move'', src]) (py_when exit_on_error (py_raise e))) else None))"

definition listdir :: "string \<Rightarrow> ('s world_scheme, string list) py" where
  "listdir path = py_bind (fs_get (\<lambda>n. os_listdir n path)) py_lift"

definition restructure_item :: "string \<Rightarrow> string \<Rightarrow> ('s world_scheme, unit) py" where
  "restructure_item unit_path item =
     (let src = path_join unit_path item; dst = path_joins unit_path [''objects'', ''.''] in
      py_bind (fs_get (\<lambda>n. os_isdir n src)) (\<lambda>isdir. py_bind (fs_get (\<lambda>n. os_isfile n src)) (\<lambda>isfile.
      if isdir \<and> item \<notin> set REQUIRED_DIRECTORIES then restructure_move_file src dst True
      else if isfile \<and> item \<notin> set OPTIONAL_FILES then restructure_move_file src dst True
      else py_ret ())))"

definition restructure_transfer :: "string \<Rightarrow> ('s world_scheme, unit) py" where
  "restructure_transfer unit_path =
     py_seq (create_structured_directory unit_path False True (\<lambda>xs. job_pyprint Stdout xs))
    (py_bind (listdir unit_path) (\<lambda>items. py_for items (restructure_item unit_path)))"

text \<open>Every entry of \<open>src\<close> but the one called \<open>skip\<close>, moved to \<open>dst\<close>.\<close>

definition move_entries :: "string \<Rightarrow> string \<Rightarrow> string option \<Rightarrow> ('s world_scheme, unit) py" where
  "move_entries src dst skip = py_bind (listdir src) (\<lambda>items.
     py_for items (\<lambda>item. if Some item = skip then py_ret () else restructure_move_file (path_join src item) dst True))"

text \<open>
  The pattern \<open>^METS\..*\.xml$\<close>, without regard to case: the matched text. The dollar also matches before a line
  feed at the end, and the dot does not match one.
\<close>

definition mets_match :: "string \<Rightarrow> string option" where
  "mets_match item =
     (let t = (if endswith item [CHR 0x0A] then butlast item else item); l = map to_lower t
      in if startswith l ''mets.'' \<and> endswith l ''.xml'' \<and> 9 \<le> length t \<and> CHR 0x0A \<notin> set t then Some t else None)"

text \<open>The first entry that matches; without one the loop variable is \<open>None\<close>, or unbound when there are no entries.\<close>

definition find_mets :: "string list \<Rightarrow> py_exn + string" where
  "find_mets items = (case List.map_filter mets_match items of
      t # _ \<Rightarrow> Inr t
    | [] \<Rightarrow> if items = [] then Inl (UnboundLocalError ''local variable m referenced before assignment'') else Inl (no_attribute ''group''))"

definition move_and_remove :: "string \<Rightarrow> string \<Rightarrow> ('s world_scheme, unit) py" where
  "move_and_remove src dst = py_bind (fs_get (\<lambda>n. os_isdir n src)) (\<lambda>there.
     py_when there (py_seq (move_entries src dst None) (fs_do (shutil_rmtree src))))"

definition restructure_transfer_aip :: "(string \<Rightarrow> py_exn + mets_div option) \<Rightarrow> string \<Rightarrow> ('s world_scheme, unit) py" where
  "restructure_transfer_aip find_root_div unit_path =
     (let old_bag = path_joins unit_path [''old_bag'', []]; metadata = path_join unit_path ''metadata''; objects = path_join unit_path ''objects'' in
      py_seq (fs_do (os_makedirs old_bag))
     (py_seq (move_entries unit_path old_bag (Some ''old_bag''))
     (py_seq (create_structured_directory unit_path False True (\<lambda>xs. job_pyprint Stdout xs))
     (py_bind (listdir (path_join old_bag ''data'')) (\<lambda>items.
      py_bind (py_lift (find_mets items)) (\<lambda>mets.
      py_seq (restructure_move_file (path_joins old_bag [''data'', mets]) metadata True)
     (py_seq (move_and_remove (path_joins old_bag [''data'', ''objects'', ''metadata'']) metadata)
     (py_seq (move_and_remove (path_joins old_bag [''data'', ''objects'', ''submissionDocumentation''])
        (path_joins unit_path [''metadata'', ''submissionDocumentation'']))
     (py_seq (move_entries (path_joins old_bag [''data'', ''objects'']) objects None)
     (py_bind (fs_get (\<lambda>n. os_isfile n (path_join old_bag ''processingMCP.xml''))) (\<lambda>isfile.
      py_seq (py_when isfile (restructure_move_file (path_join old_bag ''processingMCP.xml'') (path_join unit_path ''processingMCP.xml'') True))
     (py_seq (fs_do (shutil_rmtree old_bag))
        (reconstruct_empty_directories find_root_div metadata objects)))))))))))))"

text \<open>
  \<open>call\<close>: of the two arguments given to \<open>is_valid\<close> the second, a method of the job, is the parameter
  \<open>completeness_only\<close>, where it counts as true; the messages go to the standard output of the process.
\<close>

definition restructure_unit :: "('e rs_env_scheme) \<Rightarrow> string \<Rightarrow> string \<Rightarrow> ('s world_scheme, unit) py" where
  "restructure_unit E sip_path sip_uuid =
     py_bind (py_try (py_bind (get_transfer sip_uuid) (\<lambda>tr. py_ret (Inl tr)))
        (\<lambda>e. if missing_variable e then Some (py_bind (get_sip sip_uuid) (\<lambda>sip. py_ret (Inr sip))) else None)) (\<lambda>u.
     py_seq (log_msg INFO (case u of Inl tr \<Rightarrow> ''Transfer.type='' @ tr_type tr | Inr sip \<Rightarrow> ''SIP.sip_type='' @ s_sip_type sip))
    (if (case u of Inl tr \<Rightarrow> tr_type tr = ARCHIVEMATICA_AIP | Inr _ \<Rightarrow> False)
     then py_seq (log_msg INFO ''Archivematica AIP detected, verifying bag...'')
         (py_bind (is_valid E sip_path True (\<lambda>_ _. py_ret ())) (\<lambda>valid.
          if \<not> valid
          then py_seq (log_msg INFO ''Archivematica AIP: bag verification failed!'') (upd_job (set_status 1 ''success''))
          else py_seq (log_msg INFO ''Restructuring transfer (Archivematica AIP re-ingest)...'')
              (restructure_transfer_aip (rs_root_div E) sip_path)))
     else py_seq (log_msg INFO ''Restructuring transfer...'') (restructure_transfer sip_path)))"

definition restructure_job :: "('e rs_env_scheme) \<Rightarrow> ('s world_scheme, unit) py" where
  "restructure_job E = JobContext (env_traceback E) True
     (py_try (py_bind (nth_arg 1) (\<lambda>sip_path. py_bind (nth_arg 2) (restructure_unit E sip_path)))
        (\<lambda>e. if is_OSError e then Some (py_seq (job_pyprint Stdout [rs_repr E e]) (upd_job (set_status 1 ''success''))) else None))"

definition restructure_call :: "('e rs_env_scheme) \<Rightarrow> job list \<Rightarrow> ('s world_scheme, job list) py" where
  "restructure_call E jobs = atomic (run_jobs (restructure_job E) jobs)"

section \<open>Directories with UUIDs\<close>

record dirs_args =
  dd_transfer_path :: string
  dd_transfer_uuid :: string
  dd_include_dirs :: bool

definition exit_if_not_include_dirs :: "bool \<Rightarrow> ('s world_scheme, unit) py" where
  "exit_if_not_include_dirs include_dirs = py_when (\<not> include_dirs)
     (py_seq (log_msg INFO ''Configuration indicates that directories in this Transfer should not be given UUIDs.'') (py_raise DirsUUIDsWarning))"

definition WARNING :: nat where "WARNING = 30"

definition get_transfer_mdl :: "string \<Rightarrow> ('s world_scheme, transfer_row) py" where
  "get_transfer_mdl transfer_uuid =
     py_try (py_bind (get_transfer transfer_uuid) (\<lambda>r.
        (let mdl = r\<lparr>tr_diruuids := True\<rparr> in
         py_seq (py_mod (\<lambda>s. s\<lparr>Transfers := row_save tr_uuid mdl (Transfers s)\<rparr>)) (py_ret mdl))))
       (\<lambda>e. if missing_variable e
          then Some (py_seq (log_msg WARNING (''There is no transfer with UUID '' @ transfer_uuid)) (py_raise DirsUUIDsException)) else None)"

text \<open>The generator of paths is read while the rows are created; the tree does not change in between.\<close>

definition subdir_paths :: "fnode \<Rightarrow> string \<Rightarrow> string list" where
  "subdir_paths n root_path =
     map (\<lambda>dir_path. format_subdir_path dir_path root_path)
       (filter (\<lambda>dir_path. dir_path \<notin> {root_path, path_join root_path ''objects''}) (map fst (os_walk n root_path)))"

definition get_subdir_paths :: "string \<Rightarrow> ('s world_scheme, string list) py" where
  "get_subdir_paths root_path =
     py_bind (fs_get (\<lambda>n. os_isdir n root_path)) (\<lambda>isdir.
     if \<not> isdir
     then py_seq (log_msg WARNING (''Transfer path '' @ root_path @ '' is not a path to a directory'')) (py_raise DirsUUIDsException)
     else fs_get (\<lambda>n. subdir_paths n root_path))"

definition exit_on_known_exception :: "('s, int) py \<Rightarrow> ('s, int) py" where
  "exit_on_known_exception func = py_try func (\<lambda>e. case e of
      DirsUUIDsException \<Rightarrow> Some (py_ret 1) | DirsUUIDsWarning \<Rightarrow> Some (py_ret 0) | _ \<Rightarrow> None)"

definition assign_dirs_main :: "env \<Rightarrow> dirs_args \<Rightarrow> ('s world_scheme, int) py" where
  "assign_dirs_main E a = exit_on_known_exception
     (py_seq (exit_if_not_include_dirs (dd_include_dirs a))
     (py_bind (get_subdir_paths (dd_transfer_path a)) (\<lambda>paths.
      py_bind (get_transfer_mdl (dd_transfer_uuid a)) (\<lambda>mdl.
      py_bind (get_dir_uuids E paths (\<lambda>xs. job_pyprint Stdout xs)) (\<lambda>entries.
      py_seq (Directory_create_many E entries (tr_uuid mdl) ''transfer'') (py_ret 0))))))"

definition assign_dirs_job :: "env \<Rightarrow> (string list \<Rightarrow> py_exn + dirs_args) \<Rightarrow> ('s world_scheme, unit) py" where
  "assign_dirs_job E parse_args = JobContext (env_traceback E) True
     (py_bind (py_get (\<lambda>s. parse_args (tl (j_args (cur_job s))))) (\<lambda>r. py_bind (py_lift r) (\<lambda>a.
      py_bind (assign_dirs_main E a) (\<lambda>code. upd_job (set_status code ''success'')))))"

definition assign_dirs_call :: "env \<Rightarrow> (string list \<Rightarrow> py_exn + dirs_args) \<Rightarrow> job list \<Rightarrow> ('s world_scheme, job list) py" where
  "assign_dirs_call E parse_args jobs = atomic (run_jobs (assign_dirs_job E parse_args) jobs)"

section \<open>Well-formed trees\<close>

lemma entries_ok_iff: "entries_ok es \<longleftrightarrow> (\<forall>(x, m) \<in> set es. plain_name x \<and> tree_ok m)"
  by (induction es) auto

lemma set_dict_set: "set (dict_set d k v) \<subseteq> insert (k, v) (set d)"
  by (induction d) (auto split: if_splits)

lemma entries_ok_set: "entries_ok es \<Longrightarrow> plain_name x \<Longrightarrow> tree_ok m \<Longrightarrow> entries_ok (dict_set es x m)"
  using set_dict_set [of es x m] by (fastforce simp: entries_ok_iff)

lemma tree_ok_set: "tree_ok (FDir es) \<Longrightarrow> plain_name x \<Longrightarrow> tree_ok m \<Longrightarrow> tree_ok (FDir (dict_set es x m))"
  by (simp add: dict_set_distinct entries_ok_set)

lemma tree_ok_del: "tree_ok (FDir es) \<Longrightarrow> tree_ok (FDir (dict_del es x))"
  by (auto simp: dict_del_def entries_ok_iff distinct_map_filter)

lemma tree_ok_entry: "tree_ok (FDir es) \<Longrightarrow> map_of es x = Some m \<Longrightarrow> tree_ok m \<and> plain_name x"
  by (metis entries_ok_mem map_of_SomeD tree_ok.simps(2))

lemma tree_ok_at: "tree_ok n \<Longrightarrow> fs_at n p = Some m \<Longrightarrow> tree_ok m"
proof (induction n p rule: fs_at.induct)
  case (3 es x xs)
  then show ?case by (auto dest: tree_ok_entry simp del: tree_ok.simps split: option.splits)
qed auto

lemma tree_ok_put:
  "fs_put p v n = Some n' \<Longrightarrow> tree_ok n \<Longrightarrow> plain_path p \<Longrightarrow> (\<And>m. v = Some m \<Longrightarrow> tree_ok m) \<Longrightarrow> tree_ok n'"
proof (induction p v n arbitrary: n' rule: fs_put.induct)
  case (3 x xs v es)
  then have x: "plain_name x" "plain_path xs" by (simp_all add: plain_path_def)
  show ?case
  proof (cases "xs = []")
    case True
    with 3(2,3,5) x(1) show ?thesis
      by (auto simp: tree_ok_set tree_ok_del simp del: tree_ok.simps split: option.splits)
  next
    case False
    with 3(2) obtain m m' where m: "map_of es x = Some m" "fs_put xs v m = Some m'" "n' = FDir (dict_set es x m')"
      by (auto split: option.splits)
    have "tree_ok m'" using 3(1) [OF False m(1,2) _ x(2) 3(5)] tree_ok_entry [OF 3(3) m(1)] by simp
    with m(3) show ?thesis using tree_ok_set [OF 3(3) x(1)] by simp
  qed
qed auto

lemma tree_ok_chain: "plain_path p \<Longrightarrow> tree_ok (mk_chain p)"
  by (induction p) (auto simp: plain_path_def)

lemma tree_ok_mk_dirs: "mk_dirs p n = Some n' \<Longrightarrow> tree_ok n \<Longrightarrow> plain_path p \<Longrightarrow> tree_ok n'"
proof (induction p n arbitrary: n' rule: mk_dirs.induct)
  case (3 x xs es)
  then have x: "plain_name x" "plain_path xs" by (simp_all add: plain_path_def)
  show ?case
  proof (cases "map_of es x")
    case None
    with 3(2,3) x show ?thesis using tree_ok_set [OF 3(3) x(1) tree_ok_chain [OF x(2)]] by simp
  next
    case (Some m)
    with 3(2) obtain m' where m': "mk_dirs xs m = Some m'" "n' = FDir (dict_set es x m')" by auto
    have "tree_ok m'" using 3(1) [OF Some m'(1) _ x(2)] tree_ok_entry [OF 3(3) Some] by simp
    with m'(2) show ?thesis using tree_ok_set [OF 3(3) x(1)] by simp
  qed
qed auto

lemma plain_path_comps: "plain_path (path_comps p)"
proof -
  have "plain_path acc \<Longrightarrow> \<forall>x \<in> set xs. slash \<notin> set x \<Longrightarrow> plain_path (norm_comps True acc xs)" for acc xs
  proof (induction True acc xs rule: norm_comps.induct)
    case (2 acc c cs)
    have top: "acc \<noteq> [] \<Longrightarrow> hd acc \<noteq> ''..''" using 2(4) by (cases acc) (auto simp: plain_path_def plain_name_def)
    consider "c = [] \<or> c = ''.''" | "c = ''..''" | "c \<noteq> [] \<and> c \<noteq> ''.''" "c \<noteq> ''..''" by blast
    then show ?case
    proof cases
      case 1
      with 2(1,4,5) show ?thesis by simp
    next
      case n: 2
      have "plain_path (tl acc)" using 2(4) by (cases acc) (simp_all add: plain_path_def)
      with 2(3,5) top n show ?thesis by auto
    next
      case n: 3
      then have "plain_path (c # acc)" using 2(4,5) by (simp add: plain_path_def plain_name_def)
      with 2(2,5) n show ?thesis by simp
    qed
  qed (simp add: plain_path_def list_all_iff)
  from this [of "[]" "str_split slash p"] show ?thesis
    using set_str_split [of _ slash p] by (simp add: path_comps_def plain_path_def list_all_iff)
qed

lemma tree_ok_rename:
  assumes "fs_rename p q m n = Inr n'" and "tree_ok n" "tree_ok m" "plain_path p" "plain_path q"
  shows "tree_ok n'"
proof -
  have b: "plain_path (butlast q)" using assms(5) by (auto simp: plain_path_def list_all_iff dest: in_set_butlastD)
  obtain n1 where n1: "fs_put p None n = Some n1" using assms(1) by (auto simp: fs_rename_def split: option.splits)
  then have "tree_ok n1" using tree_ok_put [OF n1 assms(2,4)] by simp
  moreover obtain n2 where "n2 = n1 \<or> mk_dirs (butlast q) n1 = Some n2" "fs_put q (Some m) n2 = Some n'"
    using assms(1) n1 by (auto simp: fs_rename_def split: option.splits fnode.splits)
  ultimately show ?thesis using tree_ok_mk_dirs [of "butlast q" n1 n2] tree_ok_put [of q "Some m" n2 n'] assms(3,5) b by auto
qed

lemma tree_ok_move:
  assumes run: "shutil_move src dst n = Inr n'" and n: "tree_ok n" and b: "plain_name (basename (str_rstrip slash src))"
  shows "tree_ok n'"
proof -
  obtain m where m: "fs_node n src = Some m" using run by (cases "fs_node n src") (simp_all add: shutil_move_def Let_def)
  then have "tree_ok m" using tree_ok_at [OF n] by (auto simp: fs_node_def split: if_splits)
  moreover have "plain_path (move_target n src dst)"
    using plain_path_comps [of dst] b by (auto simp: move_target_def plain_path_def)
  ultimately show ?thesis
    using run m n tree_ok_rename [of "path_comps src" "move_target n src dst" m n n'] plain_path_comps [of src]
    by (auto simp: shutil_move_def Let_def split: if_splits option.splits fnode.splits)
qed

section \<open>Directories stay directories\<close>

text \<open>Moving never takes a directory away that is not at or below the source.\<close>

lemma dir_above: "fs_at n (p @ q) = Some (FDir es) \<Longrightarrow> \<exists>es'. fs_at n p = Some (FDir es')"
  by (cases "fs_at n p"; cases "the (fs_at n p)"; cases q) (auto simp: fs_at_append)

lemma move_keeps_dir:
  assumes run: "shutil_move src dst n = Inr n'" and src: "\<not> prefix (path_comps src) p" and p: "fs_at n p = Some (FDir es)"
  shows "\<exists>es'. fs_at n' p = Some (FDir es')"
proof (cases "path_comps src = move_target n src dst")
  case True
  then show ?thesis using run p by (cases "fs_node n src") (auto simp: shutil_move_def Let_def)
next
  case False
  let ?S = "path_comps src" and ?d = "move_target n src dst"
  obtain m where m: "fs_node n src = Some m" using run by (cases "fs_node n src") (simp_all add: shutil_move_def Let_def)
  with run False have ren: "fs_rename ?S ?d m n = Inr n'" and free: "\<not> (os_isdir n dst \<and> fs_at n ?d \<noteq> None)"
    by (auto simp: shutil_move_def Let_def split: if_splits option.splits fnode.splits)
  obtain n1 n2 where n1: "fs_put ?S None n = Some n1" and n2: "n2 = n1 \<or> mk_dirs (butlast ?d) n1 = Some n2"
    and n3: "fs_put ?d (Some m) n2 = Some n'"
    using ren by (auto simp: fs_rename_def split: option.splits fnode.splits)
  obtain es1 where "fs_at n1 p = Some (FDir es1)" using fs_put_keeps(3) [OF n1 src p] by blast
  then obtain es2 where es2: "fs_at n2 p = Some (FDir es2)" using n2 mk_dirs_keeps_dir [of "butlast ?d" n1 n2 p es1] by auto
  have "\<not> prefix ?d p"
  proof
    assume "prefix ?d p"
    then obtain es' where es': "fs_at n ?d = Some (FDir es')" using p dir_above [of n ?d] by (auto simp: prefix_def)
    then have "?d = path_comps dst" "\<not> os_isdir n dst" using free by (auto simp: move_target_def)
    moreover have "dst \<noteq> []" using n3 \<open>?d = path_comps dst\<close> by (auto simp: path_comps_def)
    ultimately show False using es' by (simp add: os_isdir_def fs_node_def)
  qed
  from fs_put_keeps(3) [OF n3 this es2] show ?thesis .
qed

definition holds_dir :: "string list \<Rightarrow> 's world_scheme \<Rightarrow> bool" where
  "holds_dir p s \<longleftrightarrow> tree_ok (fs s) \<and> (\<exists>es. fs_at (fs s) p = Some (FDir es))"

lemma holds_dir_job [simp]: "holds_dir p (s\<lparr>cur_job := j\<rparr>) = holds_dir p s" "holds_dir p (log_upd l m s) = holds_dir p s"
  by (simp_all add: holds_dir_def)

lemma keeps_dir_basic [keeps_intros]:
  "keeps (holds_dir p) (log_msg l m)" "keeps (holds_dir p) (job_pyprint Stdout xs)" "keeps (holds_dir p) (fs_get g)"
  by (simp_all add: keeps_def py_simps job_pyprint_def pyprint_def)

lemma keeps_dir_do: "(\<And>n n'. g n = Inr n' \<Longrightarrow> tree_ok n \<Longrightarrow> tree_ok n' \<and> (\<forall>es. fs_at n p = Some (FDir es) \<longrightarrow> (\<exists>es'. fs_at n' p = Some (FDir es')))) \<Longrightarrow>
    keeps (holds_dir p) (fs_do g)"
  by (rule keepsI) (force simp: py_simps holds_dir_def split: sum.splits)

lemma keeps_dir_move:
  assumes "\<not> prefix (path_comps src) p" and "plain_name (basename (str_rstrip slash src))"
  shows "keeps (holds_dir p) (restructure_move_file src dst b)"
proof -
  have "keeps (holds_dir p) (fs_do (shutil_move src dst))"
    using tree_ok_move [OF _ _ assms(2)] move_keeps_dir [OF _ assms(1)] by (intro keeps_dir_do) blast
  then show ?thesis unfolding restructure_move_file_def by (intro keeps_intros keeps_try_if)
qed

lemma keeps_dir_rmtree: "\<not> prefix (path_comps src) p \<Longrightarrow> keeps (holds_dir p) (fs_do (shutil_rmtree src))"
  by (rule keeps_dir_do)
    (auto simp: shutil_rmtree_def plain_path_comps split: option.splits fnode.splits intro: tree_ok_put [of _ None] fs_put_keeps(3))

lemma keeps_dir_makedirs: "keeps (holds_dir p) (fs_do (os_makedirs path))"
proof (rule keeps_dir_do)
  fix n n' assume n: "os_makedirs path n = Inr n'" "tree_ok n"
  then have mk: "mk_dirs (path_comps path) n = Some n'" by (auto simp: os_makedirs_def split: if_splits option.splits)
  show "tree_ok n' \<and> (\<forall>es. fs_at n p = Some (FDir es) \<longrightarrow> (\<exists>es'. fs_at n' p = Some (FDir es')))"
    using tree_ok_mk_dirs [OF mk n(2) plain_path_comps] mk_dirs_keeps_dir [OF mk, of p] by blast
qed

lemma keeps_dir_structured: "keeps (holds_dir p) (create_structured_directory base b printing (\<lambda>xs. job_pyprint Stdout xs))"
  unfolding create_structured_directory_def create_directories_def create_directory_def Let_def
  by (intro keeps_intros keeps_bind keeps_dir_makedirs)

text \<open>The entries of a directory in a well-formed tree have plain names.\<close>

lemma listed_plain: "tree_ok n \<Longrightarrow> os_listdir n src = Inr items \<Longrightarrow> list_all plain_name items"
proof -
  assume n: "tree_ok n" and items: "os_listdir n src = Inr items"
  then obtain es where es: "fs_at n (path_comps src) = Some (FDir es)" "items = map fst es"
    by (auto simp: os_listdir_def fs_node_def split: if_splits option.splits fnode.splits)
  have "tree_ok (FDir es)" using tree_ok_at [OF n es(1)] .
  then show ?thesis using es(2) by (auto simp: list_all_iff entries_ok_iff)
qed

lemma keeps_dir_listed:
  assumes "\<And>items. list_all plain_name items \<Longrightarrow> keeps (holds_dir p) (f items)"
  shows "keeps (holds_dir p) (py_bind (listdir src) f)"
proof (rule keepsI)
  fix s :: "'a world_scheme" assume s: "holds_dir p s"
  show "holds_dir p (snd (py_bind (listdir src) f s))"
  proof (cases "os_listdir (fs s) src")
    case (Inr items)
    then have "list_all plain_name items" using s listed_plain [of "fs s" src] by (simp add: holds_dir_def)
    with Inr s show ?thesis using keepsD [OF assms] by (simp add: listdir_def py_simps)
  qed (use s in \<open>simp add: listdir_def py_simps\<close>)
qed

lemma keeps_dir_entries:
  assumes "\<And>x. plain_name x \<Longrightarrow> \<not> prefix (path_comps src @ [x]) p"
  shows "keeps (holds_dir p) (move_entries src dst skip)"
proof -
  have "keeps (holds_dir p) (restructure_move_file (path_join src x) dst True)" if "plain_name x" for x
    using that assms [OF that] path_join_child(1) [OF that] last_name(1) [OF that] by (intro keeps_dir_move) simp_all
  then have "keeps (holds_dir p) (py_for items (\<lambda>x. if Some x = skip then py_ret () else restructure_move_file (path_join src x) dst True))"
    if "list_all plain_name items" for items
    using that by (induction items) (auto intro!: keeps_seq keeps_ret)
  then show ?thesis unfolding move_entries_def by (rule keeps_dir_listed)
qed

lemma keeps_dir_move_and_remove:
  "\<not> prefix (path_comps src) p \<Longrightarrow> keeps (holds_dir p) (move_and_remove src dst)"
  unfolding move_and_remove_def
  by (intro keeps_intros keeps_bind keeps_dir_entries keeps_dir_rmtree) (auto dest: append_prefixD)

lemma keeps_dir_item:
  assumes x: "plain_name x" and p: "\<not> prefix (path_comps d @ [x]) p"
  shows "keeps (holds_dir p) (restructure_item d x)"
  unfolding restructure_item_def Let_def
  by (intro keeps_intros keeps_bind keeps_dir_move) (simp_all add: path_join_child(1) [OF x] p last_name(1) [OF x] x)

section \<open>The required directories\<close>

text \<open>What creating directories leaves: a well-formed tree with all of them, the old directories and exactly the old files.\<close>

definition extended :: "string \<Rightarrow> string list \<Rightarrow> fnode \<Rightarrow> fnode \<Rightarrow> bool" where
  "extended base ds n n' \<longleftrightarrow> tree_ok n' \<and> (\<forall>d \<in> set ds. os_isdir n' (path_join base d)) \<and>
     (\<forall>p es. fs_at n p = Some (FDir es) \<longrightarrow> (\<exists>es'. fs_at n' p = Some (FDir es'))) \<and>
     (\<forall>p c. fs_at n' p = Some (FFile c) \<longleftrightarrow> fs_at n p = Some (FFile c))"

lemma create_directory_extends:
  assumes ok: "tree_ok (fs s)" and d: "d \<noteq> []" and run: "create_directory base printing (\<lambda>xs. job_pyprint Stdout xs) d s = (Inr (), t)"
  shows "extended base [d] (fs s) (fs t)"
proof (cases "os_isdir (fs s) (path_join base d)")
  case True
  then show ?thesis using ok run by (auto simp: create_directory_def Let_def py_simps extended_def)
next
  case False
  let ?p = "path_join base d"
  have t: "os_makedirs ?p (fs s) = Inr (fs t)"
    using False run by (auto simp: create_directory_def Let_def py_simps job_pyprint_def pyprint_def split: sum.splits if_splits)
  then have mk: "mk_dirs (path_comps ?p) (fs s) = Some (fs t)" by (auto simp: os_makedirs_def split: if_splits option.splits)
  have "?p \<noteq> []" using d by (simp add: path_join_ne [THEN iffD2])
  then have "os_isdir (fs t) ?p" using mk_dirs_isdir [OF mk] by (auto simp: os_isdir_def fs_node_def)
  moreover have "\<forall>p es. fs_at (fs s) p = Some (FDir es) \<longrightarrow> (\<exists>es'. fs_at (fs t) p = Some (FDir es'))"
    using mk_dirs_keeps_dir [OF mk] by blast
  moreover have "\<forall>p c. fs_at (fs t) p = Some (FFile c) \<longleftrightarrow> fs_at (fs s) p = Some (FFile c)"
    using mk_dirs_keeps_file [OF mk] mk_dirs_no_new_file [OF mk] by blast
  ultimately show ?thesis using tree_ok_mk_dirs [OF mk ok plain_path_comps] by (simp add: extended_def)
qed

lemma isdir_iff: "os_isdir n p \<longleftrightarrow> p \<noteq> [] \<and> (\<exists>es. fs_at n (path_comps p) = Some (FDir es))"
  by (auto simp: os_isdir_def fs_node_def split: option.splits fnode.splits)

lemma create_directories_extend:
  assumes "tree_ok (fs s)" and "[] \<notin> set ds" and "create_directories ds base printing (\<lambda>xs. job_pyprint Stdout xs) s = (Inr (), t)"
  shows "extended base ds (fs s) (fs t)"
  using assms
proof (induction ds arbitrary: s)
  case Nil
  then show ?case by (auto simp: create_directories_def py_simps extended_def)
next
  case (Cons d ds)
  obtain s1 where s1: "create_directory base printing (\<lambda>xs. job_pyprint Stdout xs) d s = (Inr (), s1)"
     "create_directories ds base printing (\<lambda>xs. job_pyprint Stdout xs) s1 = (Inr (), t)"
    using Cons.prems(3) by (auto simp: create_directories_def py_seq_apply split: prod.splits sum.splits)
  have one: "extended base [d] (fs s) (fs s1)" using create_directory_extends [OF Cons.prems(1) _ s1(1)] Cons.prems(2) by auto
  then have two: "extended base ds (fs s1) (fs t)" using Cons.IH [OF _ _ s1(2)] Cons.prems(2) by (simp add: extended_def)
  have dirs: "\<exists>es'. fs_at (fs t) p = Some (FDir es')" if "fs_at (fs s1) p = Some (FDir es)" for p es using two that by (auto simp: extended_def)
  have "os_isdir (fs t) (path_join base e)" if "e \<in> set (d # ds)" for e
    using that one two dirs by (auto simp: extended_def isdir_iff)
  moreover have "\<forall>p es. fs_at (fs s) p = Some (FDir es) \<longrightarrow> (\<exists>es'. fs_at (fs t) p = Some (FDir es'))"
    using one dirs unfolding extended_def by blast
  ultimately show ?case using one two by (simp add: extended_def)
qed

lemma structured_extends:
  assumes "tree_ok (fs s)" and "create_structured_directory base False True (\<lambda>xs. job_pyprint Stdout xs) s = (Inr (), t)"
  shows "extended base REQUIRED_DIRECTORIES (fs s) (fs t)"
  using assms by (intro create_directories_extend) (auto simp: create_structured_directory_def py_seq_apply py_when_apply REQUIRED_DIRECTORIES_def
      split: prod.splits sum.splits)

section \<open>The layout after restructuring\<close>

lemma required_comps:
  "path_comps (path_join d ''objects'') = path_comps d @ [''objects'']" "path_comps (path_join d ''metadata'') = path_comps d @ [''metadata'']"
  "path_comps (path_join d ''logs'') = path_comps d @ [''logs'']"
  "path_comps (path_join d ''logs/fileMeta'') = path_comps d @ [''logs'', ''fileMeta'']"
  "path_comps (path_join d ''metadata/submissionDocumentation'') = path_comps d @ [''metadata'', ''submissionDocumentation'']"
proof -
  have plain: "plain_path [''objects'']" "plain_path [''metadata'']" "plain_path [''logs'']" "plain_path [''logs'', ''fileMeta'']"
    "plain_path [''metadata'', ''submissionDocumentation'']" by (simp_all add: plain_path_def plain_name_def)
  note below = plain [THEN path_comps_below, of d]
  show "path_comps (path_join d ''objects'') = path_comps d @ [''objects'']" "path_comps (path_join d ''metadata'') = path_comps d @ [''metadata'']"
    "path_comps (path_join d ''logs'') = path_comps d @ [''logs'']"
    "path_comps (path_join d ''logs/fileMeta'') = path_comps d @ [''logs'', ''fileMeta'']"
    "path_comps (path_join d ''metadata/submissionDocumentation'') = path_comps d @ [''metadata'', ''submissionDocumentation'']"
    using below by simp_all
qed

text \<open>An entry that restructuring moves into \<open>objects\<close>.\<close>

definition misplaced :: "string \<Rightarrow> fnode option \<Rightarrow> bool" where
  "misplaced x m \<longleftrightarrow> (case m of None \<Rightarrow> False | Some (FDir _) \<Rightarrow> x \<notin> set REQUIRED_DIRECTORIES | Some (FFile _) \<Rightarrow> x \<notin> set OPTIONAL_FILES)"

definition same_kind :: "fnode option \<Rightarrow> fnode option \<Rightarrow> bool" where
  "same_kind a b \<longleftrightarrow> map_option node_is_dir a = map_option node_is_dir b"

definition restructuring :: "string \<Rightarrow> fnode \<Rightarrow> string list \<Rightarrow> 's world_scheme \<Rightarrow> bool" where
  "restructuring d n P s \<longleftrightarrow> tree_ok (fs s) \<and> (\<forall>r \<in> set REQUIRED_DIRECTORIES. os_isdir (fs s) (path_join d r)) \<and>
     (\<forall>x. let old = fs_at n (path_comps d @ [x]); here = fs_at (fs s) (path_comps d @ [x]) in
        if x \<in> set P \<and> misplaced x old then here = None else same_kind here old)"

lemma put_same_kind: "fs_put p v n = Some n' \<Longrightarrow> \<not> prefix p r \<Longrightarrow> same_kind (fs_at n' r) (fs_at n r)"
  using fs_put_keeps [of p v n n' r] by (cases "fs_at n r"; cases "the (fs_at n r)") (auto simp: same_kind_def)

lemma move_out:
  assumes run: "shutil_move src dst n = Inr n'" and src: "path_comps src = p @ [x]" "basename (str_rstrip slash src) = x"
    and dst: "path_comps dst = p @ [y]" "y \<noteq> x" "os_isdir n dst"
  shows "fs_at n' (p @ [x]) = None" and "z \<noteq> x \<Longrightarrow> same_kind (fs_at n' (p @ [z])) (fs_at n (p @ [z]))"
proof -
  obtain m where m: "fs_node n src = Some m" using run by (cases "fs_node n src") (simp_all add: shutil_move_def Let_def)
  have d: "move_target n src dst = p @ [y, x]" using dst src by (simp add: move_target_def)
  have ren: "fs_rename (p @ [x]) (p @ [y, x]) m n = Inr n'" and free: "fs_at n (p @ [y, x]) = None"
    using run m dst(2,3) unfolding shutil_move_def Let_def d src(1) by (auto split: if_splits option.splits fnode.splits)
  obtain n1 where n1: "fs_put (p @ [x]) None n = Some n1" using ren by (auto simp: fs_rename_def split: option.splits)
  obtain es where "fs_at n (p @ [y]) = Some (FDir es)" using dst(1,3) by (auto simp: isdir_iff)
  then obtain es1 where "fs_at n1 (p @ [y]) = Some (FDir es1)" using fs_put_keeps(3) [OF n1] dst(2) by fastforce
  then obtain n2 where n2: "fs_put (p @ [y, x]) (Some m) n1 = Some n2"
    using fs_put_Some_iff [of "p @ [y, x]" "Some m" n1] by (auto simp: butlast_append)
  then have n': "n2 = n'" using ren n1 by (auto simp: fs_rename_def)
  have "fs_at n1 (p @ [x]) = None" using fs_at_put_same [OF n1] .
  from fs_put_keeps(1) [OF n2 _ this] show "fs_at n' (p @ [x]) = None" by (simp add: n')
  show "same_kind (fs_at n' (p @ [z])) (fs_at n (p @ [z]))" if "z \<noteq> x"
    using put_same_kind [OF n1, of "p @ [z]"] put_same_kind [OF n2, of "p @ [z]"] that by (simp add: n' same_kind_def)
qed

lemma move_file_returns:
  assumes "restructure_move_file src dst True s = (Inr (), t)"
  shows "shutil_move src dst (fs s) = Inr (fs t)"
proof -
  let ?s = "log_upd INFO (''Moving '' @ src @ '' to '' @ dst) s"
  have "py_try (fs_do (shutil_move src dst)) (\<lambda>e. if is_OSError e
      then Some (py_seq (job_pyprint Stdout [''Could not move'', src]) (py_when True (py_raise e))) else None) ?s = (Inr (), t)"
    using assms unfolding restructure_move_file_def seq_log .
  then show ?thesis
    by (cases "shutil_move src dst (fs s)") (auto simp: py_try_apply fs_do_apply py_seq_apply py_when_apply py_raise_apply split: sum.splits if_splits prod.splits)
qed

lemma misplaced_there: "misplaced x a \<Longrightarrow> a \<noteq> None"
  by (cases a) (simp_all add: misplaced_def)

lemma misplaced_kind: "same_kind a b \<Longrightarrow> misplaced x a = misplaced x b"
  by (cases a; cases b; cases "the a"; cases "the b") (auto simp: same_kind_def misplaced_def)

lemma restructuring_at:
  "restructuring d n P s \<Longrightarrow> if x \<in> set P \<and> misplaced x (fs_at n (path_comps d @ [x])) then fs_at (fs s) (path_comps d @ [x]) = None
     else same_kind (fs_at (fs s) (path_comps d @ [x])) (fs_at n (path_comps d @ [x]))"
  by (simp add: restructuring_def Let_def)

lemma restructuring_step:
  fixes s :: "'s world_scheme"
  assumes inv: "restructuring d n P s" and x: "plain_name x" and run: "restructure_item d x s = (Inr (), t)"
  shows "restructuring d n (P @ [x]) t"
proof -
  let ?U = "path_comps d" and ?src = "path_join d x" and ?dst = "path_joins d [''objects'', ''.'']"
  let ?here = "fs_at (fs s) (?U @ [x])" and ?old = "fs_at n (?U @ [x])"
  have src: "path_comps ?src = ?U @ [x]" "?src \<noteq> []" "basename (str_rstrip slash ?src) = x"
    using path_join_child [OF x] last_name(1) [OF x] by simp_all
  have dst: "path_comps ?dst = ?U @ [''objects'']" "?dst \<noteq> []"
    using path_comps_here [of "path_join d ''objects''"] required_comps(1) [of d] by (simp_all add: path_joins_two path_join_ne [THEN iffD2])
  have kinds: "os_isdir (fs s) ?src = (\<exists>es. ?here = Some (FDir es))" "os_isfile (fs s) ?src = (\<exists>c. ?here = Some (FFile c))"
    using src by (auto simp: os_isdir_def os_isfile_def fs_node_def split: option.splits fnode.splits)
  have req: "\<exists>es. fs_at (fs s) (?U @ [''objects'']) = Some (FDir es)" "\<forall>r \<in> set REQUIRED_DIRECTORIES. os_isdir (fs s) (path_join d r)"
    using inv required_comps [of d] by (auto simp: restructuring_def isdir_iff REQUIRED_DIRECTORIES_def)
  have moves: "(os_isdir (fs s) ?src \<and> x \<notin> set REQUIRED_DIRECTORIES \<or> os_isfile (fs s) ?src \<and> x \<notin> set OPTIONAL_FILES) = misplaced x ?here"
    unfolding kinds by (auto simp: misplaced_def split: option.splits fnode.splits)
  show ?thesis
  proof (cases "misplaced x ?here")
    case False
    then have t: "t = s" using run moves by (auto simp: restructure_item_def Let_def py_simps split: if_splits)
    have "misplaced x ?old \<Longrightarrow> ?here = None" using restructuring_at [OF inv, of x] False misplaced_kind [of ?here ?old x] by (auto split: if_splits)
    then have "if y \<in> set (P @ [x]) \<and> misplaced y (fs_at n (?U @ [y])) then fs_at (fs s) (?U @ [y]) = None
        else same_kind (fs_at (fs s) (?U @ [y])) (fs_at n (?U @ [y]))" for y
      using restructuring_at [OF inv, of y] by (auto split: if_splits)
    then show ?thesis using inv unfolding t by (simp add: restructuring_def Let_def)
  next
    case True
    have "restructure_move_file ?src ?dst True s = (Inr (), t)"
      using run moves True by (auto simp: restructure_item_def Let_def py_simps split: if_splits)
    then have mv: "shutil_move ?src ?dst (fs s) = Inr (fs t)" by (rule move_file_returns)
    have top: "x \<noteq> ''objects''" "x \<noteq> ''metadata''" "x \<noteq> ''logs''"
      using True inv required_comps(1-3) [of d] by (auto simp: misplaced_def restructuring_def isdir_iff REQUIRED_DIRECTORIES_def)
    have isdir: "os_isdir (fs s) ?dst" using req(1) dst by (simp add: isdir_iff)
    note out = move_out [OF mv src(1,3) dst(1) top(1) [symmetric] isdir]
    have "os_isdir (fs t) (path_join d r)" if r: "r \<in> set REQUIRED_DIRECTORIES" for r
    proof -
      have "\<not> prefix (path_comps ?src) (path_comps (path_join d r))"
        using r top required_comps [of d] src(1) by (auto simp: REQUIRED_DIRECTORIES_def)
      with req(2) r show ?thesis using move_keeps_dir [OF mv] by (auto simp: isdir_iff)
    qed
    moreover have "tree_ok (fs t)" using tree_ok_move [OF mv] inv x src(3) by (simp add: restructuring_def)
    moreover have "if y \<in> set (P @ [x]) \<and> misplaced y (fs_at n (?U @ [y])) then fs_at (fs t) (?U @ [y]) = None
        else same_kind (fs_at (fs t) (?U @ [y])) (fs_at n (?U @ [y]))" for y
    proof (cases "y = x")
      case eq: True
      have "?here \<noteq> None" using True by (rule misplaced_there)
      then have "same_kind ?here ?old"
        using restructuring_at [OF inv, of x] by (cases "x \<in> set P \<and> misplaced x ?old") simp_all
      then have "misplaced x ?old" using misplaced_kind True by blast
      with eq out(1) show ?thesis by simp
    next
      case False
      have "fs_at (fs s) (?U @ [y]) = None \<Longrightarrow> fs_at (fs t) (?U @ [y]) = None" using out(2) [OF False] by (simp add: same_kind_def)
      with False restructuring_at [OF inv, of y] out(2) [OF False] show ?thesis by (auto simp: same_kind_def split: if_splits)
    qed
    ultimately show ?thesis by (simp add: restructuring_def Let_def)
  qed
qed

lemma restructuring_loop:
  fixes s :: "'s world_scheme"
  assumes "restructuring d n P s" and "list_all plain_name items" and "py_for items (restructure_item d) s = (Inr (), t)"
  shows "restructuring d n (P @ items) t"
  using assms
proof (induction items arbitrary: P s)
  case (Cons x items)
  then obtain s1 where s1: "restructure_item d x s = (Inr (), s1)" "py_for items (restructure_item d) s1 = (Inr (), t)"
    by (auto simp: py_seq_apply split: prod.splits sum.splits)
  have "restructuring d n (P @ [x]) s1" using restructuring_step [OF Cons.prems(1) _ s1(1)] Cons.prems(2) by simp
  from Cons.IH [OF this _ s1(2)] Cons.prems(2) show ?case by simp
qed (simp add: py_simps)

text \<open>The top level of a restructured transfer: nothing is misplaced, and the files that may stay are those there were.\<close>

lemma restructured_top:
  fixes s :: "'s world_scheme"
  assumes ok: "tree_ok (fs s)" and run: "restructure_transfer d s = (Inr (), t)"
  shows "tree_ok (fs t) \<and> (\<forall>r \<in> set REQUIRED_DIRECTORIES. os_isdir (fs t) (path_join d r)) \<and>
     (\<forall>x. \<not> misplaced x (fs_at (fs t) (path_comps d @ [x]))) \<and>
     (\<forall>x. x \<in> set OPTIONAL_FILES \<longrightarrow> (\<exists>c. fs_at (fs t) (path_comps d @ [x]) = Some (FFile c)) = (\<exists>c. fs_at (fs s) (path_comps d @ [x]) = Some (FFile c)))"
proof -
  let ?U = "path_comps d"
  obtain s1 where s1: "create_structured_directory d False True (\<lambda>xs. job_pyprint Stdout xs) s = (Inr (), s1)"
    "py_bind (listdir d) (\<lambda>items. py_for items (restructure_item d)) s1 = (Inr (), t)"
    using run by (auto simp: restructure_transfer_def py_seq_apply split: prod.splits sum.splits)
  note ext = structured_extends [OF ok s1(1), unfolded extended_def]
  obtain items where items: "os_listdir (fs s1) d = Inr items" "py_for items (restructure_item d) s1 = (Inr (), t)"
    using s1(2) by (auto simp: listdir_def py_bind_apply fs_get_apply py_lift_apply split: prod.splits sum.splits)
  obtain es where es: "fs_at (fs s1) ?U = Some (FDir es)" "items = map fst es"
    using items(1) by (auto simp: os_listdir_def fs_node_def split: if_splits option.splits fnode.splits)
  have ok1: "tree_ok (FDir es)" using tree_ok_at [OF _ es(1)] ext by blast
  then have plain: "list_all plain_name items" using es(2) by (auto simp: list_all_iff entries_ok_iff)
  have "restructuring d (fs s1) [] s1" using ext by (simp add: restructuring_def same_kind_def)
  from restructuring_loop [OF this plain items(2)] have inv: "restructuring d (fs s1) items t" by simp
  have all: "x \<in> set items" if "fs_at (fs s1) (?U @ [x]) \<noteq> None" for x
    using that es by (auto simp: fs_at_append split: option.splits dest: map_of_SomeD intro: rev_image_eqI)
  have top: "if misplaced x (fs_at (fs s1) (?U @ [x])) then fs_at (fs t) (?U @ [x]) = None
      else same_kind (fs_at (fs t) (?U @ [x])) (fs_at (fs s1) (?U @ [x]))" for x
    using restructuring_at [OF inv, of x] all [of x] misplaced_there [of x "fs_at (fs s1) (?U @ [x])"] by (auto split: if_splits)
  have "\<not> misplaced x (fs_at (fs t) (?U @ [x]))" for x
    using top [of x] misplaced_kind by (cases "misplaced x (fs_at (fs s1) (?U @ [x]))") (auto simp: misplaced_def)
  moreover have "(\<exists>c. fs_at (fs t) (?U @ [x]) = Some (FFile c)) = (\<exists>c. fs_at (fs s) (?U @ [x]) = Some (FFile c))" if "x \<in> set OPTIONAL_FILES" for x
  proof -
    have "(\<exists>c. a = Some (FFile c)) = (\<exists>c. b = Some (FFile c))"
      if "if misplaced x b then a = None else same_kind a b" "x \<in> set OPTIONAL_FILES" for a b
      using that by (cases a; cases b; cases "the a"; cases "the b") (auto simp: misplaced_def same_kind_def split: if_splits)
    from this [OF top that] show ?thesis using ext by simp
  qed
  ultimately show ?thesis using inv by (simp add: restructuring_def)
qed

lemma count_named:
  "distinct (map fst es) \<Longrightarrow> length (filter (\<lambda>(x, m). x = k \<and> Q m) es) = (if \<exists>m. map_of es k = Some m \<and> Q m then 1 else 0)"
proof (induction es)
  case (Cons e es)
  obtain x m where e: "e = (x, m)" by (cases e)
  show ?case
  proof (cases "x = k")
    case True
    then have "map_of es k = None" using Cons.prems e by (simp add: map_of_eq_None_iff)
    with True Cons e show ?thesis by simp
  qed (use Cons e in simp)
qed simp

text \<open>The faults the layout check finds at the top level of such a transfer.\<close>

lemma restructured_faults:
  assumes ok: "tree_ok n" and req: "\<forall>r \<in> set REQUIRED_DIRECTORIES. os_isdir n (path_join d r)"
    and placed: "\<forall>x. \<not> misplaced x (fs_at n (path_comps d @ [x]))" and d: "fs_at n (path_comps d) = Some (FDir es)"
  shows "absent_directories n d = []" and "length (stray_entries es) = (if \<exists>c. fs_at n (path_comps d @ [''README.html'']) = Some (FFile c) then 1 else 0)"
proof -
  show "absent_directories n d = []"
    using req by (auto simp: absent_directories_def UNIT_DIRECTORIES_def REQUIRED_DIRECTORIES_def filter_empty_conv)
  have es: "tree_ok (FDir es)" using tree_ok_at [OF ok d] .
  have at: "fs_at n (path_comps d @ [x]) = map_of es x" for x using d by (simp add: fs_at_append split: option.splits)
  have "(x \<notin> set (if node_is_dir m then UNIT_DIRECTORIES else ALLOWABLE_FILES)) = (x = ''README.html'' \<and> \<not> node_is_dir m)" if "(x, m) \<in> set es" for x m
  proof -
    have "map_of es x = Some m" using that es by simp
    then have "\<not> misplaced x (Some m)" using placed at by metis
    moreover have "slash \<notin> set x" using entries_ok_mem [OF that] es by (simp add: plain_name_def)
    ultimately consider c where "m = FFile c" "x = ''processingMCP.xml'' \<or> x = ''README.html''" | e where "m = FDir e" "x = ''logs'' \<or> x = ''metadata'' \<or> x = ''objects''"
      by (cases m) (auto simp: misplaced_def OPTIONAL_FILES_def REQUIRED_DIRECTORIES_def)
    then show ?thesis by cases (auto simp: UNIT_DIRECTORIES_def ALLOWABLE_FILES_def)
  qed
  then have "stray_entries es = map fst (filter (\<lambda>(x, m). x = ''README.html'' \<and> \<not> node_is_dir m) es)"
    unfolding stray_entries_def by (intro arg_cong [where f = "map fst"] filter_cong refl) (simp only: split_paired_all case_prod_conv)
  then have "length (stray_entries es) = (if \<exists>m. map_of es ''README.html'' = Some m \<and> \<not> node_is_dir m then 1 else 0)"
    using count_named [of es "''README.html''" "\<lambda>m. \<not> node_is_dir m"] es by simp
  moreover have "(\<exists>m. a = Some m \<and> \<not> node_is_dir m) = (\<exists>c. a = Some (FFile c))" for a
    by (cases a; cases "the a") auto
  ultimately show "length (stray_entries es) = (if \<exists>c. fs_at n (path_comps d @ [''README.html'']) = Some (FFile c) then 1 else 0)"
    by (simp add: at)
qed

section \<open>Registered directories\<close>

lemma ensures_map:
  assumes "\<And>x. ensures P (f x) (\<lambda>y t. P t \<and> R x y)"
  shows "ensures P (py_map f xs) (\<lambda>ys t. P t \<and> list_all2 R xs ys)"
proof (induction xs)
  case (Cons x xs)
  have "ensures (\<lambda>t. P t \<and> R x y) (py_bind (py_map f xs) (\<lambda>ys. py_ret (y # ys))) (\<lambda>zs t. P t \<and> list_all2 R (x # xs) zs)" for y
    by (rule ensures_pure, rule ensures_bind [OF Cons], rule ensures_ret) auto
  then show ?case by (simp add: ensures_bind [OF assms])
qed (simp add: ensures_ret)

definition dirs_are :: "directory_row list \<Rightarrow> transfer_row list \<Rightarrow> fnode \<Rightarrow> 's world_scheme \<Rightarrow> bool" where
  "dirs_are D T n s \<longleftrightarrow> Directories s = D \<and> Transfers s = T \<and> fs s = n"

lemma log_upd_dirs [simp]: "Directories (log_upd l m s) = Directories s"
  by (simp add: log_upd_def log_msg_def py_mod_apply split: option.splits)

lemma keeps_dirs [keeps_intros]:
  fixes E :: env
  shows "keeps (dirs_are D T n) (log_msg l m)" "keeps (dirs_are D T n) (job_pyprint Stdout xs)" "keeps (dirs_are D T n) (uuid4 E)"
    "keeps (dirs_are D T n) (now E)" "keeps (dirs_are D T n) (fs_get g)"
  by (simp_all add: keeps_def py_simps job_pyprint_def pyprint_def dirs_are_def uuid4_def now_def)

lemma get_dir_uuids_ensures:
  "ensures (dirs_are D T n) (get_dir_uuids E paths (\<lambda>xs. job_pyprint Stdout xs))
     (\<lambda>ds t. dirs_are D T n t \<and> list_all2 (\<lambda>p d. de_currentLocation d = p \<and> de_originalLocation d = None) paths ds)"
  unfolding get_dir_uuids_def Let_def
  by (rule ensures_map) (rule ensures_bind_keeps, intro keeps_intros, (rule ensures_seq_keeps, intro keeps_intros)+, rule ensures_ret, simp)

lemma rows_insert_appends:
  "rows_insert key ok rs rows = Inr rows' \<Longrightarrow> rows' = rows @ rs \<and> (distinct (map key rows) \<longrightarrow> distinct (map key rows'))"
proof (induction rs arbitrary: rows)
  case (Cons a rs)
  then have r: "rows_insert key ok rs (rows @ [a]) = Inr rows'" and k: "key a \<notin> key ` set rows"
    by (auto simp: row_insert_def split: sum.splits if_splits)
  note IH = Cons.IH [OF r]
  show ?case
  proof (intro conjI impI)
    show "rows' = rows @ a # rs" using IH by simp
    assume "distinct (map key rows)"
    with k have "distinct (map key (rows @ [a]))" by simp
    with IH show "distinct (map key rows')" by blast
  qed
qed simp

text \<open>A row of a directory of the transfer, with the same original and current location.\<close>

definition registered_dir :: "string \<Rightarrow> string \<Rightarrow> directory_row \<Rightarrow> bool" where
  "registered_dir u p r \<longleftrightarrow> dir_transfer r = Some u \<and> dir_sip r = None \<and> dir_originallocation r = p \<and> dir_currentlocation r = Some p"

lemma create_many_ensures:
  assumes "list_all2 (\<lambda>p d. de_currentLocation d = p \<and> de_originalLocation d = None) paths ds"
  shows "ensures (dirs_are D T n) (Directory_create_many E ds u ''transfer'')
     (\<lambda>_ t. \<exists>new. dirs_are (D @ new) T n t \<and> list_all2 (registered_dir u) paths new \<and> (distinct (map dir_uuid D) \<longrightarrow> distinct (map dir_uuid (D @ new))))"
proof -
  let ?row = "\<lambda>d t. \<lparr>dir_uuid = de_uuid d, dir_sip = (if ''transfer'' = ''transfer'' then None else Some u),
          dir_transfer = (if ''transfer'' = ''transfer'' then Some u else None),
          dir_originallocation = (case de_originalLocation d of None \<Rightarrow> de_currentLocation d | Some l \<Rightarrow> l),
          dir_currentlocation = Some (de_currentLocation d), dir_enteredsystem = t, dir_identifiers = []\<rparr>"
  have rows: "ensures (dirs_are D T n) (py_map (\<lambda>d. py_bind (now E) (\<lambda>t. py_ret (?row d t))) ds)
      (\<lambda>rs t. dirs_are D T n t \<and> list_all2 (\<lambda>d r. \<exists>t. r = ?row d t) ds rs)"
    by (rule ensures_map) (rule ensures_bind_keeps, intro keeps_intros, rule ensures_ret, auto)
  have "list_all2 (registered_dir u) paths new" if "list_all2 (\<lambda>d r. \<exists>t. r = ?row d t) ds new" for new
    using assms that by (auto simp: list_all2_conv_all_nth registered_dir_def)
  then show ?thesis
    unfolding Directory_create_many_def
    by (intro ensures_bind [OF rows] ensures_pure)
      (auto simp: ensures_def py_simps dirs_are_def dest!: rows_insert_appends split: sum.splits)
qed

text \<open>The only exception on the way is that of a refused row.\<close>

lemma py_map_total: "(\<And>x s. \<exists>y t. f x s = (Inr y, t)) \<Longrightarrow> \<exists>ys t. py_map f xs s = (Inr ys, t)"
proof (induction xs arbitrary: s)
  case (Cons x xs)
  obtain y t where y: "f x s = (Inr y, t)" using Cons.prems by blast
  obtain ys u where "py_map f xs t = (Inr ys, u)" using Cons.IH [OF Cons.prems] by blast
  with y show ?case by (simp add: py_simps)
qed (simp add: py_simps)

lemma rows_insert_error: "rows_insert key ok rs rows = Inl e \<Longrightarrow> \<exists>m. e = IntegrityError m"
  by (induction rs arbitrary: rows) (auto simp: row_insert_def split: sum.splits if_splits)

lemma register_raises:
  assumes "fst (py_bind (get_dir_uuids E paths (\<lambda>xs. job_pyprint Stdout xs)) (\<lambda>entries.
      py_seq (Directory_create_many E entries u ''transfer'') (py_ret c)) s) = Inl e"
  shows "\<exists>m. e = IntegrityError m"
proof -
  obtain ds t where ds: "get_dir_uuids E paths (\<lambda>xs. job_pyprint Stdout xs) s = (Inr ds, t)"
    using py_map_total [of "\<lambda>dir_path. py_bind (uuid4 E) (\<lambda>u. (let msg = ''Assigning UUID '' @ u @ '' to directory path '' @ dir_path in
        py_seq (job_pyprint Stdout [msg]) (py_seq (log_msg INFO msg)
          (py_ret \<lparr>de_currentLocation = dir_path, de_uuid = u, de_originalLocation = None\<rparr>))))" paths s]
    by (auto simp: get_dir_uuids_def py_bind_apply uuid4_def Let_def py_seq_apply job_pyprint_def pyprint_def py_get_apply py_lift_apply
        upd_job_apply log_msg_apply py_ret_apply simp del: append.simps)
  let ?row = "\<lambda>d t. \<lparr>dir_uuid = de_uuid d, dir_sip = (if ''transfer'' = ''transfer'' then None else Some u),
          dir_transfer = (if ''transfer'' = ''transfer'' then Some u else None),
          dir_originallocation = (case de_originalLocation d of None \<Rightarrow> de_currentLocation d | Some l \<Rightarrow> l),
          dir_currentlocation = Some (de_currentLocation d), dir_enteredsystem = t, dir_identifiers = []\<rparr>"
  obtain rs v where "py_map (\<lambda>d. py_bind (now E) (\<lambda>t. py_ret (?row d t))) ds t = (Inr rs, v)"
    using py_map_total [of "\<lambda>d. py_bind (now E) (\<lambda>t. py_ret (?row d t))" ds t] by (auto simp: py_simps now_def)
  with assms ds show ?thesis
    by (auto simp: py_bind_apply py_seq_apply Directory_create_many_def py_get_apply py_lift_apply py_mod_apply py_ret_apply
        dest: rows_insert_error split: sum.splits prod.splits)
qed

lemma exit_on_known_returns:
  assumes "\<And>e. fst (m s) = Inl e \<Longrightarrow> \<exists>x. e = IntegrityError x" and "exit_on_known_exception m s = (Inr c, t)"
  shows "m s = (Inr c, t)"
proof (cases "m s")
  case (Pair r u)
  with assms show ?thesis by (cases r) (auto simp: exit_on_known_exception_def py_try_apply)
qed

section \<open>Computations that agree\<close>

text \<open>Two computations that do the same in every state with a property.\<close>

definition agree :: "('s \<Rightarrow> bool) \<Rightarrow> ('s, 'a) py \<Rightarrow> ('s, 'a) py \<Rightarrow> bool" where
  "agree P m m' \<longleftrightarrow> (\<forall>s. P s \<longrightarrow> m s = m' s)"

lemma agree_bind: "ensures P m R \<Longrightarrow> (\<And>x. agree (R x) (k x) (k' x)) \<Longrightarrow> agree P (py_bind m k) (py_bind m k')"
  by (auto simp: agree_def ensures_def py_bind_apply split: prod.splits sum.splits)

lemma agree_seq: "keeps P m \<Longrightarrow> agree P k k' \<Longrightarrow> agree P (py_seq m k) (py_seq m k')"
  unfolding py_seq_def by (rule agree_bind [OF ensures_keeps])

lemma agree_after: "ensures P m (\<lambda>_. R) \<Longrightarrow> agree R k k' \<Longrightarrow> agree P (py_seq m k) (py_seq m k')"
  unfolding py_seq_def by (rule agree_bind)

lemma agree_get: "(\<And>x. agree P (k x) (k' x)) \<Longrightarrow> agree P (py_bind (fs_get g) k) (py_bind (fs_get g) k')"
  by (simp add: agree_def py_bind_apply fs_get_apply)

lemma agree_lift: "(\<And>x. r = Inr x \<Longrightarrow> agree P (k x) (k' x)) \<Longrightarrow> agree P (py_bind (py_lift r) k) (py_bind (py_lift r) k')"
  by (cases r) (simp_all add: agree_def py_bind_apply py_lift_apply)

lemma agree_listed:
  assumes "\<And>items. list_all plain_name items \<Longrightarrow> agree (holds_dir p) (k items) (k' items)"
  shows "agree (holds_dir p) (py_bind (listdir src) k) (py_bind (listdir src) k')"
proof -
  have "list_all plain_name items" if "holds_dir p s" "os_listdir (fs s) src = Inr items" for s :: "'a world_scheme" and items
    using listed_plain [OF _ that(2)] that(1) by (simp add: holds_dir_def)
  with assms show ?thesis
    by (auto simp: agree_def listdir_def py_bind_apply fs_get_apply py_lift_apply split: sum.splits)
qed

lemma mets_plain:
  assumes "find_mets items = Inr t" and "list_all plain_name items"
  shows "plain_name t"
proof -
  obtain x where x: "x \<in> set items" "mets_match x = Some t"
    using assms(1) by (auto simp: find_mets_def List.map_filter_def filter_eq_Cons_iff map_eq_Cons_conv split: list.splits if_splits) blast
  then have "slash \<notin> set x" using assms(2) by (auto simp: list_all_iff plain_name_def)
  with x(2) have "slash \<notin> set t" "9 \<le> length t" by (auto simp: mets_match_def Let_def split: if_splits dest: in_set_butlastD)
  then show ?thesis by (auto simp: plain_name_def)
qed

section \<open>The paths of an AIP\<close>

lemma aip_names: "plain_name ''data''" "plain_name ''objects''" "plain_name ''metadata''" "plain_name ''submissionDocumentation''"
    "plain_name ''old_bag''" "plain_name ''processingMCP.xml''"
  by (simp_all add: plain_name_def)

lemma old_bag_comps: "path_comps (path_joins d [''old_bag'', []]) = path_comps d @ [''old_bag'']"
  using path_join_child(1) [OF aip_names(5), of d] path_comps_slash [of "path_join d ''old_bag''"] path_join_child(2) [OF aip_names(5), of d]
  by (auto simp: path_joins_two path_join_def endswith_char)

lemmas aip_comps = aip_names [THEN path_join_child(1)] old_bag_comps

text \<open>The sources of the moves are all below \<open>old_bag\<close>, which is not at or above \<open>p\<close>.\<close>

lemma aip_sources:
  assumes "\<not> prefix (path_comps d @ [''old_bag'']) p"
  shows "\<not> prefix (path_comps (path_joins (path_joins d [''old_bag'', []]) [''data'', ''objects'', ''metadata''])) p"
    "\<not> prefix (path_comps (path_joins (path_joins d [''old_bag'', []]) [''data'', ''objects'', ''submissionDocumentation''])) p"
    "\<not> prefix (path_comps (path_joins (path_joins d [''old_bag'', []]) [''data'', ''objects'']) @ [x]) p"
    "\<not> prefix (path_comps (path_join (path_joins d [''old_bag'', []]) ''processingMCP.xml'')) p" "\<not> prefix (path_comps (path_joins d [''old_bag'', []])) p"
    "plain_name y \<Longrightarrow> \<not> prefix (path_comps (path_joins (path_joins d [''old_bag'', []]) [''data'', y])) p"
proof -
  let ?old = "path_joins d [''old_bag'', []]"
  have below: "\<not> prefix (path_comps d @ ''old_bag'' # q) p" for q
    using assms append_prefixD [of "path_comps d @ [''old_bag'']" q p] by auto
  have three: "path_joins ?old [b, c, e] = path_join (path_join (path_join ?old b) c) e" for b c e by (simp add: path_joins_def)
  show "\<not> prefix (path_comps (path_joins ?old [''data'', ''objects'', ''metadata''])) p"
    "\<not> prefix (path_comps (path_joins ?old [''data'', ''objects'', ''submissionDocumentation''])) p"
    "\<not> prefix (path_comps (path_join ?old ''processingMCP.xml'')) p" "\<not> prefix (path_comps ?old) p"
    using assms below unfolding three by (simp_all add: aip_comps)
  show "\<not> prefix (path_comps (path_joins ?old [''data'', ''objects'']) @ [x]) p"
    using below unfolding path_joins_two [of ?old] by (simp add: aip_comps)
  show "\<not> prefix (path_comps (path_joins ?old [''data'', y])) p" if "plain_name y"
    using below unfolding path_joins_two [of ?old] by (simp add: aip_comps path_join_child(1) [OF that])
qed

lemma reconstruct_keeps_dir: "keeps (holds_dir p) (reconstruct_empty_directories f m o1)"
  unfolding reconstruct_empty_directories_def make_missing_def Let_def by (intro keeps_intros keeps_bind keeps_dir_makedirs)

section \<open>The directories of a tree\<close>

text \<open>
  Independently of the walk: the directories of a tree, each by the names that lead to it, in preorder, and the location
  of such a directory in a transfer.
\<close>

fun tree_dirs :: "fnode \<Rightarrow> string list list"
and entry_dirs :: "(string \<times> fnode) list \<Rightarrow> string list list"
where
  "tree_dirs (FFile c) = []"
| "tree_dirs (FDir es) = [] # entry_dirs es"
| "entry_dirs [] = []"
| "entry_dirs ((x, n) # es) = map ((#) x) (tree_dirs n) @ entry_dirs es"

definition dir_location :: "string list \<Rightarrow> string" where
  "dir_location cs = ''%transferDirectory%'' @ concat (map (\<lambda>c. c @ [slash]) cs)"

lemma walk_dirs:
  "map fst (walk_node d n) = map (foldl path_join d) (tree_dirs n)"
  "map fst (walk_entries d es) = map (foldl path_join d) (entry_dirs es)"
  by (induction d n and d es rule: walk_node_walk_entries.induct) simp_all

lemma tree_dirs_plain:
  "tree_ok n \<Longrightarrow> \<forall>cs \<in> set (tree_dirs n). \<forall>c \<in> set cs. plain_name c"
  "entries_ok es \<Longrightarrow> \<forall>cs \<in> set (entry_dirs es). \<forall>c \<in> set cs. plain_name c"
  by (induction n and es rule: tree_dirs_entry_dirs.induct) auto

lemma join_name:
  assumes "plain_name x"
  shows "path_join d x = path_join d [] @ x" and "path_join (path_join d x) [] = path_join d [] @ x @ [slash]"
proof -
  have x: "x \<noteq> []" "\<not> startswith x [slash]" "last x \<noteq> slash"
    using assms last_in_set [of x] by (cases x; auto simp: plain_name_def startswith_def)+
  then show "path_join d x = path_join d [] @ x" by (auto simp: path_join_def)
  then show "path_join (path_join d x) [] = path_join d [] @ x @ [slash]"
    using x by (auto simp: path_join_def endswith_char)
qed

lemma join_below:
  assumes root: "endswith root [slash]" and cs: "\<forall>c \<in> set cs. plain_name c"
  shows "path_join (foldl path_join root cs) [] = root @ concat (map (\<lambda>c. c @ [slash]) cs)"
  using cs
proof (induction cs rule: rev_induct)
  case (snoc a as)
  then show ?case using join_name(2) [of a "foldl path_join root as"] by simp
qed (use root in \<open>simp add: path_join_def\<close>)

lemma join_excluded:
  assumes root: "endswith root [slash]" and cs: "\<forall>c \<in> set cs. plain_name c"
  shows "foldl path_join root cs = root \<longleftrightarrow> cs = []"
    and "foldl path_join root cs = path_join root ''objects'' \<longleftrightarrow> cs = [''objects'']"
proof -
  have objects: "path_join root ''objects'' = root @ ''objects''" using root by (simp add: path_join_def startswith_def)
  have "(foldl path_join root cs = root \<longleftrightarrow> cs = []) \<and> (foldl path_join root cs = path_join root ''objects'' \<longleftrightarrow> cs = [''objects''])"
  proof (cases cs rule: rev_cases)
    case Nil
    then show ?thesis by (simp add: objects)
  next
    case (snoc bs x)
    then have x: "plain_name x" and here: "foldl path_join root cs = root @ concat (map (\<lambda>c. c @ [slash]) bs) @ x"
      using cs join_below [OF root, of bs] join_name(1) [of x "foldl path_join root bs"] by simp_all
    have "slash \<in> set (concat (map (\<lambda>c. c @ [slash]) bs))" if "bs \<noteq> []" using that by (cases bs) simp_all
    moreover have "slash \<notin> set ''objects''" by simp
    ultimately have "concat (map (\<lambda>c. c @ [slash]) bs) @ x = ''objects'' \<longleftrightarrow> bs = [] \<and> x = ''objects''"
      by (metis Un_iff append_Nil concat.simps(1) list.simps(8) set_append)
    with here x show ?thesis unfolding objects by (simp add: snoc plain_name_def)
  qed
  then show "foldl path_join root cs = root \<longleftrightarrow> cs = []"
    and "foldl path_join root cs = path_join root ''objects'' \<longleftrightarrow> cs = [''objects'']" by blast+
qed

lemma replace1_prefix: "p \<noteq> [] \<Longrightarrow> str_replace1 (p @ t) p new = new @ t"
  by (cases p) (auto simp: startswith_def)

text \<open>The paths the script collects are the locations of these directories, root and \<open>objects\<close> left out.\<close>

lemma subdir_paths_eq:
  assumes "fs_node n root = Some m" and "tree_ok m" and root: "endswith root [slash]"
  shows "subdir_paths n root = map dir_location (filter (\<lambda>cs. cs \<notin> {[], [''objects'']}) (tree_dirs m))"
proof -
  have ne: "root \<noteq> []" using root by (auto simp: endswith_def)
  have dir: "(foldl path_join root cs \<notin> {root, path_join root ''objects''}) = (cs \<notin> {[], [''objects'']}) \<and>
      format_subdir_path (foldl path_join root cs) root = dir_location cs" if "cs \<in> set (tree_dirs m)" for cs
    using join_below [OF root, of cs] join_excluded [OF root, of cs] tree_dirs_plain(1) [OF assms(2)] that
    by (simp add: format_subdir_path_def dir_location_def replace1_prefix [OF ne])
  have "subdir_paths n root = map (\<lambda>cs. format_subdir_path (foldl path_join root cs) root)
      (filter (\<lambda>cs. foldl path_join root cs \<notin> {root, path_join root ''objects''}) (tree_dirs m))"
    using assms(1) by (simp add: subdir_paths_def os_walk_def walk_dirs filter_map comp_def)
  also have "filter (\<lambda>cs. foldl path_join root cs \<notin> {root, path_join root ''objects''}) (tree_dirs m) =
      filter (\<lambda>cs. cs \<notin> {[], [''objects'']}) (tree_dirs m)"
    by (rule filter_cong [OF refl]) (use dir in blast)
  also have "map (\<lambda>cs. format_subdir_path (foldl path_join root cs) root) \<dots> = map dir_location \<dots>"
    by (rule map_cong [OF refl]) (use dir in auto)
  finally show ?thesis .
qed

text \<open>The registration of a list of paths.\<close>

lemma register_ensures:
  "ensures (dirs_are D T n) (py_bind (get_dir_uuids E paths (\<lambda>xs. job_pyprint Stdout xs)) (\<lambda>entries.
      py_seq (Directory_create_many E entries u ''transfer'') (py_ret (0 :: int))) :: ('s world_scheme, int) py)
     (\<lambda>c t. c = 0 \<and> (\<exists>new. dirs_are (D @ new) T n t \<and> list_all2 (registered_dir u) paths new \<and>
        (distinct (map dir_uuid D) \<longrightarrow> distinct (map dir_uuid (D @ new)))))"
  by (rule ensures_bind [OF get_dir_uuids_ensures], rule ensures_pure, rule ensures_seq [OF create_many_ensures], assumption, rule ensures_ret) simp

lemma assign_dirs_included:
  assumes "dd_include_dirs a"
  shows "assign_dirs_main E a s = exit_on_known_exception (py_bind (get_subdir_paths (dd_transfer_path a)) (\<lambda>paths.
      py_bind (get_transfer_mdl (dd_transfer_uuid a)) (\<lambda>mdl. py_bind (get_dir_uuids E paths (\<lambda>xs. job_pyprint Stdout xs)) (\<lambda>entries.
      py_seq (Directory_create_many E entries (tr_uuid mdl) ''transfer'') (py_ret 0))))) s"
  using assms by (simp add: assign_dirs_main_def exit_if_not_include_dirs_def exit_on_known_exception_def py_when_def py_try_def py_seq_apply py_ret_apply)

section \<open>Example state\<close>

definition restructure_ex :: fnode where
  "restructure_ex = FDir [(''t'', FDir [(''README.html'', FFile []), (''x'', FDir [(''y'', FFile [])]), (''processingMCP.xml'', FFile [])])]"

definition aip_ex :: fnode where
  "aip_ex = FDir [(''t'', FDir [(''bagit.txt'', FFile []), (''data'', FDir [(''METS.u.xml'', FFile ''m''), (''objects'', FDir [(''a'', FFile [])])])])]"

definition rs_world_ex :: "fnode \<Rightarrow> world" where
  "rs_world_ex n = world_ex\<lparr>fs := n, cur_job := Job_init ''job'' ''task'' [''/t'', ''t''] False\<rparr>"

definition rs_env_ex :: "(fnode \<Rightarrow> string \<Rightarrow> bool \<Rightarrow> string option) \<Rightarrow> rs_env" where
  "rs_env_ex validate = env.extend env_ex (rs_env.fields (\<lambda>_ _. None) validate (\<lambda>_. ''error'') (\<lambda>_. Inr None))"

section \<open>Properties\<close>

text \<open>The operations on the file system keep the tree well formed: every directory has entries with different names
  that can be names. For a move this needs that the last component of the source is a name.\<close>

theorem operations_keep_tree_ok:
  assumes "tree_ok n"
  shows "(os_makedirs p n = Inr n' \<longrightarrow> tree_ok n') \<and> (os_remove p n = Inr n' \<longrightarrow> tree_ok n') \<and> (shutil_rmtree p n = Inr n' \<longrightarrow> tree_ok n') \<and>
     (write_file p c n = Inr n' \<longrightarrow> tree_ok n') \<and>
     (plain_name (basename (str_rstrip slash src)) \<longrightarrow> shutil_move src dst n = Inr n' \<longrightarrow> tree_ok n')"
proof (intro conjI impI)
  note put = tree_ok_put [OF _ assms plain_path_comps]
  show "tree_ok n'" if "os_makedirs p n = Inr n'"
    using that tree_ok_mk_dirs [OF _ assms plain_path_comps] by (auto simp: os_makedirs_def split: if_splits option.splits)
  show "tree_ok n'" if "os_remove p n = Inr n'"
    using that put [of p None] by (auto simp: os_remove_def split: option.splits fnode.splits)
  show "tree_ok n'" if "shutil_rmtree p n = Inr n'"
    using that put [of p None] by (auto simp: shutil_rmtree_def split: option.splits fnode.splits)
  show "tree_ok n'" if "write_file p c n = Inr n'"
    using that put [of p "Some (FFile c)"] by (auto simp: write_file_def split: if_splits option.splits)
  show "tree_ok n'" if "plain_name (basename (str_rstrip slash src))" "shutil_move src dst n = Inr n'"
    using tree_ok_move [OF that(2) assms that(1)] .
qed

theorem operations_keep_tree_ok_witness:
  "\<exists>n'. shutil_move ''/t/x'' ''/t/z'' restructure_ex = Inr n' \<and> tree_ok n' \<and> os_isdir n' ''/t/z''"
proof -
  have ok: "tree_ok restructure_ex" and b: "plain_name (basename (str_rstrip slash ''/t/x''))" by code_simp+
  have "case shutil_move ''/t/x'' ''/t/z'' restructure_ex of Inr n' \<Rightarrow> os_isdir n' ''/t/z'' | Inl _ \<Rightarrow> False" by code_simp
  then obtain n' where "shutil_move ''/t/x'' ''/t/z'' restructure_ex = Inr n'" "os_isdir n' ''/t/z''" by (auto split: sum.splits)
  with operations_keep_tree_ok [OF ok] b show ?thesis by blast
qed

text \<open>C36. Restructuring and the layout check agree but for one file: after a transfer was restructured, the check finds no
  missing directory and nothing else at the top level, except a file \<open>README.html\<close> if there was one, which restructuring
  leaves in place and the check counts as a fault. The only other fault is a transfer without any file.\<close>

theorem restructured_transfer_complies:
  fixes s :: "'s world_scheme"
  assumes "tree_ok (fs s)" and "d \<noteq> []" and "restructure_transfer d s = (Inr (), t)"
  shows "\<exists>es j. fs_node (fs t) d = Some (FDir es) \<and>
     verify_transfer_compliance d t = (Inr ((if \<exists>c. fs_at (fs s) (path_comps d @ [''README.html'']) = Some (FFile c) then 1 else 0) +
       (if count_files (FDir es) = 0 then 1 else 0)), t\<lparr>cur_job := j\<rparr>)"
proof -
  let ?U = "path_comps d"
  note top = restructured_top [OF assms(1,3)]
  have "os_isdir (fs t) (path_join d ''objects'')" using top by (simp add: REQUIRED_DIRECTORIES_def)
  then obtain es where es: "fs_at (fs t) ?U = Some (FDir es)"
    using dir_above [of "fs t" ?U "[''objects'']"] required_comps(1) [of d] by (auto simp: isdir_iff)
  have "(\<exists>c. fs_at (fs t) (?U @ [''README.html'']) = Some (FFile c)) = (\<exists>c. fs_at (fs s) (?U @ [''README.html'']) = Some (FFile c))"
    using top by (simp add: OPTIONAL_FILES_def)
  with restructured_faults [OF _ _ _ es] top have faults: "int (length (absent_directories (fs t) d)) = 0"
    "int (length (stray_entries es)) = (if \<exists>c. fs_at (fs s) (?U @ [''README.html'']) = Some (FFile c) then 1 else 0)" by auto
  have node: "fs_node (fs t) d = Some (FDir es)" using es assms(2) by (simp add: fs_node_def)
  have "tree_ok (FDir es)" using tree_ok_at [OF _ es] top by blast
  from transfer_compliance_run [OF node this, unfolded faults] node show ?thesis by (auto simp only: add_0)
qed

theorem restructured_transfer_complies_witness:
  "\<exists>t es j. restructure_transfer ''/t'' (rs_world_ex restructure_ex) = (Inr (), t) \<and> fs_node (fs t) ''/t'' = Some (FDir es) \<and>
     verify_transfer_compliance ''/t'' t = (Inr (1 + (if count_files (FDir es) = 0 then 1 else 0)), t\<lparr>cur_job := j\<rparr>)"
proof -
  have "fst (restructure_transfer ''/t'' (rs_world_ex restructure_ex)) = Inr ()" by code_simp
  then obtain t where t: "restructure_transfer ''/t'' (rs_world_ex restructure_ex) = (Inr (), t)" by (metis prod.collapse)
  have "tree_ok (fs (rs_world_ex restructure_ex))" "fs_at (fs (rs_world_ex restructure_ex)) (path_comps ''/t'' @ [''README.html'']) = Some (FFile [])"
    by code_simp+
  with restructured_transfer_complies [OF _ _ t] t show ?thesis by fastforce
qed

text \<open>C37. When a re-ingested AIP is restructured, the empty directories that its METS document records are never created
  again: the step that should do so is given the metadata directory in place of the document and returns at once, so the
  whole operation is the same whatever a document says.\<close>

theorem aip_document_never_read:
  fixes s :: "'s world_scheme"
  assumes "tree_ok (fs s)" and "fs s = FDir es"
  shows "restructure_transfer_aip f d s = restructure_transfer_aip g d s"
proof -
  let ?M = "path_comps d @ [''metadata'']"
  note src = aip_sources [of d ?M]
  have build: "ensures (holds_dir []) (create_structured_directory d False True (\<lambda>xs. job_pyprint Stdout xs) :: ('s world_scheme, unit) py) (\<lambda>_. holds_dir ?M)"
    using structured_extends [of _ d] required_comps(2) [of d]
    by (auto simp: ensures_def holds_dir_def extended_def isdir_iff REQUIRED_DIRECTORIES_def)
  have final: "agree (holds_dir ?M) (reconstruct_empty_directories f (path_join d ''metadata'') o1) (reconstruct_empty_directories g (path_join d ''metadata'') o1 :: ('s world_scheme, unit) py)" for o1
    using required_comps(2) [of d] by (auto simp: agree_def reconstruct_empty_directories_def py_bind_apply fs_get_apply holds_dir_def os_isfile_def fs_node_def)
  have "agree (holds_dir []) (restructure_transfer_aip f d) (restructure_transfer_aip g d :: ('s world_scheme, unit) py)"
    unfolding restructure_transfer_aip_def Let_def
  proof (rule agree_seq [OF keeps_dir_makedirs], rule agree_seq, rule keeps_dir_entries, simp, rule agree_after [OF build], rule agree_listed, rule agree_lift,
      rule agree_seq, rule keeps_dir_move, goal_cases)
    case (1 items mets)
    then show ?case using mets_plain src(6) by simp
  next
    case (2 items mets)
    then have "plain_name mets" using mets_plain by blast
    then show ?case by (simp add: path_joins_two last_name(1))
  next
    case (3 items mets)
    have "\<not> prefix (path_comps d @ [''old_bag'']) ?M" by simp
    note gone = src [OF this]
    have mcp: "plain_name (basename (str_rstrip slash (path_join (path_joins d [''old_bag'', []]) ''processingMCP.xml'')))"
      by (simp add: last_name(1) [OF aip_names(6)] aip_names)
    show ?case
      by (rule agree_seq [OF keeps_dir_move_and_remove [OF gone(1)]], rule agree_seq [OF keeps_dir_move_and_remove [OF gone(2)]],
          rule agree_seq [OF keeps_dir_entries], rule gone(3), rule agree_get,
          rule agree_seq [OF keeps_when [OF keeps_dir_move [OF gone(4) mcp]]],
          rule agree_seq [OF keeps_dir_rmtree [OF gone(5)]], rule final)
  qed
  then show ?thesis using assms by (auto simp: agree_def holds_dir_def)
qed

theorem aip_document_never_read_witness:
  "restructure_transfer_aip (\<lambda>_. Inr (Some (Div None None [Div (Some ''empty'') (Some ''Directory'') []]))) ''/t'' (rs_world_ex aip_ex) =
     restructure_transfer_aip (\<lambda>_. Inl (ValueError ''never'')) ''/t'' (rs_world_ex aip_ex) \<and>
   fst (restructure_transfer_aip (\<lambda>_. Inl (ValueError ''never'')) ''/t'' (rs_world_ex aip_ex)) = Inr ()"
proof -
  have "tree_ok (fs (rs_world_ex aip_ex))" by code_simp
  moreover have "\<exists>es. fs (rs_world_ex aip_ex) = FDir es" by (simp add: rs_world_ex_def aip_ex_def)
  moreover have "fst (restructure_transfer_aip (\<lambda>_. Inl (ValueError ''never'')) ''/t'' (rs_world_ex aip_ex)) = Inr ()" by code_simp
  ultimately show ?thesis using aip_document_never_read by blast
qed

text \<open>C38. The checksums of a re-ingested AIP are never verified when it is restructured: the job is the same for any two
  libraries that agree on the completeness of bags, whatever they find when they verify the content of the files.\<close>

theorem aip_checksums_not_verified:
  assumes "\<forall>n p. v n p True = w n p True"
  shows "restructure_job (E\<lparr>bag_validate := v\<rparr>) = (restructure_job (E\<lparr>bag_validate := w\<rparr>) :: ('b world_scheme, unit) py)"
proof -
  have E: "bag_validate (E\<lparr>bag_validate := u\<rparr>) = u" "bag_open (E\<lparr>bag_validate := u\<rparr>) = bag_open E" "rs_repr (E\<lparr>bag_validate := u\<rparr>) = rs_repr E"
    "rs_root_div (E\<lparr>bag_validate := u\<rparr>) = rs_root_div E" "env_traceback (E\<lparr>bag_validate := u\<rparr>) = env_traceback E" for u
    by (cases E; simp)+
  have "restructure_unit (E\<lparr>bag_validate := v\<rparr>) p = (restructure_unit (E\<lparr>bag_validate := w\<rparr>) p :: string \<Rightarrow> ('b world_scheme, unit) py)" for p
    by (rule ext) (simp only: restructure_unit_def is_valid_def E assms [rule_format])
  then show ?thesis unfolding restructure_job_def E by simp
qed

theorem aip_checksums_not_verified_witness:
  "j_int_code (cur_job (snd (restructure_job (rs_env_ex (\<lambda>n p completeness_only. if completeness_only then None else Some ''checksum mismatch''))
     ((rs_world_ex aip_ex)\<lparr>Transfers := [transfer_ex\<lparr>tr_type := ARCHIVEMATICA_AIP\<rparr>]\<rparr>)))) = 0"
proof -
  let ?s = "(rs_world_ex aip_ex)\<lparr>Transfers := [transfer_ex\<lparr>tr_type := ARCHIVEMATICA_AIP\<rparr>]\<rparr>"
  let ?v = "\<lambda>(n :: fnode) (p :: string) completeness_only. if completeness_only then None else Some ''checksum mismatch''"
  have upd: "rs_env_ex v = (rs_env_ex u)\<lparr>bag_validate := v\<rparr>" for u v
    by (simp add: rs_env_ex_def env.defs rs_env.defs)
  have "restructure_job (rs_env_ex ?v) = (restructure_job (rs_env_ex (\<lambda>_ _ _. None)) :: (world, unit) py)"
    using aip_checksums_not_verified [of ?v "\<lambda>_ _ _. None" "rs_env_ex ?v"] upd by simp
  moreover have "j_int_code (cur_job (snd (restructure_job (rs_env_ex (\<lambda>_ _ _. None)) ?s))) = 0" by code_simp
  ultimately show ?thesis by simp
qed

text \<open>C39. When the directories of a transfer are given UUIDs, one row is added for every directory in the tree below the
  transfer but its \<open>objects\<close> directory (what is below \<open>objects\<close>, and a directory of that name elsewhere, is registered), in
  preorder, with its location in the transfer as current and original location and a UUID of its own, and the transfer is
  marked. A code of 1 means that neither table was changed. The path of the transfer is given with its final slash, and the
  tree is well formed.\<close>

theorem directories_registered:
  fixes s :: "'s world_scheme"
  assumes inc: "dd_include_dirs a" and root: "endswith (dd_transfer_path a) ''/''" and ok: "tree_ok (fs s)"
    and run: "assign_dirs_main E a s = (Inr code, t)"
  shows "code = 0 \<and> (\<exists>new mdl es. fs_node (fs s) (dd_transfer_path a) = Some (FDir es) \<and> Directories t = Directories s @ new \<and>
       list_all2 (registered_dir (dd_transfer_uuid a))
         (map dir_location (filter (\<lambda>cs. cs \<notin> {[], [''objects'']}) (tree_dirs (FDir es)))) new \<and>
       (distinct (map dir_uuid (Directories s)) \<longrightarrow> distinct (map dir_uuid (Directories t))) \<and>
       tr_uuid mdl = dd_transfer_uuid a \<and> tr_diruuids mdl \<and> Transfers t = row_save tr_uuid mdl (Transfers s)) \<or>
     code = 1 \<and> Directories t = Directories s \<and> Transfers t = Transfers s"
proof -
  let ?u = "dd_transfer_uuid a" and ?paths = "subdir_paths (fs s) (dd_transfer_path a)"
  let ?rest = "\<lambda>mdl. py_bind (get_dir_uuids E ?paths (\<lambda>xs. job_pyprint Stdout xs)) (\<lambda>entries.
      py_seq (Directory_create_many E entries (tr_uuid mdl) ''transfer'') (py_ret 0)) :: ('s world_scheme, int) py"
  note main = assign_dirs_included [OF inc, of E s]
  show ?thesis
  proof (cases "os_isdir (fs s) (dd_transfer_path a)")
    case False
    then show ?thesis using run unfolding main
      by (auto simp: exit_on_known_exception_def get_subdir_paths_def py_try_apply py_bind_apply fs_get_apply seq_log py_raise_apply py_ret_apply
          simp del: append.simps)
  next
    case isdir: True
    then obtain es where es: "fs_node (fs s) (dd_transfer_path a) = Some (FDir es)"
      by (auto simp: os_isdir_def split: option.splits fnode.splits)
    then have "tree_ok (FDir es)" by (intro tree_ok_at [OF ok]) (simp add: fs_node_def split: if_splits)
    with es root have paths: "?paths = map dir_location (filter (\<lambda>cs. cs \<notin> {[], [''objects'']}) (tree_dirs (FDir es)))"
      by (intro subdir_paths_eq) simp_all
    show ?thesis
    proof (cases "get_one ''Transfer'' (filter (\<lambda>r. tr_uuid r = ?u) (Transfers s))")
      case (Inl e)
      then show ?thesis using run isdir unfolding main
        by (auto simp: exit_on_known_exception_def get_subdir_paths_def get_transfer_mdl_def get_transfer_def py_try_apply py_bind_apply py_get_apply
            py_lift_apply fs_get_apply seq_log py_raise_apply py_ret_apply missing_variable_def get_one_def simp del: append.simps split: list.splits if_splits)
    next
      case (Inr r)
      then have r: "tr_uuid r = ?u" by (auto simp: get_one_def filter_eq_Cons_iff split: list.splits)
      let ?mdl = "r\<lparr>tr_diruuids := True\<rparr>" and ?T = "row_save tr_uuid (r\<lparr>tr_diruuids := True\<rparr>) (Transfers s)"
      have step: "assign_dirs_main E a s = exit_on_known_exception (?rest ?mdl) (s\<lparr>Transfers := ?T\<rparr>)"
        using isdir Inr unfolding main by (simp add: exit_on_known_exception_def get_subdir_paths_def get_transfer_mdl_def get_transfer_def py_try_apply
            py_bind_apply py_get_apply py_lift_apply fs_get_apply py_ret_apply py_mod_apply py_seq_apply Let_def)
      have ran: "?rest ?mdl (s\<lparr>Transfers := ?T\<rparr>) = (Inr code, t)"
      proof (rule exit_on_known_returns)
        show "exit_on_known_exception (?rest ?mdl) (s\<lparr>Transfers := ?T\<rparr>) = (Inr code, t)" using run unfolding step .
      qed (rule register_raises)
      from ensuresD [OF register_ensures _ ran, of "Directories s" ?T "fs s"] r obtain new where "code = 0" "dirs_are (Directories s @ new) ?T (fs s) t" "list_all2 (registered_dir ?u) ?paths new"
        "distinct (map dir_uuid (Directories s)) \<longrightarrow> distinct (map dir_uuid (Directories s @ new))"
        by (auto simp: dirs_are_def)
      then show ?thesis using r es unfolding paths [symmetric]
        by (intro disjI1 conjI exI [of _ new] exI [of _ ?mdl] exI [of _ es]) (simp_all add: dirs_are_def paths)
    qed
  qed
qed

definition dirs_ex :: fnode where
  "dirs_ex = FDir [(''t'', FDir [(''objects'', FDir [(''a'', FDir []), (''f'', FFile [])]), (''logs'', FDir [])])]"

theorem directories_registered_witness:
  "\<exists>t new. assign_dirs_main env_ex \<lparr>dd_transfer_path = ''/t/'', dd_transfer_uuid = ''t'', dd_include_dirs = True\<rparr> (rs_world_ex dirs_ex) = (Inr 0, t) \<and>
     Directories t = new \<and> list_all2 (registered_dir ''t'') [''%transferDirectory%objects/a/'', ''%transferDirectory%logs/''] new"
proof -
  let ?a = "\<lparr>dd_transfer_path = ''/t/'', dd_transfer_uuid = ''t'', dd_include_dirs = True\<rparr>" and ?s = "rs_world_ex dirs_ex"
  define s0 where "s0 = ?s"
  have paths: "get_subdir_paths ''/t/'' s0 = (Inr [''%transferDirectory%objects/a/'', ''%transferDirectory%logs/''], s0)"
    unfolding s0_def by code_simp
  have s0: "Transfers s0 = [transfer_ex]" "Directories s0 = []" "log_buffer s0 = None" "tr_uuid transfer_ex = ''t''"
    unfolding s0_def by code_simp+
  have quiet: "log_upd l m t = t" if "log_buffer t = None" for l m and t :: world
    using that by (simp add: log_upd_def log_msg_def py_mod_apply)
  have fresh: "str_nat m = str_nat n \<longleftrightarrow> m = n" for m n using str_nat_inj by blast
  have "fst (assign_dirs_main env_ex ?a s0) = Inr 0"
    by (simp add: assign_dirs_main_def exit_on_known_exception_def exit_if_not_include_dirs_def py_simps paths s0 quiet get_transfer_mdl_def
        get_transfer_def get_one_def get_dir_uuids_def Directory_create_many_def row_insert_def dir_fks_ok_def env_ex_def Let_def
        row_save_def row_update_def fresh)
  then have "fst (assign_dirs_main env_ex ?a ?s) = Inr 0" unfolding s0_def .
  then obtain t where t: "assign_dirs_main env_ex ?a ?s = (Inr 0, t)" by (metis prod.collapse)
  have pre: "dd_include_dirs ?a" "endswith (dd_transfer_path ?a) ''/''" "tree_ok (fs ?s)" by code_simp+
  have none: "Directories ?s = []" by code_simp
  have "case fs_node (fs ?s) ''/t/'' of Some m \<Rightarrow> map dir_location (filter (\<lambda>cs. cs \<notin> {[], [''objects'']}) (tree_dirs m)) =
     [''%transferDirectory%objects/a/'', ''%transferDirectory%logs/''] | None \<Rightarrow> False" by code_simp
  with directories_registered [OF pre t] t show ?thesis unfolding none by auto
qed

end
