(* ===== verification/Spec2Isabelle.thy ===== *)
theory Spec2Isabelle
  imports Pool ChangeNames VerifyChecksum Clamscan PolicyCheck Characterize Normalize Transcribe AssignUUIDs UnitScripts LoadPremis RightsCsv Restructure
begin

text \<open>
  \<^bold>\<open>The worker of the CCP preservation system\<close> (\<open>src/worker/worker\<close>).

  A server queues the tasks of a workflow over Gearman. The worker takes a request, which is a batch
  of tasks for one client script, runs the script on a list of job objects, stores exit codes and
  output in the task table and answers with one result per task. A pool of processes runs one Gearman
  worker each. The client scripts work on the files of a transfer or SIP on disk and on the tables
  that describe them.

  \<^bold>\<open>Theories.\<close> In the order of their imports:

    \<^item> \<open>Prelude\<close>: Python computations as functions from a state to a result (a value or an
      exception) and a new state, with \<open>try\<close>, \<open>finally\<close>, loops, and the rules for preservation
      (\<open>keeps\<close>) and results (\<open>ensures\<close>). \<open>PyStr\<close>, \<open>PyDict\<close>, \<open>OsPath\<close>: what the code uses of
      strings, dictionaries and \<open>os.path\<close>.
    \<^item> \<open>Jobs\<close>, \<open>CommandLine\<close>, \<open>Worker\<close>, \<open>Pool\<close>: the package \<open>client\<close>. \<open>Jobs\<close> is \<open>job.py\<close>
      (\<open>Job\<close> as the record \<open>job\<close>, \<open>JobContext\<close> and \<open>JobLogHandler\<close>), \<open>CommandLine\<close> is
      \<open>utils.py\<close> with \<open>shlex.split\<close>, \<open>Worker\<close> is \<open>gearman.py\<close>, \<open>worker.py\<close>, \<open>loader.py\<close> and
      the job counters of \<open>metrics.py\<close>, \<open>Pool\<close> is \<open>pool.py\<close>.
    \<^item> \<open>Filesystem\<close>: a tree of directories and files and the operations of \<open>os\<close> and \<open>shutil\<close> on
      it. \<open>Models\<close>, \<open>ModelMethods\<close>: the rows of \<open>main/models.py\<close> as records, the tables as lists of
      rows in the record \<open>world\<close>, and the methods of the models and managers. \<open>Database\<close> is
      \<open>utils/databaseFunctions.py\<close>, \<open>AMFunctions\<close> is \<open>utils/archivematicaFunctions.py\<close>, \<open>FileOps\<close>
      is \<open>utils/fileOperations.py\<close>, \<open>Replacement\<close> is \<open>utils/dicts.py\<close>, \<open>SubProcess\<close> is
      \<open>utils/executeOrRunSubProcess.py\<close>, \<open>FPR\<close> is the part of \<open>fpr/models.py\<close> the scripts use.
    \<^item> \<open>Scripts\<close>, \<open>BulkEvents\<close>: what client scripts share, that is, the loop over the jobs of a
      batch, transactions, and the bulk creation of events. \<open>ChangeNames\<close> is \<open>change_names.py\<close> and
      \<open>change_object_names.py\<close>, \<open>VerifyChecksum\<close>, \<open>Clamscan\<close> and \<open>Validate\<close> are
      \<open>verify_checksum.py\<close>, \<open>archivematica_clamscan.py\<close> and \<open>validate_file.py\<close>.
    \<^item> \<open>Commands\<close>: what the scripts that run format policy commands share, that is, the choice of the
      rules for a file and the effect of each database function on the tables as one statement.
      \<open>Characterize\<close> is \<open>characterize_file.py\<close>, \<open>Identify\<close> is \<open>identify_file_format.py\<close> with the
      identification part of the registry, \<open>Transcoder\<close> is \<open>transcoder.py\<close>, \<open>Normalize\<close> is
      \<open>normalize.py\<close>, \<open>PolicyCheck\<close> is \<open>policy_check.py\<close>, \<open>Transcribe\<close> is \<open>transcribe_file.py\<close>.
    \<^item> \<open>AssignUUIDs\<close> is \<open>assign_file_uuids.py\<close>. \<open>UnitScripts\<close> has the short scripts that work on a whole
      unit: \<open>move_sip.py\<close>, \<open>move_transfer.py\<close>, \<open>verify_sip_compliance.py\<close>,
      \<open>verify_transfer_compliance.py\<close>, \<open>remove_hidden_files_and_directories.py\<close>,
      \<open>remove_unneeded_files.py\<close>, \<open>remove_files_without_premis_metadata.py\<close>,
      \<open>retry_normalize_remove_normalized.py\<close>, \<open>check_for_service_directory.py\<close>, \<open>has_packages.py\<close>.
    \<^item> \<open>LoadPremis\<close> is \<open>load_premis_events_from_xml.py\<close>, \<open>RightsCsv\<close> is \<open>rights_from_csv.py\<close> with the tables of rights,
      \<open>MoveMerge\<close> is \<open>move_or_merge.py\<close>, and \<open>Restructure\<close> is \<open>restructure_for_compliance.py\<close> with \<open>utils/bag.py\<close>, and
      \<open>assign_uuids_to_directories.py\<close>.

  \<^bold>\<open>Correspondence.\<close> Functions keep their Python names; a method is a function of the object's record,
  and a method name used twice is prefixed by its class (\<open>ClamdScanner_scan\<close>). Every state-changing
  function is a computation of type \<open>('s, 'a) py\<close> over a record that its theory extends by what it
  needs (\<open>jstate\<close>: the job at hand and the log buffer; \<open>world\<close>: tables, file system, clock and
  counters; \<open>fpr_world\<close>: these and the registry; \<open>clam_world\<close>, \<open>hs_world\<close>, \<open>nc_world\<close>, \<open>val_world\<close>,
  \<open>id_world\<close>, \<open>nz_world\<close>, \<open>pc_world\<close>, \<open>rights_world\<close>: the state of one script). Exceptions are values of the datatype \<open>py_exn\<close>.

  \<^bold>\<open>Conventions.\<close> Text and bytes are lists of characters and encoding is the identity, except where a
  type error depends on the difference (\<open>py_text\<close> in \<open>Clamscan\<close>). A table is the list of its rows in
  insertion order; creating a row checks unique and foreign keys, saving replaces the row with the
  same key. UUIDs are their canonical strings. A Python set is a list without repetitions. One counter provides all automatic keys. The clock and
  the generator of UUIDs are functions of a counter in the environment record \<open>env\<close>; nothing is
  assumed of them but what a theorem states (that the next UUID is not in use). \<open>os.scandir\<close> and
  \<open>os.walk\<close> see the tree as it was when they were called. \<open>transaction.atomic\<close> restores the tables
  when its body raises. Saving a fetched row never fails, and a move on disk happens completely or not at
  all. The file system has no symbolic links and no limit on the length of a name. Changing the case of
  a text is that of ASCII. Of the library bagit only \<open>BagError\<close> is an outcome, and \<open>json.loads\<close> yields
  an object of texts. The step relation of the pool has no step for stopping it. Text printed to the process's own standard output, and some log messages
  without effect on the job, are left out.

  \<^bold>\<open>Code outside the repository\<close> is a parameter: the Gearman library, the module a batch is sent to,
  \<open>unidecode\<close>, \<open>ast.literal_eval\<close>, \<open>json.loads\<close>, the CSV reader, argument parsers, hash functions, the processes that are started, clamd and
  clamscan, the collation of the database, well-formedness of XML, METS documents and PREMIS elements as metsrw shows them,
  schemas and parsers of lxml, the date parsers of Django, the validation of bags, and the text \<open>repr\<close> shows for an exception.

  \<^bold>\<open>Loops and fuel.\<close> Python's recursion limit is a parameter of the recursive walks over the tree in
  \<open>ChangeNames\<close> and \<open>UnitScripts\<close> and of the nested commands in \<open>Transcoder\<close>, as the interpreter raises
  \<open>RecursionError\<close> when it is reached; removing hidden files is shown to return when the tree is no deeper. The search for a free
  name tries a few more candidates than the directory has entries (three more); the termination property
  shows that one of them is free, so the bound is never hit. All other loops are over lists.

  \<^bold>\<open>What is shown.\<close>

    \<^item> Jobs and worker: a failing job is confined to its own record (\<open>JobContext_confines\<close>) and a
      failing script marks its batch and nothing else; every request is answered with one result per
      task; arguments survive quoting and splitting; logging loses messages below the capacity of the
      buffer (\<open>JobContext_drops_unflushed_logs\<close>).
    \<^item> Pool: the step relation of the maintenance thread and the exits of processes keeps every slot on
      its own scripts; a maintenance pass replaces exactly the exited processes; the number of processes
      that serve a script is the smaller of the pool size and its concurrency.
    \<^item> Database: what each function inserts, including the dates that the columns override; unit variables
      refine a map and settings round trip. That keys stay unique and foreign keys valid (\<open>db_inv\<close>) is the
      database's own doing here, as in Django; the lemmas on it serve the other proofs.
    \<^item> Files: moves rewrite exactly the rows below the moved directory; every file on disk gets one row and
      one ingestion event when UUIDs are assigned; the computed size of a directory is that of its tree;
      removing hidden files is pruning the tree; the code of the layout check counts the faults. Merging directories
      loses no file on any path; a restructured transfer passes the layout check but for one file; for re-ingested AIPs neither the METS document is read nor are checksums verified; every
      directory of the tree but \<open>objects\<close> is registered once.
    \<^item> Metadata: a PREMIS document is imported exactly when it is consistent, exactly what the import records, and that a failed
      job changes no table; a rights CSV gives one statement per combination, and an open end of a copyright is never recorded.
    \<^item> Scripts: renaming terminates with free, allowed names; the verdict of a virus scan; the return code
      and events of a checksum verification, and that every job of its batch is run; a file is valid, a policy check passes and a transcription
      succeeds only if every rule says so, with the events that record it; identification updates the map
      from files to formats; characterisation stores exactly the well-formed outputs.
    \<^item> Normalization: exactly what one preservation copy leaves in the tables, that a second output always
      fails, which manually normalized file is found; exactly what undoing it marks and deletes. A callback
      of a command runs exactly after success.

  The interfaces are locales: \<open>keyed_table\<close> (the contract of a table, interpreted for every table),
  \<open>job_body\<close> (what the loop over a batch needs of a script, interpreted for checksum verification),
  \<open>rule_loop\<close> (what the loop over the rules of a file needs of one rule; its laws are proved for policy checks, and it is interpreted for
  transcription), \<open>virus_scanner\<close> (what \<open>scan_file\<close> needs of a scanner, interpreted for both backends),
  \<open>dictionary\<close> (Python's \<open>dict\<close>) and \<open>tree_store\<close> (lookup after a change of the file system).

  \<^bold>\<open>Not modelled.\<close> The server and the web interface (Go and TypeScript), database migrations, the
  writers and readers of METS and PREMIS documents, the remaining client scripts, persistent
  identifiers over HTTP, metrics other than the job counters, and the logging of the process itself.
  Django marks a transaction as broken after a database error inside it; this flag is not modelled.
\<close>

end
